(* ===== verification/Cell_Prelude.thy ===== *)
theory Cell_Prelude
  imports Main "HOL-Library.AList" "HOL-Library.List_Lexorder" "HOL-Library.Char_ord"
begin

text \<open>
  Shared vocabulary of the development.

  \<^item> Exceptions: one datatype with a constructor per exception class that the modelled code
    raises. A fallible function returns a value of a sum type, with the left injection for a
    raised exception.
  \<^item> Two small combinator families: \<open>bindE\<close>, \<open>guardE\<close>, \<open>mapE\<close> for pure fallible code and
    \<open>bindS\<close>, \<open>raiseS\<close>, \<open>liftE\<close>, \<open>catchS\<close> for code that also changes a store. The store kept
    by a raising computation is the store at the point of the raise, as in Python.
  \<^item> Python strings as lists of 8-bit code points, with \<open>str.strip\<close> and \<open>str.lower\<close>.
  \<^item> Python dictionaries as association lists in insertion order (\<open>AList.update\<close> keeps the
    position of an existing key and appends a new one, as a dict does).
  \<^item> Proof support: the collection \<open>keeps_intros\<close> of rules that push an invariant through
    the store combinators.
\<close>

section \<open>Exceptions\<close>

datatype exc =
    ValueError string
  | TypeError string
  | OverflowError string
  | InvalidOperation string
    \<comment> \<open>a comparison of Decimals with NaN\<close>
  | EnumValueError string string
    \<comment> \<open>the ValueError raised by an enum constructor: enum class and rejected value\<close>
  | InvalidControlPlaneStateMachineError string
  | InvalidGoalTransitionError string
  | InvalidWorkItemTransitionError string
  | InvalidAgentRunTransitionError string
  | InvalidDecisionTransitionError string
  | InvalidApprovalTransitionError string
  | InvalidAgentRoleStatusError string
  | InvalidAgentRoleTransitionError string
  | InvalidEvolutionRolloutTransitionError string
  | InvalidBudgetPolicyError string
  | InvalidBudgetPolicyStatusError string
  | InvalidBudgetPolicyTransitionError string
  | BudgetPolicyConflictError string
  | ActiveBudgetPolicyConflictError string
  | BudgetPolicyNotFoundError string
  | BudgetExceededError string
  | InvalidBudgetUsageError string
  | InvalidControlPlaneMetadataError string
  | InvalidAuditEventError string
  | InvalidArtifactError string
  | InvalidCompanyContextError string
  | InvalidAgentPromptConfigError string
  | GoalNotFoundError string
  | ParentGoalNotFoundError string
  | WorkItemNotFoundError string
  | WorkItemGoalNotFoundError string
  | WorkItemDependencyNotFoundError string
  | WorkItemAssigneeRequiredError string
  | WorkItemCloseStatusError string
  | WorkItemExecutionAgentRequiredError string
  | AgentDefinitionNotFoundError string
  | AgentOperationCompanyNotFoundError string
  | EvolutionProposalNotFoundError string
  | EvolutionProposalApprovalNotFoundError string
  | EvolutionProposalApprovalRequiredError string
  | EvolutionEvaluationProposalNotFoundError string
  | EvolutionEvaluationCompatibilityError string
  | KnowledgeError string
  | KnowledgeNotFoundError string
  | KnowledgeConflictError string
  | KnowledgeSourceArtifactError string
  | KnowledgeOwnerRequiredError string
  | KnowledgeRoleNotFoundError string
  | KnowledgeProvenanceImmutableError string
  | KnowledgeReadForbiddenError string
  | InvalidEvolutionExperimentError string
  | SkillReleaseError string
  | ReleaseCommandConflict string
  | ReleaseOwnershipError string
  | ExecutionLinkMismatchError string
  | ApprovalRequiredError string
  | ExecutionDenied string int
  | AgentWakeupError string int string
    \<comment> \<open>detail, status code and error category\<close>
  | ExternalError string string
    \<comment> \<open>an exception of a library below the sources: class name and text\<close>
  | IntegrityError string
    \<comment> \<open>a database constraint rejected a flush\<close>

section \<open>Pure fallible computations\<close>

definition bindE :: "'e + 'a \<Rightarrow> ('a \<Rightarrow> 'e + 'b) \<Rightarrow> 'e + 'b" where
  "bindE m f = (case m of Inl e \<Rightarrow> Inl e | Inr a \<Rightarrow> f a)"

definition guardE :: "bool \<Rightarrow> 'e \<Rightarrow> 'e + unit" where
  "guardE b e = (if b then Inr () else Inl e)"

fun mapE :: "('a \<Rightarrow> 'e + 'b) \<Rightarrow> 'a list \<Rightarrow> 'e + 'b list" where
  "mapE f [] = Inr []"
| "mapE f (x # xs) = bindE (f x) (\<lambda>y. bindE (mapE f xs) (\<lambda>ys. Inr (y # ys)))"

definition mapErr :: "('e \<Rightarrow> 'f) \<Rightarrow> 'e + 'a \<Rightarrow> 'f + 'a" where
  "mapErr h m = (case m of Inl e \<Rightarrow> Inl (h e) | Inr a \<Rightarrow> Inr a)"

section \<open>Fallible computations over a store\<close>

type_synonym ('s, 'a) op = "'s \<Rightarrow> (exc + 'a) \<times> 's"

definition retS :: "'a \<Rightarrow> ('s, 'a) op" where
  "retS a = (\<lambda>s. (Inr a, s))"

definition raiseS :: "exc \<Rightarrow> ('s, 'a) op" where
  "raiseS e = (\<lambda>s. (Inl e, s))"

definition liftE :: "exc + 'a \<Rightarrow> ('s, 'a) op" where
  "liftE r = (\<lambda>s. (r, s))"

definition getS :: "('s \<Rightarrow> 'a) \<Rightarrow> ('s, 'a) op" where
  "getS f = (\<lambda>s. (Inr (f s), s))"

definition modifyS :: "('s \<Rightarrow> 's) \<Rightarrow> ('s, unit) op" where
  "modifyS f = (\<lambda>s. (Inr (), f s))"

definition bindS :: "('s, 'a) op \<Rightarrow> ('a \<Rightarrow> ('s, 'b) op) \<Rightarrow> ('s, 'b) op" where
  "bindS m f = (\<lambda>s. case m s of (Inl e, s') \<Rightarrow> (Inl e, s') | (Inr a, s') \<Rightarrow> f a s')"

definition guardS :: "bool \<Rightarrow> exc \<Rightarrow> ('s, unit) op" where
  "guardS b e = (if b then retS () else raiseS e)"

definition whenS :: "bool \<Rightarrow> ('s, unit) op \<Rightarrow> ('s, unit) op" where
  "whenS b m = (if b then m else retS ())"

definition catchS :: "('s, 'a) op \<Rightarrow> (exc \<Rightarrow> ('s, 'a) op) \<Rightarrow> ('s, 'a) op" where
  "catchS m h = (\<lambda>s. case m s of (Inl e, s') \<Rightarrow> h e s' | (Inr a, s') \<Rightarrow> (Inr a, s'))"

fun forS :: "'a list \<Rightarrow> ('a \<Rightarrow> ('s, 'b) op) \<Rightarrow> ('s, 'b list) op" where
  "forS [] f = retS []"
| "forS (x # xs) f = bindS (f x) (\<lambda>y. bindS (forS xs f) (\<lambda>ys. retS (y # ys)))"

text \<open>An operation keeps a store predicate when every run, raising or not, keeps it.\<close>

definition keeps :: "('s \<Rightarrow> bool) \<Rightarrow> ('s, 'a) op \<Rightarrow> bool" where
  "keeps P m \<longleftrightarrow> (\<forall>s. P s \<longrightarrow> P (snd (m s)))"

text \<open>
  A triple: from a store with \<open>P\<close>, a returning run ends with \<open>Q\<close> of its value and a raising run
  ends with \<open>R\<close>.
\<close>

definition triple ::
  "('s \<Rightarrow> bool) \<Rightarrow> ('s, 'a) op \<Rightarrow> ('a \<Rightarrow> 's \<Rightarrow> bool) \<Rightarrow> ('s \<Rightarrow> bool) \<Rightarrow> bool" where
  "triple P m Q R \<longleftrightarrow>
     (\<forall>s. P s \<longrightarrow> (case m s of (Inr a, s') \<Rightarrow> Q a s' | (Inl e, s') \<Rightarrow> R s'))"

section \<open>Python strings\<close>

definition py_isspace :: "char \<Rightarrow> bool" where
  "py_isspace c \<longleftrightarrow> c \<in> set [CHR 0x20, CHR 0x09, CHR 0x0A, CHR 0x0B, CHR 0x0C, CHR 0x0D,
     CHR 0x1C, CHR 0x1D, CHR 0x1E, CHR 0x1F, CHR 0x85, CHR 0xA0]"

definition py_strip :: "string \<Rightarrow> string" where
  "py_strip s = rev (dropWhile py_isspace (rev (dropWhile py_isspace s)))"

definition py_lower_char :: "char \<Rightarrow> char" where
  "py_lower_char c =
     (let n = (of_char c :: nat) in
      if (65 \<le> n \<and> n \<le> 90) \<or> (192 \<le> n \<and> n \<le> 222 \<and> n \<noteq> 215) then char_of (n + 32) else c)"

definition py_lower :: "string \<Rightarrow> string" where
  "py_lower s = map py_lower_char s"

definition py_join :: "string \<Rightarrow> string list \<Rightarrow> string" where
  "py_join sep xs = concat (case xs of [] \<Rightarrow> [] | y # ys \<Rightarrow> y # map (\<lambda>z. sep @ z) ys)"

fun py_startswith :: "string \<Rightarrow> string \<Rightarrow> bool" where
  "py_startswith s [] = True"
| "py_startswith [] (p # ps) = False"
| "py_startswith (c # cs) (p # ps) = (c = p \<and> py_startswith cs ps)"

text \<open>\<open>str.split\<close> with a one-character separator, \<open>str.rstrip\<close> of one character, and the last line of a text.\<close>

fun py_split :: "char \<Rightarrow> string \<Rightarrow> string list" where
  "py_split sep [] = [[]]"
| "py_split sep (c # cs) =
     (if c = sep then [] # py_split sep cs
      else case py_split sep cs of [] \<Rightarrow> [[c]] | p # ps \<Rightarrow> (c # p) # ps)"

definition py_rstrip_char :: "char \<Rightarrow> string \<Rightarrow> string" where
  "py_rstrip_char ch s = rev (dropWhile (\<lambda>c. c = ch) (rev s))"

definition py_linebreak :: "char \<Rightarrow> bool" where
  "py_linebreak c \<longleftrightarrow> c \<in> set [CHR 0x0A, CHR 0x0B, CHR 0x0C, CHR 0x0D, CHR 0x1C, CHR 0x1D, CHR 0x1E, CHR 0x85]"

definition last_line :: "string \<Rightarrow> string" where
  "last_line s = rev (takeWhile (\<lambda>c. \<not> py_linebreak c) (rev s))"

text \<open>\<open>str(value or "")\<close> and \<open>x or None\<close> on optional strings: the empty string is falsy.\<close>

definition str_or_empty :: "string option \<Rightarrow> string" where
  "str_or_empty v = (case v of None \<Rightarrow> [] | Some s \<Rightarrow> s)"

definition truthy_str :: "string option \<Rightarrow> bool" where
  "truthy_str v \<longleftrightarrow> (case v of None \<Rightarrow> False | Some s \<Rightarrow> s \<noteq> [])"

definition or_none :: "string \<Rightarrow> string option" where
  "or_none s = (if s = [] then None else Some s)"

definition opt_or :: "string option \<Rightarrow> string option \<Rightarrow> string option" where
  "opt_or a b = (if truthy_str a then a else b)"

section \<open>Lemmas on fallible computations\<close>

named_theorems keeps_intros

lemma bindE_simps [simp]: "bindE (Inl e) f = Inl e" "bindE (Inr a) f = f a"
  by (simp_all add: bindE_def)

lemma guardE_simps [simp]: "guardE True e = Inr ()" "guardE False e = Inl e"
  by (simp_all add: guardE_def)

lemma bindE_eq_Inr [simp]: "bindE m f = Inr y \<longleftrightarrow> (\<exists>x. m = Inr x \<and> f x = Inr y)"
  by (cases m) auto

lemma bindE_eq_Inl: "bindE m f = Inl e \<longleftrightarrow> m = Inl e \<or> (\<exists>x. m = Inr x \<and> f x = Inl e)"
  by (cases m) auto

lemma guardE_eq_Inr [simp]: "guardE b e = Inr u \<longleftrightarrow> b"
  by (simp add: guardE_def)

lemma guardE_eq_Inl [simp]: "guardE b e = Inl e' \<longleftrightarrow> \<not> b \<and> e' = e"
  by (auto simp: guardE_def)

lemma mapErr_eq_Inr [simp]: "mapErr h m = Inr x \<longleftrightarrow> m = Inr x"
  by (cases m) (auto simp: mapErr_def)

lemma mapErr_eq_Inl: "mapErr h m = Inl e \<longleftrightarrow> (\<exists>e'. m = Inl e' \<and> e = h e')"
  by (cases m) (auto simp: mapErr_def)

lemma mapE_eq_Inr: "mapE f xs = Inr ys \<longleftrightarrow> list_all2 (\<lambda>x y. f x = Inr y) xs ys"
  by (induction xs arbitrary: ys) (auto simp: list_all2_Cons1)

lemma mapE_total: "(\<And>x. x \<in> set xs \<Longrightarrow> f x = Inr (g x)) \<Longrightarrow> mapE f xs = Inr (map g xs)"
  by (induction xs) auto

lemma not_Inl_iff: "(\<nexists>e. r = Inl e) \<longleftrightarrow> (\<exists>a. r = Inr a)"
  by (cases r) auto

lemma sum_ex_Inl_iff: "(\<exists>e. r = Inl e) \<longleftrightarrow> (\<nexists>a. r = Inr a)"
  by (cases r) auto

lemma op_simps [simp]:
  "retS a s = (Inr a, s)"
  "raiseS e s = (Inl e, s)"
  "liftE r s = (r, s)"
  "getS f s = (Inr (f s), s)"
  "modifyS g s = (Inr (), g s)"
  by (simp_all add: retS_def raiseS_def liftE_def getS_def modifyS_def)

lemma guardS_simps [simp]: "guardS True e = retS ()" "guardS False e = raiseS e"
  by (simp_all add: guardS_def)

lemma guardS_run: "guardS b e s = (if b then Inr () else Inl e, s)"
  by (simp add: guardS_def)

lemma whenS_simps [simp]: "whenS True m = m" "whenS False m = retS ()"
  by (simp_all add: whenS_def)

lemma bindS_run: "bindS m f s = (case m s of (Inl e, s') \<Rightarrow> (Inl e, s') | (Inr a, s') \<Rightarrow> f a s')"
  by (simp add: bindS_def)

lemma bindS_Inr_iff:
  "bindS m f s = (Inr b, s'') \<longleftrightarrow> (\<exists>a s'. m s = (Inr a, s') \<and> f a s' = (Inr b, s''))"
  by (auto simp: bindS_def split: prod.splits sum.splits)

lemma bindS_Inl_iff:
  "bindS m f s = (Inl e, s'') \<longleftrightarrow>
     m s = (Inl e, s'') \<or> (\<exists>a s'. m s = (Inr a, s') \<and> f a s' = (Inl e, s''))"
  by (auto simp: bindS_def split: prod.splits sum.splits)

lemma bindS_cases:
  assumes "bindS m f s = (r, s'')"
  obtains (raised) e where "m s = (Inl e, s'')" "r = Inl e"
  | (ran) a s' where "m s = (Inr a, s')" "f a s' = (r, s'')"
  using assms by (auto simp: bindS_def split: prod.splits sum.splits)

lemma bindS_step:
  "m s = (Inr a, s') \<Longrightarrow> bindS m f s = f a s'"
  "m s = (Inl e, s') \<Longrightarrow> bindS m f s = (Inl e, s')"
  by (simp_all add: bindS_def)

lemma bindS_prim [simp]:
  "bindS (retS a) f = f a"
  "bindS (raiseS e) f = raiseS e"
  "bindS (getS g) f s = f (g s) s"
  "bindS (modifyS h) f' s = f' () (h s)"
  "bindS (liftE (Inr a)) f = f a"
  "bindS (liftE (Inl e)) f = raiseS e"
  by (auto simp: bindS_def fun_eq_iff)

lemma bindS_guard [simp]:
  "bindS (guardS b e) f s = (if b then f () s else (Inl e, s))"
  by (simp add: guardS_def)

lemma forS_append_run:
  "forS (xs @ ys) f s =
     bindS (forS xs f) (\<lambda>as. bindS (forS ys f) (\<lambda>bs. retS (as @ bs))) s"
  by (induction xs arbitrary: s)
     (auto simp: bindS_run split: prod.splits sum.splits)

lemma keepsI: "(\<And>s. P s \<Longrightarrow> P (snd (m s))) \<Longrightarrow> keeps P m"
  by (simp add: keeps_def)

lemma keepsD: "keeps P m \<Longrightarrow> P s \<Longrightarrow> P (snd (m s))"
  by (simp add: keeps_def)

lemma keepsD_run: "keeps P m \<Longrightarrow> P s \<Longrightarrow> m s = (r, s') \<Longrightarrow> P s'"
  by (force simp: keeps_def)

lemma keeps_basic [keeps_intros]:
  "keeps P (retS a)" "keeps P (raiseS e)" "keeps P (liftE r)" "keeps P (getS f)"
  "keeps P (guardS b e)"
  by (simp_all add: keeps_def guardS_def)

lemma keeps_modify [keeps_intros]: "(\<And>s. P s \<Longrightarrow> P (g s)) \<Longrightarrow> keeps P (modifyS g)"
  by (simp add: keeps_def)

lemma keeps_bind [keeps_intros]:
  assumes "keeps P m" and "\<And>a. keeps P (f a)"
  shows "keeps P (bindS m f)"
  using assms by (force simp: keeps_def bindS_def split: prod.splits sum.splits)

lemma keeps_when [keeps_intros]: "(b \<Longrightarrow> keeps P m) \<Longrightarrow> keeps P (whenS b m)"
  by (simp add: keeps_def whenS_def)

lemma keeps_if [keeps_intros]:
  "(b \<Longrightarrow> keeps P m) \<Longrightarrow> (\<not> b \<Longrightarrow> keeps P n) \<Longrightarrow> keeps P (if b then m else n)"
  by simp

lemma keeps_catch [keeps_intros]:
  assumes "keeps P m" and "\<And>e. keeps P (h e)"
  shows "keeps P (catchS m h)"
  using assms by (force simp: keeps_def catchS_def split: prod.splits sum.splits)

lemma keeps_for [keeps_intros]:
  assumes "\<And>x. x \<in> set xs \<Longrightarrow> keeps P (f x)"
  shows "keeps P (forS xs f)"
  using assms by (induction xs) (auto intro!: keeps_intros)

lemma keeps_let [keeps_intros]: "keeps P (f x) \<Longrightarrow> keeps P (let y = x in f y)"
  by simp

lemma keeps_option [keeps_intros]:
  "(x = None \<Longrightarrow> keeps P m) \<Longrightarrow> (\<And>y. x = Some y \<Longrightarrow> keeps P (f y)) \<Longrightarrow>
   keeps P (case x of None \<Rightarrow> m | Some y \<Rightarrow> f y)"
  by (cases x) auto

lemma tripleI:
  assumes "\<And>s a s'. P s \<Longrightarrow> m s = (Inr a, s') \<Longrightarrow> Q a s'"
    and "\<And>s e s'. P s \<Longrightarrow> m s = (Inl e, s') \<Longrightarrow> R s'"
  shows "triple P m Q R"
  using assms by (fastforce simp: triple_def split: prod.splits sum.splits)

lemma tripleD:
  assumes "triple P m Q R" and "P s"
  shows "m s = (Inr a, s') \<Longrightarrow> Q a s'" and "m s = (Inl e, s') \<Longrightarrow> R s'"
  using assms unfolding triple_def by (force, force)

lemma triple_bind:
  assumes "triple P m Q R" and "\<And>a. triple (Q a) (f a) Q' R"
  shows "triple P (bindS m f) Q' R"
  using assms by (fastforce simp: triple_def bindS_def split: prod.splits sum.splits)

lemma triple_keeps: "keeps P m \<Longrightarrow> triple P m (\<lambda>_. P) P"
  by (force simp: triple_def keeps_def split: prod.splits sum.splits)

lemma triple_conseq:
  assumes "triple P m Q R" and "\<And>s. P' s \<Longrightarrow> P s" and "\<And>a s. Q a s \<Longrightarrow> Q' a s" and "\<And>s. R s \<Longrightarrow> R' s"
  shows "triple P' m Q' R'"
  using assms by (fastforce simp: triple_def split: prod.splits sum.splits)

lemma triple_pre: "triple P m Q R \<Longrightarrow> (\<And>s. P' s \<Longrightarrow> P s) \<Longrightarrow> triple P' m Q R"
  by (rule triple_conseq)

lemma keeps_of_triple:
  assumes "triple P m (\<lambda>_. P) P"
  shows "keeps P m"
proof (rule keepsI)
  fix s assume "P s"
  then show "P (snd (m s))"
    using tripleD [OF assms \<open>P s\<close>] by (cases "m s"; cases "fst (m s)") auto
qed

lemma triple_lift: "triple P (liftE r) (\<lambda>a s. P s \<and> r = Inr a) P"
  by (auto simp: triple_def split: sum.splits)

lemma triple_keeps_any: "keeps P m \<Longrightarrow> triple P m (\<lambda>_. P) (\<lambda>_. True)"
  by (erule triple_conseq [OF triple_keeps]) auto

lemma triple_lift_any: "triple P (liftE r) (\<lambda>a s. P s \<and> r = Inr a) (\<lambda>_. True)"
  by (rule triple_conseq [OF triple_lift]) auto

lemma triple_ret: "triple (Q a) (retS a) Q R"
  by (simp add: triple_def)

lemma triple_if:
  "(b \<Longrightarrow> triple P m Q R) \<Longrightarrow> (\<not> b \<Longrightarrow> triple P n Q R) \<Longrightarrow> triple P (if b then m else n) Q R"
  by simp

lemma triple_assume: "(B \<Longrightarrow> triple P m Q R) \<Longrightarrow> triple (\<lambda>s. P s \<and> B) m Q R"
  by (auto simp: triple_def)

section \<open>Lemmas on strings and dictionaries\<close>

lemma py_strip_Nil [simp]: "py_strip [] = []"
  by (simp add: py_strip_def)

lemma dropWhile_rev_dropWhile:
  assumes "dropWhile P xs = xs"
  shows "dropWhile P (rev (dropWhile P (rev xs))) = rev (dropWhile P (rev xs))"
proof (cases "rev (dropWhile P (rev xs))")
  case Nil
  then show ?thesis by (simp only:) simp
next
  case (Cons y ys)
  have "xs = rev (dropWhile P (rev xs)) @ rev (takeWhile P (rev xs))"
    by (metis rev_append rev_rev_ident takeWhile_dropWhile_id)
  with Cons have "hd xs = y" and "xs \<noteq> []" by (metis append_Cons list.sel(1), auto)
  with assms have "\<not> P y" by (metis hd_dropWhile)
  with Cons show ?thesis by simp
qed

lemma py_strip_idem [simp]: "py_strip (py_strip s) = py_strip s"
  by (simp add: py_strip_def dropWhile_rev_dropWhile)

lemma py_strip_eq_Nil_iff: "py_strip s = [] \<longleftrightarrow> (\<forall>c \<in> set s. py_isspace c)"
  by (simp add: py_strip_def) (metis dropWhile_eq_Nil_conv set_dropWhileD hd_dropWhile hd_in_set)

lemma set_py_strip_subset: "set (py_strip s) \<subseteq> set s"
  by (auto simp: py_strip_def dest!: set_dropWhileD)

lemma length_py_strip_le: "length (py_strip s) \<le> length s"
  by (metis py_strip_def length_dropWhile_le length_rev order.trans)

lemma map_fst_update: "map fst (AList.update k v al) =
    (if k \<in> set (map fst al) then map fst al else map fst al @ [k])"
  by (induction al) auto

lemma distinct_keys_update: "distinct (map fst al) \<Longrightarrow> distinct (map fst (AList.update k v al))"
  by (simp add: map_fst_update)

lemma map_of_update [simp]: "map_of (AList.update k v al) = (map_of al)(k \<mapsto> v)"
  by (simp add: update_conv')

lemma truthy_str_simps [simp]: "\<not> truthy_str None" "truthy_str (Some s) \<longleftrightarrow> s \<noteq> []"
  by (simp_all add: truthy_str_def)

lemma or_none_truthy [simp]: "truthy_str (or_none s) \<longleftrightarrow> s \<noteq> []"
  by (simp add: or_none_def)

section \<open>Lists as tables\<close>

lemma find_append: "find P (xs @ ys) = (case find P xs of None \<Rightarrow> find P ys | Some x \<Rightarrow> Some x)"
  by (induction xs) auto

end
