(* ===== verification/Py_Numbers.thy ===== *)
theory Py_Numbers
  imports Complex_Main Cell_Prelude
begin

text \<open>
  Python numbers. Integers are \<open>int\<close>. A \<open>float\<close> is an IEEE binary64 value: a finite value is
  kept as the rational it denotes (the sign of zero, which no modelled code observes, is
  dropped), beside the infinities and NaN. Every arithmetic operation rounds its exact result to the nearest
  binary64 value, ties to even. A \<open>Decimal\<close> of the execution policy is a rational, and
  \<open>Decimal(str(x))\<close> reads the shortest decimal text that rounds to \<open>x\<close>.
\<close>

section \<open>Rounding\<close>

fun ilog :: "nat \<Rightarrow> nat \<Rightarrow> nat" where
  "ilog b n = (if b < 2 \<or> n < b then 0 else Suc (ilog b (n div b)))"

declare ilog.simps [simp del]

definition rat_ilog :: "nat \<Rightarrow> rat \<Rightarrow> int" where
  "rat_ilog b q =
     (let n = nat (fst (quotient_of q)); d = nat (snd (quotient_of q));
          k = int (ilog b n) - int (ilog b d)
      in if of_nat b powi k \<le> q then k else k - 1)"

definition rne :: "rat \<Rightarrow> int" where
  "rne q =
     (let f = \<lfloor>q\<rfloor>; r = q - of_int f
      in if r < 1 / 2 then f else if 1 / 2 < r then f + 1 else if even f then f else f + 1)"

section \<open>Floats\<close>

datatype pyfloat = Fin rat | PosInf | NegInf | NaN

definition f64_exp :: "rat \<Rightarrow> int" where
  "f64_exp q = (if q = 0 then - 1074 else max (rat_ilog 2 \<bar>q\<bar> - 52) (- 1074))"

definition f64_grid :: "rat \<Rightarrow> rat" where
  "f64_grid q = of_int (rne (q / 2 powi f64_exp q)) * 2 powi f64_exp q"

definition f64_round :: "rat \<Rightarrow> pyfloat" where
  "f64_round q =
     (let v = f64_grid q in
      if 2 ^ 1024 \<le> v then PosInf else if v \<le> - (2 ^ 1024) then NegInf else Fin v)"

fun pf_isfinite :: "pyfloat \<Rightarrow> bool" where
  "pf_isfinite (Fin q) = True"
| "pf_isfinite _ = False"

fun pf_less :: "pyfloat \<Rightarrow> pyfloat \<Rightarrow> bool" where
  "pf_less NaN _ = False"
| "pf_less _ NaN = False"
| "pf_less (Fin a) (Fin b) = (a < b)"
| "pf_less (Fin a) PosInf = True"
| "pf_less NegInf (Fin b) = True"
| "pf_less NegInf PosInf = True"
| "pf_less _ _ = False"

fun pf_le :: "pyfloat \<Rightarrow> pyfloat \<Rightarrow> bool" where
  "pf_le NaN _ = False"
| "pf_le _ NaN = False"
| "pf_le (Fin a) (Fin b) = (a \<le> b)"
| "pf_le NegInf _ = True"
| "pf_le _ PosInf = True"
| "pf_le _ _ = False"

fun pf_add :: "pyfloat \<Rightarrow> pyfloat \<Rightarrow> pyfloat" where
  "pf_add NaN _ = NaN"
| "pf_add _ NaN = NaN"
| "pf_add (Fin a) (Fin b) = f64_round (a + b)"
| "pf_add (Fin a) y = y"
| "pf_add x (Fin b) = x"
| "pf_add PosInf PosInf = PosInf"
| "pf_add NegInf NegInf = NegInf"
| "pf_add _ _ = NaN"

fun pf_neg :: "pyfloat \<Rightarrow> pyfloat" where
  "pf_neg (Fin q) = Fin (- q)"
| "pf_neg PosInf = NegInf"
| "pf_neg NegInf = PosInf"
| "pf_neg NaN = NaN"

definition pf_sub :: "pyfloat \<Rightarrow> pyfloat \<Rightarrow> pyfloat" where
  "pf_sub a b = pf_add a (pf_neg b)"

text \<open>Division by a value that is not zero, which is all the sources divide by.\<close>

fun pf_div :: "pyfloat \<Rightarrow> pyfloat \<Rightarrow> pyfloat" where
  "pf_div NaN _ = NaN"
| "pf_div _ NaN = NaN"
| "pf_div (Fin a) (Fin b) = f64_round (a / b)"
| "pf_div (Fin a) _ = Fin 0"
| "pf_div PosInf (Fin b) = (if b < 0 then NegInf else PosInf)"
| "pf_div NegInf (Fin b) = (if b < 0 then PosInf else NegInf)"
| "pf_div _ _ = NaN"

text \<open>\<open>max(a, b)\<close> returns \<open>a\<close> unless \<open>b > a\<close>, \<open>min(a, b)\<close> unless \<open>b < a\<close>.\<close>

definition pf_max :: "pyfloat \<Rightarrow> pyfloat \<Rightarrow> pyfloat" where
  "pf_max a b = (if pf_less a b then b else a)"

definition pf_min :: "pyfloat \<Rightarrow> pyfloat \<Rightarrow> pyfloat" where
  "pf_min a b = (if pf_less b a then b else a)"

definition pf_eq :: "pyfloat \<Rightarrow> pyfloat \<Rightarrow> bool" where
  "pf_eq a b \<longleftrightarrow> pf_le a b \<and> pf_le b a"

text \<open>Multiplication of finite values; the sources multiply no others.\<close>

fun pf_mul :: "pyfloat \<Rightarrow> pyfloat \<Rightarrow> pyfloat" where
  "pf_mul (Fin a) (Fin b) = f64_round (a * b)"
| "pf_mul _ _ = NaN"

text \<open>The integer square root, bit by bit from \<open>2 ^ k\<close> downwards.\<close>

fun isqrt_from :: "nat \<Rightarrow> int \<Rightarrow> int \<Rightarrow> int" where
  "isqrt_from 0 n r = r"
| "isqrt_from (Suc k) n r =
     (let r' = r + 2 ^ k in isqrt_from k n (if r' * r' \<le> n then r' else r))"

text \<open>
  \<open>math.sqrt\<close> of a value that is not negative. With \<open>s\<close> the integer square root of \<open>q\<close> scaled by
  \<open>4 ^ 600\<close>, which has more bits than a double and a rounding bit, the root lies between \<open>s\<close> and \<open>s + 1\<close>
  over \<open>2 ^ 600\<close>, and rounds like the middle of the two unless it is \<open>s\<close> exactly.
\<close>

definition f64_sqrt :: "rat \<Rightarrow> pyfloat" where
  "f64_sqrt q =
     (let n = \<lfloor>q * 4 ^ 600\<rfloor>; s = isqrt_from 1200 n 0
      in if of_int (s * s) = q * 4 ^ 600 then f64_round (of_int s / 2 ^ 600)
         else f64_round (of_int (2 * s + 1) / 2 ^ 601))"

lemma isqrt_from_bounds:
  assumes "0 \<le> r" and "r * r \<le> n" and "n < (r + 2 ^ k) * (r + 2 ^ k)"
  shows "isqrt_from k n r * isqrt_from k n r \<le> n" and "n < (isqrt_from k n r + 1) * (isqrt_from k n r + 1)"
proof -
  have "isqrt_from k n r * isqrt_from k n r \<le> n \<and> n < (isqrt_from k n r + 1) * (isqrt_from k n r + 1)"
    using assms by (induction k arbitrary: r) (auto simp: Let_def add.assoc)
  then show "isqrt_from k n r * isqrt_from k n r \<le> n" "n < (isqrt_from k n r + 1) * (isqrt_from k n r + 1)" by auto
qed

section \<open>Decimals\<close>

definition round_sig :: "nat \<Rightarrow> rat \<Rightarrow> rat" where
  "round_sig n q =
     (let u = 10 powi (rat_ilog 10 \<bar>q\<bar> - int n + 1) in of_int (rne (q / u)) * u)"

definition float_repr :: "rat \<Rightarrow> rat" where
  "float_repr q =
     (if q = 0 then 0
      else case find (\<lambda>n. f64_round (round_sig n q) = Fin q) [1..<18] of
             Some n \<Rightarrow> round_sig n q | None \<Rightarrow> q)"

definition quantize6 :: "rat \<Rightarrow> rat" where
  "quantize6 q = of_int (rne (q * 1000000)) / 1000000"

section \<open>Lemmas\<close>

lemma ilog_bounds:
  assumes "2 \<le> b" and "0 < n"
  shows "b ^ ilog b n \<le> n \<and> n < b ^ Suc (ilog b n)"
  using assms
proof (induction b n rule: ilog.induct)
  case (1 b n)
  show ?case
  proof (cases "n < b")
    case True
    with 1 show ?thesis by (simp add: ilog.simps [of b n])
  next
    case False
    let ?m = "n div b"
    from False 1(2) have "0 < ?m" by (simp add: div_greater_zero_iff)
    with 1 False have IH: "b ^ ilog b ?m \<le> ?m" "?m < b ^ Suc (ilog b ?m)" by auto
    have "b * b ^ ilog b ?m \<le> b * ?m" using IH(1) by simp
    also have "\<dots> \<le> n" by simp
    finally have lo: "b ^ Suc (ilog b ?m) \<le> n" by simp
    have "n < b * Suc ?m" using 1(2) by (simp add: dividend_less_times_div)
    also have "\<dots> \<le> b * b ^ Suc (ilog b ?m)" using IH(2) by (intro mult_le_mono2) simp
    finally have hi: "n < b ^ Suc (Suc (ilog b ?m))" by simp
    from lo hi False 1(2) show ?thesis by (simp add: ilog.simps [of b n])
  qed
qed

lemma rat_ilog_bounds:
  assumes b: "2 \<le> b" and q: "0 < q"
  shows "of_nat b powi rat_ilog b q \<le> q" and "q < of_nat b powi (rat_ilog b q + 1)"
proof -
  obtain n' d' where nd: "quotient_of q = (n', d')" by force
  define n d where "n = nat n'" and "d = nat d'"
  have d': "0 < d'" and qeq: "q = of_int n' / of_int d'"
    using nd quotient_of_denom_pos quotient_of_div by auto
  with q have n': "0 < n'" by (simp add: zero_less_divide_iff)
  have qnd: "q = of_nat n / of_nat d" using qeq d' n' by (simp add: n_def d_def)
  have pos: "0 < n" "0 < d" using d' n' by (auto simp: n_def d_def)
  let ?b = "of_nat b :: rat"
  have b0: "0 < ?b" "1 < ?b" using b by auto
  define l m where "l = ilog b n" and "m = ilog b d"
  have nl: "?b ^ l \<le> of_nat n" "of_nat n < ?b ^ Suc l"
    and dm: "?b ^ m \<le> of_nat d" "of_nat d < ?b ^ Suc m"
    using ilog_bounds [OF b pos(1)] ilog_bounds [OF b pos(2)] unfolding l_def m_def
    by (metis of_nat_le_iff of_nat_less_iff of_nat_power)+
  define k where "k = int l - int m"
  have k1: "?b powi (k + 1) = ?b ^ Suc l / ?b ^ m" and k0: "?b powi (k - 1) = ?b ^ l / ?b ^ Suc m"
    using b0 by (simp_all add: k_def power_int_diff power_int_add flip: power_int_of_nat)
  have "q < ?b ^ Suc l / ?b ^ m"
    unfolding qnd using nl dm pos b0 by (intro frac_less) auto
  then have up: "q < ?b powi (k + 1)" by (simp add: k1)
  have "?b ^ l / ?b ^ Suc m \<le> q"
    unfolding qnd using nl dm pos b0 by (intro frac_le) auto
  then have lo: "?b powi (k - 1) \<le> q" by (simp add: k0)
  have eq: "rat_ilog b q = (if ?b powi k \<le> q then k else k - 1)"
    by (simp add: rat_ilog_def nd n_def d_def k_def l_def m_def Let_def)
  show "?b powi rat_ilog b q \<le> q" "q < ?b powi (rat_ilog b q + 1)"
    using up lo by (auto simp: eq)
qed

lemma rne_of_int [simp]: "rne (of_int z) = z"
  by (simp add: rne_def)

lemma rne_mono: "q \<le> q' \<Longrightarrow> rne q \<le> rne q'"
proof -
  assume le: "q \<le> q'"
  then have fl: "\<lfloor>q\<rfloor> \<le> \<lfloor>q'\<rfloor>" by (rule floor_mono)
  show ?thesis
  proof (cases "\<lfloor>q\<rfloor> = \<lfloor>q'\<rfloor>")
    case True
    with le show ?thesis by (auto simp: rne_def Let_def)
  next
    case False
    have "rne q \<le> \<lfloor>q\<rfloor> + 1" "\<lfloor>q'\<rfloor> \<le> rne q'" by (auto simp: rne_def Let_def)
    with False fl show ?thesis by linarith
  qed
qed

lemma rne_le_int: "q \<le> of_int z \<Longrightarrow> rne q \<le> z"
  using rne_mono [of q "of_int z"] by simp

lemma int_le_rne: "of_int z \<le> q \<Longrightarrow> z \<le> rne q"
  using rne_mono [of "of_int z" q] by simp

text \<open>Rounding is monotone, so a larger exact amount never rounds to a smaller float.\<close>

lemma rat_ilog_mono:
  assumes "2 \<le> b" and "0 < p" and "p \<le> q"
  shows "rat_ilog b p \<le> rat_ilog b q"
proof (rule ccontr)
  assume "\<not> rat_ilog b p \<le> rat_ilog b q"
  then have "(of_nat b :: rat) powi (rat_ilog b q + 1) \<le> of_nat b powi rat_ilog b p"
    using assms(1) by (intro power_int_increasing) auto
  also have "\<dots> \<le> p" using assms rat_ilog_bounds(1) by blast
  also have "\<dots> \<le> q" by (rule assms)
  finally show False using rat_ilog_bounds(2) [of b q] assms by simp
qed

lemma f64_exp_mono:
  assumes "0 \<le> p" and "p \<le> q"
  shows "f64_exp p \<le> f64_exp q"
proof (cases "p = 0")
  case False
  with assms have "rat_ilog 2 p \<le> rat_ilog 2 q" by (intro rat_ilog_mono) auto
  with False assms show ?thesis by (simp add: f64_exp_def)
qed (simp add: f64_exp_def)

lemma f64_grid_ge_power:
  assumes "f64_exp q = rat_ilog 2 q - 52" and "0 < q"
  shows "2 powi rat_ilog 2 q \<le> f64_grid q"
proof -
  let ?e = "f64_exp q"
  have "(2 :: rat) powi 52 * 2 powi ?e = 2 powi rat_ilog 2 q"
    unfolding assms(1) by (subst power_int_add [symmetric]) simp_all
  then have eq: "(2 :: rat) powi rat_ilog 2 q = of_int (2 ^ 52) * 2 powi ?e" by simp
  have "2 powi rat_ilog 2 q \<le> q" using rat_ilog_bounds(1) [of 2 q] assms(2) by simp
  then have "of_int (2 ^ 52) \<le> q / 2 powi ?e" unfolding eq by (simp add: pos_le_divide_eq)
  then have "2 ^ 52 \<le> rne (q / 2 powi ?e)" by (rule int_le_rne)
  then have "(of_int (2 ^ 52) :: rat) \<le> of_int (rne (q / 2 powi ?e))" by (simp only: of_int_le_iff)
  then show ?thesis unfolding eq f64_grid_def by (intro mult_right_mono) auto
qed

lemma f64_grid_le_power:
  assumes "p \<le> 2 powi k" and "f64_exp p \<le> k"
  shows "f64_grid p \<le> 2 powi k"
proof -
  let ?e = "f64_exp p"
  define d where "d = nat (k - ?e)"
  have eq: "(2 :: rat) powi k = of_int (2 ^ d) * 2 powi ?e"
    using assms(2) by (simp add: d_def flip: power_int_add power_int_of_nat)
  have "p / 2 powi ?e \<le> of_int (2 ^ d)" using assms(1) unfolding eq by (simp add: pos_divide_le_eq)
  then have "rne (p / 2 powi ?e) \<le> 2 ^ d" by (rule rne_le_int)
  then have "(of_int (rne (p / 2 powi ?e)) :: rat) \<le> of_int (2 ^ d)" by (simp only: of_int_le_iff)
  then show ?thesis unfolding eq f64_grid_def by (intro mult_right_mono) auto
qed

lemma f64_grid_mono:
  assumes "0 \<le> p" and "p \<le> q"
  shows "f64_grid p \<le> f64_grid q"
proof (cases "f64_exp p = f64_exp q")
  case True
  have "rne (p / 2 powi f64_exp q) \<le> rne (q / 2 powi f64_exp q)"
    using assms by (intro rne_mono divide_right_mono) auto
  with True show ?thesis unfolding f64_grid_def by (simp add: mult_right_mono)
next
  case False
  with f64_exp_mono [OF assms] have lt: "f64_exp p < f64_exp q" by simp
  let ?k = "rat_ilog 2 q"
  from lt have q: "q \<noteq> 0" and e: "f64_exp q = ?k - 52" using assms
    by (auto simp: f64_exp_def split: if_splits)
  have "f64_exp p \<le> ?k" using lt e by simp
  moreover have "p \<le> 2 powi ?k"
  proof (cases "p = 0")
    case False
    then have "rat_ilog 2 p + 1 \<le> ?k" using lt assms e by (auto simp: f64_exp_def split: if_splits)
    then have "(2 :: rat) powi (rat_ilog 2 p + 1) \<le> 2 powi ?k" by (intro power_int_increasing) auto
    with rat_ilog_bounds(2) [of 2 p] False assms show ?thesis by simp
  qed simp
  ultimately have "f64_grid p \<le> 2 powi ?k" by (intro f64_grid_le_power)
  also have "\<dots> \<le> f64_grid q" using e q assms by (intro f64_grid_ge_power) auto
  finally show ?thesis .
qed

lemma f64_grid_zero [simp]: "f64_grid 0 = 0"
  by (simp add: f64_grid_def rne_of_int [of 0, simplified])

lemma f64_grid_nonneg: "0 \<le> q \<Longrightarrow> 0 \<le> f64_grid q"
  using f64_grid_mono [of 0 q] by simp

lemma f64_round_nonneg:
  assumes "0 \<le> q"
  shows "f64_round q = (if 2 ^ 1024 \<le> f64_grid q then PosInf else Fin (f64_grid q))"
proof -
  have "\<not> f64_grid q \<le> - (2 ^ 1024)" using f64_grid_nonneg [OF assms] by (simp add: not_le order.strict_trans1)
  then show ?thesis by (simp add: f64_round_def Let_def)
qed

lemma f64_round_mono:
  assumes "0 \<le> p" and "p \<le> q"
  shows "pf_le (f64_round p) (f64_round q)"
  using assms f64_grid_mono [OF assms] by (auto simp: f64_round_nonneg)

text \<open>Small integers are exact floats.\<close>

lemma f64_grid_int:
  assumes "0 \<le> z" and "z < 2 ^ 53"
  shows "f64_grid (of_int z) = of_int z"
proof (cases "z = 0")
  case False
  let ?q = "of_int z :: rat" and ?k = "rat_ilog 2 (of_int z)" and ?e = "f64_exp (of_int z)"
  have q: "0 < ?q" using False assms by simp
  have "2 powi ?k < (2 :: rat) powi 53"
  proof -
    have "2 powi ?k \<le> ?q" using rat_ilog_bounds(1) [of 2 ?q] q by simp
    also have "\<dots> < of_int (2 ^ 53)" using assms(2) by (simp only: of_int_less_iff)
    finally show ?thesis by simp
  qed
  then have "?k < 53" using power_int_increasing [of 53 ?k "2 :: rat"] by (cases "?k < 53") auto
  then have e: "?e \<le> 0" using q by (simp add: f64_exp_def)
  define n where "n = nat (- ?e)"
  have "?e = - int n" using e by (simp add: n_def)
  then have pe: "(2 :: rat) powi ?e = inverse (2 ^ n)" by (simp add: power_int_minus)
  have "?q / 2 powi ?e = of_int (z * 2 ^ n)" by (simp add: pe divide_inverse)
  then have "rne (?q / 2 powi ?e) = z * 2 ^ n" by (simp only: rne_of_int)
  then show ?thesis by (simp add: f64_grid_def pe)
qed simp

lemma f64_round_int:
  assumes "0 \<le> z" and "z < 2 ^ 53"
  shows "f64_round (of_int z) = Fin (of_int z)"
proof -
  have "(of_int z :: rat) < of_int (2 ^ 53)" using assms(2) by (simp only: of_int_less_iff)
  also have "\<dots> \<le> 2 ^ 1024" by (simp add: power_increasing)
  finally have "\<not> (2 :: rat) ^ 1024 \<le> of_int z" by simp
  then show ?thesis using assms by (simp add: f64_round_nonneg f64_grid_int)
qed

text \<open>Evaluation: a small whole number is a float, and needs no rounding.\<close>

lemma f64_round_code [code]:
  "f64_round q =
     (if 0 \<le> q \<and> q < 9007199254740992 \<and> snd (quotient_of q) = 1 then Fin q
      else let v = f64_grid q in
           if 2 ^ 1024 \<le> v then PosInf else if v \<le> - (2 ^ 1024) then NegInf else Fin v)"
proof (cases "0 \<le> q \<and> q < 9007199254740992 \<and> snd (quotient_of q) = 1")
  case True
  obtain z where z: "quotient_of q = (z, 1)" using True by (metis prod.collapse)
  then have q: "q = of_int z" using quotient_of_div [OF z] by simp
  have "(of_int z :: rat) < of_int 9007199254740992" using True q by simp
  then have "0 \<le> z" "z < 2 ^ 53" using True q by (simp_all only: of_int_less_iff) simp_all
  with f64_round_int [of z] q True show ?thesis by simp
next
  case False
  show ?thesis unfolding if_not_P [OF False] by (rule f64_round_def)
qed

lemma pf_le_trans: "pf_le x y \<Longrightarrow> pf_le y z \<Longrightarrow> pf_le x z"
  by (cases x; cases y; cases z) auto

lemma pf_less_not_le: "x \<noteq> NaN \<Longrightarrow> y \<noteq> NaN \<Longrightarrow> \<not> pf_less x y \<longleftrightarrow> pf_le y x"
  by (cases x; cases y) auto

lemma pf_less_le_trans: "pf_less x y \<Longrightarrow> pf_le y z \<Longrightarrow> pf_less x z"
  by (cases x; cases y; cases z) auto

lemma pf_add_mono:
  assumes "0 \<le> a" and "0 \<le> b" and "a \<le> a'" and "b \<le> b'"
  shows "pf_le (pf_add (Fin a) (Fin b)) (pf_add (Fin a') (Fin b'))"
  using assms by (simp add: f64_round_mono)

end
