(* ===== verification/Py_Values.thy ===== *)
theory Py_Values
  imports Py_Numbers
begin

text \<open>
  Python values as the Control Plane handles them, and the metadata value object
  (\<open>domain/metadata.py\<close>).

  \<^item> \<open>pyval\<close> is the universe of values that reach a metadata or detail dictionary: JSON values,
    string enums, dates and datetimes (by their ISO text), tuples, sets (each element with its
    \<open>str\<close> text, in no particular order) and any other object (by its \<open>str\<close> text).
  \<^item> \<open>pydt\<close> is a datetime: microseconds of local time since 1970 and an optional UTC offset.
  \<^item> \<open>from_mapping\<close> and \<open>as_dict\<close> freeze and unfreeze a dictionary. The lemmas show that the
    composition yields a JSON value with distinct, trimmed, nonblank keys and is idempotent.
\<close>

section \<open>Values and datetimes\<close>

datatype pyval =
    PNone
  | PBool bool
  | PInt int
  | PFloat pyfloat
  | PStr string
  | PEnum string
  | PIso string
  | PMap "(string \<times> pyval) list"
  | PList "pyval list"
  | PTuple "pyval list"
  | PSet "(string \<times> pyval) list"
  | POpaque string

type_synonym pydict = "(string \<times> pyval) list"

definition opt_str :: "string option \<Rightarrow> pyval" where
  "opt_str v = (case v of None \<Rightarrow> PNone | Some s \<Rightarrow> PStr s)"

record pydt =
  dt_local :: int
  dt_offset :: "int option"

definition utc_dt :: "int \<Rightarrow> pydt" where
  "utc_dt t = \<lparr>dt_local = t, dt_offset = Some 0\<rparr>"

text \<open>\<open>value.astimezone(UTC)\<close> when aware, \<open>value.replace(tzinfo=UTC)\<close> when naive, as an instant.\<close>

definition dt_utc :: "pydt \<Rightarrow> int" where
  "dt_utc d = (case dt_offset d of None \<Rightarrow> dt_local d | Some off \<Rightarrow> dt_local d - off)"

section \<open>Control Plane metadata\<close>

definition clean_metadata_key :: "string \<Rightarrow> exc + string" where
  "clean_metadata_key k =
     (let key = py_strip k
      in if key = [] then Inl (InvalidControlPlaneMetadataError ''metadata_key_required'')
         else Inr key)"

text \<open>A dict comprehension: a repeated key keeps its first position and takes the last value.\<close>

fun dict_of :: "('k \<times> 'v) list \<Rightarrow> ('k \<times> 'v) list \<Rightarrow> ('k \<times> 'v) list" where
  "dict_of acc [] = acc"
| "dict_of acc ((k, v) # kvs) = dict_of (AList.update k v acc) kvs"

fun freeze_metadata_value :: "pyval \<Rightarrow> exc + pyval"
  and freeze_items :: "pydict \<Rightarrow> exc + pydict"
  and freeze_list :: "pyval list \<Rightarrow> exc + pyval list"
  and freeze_set :: "pydict \<Rightarrow> exc + pydict"
where
  "freeze_metadata_value (PEnum v) = Inr (PStr v)"
| "freeze_metadata_value (PIso v) = Inr (PStr v)"
| "freeze_metadata_value (PMap kvs) = bindE (freeze_items kvs) (\<lambda>ys. Inr (PMap (dict_of [] ys)))"
| "freeze_metadata_value (PList xs) = bindE (freeze_list xs) (\<lambda>ys. Inr (PTuple ys))"
| "freeze_metadata_value (PTuple xs) = bindE (freeze_list xs) (\<lambda>ys. Inr (PTuple ys))"
| "freeze_metadata_value (PSet xs) =
     bindE (freeze_set xs) (\<lambda>ys. Inr (PTuple (map snd (sort_key fst ys))))"
| "freeze_metadata_value PNone = Inr PNone"
| "freeze_metadata_value (PStr s) = Inr (PStr s)"
| "freeze_metadata_value (PInt i) = Inr (PInt i)"
| "freeze_metadata_value (PFloat f) = Inr (PFloat f)"
| "freeze_metadata_value (PBool b) = Inr (PBool b)"
| "freeze_metadata_value (POpaque s) = Inr (PStr s)"
| "freeze_items [] = Inr []"
| "freeze_items ((k, v) # kvs) =
     bindE (clean_metadata_key k) (\<lambda>k'. bindE (freeze_metadata_value v) (\<lambda>v'.
       bindE (freeze_items kvs) (\<lambda>ys. Inr ((k', v') # ys))))"
| "freeze_list [] = Inr []"
| "freeze_list (x # xs) =
     bindE (freeze_metadata_value x) (\<lambda>y. bindE (freeze_list xs) (\<lambda>ys. Inr (y # ys)))"
| "freeze_set [] = Inr []"
| "freeze_set ((t, x) # xs) =
     bindE (freeze_metadata_value x) (\<lambda>y. bindE (freeze_set xs) (\<lambda>ys. Inr ((t, y) # ys)))"

definition freeze_metadata_mapping :: "pydict \<Rightarrow> exc + pydict" where
  "freeze_metadata_mapping kvs = bindE (freeze_items kvs) (\<lambda>ys. Inr (dict_of [] ys))"

fun unfreeze_metadata_value :: "pyval \<Rightarrow> pyval" where
  "unfreeze_metadata_value (PMap kvs) = PMap (map (\<lambda>(k, v). (k, unfreeze_metadata_value v)) kvs)"
| "unfreeze_metadata_value (PTuple xs) = PList (map unfreeze_metadata_value xs)"
| "unfreeze_metadata_value v = v"

record control_plane_metadata =
  md_values :: pydict

definition metadata_empty :: control_plane_metadata where
  "metadata_empty = \<lparr>md_values = []\<rparr>"

definition from_mapping :: "pydict option \<Rightarrow> exc + control_plane_metadata" where
  "from_mapping v =
     bindE (freeze_metadata_mapping (case v of None \<Rightarrow> [] | Some d \<Rightarrow> d)) (\<lambda>d. Inr \<lparr>md_values = d\<rparr>)"

definition keys_tuple :: "control_plane_metadata \<Rightarrow> string list" where
  "keys_tuple m = sort (map fst (md_values m))"

definition as_dict :: "control_plane_metadata \<Rightarrow> pydict" where
  "as_dict m = map (\<lambda>(k, v). (k, unfreeze_metadata_value v)) (md_values m)"

text \<open>JSON values whose dictionary keys are distinct, trimmed and nonblank, at every depth.\<close>

definition clean_keys :: "string list \<Rightarrow> bool" where
  "clean_keys ks \<longleftrightarrow> distinct ks \<and> (\<forall>k \<in> set ks. k \<noteq> [] \<and> py_strip k = k)"

fun json_value :: "pyval \<Rightarrow> bool" where
  "json_value (PMap kvs) = (clean_keys (map fst kvs) \<and> (\<forall>kv \<in> set kvs. json_value (snd kv)))"
| "json_value (PList xs) = (\<forall>x \<in> set xs. json_value x)"
| "json_value PNone = True"
| "json_value (PBool b) = True"
| "json_value (PInt i) = True"
| "json_value (PFloat f) = True"
| "json_value (PStr s) = True"
| "json_value (PEnum v) = False"
| "json_value (PIso v) = False"
| "json_value (PTuple v) = False"
| "json_value (PSet v) = False"
| "json_value (POpaque v) = False"

definition json_dict :: "pydict \<Rightarrow> bool" where
  "json_dict d \<longleftrightarrow> json_value (PMap d)"

fun frozen_value :: "pyval \<Rightarrow> bool" where
  "frozen_value (PMap kvs) = (clean_keys (map fst kvs) \<and> (\<forall>kv \<in> set kvs. frozen_value (snd kv)))"
| "frozen_value (PTuple xs) = (\<forall>x \<in> set xs. frozen_value x)"
| "frozen_value PNone = True"
| "frozen_value (PBool b) = True"
| "frozen_value (PInt i) = True"
| "frozen_value (PFloat f) = True"
| "frozen_value (PStr s) = True"
| "frozen_value (PEnum v) = False"
| "frozen_value (PIso v) = False"
| "frozen_value (PList v) = False"
| "frozen_value (PSet v) = False"
| "frozen_value (POpaque v) = False"

section \<open>Lemmas\<close>

lemma dict_of_fst: "set (map fst (dict_of acc kvs)) = set (map fst acc) \<union> set (map fst kvs)"
  by (induction acc kvs rule: dict_of.induct) (auto simp: map_fst_update simp del: set_map)

lemma dict_of_snd: "set (map snd (dict_of acc kvs)) \<subseteq> set (map snd acc) \<union> set (map snd kvs)"
proof (induction acc kvs rule: dict_of.induct)
  case (2 acc k v kvs)
  have "set (map snd (AList.update k v acc)) \<subseteq> set (map snd acc) \<union> {v}"
    by (induction acc) auto
  with 2 show ?case by auto
qed simp

lemma dict_of_distinct: "distinct (map fst acc) \<Longrightarrow> distinct (map fst (dict_of acc kvs))"
  by (induction acc kvs rule: dict_of.induct) (auto simp: distinct_keys_update)

lemma AList_update_fresh: "k \<notin> set (map fst acc) \<Longrightarrow> AList.update k v acc = acc @ [(k, v)]"
  by (induction acc) auto

lemma dict_of_id:
  "distinct (map fst (acc @ kvs)) \<Longrightarrow> dict_of acc kvs = acc @ kvs"
  by (induction acc kvs rule: dict_of.induct) (auto simp: AList_update_fresh)

lemma clean_metadata_key_ok: "clean_metadata_key k = Inr k' \<longleftrightarrow> k' = py_strip k \<and> k' \<noteq> []"
  by (auto simp: clean_metadata_key_def Let_def)

lemma clean_keys_dict_of:
  assumes "\<And>k. k \<in> set (map fst kvs) \<Longrightarrow> k \<noteq> [] \<and> py_strip k = k"
  shows "clean_keys (map fst (dict_of [] kvs))"
  using assms dict_of_distinct [of "[]" kvs] by (auto simp: clean_keys_def simp del: set_map simp: dict_of_fst)

lemma freeze_frozen:
  "freeze_metadata_value v = Inr w \<Longrightarrow> frozen_value w"
  "freeze_items kvs = Inr ws \<Longrightarrow> (\<forall>kw \<in> set ws. fst kw \<noteq> [] \<and> py_strip (fst kw) = fst kw \<and> frozen_value (snd kw))"
  "freeze_list xs = Inr ys \<Longrightarrow> (\<forall>y \<in> set ys. frozen_value y)"
  "freeze_set ts = Inr us \<Longrightarrow> (\<forall>u \<in> set us. frozen_value (snd u))"
proof (induction v and kvs and xs and ts arbitrary: w and ws and ys and us
    rule: freeze_metadata_value_freeze_items_freeze_list_freeze_set.induct)
  case (3 kvs)
  then obtain ws where ws: "freeze_items kvs = Inr ws" "w = PMap (dict_of [] ws)" by auto
  with 3 have "\<forall>kw \<in> set ws. fst kw \<noteq> [] \<and> py_strip (fst kw) = fst kw \<and> frozen_value (snd kw)" by auto
  moreover from this have "clean_keys (map fst (dict_of [] ws))" by (intro clean_keys_dict_of) auto
  ultimately show ?case using ws dict_of_snd [of "[]" ws] by fastforce
qed (fastforce simp: clean_metadata_key_ok)+

lemma unfreeze_json: "frozen_value v \<Longrightarrow> json_value (unfreeze_metadata_value v)"
proof (induction v)
  case (PMap kvs)
  have "map fst (map (\<lambda>(k, v). (k, unfreeze_metadata_value v)) kvs) = map fst kvs"
    by (simp add: split_beta)
  with PMap show ?case by (fastforce simp: split_beta simp del: map_map)
qed auto

lemma freeze_items_id_keys:
  assumes "freeze_items kvs = Inr ws" and "\<forall>kv \<in> set kvs. py_strip (fst kv) = fst kv"
  shows "map fst ws = map fst kvs"
  using assms by (induction kvs arbitrary: ws) (auto simp: clean_metadata_key_ok)

lemma json_freeze:
  "json_value v \<Longrightarrow> \<exists>w. freeze_metadata_value v = Inr w \<and> unfreeze_metadata_value w = v"
  "clean_keys (map fst kvs) \<Longrightarrow> (\<forall>kv \<in> set kvs. json_value (snd kv)) \<Longrightarrow>
     \<exists>ws. freeze_items kvs = Inr ws \<and> map (\<lambda>(k, w). (k, unfreeze_metadata_value w)) ws = kvs"
  "(\<forall>x \<in> set xs. json_value x) \<Longrightarrow>
     \<exists>ys. freeze_list xs = Inr ys \<and> map unfreeze_metadata_value ys = xs"
  "(ts :: pydict) = ts"
proof (induction v and kvs and xs and ts
    rule: freeze_metadata_value_freeze_items_freeze_list_freeze_set.induct)
  case (3 kvs)
  then obtain ws where ws: "freeze_items kvs = Inr ws"
    "map (\<lambda>(k, w). (k, unfreeze_metadata_value w)) ws = kvs" by auto
  from ws(2) have "map fst ws = map fst kvs"
    by (metis (no_types, lifting) case_prod_beta fst_conv length_map nth_equalityI nth_map)
  with 3 have "dict_of [] ws = ws" by (intro dict_of_id [of "[]", simplified]) (simp add: clean_keys_def)
  with ws show ?case by simp
qed (auto simp: clean_metadata_key_ok clean_keys_def)

lemma freeze_mapping_json:
  assumes "from_mapping d = Inr m"
  shows "json_dict (as_dict m)"
proof -
  from assms obtain ws where ws: "freeze_items (case d of None \<Rightarrow> [] | Some d \<Rightarrow> d) = Inr ws"
    "m = \<lparr>md_values = dict_of [] ws\<rparr>"
    by (auto simp: from_mapping_def freeze_metadata_mapping_def)
  then have "freeze_metadata_value (PMap (case d of None \<Rightarrow> [] | Some d \<Rightarrow> d)) = Inr (PMap (md_values m))"
    by simp
  then have "frozen_value (PMap (md_values m))" by (rule freeze_frozen)
  then have "json_value (unfreeze_metadata_value (PMap (md_values m)))" by (rule unfreeze_json)
  then show ?thesis by (simp add: json_dict_def as_dict_def)
qed

lemma json_dict_normal:
  assumes "json_dict d"
  shows "\<exists>m. from_mapping (Some d) = Inr m \<and> as_dict m = d"
proof -
  from assms json_freeze(1) [of "PMap d"] obtain w where
    "freeze_metadata_value (PMap d) = Inr w" "unfreeze_metadata_value w = PMap d"
    by (auto simp: json_dict_def)
  then show ?thesis
    by (auto simp: from_mapping_def freeze_metadata_mapping_def as_dict_def)
qed

end
