(* ===== verification/State_Machine.thy ===== *)
theory State_Machine
  imports Cell_Prelude
begin

text \<open>
  The Control Plane state-machine value object (\<open>domain/state_machine.py\<close>), string enums, the
  aggregate shape shared by the domain classes, and the two contracts the aggregates keep.

  \<^item> \<open>state_machine\<close> is a transition table in dictionary order; a frozenset of targets is a list
    read as a set. \<open>from_transitions\<close> rejects a table whose targets have no row.
  \<^item> \<open>str_enum\<close> is the contract of a Python \<open>StrEnum\<close>: parsing and printing are inverse.
  \<^item> \<open>lifecycle\<close> is the contract of an aggregate with a guarded \<open>transition_to\<close> and an in-memory
    event list. Its lemmas are proved once here and every aggregate interprets it:
    the events form a path of the table from the initial to the current status, and a
    terminal status absorbs every further command. \<open>noop_lifecycle\<close> adds that the current
    status is accepted as a target without effect, \<open>strict_lifecycle\<close> that it is not.
\<close>

section \<open>Transition tables\<close>

record 'a state_machine =
  transitions :: "('a \<times> 'a list) list"

definition missing_targets :: "('a \<times> 'a list) list \<Rightarrow> 'a list" where
  "missing_targets normalized =
     remdups (filter (\<lambda>t. map_of normalized t = None) (concat (map snd normalized)))"

definition state_machine_new :: "('a \<Rightarrow> string) \<Rightarrow> ('a \<times> 'a list) list \<Rightarrow> exc + 'a state_machine" where
  "state_machine_new str table =
     (let normalized = map (\<lambda>(s, ts). (s, remdups ts)) table;
          missing = missing_targets normalized
      in if missing \<noteq> []
         then Inl (InvalidControlPlaneStateMachineError
                (''missing_transition_rows:'' @ py_join '', '' (sort (map str missing))))
         else Inr \<lparr>transitions = normalized\<rparr>)"

definition from_transitions :: "('a \<Rightarrow> string) \<Rightarrow> ('a \<times> 'a list) list \<Rightarrow> exc + 'a state_machine" where
  "from_transitions str table = state_machine_new str (map (\<lambda>(s, ts). (s, remdups ts)) table)"

definition terminal_states :: "'a state_machine \<Rightarrow> 'a list" where
  "terminal_states m = map fst (filter (\<lambda>(s, ts). ts = []) (transitions m))"

definition allowed_targets :: "('a \<Rightarrow> string) \<Rightarrow> 'a state_machine \<Rightarrow> 'a \<Rightarrow> exc + 'a list" where
  "allowed_targets str m current =
     (case map_of (transitions m) current of
        Some ts \<Rightarrow> Inr ts
      | None \<Rightarrow> Inl (InvalidControlPlaneStateMachineError (''unknown_current_state:'' @ str current)))"

definition can_transition :: "('a \<Rightarrow> string) \<Rightarrow> 'a state_machine \<Rightarrow> 'a \<Rightarrow> 'a \<Rightarrow> exc + bool" where
  "can_transition str m current target =
     bindE (allowed_targets str m current) (\<lambda>ts. Inr (target \<in> set ts))"

definition is_terminal :: "('a \<Rightarrow> string) \<Rightarrow> 'a state_machine \<Rightarrow> 'a \<Rightarrow> exc + bool" where
  "is_terminal str m state = bindE (allowed_targets str m state) (\<lambda>ts. Inr (ts = []))"

definition ensure_can_transition ::
  "('a \<Rightarrow> string) \<Rightarrow> 'a state_machine \<Rightarrow> 'a \<Rightarrow> 'a \<Rightarrow> string \<Rightarrow> (string \<Rightarrow> exc) \<Rightarrow> string \<Rightarrow> exc + unit"
where
  "ensure_can_transition str m current target subject error_type transition_name =
     bindE (can_transition str m current target) (\<lambda>ok.
       if ok then Inr ()
       else Inl (error_type (subject @ '': illegal '' @ transition_name @ '' '' @
                             str current @ '' -> '' @ str target)))"

text \<open>A module constant \<open>STATE_MACHINE\<close>; building it raises at import when the table is bad.\<close>

definition machine_of :: "('a \<Rightarrow> string) \<Rightarrow> ('a \<times> 'a list) list \<Rightarrow> 'a state_machine" where
  "machine_of str table =
     (case from_transitions str table of Inr m \<Rightarrow> m | Inl e \<Rightarrow> \<lparr>transitions = []\<rparr>)"

text \<open>The edges of a machine, as a relation.\<close>

definition edge :: "'a state_machine \<Rightarrow> 'a \<Rightarrow> 'a \<Rightarrow> bool" where
  "edge m s t \<longleftrightarrow> (case map_of (transitions m) s of None \<Rightarrow> False | Some ts \<Rightarrow> t \<in> set ts)"

section \<open>String enums and their arguments\<close>

text \<open>An argument of type \<open>Enum | str | None\<close>.\<close>

datatype 'e enum_arg = NoneArg | EnumArg 'e | StrArg string

definition enum_parse :: "string \<Rightarrow> ('e \<Rightarrow> string) \<Rightarrow> 'e list \<Rightarrow> string \<Rightarrow> exc + 'e" where
  "enum_parse cls value members s =
     (case find (\<lambda>e. value e = s) members of
        Some e \<Rightarrow> Inr e
      | None \<Rightarrow> Inl (EnumValueError cls s))"

definition enum_of_arg :: "(string \<Rightarrow> exc + 'e) \<Rightarrow> 'e enum_arg \<Rightarrow> exc + 'e option" where
  "enum_of_arg parse v =
     (case v of NoneArg \<Rightarrow> Inr None
      | EnumArg e \<Rightarrow> Inr (Some e)
      | StrArg s \<Rightarrow> bindE (parse s) (\<lambda>e. Inr (Some e)))"

section \<open>Aggregates\<close>

record ('r, 'ev) aggregate =
  agg_record :: 'r
  agg_events :: "'ev list"

definition from_record :: "'r \<Rightarrow> ('r, 'ev) aggregate" where
  "from_record r = \<lparr>agg_record = r, agg_events = []\<rparr>"

definition pull_events :: "(('r, 'ev) aggregate, 'ev list) op" where
  "pull_events a = (Inr (agg_events a), a\<lparr>agg_events := []\<rparr>)"

text \<open>Issuing a sequence of commands, each of which may raise and be handled by the caller.\<close>

definition attempts :: "('c \<Rightarrow> ('a, unit) op) \<Rightarrow> 'c list \<Rightarrow> 'a \<Rightarrow> 'a" where
  "attempts cmd cs a = fold (\<lambda>c a. snd (cmd c a)) cs a"

text \<open>A list of (from, to) pairs that leads from one status to another along the edges.\<close>

fun trail_path :: "('s \<Rightarrow> 's \<Rightarrow> bool) \<Rightarrow> 's \<Rightarrow> ('s \<times> 's) list \<Rightarrow> 's \<Rightarrow> bool" where
  "trail_path R s [] t = (s = t)"
| "trail_path R s ((a, b) # es) t = (a = s \<and> R a b \<and> trail_path R b es t)"

section \<open>Lemmas on tables\<close>

lemma edge_can_transition:
  "can_transition str m s t = Inr b \<Longrightarrow> b \<longleftrightarrow> edge m s t"
  by (auto simp: can_transition_def allowed_targets_def edge_def split: option.splits)

lemma ensure_can_transition_ok:
  "ensure_can_transition str m s t subj err nm = Inr u \<longleftrightarrow> edge m s t"
  by (auto simp: ensure_can_transition_def can_transition_def allowed_targets_def edge_def
      split: option.splits)

lemma ensure_can_transition_err:
  assumes "ensure_can_transition str m s t subj err nm = Inl e"
  shows "\<not> edge m s t"
  using assms
  by (auto simp: ensure_can_transition_def can_transition_def allowed_targets_def edge_def
      split: option.splits if_splits)

lemma ensure_can_transition_illegal:
  assumes "s \<in> set (map fst (transitions m))" and "\<not> edge m s t"
  shows "ensure_can_transition str m s t subj err nm =
     Inl (err (subj @ '': illegal '' @ nm @ '' '' @ str s @ '' -> '' @ str t))"
proof -
  obtain ts where "map_of (transitions m) s = Some ts"
    using assms(1) by (metis list.set_map map_of_eq_None_iff not_None_eq)
  with assms(2) show ?thesis
    by (simp add: ensure_can_transition_def can_transition_def allowed_targets_def edge_def)
qed

lemma map_of_remdups_rows [simp]:
  "map_of (map (\<lambda>(s, ts). (s, remdups ts)) table) s = map_option remdups (map_of table s)"
  by (induction table) auto

lemma concat_remdups_rows: "set (concat (map snd (map (\<lambda>(s, ts). (s, remdups ts)) table))) =
    set (concat (map snd table))"
  by (induction table) auto

lemma from_transitions_ok_iff:
  "(\<exists>m. from_transitions str table = Inr m) \<longleftrightarrow>
     (\<forall>row \<in> set table. set (snd row) \<subseteq> fst ` set table)"
proof -
  have "missing_targets (map (\<lambda>(s, ts). (s, remdups ts)) table) = [] \<longleftrightarrow>
      (\<forall>t \<in> set (concat (map snd table)). map_of table t \<noteq> None)"
    by (auto simp: missing_targets_def filter_empty_conv simp flip: concat_remdups_rows)
  also have "\<dots> \<longleftrightarrow> (\<forall>row \<in> set table. set (snd row) \<subseteq> fst ` set table)"
    by (auto simp: map_of_eq_None_iff)
  finally show ?thesis
    by (auto simp: from_transitions_def state_machine_new_def Let_def comp_def split_def
        distinct_remdups_id)
qed

lemma machine_of_edge:
  assumes "\<forall>row \<in> set table. set (snd row) \<subseteq> fst ` set table"
  shows "edge (machine_of str table) s t \<longleftrightarrow>
     (case map_of table s of None \<Rightarrow> False | Some ts \<Rightarrow> t \<in> set ts)"
proof -
  obtain m where m: "from_transitions str table = Inr m"
    using assms from_transitions_ok_iff by blast
  then have "transitions m = map (\<lambda>(s, ts). (s, remdups ts)) table"
    by (auto simp: from_transitions_def state_machine_new_def Let_def comp_def split_def
        distinct_remdups_id split: if_splits)
  with m show ?thesis
    by (auto simp: machine_of_def edge_def split: option.splits)
qed

lemma trail_path_append:
  "trail_path R s (xs @ ys) t \<longleftrightarrow> (\<exists>m. trail_path R s xs m \<and> trail_path R m ys t)"
  by (induction R s xs t rule: trail_path.induct) auto

lemma trail_path_rtranclp: "trail_path R s es t \<Longrightarrow> R\<^sup>*\<^sup>* s t"
  by (induction R s es t rule: trail_path.induct) (auto intro: converse_rtranclp_into_rtranclp)

lemma attempts_Nil [simp]: "attempts cmd [] a = a"
  by (simp add: attempts_def)

lemma attempts_Cons [simp]: "attempts cmd (c # cs) a = attempts cmd cs (snd (cmd c a))"
  by (simp add: attempts_def)

lemma attempts_append: "attempts cmd (cs @ ds) a = attempts cmd ds (attempts cmd cs a)"
  by (simp add: attempts_def)

section \<open>The enum contract\<close>

locale str_enum =
  fixes cls :: string and val :: "'e \<Rightarrow> string" and members :: "'e list"
  assumes members_all: "set members = UNIV"
    and val_inj: "inj val"
begin

lemma parse_print: "enum_parse cls val members (val e) = Inr e"
proof -
  have "find (\<lambda>e'. val e' = val e) members = Some e"
  proof (cases "find (\<lambda>e'. val e' = val e) members")
    case None
    then have "val e \<noteq> val e" using members_all unfolding find_None_iff by blast
    then show ?thesis by simp
  next
    case (Some e')
    then show ?thesis using val_inj by (auto simp: find_Some_iff inj_eq)
  qed
  then show ?thesis by (simp add: enum_parse_def)
qed

lemma print_parse: "enum_parse cls val members s = Inr e \<Longrightarrow> val e = s"
  by (auto simp: enum_parse_def find_Some_iff split: option.splits)

lemma parse_ok_iff: "enum_parse cls val members s = Inr e \<longleftrightarrow> s = val e"
  using parse_print print_parse by auto

lemma parse_fails_iff: "enum_parse cls val members s = Inl x \<longleftrightarrow> s \<notin> range val \<and> x = EnumValueError cls s"
  using members_all by (auto simp: enum_parse_def find_None_iff find_Some_iff split: option.splits)

lemma arg_enum: "enum_of_arg (enum_parse cls val members) (EnumArg e) = Inr (Some e)"
  and arg_str: "enum_of_arg (enum_parse cls val members) (StrArg (val e)) = Inr (Some e)"
  by (simp_all add: enum_of_arg_def parse_print)

end

section \<open>The lifecycle contract\<close>

locale lifecycle =
  fixes R :: "'s \<Rightarrow> 's \<Rightarrow> bool"
    and status :: "'a \<Rightarrow> exc + 's"
    and trail :: "'a \<Rightarrow> ('s \<times> 's) list"
    and target :: "'c \<Rightarrow> exc + 's option"
    and step :: "'c \<Rightarrow> ('a, unit) op"
  assumes step_ok: "step c a = (Inr (), a') \<Longrightarrow>
      (\<exists>s t. target c = Inr (Some t) \<and> status a = Inr s \<and> status a' = Inr t \<and>
         (s = t \<and> a' = a \<or> R s t \<and> trail a' = trail a @ [(s, t)]))"
    and step_err: "step c a = (Inl e, a') \<Longrightarrow> a' = a"
    and step_enabled: "target c = Inr (Some t) \<Longrightarrow> status a = Inr s \<Longrightarrow> R s t \<Longrightarrow>
      \<exists>a'. step c a = (Inr (), a')"
    and step_guard: "target c = Inr (Some t) \<Longrightarrow> status a = Inr s \<Longrightarrow> s \<noteq> t \<Longrightarrow> \<not> R s t \<Longrightarrow>
      \<exists>e. step c a = (Inl e, a)"
begin

lemma step_cases:
  obtains "snd (step c a) = a"
  | s t where "status a = Inr s" "status (snd (step c a)) = Inr t" "R s t"
      "trail (snd (step c a)) = trail a @ [(s, t)]"
proof (cases "step c a")
  case (Pair r a')
  show ?thesis
  proof (cases r)
    case (Inl e)
    with Pair step_err that(1) show ?thesis by auto
  next
    case (Inr u)
    with Pair step_ok [of c a a'] that show ?thesis by auto
  qed
qed

lemma attempts_trail:
  assumes "status a = Inr s"
  shows "\<exists>t es. status (attempts step cs a) = Inr t \<and>
           trail (attempts step cs a) = trail a @ es \<and> trail_path R s es t"
  using assms
proof (induction cs arbitrary: a s)
  case (Cons c cs)
  show ?case
  proof (cases rule: step_cases [of c a])
    case 1
    with Cons show ?thesis by simp
  next
    case (2 s' t')
    from Cons.IH [OF 2(2)] obtain t es where
      "status (attempts step (c # cs) a) = Inr t"
      "trail (attempts step (c # cs) a) = trail a @ (s', t') # es" "trail_path R t' es t"
      using 2(4) by auto
    with 2 Cons.prems show ?thesis by (intro exI [of _ t] exI [of _ "(s', t') # es"]) auto
  qed
qed simp

lemma attempts_path:
  assumes "status a = Inr s" and "trail a = []"
  shows "\<exists>t. status (attempts step cs a) = Inr t \<and> trail_path R s (trail (attempts step cs a)) t"
  using attempts_trail [OF assms(1), of cs] assms(2) by auto

lemma attempts_reachable:
  assumes "status a = Inr s"
  shows "\<exists>t. status (attempts step cs a) = Inr t \<and> R\<^sup>*\<^sup>* s t"
  using attempts_trail [OF assms, of cs] trail_path_rtranclp by metis

lemma terminal_absorbs:
  assumes "status a = Inr s" and "\<And>t. \<not> R s t"
  shows "attempts step cs a = a"
  using assms(1)
proof (induction cs)
  case (Cons c cs)
  have "snd (step c a) = a"
    by (cases rule: step_cases [of c a]) (use assms in auto)
  with Cons show ?case by simp
qed simp

lemma step_iff:
  assumes "target c = Inr (Some t)" and "status a = Inr s" and "s \<noteq> t"
  shows "(\<exists>a'. step c a = (Inr (), a')) \<longleftrightarrow> R s t"
  using step_enabled [OF assms(1,2)] step_guard [OF assms] by force

end

locale noop_lifecycle = lifecycle +
  assumes self_noop: "target c = Inr (Some s) \<Longrightarrow> status a = Inr s \<Longrightarrow> step c a = (Inr (), a)"
begin

lemma repeat_idempotent:
  assumes "step c a = (Inr (), a')"
  shows "step c a' = (Inr (), a')"
proof -
  from step_ok [OF assms] obtain t where "target c = Inr (Some t)" "status a' = Inr t" by auto
  then show ?thesis by (rule self_noop)
qed

end

locale strict_lifecycle = lifecycle +
  assumes irreflexive: "\<not> R s s"
    and self_rejected: "target c = Inr (Some s) \<Longrightarrow> status a = Inr s \<Longrightarrow> \<exists>e. step c a = (Inl e, a)"
begin

lemma success_is_an_edge:
  assumes "step c a = (Inr (), a')"
  shows "\<exists>s t. status a = Inr s \<and> status a' = Inr t \<and> R s t \<and> trail a' = trail a @ [(s, t)]"
proof -
  from step_ok [OF assms] obtain s t where st: "target c = Inr (Some t)" "status a = Inr s"
    "status a' = Inr t" "s = t \<and> a' = a \<or> R s t \<and> trail a' = trail a @ [(s, t)]" by auto
  moreover have "s \<noteq> t" using self_rejected [of c s a] st assms by auto
  ultimately show ?thesis by auto
qed

lemma not_repeatable:
  assumes "step c a = (Inr (), a')"
  shows "\<exists>e. step c a' = (Inl e, a')"
proof -
  from step_ok [OF assms] obtain t where "target c = Inr (Some t)" "status a' = Inr t" by auto
  then show ?thesis by (rule self_rejected)
qed

end

end
