(* ===== verification/Control_Models.thy ===== *)
theory Control_Models
  imports Py_Values State_Machine
begin

text \<open>
  The shared data contract of the Control Plane (\<open>models.py\<close>): one datatype per \<open>StrEnum\<close> with
  its printed values, one record per Pydantic model. A record stands for a validated instance:
  an enum-typed field holds a member of the datatype (the models store the printed value, which is
  the same information by the \<open>str_enum\<close> contract interpreted for every enum below), text
  fields are already trimmed by the model configuration. \<open>AgentRole.status\<close> and
  \<open>BudgetPolicy.status\<close> are free text in the models and so are strings here.
\<close>

section \<open>Enums\<close>

datatype goal_status =
    GoalStatus_DRAFT
  | GoalStatus_ACTIVE
  | GoalStatus_PAUSED
  | GoalStatus_COMPLETED
  | GoalStatus_CANCELLED

fun goal_status_value :: "goal_status \<Rightarrow> string" where
  "goal_status_value GoalStatus_DRAFT = ''draft''"
| "goal_status_value GoalStatus_ACTIVE = ''active''"
| "goal_status_value GoalStatus_PAUSED = ''paused''"
| "goal_status_value GoalStatus_COMPLETED = ''completed''"
| "goal_status_value GoalStatus_CANCELLED = ''cancelled''"

definition goal_status_members :: "goal_status list" where
  "goal_status_members = [GoalStatus_DRAFT, GoalStatus_ACTIVE, GoalStatus_PAUSED, GoalStatus_COMPLETED, GoalStatus_CANCELLED]"

datatype work_item_status =
    WorkItemStatus_QUEUED
  | WorkItemStatus_READY
  | WorkItemStatus_RUNNING
  | WorkItemStatus_BLOCKED
  | WorkItemStatus_AWAITING_APPROVAL
  | WorkItemStatus_COMPLETED
  | WorkItemStatus_FAILED
  | WorkItemStatus_CANCELLED

fun work_item_status_value :: "work_item_status \<Rightarrow> string" where
  "work_item_status_value WorkItemStatus_QUEUED = ''queued''"
| "work_item_status_value WorkItemStatus_READY = ''ready''"
| "work_item_status_value WorkItemStatus_RUNNING = ''running''"
| "work_item_status_value WorkItemStatus_BLOCKED = ''blocked''"
| "work_item_status_value WorkItemStatus_AWAITING_APPROVAL = ''awaiting_approval''"
| "work_item_status_value WorkItemStatus_COMPLETED = ''completed''"
| "work_item_status_value WorkItemStatus_FAILED = ''failed''"
| "work_item_status_value WorkItemStatus_CANCELLED = ''cancelled''"

definition work_item_status_members :: "work_item_status list" where
  "work_item_status_members = [WorkItemStatus_QUEUED, WorkItemStatus_READY, WorkItemStatus_RUNNING, WorkItemStatus_BLOCKED, WorkItemStatus_AWAITING_APPROVAL, WorkItemStatus_COMPLETED, WorkItemStatus_FAILED, WorkItemStatus_CANCELLED]"

datatype work_item_priority =
    WorkItemPriority_LOW
  | WorkItemPriority_MEDIUM
  | WorkItemPriority_HIGH
  | WorkItemPriority_CRITICAL

fun work_item_priority_value :: "work_item_priority \<Rightarrow> string" where
  "work_item_priority_value WorkItemPriority_LOW = ''low''"
| "work_item_priority_value WorkItemPriority_MEDIUM = ''medium''"
| "work_item_priority_value WorkItemPriority_HIGH = ''high''"
| "work_item_priority_value WorkItemPriority_CRITICAL = ''critical''"

definition work_item_priority_members :: "work_item_priority list" where
  "work_item_priority_members = [WorkItemPriority_LOW, WorkItemPriority_MEDIUM, WorkItemPriority_HIGH, WorkItemPriority_CRITICAL]"

datatype agent_kind =
    AgentKind_ORGANIZATION_ROLE
  | AgentKind_BUSINESS_RUNTIME_AGENT
  | AgentKind_CAPABILITY_MODULE
  | AgentKind_INTEGRATION_GATEWAY
  | AgentKind_SYSTEM_WORKER

fun agent_kind_value :: "agent_kind \<Rightarrow> string" where
  "agent_kind_value AgentKind_ORGANIZATION_ROLE = ''organization_role''"
| "agent_kind_value AgentKind_BUSINESS_RUNTIME_AGENT = ''business_runtime_agent''"
| "agent_kind_value AgentKind_CAPABILITY_MODULE = ''capability_module''"
| "agent_kind_value AgentKind_INTEGRATION_GATEWAY = ''integration_gateway''"
| "agent_kind_value AgentKind_SYSTEM_WORKER = ''system_worker''"

definition agent_kind_members :: "agent_kind list" where
  "agent_kind_members = [AgentKind_ORGANIZATION_ROLE, AgentKind_BUSINESS_RUNTIME_AGENT, AgentKind_CAPABILITY_MODULE, AgentKind_INTEGRATION_GATEWAY, AgentKind_SYSTEM_WORKER]"

datatype agent_interaction_mode =
    AgentInteractionMode_DIRECT
  | AgentInteractionMode_ROUTED
  | AgentInteractionMode_INTERNAL
  | AgentInteractionMode_NONE

fun agent_interaction_mode_value :: "agent_interaction_mode \<Rightarrow> string" where
  "agent_interaction_mode_value AgentInteractionMode_DIRECT = ''direct''"
| "agent_interaction_mode_value AgentInteractionMode_ROUTED = ''routed''"
| "agent_interaction_mode_value AgentInteractionMode_INTERNAL = ''internal''"
| "agent_interaction_mode_value AgentInteractionMode_NONE = ''none''"

definition agent_interaction_mode_members :: "agent_interaction_mode list" where
  "agent_interaction_mode_members = [AgentInteractionMode_DIRECT, AgentInteractionMode_ROUTED, AgentInteractionMode_INTERNAL, AgentInteractionMode_NONE]"

datatype agent_run_status =
    AgentRunStatus_PENDING
  | AgentRunStatus_RUNNING
  | AgentRunStatus_SUCCEEDED
  | AgentRunStatus_FAILED
  | AgentRunStatus_CANCELLED
  | AgentRunStatus_TIMED_OUT

fun agent_run_status_value :: "agent_run_status \<Rightarrow> string" where
  "agent_run_status_value AgentRunStatus_PENDING = ''pending''"
| "agent_run_status_value AgentRunStatus_RUNNING = ''running''"
| "agent_run_status_value AgentRunStatus_SUCCEEDED = ''succeeded''"
| "agent_run_status_value AgentRunStatus_FAILED = ''failed''"
| "agent_run_status_value AgentRunStatus_CANCELLED = ''cancelled''"
| "agent_run_status_value AgentRunStatus_TIMED_OUT = ''timed_out''"

definition agent_run_status_members :: "agent_run_status list" where
  "agent_run_status_members = [AgentRunStatus_PENDING, AgentRunStatus_RUNNING, AgentRunStatus_SUCCEEDED, AgentRunStatus_FAILED, AgentRunStatus_CANCELLED, AgentRunStatus_TIMED_OUT]"

datatype decision_status =
    DecisionStatus_PROPOSED
  | DecisionStatus_ACCEPTED
  | DecisionStatus_REJECTED
  | DecisionStatus_SUPERSEDED

fun decision_status_value :: "decision_status \<Rightarrow> string" where
  "decision_status_value DecisionStatus_PROPOSED = ''proposed''"
| "decision_status_value DecisionStatus_ACCEPTED = ''accepted''"
| "decision_status_value DecisionStatus_REJECTED = ''rejected''"
| "decision_status_value DecisionStatus_SUPERSEDED = ''superseded''"

definition decision_status_members :: "decision_status list" where
  "decision_status_members = [DecisionStatus_PROPOSED, DecisionStatus_ACCEPTED, DecisionStatus_REJECTED, DecisionStatus_SUPERSEDED]"

datatype approval_category =
    ApprovalCategory_FINANCE
  | ApprovalCategory_LEGAL
  | ApprovalCategory_CUSTOMER
  | ApprovalCategory_TECHNICAL

fun approval_category_value :: "approval_category \<Rightarrow> string" where
  "approval_category_value ApprovalCategory_FINANCE = ''finance''"
| "approval_category_value ApprovalCategory_LEGAL = ''legal''"
| "approval_category_value ApprovalCategory_CUSTOMER = ''customer''"
| "approval_category_value ApprovalCategory_TECHNICAL = ''technical''"

definition approval_category_members :: "approval_category list" where
  "approval_category_members = [ApprovalCategory_FINANCE, ApprovalCategory_LEGAL, ApprovalCategory_CUSTOMER, ApprovalCategory_TECHNICAL]"

datatype approval_status =
    ApprovalStatus_PENDING
  | ApprovalStatus_APPROVED
  | ApprovalStatus_REJECTED
  | ApprovalStatus_EXPIRED
  | ApprovalStatus_CANCELLED

fun approval_status_value :: "approval_status \<Rightarrow> string" where
  "approval_status_value ApprovalStatus_PENDING = ''pending''"
| "approval_status_value ApprovalStatus_APPROVED = ''approved''"
| "approval_status_value ApprovalStatus_REJECTED = ''rejected''"
| "approval_status_value ApprovalStatus_EXPIRED = ''expired''"
| "approval_status_value ApprovalStatus_CANCELLED = ''cancelled''"

definition approval_status_members :: "approval_status list" where
  "approval_status_members = [ApprovalStatus_PENDING, ApprovalStatus_APPROVED, ApprovalStatus_REJECTED, ApprovalStatus_EXPIRED, ApprovalStatus_CANCELLED]"

datatype artifact_type =
    ArtifactType_PRD
  | ArtifactType_REPORT
  | ArtifactType_QA_RESULT
  | ArtifactType_ISSUE
  | ArtifactType_MERGE_REQUEST
  | ArtifactType_CODE_PATCH
  | ArtifactType_RUN_WALKTHROUGH
  | ArtifactType_OTHER

fun artifact_type_value :: "artifact_type \<Rightarrow> string" where
  "artifact_type_value ArtifactType_PRD = ''prd''"
| "artifact_type_value ArtifactType_REPORT = ''report''"
| "artifact_type_value ArtifactType_QA_RESULT = ''qa_result''"
| "artifact_type_value ArtifactType_ISSUE = ''issue''"
| "artifact_type_value ArtifactType_MERGE_REQUEST = ''merge_request''"
| "artifact_type_value ArtifactType_CODE_PATCH = ''code_patch''"
| "artifact_type_value ArtifactType_RUN_WALKTHROUGH = ''run_walkthrough''"
| "artifact_type_value ArtifactType_OTHER = ''other''"

definition artifact_type_members :: "artifact_type list" where
  "artifact_type_members = [ArtifactType_PRD, ArtifactType_REPORT, ArtifactType_QA_RESULT, ArtifactType_ISSUE, ArtifactType_MERGE_REQUEST, ArtifactType_CODE_PATCH, ArtifactType_RUN_WALKTHROUGH, ArtifactType_OTHER]"

datatype budget_scope =
    BudgetScope_COMPANY
  | BudgetScope_GOAL
  | BudgetScope_AGENT
  | BudgetScope_WORK_ITEM

fun budget_scope_value :: "budget_scope \<Rightarrow> string" where
  "budget_scope_value BudgetScope_COMPANY = ''company''"
| "budget_scope_value BudgetScope_GOAL = ''goal''"
| "budget_scope_value BudgetScope_AGENT = ''agent''"
| "budget_scope_value BudgetScope_WORK_ITEM = ''work_item''"

definition budget_scope_members :: "budget_scope list" where
  "budget_scope_members = [BudgetScope_COMPANY, BudgetScope_GOAL, BudgetScope_AGENT, BudgetScope_WORK_ITEM]"

datatype budget_period =
    BudgetPeriod_DAILY
  | BudgetPeriod_MONTHLY
  | BudgetPeriod_QUARTERLY
  | BudgetPeriod_TOTAL

fun budget_period_value :: "budget_period \<Rightarrow> string" where
  "budget_period_value BudgetPeriod_DAILY = ''daily''"
| "budget_period_value BudgetPeriod_MONTHLY = ''monthly''"
| "budget_period_value BudgetPeriod_QUARTERLY = ''quarterly''"
| "budget_period_value BudgetPeriod_TOTAL = ''total''"

definition budget_period_members :: "budget_period list" where
  "budget_period_members = [BudgetPeriod_DAILY, BudgetPeriod_MONTHLY, BudgetPeriod_QUARTERLY, BudgetPeriod_TOTAL]"

datatype evolution_tier =
    EvolutionTier_L1
  | EvolutionTier_L2
  | EvolutionTier_L3

fun evolution_tier_value :: "evolution_tier \<Rightarrow> string" where
  "evolution_tier_value EvolutionTier_L1 = ''L1''"
| "evolution_tier_value EvolutionTier_L2 = ''L2''"
| "evolution_tier_value EvolutionTier_L3 = ''L3''"

definition evolution_tier_members :: "evolution_tier list" where
  "evolution_tier_members = [EvolutionTier_L1, EvolutionTier_L2, EvolutionTier_L3]"

datatype evolution_rollout_state =
    EvolutionRolloutState_PROPOSED
  | EvolutionRolloutState_SHADOW
  | EvolutionRolloutState_CANARY
  | EvolutionRolloutState_ACTIVE
  | EvolutionRolloutState_ROLLED_BACK
  | EvolutionRolloutState_REJECTED

fun evolution_rollout_state_value :: "evolution_rollout_state \<Rightarrow> string" where
  "evolution_rollout_state_value EvolutionRolloutState_PROPOSED = ''proposed''"
| "evolution_rollout_state_value EvolutionRolloutState_SHADOW = ''shadow''"
| "evolution_rollout_state_value EvolutionRolloutState_CANARY = ''canary''"
| "evolution_rollout_state_value EvolutionRolloutState_ACTIVE = ''active''"
| "evolution_rollout_state_value EvolutionRolloutState_ROLLED_BACK = ''rolled_back''"
| "evolution_rollout_state_value EvolutionRolloutState_REJECTED = ''rejected''"

definition evolution_rollout_state_members :: "evolution_rollout_state list" where
  "evolution_rollout_state_members = [EvolutionRolloutState_PROPOSED, EvolutionRolloutState_SHADOW, EvolutionRolloutState_CANARY, EvolutionRolloutState_ACTIVE, EvolutionRolloutState_ROLLED_BACK, EvolutionRolloutState_REJECTED]"

section \<open>Models\<close>

record company_context =
  c_company_id :: string
  c_name :: string
  c_mission :: string
  c_metadata :: pydict
  c_created_at :: pydt
  c_updated_at :: pydt

record goal =
  g_goal_id :: string
  g_company_id :: string
  g_title :: string
  g_description :: string
  g_status :: goal_status
  g_parent_goal_id :: "string option"
  g_owner_agent_id :: "string option"
  g_owner_user_id :: "string option"
  g_success_metric :: string
  g_target_value :: "pyfloat option"
  g_current_value :: "pyfloat option"
  g_due_at :: "pydt option"
  g_tags :: "string list"
  g_metadata :: pydict
  g_created_at :: pydt
  g_updated_at :: pydt

record agent_role =
  ar_role_id :: string
  ar_company_id :: string
  ar_agent_id :: string
  ar_display_name :: string
  ar_agent_kind :: agent_kind
  ar_interaction_mode :: agent_interaction_mode
  ar_role :: string
  ar_title :: string
  ar_domain :: string
  ar_reports_to_agent_id :: "string option"
  ar_adapter_type :: string
  ar_adapter_config :: pydict
  ar_context_sources :: "string list"
  ar_capabilities :: "string list"
  ar_responsibilities :: "string list"
  ar_subscribed_events :: "string list"
  ar_published_events :: "string list"
  ar_permissions :: "string list"
  ar_budget_policy_id :: "string option"
  ar_escalation_policy :: pydict
  ar_status :: string
  ar_created_by :: string
  ar_metadata :: pydict
  ar_created_at :: pydt
  ar_updated_at :: pydt

record agent_prompt_config =
  pc_company_id :: string
  pc_agent_id :: string
  pc_system_prompt :: string
  pc_updated_by :: string
  pc_metadata :: pydict
  pc_created_at :: pydt
  pc_updated_at :: pydt

record work_item =
  w_work_item_id :: string
  w_company_id :: string
  w_title :: string
  w_description :: string
  w_status :: work_item_status
  w_priority :: work_item_priority
  w_goal_id :: "string option"
  w_owner_agent_id :: "string option"
  w_owner_user_id :: "string option"
  w_source :: string
  w_external_ref :: "string option"
  w_dependencies :: "string list"
  w_approval_required :: bool
  w_metadata :: pydict
  w_created_at :: pydt
  w_updated_at :: pydt

record agent_run =
  r_run_id :: string
  r_company_id :: string
  r_agent_id :: string
  r_status :: agent_run_status
  r_trace_id :: "string option"
  r_goal_id :: "string option"
  r_work_item_id :: "string option"
  r_trigger_event_id :: "string option"
  r_input_event :: "pydict option"
  r_output_events :: "pydict list"
  r_started_at :: pydt
  r_completed_at :: "pydt option"
  r_error_category :: "string option"
  r_error_message :: "string option"
  r_last_successful_step :: "string option"
  r_cost_usd :: pyfloat
  r_input_tokens :: int
  r_output_tokens :: int
  r_metadata :: pydict

record decision =
  d_decision_id :: string
  d_company_id :: string
  d_title :: string
  d_rationale :: string
  d_status :: decision_status
  d_run_id :: "string option"
  d_work_item_id :: "string option"
  d_goal_id :: "string option"
  d_options :: "pydict list"
  d_selected_option :: "string option"
  d_decided_by :: "string option"
  d_metadata :: pydict
  d_created_at :: pydt
  d_updated_at :: pydt

record approval_request =
  ap_approval_id :: string
  ap_company_id :: string
  ap_category :: approval_category
  ap_status :: approval_status
  ap_requested_by :: string
  ap_source_agent_id :: string
  ap_proposed_action :: string
  ap_reason :: string
  ap_risk :: string
  ap_rollback_note :: string
  ap_affected_resources :: "string list"
  ap_artifact_links :: "string list"
  ap_run_id :: "string option"
  ap_work_item_id :: "string option"
  ap_goal_id :: "string option"
  ap_trace_id :: "string option"
  ap_resolved_by :: "string option"
  ap_resolved_at :: "pydt option"
  ap_expires_at :: "pydt option"
  ap_metadata :: pydict
  ap_created_at :: pydt
  ap_updated_at :: pydt

record artifact =
  art_artifact_id :: string
  art_company_id :: string
  art_artifact_type :: artifact_type
  art_title :: string
  art_uri :: string
  art_content_hash :: "string option"
  art_run_id :: "string option"
  art_work_item_id :: "string option"
  art_goal_id :: "string option"
  art_created_by_agent_id :: "string option"
  art_metadata :: pydict
  art_created_at :: pydt

record budget_policy =
  b_budget_id :: string
  b_company_id :: string
  b_scope :: budget_scope
  b_period :: budget_period
  b_limit_usd :: pyfloat
  b_scope_id :: "string option"
  b_warning_threshold :: pyfloat
  b_status :: string
  b_model_allowlist :: "string list"
  b_metadata :: pydict
  b_created_at :: pydt
  b_updated_at :: pydt

record budget_usage =
  bu_usage_id :: string
  bu_company_id :: string
  bu_budget_id :: string
  bu_cost_usd :: pyfloat
  bu_model :: string
  bu_input_tokens :: int
  bu_output_tokens :: int
  bu_run_id :: "string option"
  bu_trace_id :: "string option"
  bu_metadata :: pydict
  bu_created_at :: pydt

record audit_event =
  ae_audit_event_id :: string
  ae_company_id :: string
  ae_action :: string
  ae_target_type :: string
  ae_target_id :: string
  ae_actor_type :: string
  ae_actor_id :: string
  ae_trace_id :: "string option"
  ae_run_id :: "string option"
  ae_work_item_id :: "string option"
  ae_idempotency_key :: "string option"
  ae_detail :: pydict
  ae_created_at :: pydt

record evolution_proposal =
  ep_proposal_id :: string
  ep_company_id :: string
  ep_tier :: evolution_tier
  ep_scope :: string
  ep_evidence :: pydict
  ep_expected_benefit :: string
  ep_risk :: string
  ep_approval_state :: approval_status
  ep_rollout_state :: evolution_rollout_state
  ep_approval_id :: "string option"
  ep_metadata :: pydict
  ep_created_at :: pydt
  ep_updated_at :: pydt

section \<open>Validators\<close>

definition must_include_decision_context :: "string \<Rightarrow> exc + string" where
  "must_include_decision_context v =
     (if v = [] then Inl (ValueError ''approval requests require action, reason, risk, and rollback context'')
      else Inr v)"

definition limit_must_be_positive :: "pyfloat \<Rightarrow> exc + pyfloat" where
  "limit_must_be_positive v =
     (if pf_le v (Fin 0) then Inl (ValueError ''budget limit must be positive'') else Inr v)"

definition warning_threshold_must_be_ratio :: "pyfloat \<Rightarrow> exc + pyfloat" where
  "warning_threshold_must_be_ratio v =
     (if pf_le v (Fin 0) \<or> pf_less (Fin 1) v
      then Inl (ValueError ''budget warning threshold must be within (0, 1]'') else Inr v)"

definition cost_must_be_non_negative :: "pyfloat \<Rightarrow> exc + pyfloat" where
  "cost_must_be_non_negative v =
     (if pf_less v (Fin 0) then Inl (ValueError ''budget usage cost must be non-negative'') else Inr v)"

definition tokens_must_be_non_negative :: "int \<Rightarrow> exc + int" where
  "tokens_must_be_non_negative v =
     (if v < 0 then Inl (ValueError ''budget usage tokens must be non-negative'') else Inr v)"

section \<open>The enum contract on every enum\<close>

lemma goal_status_members_all: "set goal_status_members = UNIV"
proof -
  have "x \<in> set goal_status_members" for x by (cases x) (simp_all add: goal_status_members_def)
  then show ?thesis by blast
qed

interpretation goal_status_enum: str_enum "''GoalStatus''" goal_status_value goal_status_members
proof
  show "inj goal_status_value"
  proof (rule injI)
    fix x y assume "goal_status_value x = goal_status_value y"
    then show "x = y" by (cases x; cases y; simp)
  qed
qed (rule goal_status_members_all)

lemma work_item_status_members_all: "set work_item_status_members = UNIV"
proof -
  have "x \<in> set work_item_status_members" for x by (cases x) (simp_all add: work_item_status_members_def)
  then show ?thesis by blast
qed

interpretation work_item_status_enum: str_enum "''WorkItemStatus''" work_item_status_value work_item_status_members
proof
  show "inj work_item_status_value"
  proof (rule injI)
    fix x y assume "work_item_status_value x = work_item_status_value y"
    then show "x = y" by (cases x; cases y; simp)
  qed
qed (rule work_item_status_members_all)

lemma work_item_priority_members_all: "set work_item_priority_members = UNIV"
proof -
  have "x \<in> set work_item_priority_members" for x by (cases x) (simp_all add: work_item_priority_members_def)
  then show ?thesis by blast
qed

interpretation work_item_priority_enum: str_enum "''WorkItemPriority''" work_item_priority_value work_item_priority_members
proof
  show "inj work_item_priority_value"
  proof (rule injI)
    fix x y assume "work_item_priority_value x = work_item_priority_value y"
    then show "x = y" by (cases x; cases y; simp)
  qed
qed (rule work_item_priority_members_all)

lemma agent_kind_members_all: "set agent_kind_members = UNIV"
proof -
  have "x \<in> set agent_kind_members" for x by (cases x) (simp_all add: agent_kind_members_def)
  then show ?thesis by blast
qed

interpretation agent_kind_enum: str_enum "''AgentKind''" agent_kind_value agent_kind_members
proof
  show "inj agent_kind_value"
  proof (rule injI)
    fix x y assume "agent_kind_value x = agent_kind_value y"
    then show "x = y" by (cases x; cases y; simp)
  qed
qed (rule agent_kind_members_all)

lemma agent_interaction_mode_members_all: "set agent_interaction_mode_members = UNIV"
proof -
  have "x \<in> set agent_interaction_mode_members" for x by (cases x) (simp_all add: agent_interaction_mode_members_def)
  then show ?thesis by blast
qed

interpretation agent_interaction_mode_enum: str_enum "''AgentInteractionMode''" agent_interaction_mode_value agent_interaction_mode_members
proof
  show "inj agent_interaction_mode_value"
  proof (rule injI)
    fix x y assume "agent_interaction_mode_value x = agent_interaction_mode_value y"
    then show "x = y" by (cases x; cases y; simp)
  qed
qed (rule agent_interaction_mode_members_all)

lemma agent_run_status_members_all: "set agent_run_status_members = UNIV"
proof -
  have "x \<in> set agent_run_status_members" for x by (cases x) (simp_all add: agent_run_status_members_def)
  then show ?thesis by blast
qed

interpretation agent_run_status_enum: str_enum "''AgentRunStatus''" agent_run_status_value agent_run_status_members
proof
  show "inj agent_run_status_value"
  proof (rule injI)
    fix x y assume "agent_run_status_value x = agent_run_status_value y"
    then show "x = y" by (cases x; cases y; simp)
  qed
qed (rule agent_run_status_members_all)

lemma decision_status_members_all: "set decision_status_members = UNIV"
proof -
  have "x \<in> set decision_status_members" for x by (cases x) (simp_all add: decision_status_members_def)
  then show ?thesis by blast
qed

interpretation decision_status_enum: str_enum "''DecisionStatus''" decision_status_value decision_status_members
proof
  show "inj decision_status_value"
  proof (rule injI)
    fix x y assume "decision_status_value x = decision_status_value y"
    then show "x = y" by (cases x; cases y; simp)
  qed
qed (rule decision_status_members_all)

lemma approval_category_members_all: "set approval_category_members = UNIV"
proof -
  have "x \<in> set approval_category_members" for x by (cases x) (simp_all add: approval_category_members_def)
  then show ?thesis by blast
qed

interpretation approval_category_enum: str_enum "''ApprovalCategory''" approval_category_value approval_category_members
proof
  show "inj approval_category_value"
  proof (rule injI)
    fix x y assume "approval_category_value x = approval_category_value y"
    then show "x = y" by (cases x; cases y; simp)
  qed
qed (rule approval_category_members_all)

lemma approval_status_members_all: "set approval_status_members = UNIV"
proof -
  have "x \<in> set approval_status_members" for x by (cases x) (simp_all add: approval_status_members_def)
  then show ?thesis by blast
qed

interpretation approval_status_enum: str_enum "''ApprovalStatus''" approval_status_value approval_status_members
proof
  show "inj approval_status_value"
  proof (rule injI)
    fix x y assume "approval_status_value x = approval_status_value y"
    then show "x = y" by (cases x; cases y; simp)
  qed
qed (rule approval_status_members_all)

lemma artifact_type_members_all: "set artifact_type_members = UNIV"
proof -
  have "x \<in> set artifact_type_members" for x by (cases x) (simp_all add: artifact_type_members_def)
  then show ?thesis by blast
qed

interpretation artifact_type_enum: str_enum "''ArtifactType''" artifact_type_value artifact_type_members
proof
  show "inj artifact_type_value"
  proof (rule injI)
    fix x y assume "artifact_type_value x = artifact_type_value y"
    then show "x = y" by (cases x; cases y; simp)
  qed
qed (rule artifact_type_members_all)

lemma budget_scope_members_all: "set budget_scope_members = UNIV"
proof -
  have "x \<in> set budget_scope_members" for x by (cases x) (simp_all add: budget_scope_members_def)
  then show ?thesis by blast
qed

interpretation budget_scope_enum: str_enum "''BudgetScope''" budget_scope_value budget_scope_members
proof
  show "inj budget_scope_value"
  proof (rule injI)
    fix x y assume "budget_scope_value x = budget_scope_value y"
    then show "x = y" by (cases x; cases y; simp)
  qed
qed (rule budget_scope_members_all)

lemma budget_period_members_all: "set budget_period_members = UNIV"
proof -
  have "x \<in> set budget_period_members" for x by (cases x) (simp_all add: budget_period_members_def)
  then show ?thesis by blast
qed

interpretation budget_period_enum: str_enum "''BudgetPeriod''" budget_period_value budget_period_members
proof
  show "inj budget_period_value"
  proof (rule injI)
    fix x y assume "budget_period_value x = budget_period_value y"
    then show "x = y" by (cases x; cases y; simp)
  qed
qed (rule budget_period_members_all)

lemma evolution_tier_members_all: "set evolution_tier_members = UNIV"
proof -
  have "x \<in> set evolution_tier_members" for x by (cases x) (simp_all add: evolution_tier_members_def)
  then show ?thesis by blast
qed

interpretation evolution_tier_enum: str_enum "''EvolutionTier''" evolution_tier_value evolution_tier_members
proof
  show "inj evolution_tier_value"
  proof (rule injI)
    fix x y assume "evolution_tier_value x = evolution_tier_value y"
    then show "x = y" by (cases x; cases y; simp)
  qed
qed (rule evolution_tier_members_all)

lemma evolution_rollout_state_members_all: "set evolution_rollout_state_members = UNIV"
proof -
  have "x \<in> set evolution_rollout_state_members" for x by (cases x) (simp_all add: evolution_rollout_state_members_def)
  then show ?thesis by blast
qed

interpretation evolution_rollout_state_enum: str_enum "''EvolutionRolloutState''" evolution_rollout_state_value evolution_rollout_state_members
proof
  show "inj evolution_rollout_state_value"
  proof (rule injI)
    fix x y assume "evolution_rollout_state_value x = evolution_rollout_state_value y"
    then show "x = y" by (cases x; cases y; simp)
  qed
qed (rule evolution_rollout_state_members_all)

end
