(* ===== verification/Goal_Domain.thy ===== *)
theory Goal_Domain
  imports Control_Models
begin

text \<open>
  The Goal aggregate and its lifecycle policy (\<open>domain/goal.py\<close>).
\<close>

section \<open>Status vocabulary and transition table\<close>

definition goal_status_of :: "goal_status enum_arg \<Rightarrow> exc + goal_status option" where
  "goal_status_of = enum_of_arg (enum_parse ''GoalStatus'' goal_status_value goal_status_members)"

definition GOAL_VALID_TRANSITIONS :: "(goal_status \<times> goal_status list) list" where
  "GOAL_VALID_TRANSITIONS =
    [(GoalStatus_DRAFT, [GoalStatus_ACTIVE, GoalStatus_PAUSED, GoalStatus_COMPLETED, GoalStatus_CANCELLED]),
     (GoalStatus_ACTIVE, [GoalStatus_PAUSED, GoalStatus_COMPLETED, GoalStatus_CANCELLED]),
     (GoalStatus_PAUSED, [GoalStatus_ACTIVE, GoalStatus_COMPLETED, GoalStatus_CANCELLED]),
     (GoalStatus_COMPLETED, [GoalStatus_ACTIVE, GoalStatus_PAUSED, GoalStatus_CANCELLED]),
     (GoalStatus_CANCELLED, [])]"

definition GOAL_STATE_MACHINE :: "goal_status state_machine" where
  "GOAL_STATE_MACHINE = machine_of goal_status_value GOAL_VALID_TRANSITIONS"

section \<open>The aggregate\<close>

record goal_status_changed =
  gsc_goal_id :: string
  gsc_company_id :: string
  gsc_from_status :: goal_status
  gsc_to_status :: goal_status

type_synonym goal_agg = "(goal, goal_status_changed) aggregate"

definition goal_transition_to :: "goal_status enum_arg \<Rightarrow> (goal_agg, unit) op" where
  "goal_transition_to target a =
     (let rec = agg_record a; current = g_status rec; subject = ''Goal '' @ g_goal_id rec
      in case goal_status_of target of
           Inl e \<Rightarrow> (Inl e, a)
         | Inr None \<Rightarrow> (Inl (InvalidGoalTransitionError (subject @ '': missing transition target'')), a)
         | Inr (Some t) \<Rightarrow>
             if t = current then (Inr (), a) else
             (case ensure_can_transition goal_status_value GOAL_STATE_MACHINE current t subject
                     InvalidGoalTransitionError ''transition'' of
                Inl e \<Rightarrow> (Inl e, a)
              | Inr u \<Rightarrow>
                  (Inr (), a\<lparr>agg_record := rec\<lparr>g_status := t\<rparr>,
                     agg_events := agg_events a @
                       [\<lparr>gsc_goal_id = g_goal_id rec, gsc_company_id = g_company_id rec, gsc_from_status = current, gsc_to_status = t\<rparr>]\<rparr>)))"

definition goal_trail :: "goal_agg \<Rightarrow> (goal_status \<times> goal_status) list" where
  "goal_trail a = map (\<lambda>e. (gsc_from_status e, gsc_to_status e)) (agg_events a)"

definition goal_current_value_for_transition ::
  "goal_status enum_arg \<Rightarrow> pyfloat option \<Rightarrow> pyfloat option \<Rightarrow> exc + pyfloat option" where
  "goal_current_value_for_transition target_status explicit_current_value target_value =
     (case explicit_current_value of
        Some v \<Rightarrow> Inr (Some v)
      | None \<Rightarrow>
          bindE (goal_status_of target_status) (\<lambda>t.
            if t = Some GoalStatus_COMPLETED \<and> target_value \<noteq> None then Inr target_value
            else Inr None))"

definition goal_current_value_for_update :: "goal_agg \<Rightarrow> pyfloat option \<Rightarrow> exc + pyfloat option" where
  "goal_current_value_for_update a explicit_current_value =
     goal_current_value_for_transition (EnumArg (g_status (agg_record a)))
       explicit_current_value (g_target_value (agg_record a))"

definition goal_is_terminal :: "goal_agg \<Rightarrow> exc + bool" where
  "goal_is_terminal a = is_terminal goal_status_value GOAL_STATE_MACHINE (g_status (agg_record a))"

section \<open>Lemmas\<close>

lemma goal_table_closed:
  "\<forall>row \<in> set GOAL_VALID_TRANSITIONS. set (snd row) \<subseteq> fst ` set GOAL_VALID_TRANSITIONS"
  by (simp add: GOAL_VALID_TRANSITIONS_def)

lemma goal_machine_built: "\<exists>m. from_transitions goal_status_value GOAL_VALID_TRANSITIONS = Inr m"
  using from_transitions_ok_iff goal_table_closed by blast

lemma goal_edge:
  "edge GOAL_STATE_MACHINE s t \<longleftrightarrow>
     (case map_of GOAL_VALID_TRANSITIONS s of None \<Rightarrow> False | Some ts \<Rightarrow> t \<in> set ts)"
  unfolding GOAL_STATE_MACHINE_def by (rule machine_of_edge [OF goal_table_closed])

lemma goal_edge_irrefl: "\<not> edge GOAL_STATE_MACHINE s s"
  by (cases s) (simp_all add: goal_edge GOAL_VALID_TRANSITIONS_def)

lemma goal_status_of_simps [simp]:
  "goal_status_of NoneArg = Inr None"
  "goal_status_of (EnumArg e) = Inr (Some e)"
  "goal_status_of (StrArg (goal_status_value e)) = Inr (Some e)"
  by (simp_all add: goal_status_of_def enum_of_arg_def goal_status_enum.parse_print)

lemmas goal_step_defs = goal_transition_to_def goal_trail_def Let_def

interpretation goal_lc: noop_lifecycle "edge GOAL_STATE_MACHINE" "\<lambda>a. Inr (g_status (agg_record a))" goal_trail
  goal_status_of goal_transition_to
proof (unfold_locales, goal_cases)
  case (1 c a a')
  then show ?case
    by (auto simp: goal_step_defs ensure_can_transition_ok split: sum.splits option.splits if_splits)
next
  case (2 c a e a')
  then show ?case by (auto simp: goal_step_defs split: sum.splits option.splits if_splits)
next
  case (3 c t a s)
  then show ?case
    by (auto simp: goal_step_defs ensure_can_transition_ok dest: ensure_can_transition_err split: sum.splits option.splits if_splits)
next
  case (4 c t a s)
  then show ?case
    by (auto simp: goal_step_defs ensure_can_transition_ok split: sum.splits option.splits if_splits)
next
  case (5 c s a)
  then show ?case by (auto simp: goal_step_defs)
qed

end
