(* ===== verification/Work_Item_Domain.thy ===== *)
theory Work_Item_Domain
  imports Control_Models
begin

text \<open>
  The WorkItem aggregate, its lifecycle policy and the mapping from agent-run outcomes to
  work-item statuses (\<open>domain/work_item.py\<close>).
\<close>

section \<open>Status vocabulary and transition table\<close>

definition work_item_status_of :: "work_item_status enum_arg \<Rightarrow> exc + work_item_status option" where
  "work_item_status_of = enum_of_arg (enum_parse ''WorkItemStatus'' work_item_status_value work_item_status_members)"

definition WORK_ITEM_VALID_TRANSITIONS :: "(work_item_status \<times> work_item_status list) list" where
  "WORK_ITEM_VALID_TRANSITIONS =
    [(WorkItemStatus_QUEUED, [WorkItemStatus_READY, WorkItemStatus_RUNNING, WorkItemStatus_BLOCKED, WorkItemStatus_AWAITING_APPROVAL, WorkItemStatus_COMPLETED, WorkItemStatus_FAILED, WorkItemStatus_CANCELLED]),
     (WorkItemStatus_READY, [WorkItemStatus_RUNNING, WorkItemStatus_BLOCKED, WorkItemStatus_AWAITING_APPROVAL, WorkItemStatus_COMPLETED, WorkItemStatus_FAILED, WorkItemStatus_CANCELLED]),
     (WorkItemStatus_RUNNING, [WorkItemStatus_BLOCKED, WorkItemStatus_AWAITING_APPROVAL, WorkItemStatus_COMPLETED, WorkItemStatus_FAILED, WorkItemStatus_CANCELLED]),
     (WorkItemStatus_BLOCKED, [WorkItemStatus_READY, WorkItemStatus_RUNNING, WorkItemStatus_AWAITING_APPROVAL, WorkItemStatus_COMPLETED, WorkItemStatus_FAILED, WorkItemStatus_CANCELLED]),
     (WorkItemStatus_AWAITING_APPROVAL, [WorkItemStatus_READY, WorkItemStatus_RUNNING, WorkItemStatus_BLOCKED, WorkItemStatus_COMPLETED, WorkItemStatus_FAILED, WorkItemStatus_CANCELLED]),
     (WorkItemStatus_COMPLETED, [WorkItemStatus_READY, WorkItemStatus_RUNNING, WorkItemStatus_BLOCKED, WorkItemStatus_AWAITING_APPROVAL, WorkItemStatus_FAILED, WorkItemStatus_CANCELLED]),
     (WorkItemStatus_FAILED, [WorkItemStatus_RUNNING, WorkItemStatus_AWAITING_APPROVAL, WorkItemStatus_CANCELLED]),
     (WorkItemStatus_CANCELLED, [])]"

definition WORK_ITEM_STATE_MACHINE :: "work_item_status state_machine" where
  "WORK_ITEM_STATE_MACHINE = machine_of work_item_status_value WORK_ITEM_VALID_TRANSITIONS"

section \<open>The aggregate\<close>

record work_item_status_changed =
  wsc_work_item_id :: string
  wsc_company_id :: string
  wsc_from_status :: work_item_status
  wsc_to_status :: work_item_status

type_synonym work_item_agg = "(work_item, work_item_status_changed) aggregate"

definition work_item_transition_to :: "work_item_status enum_arg \<Rightarrow> (work_item_agg, unit) op" where
  "work_item_transition_to target a =
     (let rec = agg_record a; current = w_status rec; subject = ''WorkItem '' @ w_work_item_id rec
      in case work_item_status_of target of
           Inl e \<Rightarrow> (Inl e, a)
         | Inr None \<Rightarrow> (Inl (InvalidWorkItemTransitionError (subject @ '': missing transition target'')), a)
         | Inr (Some t) \<Rightarrow>
             if t = current then (Inr (), a) else
             (case ensure_can_transition work_item_status_value WORK_ITEM_STATE_MACHINE current t subject
                     InvalidWorkItemTransitionError ''transition'' of
                Inl e \<Rightarrow> (Inl e, a)
              | Inr u \<Rightarrow>
                  (Inr (), a\<lparr>agg_record := rec\<lparr>w_status := t\<rparr>,
                     agg_events := agg_events a @
                       [\<lparr>wsc_work_item_id = w_work_item_id rec, wsc_company_id = w_company_id rec, wsc_from_status = current, wsc_to_status = t\<rparr>]\<rparr>)))"

definition work_item_trail :: "work_item_agg \<Rightarrow> (work_item_status \<times> work_item_status) list" where
  "work_item_trail a = map (\<lambda>e. (wsc_from_status e, wsc_to_status e)) (agg_events a)"

definition WORK_ITEM_CLOSE_STATUSES :: "work_item_status list" where
  "WORK_ITEM_CLOSE_STATUSES =
     [WorkItemStatus_COMPLETED, WorkItemStatus_FAILED, WorkItemStatus_CANCELLED]"

definition is_work_item_close_status :: "work_item_status enum_arg \<Rightarrow> exc + bool" where
  "is_work_item_close_status status =
     bindE (work_item_status_of status) (\<lambda>typed.
       Inr (case typed of None \<Rightarrow> False | Some s \<Rightarrow> s \<in> set WORK_ITEM_CLOSE_STATUSES))"

definition agent_run_status_of :: "agent_run_status enum_arg \<Rightarrow> exc + agent_run_status option" where
  "agent_run_status_of =
     enum_of_arg (enum_parse ''AgentRunStatus'' agent_run_status_value agent_run_status_members)"

definition work_item_status_from_agent_run_status ::
  "agent_run_status enum_arg \<Rightarrow> exc + work_item_status" where
  "work_item_status_from_agent_run_status run_status =
     bindE (agent_run_status_of run_status) (\<lambda>status. Inr (
       if status = None then WorkItemStatus_RUNNING
       else if status = Some AgentRunStatus_SUCCEEDED then WorkItemStatus_COMPLETED
       else if status = Some AgentRunStatus_FAILED then WorkItemStatus_FAILED
       else if status = Some AgentRunStatus_CANCELLED then WorkItemStatus_CANCELLED
       else WorkItemStatus_RUNNING))"

definition work_item_is_closed :: "work_item_agg \<Rightarrow> exc + bool" where
  "work_item_is_closed a =
     is_terminal work_item_status_value WORK_ITEM_STATE_MACHINE (w_status (agg_record a))"

section \<open>Lemmas\<close>

lemma work_item_table_closed:
  "\<forall>row \<in> set WORK_ITEM_VALID_TRANSITIONS. set (snd row) \<subseteq> fst ` set WORK_ITEM_VALID_TRANSITIONS"
  by (simp add: WORK_ITEM_VALID_TRANSITIONS_def)

lemma work_item_machine_built: "\<exists>m. from_transitions work_item_status_value WORK_ITEM_VALID_TRANSITIONS = Inr m"
  using from_transitions_ok_iff work_item_table_closed by blast

lemma work_item_edge:
  "edge WORK_ITEM_STATE_MACHINE s t \<longleftrightarrow>
     (case map_of WORK_ITEM_VALID_TRANSITIONS s of None \<Rightarrow> False | Some ts \<Rightarrow> t \<in> set ts)"
  unfolding WORK_ITEM_STATE_MACHINE_def by (rule machine_of_edge [OF work_item_table_closed])

lemma work_item_edge_irrefl: "\<not> edge WORK_ITEM_STATE_MACHINE s s"
  by (cases s) (simp_all add: work_item_edge WORK_ITEM_VALID_TRANSITIONS_def)

lemma work_item_status_of_simps [simp]:
  "work_item_status_of NoneArg = Inr None"
  "work_item_status_of (EnumArg e) = Inr (Some e)"
  "work_item_status_of (StrArg (work_item_status_value e)) = Inr (Some e)"
  by (simp_all add: work_item_status_of_def enum_of_arg_def work_item_status_enum.parse_print)

lemmas work_item_step_defs = work_item_transition_to_def work_item_trail_def Let_def

interpretation work_item_lc: noop_lifecycle "edge WORK_ITEM_STATE_MACHINE" "\<lambda>a. Inr (w_status (agg_record a))" work_item_trail
  work_item_status_of work_item_transition_to
proof (unfold_locales, goal_cases)
  case (1 c a a')
  then show ?case
    by (auto simp: work_item_step_defs ensure_can_transition_ok split: sum.splits option.splits if_splits)
next
  case (2 c a e a')
  then show ?case by (auto simp: work_item_step_defs split: sum.splits option.splits if_splits)
next
  case (3 c t a s)
  then show ?case
    by (auto simp: work_item_step_defs ensure_can_transition_ok dest: ensure_can_transition_err split: sum.splits option.splits if_splits)
next
  case (4 c t a s)
  then show ?case
    by (auto simp: work_item_step_defs ensure_can_transition_ok split: sum.splits option.splits if_splits)
next
  case (5 c s a)
  then show ?case by (auto simp: work_item_step_defs)
qed

lemma agent_run_status_of_simps [simp]:
  "agent_run_status_of NoneArg = Inr None"
  "agent_run_status_of (EnumArg e) = Inr (Some e)"
  "agent_run_status_of (StrArg (agent_run_status_value e)) = Inr (Some e)"
  by (simp_all add: agent_run_status_of_def enum_of_arg_def agent_run_status_enum.parse_print)

lemma work_item_cancelled_terminal: "\<not> edge WORK_ITEM_STATE_MACHINE WorkItemStatus_CANCELLED t"
  by (simp add: work_item_edge WORK_ITEM_VALID_TRANSITIONS_def)

lemma work_item_running_enabled:
  "edge WORK_ITEM_STATE_MACHINE s WorkItemStatus_RUNNING \<longleftrightarrow>
     s \<noteq> WorkItemStatus_RUNNING \<and> s \<noteq> WorkItemStatus_CANCELLED"
  by (cases s) (simp_all add: work_item_edge WORK_ITEM_VALID_TRANSITIONS_def)

end
