(* ===== verification/Agent_Run_Domain.thy ===== *)
theory Agent_Run_Domain
  imports Control_Models
begin

text \<open>
  The AgentRun aggregate (\<open>domain/agent_run.py\<close>). Its \<open>transition_to\<close> takes an enum member and,
  unlike the other aggregates, refuses the current status as a target.
\<close>

section \<open>Status vocabulary and transition table\<close>

definition AGENT_RUN_VALID_TRANSITIONS :: "(agent_run_status \<times> agent_run_status list) list" where
  "AGENT_RUN_VALID_TRANSITIONS =
    [(AgentRunStatus_PENDING, [AgentRunStatus_RUNNING, AgentRunStatus_CANCELLED, AgentRunStatus_FAILED]),
     (AgentRunStatus_RUNNING, [AgentRunStatus_SUCCEEDED, AgentRunStatus_FAILED, AgentRunStatus_CANCELLED, AgentRunStatus_TIMED_OUT]),
     (AgentRunStatus_SUCCEEDED, []),
     (AgentRunStatus_FAILED, []),
     (AgentRunStatus_CANCELLED, []),
     (AgentRunStatus_TIMED_OUT, [])]"

definition AGENT_RUN_STATE_MACHINE :: "agent_run_status state_machine" where
  "AGENT_RUN_STATE_MACHINE = machine_of agent_run_status_value AGENT_RUN_VALID_TRANSITIONS"

section \<open>The aggregate\<close>

record agent_run_status_changed =
  rsc_run_id :: string
  rsc_agent_id :: string
  rsc_company_id :: string
  rsc_from_status :: agent_run_status
  rsc_to_status :: agent_run_status

type_synonym agent_run_agg = "(agent_run, agent_run_status_changed) aggregate"

definition agent_run_transition_to :: "agent_run_status \<Rightarrow> (agent_run_agg, unit) op" where
  "agent_run_transition_to t a =
     (let rec = agg_record a; current = r_status rec; subject = ''AgentRun '' @ r_run_id rec
      in case ensure_can_transition agent_run_status_value AGENT_RUN_STATE_MACHINE current t subject
                InvalidAgentRunTransitionError ''transition'' of
           Inl e \<Rightarrow> (Inl e, a)
         | Inr u \<Rightarrow>
             (Inr (), a\<lparr>agg_record := rec\<lparr>r_status := t\<rparr>,
                agg_events := agg_events a @
                  [\<lparr>rsc_run_id = r_run_id rec, rsc_agent_id = r_agent_id rec, rsc_company_id = r_company_id rec, rsc_from_status = current, rsc_to_status = t\<rparr>]\<rparr>))"

definition agent_run_trail :: "agent_run_agg \<Rightarrow> (agent_run_status \<times> agent_run_status) list" where
  "agent_run_trail a = map (\<lambda>e. (rsc_from_status e, rsc_to_status e)) (agg_events a)"

definition AGENT_RUN_TERMINAL_STATUSES :: "agent_run_status list" where
  "AGENT_RUN_TERMINAL_STATUSES = terminal_states AGENT_RUN_STATE_MACHINE"

definition agent_run_is_terminal :: "agent_run_agg \<Rightarrow> exc + bool" where
  "agent_run_is_terminal a =
     is_terminal agent_run_status_value AGENT_RUN_STATE_MACHINE (r_status (agg_record a))"

section \<open>Lemmas\<close>

lemma agent_run_table_closed:
  "\<forall>row \<in> set AGENT_RUN_VALID_TRANSITIONS. set (snd row) \<subseteq> fst ` set AGENT_RUN_VALID_TRANSITIONS"
  by (simp add: AGENT_RUN_VALID_TRANSITIONS_def)

lemma agent_run_machine_built: "\<exists>m. from_transitions agent_run_status_value AGENT_RUN_VALID_TRANSITIONS = Inr m"
  using from_transitions_ok_iff agent_run_table_closed by blast

lemma agent_run_edge:
  "edge AGENT_RUN_STATE_MACHINE s t \<longleftrightarrow>
     (case map_of AGENT_RUN_VALID_TRANSITIONS s of None \<Rightarrow> False | Some ts \<Rightarrow> t \<in> set ts)"
  unfolding AGENT_RUN_STATE_MACHINE_def by (rule machine_of_edge [OF agent_run_table_closed])

lemma agent_run_edge_irrefl: "\<not> edge AGENT_RUN_STATE_MACHINE s s"
  by (cases s) (simp_all add: agent_run_edge AGENT_RUN_VALID_TRANSITIONS_def)

lemmas agent_run_step_defs = agent_run_transition_to_def agent_run_trail_def Let_def

interpretation agent_run_lc: strict_lifecycle "edge AGENT_RUN_STATE_MACHINE" "\<lambda>a. Inr (r_status (agg_record a))" agent_run_trail
  "\<lambda>t. Inr (Some t)" agent_run_transition_to
proof (unfold_locales, goal_cases)
  case (1 c a a')
  then show ?case
    by (auto simp: agent_run_step_defs ensure_can_transition_ok split: sum.splits if_splits)
next
  case (2 c a e a')
  then show ?case by (auto simp: agent_run_step_defs split: sum.splits if_splits)
next
  case (3 c t a s)
  then show ?case
    by (auto simp: agent_run_step_defs ensure_can_transition_ok dest: ensure_can_transition_err split: sum.splits if_splits)
next
  case (4 c t a s)
  then show ?case
    by (auto simp: agent_run_step_defs ensure_can_transition_ok split: sum.splits if_splits)
next
  case (5 s)
  then show ?case by (rule agent_run_edge_irrefl)
next
  case (6 c s a)
  then show ?case
    by (auto simp: agent_run_step_defs ensure_can_transition_ok agent_run_edge_irrefl split: sum.splits if_splits)
qed

end
