(* ===== verification/Decision_Domain.thy ===== *)
theory Decision_Domain
  imports Control_Models
begin

text \<open>
  The Decision aggregate and its lifecycle policy (\<open>domain/decision.py\<close>).
\<close>

section \<open>Status vocabulary and transition table\<close>

definition decision_status_of :: "decision_status enum_arg \<Rightarrow> exc + decision_status option" where
  "decision_status_of = enum_of_arg (enum_parse ''DecisionStatus'' decision_status_value decision_status_members)"

definition DECISION_VALID_TRANSITIONS :: "(decision_status \<times> decision_status list) list" where
  "DECISION_VALID_TRANSITIONS =
    [(DecisionStatus_PROPOSED, [DecisionStatus_ACCEPTED, DecisionStatus_REJECTED, DecisionStatus_SUPERSEDED]),
     (DecisionStatus_ACCEPTED, [DecisionStatus_SUPERSEDED]),
     (DecisionStatus_REJECTED, [DecisionStatus_SUPERSEDED]),
     (DecisionStatus_SUPERSEDED, [])]"

definition DECISION_STATE_MACHINE :: "decision_status state_machine" where
  "DECISION_STATE_MACHINE = machine_of decision_status_value DECISION_VALID_TRANSITIONS"

section \<open>The aggregate\<close>

record decision_status_changed =
  dsc_decision_id :: string
  dsc_company_id :: string
  dsc_from_status :: decision_status
  dsc_to_status :: decision_status

type_synonym decision_agg = "(decision, decision_status_changed) aggregate"

definition decision_transition_to :: "decision_status enum_arg \<Rightarrow> (decision_agg, unit) op" where
  "decision_transition_to target a =
     (let rec = agg_record a; current = d_status rec; subject = ''Decision '' @ d_decision_id rec
      in case decision_status_of target of
           Inl e \<Rightarrow> (Inl e, a)
         | Inr None \<Rightarrow> (Inl (InvalidDecisionTransitionError (subject @ '': missing transition target'')), a)
         | Inr (Some t) \<Rightarrow>
             if t = current then (Inr (), a) else
             (case ensure_can_transition decision_status_value DECISION_STATE_MACHINE current t subject
                     InvalidDecisionTransitionError ''transition'' of
                Inl e \<Rightarrow> (Inl e, a)
              | Inr u \<Rightarrow>
                  (Inr (), a\<lparr>agg_record := rec\<lparr>d_status := t\<rparr>,
                     agg_events := agg_events a @
                       [\<lparr>dsc_decision_id = d_decision_id rec, dsc_company_id = d_company_id rec, dsc_from_status = current, dsc_to_status = t\<rparr>]\<rparr>)))"

definition decision_trail :: "decision_agg \<Rightarrow> (decision_status \<times> decision_status) list" where
  "decision_trail a = map (\<lambda>e. (dsc_from_status e, dsc_to_status e)) (agg_events a)"

definition decision_is_terminal :: "decision_agg \<Rightarrow> exc + bool" where
  "decision_is_terminal a =
     is_terminal decision_status_value DECISION_STATE_MACHINE (d_status (agg_record a))"

section \<open>Lemmas\<close>

lemma decision_table_closed:
  "\<forall>row \<in> set DECISION_VALID_TRANSITIONS. set (snd row) \<subseteq> fst ` set DECISION_VALID_TRANSITIONS"
  by (simp add: DECISION_VALID_TRANSITIONS_def)

lemma decision_machine_built: "\<exists>m. from_transitions decision_status_value DECISION_VALID_TRANSITIONS = Inr m"
  using from_transitions_ok_iff decision_table_closed by blast

lemma decision_edge:
  "edge DECISION_STATE_MACHINE s t \<longleftrightarrow>
     (case map_of DECISION_VALID_TRANSITIONS s of None \<Rightarrow> False | Some ts \<Rightarrow> t \<in> set ts)"
  unfolding DECISION_STATE_MACHINE_def by (rule machine_of_edge [OF decision_table_closed])

lemma decision_edge_irrefl: "\<not> edge DECISION_STATE_MACHINE s s"
  by (cases s) (simp_all add: decision_edge DECISION_VALID_TRANSITIONS_def)

lemma decision_status_of_simps [simp]:
  "decision_status_of NoneArg = Inr None"
  "decision_status_of (EnumArg e) = Inr (Some e)"
  "decision_status_of (StrArg (decision_status_value e)) = Inr (Some e)"
  by (simp_all add: decision_status_of_def enum_of_arg_def decision_status_enum.parse_print)

lemmas decision_step_defs = decision_transition_to_def decision_trail_def Let_def

interpretation decision_lc: noop_lifecycle "edge DECISION_STATE_MACHINE" "\<lambda>a. Inr (d_status (agg_record a))" decision_trail
  decision_status_of decision_transition_to
proof (unfold_locales, goal_cases)
  case (1 c a a')
  then show ?case
    by (auto simp: decision_step_defs ensure_can_transition_ok split: sum.splits option.splits if_splits)
next
  case (2 c a e a')
  then show ?case by (auto simp: decision_step_defs split: sum.splits option.splits if_splits)
next
  case (3 c t a s)
  then show ?case
    by (auto simp: decision_step_defs ensure_can_transition_ok dest: ensure_can_transition_err split: sum.splits option.splits if_splits)
next
  case (4 c t a s)
  then show ?case
    by (auto simp: decision_step_defs ensure_can_transition_ok split: sum.splits option.splits if_splits)
next
  case (5 c s a)
  then show ?case by (auto simp: decision_step_defs)
qed

end
