(* ===== verification/Approval_Domain.thy ===== *)
theory Approval_Domain
  imports Control_Models
begin

text \<open>
  The ApprovalRequest aggregate (\<open>domain/approval_request.py\<close>) and the domain service for the
  effects of a resolution on evolution proposals (\<open>domain/approval_resolution.py\<close>).
\<close>

section \<open>Status vocabulary and transition table\<close>

definition approval_status_of :: "approval_status enum_arg \<Rightarrow> exc + approval_status option" where
  "approval_status_of = enum_of_arg (enum_parse ''ApprovalStatus'' approval_status_value approval_status_members)"

definition APPROVAL_VALID_TRANSITIONS :: "(approval_status \<times> approval_status list) list" where
  "APPROVAL_VALID_TRANSITIONS =
    [(ApprovalStatus_PENDING, [ApprovalStatus_APPROVED, ApprovalStatus_REJECTED, ApprovalStatus_EXPIRED, ApprovalStatus_CANCELLED]),
     (ApprovalStatus_APPROVED, []),
     (ApprovalStatus_REJECTED, []),
     (ApprovalStatus_EXPIRED, []),
     (ApprovalStatus_CANCELLED, [])]"

definition APPROVAL_STATE_MACHINE :: "approval_status state_machine" where
  "APPROVAL_STATE_MACHINE = machine_of approval_status_value APPROVAL_VALID_TRANSITIONS"

section \<open>The aggregate\<close>

record approval_status_changed =
  asc_approval_id :: string
  asc_company_id :: string
  asc_from_status :: approval_status
  asc_to_status :: approval_status

type_synonym approval_request_agg = "(approval_request, approval_status_changed) aggregate"

definition approval_request_transition_to :: "approval_status enum_arg \<Rightarrow> (approval_request_agg, unit) op" where
  "approval_request_transition_to target a =
     (let rec = agg_record a; current = ap_status rec; subject = ''ApprovalRequest '' @ ap_approval_id rec
      in case approval_status_of target of
           Inl e \<Rightarrow> (Inl e, a)
         | Inr None \<Rightarrow> (Inl (InvalidApprovalTransitionError (subject @ '': missing transition target'')), a)
         | Inr (Some t) \<Rightarrow>
             if t = current then (Inr (), a) else
             (case ensure_can_transition approval_status_value APPROVAL_STATE_MACHINE current t subject
                     InvalidApprovalTransitionError ''transition'' of
                Inl e \<Rightarrow> (Inl e, a)
              | Inr u \<Rightarrow>
                  (Inr (), a\<lparr>agg_record := rec\<lparr>ap_status := t\<rparr>,
                     agg_events := agg_events a @
                       [\<lparr>asc_approval_id = ap_approval_id rec, asc_company_id = ap_company_id rec, asc_from_status = current, asc_to_status = t\<rparr>]\<rparr>)))"

definition approval_request_trail :: "approval_request_agg \<Rightarrow> (approval_status \<times> approval_status) list" where
  "approval_request_trail a = map (\<lambda>e. (asc_from_status e, asc_to_status e)) (agg_events a)"

definition approval_status_is_approved :: "approval_status enum_arg \<Rightarrow> exc + bool" where
  "approval_status_is_approved status =
     bindE (approval_status_of status) (\<lambda>s. Inr (s = Some ApprovalStatus_APPROVED))"

definition approval_is_approved :: "approval_request_agg \<Rightarrow> exc + bool" where
  "approval_is_approved a = approval_status_is_approved (EnumArg (ap_status (agg_record a)))"

definition approval_is_terminal :: "approval_request_agg \<Rightarrow> exc + bool" where
  "approval_is_terminal a =
     is_terminal approval_status_value APPROVAL_STATE_MACHINE (ap_status (agg_record a))"

record approval_resolution_effect =
  are_approval_status :: approval_status
  are_proposal_approval_state :: approval_status
  are_proposal_rollout_state :: "evolution_rollout_state option"

definition effect_approved :: "approval_resolution_effect \<Rightarrow> bool" where
  "effect_approved e \<longleftrightarrow> are_approval_status e = ApprovalStatus_APPROVED"

definition proposal_update_kwargs :: "approval_resolution_effect \<Rightarrow> (string \<times> string option) list" where
  "proposal_update_kwargs e =
     [(''approval_state'', Some (approval_status_value (are_proposal_approval_state e))),
      (''rollout_state'', map_option evolution_rollout_state_value (are_proposal_rollout_state e))]"

definition proposal_audit_detail :: "approval_resolution_effect \<Rightarrow> string \<Rightarrow> string \<Rightarrow> pydict" where
  "proposal_audit_detail e proposal_id approval_id =
     [(''proposal_id'', PStr proposal_id),
      (''approval_state'', PStr (approval_status_value (are_proposal_approval_state e))),
      (''approval_id'', PStr approval_id)] @
     (case are_proposal_rollout_state e of
        None \<Rightarrow> []
      | Some r \<Rightarrow> [(''rollout_state'', PStr (evolution_rollout_state_value r))])"

definition approval_resolve :: "bool \<Rightarrow> approval_resolution_effect" where
  "approval_resolve approved =
     (if approved then
        \<lparr>are_approval_status = ApprovalStatus_APPROVED,
         are_proposal_approval_state = ApprovalStatus_APPROVED,
         are_proposal_rollout_state = None\<rparr>
      else
        \<lparr>are_approval_status = ApprovalStatus_REJECTED,
         are_proposal_approval_state = ApprovalStatus_REJECTED,
         are_proposal_rollout_state = Some EvolutionRolloutState_REJECTED\<rparr>)"

section \<open>Lemmas\<close>

lemma approval_request_table_closed:
  "\<forall>row \<in> set APPROVAL_VALID_TRANSITIONS. set (snd row) \<subseteq> fst ` set APPROVAL_VALID_TRANSITIONS"
  by (simp add: APPROVAL_VALID_TRANSITIONS_def)

lemma approval_request_machine_built: "\<exists>m. from_transitions approval_status_value APPROVAL_VALID_TRANSITIONS = Inr m"
  using from_transitions_ok_iff approval_request_table_closed by blast

lemma approval_request_edge:
  "edge APPROVAL_STATE_MACHINE s t \<longleftrightarrow>
     (case map_of APPROVAL_VALID_TRANSITIONS s of None \<Rightarrow> False | Some ts \<Rightarrow> t \<in> set ts)"
  unfolding APPROVAL_STATE_MACHINE_def by (rule machine_of_edge [OF approval_request_table_closed])

lemma approval_request_edge_irrefl: "\<not> edge APPROVAL_STATE_MACHINE s s"
  by (cases s) (simp_all add: approval_request_edge APPROVAL_VALID_TRANSITIONS_def)

lemma approval_status_of_simps [simp]:
  "approval_status_of NoneArg = Inr None"
  "approval_status_of (EnumArg e) = Inr (Some e)"
  "approval_status_of (StrArg (approval_status_value e)) = Inr (Some e)"
  by (simp_all add: approval_status_of_def enum_of_arg_def approval_status_enum.parse_print)

lemmas approval_request_step_defs = approval_request_transition_to_def approval_request_trail_def Let_def

interpretation approval_request_lc: noop_lifecycle "edge APPROVAL_STATE_MACHINE" "\<lambda>a. Inr (ap_status (agg_record a))" approval_request_trail
  approval_status_of approval_request_transition_to
proof (unfold_locales, goal_cases)
  case (1 c a a')
  then show ?case
    by (auto simp: approval_request_step_defs ensure_can_transition_ok split: sum.splits option.splits if_splits)
next
  case (2 c a e a')
  then show ?case by (auto simp: approval_request_step_defs split: sum.splits option.splits if_splits)
next
  case (3 c t a s)
  then show ?case
    by (auto simp: approval_request_step_defs ensure_can_transition_ok dest: ensure_can_transition_err split: sum.splits option.splits if_splits)
next
  case (4 c t a s)
  then show ?case
    by (auto simp: approval_request_step_defs ensure_can_transition_ok split: sum.splits option.splits if_splits)
next
  case (5 c s a)
  then show ?case by (auto simp: approval_request_step_defs)
qed

lemma approval_only_pending_moves:
  "edge APPROVAL_STATE_MACHINE s t \<longleftrightarrow>
     s = ApprovalStatus_PENDING \<and> t \<noteq> ApprovalStatus_PENDING"
  by (cases s; cases t) (simp_all add: approval_request_edge APPROVAL_VALID_TRANSITIONS_def)

end
