(* ===== verification/Evolution_Domain.thy ===== *)
theory Evolution_Domain
  imports Control_Models
begin

text \<open>
  The EvolutionProposal aggregate with its rollout state machine
  (\<open>domain/evolution_proposal.py\<close>).
\<close>

section \<open>Status vocabulary and transition table\<close>

definition evolution_rollout_state_of :: "evolution_rollout_state enum_arg \<Rightarrow> exc + evolution_rollout_state option" where
  "evolution_rollout_state_of = enum_of_arg (enum_parse ''EvolutionRolloutState'' evolution_rollout_state_value evolution_rollout_state_members)"

definition VALID_ROLLOUT_TRANSITIONS :: "(evolution_rollout_state \<times> evolution_rollout_state list) list" where
  "VALID_ROLLOUT_TRANSITIONS =
    [(EvolutionRolloutState_PROPOSED, [EvolutionRolloutState_SHADOW, EvolutionRolloutState_CANARY, EvolutionRolloutState_REJECTED]),
     (EvolutionRolloutState_SHADOW, [EvolutionRolloutState_CANARY, EvolutionRolloutState_ROLLED_BACK]),
     (EvolutionRolloutState_CANARY, [EvolutionRolloutState_ACTIVE, EvolutionRolloutState_ROLLED_BACK]),
     (EvolutionRolloutState_ACTIVE, [EvolutionRolloutState_ROLLED_BACK]),
     (EvolutionRolloutState_ROLLED_BACK, []),
     (EvolutionRolloutState_REJECTED, [])]"

definition ROLLOUT_STATE_MACHINE :: "evolution_rollout_state state_machine" where
  "ROLLOUT_STATE_MACHINE = machine_of evolution_rollout_state_value VALID_ROLLOUT_TRANSITIONS"

section \<open>The aggregate\<close>

record evolution_rollout_status_changed =
  esc_proposal_id :: string
  esc_company_id :: string
  esc_from_state :: evolution_rollout_state
  esc_to_state :: evolution_rollout_state

type_synonym evolution_proposal_agg = "(evolution_proposal, evolution_rollout_status_changed) aggregate"

definition advance_rollout :: "evolution_rollout_state enum_arg \<Rightarrow> (evolution_proposal_agg, unit) op" where
  "advance_rollout target a =
     (let rec = agg_record a; current = ep_rollout_state rec; subject = ''EvolutionProposal '' @ ep_proposal_id rec
      in case evolution_rollout_state_of target of
           Inl e \<Rightarrow> (Inl e, a)
         | Inr None \<Rightarrow> (Inl (InvalidEvolutionRolloutTransitionError (subject @ '': missing rollout target'')), a)
         | Inr (Some t) \<Rightarrow>
             (case ensure_can_transition evolution_rollout_state_value ROLLOUT_STATE_MACHINE current t subject
                     InvalidEvolutionRolloutTransitionError ''rollout transition'' of
                Inl e \<Rightarrow> (Inl e, a)
              | Inr u \<Rightarrow>
                  (Inr (), a\<lparr>agg_record := rec\<lparr>ep_rollout_state := t\<rparr>,
                     agg_events := agg_events a @
                       [\<lparr>esc_proposal_id = ep_proposal_id rec, esc_company_id = ep_company_id rec, esc_from_state = current, esc_to_state = t\<rparr>]\<rparr>)))"

definition evolution_proposal_trail :: "evolution_proposal_agg \<Rightarrow> (evolution_rollout_state \<times> evolution_rollout_state) list" where
  "evolution_proposal_trail a = map (\<lambda>e. (esc_from_state e, esc_to_state e)) (agg_events a)"

definition ROLLOUT_STATES_REQUIRING_APPROVAL :: "evolution_rollout_state list" where
  "ROLLOUT_STATES_REQUIRING_APPROVAL = [EvolutionRolloutState_CANARY, EvolutionRolloutState_ACTIVE]"

definition rollout_state_requires_approval :: "evolution_rollout_state enum_arg \<Rightarrow> exc + bool" where
  "rollout_state_requires_approval rollout_state =
     bindE (evolution_rollout_state_of rollout_state) (\<lambda>target. Inr (
       case target of None \<Rightarrow> False | Some t \<Rightarrow> t \<in> set ROLLOUT_STATES_REQUIRING_APPROVAL))"

definition approval_state_is_approved :: "approval_status enum_arg \<Rightarrow> bool" where
  "approval_state_is_approved approval_state =
     (case approval_state of
        NoneArg \<Rightarrow> False
      | EnumArg e \<Rightarrow> approval_status_value e = approval_status_value ApprovalStatus_APPROVED
      | StrArg s \<Rightarrow> s = approval_status_value ApprovalStatus_APPROVED)"

definition proposal_is_terminal :: "evolution_proposal_agg \<Rightarrow> exc + bool" where
  "proposal_is_terminal a =
     is_terminal evolution_rollout_state_value ROLLOUT_STATE_MACHINE (ep_rollout_state (agg_record a))"

section \<open>Lemmas\<close>

lemma evolution_proposal_table_closed:
  "\<forall>row \<in> set VALID_ROLLOUT_TRANSITIONS. set (snd row) \<subseteq> fst ` set VALID_ROLLOUT_TRANSITIONS"
  by (simp add: VALID_ROLLOUT_TRANSITIONS_def)

lemma evolution_proposal_machine_built: "\<exists>m. from_transitions evolution_rollout_state_value VALID_ROLLOUT_TRANSITIONS = Inr m"
  using from_transitions_ok_iff evolution_proposal_table_closed by blast

lemma evolution_proposal_edge:
  "edge ROLLOUT_STATE_MACHINE s t \<longleftrightarrow>
     (case map_of VALID_ROLLOUT_TRANSITIONS s of None \<Rightarrow> False | Some ts \<Rightarrow> t \<in> set ts)"
  unfolding ROLLOUT_STATE_MACHINE_def by (rule machine_of_edge [OF evolution_proposal_table_closed])

lemma evolution_proposal_edge_irrefl: "\<not> edge ROLLOUT_STATE_MACHINE s s"
  by (cases s) (simp_all add: evolution_proposal_edge VALID_ROLLOUT_TRANSITIONS_def)

lemma evolution_rollout_state_of_simps [simp]:
  "evolution_rollout_state_of NoneArg = Inr None"
  "evolution_rollout_state_of (EnumArg e) = Inr (Some e)"
  "evolution_rollout_state_of (StrArg (evolution_rollout_state_value e)) = Inr (Some e)"
  by (simp_all add: evolution_rollout_state_of_def enum_of_arg_def evolution_rollout_state_enum.parse_print)

lemmas evolution_proposal_step_defs = advance_rollout_def evolution_proposal_trail_def Let_def

interpretation evolution_proposal_lc: strict_lifecycle "edge ROLLOUT_STATE_MACHINE" "\<lambda>a. Inr (ep_rollout_state (agg_record a))" evolution_proposal_trail
  evolution_rollout_state_of advance_rollout
proof (unfold_locales, goal_cases)
  case (1 c a a')
  then show ?case
    by (auto simp: evolution_proposal_step_defs ensure_can_transition_ok split: sum.splits option.splits if_splits)
next
  case (2 c a e a')
  then show ?case by (auto simp: evolution_proposal_step_defs split: sum.splits option.splits if_splits)
next
  case (3 c t a s)
  then show ?case
    by (auto simp: evolution_proposal_step_defs ensure_can_transition_ok dest: ensure_can_transition_err split: sum.splits option.splits if_splits)
next
  case (4 c t a s)
  then show ?case
    by (auto simp: evolution_proposal_step_defs ensure_can_transition_ok split: sum.splits option.splits if_splits)
next
  case (5 s)
  then show ?case by (rule evolution_proposal_edge_irrefl)
next
  case (6 c s a)
  then show ?case
    by (auto simp: evolution_proposal_step_defs ensure_can_transition_ok evolution_proposal_edge_irrefl split: sum.splits option.splits if_splits)
qed

end
