(* ===== verification/Agent_Role_Domain.thy ===== *)
theory Agent_Role_Domain
  imports Control_Models
begin

text \<open>
  The AgentRole aggregate and its runtime-status policy (\<open>domain/agent_role.py\<close>). The stored
  status is free text, so reading it may raise; a transition writes the canonical text back.
\<close>

section \<open>Status vocabulary and transition table\<close>

datatype agent_role_status =
    AgentRoleStatus_ACTIVE
  | AgentRoleStatus_PAUSED
  | AgentRoleStatus_DISABLED
  | AgentRoleStatus_INACTIVE
  | AgentRoleStatus_RETIRED
  | AgentRoleStatus_TERMINATED

fun agent_role_status_value :: "agent_role_status \<Rightarrow> string" where
  "agent_role_status_value AgentRoleStatus_ACTIVE = ''active''"
| "agent_role_status_value AgentRoleStatus_PAUSED = ''paused''"
| "agent_role_status_value AgentRoleStatus_DISABLED = ''disabled''"
| "agent_role_status_value AgentRoleStatus_INACTIVE = ''inactive''"
| "agent_role_status_value AgentRoleStatus_RETIRED = ''retired''"
| "agent_role_status_value AgentRoleStatus_TERMINATED = ''terminated''"

definition agent_role_status_members :: "agent_role_status list" where
  "agent_role_status_members =
     [AgentRoleStatus_ACTIVE, AgentRoleStatus_PAUSED, AgentRoleStatus_DISABLED, AgentRoleStatus_INACTIVE, AgentRoleStatus_RETIRED, AgentRoleStatus_TERMINATED]"

definition agent_role_status_of :: "agent_role_status enum_arg \<Rightarrow> exc + agent_role_status option" where
  "agent_role_status_of v =
     (case v of
        NoneArg \<Rightarrow> Inr None
      | EnumArg e \<Rightarrow> Inr (Some e)
      | StrArg s \<Rightarrow>
          bindE (mapErr (\<lambda>e. InvalidAgentRoleStatusError s)
                   (enum_parse ''AgentRoleStatus'' agent_role_status_value agent_role_status_members
                      (py_lower (py_strip s))))
            (\<lambda>e. Inr (Some e)))"

definition AGENT_ROLE_VALID_TRANSITIONS :: "(agent_role_status \<times> agent_role_status list) list" where
  "AGENT_ROLE_VALID_TRANSITIONS =
    [(AgentRoleStatus_ACTIVE, [AgentRoleStatus_PAUSED, AgentRoleStatus_DISABLED, AgentRoleStatus_INACTIVE, AgentRoleStatus_RETIRED, AgentRoleStatus_TERMINATED]),
     (AgentRoleStatus_PAUSED, [AgentRoleStatus_ACTIVE, AgentRoleStatus_DISABLED, AgentRoleStatus_INACTIVE, AgentRoleStatus_RETIRED, AgentRoleStatus_TERMINATED]),
     (AgentRoleStatus_DISABLED, [AgentRoleStatus_ACTIVE, AgentRoleStatus_INACTIVE, AgentRoleStatus_RETIRED, AgentRoleStatus_TERMINATED]),
     (AgentRoleStatus_INACTIVE, [AgentRoleStatus_ACTIVE, AgentRoleStatus_DISABLED, AgentRoleStatus_RETIRED, AgentRoleStatus_TERMINATED]),
     (AgentRoleStatus_RETIRED, []),
     (AgentRoleStatus_TERMINATED, [])]"

definition RUNNABLE_STATUSES :: "agent_role_status list" where
  "RUNNABLE_STATUSES = [AgentRoleStatus_ACTIVE]"

definition AGENT_ROLE_STATE_MACHINE :: "agent_role_status state_machine" where
  "AGENT_ROLE_STATE_MACHINE = machine_of agent_role_status_value AGENT_ROLE_VALID_TRANSITIONS"

section \<open>The aggregate\<close>

record agent_role_status_changed =
  rosc_role_id :: string
  rosc_agent_id :: string
  rosc_company_id :: string
  rosc_from_status :: agent_role_status
  rosc_to_status :: agent_role_status

type_synonym agent_role_agg = "(agent_role, agent_role_status_changed) aggregate"

definition agent_role_current_status :: "agent_role_agg \<Rightarrow> exc + agent_role_status" where
  "agent_role_current_status a =
     bindE (agent_role_status_of (StrArg (ar_status (agg_record a)))) (\<lambda>s. case s of
         None \<Rightarrow> Inl (InvalidAgentRoleStatusError
                   (''AgentRole '' @ ar_agent_id (agg_record a) @ '': missing status''))
       | Some st \<Rightarrow> Inr st)"

definition agent_role_is_runnable :: "agent_role_agg \<Rightarrow> exc + bool" where
  "agent_role_is_runnable a =
     bindE (agent_role_current_status a) (\<lambda>s. Inr (s \<in> set RUNNABLE_STATUSES))"

definition agent_role_is_terminal :: "agent_role_agg \<Rightarrow> exc + bool" where
  "agent_role_is_terminal a =
     bindE (agent_role_current_status a) (is_terminal agent_role_status_value AGENT_ROLE_STATE_MACHINE)"

definition agent_role_transition_to :: "agent_role_status enum_arg \<Rightarrow> (agent_role_agg, unit) op" where
  "agent_role_transition_to target a =
     (let rec = agg_record a; subject = ''AgentRole '' @ ar_agent_id rec
      in case agent_role_status_of target of
           Inl e \<Rightarrow> (Inl e, a)
         | Inr None \<Rightarrow> (Inl (InvalidAgentRoleStatusError (subject @ '': missing transition target'')), a)
         | Inr (Some t) \<Rightarrow>
             (case agent_role_current_status a of
                Inl e \<Rightarrow> (Inl e, a)
              | Inr current \<Rightarrow>
                  if t = current then (Inr (), a) else
                  (case ensure_can_transition agent_role_status_value AGENT_ROLE_STATE_MACHINE current t
                          subject InvalidAgentRoleTransitionError ''transition'' of
                     Inl e \<Rightarrow> (Inl e, a)
                   | Inr u \<Rightarrow>
                       (Inr (), a\<lparr>agg_record := rec\<lparr>ar_status := agent_role_status_value t\<rparr>,
                          agg_events := agg_events a @
                            [\<lparr>rosc_role_id = ar_role_id rec, rosc_agent_id = ar_agent_id rec,
                              rosc_company_id = ar_company_id rec,
                              rosc_from_status = current, rosc_to_status = t\<rparr>]\<rparr>))))"

definition agent_role_trail :: "agent_role_agg \<Rightarrow> (agent_role_status \<times> agent_role_status) list" where
  "agent_role_trail a = map (\<lambda>e. (rosc_from_status e, rosc_to_status e)) (agg_events a)"

section \<open>Lemmas\<close>

lemma agent_role_status_members_all: "set agent_role_status_members = UNIV"
proof -
  have "x \<in> set agent_role_status_members" for x by (cases x) (simp_all add: agent_role_status_members_def)
  then show ?thesis by blast
qed

interpretation agent_role_status_enum: str_enum "''AgentRoleStatus''" agent_role_status_value
  agent_role_status_members
proof
  show "inj agent_role_status_value"
  proof (rule injI)
    fix x y assume "agent_role_status_value x = agent_role_status_value y"
    then show "x = y" by (cases x; cases y; simp)
  qed
qed (rule agent_role_status_members_all)

text \<open>The canonical text is a fixed point of trimming and lowering.\<close>

lemma agent_role_value_clean:
  "py_lower (py_strip (agent_role_status_value e)) = agent_role_status_value e"
  by (cases e) (simp_all add: py_lower_def py_lower_char_def py_strip_def py_isspace_def)

lemma agent_role_status_of_simps [simp]:
  "agent_role_status_of NoneArg = Inr None"
  "agent_role_status_of (EnumArg e) = Inr (Some e)"
  "agent_role_status_of (StrArg (agent_role_status_value e)) = Inr (Some e)"
  by (simp_all add: agent_role_status_of_def agent_role_value_clean mapErr_def
      agent_role_status_enum.parse_print)

lemma agent_role_status_of_str:
  "agent_role_status_of (StrArg s) = Inr x \<longleftrightarrow>
     (\<exists>e. x = Some e \<and> py_lower (py_strip s) = agent_role_status_value e)"
  by (auto simp: agent_role_status_of_def agent_role_status_enum.parse_ok_iff)

lemma agent_role_table_closed:
  "\<forall>row \<in> set AGENT_ROLE_VALID_TRANSITIONS. set (snd row) \<subseteq> fst ` set AGENT_ROLE_VALID_TRANSITIONS"
  by (simp add: AGENT_ROLE_VALID_TRANSITIONS_def)

lemma agent_role_edge:
  "edge AGENT_ROLE_STATE_MACHINE s t \<longleftrightarrow>
     (case map_of AGENT_ROLE_VALID_TRANSITIONS s of None \<Rightarrow> False | Some ts \<Rightarrow> t \<in> set ts)"
  unfolding AGENT_ROLE_STATE_MACHINE_def by (rule machine_of_edge [OF agent_role_table_closed])

lemma agent_role_current_status_written [simp]:
  "agent_role_current_status (a\<lparr>agg_record := r\<lparr>ar_status := agent_role_status_value t\<rparr>, agg_events := es\<rparr>) = Inr t"
  by (simp add: agent_role_current_status_def)

lemmas agent_role_step_defs = agent_role_transition_to_def agent_role_trail_def Let_def

interpretation agent_role_lc: noop_lifecycle "edge AGENT_ROLE_STATE_MACHINE" agent_role_current_status
  agent_role_trail agent_role_status_of agent_role_transition_to
proof (unfold_locales, goal_cases)
  case (1 c a a')
  then show ?case
    by (auto simp: agent_role_step_defs ensure_can_transition_ok split: sum.splits option.splits if_splits)
next
  case (2 c a e a')
  then show ?case by (auto simp: agent_role_step_defs split: sum.splits option.splits if_splits)
next
  case (3 c t a s)
  then show ?case
    by (auto simp: agent_role_step_defs ensure_can_transition_ok dest: ensure_can_transition_err
        split: sum.splits option.splits if_splits)
next
  case (4 c t a s)
  then show ?case
    by (auto simp: agent_role_step_defs ensure_can_transition_ok split: sum.splits option.splits if_splits)
next
  case (5 c s a)
  then show ?case by (auto simp: agent_role_step_defs)
qed

lemma agent_role_terminal_iff:
  "(\<forall>t. \<not> edge AGENT_ROLE_STATE_MACHINE s t) \<longleftrightarrow>
     s = AgentRoleStatus_RETIRED \<or> s = AgentRoleStatus_TERMINATED"
  by (cases s) (auto simp: agent_role_edge AGENT_ROLE_VALID_TRANSITIONS_def)

end
