(* ===== verification/Budget_Domain.thy ===== *)
theory Budget_Domain
  imports Control_Models
begin

text \<open>
  Budget amounts, policies and usage records (\<open>domain/budget_amount.py\<close>,
  \<open>domain/budget_policy.py\<close>, \<open>domain/budget_usage.py\<close>). The lemmas show that normalisation
  establishes the policy invariant, that it is idempotent, that an update keeps the invariant
  and moves the status along the transition table, and that float rounding cannot make a
  larger spend look smaller.
\<close>

section \<open>Amounts\<close>

record budget_amount =
  usd :: pyfloat

definition budget_amount_new :: "pyfloat \<Rightarrow> exc + budget_amount" where
  "budget_amount_new v =
     (if \<not> pf_isfinite v then Inl (ValueError ''budget amount must be finite'')
      else if pf_less v (Fin 0) then Inl (ValueError ''budget amount must be non-negative'')
      else Inr \<lparr>usd = v\<rparr>)"

definition amount_zero :: "exc + budget_amount" where
  "amount_zero = budget_amount_new (Fin 0)"

definition non_negative_usd :: "pyfloat \<Rightarrow> exc + budget_amount" where
  "non_negative_usd v = budget_amount_new v"

definition positive_usd :: "pyfloat \<Rightarrow> exc + budget_amount" where
  "positive_usd v =
     bindE (budget_amount_new v) (\<lambda>amount.
       if pf_le (usd amount) (Fin 0) then Inl (ValueError ''budget amount must be positive'')
       else Inr amount)"

definition amount_plus :: "budget_amount \<Rightarrow> budget_amount \<Rightarrow> exc + budget_amount" where
  "amount_plus x y = budget_amount_new (pf_add (usd x) (usd y))"

definition amount_exceeds :: "budget_amount \<Rightarrow> budget_amount \<Rightarrow> bool" where
  "amount_exceeds x y \<longleftrightarrow> pf_less (usd y) (usd x)"

record budget_warning_threshold =
  ratio :: pyfloat

definition warning_threshold_from_ratio :: "pyfloat \<Rightarrow> exc + budget_warning_threshold" where
  "warning_threshold_from_ratio v =
     (if \<not> pf_isfinite v then Inl (ValueError ''budget warning threshold must be finite'')
      else if pf_le v (Fin 0) \<or> pf_less (Fin 1) v
      then Inl (ValueError ''budget warning threshold must be within (0, 1]'')
      else Inr \<lparr>ratio = v\<rparr>)"

section \<open>Policy status\<close>

datatype budget_policy_status =
    BudgetPolicyStatus_ACTIVE
  | BudgetPolicyStatus_PAUSED
  | BudgetPolicyStatus_ARCHIVED

fun budget_policy_status_value :: "budget_policy_status \<Rightarrow> string" where
  "budget_policy_status_value BudgetPolicyStatus_ACTIVE = ''active''"
| "budget_policy_status_value BudgetPolicyStatus_PAUSED = ''paused''"
| "budget_policy_status_value BudgetPolicyStatus_ARCHIVED = ''archived''"

definition budget_policy_status_members :: "budget_policy_status list" where
  "budget_policy_status_members =
     [BudgetPolicyStatus_ACTIVE, BudgetPolicyStatus_PAUSED, BudgetPolicyStatus_ARCHIVED]"

definition BUDGET_POLICY_STATUSES :: "string list" where
  "BUDGET_POLICY_STATUSES = [''active'', ''paused'', ''archived'']"

definition normalize_budget_policy_status :: "string \<Rightarrow> string" where
  "normalize_budget_policy_status status = py_lower (py_strip status)"

definition budget_policy_status_of ::
  "budget_policy_status enum_arg \<Rightarrow> exc + budget_policy_status option" where
  "budget_policy_status_of v =
     (case v of
        NoneArg \<Rightarrow> Inr None
      | EnumArg e \<Rightarrow> Inr (Some e)
      | StrArg s \<Rightarrow>
          bindE (mapErr (\<lambda>e. InvalidBudgetPolicyStatusError s)
                   (enum_parse ''BudgetPolicyStatus'' budget_policy_status_value
                      budget_policy_status_members (normalize_budget_policy_status s)))
            (\<lambda>e. Inr (Some e)))"

definition is_budget_policy_status :: "string \<Rightarrow> bool" where
  "is_budget_policy_status status \<longleftrightarrow>
     normalize_budget_policy_status status \<in> set BUDGET_POLICY_STATUSES"

definition is_active_budget_policy_status :: "string option \<Rightarrow> bool" where
  "is_active_budget_policy_status status \<longleftrightarrow>
     (case status of None \<Rightarrow> False | Some s \<Rightarrow> normalize_budget_policy_status s = ''active'')"

definition requires_unique_active_policy :: "budget_policy_status enum_arg \<Rightarrow> bool" where
  "requires_unique_active_policy status =
     (case status of
        EnumArg e \<Rightarrow> e = BudgetPolicyStatus_ACTIVE
      | StrArg s \<Rightarrow> is_active_budget_policy_status (Some s)
      | NoneArg \<Rightarrow> is_active_budget_policy_status None)"

definition ensure_no_active_conflict :: "budget_policy option \<Rightarrow> string option \<Rightarrow> exc + unit" where
  "ensure_no_active_conflict existing current_budget_id =
     (case existing of
        None \<Rightarrow> Inr ()
      | Some e \<Rightarrow>
          if Some (b_budget_id e) \<noteq> current_budget_id
          then Inl (BudgetPolicyConflictError (b_budget_id e)) else Inr ())"

definition BUDGET_VALID_TRANSITIONS :: "(budget_policy_status \<times> budget_policy_status list) list" where
  "BUDGET_VALID_TRANSITIONS =
     [(BudgetPolicyStatus_ACTIVE, [BudgetPolicyStatus_PAUSED, BudgetPolicyStatus_ARCHIVED]),
      (BudgetPolicyStatus_PAUSED, [BudgetPolicyStatus_ACTIVE, BudgetPolicyStatus_ARCHIVED]),
      (BudgetPolicyStatus_ARCHIVED, [])]"

definition BUDGET_STATE_MACHINE :: "budget_policy_status state_machine" where
  "BUDGET_STATE_MACHINE = machine_of budget_policy_status_value BUDGET_VALID_TRANSITIONS"

section \<open>The policy aggregate\<close>

definition scope_id_for_policy :: "budget_scope \<Rightarrow> string option \<Rightarrow> exc + string option" where
  "scope_id_for_policy scope scope_id =
     (let cleaned = map_option py_strip scope_id
      in if budget_scope_value scope = budget_scope_value BudgetScope_COMPANY then
           (if truthy_str cleaned then Inl (InvalidBudgetPolicyError ''company_scope_id_forbidden'')
            else Inr None)
         else if \<not> truthy_str cleaned then Inl (InvalidBudgetPolicyError ''scope_id_required'')
         else Inr cleaned)"

definition clean_model_allowlist :: "string list \<Rightarrow> string list" where
  "clean_model_allowlist vs = filter (\<lambda>s. s \<noteq> []) (map py_strip vs)"

record budget_policy_created =
  bpc_budget_id :: string
  bpc_company_id :: string
  bpc_scope :: string
  bpc_scope_id :: "string option"
  bpc_period :: string
  bpc_limit_usd :: pyfloat
  bpc_warning_threshold :: pyfloat
  bpc_status :: budget_policy_status
  bpc_model_allowlist :: "string list"

record budget_policy_updated =
  bpu_budget_id :: string
  bpu_company_id :: string
  bpu_scope :: string
  bpu_scope_id :: "string option"
  bpu_period :: string
  bpu_from_status :: budget_policy_status
  bpu_to_status :: budget_policy_status
  bpu_changed_fields :: "string list"

datatype budget_policy_event =
  Created budget_policy_created | Updated budget_policy_updated

type_synonym budget_policy_agg = "(budget_policy, budget_policy_event) aggregate"

definition budget_policy_record_status :: "budget_policy \<Rightarrow> exc + budget_policy_status" where
  "budget_policy_record_status rec =
     bindE (budget_policy_status_of (StrArg (b_status rec))) (\<lambda>s. case s of
         None \<Rightarrow> Inl (InvalidBudgetPolicyStatusError
                   (''BudgetPolicy '' @ b_budget_id rec @ '': missing status''))
       | Some st \<Rightarrow> Inr st)"

definition normalize_budget_policy :: "budget_policy \<Rightarrow> exc + budget_policy" where
  "normalize_budget_policy rec =
     bindE (scope_id_for_policy (b_scope rec) (b_scope_id rec)) (\<lambda>scope_id.
     bindE (positive_usd (b_limit_usd rec)) (\<lambda>limit.
     bindE (warning_threshold_from_ratio (b_warning_threshold rec)) (\<lambda>threshold.
     bindE (budget_policy_record_status rec) (\<lambda>status.
       Inr (rec\<lparr>b_scope_id := scope_id, b_limit_usd := usd limit,
                b_warning_threshold := ratio threshold,
                b_status := budget_policy_status_value status,
                b_model_allowlist := clean_model_allowlist (b_model_allowlist rec)\<rparr>)))))"

definition budget_policy_for_creation :: "budget_policy \<Rightarrow> exc + budget_policy_agg" where
  "budget_policy_for_creation rec =
     bindE (normalize_budget_policy rec) (\<lambda>r. Inr \<lparr>agg_record = r, agg_events = []\<rparr>)"

definition budget_policy_from_record :: "budget_policy \<Rightarrow> exc + budget_policy_agg" where
  "budget_policy_from_record rec =
     bindE (normalize_budget_policy rec) (\<lambda>r. Inr \<lparr>agg_record = r, agg_events = []\<rparr>)"

definition budget_transition_status ::
  "budget_policy \<Rightarrow> budget_policy_status enum_arg \<Rightarrow> exc + budget_policy_status" where
  "budget_transition_status rec target =
     bindE (budget_policy_status_of target) (\<lambda>ts. case ts of
         None \<Rightarrow> Inl (InvalidBudgetPolicyStatusError
                   (''BudgetPolicy '' @ b_budget_id rec @ '': missing transition target''))
       | Some t \<Rightarrow>
           bindE (budget_policy_record_status rec) (\<lambda>current.
             if t = current then Inr t
             else bindE (ensure_can_transition budget_policy_status_value BUDGET_STATE_MACHINE
                           current t (''BudgetPolicy '' @ b_budget_id rec)
                           InvalidBudgetPolicyTransitionError ''transition'')
                    (\<lambda>u. Inr t)))"

text \<open>The optional arguments of \<open>apply_update\<close>.\<close>

record budget_update =
  up_limit_usd :: "pyfloat option"
  up_warning_threshold :: "pyfloat option"
  up_status :: "string option"
  up_model_allowlist :: "string list option"
  up_metadata :: "pydict option"

definition optE :: "('a \<Rightarrow> exc + 'b) \<Rightarrow> 'a option \<Rightarrow> exc + 'b option" where
  "optE f v = (case v of None \<Rightarrow> Inr None | Some x \<Rightarrow> bindE (f x) (\<lambda>y. Inr (Some y)))"

definition set_opt :: "('a \<Rightarrow> 'r \<Rightarrow> 'r) \<Rightarrow> 'a option \<Rightarrow> 'r \<Rightarrow> 'r" where
  "set_opt upd v r = (case v of None \<Rightarrow> r | Some x \<Rightarrow> upd x r)"

definition budget_update_values :: "budget_policy \<Rightarrow> budget_update \<Rightarrow> exc + (budget_policy \<times> bool)" where
  "budget_update_values rec u =
     bindE (optE positive_usd (up_limit_usd u)) (\<lambda>limit.
     bindE (optE warning_threshold_from_ratio (up_warning_threshold u)) (\<lambda>threshold.
     bindE (optE (\<lambda>s. budget_transition_status rec (StrArg s)) (up_status u)) (\<lambda>status.
       Inr (set_opt (\<lambda>m r. r\<lparr>b_metadata := m\<rparr>) (up_metadata u)
           (set_opt (\<lambda>m r. r\<lparr>b_model_allowlist := clean_model_allowlist m\<rparr>) (up_model_allowlist u)
           (set_opt (\<lambda>s r. r\<lparr>b_status := budget_policy_status_value s\<rparr>) status
           (set_opt (\<lambda>t r. r\<lparr>b_warning_threshold := ratio t\<rparr>) threshold
           (set_opt (\<lambda>l r. r\<lparr>b_limit_usd := usd l\<rparr>) limit rec)))),
         limit \<noteq> None \<or> threshold \<noteq> None \<or> status \<noteq> None \<or> up_model_allowlist u \<noteq> None \<or>
         up_metadata u \<noteq> None))))"

definition budget_apply_update ::
  "budget_update \<Rightarrow> string list \<Rightarrow> budget_policy_agg \<Rightarrow> exc + budget_policy_agg" where
  "budget_apply_update u changed_fields a =
     (let rec = agg_record a in
      bindE (budget_policy_record_status rec) (\<lambda>previous.
      bindE (budget_update_values rec u) (\<lambda>(updated, any).
      bindE (if any then normalize_budget_policy updated else Inr rec) (\<lambda>rec'.
      bindE (budget_policy_record_status rec') (\<lambda>current.
        Inr \<lparr>agg_record = rec',
             agg_events = agg_events a @ [Updated
               \<lparr>bpu_budget_id = b_budget_id rec', bpu_company_id = b_company_id rec',
                bpu_scope = budget_scope_value (b_scope rec'), bpu_scope_id = b_scope_id rec',
                bpu_period = budget_period_value (b_period rec'),
                bpu_from_status = previous, bpu_to_status = current,
                bpu_changed_fields = sort changed_fields\<rparr>]\<rparr>)))))"

definition budget_mark_created :: "budget_policy_agg \<Rightarrow> exc + budget_policy_agg" where
  "budget_mark_created a =
     (let rec = agg_record a in
      bindE (budget_policy_record_status rec) (\<lambda>status.
        Inr (a\<lparr>agg_events := agg_events a @ [Created
               \<lparr>bpc_budget_id = b_budget_id rec, bpc_company_id = b_company_id rec,
                bpc_scope = budget_scope_value (b_scope rec), bpc_scope_id = b_scope_id rec,
                bpc_period = budget_period_value (b_period rec), bpc_limit_usd = b_limit_usd rec,
                bpc_warning_threshold = b_warning_threshold rec, bpc_status = status,
                bpc_model_allowlist = b_model_allowlist rec\<rparr>]\<rparr>)))"

text \<open>The invariant of a stored policy.\<close>

definition budget_policy_ok :: "budget_policy \<Rightarrow> bool" where
  "budget_policy_ok rec \<longleftrightarrow>
     (if b_scope rec = BudgetScope_COMPANY then b_scope_id rec = None
      else \<exists>s. b_scope_id rec = Some s \<and> s \<noteq> [] \<and> py_strip s = s) \<and>
     (\<exists>q. b_limit_usd rec = Fin q \<and> 0 < q) \<and>
     (\<exists>q. b_warning_threshold rec = Fin q \<and> 0 < q \<and> q \<le> 1) \<and>
     b_status rec \<in> set BUDGET_POLICY_STATUSES \<and>
     (\<forall>m \<in> set (b_model_allowlist rec). m \<noteq> [] \<and> py_strip m = m)"

section \<open>Usage records\<close>

definition budget_token_count :: "int option \<Rightarrow> string \<Rightarrow> exc + int" where
  "budget_token_count v field_name =
     (let count = (case v of None \<Rightarrow> 0 | Some i \<Rightarrow> i)
      in if count < 0 then Inl (InvalidBudgetUsageError (field_name @ ''_must_be_non_negative''))
         else Inr count)"

definition clean_budget_usage_model :: "string \<Rightarrow> exc + string" where
  "clean_budget_usage_model v =
     (let cleaned = py_strip v
      in if cleaned = [] then Inl (InvalidBudgetUsageError ''model_required'') else Inr cleaned)"

record budget_usage_recorded =
  bur_usage_id :: string
  bur_company_id :: string
  bur_budget_id :: string
  bur_cost_usd :: pyfloat
  bur_model :: string
  bur_input_tokens :: int
  bur_output_tokens :: int
  bur_run_id :: "string option"
  bur_trace_id :: "string option"
  bur_metadata_keys :: "string list"

type_synonym budget_usage_agg = "(budget_usage, budget_usage_recorded) aggregate"

definition normalize_budget_usage :: "budget_usage \<Rightarrow> exc + budget_usage" where
  "normalize_budget_usage rec =
     bindE (non_negative_usd (bu_cost_usd rec)) (\<lambda>cost.
     bindE (clean_budget_usage_model (bu_model rec)) (\<lambda>model.
     bindE (budget_token_count (Some (bu_input_tokens rec)) ''input_tokens'') (\<lambda>inp.
     bindE (budget_token_count (Some (bu_output_tokens rec)) ''output_tokens'') (\<lambda>outp.
       Inr (rec\<lparr>bu_cost_usd := usd cost, bu_model := model, bu_input_tokens := inp,
                bu_output_tokens := outp\<rparr>)))))"

definition budget_usage_for_recording :: "budget_usage \<Rightarrow> exc + budget_usage_agg" where
  "budget_usage_for_recording rec =
     bindE (normalize_budget_usage rec) (\<lambda>r. Inr \<lparr>agg_record = r, agg_events = []\<rparr>)"

definition budget_mark_recorded :: "budget_usage_agg \<Rightarrow> budget_usage_agg" where
  "budget_mark_recorded a =
     (let rec = agg_record a in
      a\<lparr>agg_events := agg_events a @
        [\<lparr>bur_usage_id = bu_usage_id rec, bur_company_id = bu_company_id rec,
          bur_budget_id = bu_budget_id rec, bur_cost_usd = bu_cost_usd rec,
          bur_model = bu_model rec, bur_input_tokens = bu_input_tokens rec,
          bur_output_tokens = bu_output_tokens rec, bur_run_id = bu_run_id rec,
          bur_trace_id = bu_trace_id rec,
          bur_metadata_keys = sort (map fst (bu_metadata rec))\<rparr>]\<rparr>)"

definition budget_usage_ok :: "budget_usage \<Rightarrow> bool" where
  "budget_usage_ok rec \<longleftrightarrow>
     (\<exists>q. bu_cost_usd rec = Fin q \<and> 0 \<le> q) \<and> bu_model rec \<noteq> [] \<and>
     py_strip (bu_model rec) = bu_model rec \<and> 0 \<le> bu_input_tokens rec \<and> 0 \<le> bu_output_tokens rec"

section \<open>Lemmas on amounts\<close>

lemma budget_amount_new_ok: "budget_amount_new v = Inr a \<longleftrightarrow> (\<exists>q. v = Fin q \<and> 0 \<le> q \<and> a = \<lparr>usd = v\<rparr>)"
  by (cases v) (auto simp: budget_amount_new_def)

lemma positive_usd_ok: "positive_usd v = Inr a \<longleftrightarrow> (\<exists>q. v = Fin q \<and> 0 < q \<and> a = \<lparr>usd = v\<rparr>)"
  by (cases v) (auto simp: positive_usd_def budget_amount_new_def)

lemma warning_threshold_ok:
  "warning_threshold_from_ratio v = Inr a \<longleftrightarrow> (\<exists>q. v = Fin q \<and> 0 < q \<and> q \<le> 1 \<and> a = \<lparr>ratio = v\<rparr>)"
  by (cases v) (auto simp: warning_threshold_from_ratio_def)

lemma non_negative_usd_ok: "non_negative_usd v = Inr a \<longleftrightarrow> (\<exists>q. v = Fin q \<and> 0 \<le> q \<and> a = \<lparr>usd = v\<rparr>)"
  by (simp add: non_negative_usd_def budget_amount_new_ok)

text \<open>The validators of the models accept every amount that the value objects accept.\<close>

lemma validators_weaker:
  "positive_usd v = Inr a \<Longrightarrow> limit_must_be_positive v = Inr v"
  "warning_threshold_from_ratio v = Inr t \<Longrightarrow> warning_threshold_must_be_ratio v = Inr v"
  "non_negative_usd v = Inr a \<Longrightarrow> cost_must_be_non_negative v = Inr v"
  by (auto simp: positive_usd_ok warning_threshold_ok non_negative_usd_ok
      limit_must_be_positive_def warning_threshold_must_be_ratio_def cost_must_be_non_negative_def)

section \<open>Lemmas on policies\<close>

lemma budget_policy_status_members_all: "set budget_policy_status_members = UNIV"
proof -
  have "x \<in> set budget_policy_status_members" for x
    by (cases x) (simp_all add: budget_policy_status_members_def)
  then show ?thesis by blast
qed

interpretation budget_policy_status_enum: str_enum "''BudgetPolicyStatus''"
  budget_policy_status_value budget_policy_status_members
proof
  show "inj budget_policy_status_value"
  proof (rule injI)
    fix x y assume "budget_policy_status_value x = budget_policy_status_value y"
    then show "x = y" by (cases x; cases y; simp)
  qed
qed (rule budget_policy_status_members_all)

lemma budget_value_clean [simp]:
  "normalize_budget_policy_status (budget_policy_status_value e) = budget_policy_status_value e"
  by (cases e) (simp_all add: normalize_budget_policy_status_def py_lower_def py_lower_char_def
      py_strip_def py_isspace_def)

lemma range_budget_policy_status_value:
  "range budget_policy_status_value = set BUDGET_POLICY_STATUSES"
  by (simp add: BUDGET_POLICY_STATUSES_def budget_policy_status_members_all [symmetric]
      budget_policy_status_members_def)

lemma budget_policy_status_of_simps [simp]:
  "budget_policy_status_of NoneArg = Inr None"
  "budget_policy_status_of (EnumArg e) = Inr (Some e)"
  "budget_policy_status_of (StrArg (budget_policy_status_value e)) = Inr (Some e)"
  by (simp_all add: budget_policy_status_of_def mapErr_def budget_policy_status_enum.parse_print)

lemma budget_policy_status_of_str:
  "budget_policy_status_of (StrArg s) = Inr x \<longleftrightarrow>
     (\<exists>e. x = Some e \<and> normalize_budget_policy_status s = budget_policy_status_value e)"
  by (auto simp: budget_policy_status_of_def budget_policy_status_enum.parse_ok_iff)

lemma is_budget_policy_status_iff:
  "is_budget_policy_status s \<longleftrightarrow> (\<exists>x. budget_policy_status_of (StrArg s) = Inr x)"
  by (auto simp: is_budget_policy_status_def budget_policy_status_of_str
      simp flip: range_budget_policy_status_value)

lemma record_status_ok:
  "budget_policy_record_status rec = Inr s \<longleftrightarrow>
     normalize_budget_policy_status (b_status rec) = budget_policy_status_value s"
  by (auto simp: budget_policy_record_status_def budget_policy_status_of_str split: option.splits)

lemma record_status_written [simp]:
  "b_status rec = budget_policy_status_value s \<Longrightarrow> budget_policy_record_status rec = Inr s"
  by (simp add: record_status_ok)

lemma budget_table_closed:
  "\<forall>row \<in> set BUDGET_VALID_TRANSITIONS. set (snd row) \<subseteq> fst ` set BUDGET_VALID_TRANSITIONS"
  by (simp add: BUDGET_VALID_TRANSITIONS_def)

lemma budget_edge:
  "edge BUDGET_STATE_MACHINE s t \<longleftrightarrow> s \<noteq> t \<and> s \<noteq> BudgetPolicyStatus_ARCHIVED"
  unfolding BUDGET_STATE_MACHINE_def machine_of_edge [OF budget_table_closed]
  by (cases s; cases t) (simp_all add: BUDGET_VALID_TRANSITIONS_def)

lemma scope_id_for_policy_ok:
  "scope_id_for_policy sc sid = Inr x \<longleftrightarrow>
     (if sc = BudgetScope_COMPANY then x = None \<and> (\<forall>s. sid = Some s \<longrightarrow> py_strip s = [])
      else \<exists>s. sid = Some s \<and> x = Some (py_strip s) \<and> py_strip s \<noteq> [])"
proof -
  have "budget_scope_value sc = budget_scope_value BudgetScope_COMPANY \<longleftrightarrow> sc = BudgetScope_COMPANY"
    using budget_scope_enum.val_inj by (metis injD)
  then show ?thesis by (cases sid) (auto simp: scope_id_for_policy_def Let_def)
qed

lemma clean_model_allowlist_clean:
  "m \<in> set (clean_model_allowlist ms) \<Longrightarrow> m \<noteq> [] \<and> py_strip m = m"
  by (auto simp: clean_model_allowlist_def)

lemma clean_model_allowlist_id:
  "(\<forall>m \<in> set ms. m \<noteq> [] \<and> py_strip m = m) \<Longrightarrow> clean_model_allowlist ms = ms"
  by (induction ms) (auto simp: clean_model_allowlist_def)

lemma normalize_budget_policy_ok:
  assumes "normalize_budget_policy rec = Inr r"
  shows "budget_policy_ok r"
  using assms
  by (auto simp: normalize_budget_policy_def budget_policy_ok_def positive_usd_ok warning_threshold_ok
      scope_id_for_policy_ok clean_model_allowlist_clean range_budget_policy_status_value [symmetric]
      split: if_splits dest: clean_model_allowlist_clean)

lemma normalize_budget_policy_id:
  assumes "budget_policy_ok rec"
  shows "normalize_budget_policy rec = Inr rec"
proof -
  from assms obtain s where s: "b_status rec = budget_policy_status_value s"
    by (auto simp: budget_policy_ok_def simp flip: range_budget_policy_status_value)
  have "scope_id_for_policy (b_scope rec) (b_scope_id rec) = Inr (b_scope_id rec)"
    using assms by (auto simp: scope_id_for_policy_ok budget_policy_ok_def)
  moreover have "positive_usd (b_limit_usd rec) = Inr \<lparr>usd = b_limit_usd rec\<rparr>"
    "warning_threshold_from_ratio (b_warning_threshold rec) = Inr \<lparr>ratio = b_warning_threshold rec\<rparr>"
    using assms by (auto simp: budget_policy_ok_def positive_usd_ok warning_threshold_ok)
  moreover have "clean_model_allowlist (b_model_allowlist rec) = b_model_allowlist rec"
    using assms by (auto simp: budget_policy_ok_def clean_model_allowlist_id)
  ultimately show ?thesis using s by (simp add: normalize_budget_policy_def)
qed

lemma normalize_keeps_identity:
  assumes "normalize_budget_policy rec = Inr r"
  shows "b_budget_id r = b_budget_id rec \<and> b_company_id r = b_company_id rec \<and>
    b_scope r = b_scope rec \<and> b_period r = b_period rec \<and> b_metadata r = b_metadata rec"
  using assms by (auto simp: normalize_budget_policy_def)

lemma budget_transition_status_ok:
  assumes "budget_transition_status rec (StrArg s) = Inr t"
  shows "\<exists>c. budget_policy_record_status rec = Inr c \<and> (c = t \<or> edge BUDGET_STATE_MACHINE c t) \<and>
    normalize_budget_policy_status s = budget_policy_status_value t"
  using assms
  by (auto simp: budget_transition_status_def budget_policy_status_of_str ensure_can_transition_ok
      split: if_splits)

lemma optE_ok:
  "optE f v = Inr y \<longleftrightarrow> (case v of None \<Rightarrow> y = None | Some x \<Rightarrow> \<exists>z. f x = Inr z \<and> y = Some z)"
  by (auto simp: optE_def split: option.splits)

lemma set_opt_frame: "(\<And>x r. f (upd x r) = f r) \<Longrightarrow> f (set_opt upd v r) = f r"
  by (simp add: set_opt_def split: option.splits)

lemmas set_opt_frames = set_opt_frame [where f = b_status] set_opt_frame [where f = b_budget_id]
  set_opt_frame [where f = b_company_id] set_opt_frame [where f = b_scope]
  set_opt_frame [where f = b_period]

lemma set_opt_b_status:
  "b_status (set_opt (\<lambda>s r. r\<lparr>b_status := f s\<rparr>) v r) =
     (case v of None \<Rightarrow> b_status r | Some x \<Rightarrow> f x)"
  by (simp add: set_opt_def split: option.splits)

lemma budget_update_values_frame:
  assumes "budget_update_values rec u = Inr (r, any)"
  shows "b_budget_id r = b_budget_id rec" "b_company_id r = b_company_id rec"
    "b_scope r = b_scope rec" "b_period r = b_period rec"
  using assms by (auto simp: budget_update_values_def set_opt_frames)

lemma budget_update_values_b_status:
  assumes "budget_update_values rec u = Inr (r, any)"
  shows "case up_status u of None \<Rightarrow> b_status r = b_status rec
     | Some s \<Rightarrow> \<exists>t. budget_transition_status rec (StrArg s) = Inr t \<and>
                   b_status r = budget_policy_status_value t"
proof -
  from assms obtain st where st: "optE (\<lambda>s. budget_transition_status rec (StrArg s)) (up_status u) = Inr st"
    and "b_status r = (case st of None \<Rightarrow> b_status rec | Some t \<Rightarrow> budget_policy_status_value t)"
    by (auto simp: budget_update_values_def set_opt_frames set_opt_b_status cong: option.case_cong)
  then show ?thesis by (auto simp: optE_ok split: option.splits)
qed

lemma budget_update_values_status:
  assumes "budget_update_values rec u = Inr (r, any)" and "budget_policy_record_status rec = Inr c"
  shows "\<exists>t. budget_policy_record_status r = Inr t \<and> (c = t \<or> edge BUDGET_STATE_MACHINE c t)"
proof (cases "up_status u")
  case None
  with budget_update_values_b_status [OF assms(1)] assms(2) show ?thesis
    by (auto simp: record_status_ok)
next
  case (Some s)
  with budget_update_values_b_status [OF assms(1)] obtain t where
    "budget_transition_status rec (StrArg s) = Inr t" "b_status r = budget_policy_status_value t"
    by auto
  with budget_transition_status_ok [of rec s t] assms(2) show ?thesis by auto
qed

lemma normalize_status:
  assumes "normalize_budget_policy rec = Inr r" and "budget_policy_record_status rec = Inr c"
  shows "budget_policy_record_status r = Inr c"
  using assms by (auto simp: normalize_budget_policy_def)

lemma normalize_b_status:
  "normalize_budget_policy rec = Inr r \<Longrightarrow> budget_policy_record_status rec = Inr c \<Longrightarrow>
   b_status r = budget_policy_status_value c"
  by (auto simp: normalize_budget_policy_def)

lemma budget_apply_update_ok:
  assumes "budget_apply_update u cf a = Inr a'" and ok: "budget_policy_ok (agg_record a)"
  shows "budget_policy_ok (agg_record a')"
    and "b_budget_id (agg_record a') = b_budget_id (agg_record a)"
    and "b_company_id (agg_record a') = b_company_id (agg_record a)"
    and "b_scope (agg_record a') = b_scope (agg_record a)"
    and "b_period (agg_record a') = b_period (agg_record a)"
    and "\<exists>c t. budget_policy_record_status (agg_record a) = Inr c \<and>
      budget_policy_record_status (agg_record a') = Inr t \<and> (c = t \<or> edge BUDGET_STATE_MACHINE c t)"
proof -
  from assms(1) obtain c r any t where
    c: "budget_policy_record_status (agg_record a) = Inr c" and
    v: "budget_update_values (agg_record a) u = Inr (r, any)" and
    n: "(if any then normalize_budget_policy r else Inr (agg_record a)) = Inr (agg_record a')" and
    t: "budget_policy_record_status (agg_record a') = Inr t"
    by (auto simp: budget_apply_update_def Let_def split: prod.splits)
  note v' = budget_update_values_status [OF v c]
  show "budget_policy_ok (agg_record a')"
    using n ok by (auto split: if_splits intro: normalize_budget_policy_ok)
  show "b_budget_id (agg_record a') = b_budget_id (agg_record a)"
    "b_company_id (agg_record a') = b_company_id (agg_record a)"
    "b_scope (agg_record a') = b_scope (agg_record a)"
    "b_period (agg_record a') = b_period (agg_record a)"
    using n budget_update_values_frame [OF v]
    by (auto split: if_splits dest: normalize_keeps_identity)
  show "\<exists>c t. budget_policy_record_status (agg_record a) = Inr c \<and>
      budget_policy_record_status (agg_record a') = Inr t \<and> (c = t \<or> edge BUDGET_STATE_MACHINE c t)"
    using n v' c t by (cases any) (auto dest: normalize_status)
qed

lemma budget_apply_update_status:
  assumes "budget_apply_update u cf a = Inr a'" and "up_status u = Some s"
  shows "\<exists>t. budget_policy_status_of (StrArg s) = Inr (Some t) \<and>
    b_status (agg_record a') = budget_policy_status_value t"
proof -
  from assms(1) obtain r any where v: "budget_update_values (agg_record a) u = Inr (r, any)"
    and n: "(if any then normalize_budget_policy r else Inr (agg_record a)) = Inr (agg_record a')"
    by (auto simp: budget_apply_update_def Let_def split: prod.splits)
  from v assms(2) have any by (auto simp: budget_update_values_def optE_ok)
  from budget_update_values_b_status [OF v] assms(2) obtain t where
    t: "budget_transition_status (agg_record a) (StrArg s) = Inr t" "b_status r = budget_policy_status_value t"
    by auto
  have "budget_policy_record_status r = Inr t" by (rule record_status_written [OF t(2)])
  with n \<open>any\<close> have "b_status (agg_record a') = budget_policy_status_value t"
    by (simp add: normalize_b_status)
  moreover from budget_transition_status_ok [OF t(1)]
  have "budget_policy_status_of (StrArg s) = Inr (Some t)" by (auto simp: budget_policy_status_of_str)
  ultimately show ?thesis by blast
qed

section \<open>Lemmas on usage\<close>

lemma normalize_budget_usage_ok:
  "normalize_budget_usage rec = Inr r \<Longrightarrow> budget_usage_ok r"
  by (auto simp: normalize_budget_usage_def budget_usage_ok_def non_negative_usd_ok
      clean_budget_usage_model_def budget_token_count_def Let_def split: if_splits)

lemma normalize_budget_usage_id:
  "budget_usage_ok rec \<Longrightarrow> normalize_budget_usage rec = Inr rec"
  by (auto simp: normalize_budget_usage_def budget_usage_ok_def non_negative_usd_def
      budget_amount_new_def clean_budget_usage_model_def budget_token_count_def)

end
