(* ===== verification/Record_Domain.thy ===== *)
theory Record_Domain
  imports Control_Models
begin

text \<open>
  The record-keeping aggregates: append-only audit evidence (\<open>domain/audit_event.py\<close>), company
  contexts (\<open>domain/company_context.py\<close>), artifacts (\<open>domain/artifact.py\<close>), agent prompt
  configurations (\<open>domain/agent_prompt_config.py\<close>) and the execution-link policy that artifacts
  and decisions share (\<open>domain/execution_links.py\<close>). The lemmas characterise what normalisation
  accepts, that it is idempotent, and that resolved links agree with every record consulted.
\<close>

definition clean_metadata :: "pydict option \<Rightarrow> exc + pydict" where
  "clean_metadata v = bindE (from_mapping v) (\<lambda>m. Inr (as_dict m))"

section \<open>Audit events\<close>

definition clean_audit_text :: "string \<Rightarrow> string \<Rightarrow> exc + string" where
  "clean_audit_text v field_name =
     (let cleaned = py_strip v
      in if cleaned = [] then Inl (InvalidAuditEventError (field_name @ ''_required'')) else Inr cleaned)"

definition clean_optional_audit_text :: "string option \<Rightarrow> string option" where
  "clean_optional_audit_text v = (case v of None \<Rightarrow> None | Some s \<Rightarrow> or_none (py_strip s))"

definition clean_audit_actor_type :: "string \<Rightarrow> string" where
  "clean_audit_actor_type v = (let cleaned = py_strip v in if cleaned = [] then ''system'' else cleaned)"

definition clean_audit_actor_id :: "string \<Rightarrow> string" where
  "clean_audit_actor_id v = py_strip v"

definition clean_audit_detail :: "pydict option \<Rightarrow> exc + pydict" where
  "clean_audit_detail v = clean_metadata v"

definition audit_event_for_append :: "audit_event \<Rightarrow> exc + audit_event" where
  "audit_event_for_append rec =
     bindE (clean_audit_text (ae_audit_event_id rec) ''audit_event_id'') (\<lambda>audit_event_id.
     bindE (clean_audit_text (ae_company_id rec) ''company_id'') (\<lambda>company_id.
     bindE (clean_audit_text (ae_action rec) ''action'') (\<lambda>action.
     bindE (clean_audit_text (ae_target_type rec) ''target_type'') (\<lambda>target_type.
     bindE (clean_audit_text (ae_target_id rec) ''target_id'') (\<lambda>target_id.
     bindE (clean_audit_detail (Some (ae_detail rec))) (\<lambda>detail.
       Inr (rec\<lparr>ae_audit_event_id := audit_event_id, ae_company_id := company_id,
                ae_action := action, ae_target_type := target_type, ae_target_id := target_id,
                ae_actor_type := clean_audit_actor_type (ae_actor_type rec),
                ae_actor_id := clean_audit_actor_id (ae_actor_id rec),
                ae_trace_id := clean_optional_audit_text (ae_trace_id rec),
                ae_run_id := clean_optional_audit_text (ae_run_id rec),
                ae_work_item_id := clean_optional_audit_text (ae_work_item_id rec),
                ae_idempotency_key := clean_optional_audit_text (ae_idempotency_key rec),
                ae_detail := detail\<rparr>)))))))"

definition clean_text :: "string \<Rightarrow> bool" where
  "clean_text s \<longleftrightarrow> s \<noteq> [] \<and> py_strip s = s"

definition clean_opt_text :: "string option \<Rightarrow> bool" where
  "clean_opt_text v \<longleftrightarrow> (case v of None \<Rightarrow> True | Some s \<Rightarrow> clean_text s)"

definition audit_event_ok :: "audit_event \<Rightarrow> bool" where
  "audit_event_ok rec \<longleftrightarrow>
     clean_text (ae_audit_event_id rec) \<and> clean_text (ae_company_id rec) \<and>
     clean_text (ae_action rec) \<and> clean_text (ae_target_type rec) \<and> clean_text (ae_target_id rec) \<and>
     clean_text (ae_actor_type rec) \<and> py_strip (ae_actor_id rec) = ae_actor_id rec \<and>
     clean_opt_text (ae_trace_id rec) \<and> clean_opt_text (ae_run_id rec) \<and>
     clean_opt_text (ae_work_item_id rec) \<and> clean_opt_text (ae_idempotency_key rec) \<and>
     json_dict (ae_detail rec)"

section \<open>Company contexts\<close>

definition clean_company_name :: "string \<Rightarrow> exc + string" where
  "clean_company_name v =
     (let cleaned = py_strip v
      in if cleaned = [] then Inl (InvalidCompanyContextError ''name_required'') else Inr cleaned)"

definition clean_company_mission :: "string \<Rightarrow> string" where
  "clean_company_mission v = py_strip v"

record company_context_created =
  ccc_company_id :: string
  ccc_name_length :: nat
  ccc_mission_length :: nat
  ccc_metadata_keys :: "string list"

record company_context_updated =
  ccu_company_id :: string
  ccu_name_changed :: bool
  ccu_mission_changed :: bool
  ccu_metadata_changed :: bool
  ccu_name_length :: nat
  ccu_mission_length :: nat
  ccu_metadata_keys :: "string list"

datatype company_event =
  CompanyCreated company_context_created | CompanyUpdated company_context_updated

type_synonym company_agg = "(company_context, company_event) aggregate"

definition normalize_company :: "company_context \<Rightarrow> exc + company_context" where
  "normalize_company rec =
     bindE (clean_company_name (c_name rec)) (\<lambda>name.
     bindE (clean_metadata (Some (c_metadata rec))) (\<lambda>md.
       Inr (rec\<lparr>c_name := name, c_mission := clean_company_mission (c_mission rec),
                c_metadata := md\<rparr>)))"

definition company_for_creation :: "company_context \<Rightarrow> exc + company_agg" where
  "company_for_creation rec =
     bindE (normalize_company rec) (\<lambda>r. Inr \<lparr>agg_record = r, agg_events = []\<rparr>)"

definition company_apply_update ::
  "string option \<Rightarrow> string option \<Rightarrow> pydict option \<Rightarrow> company_agg \<Rightarrow> exc + company_agg" where
  "company_apply_update name mission metadata a =
     bindE (case name of None \<Rightarrow> Inr (agg_record a)
            | Some n \<Rightarrow> bindE (clean_company_name n) (\<lambda>n'. Inr ((agg_record a)\<lparr>c_name := n'\<rparr>))) (\<lambda>r1.
     let r2 = (case mission of None \<Rightarrow> r1 | Some m \<Rightarrow> r1\<lparr>c_mission := clean_company_mission m\<rparr>) in
     bindE (case metadata of None \<Rightarrow> Inr r2
            | Some d \<Rightarrow> bindE (clean_metadata (Some d)) (\<lambda>d'. Inr (r2\<lparr>c_metadata := d'\<rparr>))) (\<lambda>r3.
     bindE (if name = None \<and> mission = None \<and> metadata = None then Inr (agg_record a)
            else normalize_company r3) (\<lambda>rec.
     bindE (from_mapping (Some (c_metadata rec))) (\<lambda>md.
       Inr \<lparr>agg_record = rec,
            agg_events = agg_events a @ [CompanyUpdated
              \<lparr>ccu_company_id = c_company_id rec, ccu_name_changed = (name \<noteq> None),
               ccu_mission_changed = (mission \<noteq> None), ccu_metadata_changed = (metadata \<noteq> None),
               ccu_name_length = length (c_name rec), ccu_mission_length = length (c_mission rec),
               ccu_metadata_keys = keys_tuple md\<rparr>]\<rparr>))))"

definition company_mark_created :: "company_agg \<Rightarrow> exc + company_agg" where
  "company_mark_created a =
     bindE (from_mapping (Some (c_metadata (agg_record a)))) (\<lambda>md.
       Inr (a\<lparr>agg_events := agg_events a @ [CompanyCreated
              \<lparr>ccc_company_id = c_company_id (agg_record a),
               ccc_name_length = length (c_name (agg_record a)),
               ccc_mission_length = length (c_mission (agg_record a)),
               ccc_metadata_keys = keys_tuple md\<rparr>]\<rparr>))"

section \<open>Artifacts\<close>

definition artifact_required_text :: "string \<Rightarrow> string \<Rightarrow> exc + string" where
  "artifact_required_text v field_name =
     (let cleaned = py_strip v
      in if cleaned = [] then Inl (InvalidArtifactError (field_name @ ''_required'')) else Inr cleaned)"

record artifact_created =
  arc_artifact_id :: string
  arc_company_id :: string
  arc_artifact_type :: string
  arc_goal_id :: "string option"
  arc_work_item_id :: "string option"
  arc_run_id :: "string option"
  arc_created_by_agent_id :: "string option"
  arc_has_content_hash :: bool

type_synonym artifact_agg = "(artifact, artifact_created) aggregate"

definition normalize_artifact :: "artifact \<Rightarrow> exc + artifact" where
  "normalize_artifact rec =
     bindE (artifact_required_text (art_title rec) ''title'') (\<lambda>title.
     bindE (artifact_required_text (art_uri rec) ''uri'') (\<lambda>uri.
     bindE (clean_metadata (Some (art_metadata rec))) (\<lambda>md.
       Inr (rec\<lparr>art_title := title, art_uri := uri, art_metadata := md\<rparr>))))"

definition artifact_for_creation :: "artifact \<Rightarrow> exc + artifact_agg" where
  "artifact_for_creation rec =
     bindE (normalize_artifact rec) (\<lambda>r. Inr \<lparr>agg_record = r, agg_events = []\<rparr>)"

definition artifact_with_execution_links ::
  "string option \<Rightarrow> string option \<Rightarrow> artifact_agg \<Rightarrow> exc + artifact_agg" where
  "artifact_with_execution_links goal_id work_item_id a =
     bindE (normalize_artifact ((agg_record a)\<lparr>art_goal_id := goal_id, art_work_item_id := work_item_id\<rparr>))
       (\<lambda>r. Inr (a\<lparr>agg_record := r\<rparr>))"

definition artifact_mark_created :: "artifact_agg \<Rightarrow> artifact_agg" where
  "artifact_mark_created a =
     (let rec = agg_record a in
      a\<lparr>agg_events := agg_events a @
        [\<lparr>arc_artifact_id = art_artifact_id rec, arc_company_id = art_company_id rec,
          arc_artifact_type = artifact_type_value (art_artifact_type rec),
          arc_goal_id = art_goal_id rec, arc_work_item_id = art_work_item_id rec,
          arc_run_id = art_run_id rec, arc_created_by_agent_id = art_created_by_agent_id rec,
          arc_has_content_hash = truthy_str (art_content_hash rec)\<rparr>]\<rparr>)"

section \<open>Agent prompt configurations\<close>

definition AGENT_PROMPT_MAX_LENGTH :: nat where
  "AGENT_PROMPT_MAX_LENGTH = 50000"

definition AGENT_PROMPT_UPDATED_BY_MAX_LENGTH :: nat where
  "AGENT_PROMPT_UPDATED_BY_MAX_LENGTH = 128"

definition clean_system_prompt :: "string option \<Rightarrow> exc + string" where
  "clean_system_prompt v =
     (let prompt = py_strip (str_or_empty v)
      in if length prompt > AGENT_PROMPT_MAX_LENGTH
         then Inl (InvalidAgentPromptConfigError ''system_prompt_too_long'') else Inr prompt)"

definition clean_updated_by :: "string option \<Rightarrow> string" where
  "clean_updated_by v =
     (let s = (if truthy_str v then str_or_empty v else ''webui'');
          cut = take AGENT_PROMPT_UPDATED_BY_MAX_LENGTH (py_strip s)
      in if cut = [] then ''webui'' else cut)"

record agent_prompt_config_updated =
  pcu_company_id :: string
  pcu_agent_id :: string
  pcu_prompt_length :: nat
  pcu_metadata_keys :: "string list"

type_synonym prompt_config_agg = "(agent_prompt_config, agent_prompt_config_updated) aggregate"

definition prompt_config_for_target ::
  "int \<Rightarrow> string \<Rightarrow> string \<Rightarrow> agent_prompt_config option \<Rightarrow> prompt_config_agg" where
  "prompt_config_for_target now company_id agent_id existing =
     (case existing of
        Some rec \<Rightarrow> from_record rec
      | None \<Rightarrow> from_record
          \<lparr>pc_company_id = company_id, pc_agent_id = agent_id, pc_system_prompt = [],
           pc_updated_by = ''system'', pc_metadata = [], pc_created_at = utc_dt now,
           pc_updated_at = utc_dt now\<rparr>)"

definition prompt_config_update ::
  "string option \<Rightarrow> string option \<Rightarrow> pydict option \<Rightarrow> prompt_config_agg \<Rightarrow> exc + prompt_config_agg" where
  "prompt_config_update system_prompt updated_by metadata a =
     bindE (clean_system_prompt system_prompt) (\<lambda>prompt.
     let actor = clean_updated_by updated_by in
     bindE (clean_metadata metadata) (\<lambda>clean.
     bindE (from_mapping (Some clean)) (\<lambda>md.
       Inr \<lparr>agg_record = (agg_record a)\<lparr>pc_system_prompt := prompt, pc_updated_by := actor,
                                        pc_metadata := clean\<rparr>,
            agg_events = agg_events a @
              [\<lparr>pcu_company_id = pc_company_id (agg_record a), pcu_agent_id = pc_agent_id (agg_record a),
                pcu_prompt_length = length prompt, pcu_metadata_keys = keys_tuple md\<rparr>]\<rparr>)))"

section \<open>Execution links\<close>

record execution_links =
  l_run_id :: "string option"
  l_work_item_id :: "string option"
  l_goal_id :: "string option"

definition links_requested :: "string option \<Rightarrow> string option \<Rightarrow> string option \<Rightarrow> execution_links" where
  "links_requested run_id work_item_id goal_id =
     \<lparr>l_run_id = run_id, l_work_item_id = work_item_id, l_goal_id = goal_id\<rparr>"

definition with_agent_run :: "execution_links \<Rightarrow> agent_run \<Rightarrow> exc + execution_links" where
  "with_agent_run links run =
     bindE (if truthy_str (r_work_item_id run) then
              (if truthy_str (l_work_item_id links) \<and> l_work_item_id links \<noteq> r_work_item_id run
               then Inl (ExecutionLinkMismatchError ''work_item'')
               else Inr (links\<lparr>l_work_item_id := r_work_item_id run\<rparr>))
            else Inr links) (\<lambda>resolved.
       if truthy_str (r_goal_id run) then
         (if truthy_str (l_goal_id resolved) \<and> l_goal_id resolved \<noteq> r_goal_id run
          then Inl (ExecutionLinkMismatchError ''goal'')
          else Inr (resolved\<lparr>l_goal_id := r_goal_id run\<rparr>))
       else Inr resolved)"

definition with_work_item :: "execution_links \<Rightarrow> work_item \<Rightarrow> exc + execution_links" where
  "with_work_item links work =
     (if truthy_str (w_goal_id work) then
        (if truthy_str (l_goal_id links) \<and> l_goal_id links \<noteq> w_goal_id work
         then Inl (ExecutionLinkMismatchError ''goal'')
         else Inr (links\<lparr>l_goal_id := w_goal_id work\<rparr>))
      else Inr links)"

definition as_goal_work_item_tuple :: "execution_links \<Rightarrow> string option \<times> string option" where
  "as_goal_work_item_tuple links = (l_goal_id links, l_work_item_id links)"

text \<open>Two references agree when at most one is given or both are the same.\<close>

definition refs_agree :: "string option \<Rightarrow> string option \<Rightarrow> bool" where
  "refs_agree a b \<longleftrightarrow> (truthy_str a \<and> truthy_str b \<longrightarrow> a = b)"

definition links_agree_run :: "execution_links \<Rightarrow> agent_run \<Rightarrow> bool" where
  "links_agree_run links run \<longleftrightarrow>
     refs_agree (l_work_item_id links) (r_work_item_id run) \<and> refs_agree (l_goal_id links) (r_goal_id run)"

section \<open>Lemmas\<close>

lemma clean_metadata_json: "clean_metadata v = Inr d \<Longrightarrow> json_dict d"
  by (auto simp: clean_metadata_def dest: freeze_mapping_json)

lemma clean_metadata_id: "json_dict d \<Longrightarrow> clean_metadata (Some d) = Inr d"
  using json_dict_normal [of d] by (auto simp: clean_metadata_def)

lemma clean_audit_text_ok: "clean_audit_text v f = Inr s \<longleftrightarrow> s = py_strip v \<and> clean_text s"
  by (auto simp: clean_audit_text_def clean_text_def Let_def)

lemma clean_optional_text_ok: "clean_opt_text (clean_optional_audit_text v)"
  by (simp add: clean_opt_text_def clean_optional_audit_text_def clean_text_def or_none_def
      split: option.splits)

lemma clean_optional_text_id: "clean_opt_text v \<Longrightarrow> clean_optional_audit_text v = v"
  by (auto simp: clean_opt_text_def clean_optional_audit_text_def clean_text_def or_none_def
      split: option.splits)

lemma system_clean: "clean_text ''system''"
  by (simp add: clean_text_def py_strip_def py_isspace_def)

lemma actor_type_ok: "clean_text (clean_audit_actor_type v)"
  by (auto simp: clean_audit_actor_type_def clean_text_def Let_def py_strip_def [of "''system''"] py_isspace_def)

lemma actor_type_id: "clean_text v \<Longrightarrow> clean_audit_actor_type v = v"
  by (simp add: clean_audit_actor_type_def clean_text_def)

lemma audit_event_for_append_ok:
  "audit_event_for_append rec = Inr r \<Longrightarrow> audit_event_ok r"
  by (auto simp: audit_event_for_append_def audit_event_ok_def clean_audit_text_ok clean_audit_detail_def
      clean_optional_text_ok actor_type_ok clean_audit_actor_id_def dest: clean_metadata_json)

lemma audit_event_for_append_id:
  assumes "audit_event_ok rec"
  shows "audit_event_for_append rec = Inr rec"
proof -
  have t: "clean_text s \<Longrightarrow> clean_audit_text s f = Inr s" for s f
    by (simp add: clean_audit_text_ok clean_text_def)
  show ?thesis using assms
    by (simp add: audit_event_for_append_def audit_event_ok_def t clean_optional_text_id actor_type_id
        clean_audit_detail_def clean_metadata_id clean_audit_actor_id_def)
qed

lemma audit_event_for_append_fails_iff:
  "(\<exists>e. audit_event_for_append rec = Inl e) \<longleftrightarrow>
     py_strip (ae_audit_event_id rec) = [] \<or> py_strip (ae_company_id rec) = [] \<or>
     py_strip (ae_action rec) = [] \<or> py_strip (ae_target_type rec) = [] \<or>
     py_strip (ae_target_id rec) = [] \<or> (\<exists>e. clean_metadata (Some (ae_detail rec)) = Inl e)"
  by (auto simp: audit_event_for_append_def bindE_eq_Inl clean_audit_text_def clean_audit_detail_def
      sum_ex_Inl_iff Let_def split: if_splits)

lemma normalize_company_idem:
  assumes "normalize_company rec = Inr r"
  shows "normalize_company r = Inr r"
proof -
  from assms obtain name md where "py_strip (c_name rec) \<noteq> []" "name = py_strip (c_name rec)"
    and "clean_metadata (Some (c_metadata rec)) = Inr md"
    and r: "r = rec\<lparr>c_name := name, c_mission := clean_company_mission (c_mission rec), c_metadata := md\<rparr>"
    by (auto simp: normalize_company_def clean_company_name_def Let_def split: if_splits)
  moreover from this have "clean_metadata (Some md) = Inr md"
    by (blast intro: clean_metadata_id clean_metadata_json)
  ultimately show ?thesis
    by (simp add: normalize_company_def clean_company_name_def clean_company_mission_def)
qed

lemma clean_system_prompt_bound:
  "clean_system_prompt v = Inr p \<Longrightarrow> length p \<le> AGENT_PROMPT_MAX_LENGTH"
  by (auto simp: clean_system_prompt_def Let_def split: if_splits)

lemma clean_updated_by_bound:
  "clean_updated_by v \<noteq> [] \<and> length (clean_updated_by v) \<le> AGENT_PROMPT_UPDATED_BY_MAX_LENGTH"
  by (auto simp: clean_updated_by_def Let_def AGENT_PROMPT_UPDATED_BY_MAX_LENGTH_def)

lemma truthy_eq: "truthy_str v \<Longrightarrow> \<exists>s. v = Some s \<and> s \<noteq> []"
  by (cases v) auto

lemma with_agent_run_ok_iff:
  "(\<exists>l'. with_agent_run links run = Inr l') \<longleftrightarrow> links_agree_run links run"
  by (auto simp: with_agent_run_def links_agree_run_def refs_agree_def split: if_splits)

lemma with_agent_run_result:
  assumes "with_agent_run links run = Inr l'"
  shows "l_run_id l' = l_run_id links"
    and "l_work_item_id l' = opt_or (r_work_item_id run) (l_work_item_id links)"
    and "l_goal_id l' = opt_or (r_goal_id run) (l_goal_id links)"
  using assms by (auto simp: with_agent_run_def opt_or_def split: if_splits)

lemma with_work_item_ok_iff:
  "(\<exists>l'. with_work_item links work = Inr l') \<longleftrightarrow> refs_agree (l_goal_id links) (w_goal_id work)"
  by (auto simp: with_work_item_def refs_agree_def split: if_splits)

lemma with_work_item_result:
  assumes "with_work_item links work = Inr l'"
  shows "l_run_id l' = l_run_id links" "l_work_item_id l' = l_work_item_id links"
    and "l_goal_id l' = opt_or (w_goal_id work) (l_goal_id links)"
  using assms by (auto simp: with_work_item_def opt_or_def split: if_splits)

end
