(* ===== verification/Domain_Events.thy ===== *)
theory Domain_Events
  imports Goal_Domain Work_Item_Domain Agent_Run_Domain Decision_Domain Approval_Domain
    Evolution_Domain Agent_Role_Domain Budget_Domain Record_Domain
begin

text \<open>
  Domain events and their audit and outbox images (\<open>domain/events.py\<close>,
  \<open>domain_event_audit.py\<close>, \<open>domain_event_outbox.py\<close>, the event envelope of
  \<open>shared/schemas/event.py\<close>). Every aggregate event has a payload dictionary, an audit target
  and, through the audit row built from it, an integration event. The lemmas show that the mapping
  is total on well-formed events: the detail always carries the company and the event
  name, and the action always is a legal event type.
\<close>

section \<open>The events of all aggregates\<close>

datatype domain_event =
    EvAgentRun agent_run_status_changed
  | EvAgentRole agent_role_status_changed
  | EvPromptConfig agent_prompt_config_updated
  | EvArtifact artifact_created
  | EvBudgetCreated budget_policy_created
  | EvBudgetUpdated budget_policy_updated
  | EvBudgetUsage budget_usage_recorded
  | EvCompanyCreated company_context_created
  | EvCompanyUpdated company_context_updated
  | EvApproval approval_status_changed
  | EvDecision decision_status_changed
  | EvRollout evolution_rollout_status_changed
  | EvGoal goal_status_changed
  | EvWorkItem work_item_status_changed

fun event_name :: "domain_event \<Rightarrow> string" where
  "event_name (EvAgentRun e) = ''AgentRunStatusChanged''"
| "event_name (EvAgentRole e) = ''AgentRoleStatusChanged''"
| "event_name (EvPromptConfig e) = ''AgentPromptConfigUpdated''"
| "event_name (EvArtifact e) = ''ArtifactCreated''"
| "event_name (EvBudgetCreated e) = ''BudgetPolicyCreated''"
| "event_name (EvBudgetUpdated e) = ''BudgetPolicyUpdated''"
| "event_name (EvBudgetUsage e) = ''BudgetUsageRecorded''"
| "event_name (EvCompanyCreated e) = ''CompanyContextCreated''"
| "event_name (EvCompanyUpdated e) = ''CompanyContextUpdated''"
| "event_name (EvApproval e) = ''ApprovalStatusChanged''"
| "event_name (EvDecision e) = ''DecisionStatusChanged''"
| "event_name (EvRollout e) = ''EvolutionRolloutStatusChanged''"
| "event_name (EvGoal e) = ''GoalStatusChanged''"
| "event_name (EvWorkItem e) = ''WorkItemStatusChanged''"

definition str_tuple :: "string list \<Rightarrow> pyval" where
  "str_tuple xs = PTuple (map PStr xs)"

fun to_payload :: "domain_event \<Rightarrow> pydict" where
  "to_payload (EvAgentRun e) =
     [(''run_id'', PStr (rsc_run_id e)), (''agent_id'', PStr (rsc_agent_id e)),
      (''company_id'', PStr (rsc_company_id e)),
      (''from_status'', PEnum (agent_run_status_value (rsc_from_status e))),
      (''to_status'', PEnum (agent_run_status_value (rsc_to_status e)))]"
| "to_payload (EvAgentRole e) =
     [(''role_id'', PStr (rosc_role_id e)), (''agent_id'', PStr (rosc_agent_id e)),
      (''company_id'', PStr (rosc_company_id e)),
      (''from_status'', PEnum (agent_role_status_value (rosc_from_status e))),
      (''to_status'', PEnum (agent_role_status_value (rosc_to_status e)))]"
| "to_payload (EvPromptConfig e) =
     [(''company_id'', PStr (pcu_company_id e)), (''agent_id'', PStr (pcu_agent_id e)),
      (''prompt_length'', PInt (int (pcu_prompt_length e))),
      (''metadata_keys'', str_tuple (pcu_metadata_keys e))]"
| "to_payload (EvArtifact e) =
     [(''artifact_id'', PStr (arc_artifact_id e)), (''company_id'', PStr (arc_company_id e)),
      (''artifact_type'', PStr (arc_artifact_type e)), (''goal_id'', opt_str (arc_goal_id e)),
      (''work_item_id'', opt_str (arc_work_item_id e)), (''run_id'', opt_str (arc_run_id e)),
      (''created_by_agent_id'', opt_str (arc_created_by_agent_id e)),
      (''has_content_hash'', PBool (arc_has_content_hash e))]"
| "to_payload (EvBudgetCreated e) =
     [(''budget_id'', PStr (bpc_budget_id e)), (''company_id'', PStr (bpc_company_id e)),
      (''scope'', PStr (bpc_scope e)), (''scope_id'', opt_str (bpc_scope_id e)),
      (''period'', PStr (bpc_period e)), (''limit_usd'', PFloat (bpc_limit_usd e)),
      (''warning_threshold'', PFloat (bpc_warning_threshold e)),
      (''status'', PEnum (budget_policy_status_value (bpc_status e))),
      (''model_allowlist'', str_tuple (bpc_model_allowlist e))]"
| "to_payload (EvBudgetUpdated e) =
     [(''budget_id'', PStr (bpu_budget_id e)), (''company_id'', PStr (bpu_company_id e)),
      (''scope'', PStr (bpu_scope e)), (''scope_id'', opt_str (bpu_scope_id e)),
      (''period'', PStr (bpu_period e)),
      (''from_status'', PEnum (budget_policy_status_value (bpu_from_status e))),
      (''to_status'', PEnum (budget_policy_status_value (bpu_to_status e))),
      (''changed_fields'', str_tuple (bpu_changed_fields e))]"
| "to_payload (EvBudgetUsage e) =
     [(''usage_id'', PStr (bur_usage_id e)), (''company_id'', PStr (bur_company_id e)),
      (''budget_id'', PStr (bur_budget_id e)), (''cost_usd'', PFloat (bur_cost_usd e)),
      (''model'', PStr (bur_model e)), (''input_tokens'', PInt (bur_input_tokens e)),
      (''output_tokens'', PInt (bur_output_tokens e)), (''run_id'', opt_str (bur_run_id e)),
      (''trace_id'', opt_str (bur_trace_id e)), (''metadata_keys'', str_tuple (bur_metadata_keys e))]"
| "to_payload (EvCompanyCreated e) =
     [(''company_id'', PStr (ccc_company_id e)), (''name_length'', PInt (int (ccc_name_length e))),
      (''mission_length'', PInt (int (ccc_mission_length e))),
      (''metadata_keys'', str_tuple (ccc_metadata_keys e))]"
| "to_payload (EvCompanyUpdated e) =
     [(''company_id'', PStr (ccu_company_id e)), (''name_changed'', PBool (ccu_name_changed e)),
      (''mission_changed'', PBool (ccu_mission_changed e)),
      (''metadata_changed'', PBool (ccu_metadata_changed e)),
      (''name_length'', PInt (int (ccu_name_length e))),
      (''mission_length'', PInt (int (ccu_mission_length e))),
      (''metadata_keys'', str_tuple (ccu_metadata_keys e))]"
| "to_payload (EvApproval e) =
     [(''approval_id'', PStr (asc_approval_id e)), (''company_id'', PStr (asc_company_id e)),
      (''from_status'', PEnum (approval_status_value (asc_from_status e))),
      (''to_status'', PEnum (approval_status_value (asc_to_status e)))]"
| "to_payload (EvDecision e) =
     [(''decision_id'', PStr (dsc_decision_id e)), (''company_id'', PStr (dsc_company_id e)),
      (''from_status'', PEnum (decision_status_value (dsc_from_status e))),
      (''to_status'', PEnum (decision_status_value (dsc_to_status e)))]"
| "to_payload (EvRollout e) =
     [(''proposal_id'', PStr (esc_proposal_id e)), (''company_id'', PStr (esc_company_id e)),
      (''from_state'', PEnum (evolution_rollout_state_value (esc_from_state e))),
      (''to_state'', PEnum (evolution_rollout_state_value (esc_to_state e)))]"
| "to_payload (EvGoal e) =
     [(''goal_id'', PStr (gsc_goal_id e)), (''company_id'', PStr (gsc_company_id e)),
      (''from_status'', PEnum (goal_status_value (gsc_from_status e))),
      (''to_status'', PEnum (goal_status_value (gsc_to_status e)))]"
| "to_payload (EvWorkItem e) =
     [(''work_item_id'', PStr (wsc_work_item_id e)), (''company_id'', PStr (wsc_company_id e)),
      (''from_status'', PEnum (work_item_status_value (wsc_from_status e))),
      (''to_status'', PEnum (work_item_status_value (wsc_to_status e)))]"

section \<open>From domain events to audit rows\<close>

record domain_event_audit_context =
  dctx_actor_type :: string
  dctx_actor_id :: string
  dctx_trace_id :: "string option"
  dctx_run_id :: "string option"
  dctx_work_item_id :: "string option"
  dctx_detail :: pydict

definition audit_context :: "string \<Rightarrow> string \<Rightarrow> domain_event_audit_context" where
  "audit_context actor_type actor_id =
     \<lparr>dctx_actor_type = actor_type, dctx_actor_id = actor_id, dctx_trace_id = None,
      dctx_run_id = None, dctx_work_item_id = None, dctx_detail = []\<rparr>"

record audit_target =
  t_action :: string
  t_target_type :: string
  t_target_id :: string

definition agent_run_action :: "agent_run_status \<Rightarrow> string" where
  "agent_run_action status =
     (if status = AgentRunStatus_RUNNING then ''agent_run.started''
      else if status = AgentRunStatus_SUCCEEDED then ''agent_run.succeeded''
      else if status = AgentRunStatus_FAILED then ''agent_run.failed''
      else ''agent_run.'' @ agent_run_status_value status)"

definition approval_action :: "approval_status \<Rightarrow> string" where
  "approval_action status =
     (if status = ApprovalStatus_APPROVED then ''approval.granted''
      else if status = ApprovalStatus_REJECTED then ''approval.rejected''
      else ''approval.'' @ approval_status_value status)"

definition mk_target :: "string \<Rightarrow> string \<Rightarrow> string \<Rightarrow> audit_target" where
  "mk_target action ty i = \<lparr>t_action = action, t_target_type = ty, t_target_id = i\<rparr>"

fun audit_target_for :: "domain_event \<Rightarrow> audit_target" where
  "audit_target_for (EvAgentRun e) =
     mk_target (agent_run_action (rsc_to_status e)) ''agent_run'' (rsc_run_id e)"
| "audit_target_for (EvAgentRole e) =
     mk_target ''agent_role.status-updated'' ''agent_role'' (rosc_agent_id e)"
| "audit_target_for (EvPromptConfig e) =
     mk_target ''agent.prompt-config-updated'' ''agent_prompt_config'' (pcu_agent_id e)"
| "audit_target_for (EvArtifact e) = mk_target ''artifact.created'' ''artifact'' (arc_artifact_id e)"
| "audit_target_for (EvBudgetCreated e) =
     mk_target ''budget_policy.created'' ''budget_policy'' (bpc_budget_id e)"
| "audit_target_for (EvBudgetUpdated e) =
     mk_target ''budget_policy.updated'' ''budget_policy'' (bpu_budget_id e)"
| "audit_target_for (EvBudgetUsage e) =
     mk_target ''budget.usage-recorded'' ''budget_usage'' (bur_usage_id e)"
| "audit_target_for (EvCompanyCreated e) = mk_target ''company.created'' ''company'' (ccc_company_id e)"
| "audit_target_for (EvCompanyUpdated e) = mk_target ''company.updated'' ''company'' (ccu_company_id e)"
| "audit_target_for (EvApproval e) =
     mk_target (approval_action (asc_to_status e)) ''approval'' (asc_approval_id e)"
| "audit_target_for (EvDecision e) = mk_target ''decision.updated'' ''decision'' (dsc_decision_id e)"
| "audit_target_for (EvRollout e) =
     mk_target ''evolution_proposal.updated'' ''evolution_proposal'' (esc_proposal_id e)"
| "audit_target_for (EvGoal e) = mk_target ''goal.updated'' ''goal'' (gsc_goal_id e)"
| "audit_target_for (EvWorkItem e) = mk_target ''work_item.updated'' ''work_item'' (wsc_work_item_id e)"

text \<open>\<open>d.update(e)\<close>: the entries of \<open>e\<close> in order.\<close>

definition dict_update :: "pydict \<Rightarrow> pydict \<Rightarrow> pydict" where
  "dict_update d e = dict_of d e"

definition dict_str :: "string \<Rightarrow> pydict \<Rightarrow> string" where
  "dict_str k d = (case map_of d k of Some (PStr s) \<Rightarrow> s | _ \<Rightarrow> [])"

text \<open>
  The audit row of an event. The identifier and the timestamp are the defaults the model fills in
  (\<open>audit_event_id\<close>, \<open>created_at\<close>). The company is read back from the merged detail.
\<close>

definition audit_event_from_domain_event ::
  "string \<Rightarrow> int \<Rightarrow> domain_event \<Rightarrow> domain_event_audit_context \<Rightarrow> exc + audit_event" where
  "audit_event_from_domain_event new_id now ev ctx =
     (let target = audit_target_for ev in
      bindE (clean_audit_detail (Some (to_payload ev))) (\<lambda>detail0.
      bindE (clean_audit_detail (Some (dctx_detail ctx))) (\<lambda>extra.
      let detail = dict_update (AList.update ''domain_event'' (PStr (event_name ev)) detail0) extra in
        Inr \<lparr>ae_audit_event_id = new_id, ae_company_id = dict_str ''company_id'' detail,
             ae_action = t_action target, ae_target_type = t_target_type target,
             ae_target_id = t_target_id target, ae_actor_type = dctx_actor_type ctx,
             ae_actor_id = dctx_actor_id ctx, ae_trace_id = dctx_trace_id ctx,
             ae_run_id = dctx_run_id ctx, ae_work_item_id = dctx_work_item_id ctx,
             ae_idempotency_key = None, ae_detail = detail, ae_created_at = utc_dt now\<rparr>)))"

section \<open>From audit rows to integration events\<close>

definition is_name_head :: "char \<Rightarrow> bool" where
  "is_name_head c \<longleftrightarrow> c \<in> set ''abcdefghijklmnopqrstuvwxyz0123456789''"

definition is_name_part :: "char \<Rightarrow> bool" where
  "is_name_part c \<longleftrightarrow> is_name_head c \<or> c = CHR ''_'' \<or> c = CHR ''-''"

fun split_dots :: "string \<Rightarrow> string list" where
  "split_dots [] = [[]]"
| "split_dots (c # cs) =
     (if c = CHR ''.'' then [] # split_dots cs
      else case split_dots cs of [] \<Rightarrow> [[c]] | s # ss \<Rightarrow> (c # s) # ss)"

definition valid_name :: "string \<Rightarrow> bool" where
  "valid_name s \<longleftrightarrow> (case s of [] \<Rightarrow> False | c # cs \<Rightarrow> is_name_head c \<and> list_all is_name_part cs)"

definition valid_event_type :: "string \<Rightarrow> bool" where
  "valid_event_type s \<longleftrightarrow> (let parts = split_dots s in 2 \<le> length parts \<and> list_all valid_name parts)"

fun json_finite :: "pyval \<Rightarrow> bool" where
  "json_finite (PMap kvs) = list_all (\<lambda>kv. json_finite (snd kv)) kvs"
| "json_finite (PList xs) = list_all json_finite xs"
| "json_finite (PTuple xs) = list_all json_finite xs"
| "json_finite (PFloat f) = pf_isfinite f"
| "json_finite (PSet xs) = False"
| "json_finite (PIso s) = False"
| "json_finite (POpaque s) = False"
| "json_finite _ = True"

record event_envelope =
  ev_event_id :: string
  ev_event_type :: string
  ev_timestamp :: pydt
  ev_source_agent :: string
  ev_payload :: pydict
  ev_schema_version :: string
  ev_trace_id :: "string option"
  ev_correlation_id :: "string option"
  ev_retry_count :: int

definition event_new :: "event_envelope \<Rightarrow> exc + event_envelope" where
  "event_new ev =
     (if py_strip (ev_event_id ev) = [] then Inl (ValueError ''event_id must be a stable non-empty identifier'')
      else if \<not> valid_event_type (ev_event_type ev)
      then Inl (ValueError ''event_type must use {domain}.{action} naming'')
      else if \<not> valid_name (ev_source_agent ev)
      then Inl (ValueError ''source_agent must be a stable runtime agent ID'')
      else if \<not> json_finite (PMap (ev_payload ev))
      then Inl (ValueError ''payload must contain only finite JSON numbers'')
      else if py_strip (ev_schema_version ev) = [] then Inl (ValueError ''schema_version must be present'')
      else if ev_retry_count ev < 0
      then Inl (ValueError ''retry_count must be greater than or equal to 0'')
      else Inr ev)"

definition audit_event_carries_domain_event :: "audit_event \<Rightarrow> bool" where
  "audit_event_carries_domain_event ev =
     (case map_of (ae_detail ev) ''domain_event'' of
        None \<Rightarrow> False
      | Some v \<Rightarrow> \<not> (v = PNone \<or> v = PStr [] \<or> v = PBool False \<or> v = PInt 0 \<or> v = PFloat (Fin 0) \<or>
                    v = PList [] \<or> v = PMap []))"

definition outbox_event_from_audit_event :: "string \<Rightarrow> audit_event \<Rightarrow> exc + event_envelope" where
  "outbox_event_from_audit_event new_id ev =
     bindE (clean_audit_detail (Some (ae_detail ev))) (\<lambda>detail.
     let payload =
       [(''audit_event_id'', PStr (ae_audit_event_id ev)), (''company_id'', PStr (ae_company_id ev)),
        (''target_type'', PStr (ae_target_type ev)), (''target_id'', PStr (ae_target_id ev)),
        (''actor_type'', PStr (ae_actor_type ev)), (''actor_id'', PStr (ae_actor_id ev)),
        (''domain_event'', (case map_of detail ''domain_event'' of Some v \<Rightarrow> v | None \<Rightarrow> PStr (ae_action ev))),
        (''detail'', PMap detail)] @
       (if truthy_str (ae_run_id ev) then [(''run_id'', opt_str (ae_run_id ev))] else []) @
       (if truthy_str (ae_work_item_id ev) then [(''work_item_id'', opt_str (ae_work_item_id ev))] else [])
     in event_new
       \<lparr>ev_event_id = new_id, ev_event_type = ae_action ev, ev_timestamp = ae_created_at ev,
        ev_source_agent = ''control-plane'', ev_payload = payload, ev_schema_version = ''1.0'',
        ev_trace_id = ae_trace_id ev, ev_correlation_id = Some (ae_audit_event_id ev),
        ev_retry_count = 0\<rparr>)"

section \<open>Lemmas\<close>

fun event_company :: "domain_event \<Rightarrow> string" where
  "event_company (EvAgentRun e) = rsc_company_id e"
| "event_company (EvAgentRole e) = rosc_company_id e"
| "event_company (EvPromptConfig e) = pcu_company_id e"
| "event_company (EvArtifact e) = arc_company_id e"
| "event_company (EvBudgetCreated e) = bpc_company_id e"
| "event_company (EvBudgetUpdated e) = bpu_company_id e"
| "event_company (EvBudgetUsage e) = bur_company_id e"
| "event_company (EvCompanyCreated e) = ccc_company_id e"
| "event_company (EvCompanyUpdated e) = ccu_company_id e"
| "event_company (EvApproval e) = asc_company_id e"
| "event_company (EvDecision e) = dsc_company_id e"
| "event_company (EvRollout e) = esc_company_id e"
| "event_company (EvGoal e) = gsc_company_id e"
| "event_company (EvWorkItem e) = wsc_company_id e"

text \<open>Keys of the dictionary literals in the code, already clean.\<close>

definition literal_key :: "string \<Rightarrow> bool" where
  "literal_key k \<longleftrightarrow> (case k of [] \<Rightarrow> False | c # cs \<Rightarrow> \<not> py_isspace c \<and> \<not> py_isspace (last k))"

lemma literal_key_clean:
  assumes "literal_key k"
  shows "clean_metadata_key k = Inr k"
proof -
  from assms obtain c cs where k: "k = c # cs" and c: "\<not> py_isspace c" "\<not> py_isspace (last k)"
    by (auto simp: literal_key_def split: list.splits)
  then have "dropWhile py_isspace (rev k) = rev k"
    by (cases "rev k") (auto simp: last_rev hd_rev [symmetric] dest: arg_cong [of _ _ rev])
  with k c show ?thesis by (simp add: clean_metadata_key_def py_strip_def)
qed

fun plain_value :: "pyval \<Rightarrow> bool" where
  "plain_value (PTuple xs) = list_all plain_value xs"
| "plain_value (PMap kvs) = False"
| "plain_value (PList kvs) = False"
| "plain_value (PSet kvs) = False"
| "plain_value _ = True"

fun freeze_plain :: "pyval \<Rightarrow> pyval" where
  "freeze_plain (PEnum v) = PStr v"
| "freeze_plain (PIso v) = PStr v"
| "freeze_plain (POpaque v) = PStr v"
| "freeze_plain (PTuple xs) = PTuple (map freeze_plain xs)"
| "freeze_plain v = v"

lemma freeze_list_map:
  assumes "\<And>x. x \<in> set xs \<Longrightarrow> freeze_metadata_value x = Inr (g x)"
  shows "freeze_list xs = Inr (map g xs)"
  using assms by (induction xs) auto

lemma freeze_plain_ok: "plain_value v \<Longrightarrow> freeze_metadata_value v = Inr (freeze_plain v)"
  by (induction v rule: plain_value.induct)
     (auto simp: list_all_iff freeze_list_map intro!: exI freeze_list_map)

lemma freeze_items_plain:
  assumes "\<forall>kv \<in> set kvs. literal_key (fst kv) \<and> plain_value (snd kv)"
  shows "freeze_items kvs = Inr (map (\<lambda>kv. (fst kv, freeze_plain (snd kv))) kvs)"
  using assms by (induction kvs) (auto simp: literal_key_clean freeze_plain_ok)

lemma clean_metadata_plain:
  assumes "\<forall>kv \<in> set kvs. literal_key (fst kv) \<and> plain_value (snd kv)" and "distinct (map fst kvs)"
  shows "clean_metadata (Some kvs) =
    Inr (map (\<lambda>kv. (fst kv, unfreeze_metadata_value (freeze_plain (snd kv)))) kvs)"
proof -
  let ?ws = "map (\<lambda>kv. (fst kv, freeze_plain (snd kv))) kvs"
  have "dict_of [] ?ws = ?ws"
    using assms(2) by (intro dict_of_id [of "[]", simplified]) (simp add: comp_def)
  then show ?thesis
    by (simp add: clean_metadata_def from_mapping_def freeze_metadata_mapping_def
        freeze_items_plain [OF assms(1)] as_dict_def comp_def)
qed

lemma plain_opt_str [simp]: "plain_value (opt_str v)"
  by (simp add: opt_str_def split: option.splits)

lemma plain_str_tuple [simp]: "plain_value (str_tuple xs)"
  by (simp add: str_tuple_def list_all_iff)

lemma payload_plain:
  "\<forall>kv \<in> set (to_payload ev). literal_key (fst kv) \<and> plain_value (snd kv)"
  by (cases ev) (simp_all add: literal_key_def py_isspace_def)

lemma payload_distinct: "distinct (map fst (to_payload ev))"
  by (cases ev) simp_all

definition clean_payload :: "domain_event \<Rightarrow> pydict" where
  "clean_payload ev = map (\<lambda>kv. (fst kv, unfreeze_metadata_value (freeze_plain (snd kv)))) (to_payload ev)"

lemma clean_audit_detail_payload: "clean_audit_detail (Some (to_payload ev)) = Inr (clean_payload ev)"
  unfolding clean_audit_detail_def clean_payload_def
  by (rule clean_metadata_plain [OF payload_plain payload_distinct])

lemma payload_company: "map_of (clean_payload ev) ''company_id'' = Some (PStr (event_company ev))"
  by (cases ev) (simp_all add: clean_payload_def)

lemma payload_no_domain_event: "map_of (clean_payload ev) ''domain_event'' = None"
  by (cases ev) (simp_all add: clean_payload_def)

lemma map_of_dict_of: "k \<notin> set (map fst e) \<Longrightarrow> map_of (dict_of d e) k = map_of d k"
  by (induction d e rule: dict_of.induct) auto

text \<open>Every action of a domain event is a legal integration-event type.\<close>

lemma actions_valid: "valid_event_type (t_action (audit_target_for ev))"
proof (cases ev)
  case (EvAgentRun e)
  then show ?thesis
    by (cases "rsc_to_status e")
       (simp_all add: mk_target_def agent_run_action_def valid_event_type_def valid_name_def
         is_name_head_def is_name_part_def)
next
  case (EvApproval e)
  then show ?thesis
    by (cases "asc_to_status e")
       (simp_all add: mk_target_def approval_action_def valid_event_type_def valid_name_def
         is_name_head_def is_name_part_def)
qed (simp_all add: mk_target_def valid_event_type_def valid_name_def is_name_head_def is_name_part_def)

lemma audit_event_from_domain_event_run:
  assumes "clean_audit_detail (Some (dctx_detail ctx)) = Inr extra"
    and "''company_id'' \<notin> set (map fst extra)" and "''domain_event'' \<notin> set (map fst extra)"
  shows "\<exists>detail. audit_event_from_domain_event i now ev ctx = Inr
      \<lparr>ae_audit_event_id = i, ae_company_id = event_company ev,
       ae_action = t_action (audit_target_for ev), ae_target_type = t_target_type (audit_target_for ev),
       ae_target_id = t_target_id (audit_target_for ev), ae_actor_type = dctx_actor_type ctx,
       ae_actor_id = dctx_actor_id ctx, ae_trace_id = dctx_trace_id ctx, ae_run_id = dctx_run_id ctx,
       ae_work_item_id = dctx_work_item_id ctx, ae_idempotency_key = None, ae_detail = detail,
       ae_created_at = utc_dt now\<rparr> \<and>
     map_of detail ''domain_event'' = Some (PStr (event_name ev))"
  using assms
  by (simp add: audit_event_from_domain_event_def clean_audit_detail_payload dict_str_def dict_update_def
      map_of_dict_of payload_company Let_def)

lemma event_name_nonempty: "event_name ev \<noteq> []"
  by (cases ev) simp_all

end
