(* ===== verification/Py_Text.thy ===== *)
theory Py_Text
  imports Py_Values
begin

text \<open>
  \<open>dict.get\<close> and truth values, and the texts of Python numbers: \<open>str\<close> of an int and of a fixed-point Decimal, and what \<open>int(text)\<close>
  and \<open>Decimal(text)\<close> accept. The round-trip lemmas show that a printed int is read back.
\<close>

section \<open>Dictionary access and truth\<close>

definition dict_get :: "string \<Rightarrow> pyval \<Rightarrow> pydict \<Rightarrow> pyval" where
  "dict_get k dflt d = (case map_of d k of None \<Rightarrow> dflt | Some v \<Rightarrow> v)"

definition py_truthy :: "pyval \<Rightarrow> bool" where
  "py_truthy v = (case v of
       PNone \<Rightarrow> False | PBool b \<Rightarrow> b | PInt i \<Rightarrow> i \<noteq> 0 | PFloat f \<Rightarrow> f \<noteq> Fin 0
     | PStr s \<Rightarrow> s \<noteq> [] | PEnum s \<Rightarrow> s \<noteq> [] | PMap kvs \<Rightarrow> kvs \<noteq> [] | PList xs \<Rightarrow> xs \<noteq> []
     | PTuple xs \<Rightarrow> xs \<noteq> [] | PSet xs \<Rightarrow> xs \<noteq> [] | PIso s \<Rightarrow> True | POpaque s \<Rightarrow> True)"

section \<open>Printing\<close>

definition digit_char :: "nat \<Rightarrow> char" where
  "digit_char d = char_of (48 + d)"

function pos_text :: "int \<Rightarrow> string" where
  "pos_text n = (if n < 10 then [digit_char (nat n)] else pos_text (n div 10) @ [digit_char (nat (n mod 10))])"
  by pat_completeness auto
termination by (relation "measure nat") auto

declare pos_text.simps [simp del]

definition int_text :: "int \<Rightarrow> string" where
  "int_text i = (if i < 0 then ''-'' @ pos_text (- i) else pos_text i)"

text \<open>
  A Decimal of the execution policy: its value and the number of digits after the point that
  \<open>str\<close> prints (six after \<open>quantize\<close>, none for \<open>Decimal(0)\<close>).
\<close>

record decimal =
  dec_value :: rat
  dec_places :: nat

definition decimal_text :: "decimal \<Rightarrow> string" where
  "decimal_text d =
     (let k = 10 ^ dec_places d; m = \<lfloor>dec_value d * of_int k\<rfloor>
      in if dec_places d = 0 then pos_text m
         else pos_text (m div k) @ ''.'' @
              (let f = pos_text (m mod k) in replicate (dec_places d - length f) (CHR ''0'') @ f))"

section \<open>Reading\<close>

definition is_digit :: "char \<Rightarrow> bool" where
  "is_digit c \<longleftrightarrow> 48 \<le> (of_char c :: nat) \<and> (of_char c :: nat) \<le> 57"

definition digit_val :: "char \<Rightarrow> nat" where
  "digit_val c = of_char c - 48"

definition digits_val :: "string \<Rightarrow> int" where
  "digits_val s = foldl (\<lambda>n c. 10 * n + int (digit_val c)) 0 s"

text \<open>An optional sign in front of a text.\<close>

definition split_sign :: "string \<Rightarrow> int \<times> string" where
  "split_sign s = (case s of
       c # cs \<Rightarrow> if c = CHR ''-'' then (- 1, cs) else if c = CHR ''+'' then (1, cs) else (1, s)
     | [] \<Rightarrow> (1, s))"

text \<open>\<open>int(text)\<close>: surrounding white space, a sign, digits with single underscores between them.\<close>

fun digit_groups :: "bool \<Rightarrow> string \<Rightarrow> string option" where
  "digit_groups after_digit [] = (if after_digit then Some [] else None)"
| "digit_groups after_digit (c # cs) =
     (if is_digit c then map_option ((#) c) (digit_groups True cs)
      else if c = CHR ''_'' \<and> after_digit then digit_groups False cs
      else None)"

definition int_of_text :: "string \<Rightarrow> int option" where
  "int_of_text s =
     (let (sign, ds) = split_sign (py_strip s)
      in map_option (\<lambda>d. sign * digits_val d) (digit_groups False ds))"

text \<open>
  \<open>Decimal(text)\<close> for the finite values: white space is stripped and underscores are removed, then a
  sign, digits with an optional point and an optional exponent are read. The infinities and NaNs, which
  the policy rejects together with malformed text, are not distinguished from it. An exponent
  of more than 18 digits is outside the range of a Decimal.
\<close>

definition exponent_of_text :: "string \<Rightarrow> int option" where
  "exponent_of_text s =
     (let (sign, ds) = split_sign s
      in if ds \<noteq> [] \<and> list_all is_digit ds \<and> length (dropWhile (\<lambda>c. c = CHR ''0'') ds) \<le> 18
         then Some (sign * digits_val ds) else None)"

definition decimal_of_text :: "string \<Rightarrow> rat option" where
  "decimal_of_text s =
     (let (sign, body) = split_sign (filter (\<lambda>c. c \<noteq> CHR ''_'') (py_strip s));
          ipart = takeWhile is_digit body; rest = dropWhile is_digit body;
          (fpart, rest') = (case rest of
             c # cs \<Rightarrow> if c = CHR ''.'' then (takeWhile is_digit cs, dropWhile is_digit cs) else ([], rest)
           | [] \<Rightarrow> ([], []));
          e = (case rest' of
             [] \<Rightarrow> Some 0
           | c # cs \<Rightarrow> if c = CHR ''e'' \<or> c = CHR ''E'' then exponent_of_text cs else None)
      in if ipart = [] \<and> fpart = [] then None
         else map_option (\<lambda>k. of_int (sign * digits_val (ipart @ fpart)) *
                10 powi (k - int (length fpart))) e)"

section \<open>Lemmas\<close>

lemma digit_char_of: "d < 10 \<Longrightarrow> of_char (digit_char d) = (48 + d :: nat)"
  by (simp add: digit_char_def)

lemma digit_char_props [simp]:
  assumes "d < 10"
  shows "is_digit (digit_char d)" and "digit_val (digit_char d) = d"
  using assms by (simp_all add: is_digit_def digit_val_def digit_char_of)

lemma is_digit_not_special:
  "is_digit c \<Longrightarrow> \<not> py_isspace c \<and> c \<noteq> CHR ''-'' \<and> c \<noteq> CHR ''+'' \<and> c \<noteq> CHR ''_''"
  by (auto simp: is_digit_def py_isspace_def)

lemma minus_not_space: "\<not> py_isspace (CHR ''-'')"
  by (simp add: py_isspace_def)

lemma digits_val_snoc [simp]: "digits_val (s @ [c]) = 10 * digits_val s + int (digit_val c)"
  by (simp add: digits_val_def)

lemma pos_text_digits: "0 \<le> n \<Longrightarrow> pos_text n \<noteq> [] \<and> list_all is_digit (pos_text n)"
proof (induction n rule: pos_text.induct)
  case (1 n)
  then show ?case by (cases "n < 10") (simp_all add: pos_text.simps [of n])
qed

lemma digits_val_pos_text: "0 \<le> n \<Longrightarrow> digits_val (pos_text n) = n"
proof (induction n rule: pos_text.induct)
  case (1 n)
  show ?case
  proof (cases "n < 10")
    case True
    with 1(2) show ?thesis by (simp add: pos_text.simps [of n] digits_val_def)
  next
    case False
    then have "nat (n mod 10) < 10" by simp
    with 1 False show ?thesis by (simp add: pos_text.simps [of n])
  qed
qed

lemma digit_groups_digits:
  "list_all is_digit s \<Longrightarrow> s \<noteq> [] \<or> b \<Longrightarrow> digit_groups b s = Some s"
  by (induction s arbitrary: b) auto

lemma py_strip_no_space: "list_all (\<lambda>c. \<not> py_isspace c) s \<Longrightarrow> py_strip s = s"
proof -
  have *: "list_all (\<lambda>c. \<not> py_isspace c) t \<Longrightarrow> dropWhile py_isspace t = t" for t
    by (cases t) auto
  assume "list_all (\<lambda>c. \<not> py_isspace c) s"
  then show ?thesis by (simp add: py_strip_def *)
qed

text \<open>\<open>int(str(i)) = i\<close>.\<close>

lemma int_of_text_int_text: "int_of_text (int_text i) = Some i"
proof -
  have ns: "list_all (\<lambda>c. \<not> py_isspace c) (pos_text n)" if "0 \<le> n" for n
    using pos_text_digits [OF that] is_digit_not_special by (auto simp: list_all_iff)
  have groups: "digit_groups False (pos_text n) = Some (pos_text n)" if "0 \<le> n" for n
    using pos_text_digits [OF that] by (simp add: digit_groups_digits)
  have pos: "split_sign (pos_text n) = (1, pos_text n)" if "0 \<le> n" for n
    using pos_text_digits [OF that] is_digit_not_special
    by (cases "pos_text n") (auto simp: split_sign_def)
  show ?thesis
  proof (cases "i < 0")
    case True
    have strip: "py_strip (CHR ''-'' # pos_text (- i)) = CHR ''-'' # pos_text (- i)"
      by (rule py_strip_no_space) (use True in \<open>simp add: ns minus_not_space\<close>)
    from True show ?thesis
      by (simp add: int_of_text_def int_text_def strip split_sign_def groups digits_val_pos_text)
  next
    case False
    then show ?thesis
      by (simp add: int_of_text_def int_text_def py_strip_no_space ns pos groups digits_val_pos_text)
  qed
qed

end
