(* ===== verification/Release_Contract.thy ===== *)
theory Release_Contract
  imports Control_Models Py_Text
begin

text \<open>
  The signed command that crosses the boundary between the Control Plane and the evolution runtime
  (\<open>evolution/release_contract.py\<close>), and the rows of the Control Plane tables it is built from
  (\<open>evolution_deployment_models.py\<close>, \<open>evolution_evaluation_models.py\<close>).
\<close>

record skill_release_command =
  sc_schema_version :: string
  sc_command_id :: string
  sc_deployment_id :: string
  sc_company_id :: string
  sc_proposal_id :: string
  sc_evaluation_report_id :: string
  sc_evaluation_hash :: string
  sc_skill_id :: string
  sc_agent_id :: string
  sc_baseline_version :: int
  sc_candidate_version :: int
  sc_baseline_config_hash :: string
  sc_candidate_config_hash :: string
  sc_action :: string
  sc_traffic_pct :: int
  sc_minimum_sample_count :: int
  sc_approval_id :: "string option"
  sc_expires_at :: pydt

definition text_within :: "nat \<Rightarrow> string \<Rightarrow> bool" where
  "text_within n s \<longleftrightarrow> s \<noteq> [] \<and> length s \<le> n"

definition hex64 :: "string \<Rightarrow> bool" where
  "hex64 s \<longleftrightarrow> length s = 64 \<and> list_all (\<lambda>c. is_digit c \<or> c \<in> set ''abcdef'') s"

definition RELEASE_ACTIONS :: "string list" where
  "RELEASE_ACTIONS = [''shadow'', ''canary'', ''promote'', ''rollback'']"

text \<open>The constraints of the model's fields.\<close>

definition release_command_ok :: "skill_release_command \<Rightarrow> bool" where
  "release_command_ok c \<longleftrightarrow>
     sc_schema_version c = ''1.0'' \<and> text_within 64 (sc_command_id c) \<and> text_within 64 (sc_deployment_id c) \<and>
     text_within 48 (sc_company_id c) \<and> text_within 48 (sc_proposal_id c) \<and>
     text_within 48 (sc_evaluation_report_id c) \<and> hex64 (sc_evaluation_hash c) \<and>
     text_within 128 (sc_skill_id c) \<and> text_within 64 (sc_agent_id c) \<and>
     1 \<le> sc_baseline_version c \<and> 1 \<le> sc_candidate_version c \<and>
     hex64 (sc_baseline_config_hash c) \<and> hex64 (sc_candidate_config_hash c) \<and>
     sc_action c \<in> set RELEASE_ACTIONS \<and>
     0 \<le> sc_traffic_pct c \<and> sc_traffic_pct c \<le> 10 \<and> 50 \<le> sc_minimum_sample_count c"

text \<open>\<open>model_dump(mode="json")\<close>, given the text of a datetime.\<close>

definition release_command_json :: "(pydt \<Rightarrow> string) \<Rightarrow> skill_release_command \<Rightarrow> pyval" where
  "release_command_json iso_text c = PMap
     [(''schema_version'', PStr (sc_schema_version c)), (''command_id'', PStr (sc_command_id c)),
      (''deployment_id'', PStr (sc_deployment_id c)), (''company_id'', PStr (sc_company_id c)),
      (''proposal_id'', PStr (sc_proposal_id c)), (''evaluation_report_id'', PStr (sc_evaluation_report_id c)),
      (''evaluation_hash'', PStr (sc_evaluation_hash c)), (''skill_id'', PStr (sc_skill_id c)),
      (''agent_id'', PStr (sc_agent_id c)), (''baseline_version'', PInt (sc_baseline_version c)),
      (''candidate_version'', PInt (sc_candidate_version c)),
      (''baseline_config_hash'', PStr (sc_baseline_config_hash c)),
      (''candidate_config_hash'', PStr (sc_candidate_config_hash c)), (''action'', PStr (sc_action c)),
      (''traffic_pct'', PInt (sc_traffic_pct c)), (''minimum_sample_count'', PInt (sc_minimum_sample_count c)),
      (''approval_id'', opt_str (sc_approval_id c)), (''expires_at'', PStr (iso_text (sc_expires_at c)))]"

record evolution_deployment =
  dp_deployment_id :: string
  dp_company_id :: string
  dp_proposal_id :: string
  dp_evaluation_report_id :: string
  dp_state :: string
  dp_desired_action :: string
  dp_command :: skill_release_command
  dp_acknowledgement :: pydict
  dp_updated_at :: int

record evolution_evaluation_report =
  er_evaluation_report_id :: string
  er_company_id :: string
  er_proposal_id :: string
  er_baseline_skill_version_id :: string
  er_candidate_skill_version_id :: string
  er_dataset_revision :: string
  er_baseline_batch_hash :: string
  er_candidate_batch_hash :: string
  er_baseline_batch :: pydict
  er_candidate_batch :: pydict
  er_policy :: pydict
  er_comparison_report :: pydict
  er_evaluator_version :: string
  er_created_at :: pydt

end
