(* ===== verification/Control_Store.thy ===== *)
theory Control_Store
  imports Domain_Events Release_Contract
begin

text \<open>
  The Control Plane database, its session, and the stores every use case shares: companies,
  audit events with their outbox, and agent runs (\<open>tables.py\<close>, \<open>execution_models.py\<close>,
  \<open>retention_models.py\<close>, \<open>outcome_models.py\<close>, \<open>evolution_deployment_models.py\<close>,
  \<open>evolution_evaluation_models.py\<close>, \<open>company_store.py\<close>, \<open>audit_event_store.py\<close>,
  \<open>event_outbox_store.py\<close>, \<open>agent_run_store.py\<close>, \<open>unit_of_work.py\<close>).

  \<^item> A table is the list of its rows in insertion order; a row is the model record, as the mappers of
    \<open>domain_records.py\<close> copy every field. A query filters the list; \<open>ORDER BY\<close> is a stable sort.
  \<^item> A \<open>world\<close> is the session's view of the database, the last committed database, and a counter that
    numbers the readings of the clock and the generated identifiers. \<open>checkpoint\<close> commits;
    \<open>in_transaction\<close> commits a successful command and rolls a raising one back.
  \<^item> \<open>flush\<close> raises \<open>IntegrityError\<close> when a primary key or a unique constraint is violated, and, when
    the database enforces them (PostgreSQL does, SQLite by default does not), a foreign key.
  \<^item> \<open>env\<close> holds what comes from outside: the clock, identifier generation, SHA-256, the JSON texts
    that are hashed (\<open>e_json\<close> for the execution intent, \<open>e_canon\<close> for run evidence), the ISO text of a
    datetime, the text \<open>str\<close>
    gives for floats and containers, the redaction of secrets inside a text, the database's sum of a
    float column, and whether the database enforces foreign keys.
\<close>

section \<open>Rows that have no model\<close>

record outbox_row =
  ob_event :: event_envelope
  ob_status :: string
  ob_attempts :: int
  ob_published_at :: "int option"
  ob_last_error :: "string option"

record tombstone =
  tb_audit_event_id :: string
  tb_company_id :: string
  tb_idempotency_hash :: "string option"
  tb_receipt :: audit_event
  tb_purged_at :: int

datatype lease_state = LeaseRunning | LeaseRecoveryRequired | LeaseSucceeded | LeaseFailed

record execution_lease =
  le_execution_id :: string
  le_company_id :: string
  le_resource_id :: string
  le_intent_hash :: string
  le_run_id :: string
  le_owner_id :: string
  le_state :: lease_state
  le_control_action :: string
  le_expires_at :: int
  le_created_at :: int

datatype reservation_state = Reserved | Settled

record execution_reservation =
  rs_execution_id :: string
  rs_budget_id :: string
  rs_amount_usd :: rat
  rs_state :: reservation_state
  rs_created_at :: int

record outcome_acceptance =
  oa_acceptance_id :: string
  oa_company_id :: string
  oa_work_item_id :: string
  oa_artifact_id :: string
  oa_run_id :: string
  oa_artifact_hash :: "string option"
  oa_verdict :: string
  oa_actor_id :: string
  oa_reason :: string
  oa_created_at :: int

section \<open>Database, world and environment\<close>

record db =
  t_companies :: "company_context list"
  t_goals :: "goal list"
  t_roles :: "agent_role list"
  t_work_items :: "work_item list"
  t_runs :: "agent_run list"
  t_approvals :: "approval_request list"
  t_artifacts :: "artifact list"
  t_policies :: "budget_policy list"
  t_usage :: "budget_usage list"
  t_audits :: "audit_event list"
  t_outbox :: "outbox_row list"
  t_tombstones :: "tombstone list"
  t_leases :: "execution_lease list"
  t_reservations :: "execution_reservation list"
  t_acceptances :: "outcome_acceptance list"
  t_proposals :: "evolution_proposal list"
  t_reports :: "evolution_evaluation_report list"
  t_deployments :: "evolution_deployment list"

record world =
  w_db :: db
  w_committed :: db
  w_tick :: nat
  w_operator :: "string option"

record env =
  e_clock :: "nat \<Rightarrow> int"
  e_id :: "string \<Rightarrow> nat \<Rightarrow> string"
  e_uuid :: "nat \<Rightarrow> string"
  e_sha256 :: "string \<Rightarrow> string"
  e_json :: "pyval \<Rightarrow> string option"
  e_canon :: "pyval \<Rightarrow> string"
  e_iso :: "pydt \<Rightarrow> string"
  e_str :: "pyval \<Rightarrow> string"
  e_redact :: "string \<Rightarrow> string"
  e_sum :: "pyfloat list \<Rightarrow> pyfloat"
  e_fk :: bool

definition now_utc :: "env \<Rightarrow> (world, int) op" where
  "now_utc E w = (Inr (e_clock E (w_tick w)), w\<lparr>w_tick := Suc (w_tick w)\<rparr>)"

definition generate_id :: "env \<Rightarrow> string \<Rightarrow> (world, string) op" where
  "generate_id E prefix w = (Inr (e_id E prefix (w_tick w)), w\<lparr>w_tick := Suc (w_tick w)\<rparr>)"

definition uuid4_hex :: "env \<Rightarrow> (world, string) op" where
  "uuid4_hex E w = (Inr (e_uuid E (w_tick w)), w\<lparr>w_tick := Suc (w_tick w)\<rparr>)"

definition query_db :: "(db \<Rightarrow> 'a) \<Rightarrow> (world, 'a) op" where
  "query_db f = getS (\<lambda>w. f (w_db w))"

definition write_db :: "(db \<Rightarrow> db) \<Rightarrow> (world, unit) op" where
  "write_db f = modifyS (\<lambda>w. w\<lparr>w_db := f (w_db w)\<rparr>)"

definition checkpoint :: "(world, unit) op" where
  "checkpoint = modifyS (\<lambda>w. w\<lparr>w_committed := w_db w\<rparr>)"

definition rollback :: "(world, unit) op" where
  "rollback = modifyS (\<lambda>w. w\<lparr>w_db := w_committed w\<rparr>)"

definition in_transaction :: "(world, 'a) op \<Rightarrow> (world, 'a) op" where
  "in_transaction m w =
     (case m w of
        (Inr a, w') \<Rightarrow> (Inr a, snd (checkpoint w'))
      | (Inl e, w') \<Rightarrow> (Inl e, snd (rollback w')))"

section \<open>Constraints\<close>

definition ref :: "string list \<Rightarrow> string option \<Rightarrow> bool" where
  "ref ids v \<longleftrightarrow> (case v of None \<Rightarrow> True | Some i \<Rightarrow> i \<in> set ids)"

definition unique_ok :: "db \<Rightarrow> bool" where
  "unique_ok d \<longleftrightarrow>
     distinct (map c_company_id (t_companies d)) \<and> distinct (map g_goal_id (t_goals d)) \<and>
     distinct (map ar_role_id (t_roles d)) \<and>
     distinct (map (\<lambda>r. (ar_company_id r, ar_agent_id r)) (t_roles d)) \<and>
     distinct (map w_work_item_id (t_work_items d)) \<and>
     distinct (map (\<lambda>r. (w_company_id r, w_external_ref r))
       (filter (\<lambda>r. w_external_ref r \<noteq> None) (t_work_items d))) \<and>
     distinct (map r_run_id (t_runs d)) \<and> distinct (map ap_approval_id (t_approvals d)) \<and>
     distinct (map art_artifact_id (t_artifacts d)) \<and> distinct (map b_budget_id (t_policies d)) \<and>
     distinct (map bu_usage_id (t_usage d)) \<and> distinct (map ae_audit_event_id (t_audits d)) \<and>
     distinct (map (\<lambda>a. (ae_company_id a, ae_idempotency_key a))
       (filter (\<lambda>a. ae_idempotency_key a \<noteq> None) (t_audits d))) \<and>
     distinct (map (\<lambda>ob. ev_event_id (ob_event ob)) (t_outbox d)) \<and>
     distinct (map le_execution_id (t_leases d)) \<and> distinct (map le_run_id (t_leases d)) \<and>
     distinct (map (\<lambda>r. (rs_execution_id r, rs_budget_id r)) (t_reservations d)) \<and>
     distinct (map oa_acceptance_id (t_acceptances d)) \<and>
     distinct (map ep_proposal_id (t_proposals d)) \<and>
     distinct (map er_evaluation_report_id (t_reports d)) \<and>
     distinct (map dp_deployment_id (t_deployments d)) \<and> distinct (map dp_proposal_id (t_deployments d))"

definition foreign_ok :: "db \<Rightarrow> bool" where
  "foreign_ok d \<longleftrightarrow>
     (let companies = map c_company_id (t_companies d); goals = map g_goal_id (t_goals d);
          works = map w_work_item_id (t_work_items d); runs = map r_run_id (t_runs d);
          policies = map b_budget_id (t_policies d); leases = map le_execution_id (t_leases d);
          artifacts = map art_artifact_id (t_artifacts d); approvals = map ap_approval_id (t_approvals d);
          proposals = map ep_proposal_id (t_proposals d); reports = map er_evaluation_report_id (t_reports d)
      in list_all (\<lambda>g. g_company_id g \<in> set companies \<and> ref goals (g_parent_goal_id g)) (t_goals d) \<and>
         list_all (\<lambda>r. ar_company_id r \<in> set companies) (t_roles d) \<and>
         list_all (\<lambda>r. w_company_id r \<in> set companies \<and> ref goals (w_goal_id r)) (t_work_items d) \<and>
         list_all (\<lambda>r. r_company_id r \<in> set companies \<and> ref goals (r_goal_id r) \<and>
                      ref works (r_work_item_id r)) (t_runs d) \<and>
         list_all (\<lambda>r. ap_company_id r \<in> set companies \<and> ref runs (ap_run_id r) \<and>
                      ref works (ap_work_item_id r) \<and> ref goals (ap_goal_id r)) (t_approvals d) \<and>
         list_all (\<lambda>r. art_company_id r \<in> set companies \<and> ref runs (art_run_id r) \<and>
                      ref works (art_work_item_id r) \<and> ref goals (art_goal_id r)) (t_artifacts d) \<and>
         list_all (\<lambda>r. b_company_id r \<in> set companies) (t_policies d) \<and>
         list_all (\<lambda>r. bu_company_id r \<in> set companies \<and> bu_budget_id r \<in> set policies \<and>
                      ref runs (bu_run_id r)) (t_usage d) \<and>
         list_all (\<lambda>r. ae_company_id r \<in> set companies \<and> ref runs (ae_run_id r) \<and>
                      ref works (ae_work_item_id r)) (t_audits d) \<and>
         list_all (\<lambda>r. le_company_id r \<in> set companies) (t_leases d) \<and>
         list_all (\<lambda>r. rs_execution_id r \<in> set leases \<and> rs_budget_id r \<in> set policies) (t_reservations d) \<and>
         list_all (\<lambda>r. oa_company_id r \<in> set companies \<and> oa_work_item_id r \<in> set works \<and>
                      oa_artifact_id r \<in> set artifacts \<and> oa_run_id r \<in> set runs) (t_acceptances d) \<and>
         list_all (\<lambda>r. ep_company_id r \<in> set companies \<and> ref approvals (ep_approval_id r)) (t_proposals d) \<and>
         list_all (\<lambda>r. er_company_id r \<in> set companies \<and> er_proposal_id r \<in> set proposals) (t_reports d) \<and>
         list_all (\<lambda>r. dp_company_id r \<in> set companies \<and> dp_proposal_id r \<in> set proposals \<and>
                      dp_evaluation_report_id r \<in> set reports) (t_deployments d))"

definition flush :: "env \<Rightarrow> (world, unit) op" where
  "flush E w =
     (if \<not> unique_ok (w_db w) then (Inl (IntegrityError ''unique''), w)
      else if e_fk E \<and> \<not> foreign_ok (w_db w) then (Inl (IntegrityError ''foreign_key''), w)
      else (Inr (), w))"

section \<open>Audit events and outbox\<close>

definition idempotency_digest :: "env \<Rightarrow> string \<Rightarrow> string \<Rightarrow> string" where
  "idempotency_digest E company_id key =
     e_sha256 E (case e_json E (PList [PStr company_id, PStr key]) of None \<Rightarrow> [] | Some t \<Rightarrow> t)"

definition get_retained_audit :: "env \<Rightarrow> string \<Rightarrow> string \<Rightarrow> db \<Rightarrow> audit_event option" where
  "get_retained_audit E company_id key d =
     map_option (\<lambda>row. (tb_receipt row)\<lparr>ae_idempotency_key := Some key\<rparr>)
       (find (\<lambda>row. tb_company_id row = company_id \<and>
                   tb_idempotency_hash row = Some (idempotency_digest E company_id key))
          (t_tombstones d))"

definition get_audit_by_idempotency :: "string \<Rightarrow> string \<Rightarrow> db \<Rightarrow> audit_event option" where
  "get_audit_by_idempotency company_id key d =
     find (\<lambda>a. ae_company_id a = company_id \<and> ae_idempotency_key a = Some key) (t_audits d)"

definition outbox_add :: "env \<Rightarrow> event_envelope \<Rightarrow> (world, unit) op" where
  "outbox_add E ev =
     bindS (write_db (\<lambda>d. d\<lparr>t_outbox := t_outbox d @
       [\<lparr>ob_event = ev, ob_status = ''pending'', ob_attempts = 0, ob_published_at = None,
         ob_last_error = None\<rparr>]\<rparr>)) (\<lambda>_. flush E)"

definition append_audit_event :: "env \<Rightarrow> audit_event \<Rightarrow> (world, audit_event) op" where
  "append_audit_event E ev0 =
     bindS (getS w_operator) (\<lambda>principal.
     let ev1 = (case principal of
                  Some actor \<Rightarrow> if ae_actor_type ev0 \<in> {''user'', ''operator''}
                                then ev0\<lparr>ae_actor_id := actor\<rparr> else ev0
                | None \<Rightarrow> ev0) in
     bindS (liftE (audit_event_for_append ev1)) (\<lambda>ev.
     bindS (case ae_idempotency_key ev of
              None \<Rightarrow> retS None
            | Some key \<Rightarrow>
                query_db (\<lambda>d. case get_retained_audit E (ae_company_id ev) key d of
                            Some kept \<Rightarrow> Some kept
                          | None \<Rightarrow> get_audit_by_idempotency (ae_company_id ev) key d)) (\<lambda>existing.
     case existing of
       Some row \<Rightarrow> retS row
     | None \<Rightarrow>
         bindS (write_db (\<lambda>d. d\<lparr>t_audits := t_audits d @ [ev]\<rparr>)) (\<lambda>_.
         bindS (flush E) (\<lambda>_.
         bindS (whenS (audit_event_carries_domain_event ev)
                 (bindS (generate_id E ''evt'') (\<lambda>i.
                  bindS (liftE (outbox_event_from_audit_event i ev)) (\<lambda>out. outbox_add E out)))) (\<lambda>_.
           retS ev))))))"

text \<open>An \<open>AuditEvent(...)\<close> built by a use case: identifier and time are the model's defaults.\<close>

definition new_audit ::
  "env \<Rightarrow> (string \<Rightarrow> int \<Rightarrow> audit_event) \<Rightarrow> (world, audit_event) op" where
  "new_audit E mk =
     bindS (generate_id E ''aud'') (\<lambda>i. bindS (now_utc E) (\<lambda>t. append_audit_event E (mk i t)))"

definition append_control_plane_domain_event_audits ::
  "env \<Rightarrow> domain_event list \<Rightarrow> domain_event_audit_context \<Rightarrow> (world, audit_event list) op" where
  "append_control_plane_domain_event_audits E events ctx =
     forS events (\<lambda>ev.
       bindS (generate_id E ''aud'') (\<lambda>i.
       bindS (now_utc E) (\<lambda>t.
       bindS (liftE (audit_event_from_domain_event i t ev ctx)) (\<lambda>a. append_audit_event E a))))"

definition outbox_list_pending :: "nat \<Rightarrow> (world, outbox_row list) op" where
  "outbox_list_pending limit =
     query_db (\<lambda>d. take limit (sort_key (\<lambda>ob. dt_utc (ev_timestamp (ob_event ob)))
        (sort_key (\<lambda>ob. ev_event_id (ob_event ob)) (filter (\<lambda>ob. ob_status ob = ''pending'') (t_outbox d)))))"

definition outbox_mark_published :: "env \<Rightarrow> string \<Rightarrow> (world, unit) op" where
  "outbox_mark_published E event_id =
     bindS (now_utc E) (\<lambda>t.
       write_db (\<lambda>d. d\<lparr>t_outbox := map (\<lambda>ob. if ev_event_id (ob_event ob) = event_id
          then ob\<lparr>ob_status := ''published'', ob_attempts := ob_attempts ob + 1,
                 ob_published_at := Some t, ob_last_error := None\<rparr> else ob) (t_outbox d)\<rparr>))"

definition outbox_mark_failed :: "string \<Rightarrow> string \<Rightarrow> (world, unit) op" where
  "outbox_mark_failed event_id error =
     write_db (\<lambda>d. d\<lparr>t_outbox := map (\<lambda>ob. if ev_event_id (ob_event ob) = event_id
        then ob\<lparr>ob_status := ''pending'', ob_attempts := ob_attempts ob + 1,
               ob_last_error := Some (take 1000 error)\<rparr> else ob) (t_outbox d)\<rparr>)"

section \<open>Companies\<close>

definition get_company :: "string \<Rightarrow> (world, company_context option) op" where
  "get_company company_id = query_db (\<lambda>d. find (\<lambda>c. c_company_id c = company_id) (t_companies d))"

definition create_company :: "env \<Rightarrow> company_context \<Rightarrow> (world, company_context) op" where
  "create_company E company =
     bindS (write_db (\<lambda>d. d\<lparr>t_companies := t_companies d @ [company]\<rparr>)) (\<lambda>_.
     bindS (flush E) (\<lambda>_. retS company))"

definition ensure_company :: "env \<Rightarrow> string \<Rightarrow> (world, unit) op" where
  "ensure_company E company_id =
     bindS (get_company company_id) (\<lambda>c. case c of
         Some x \<Rightarrow> retS ()
       | None \<Rightarrow>
           bindS (now_utc E) (\<lambda>t1. bindS (now_utc E) (\<lambda>t2.
           bindS (create_company E
             \<lparr>c_company_id = company_id, c_name = ''Wisdoverse Cell'',
              c_mission = ''AI-native company operations'', c_metadata = [],
              c_created_at = utc_dt t1, c_updated_at = utc_dt t2\<rparr>) (\<lambda>_. retS ()))))"

section \<open>Agent runs\<close>

definition create_agent_run :: "env \<Rightarrow> agent_run \<Rightarrow> (world, agent_run) op" where
  "create_agent_run E run =
     bindS (write_db (\<lambda>d. d\<lparr>t_runs := t_runs d @ [run]\<rparr>)) (\<lambda>_. bindS (flush E) (\<lambda>_. retS run))"

definition get_agent_run :: "string \<Rightarrow> (world, agent_run option) op" where
  "get_agent_run run_id = query_db (\<lambda>d. find (\<lambda>r. r_run_id r = run_id) (t_runs d))"

text \<open>Updating the row with a key: an assignment to the fields of a loaded ORM object.\<close>

definition update_row :: "('a \<Rightarrow> 'k) \<Rightarrow> 'k \<Rightarrow> ('a \<Rightarrow> 'a) \<Rightarrow> 'a list \<Rightarrow> 'a list" where
  "update_row key k f rows = map (\<lambda>r. if key r = k then f r else r) rows"

definition add_agent_run_usage ::
  "env \<Rightarrow> string \<Rightarrow> pyfloat \<Rightarrow> int \<Rightarrow> int \<Rightarrow> (world, agent_run option) op" where
  "add_agent_run_usage E run_id cost_usd input_tokens output_tokens =
     bindS (get_agent_run run_id) (\<lambda>row. case row of
         None \<Rightarrow> retS None
       | Some r \<Rightarrow>
           bindS (write_db (\<lambda>d. d\<lparr>t_runs := update_row r_run_id run_id
             (\<lambda>r. r\<lparr>r_cost_usd := pf_add (r_cost_usd r) cost_usd,
                    r_input_tokens := r_input_tokens r + input_tokens,
                    r_output_tokens := r_output_tokens r + output_tokens\<rparr>) (t_runs d)\<rparr>)) (\<lambda>_.
           bindS (flush E) (\<lambda>_. get_agent_run run_id)))"

section \<open>Concrete data for evaluation\<close>

definition empty_db :: db where
  "empty_db = \<lparr>t_companies = [], t_goals = [], t_roles = [], t_work_items = [], t_runs = [],
     t_approvals = [], t_artifacts = [], t_policies = [], t_usage = [], t_audits = [], t_outbox = [],
     t_tombstones = [], t_leases = [], t_reservations = [], t_acceptances = [],
     t_proposals = [], t_reports = [], t_deployments = []\<rparr>"

definition world_of :: "db \<Rightarrow> world" where
  "world_of d = \<lparr>w_db = d, w_committed = d, w_tick = 0, w_operator = None\<rparr>"

text \<open>One clock tick per second, numbered identifiers, sums in row order, foreign keys enforced.\<close>

definition sample_env :: env where
  "sample_env = \<lparr>e_clock = (\<lambda>n. 1000000 * int n), e_id = (\<lambda>p n. p @ ''-'' @ replicate n (CHR ''i'')),
     e_uuid = (\<lambda>n. replicate n (CHR ''u'')), e_sha256 = (\<lambda>s. ''h'' @ s),
     e_json = (\<lambda>v. case v of PMap kvs \<Rightarrow> Some (concat (map fst kvs)) | _ \<Rightarrow> Some ''json''),
     e_canon = (\<lambda>v. case v of PMap kvs \<Rightarrow> concat (map fst kvs) | _ \<Rightarrow> ''json''),
     e_iso = (\<lambda>t. int_text (dt_utc t)), e_str = (\<lambda>v. ''value''), e_redact = (\<lambda>s. s),
     e_sum = foldl pf_add (Fin 0), e_fk = True\<rparr>"

section \<open>Lemmas: runs of the primitives\<close>

lemma prim_runs [simp]:
  "now_utc E w = (Inr (e_clock E (w_tick w)), w\<lparr>w_tick := Suc (w_tick w)\<rparr>)"
  "generate_id E p w = (Inr (e_id E p (w_tick w)), w\<lparr>w_tick := Suc (w_tick w)\<rparr>)"
  "uuid4_hex E w = (Inr (e_uuid E (w_tick w)), w\<lparr>w_tick := Suc (w_tick w)\<rparr>)"
  "query_db f w = (Inr (f (w_db w)), w)"
  "write_db g w = (Inr (), w\<lparr>w_db := g (w_db w)\<rparr>)"
  "checkpoint w = (Inr (), w\<lparr>w_committed := w_db w\<rparr>)"
  "rollback w = (Inr (), w\<lparr>w_db := w_committed w\<rparr>)"
  by (simp_all add: now_utc_def generate_id_def uuid4_hex_def query_db_def write_db_def checkpoint_def
      rollback_def)

lemma bind_prim_runs [simp]:
  "bindS (now_utc E) f w = f (e_clock E (w_tick w)) (w\<lparr>w_tick := Suc (w_tick w)\<rparr>)"
  "bindS (generate_id E p) f' w = f' (e_id E p (w_tick w)) (w\<lparr>w_tick := Suc (w_tick w)\<rparr>)"
  "bindS (uuid4_hex E) f' w = f' (e_uuid E (w_tick w)) (w\<lparr>w_tick := Suc (w_tick w)\<rparr>)"
  "bindS (query_db q) g w = g (q (w_db w)) w"
  "bindS (write_db h) k w = k () (w\<lparr>w_db := h (w_db w)\<rparr>)"
  "bindS checkpoint k w = k () (w\<lparr>w_committed := w_db w\<rparr>)"
  by (simp_all add: bindS_run)

lemma flush_cases:
  "flush E w = (r, w') \<longleftrightarrow> w' = w \<and>
     (if \<not> unique_ok (w_db w) then r = Inl (IntegrityError ''unique'')
      else if e_fk E \<and> \<not> foreign_ok (w_db w) then r = Inl (IntegrityError ''foreign_key'')
      else r = Inr ())"
  by (auto simp: flush_def)

lemma flush_ok: "flush E w = (Inr u, w') \<Longrightarrow> w' = w \<and> unique_ok (w_db w) \<and> (e_fk E \<longrightarrow> foreign_ok (w_db w))"
  by (auto simp: flush_cases split: if_splits)

lemma bind_flush_ok:
  "bindS (flush E) f w = (Inr a, w') \<longleftrightarrow>
     unique_ok (w_db w) \<and> (e_fk E \<longrightarrow> foreign_ok (w_db w)) \<and> f () w = (Inr a, w')"
  by (auto simp: bindS_run flush_def)

lemma keeps_flush [keeps_intros]: "keeps P (flush E)"
  by (simp add: keeps_def flush_def)

lemma keeps_query [keeps_intros]: "keeps P (query_db f)"
  by (simp add: keeps_def)

text \<open>
  A predicate on the session's database is kept by everything but writes, a predicate on the
  committed database by everything but commits.
\<close>

lemma keeps_db_prims [keeps_intros]:
  "keeps (\<lambda>w. P (w_db w)) (now_utc E)" "keeps (\<lambda>w. P (w_db w)) (generate_id E p)"
  "keeps (\<lambda>w. P (w_db w)) (uuid4_hex E)" "keeps (\<lambda>w. P (w_db w)) checkpoint"
  by (simp_all add: keeps_def)

lemma keeps_committed_prims [keeps_intros]:
  "keeps (\<lambda>w. P (w_committed w)) (now_utc E)" "keeps (\<lambda>w. P (w_committed w)) (generate_id E p)"
  "keeps (\<lambda>w. P (w_committed w)) (uuid4_hex E)" "keeps (\<lambda>w. P (w_committed w)) (write_db g)"
  by (simp_all add: keeps_def)

lemma keeps_write: "(\<And>d. P d \<Longrightarrow> P (g d)) \<Longrightarrow> keeps (\<lambda>w. P (w_db w)) (write_db g)"
  by (simp add: keeps_def)

lemma in_transaction_error:
  assumes "in_transaction m w = (Inl e, w')"
  shows "w_db w' = w_committed w'"
  using assms by (auto simp: in_transaction_def split: prod.splits sum.splits)

lemma in_transaction_rollback:
  assumes "in_transaction m w = (Inl e, w')" and "keeps (\<lambda>w'. w_committed w' = w_committed w) m"
  shows "w_db w' = w_committed w \<and> w_committed w' = w_committed w"
proof -
  obtain r w1 where m: "m w = (r, w1)" by force
  with assms(2) have "w_committed w1 = w_committed w" using keepsD [OF assms(2), of w] by simp
  with m assms(1) show ?thesis by (auto simp: in_transaction_def split: sum.splits)
qed

text \<open>
  A command whose successful runs keep an invariant of the database and that does not commit by
  itself keeps the invariant of the committed database when it runs in a transaction.
\<close>

lemma in_transaction_keeps:
  assumes "triple (\<lambda>w. P (w_db w)) m (\<lambda>_ w. P (w_db w)) (\<lambda>_. True)"
    and "\<And>d. keeps (\<lambda>w. w_committed w = d) m"
  shows "keeps (\<lambda>w. P (w_committed w) \<and> w_db w = w_committed w) (in_transaction m)"
proof (rule keepsI)
  fix w :: world assume w: "P (w_committed w) \<and> w_db w = w_committed w"
  obtain r w' where run: "m w = (r, w')" by force
  have "w_committed w' = w_committed w" by (rule keepsD_run [OF assms(2) _ run]) simp
  moreover have "P (w_db w')" if "r = Inr a" for a
    using tripleD(1) [OF assms(1), of w a w'] w run that by simp
  ultimately show "P (w_committed (snd (in_transaction m w))) \<and>
      w_db (snd (in_transaction m w)) = w_committed (snd (in_transaction m w))"
    using w run by (cases r) (simp_all add: in_transaction_def)
qed

section \<open>The audit port\<close>

text \<open>
  What every use case relies on when it appends audit rows: nothing but the audit table, the outbox
  and the counter changes, rows are only added, and nothing is committed.
\<close>

definition ledger_core :: "db \<Rightarrow> db" where
  "ledger_core d = d\<lparr>t_audits := [], t_outbox := []\<rparr>"

locale audit_port =
  fixes append :: "audit_event \<Rightarrow> (world, audit_event) op"
  assumes append_core: "keeps (\<lambda>w. P (ledger_core (w_db w))) (append ev)"
    and append_only: "keeps (\<lambda>w. \<exists>ys. t_audits (w_db w) = xs @ ys) (append ev)"
    and append_outbox: "keeps (\<lambda>w. \<exists>ys. t_outbox (w_db w) = os @ ys) (append ev)"
    and append_committed: "keeps (\<lambda>w. Q (w_committed w)) (append ev)"
begin

definition appends :: "env \<Rightarrow> domain_event list \<Rightarrow> domain_event_audit_context \<Rightarrow> (world, audit_event list) op" where
  "appends E events ctx =
     forS events (\<lambda>ev.
       bindS (generate_id E ''aud'') (\<lambda>i.
       bindS (now_utc E) (\<lambda>t.
       bindS (liftE (audit_event_from_domain_event i t ev ctx)) (\<lambda>a. append a))))"

lemma appends_core: "keeps (\<lambda>w. P (ledger_core (w_db w))) (appends E events ctx)"
  unfolding appends_def by (intro keeps_intros append_core)

lemma appends_only: "keeps (\<lambda>w. \<exists>ys. t_audits (w_db w) = xs @ ys) (appends E events ctx)"
  unfolding appends_def by (intro keeps_intros append_only)

lemma appends_committed: "keeps (\<lambda>w. Q (w_committed w)) (appends E events ctx)"
  unfolding appends_def by (intro keeps_intros append_committed)

end

lemma keeps_outbox_add:
  "keeps (\<lambda>w. P (ledger_core (w_db w))) (outbox_add E ev)"
  "keeps (\<lambda>w. \<exists>ys. t_audits (w_db w) = xs @ ys) (outbox_add E ev)"
  "keeps (\<lambda>w. \<exists>ys. t_outbox (w_db w) = os @ ys) (outbox_add E ev)"
  "keeps (\<lambda>w. Q (w_committed w)) (outbox_add E ev)"
  unfolding outbox_add_def by (auto intro!: keeps_intros keeps_write simp: ledger_core_def)

interpretation audits: audit_port "append_audit_event E" for E
proof
  fix P Q ev xs os
  show "keeps (\<lambda>w. P (ledger_core (w_db w))) (append_audit_event E ev)"
    unfolding append_audit_event_def
    by (intro keeps_intros keeps_outbox_add keeps_write) (simp add: ledger_core_def)
  show "keeps (\<lambda>w. \<exists>ys. t_audits (w_db w) = xs @ ys) (append_audit_event E ev)"
    unfolding append_audit_event_def
    by (intro keeps_intros keeps_outbox_add keeps_write) auto
  show "keeps (\<lambda>w. \<exists>ys. t_outbox (w_db w) = os @ ys) (append_audit_event E ev)"
    unfolding append_audit_event_def
    by (intro keeps_intros keeps_outbox_add keeps_write) auto
  show "keeps (\<lambda>w. Q (w_committed w)) (append_audit_event E ev)"
    unfolding append_audit_event_def by (intro keeps_intros keeps_outbox_add)
qed

lemma domain_event_audits_appends:
  "append_control_plane_domain_event_audits E events ctx = audits.appends E E events ctx"
  by (simp add: append_control_plane_domain_event_audits_def audits.appends_def)

lemma keeps_domain_event_audits:
  "keeps (\<lambda>w. P (ledger_core (w_db w))) (append_control_plane_domain_event_audits E events ctx)"
  "keeps (\<lambda>w. \<exists>ys. t_audits (w_db w) = xs @ ys) (append_control_plane_domain_event_audits E events ctx)"
  "keeps (\<lambda>w. Q (w_committed w)) (append_control_plane_domain_event_audits E events ctx)"
  unfolding domain_event_audits_appends
  by (rule audits.appends_core audits.appends_only audits.appends_committed)+

lemma keeps_new_audit:
  "keeps (\<lambda>w. P (ledger_core (w_db w))) (new_audit E mk)"
  "keeps (\<lambda>w. \<exists>ys. t_audits (w_db w) = xs @ ys) (new_audit E mk)"
  "keeps (\<lambda>w. Q (w_committed w)) (new_audit E mk)"
  unfolding new_audit_def
  by (intro keeps_intros audits.append_core audits.append_only audits.append_committed)+

text \<open>The tables a ledger core fixes.\<close>

lemma ledger_core_tables [simp]:
  "t_companies (ledger_core d) = t_companies d" "t_goals (ledger_core d) = t_goals d"
  "t_roles (ledger_core d) = t_roles d" "t_work_items (ledger_core d) = t_work_items d"
  "t_runs (ledger_core d) = t_runs d" "t_approvals (ledger_core d) = t_approvals d"
  "t_artifacts (ledger_core d) = t_artifacts d" "t_policies (ledger_core d) = t_policies d"
  "t_usage (ledger_core d) = t_usage d" "t_tombstones (ledger_core d) = t_tombstones d"
  "t_leases (ledger_core d) = t_leases d" "t_reservations (ledger_core d) = t_reservations d"
  "t_acceptances (ledger_core d) = t_acceptances d" "t_proposals (ledger_core d) = t_proposals d"
  "t_reports (ledger_core d) = t_reports d" "t_deployments (ledger_core d) = t_deployments d"
  by (simp_all add: ledger_core_def)

lemma keeps_core_run:
  assumes "\<And>P. keeps (\<lambda>w. P (ledger_core (w_db w))) m" and "m w = (r, w')"
  shows "ledger_core (w_db w') = ledger_core (w_db w)"
  using keepsD_run [OF assms(1) [of "\<lambda>c. c = ledger_core (w_db w)"] _ assms(2)] by simp

lemma update_row_keys: "(\<And>r. key (f r) = key r) \<Longrightarrow> map key (update_row key k f rows) = map key rows"
  by (induction rows) (auto simp: update_row_def)

lemma find_update_row:
  "(\<And>r. key (f r) = key r) \<Longrightarrow>
   find (\<lambda>r. key r = k) (update_row key k f rows) = map_option f (find (\<lambda>r. key r = k) rows)"
  by (induction rows) (auto simp: update_row_def)

lemma find_update_row_other:
  "i \<noteq> k \<Longrightarrow> (\<And>r. key (f r) = key r) \<Longrightarrow>
   find (\<lambda>r. key r = k) (update_row key i f rows) = find (\<lambda>r. key r = k) rows"
  by (induction rows) (auto simp: update_row_def)

lemma set_update_row_unique:
  assumes "p \<in> set rows" and "key p = k" and "\<And>r. r \<in> set rows \<Longrightarrow> key r = k \<Longrightarrow> r = p"
  shows "set (update_row key k f rows) = insert (f p) {r \<in> set rows. key r \<noteq> k}"
proof
  show "set (update_row key k f rows) \<subseteq> insert (f p) {r \<in> set rows. key r \<noteq> k}"
    using assms(3) by (auto simp: update_row_def)
  have "f p \<in> set (update_row key k f rows)"
    unfolding update_row_def using assms(1,2) by (force intro: image_eqI [of _ _ p])
  moreover have "r \<in> set (update_row key k f rows)" if "r \<in> set rows" "key r \<noteq> k" for r
    unfolding update_row_def using that by (force intro: image_eqI [of _ _ r])
  ultimately show "insert (f p) {r \<in> set rows. key r \<noteq> k} \<subseteq> set (update_row key k f rows)" by blast
qed

end
