(* ===== verification/Py_Calendar.thy ===== *)
theory Py_Calendar
  imports Complex_Main
begin

text \<open>
  The proleptic Gregorian calendar as \<open>datetime\<close> has it, on instants counted in microseconds since
  1970-01-01 UTC: the year and month of an instant, and the instants at which a day, a month and a
  year begin. The lemmas show that the beginning of a month or a year is the last one not after the
  instant.
\<close>

section \<open>Days\<close>

definition day_us :: int where
  "day_us = 86400000000"

definition leap_year :: "int \<Rightarrow> bool" where
  "leap_year y \<longleftrightarrow> y mod 4 = 0 \<and> (y mod 100 \<noteq> 0 \<or> y mod 400 = 0)"

text \<open>Days from 1970-01-01 to January 1 of a year.\<close>

definition days_before_year :: "int \<Rightarrow> int" where
  "days_before_year y =
     365 * (y - 1) + (y - 1) div 4 - (y - 1) div 100 + (y - 1) div 400 - 719162"

definition month_lengths :: "bool \<Rightarrow> int list" where
  "month_lengths leap = [31, if leap then 29 else 28, 31, 30, 31, 30, 31, 31, 30, 31, 30, 31]"

definition days_before_month :: "bool \<Rightarrow> nat \<Rightarrow> int" where
  "days_before_month leap m = sum_list (take m (month_lengths leap))"

definition year_of_day :: "int \<Rightarrow> int" where
  "year_of_day d =
     (let y = 400 * (d + 719162) div 146097 + 1 in
      if d < days_before_year y then y - 1 else if days_before_year (y + 1) \<le> d then y + 1 else y)"

text \<open>The month, counted from zero: the last one that has begun.\<close>

definition month_of_day :: "int \<Rightarrow> nat" where
  "month_of_day d =
     (let y = year_of_day d; doy = d - days_before_year y
      in length (takeWhile (\<lambda>m. days_before_month (leap_year y) m \<le> doy) [1..<12]))"

section \<open>Beginnings\<close>

definition day_start :: "int \<Rightarrow> int" where
  "day_start t = t div day_us * day_us"

definition month_start_of :: "int \<Rightarrow> nat \<Rightarrow> int" where
  "month_start_of y m = (days_before_year y + days_before_month (leap_year y) m) * day_us"

definition month_start :: "int \<Rightarrow> int" where
  "month_start t = month_start_of (year_of_day (t div day_us)) (month_of_day (t div day_us))"

definition quarter_start :: "int \<Rightarrow> int" where
  "quarter_start t =
     month_start_of (year_of_day (t div day_us)) (month_of_day (t div day_us) div 3 * 3)"

section \<open>Lemmas\<close>

lemma div_pred:
  assumes "0 < n"
  shows "y div n = (y - 1) div n + (if y mod n = 0 then 1 else (0 :: int))"
proof (cases "y mod n = 0")
  case True
  have "(y - 1) div n = y div n - 1"
    by (rule int_div_pos_eq [of _ _ _ "n - 1"]) (use assms True mult_div_mod_eq [of n y] in \<open>auto simp: algebra_simps\<close>)
  with True show ?thesis by simp
next
  case False
  have "(y - 1) div n = y div n"
    by (rule int_div_pos_eq [of _ _ _ "y mod n - 1"])
       (use assms False mult_div_mod_eq [of n y] pos_mod_sign [of n y] pos_mod_bound [of n y] in linarith)+
  with False show ?thesis by simp
qed

lemma div_between:
  assumes "0 < (n :: int)"
  shows "n * (x div n) \<le> x" and "x < n * (x div n) + n"
  using mult_div_mod_eq [of n x] pos_mod_sign [OF assms, of x] pos_mod_bound [OF assms, of x]
  by linarith+

lemma year_length: "days_before_year (y + 1) = days_before_year y + (if leap_year y then 366 else 365)"
proof -
  have sub: "y mod 400 = 0 \<Longrightarrow> y mod 100 = 0" "y mod 100 = 0 \<Longrightarrow> y mod 4 = 0"
    unfolding mod_eq_0_iff_dvd by (auto elim: dvd_trans [rotated])
  have "days_before_year (y + 1) = days_before_year y + 365 +
      (if y mod 4 = 0 then 1 else 0) - (if y mod 100 = 0 then 1 else 0) + (if y mod 400 = 0 then 1 else 0)"
    unfolding days_before_year_def add_diff_cancel_right'
      div_pred [of 4 y, simplified] div_pred [of 100 y, simplified] div_pred [of 400 y, simplified]
    by (simp only: algebra_simps)
  then show ?thesis
    by (cases "y mod 4 = 0"; cases "y mod 100 = 0"; cases "y mod 400 = 0")
       (use sub in \<open>simp_all add: leap_year_def\<close>)
qed

lemma days_before_year_less: "days_before_year y < days_before_year (y + 1)"
  by (simp add: year_length)

lemma days_before_year_mono: "y \<le> z \<Longrightarrow> days_before_year y \<le> days_before_year z"
proof (induction z rule: int_ge_induct)
  case (step i)
  then show ?case using days_before_year_less [of i] by simp
qed simp

lemma year_of_day_bounds:
  "days_before_year (year_of_day d) \<le> d \<and> d < days_before_year (year_of_day d + 1)"
proof -
  define n where "n = d + 719162"
  define y where "y = 400 * n div 146097 + 1"
  have y: "146097 * (y - 1) \<le> 400 * n" "400 * n < 146097 * y"
    using div_between [of 146097 "400 * n"] by (simp_all add: y_def)
  have approx: "146097 * (x - 1) - 699 \<le> 400 * (days_before_year x + 719162)"
      "400 * (days_before_year x + 719162) \<le> 146097 * (x - 1) + 396" for x
  proof -
    define a b c where "a = (x - 1) div 4" and "b = (x - 1) div 100" and "c = (x - 1) div 400"
    have "4 * a \<le> x - 1" "x - 1 < 4 * a + 4" "100 * b \<le> x - 1" "x - 1 < 100 * b + 100"
      "400 * c \<le> x - 1" "x - 1 < 400 * c + 400"
      unfolding a_def b_def c_def by (rule div_between; simp)+
    then show "146097 * (x - 1) - 699 \<le> 400 * (days_before_year x + 719162)"
      "400 * (days_before_year x + 719162) \<le> 146097 * (x - 1) + 396"
      unfolding days_before_year_def a_def [symmetric] b_def [symmetric] c_def [symmetric] by simp_all
  qed
  have "days_before_year (y - 1) \<le> d"
    using y approx [of "y - 1"] by (simp add: n_def)
  moreover have "d < days_before_year (y + 1 + 1)"
    using y approx [of "y + 1 + 1"] by (simp add: n_def)
  ultimately show ?thesis
    unfolding year_of_day_def n_def [symmetric] y_def [symmetric] Let_def by (auto simp: add.commute)
qed

lemma year_of_day_unique:
  assumes "days_before_year y \<le> d" and "d < days_before_year (y + 1)"
  shows "year_of_day d = y"
  using assms year_of_day_bounds [of d] days_before_year_mono [of "y + 1" "year_of_day d"]
    days_before_year_mono [of "year_of_day d + 1" y] by force

lemma sum_lengths: "sum_list (month_lengths leap) = (if leap then 366 else 365)"
  by (simp add: month_lengths_def)

lemma days_before_month_12: "days_before_month leap 12 = (if leap then 366 else 365)"
  using sum_lengths [of leap] by (simp add: days_before_month_def month_lengths_def)

lemma days_before_month_mono: "m \<le> n \<Longrightarrow> days_before_month leap m \<le> days_before_month leap n"
proof -
  have "take n xs = take m xs @ take (n - m) (drop m xs)" if "m \<le> n" for xs :: "int list"
    using that by (metis le_add_diff_inverse take_add)
  moreover have "0 \<le> sum_list (take k (drop m (month_lengths leap)))" for k
    by (rule sum_list_nonneg) (auto simp: month_lengths_def dest!: in_set_takeD in_set_dropD)
  ultimately show "m \<le> n \<Longrightarrow> ?thesis" by (simp add: days_before_month_def)
qed

lemma takeWhile_upt:
  assumes "i \<le> n" and "n \<le> j" and "\<And>m. i \<le> m \<Longrightarrow> m < n \<Longrightarrow> P m" and "n < j \<Longrightarrow> \<not> P n"
  shows "takeWhile P [i..<j] = [i..<n]"
proof (cases "n = j")
  case True
  with assms show ?thesis by (simp add: takeWhile_eq_all_conv)
next
  case False
  then have "[i..<j] = [i..<n] @ n # [Suc n..<j]"
    using assms(1,2) by (metis le_neq_implies_less le_Suc_ex upt_add_eq_append upt_conv_Cons add_leD1 less_imp_le)
  then have "takeWhile P [i..<j] = takeWhile P ([i..<n] @ n # [Suc n..<j])" by simp
  also have "\<dots> = [i..<n] @ takeWhile P (n # [Suc n..<j])"
    by (rule takeWhile_append2) (use assms(3) in auto)
  finally show ?thesis using False assms(2,4) by simp
qed

text \<open>A day lies in the month that \<open>month_of_day\<close> gives, and in no other one.\<close>

lemma month_of_day_unique:
  assumes "days_before_month (leap_year (year_of_day d)) m \<le> d - days_before_year (year_of_day d)"
    and "m < 12" and "d - days_before_year (year_of_day d) < days_before_month (leap_year (year_of_day d)) (Suc m)"
  shows "month_of_day d = m"
proof -
  let ?P = "\<lambda>m. days_before_month (leap_year (year_of_day d)) m \<le> d - days_before_year (year_of_day d)"
  have "takeWhile ?P [1..<12] = [1..<Suc m]"
  proof (rule takeWhile_upt)
    fix k assume "1 \<le> k" "k < Suc m"
    then show "?P k" using assms(1) days_before_month_mono [of k m] by (auto intro: order_trans)
  qed (use assms in auto)
  then show ?thesis by (simp add: month_of_day_def Let_def)
qed

lemma month_of_day_bounds:
  "month_of_day d < 12 \<and>
   days_before_month (leap_year (year_of_day d)) (month_of_day d) \<le> d - days_before_year (year_of_day d) \<and>
   d - days_before_year (year_of_day d) < days_before_month (leap_year (year_of_day d)) (Suc (month_of_day d))"
proof -
  let ?l = "leap_year (year_of_day d)" and ?doy = "d - days_before_year (year_of_day d)"
  have lo: "0 \<le> ?doy" and hi: "?doy < days_before_month ?l 12"
    using year_of_day_bounds [of d] by (auto simp: days_before_month_12 year_length)
  have "\<exists>m < 12. days_before_month ?l m \<le> ?doy \<and> ?doy < days_before_month ?l (Suc m)"
  proof -
    let ?Q = "\<lambda>m. ?doy < days_before_month ?l m"
    define n where "n = (LEAST m. ?Q m)"
    have Q: "?Q n" unfolding n_def using hi by (rule LeastI)
    have "n \<le> 12" unfolding n_def using hi by (rule Least_le)
    moreover obtain m where "n = Suc m"
      using Q lo by (cases n) (auto simp: days_before_month_def)
    moreover have "\<not> ?Q m" using \<open>n = Suc m\<close> not_less_Least [of m ?Q] by (simp add: n_def)
    ultimately show ?thesis using Q by (intro exI [of _ m]) auto
  qed
  then obtain m where "m < 12" "days_before_month ?l m \<le> ?doy" "?doy < days_before_month ?l (Suc m)" by blast
  with month_of_day_unique [of d m] show ?thesis by auto
qed

section \<open>Period beginnings round down\<close>

text \<open>
  What a budget period needs of the instant at which it began: it is not after the current instant,
  and it is the same for every instant in between.
\<close>

locale period_floor =
  fixes start :: "int \<Rightarrow> int"
  assumes start_le: "start t \<le> t"
    and start_const: "start t \<le> s \<Longrightarrow> s \<le> t \<Longrightarrow> start s = start t"
begin

lemma start_idem: "start (start t) = start t"
  by (rule start_const) (simp_all add: start_le)

lemma start_mono: "s \<le> t \<Longrightarrow> start s \<le> start t"
  using start_const [of t s] start_le [of s] by (cases "start t \<le> s") auto

lemma start_greatest: "start b = b \<Longrightarrow> b \<le> t \<Longrightarrow> b \<le> start t"
  using start_mono [of b t] by simp

end

lemma day_us_pos: "0 < day_us"
  by (simp add: day_us_def)

lemma day_index:
  assumes "k * day_us \<le> s" and "s \<le> t"
  shows "k \<le> s div day_us" and "s div day_us \<le> t div day_us"
  using zdiv_mono1 [OF assms(1) day_us_pos] zdiv_mono1 [OF assms(2) day_us_pos] day_us_pos by auto

interpretation days: period_floor day_start
proof
  fix t
  show "day_start t \<le> t" using div_between(1) [OF day_us_pos, of t] by (simp add: day_start_def mult.commute)
next
  fix s t assume "day_start t \<le> s" "s \<le> t"
  then show "day_start s = day_start t"
    using day_index [of "t div day_us" s t] by (simp add: day_start_def)
qed

text \<open>Days of one year from the beginning of a month on.\<close>

lemma same_year:
  assumes "days_before_year (year_of_day d) \<le> e" and "e \<le> d"
  shows "year_of_day e = year_of_day d"
  using assms year_of_day_bounds [of d] by (intro year_of_day_unique) auto

lemma month_between:
  assumes "days_before_year (year_of_day d) + days_before_month (leap_year (year_of_day d)) m \<le> e"
    and "e \<le> d"
  shows "year_of_day e = year_of_day d" and "m \<le> month_of_day e" and "month_of_day e \<le> month_of_day d"
proof -
  have "0 \<le> days_before_month l m" for l
    using days_before_month_mono [of 0 m l] by (simp add: days_before_month_def)
  from this [of "leap_year (year_of_day d)"] assms show y: "year_of_day e = year_of_day d"
    by (intro same_year) auto
  show "m \<le> month_of_day e"
  proof (rule ccontr)
    assume "\<not> m \<le> month_of_day e"
    then have "days_before_month (leap_year (year_of_day d)) (Suc (month_of_day e)) \<le>
        days_before_month (leap_year (year_of_day d)) m" by (intro days_before_month_mono) simp
    with month_of_day_bounds [of e] y assms(1) show False by simp
  qed
  show "month_of_day e \<le> month_of_day d"
  proof (rule ccontr)
    assume "\<not> month_of_day e \<le> month_of_day d"
    then have "days_before_month (leap_year (year_of_day d)) (Suc (month_of_day d)) \<le>
        days_before_month (leap_year (year_of_day d)) (month_of_day e)" by (intro days_before_month_mono) simp
    with month_of_day_bounds [of e] month_of_day_bounds [of d] y assms(2) show False by simp
  qed
qed

text \<open>A beginning computed from the month by rounding it down to \<open>f m\<close>.\<close>

lemma period_floor_months:
  assumes "\<And>m. f m \<le> m" and "\<And>m n. f m \<le> n \<Longrightarrow> n \<le> m \<Longrightarrow> f n = f m"
  shows "period_floor (\<lambda>t. month_start_of (year_of_day (t div day_us)) (f (month_of_day (t div day_us))))"
proof
  fix t
  let ?d = "t div day_us" and ?l = "leap_year (year_of_day (t div day_us))"
  have "days_before_year (year_of_day ?d) + days_before_month ?l (f (month_of_day ?d)) \<le> ?d"
    using month_of_day_bounds [of ?d] days_before_month_mono [OF assms(1), of ?l "month_of_day ?d"] by simp
  then have "month_start_of (year_of_day ?d) (f (month_of_day ?d)) \<le> ?d * day_us"
    unfolding month_start_of_def using day_us_pos by (intro mult_right_mono) auto
  also have "\<dots> \<le> t" using div_between(1) [OF day_us_pos, of t] by (simp add: mult.commute)
  finally show "month_start_of (year_of_day ?d) (f (month_of_day ?d)) \<le> t" .
next
  fix s t
  assume s: "month_start_of (year_of_day (t div day_us)) (f (month_of_day (t div day_us))) \<le> s" "s \<le> t"
  note b = month_between [OF day_index [OF s [unfolded month_start_of_def]]]
  from b assms(2) [OF b(2) b(3)]
  show "month_start_of (year_of_day (s div day_us)) (f (month_of_day (s div day_us))) =
      month_start_of (year_of_day (t div day_us)) (f (month_of_day (t div day_us)))" by simp
qed

interpretation months: period_floor month_start
  using period_floor_months [of "\<lambda>m. m"] by (simp add: month_start_def [abs_def])

interpretation quarters: period_floor quarter_start
proof -
  have "n div 3 * 3 = m div 3 * 3" if "m div 3 * 3 \<le> n" "n \<le> m" for m n :: nat
    using that by (metis div_le_mono div_mult_self_is_m le_antisym zero_less_numeral)
  then have "period_floor (\<lambda>t. month_start_of (year_of_day (t div day_us)) (month_of_day (t div day_us) div 3 * 3))"
    by (intro period_floor_months) (auto simp: div_times_less_eq_dividend)
  then show "period_floor quarter_start" by (simp add: quarter_start_def [abs_def])
qed

end
