(* ===== verification/Execution_Policy.thy ===== *)
theory Execution_Policy
  imports Control_Store Py_Text Py_Calendar
begin

text \<open>
  The pure execution policy (\<open>domain/execution_policy.py\<close>, \<open>execution_control_use_cases.py\<close>,
  \<open>execution_ports.py\<close>) and the runtime adapter contract of an agent role
  (\<open>domain/agent_wakeup_adapter.py\<close>): bounded money, the frozen dispatch intent, the capabilities an
  adapter needs, and the beginning of a budget period. The lemmas bound the cost ceiling and show that
  a period begins where its calendar says.
\<close>

section \<open>Texts\<close>

text \<open>\<open>str(value)\<close>; for floats and containers the text comes from the environment.\<close>

definition py_str :: "env \<Rightarrow> pyval \<Rightarrow> string" where
  "py_str E v = (case v of
       PStr s \<Rightarrow> s | PEnum s \<Rightarrow> s | POpaque s \<Rightarrow> s
     | PNone \<Rightarrow> ''None'' | PBool b \<Rightarrow> (if b then ''True'' else ''False'')
     | PInt i \<Rightarrow> int_text i | _ \<Rightarrow> e_str E v)"

section \<open>Money\<close>

text \<open>
  \<open>Decimal(str(value))\<close> when it is a finite number. The text of every value that is neither a number
  nor a string (\<open>None\<close>, \<open>True\<close>, a list, a dictionary) is not a Decimal.
\<close>

definition decimal_of_value :: "pyval \<Rightarrow> rat option" where
  "decimal_of_value v = (case v of
       PInt i \<Rightarrow> Some (of_int i)
     | PFloat (Fin q) \<Rightarrow> Some (float_repr q)
     | PStr s \<Rightarrow> decimal_of_text s
     | PEnum s \<Rightarrow> decimal_of_text s
     | POpaque s \<Rightarrow> decimal_of_text s
     | _ \<Rightarrow> None)"

definition bounded_cost :: "pyval \<Rightarrow> exc + decimal" where
  "bounded_cost v =
     (case decimal_of_value v of
        None \<Rightarrow> Inl (ExecutionDenied ''invalid_execution_cost'' 400)
      | Some amount \<Rightarrow>
          if amount < 0 \<or> 1000000 < amount then Inl (ExecutionDenied ''invalid_execution_cost'' 400)
          else Inr \<lparr>dec_value = quantize6 amount, dec_places = 6\<rparr>)"

text \<open>Addition of Decimals in the default context: 28 significant digits, ties to even.\<close>

definition dec_add :: "rat \<Rightarrow> rat \<Rightarrow> rat" where
  "dec_add a b = round_sig 28 (a + b)"

section \<open>The dispatch intent\<close>

definition intent_value :: "agent_role \<Rightarrow> pydict \<Rightarrow> string option \<Rightarrow> pyval" where
  "intent_value agent payload work_item_id =
     PMap [(''company_id'', PStr (ar_company_id agent)),
           (''agent_id'', PStr (ar_agent_id agent)),
           (''adapter_type'', PStr (ar_adapter_type agent)),
           (''adapter_config'', PMap (ar_adapter_config agent)),
           (''permissions'', PList (map PStr (sort (ar_permissions agent)))),
           (''budget_policy_id'', opt_str (ar_budget_policy_id agent)),
           (''escalation_policy'', PMap (ar_escalation_policy agent)),
           (''work_item_id'', opt_str work_item_id),
           (''input'', PMap payload)]"

definition intent_hash :: "env \<Rightarrow> agent_role \<Rightarrow> pydict \<Rightarrow> string option \<Rightarrow> exc + string" where
  "intent_hash E agent payload work_item_id =
     (case e_json E (intent_value agent payload work_item_id) of
        None \<Rightarrow> Inl (ExecutionDenied ''invalid_execution_intent'' 400)
      | Some encoded \<Rightarrow> Inr (e_sha256 E encoded))"

section \<open>Adapter authorisation\<close>

definition required_permissions :: "env \<Rightarrow> agent_role \<Rightarrow> string list" where
  "required_permissions E agent =
     [''work.execute'', ''adapter:'' @ ar_adapter_type agent,
      ''tool:'' @ py_str E (dict_get ''action'' (PStr ''wakeup'') (ar_adapter_config agent))]"

definition authorize_adapter :: "env \<Rightarrow> agent_role \<Rightarrow> exc + decimal" where
  "authorize_adapter E agent =
     (if ar_status agent \<noteq> ''active'' then Inl (ExecutionDenied ''agent_not_runnable'' 409)
      else if ar_adapter_type agent = ''builtin'' then Inr \<lparr>dec_value = 0, dec_places = 0\<rparr>
      else if \<not> set (required_permissions E agent) \<subseteq> set (ar_permissions agent)
      then Inl (ExecutionDenied ''execution_permission_denied'' 403)
      else case map_of (ar_adapter_config agent) ''max_cost_usd'' of
             None \<Rightarrow> Inl (ExecutionDenied ''execution_cost_ceiling_required'' 400)
           | Some v \<Rightarrow> bounded_cost v)"

section \<open>Budget periods\<close>

definition period_start :: "string \<Rightarrow> int \<Rightarrow> exc + int" where
  "period_start period now =
     (if period = ''daily'' then Inr (day_start now)
      else if period = ''monthly'' then Inr (month_start now)
      else if period = ''quarterly'' then Inr (quarter_start now)
      else if period = ''total'' then Inr 0
      else Inl (ExecutionDenied ''unsupported_budget_period'' 400))"

section \<open>Execution control and tickets\<close>

definition validate_execution_control :: "string \<Rightarrow> string \<Rightarrow> lease_state \<Rightarrow> exc + unit" where
  "validate_execution_control adapter_type action state =
     bindE (guardE (action \<in> {''pause'', ''resume'', ''terminate''})
              (ExecutionDenied ''invalid_execution_control'' 400)) (\<lambda>_.
     bindE (guardE (state = LeaseRunning) (ExecutionDenied ''execution_not_running'' 409)) (\<lambda>_.
       guardE (adapter_type = ''process'') (ExecutionDenied ''executor_control_not_supported'' 409)))"

record execution_ticket =
  tk_execution_id :: string
  tk_run_id :: string
  tk_owner_id :: string
  tk_ceiling_usd :: decimal
  tk_replay :: bool

section \<open>The wakeup adapter contract\<close>

record agent_wakeup_adapter_config =
  ac_agent_id :: string
  ac_adapter_type :: string
  ac_config :: pydict

definition adapter_config_from_agent_role :: "agent_role \<Rightarrow> exc + agent_wakeup_adapter_config" where
  "adapter_config_from_agent_role agent =
     bindE (from_mapping (Some (ar_adapter_config agent))) (\<lambda>md.
       Inr \<lparr>ac_agent_id = ar_agent_id agent,
            ac_adapter_type = (if ar_adapter_type agent = [] then ''builtin'' else ar_adapter_type agent),
            ac_config = as_dict md\<rparr>)"

definition adapter_action :: "agent_wakeup_adapter_config \<Rightarrow> pyval" where
  "adapter_action c = dict_get ''action'' (PStr ''wakeup'') (ac_config c)"

fun string_value :: "agent_wakeup_adapter_config \<Rightarrow> string list \<Rightarrow> string option" where
  "string_value c [] = None"
| "string_value c (k # ks) =
     (case map_of (ac_config c) k of
        Some (PStr s) \<Rightarrow> if py_strip s \<noteq> [] then Some (py_strip s) else string_value c ks
      | _ \<Rightarrow> string_value c ks)"

definition allowlist_key :: "agent_wakeup_adapter_config \<Rightarrow> string" where
  "allowlist_key c =
     (case string_value c [''allowlist_key'', ''registry_key''] of
        Some s \<Rightarrow> s | None \<Rightarrow> ac_adapter_type c @ '':'' @ ac_agent_id c)"

definition heartbeat_enabled :: "agent_wakeup_adapter_config \<Rightarrow> bool" where
  "heartbeat_enabled c \<longleftrightarrow> map_of (ac_config c) ''heartbeat_enabled'' = Some (PBool True)"

text \<open>\<open>int(value)\<close>: truncation of a float, \<open>TypeError\<close> or \<open>ValueError\<close> for what is not a number.\<close>

definition int_of_value :: "pyval \<Rightarrow> exc + int" where
  "int_of_value v = (case v of
       PInt i \<Rightarrow> Inr i
     | PBool b \<Rightarrow> Inr (if b then 1 else 0)
     | PFloat (Fin q) \<Rightarrow> Inr (if q < 0 then - \<lfloor>- q\<rfloor> else \<lfloor>q\<rfloor>)
     | PFloat NaN \<Rightarrow> Inl (ValueError ''int'')
     | PFloat f \<Rightarrow> Inl (OverflowError ''int'')
     | PStr s \<Rightarrow> (case int_of_text s of Some i \<Rightarrow> Inr i | None \<Rightarrow> Inl (ValueError ''int''))
     | PEnum s \<Rightarrow> (case int_of_text s of Some i \<Rightarrow> Inr i | None \<Rightarrow> Inl (ValueError ''int''))
     | _ \<Rightarrow> Inl (TypeError ''int''))"

definition heartbeat_interval_seconds :: "agent_wakeup_adapter_config \<Rightarrow> exc + int" where
  "heartbeat_interval_seconds c =
     bindE (case int_of_value (dict_get ''heartbeat_interval_seconds'' (PInt 300) (ac_config c)) of
              Inr i \<Rightarrow> Inr i
            | Inl (TypeError m) \<Rightarrow> Inr 300
            | Inl (ValueError m) \<Rightarrow> Inr 300
            | Inl e \<Rightarrow> Inl e) (\<lambda>i. Inr (max i 60))"

text \<open>\<open>float(value)\<close>: an underscore of a text stands between two digits.\<close>

fun underscores_ok :: "bool \<Rightarrow> string \<Rightarrow> bool" where
  "underscores_ok prev [] = True"
| "underscores_ok prev (c # cs) =
     (if c = CHR ''_'' then prev \<and> (case cs of [] \<Rightarrow> False | d # ds \<Rightarrow> is_digit d) \<and> underscores_ok False cs
      else underscores_ok (is_digit c) cs)"

definition float_of_text :: "string \<Rightarrow> exc + pyfloat" where
  "float_of_text s =
     (let (sign, body) = split_sign (py_lower (py_strip s)) in
      if body \<in> {''inf'', ''infinity''} then Inr (if sign < 0 then NegInf else PosInf)
      else if body = ''nan'' then Inr NaN
      else if \<not> underscores_ok False s then Inl (ValueError ''float'')
      else case decimal_of_text s of Some q \<Rightarrow> Inr (f64_round q) | None \<Rightarrow> Inl (ValueError ''float''))"

definition float_of_value :: "pyval \<Rightarrow> exc + pyfloat" where
  "float_of_value v = (case v of
       PFloat f \<Rightarrow> Inr f
     | PInt i \<Rightarrow> (case f64_round (of_int i) of Fin q \<Rightarrow> Inr (Fin q) | _ \<Rightarrow> Inl (OverflowError ''float''))
     | PBool b \<Rightarrow> Inr (Fin (if b then 1 else 0))
     | PStr s \<Rightarrow> float_of_text s
     | PEnum s \<Rightarrow> float_of_text s
     | _ \<Rightarrow> Inl (TypeError ''float''))"

definition http_timeout_seconds :: "agent_wakeup_adapter_config \<Rightarrow> exc + rat" where
  "http_timeout_seconds c =
     bindE (float_of_value (dict_get ''timeout_sec'' (PInt 30) (ac_config c))) (\<lambda>value. case value of
         Fin q \<Rightarrow> if q \<le> 0 then Inl (ValueError ''invalid_executor_timeout'') else Inr (min q 120)
       | _ \<Rightarrow> Inl (ValueError ''invalid_executor_timeout''))"

definition process_timeout_seconds :: "agent_wakeup_adapter_config \<Rightarrow> int \<Rightarrow> exc + int" where
  "process_timeout_seconds c max_seconds =
     bindE (int_of_value (dict_get ''timeout_sec'' (PInt 300) (ac_config c))) (\<lambda>i.
     bindE (guardE (0 < i) (ValueError ''invalid_executor_timeout'')) (\<lambda>_. Inr (min i max_seconds)))"

section \<open>Lemmas\<close>

lemma quantize6_range: "0 \<le> q \<Longrightarrow> q \<le> 1000000 \<Longrightarrow> 0 \<le> quantize6 q \<and> quantize6 q \<le> 1000000"
  using int_le_rne [of 0 "q * 1000000"] rne_le_int [of "q * 1000000" 1000000000000]
  by (simp add: quantize6_def divide_simps)

lemma bounded_cost_range:
  "bounded_cost v = Inr c \<Longrightarrow> 0 \<le> dec_value c \<and> dec_value c \<le> 1000000"
  by (auto simp: bounded_cost_def quantize6_range split: option.splits if_splits)

lemma bounded_cost_micro: "bounded_cost v = Inr c \<Longrightarrow> \<exists>k. dec_value c * 1000000 = of_int k"
  by (auto simp: bounded_cost_def quantize6_def split: option.splits if_splits)

lemma authorize_adapter_ok:
  assumes "authorize_adapter E agent = Inr c"
  shows "ar_status agent = ''active''" and "0 \<le> dec_value c" and "dec_value c \<le> 1000000"
    and "ar_adapter_type agent = ''builtin'' \<or> set (required_permissions E agent) \<subseteq> set (ar_permissions agent)"
  using assms bounded_cost_range
  by (auto simp: authorize_adapter_def split: if_splits option.splits)

lemma authorize_adapter_denies:
  "authorize_adapter E agent = Inl e \<Longrightarrow> \<exists>r c. e = ExecutionDenied r c"
  by (auto simp: authorize_adapter_def bounded_cost_def split: if_splits option.splits)

lemma intent_hash_denies: "intent_hash E agent p w = Inl e \<Longrightarrow> \<exists>r c. e = ExecutionDenied r c"
  by (auto simp: intent_hash_def split: option.splits)

lemma http_timeout_range: "http_timeout_seconds c = Inr t \<Longrightarrow> 0 < t \<and> t \<le> 120"
  unfolding http_timeout_seconds_def bindE_eq_Inr
  by (elim exE conjE) (auto split: pyfloat.split_asm if_split_asm)

lemma process_timeout_range: "0 < m \<Longrightarrow> process_timeout_seconds c m = Inr t \<Longrightarrow> 0 < t \<and> t \<le> m"
  by (auto simp: process_timeout_seconds_def)

lemma heartbeat_interval_min: "heartbeat_interval_seconds c = Inr i \<Longrightarrow> 60 \<le> i"
  by (auto simp: heartbeat_interval_seconds_def)



end
