(* ===== verification/Approval_Service.thy ===== *)
theory Approval_Service
  imports Control_Store
begin

text \<open>
  Approval persistence and the human-in-the-loop approval gate (\<open>approval_store.py\<close>,
  \<open>approval_gate.py\<close>, \<open>approval_use_cases.py\<close>). The locale \<open>approval_resolver\<close> states what a command
  that resolves an approval promises; it is interpreted for \<open>approve\<close> and for \<open>reject\<close>. From it
  follows that a resolved approval never changes again under any sequence of commands.
\<close>

section \<open>Construction and store\<close>

text \<open>\<open>ApprovalRequest(...)\<close>: texts are trimmed and the decision context is required.\<close>

definition approval_request_new :: "approval_request \<Rightarrow> exc + approval_request" where
  "approval_request_new a =
     bindE (must_include_decision_context (py_strip (ap_proposed_action a))) (\<lambda>action.
     bindE (must_include_decision_context (py_strip (ap_reason a))) (\<lambda>reason.
     bindE (must_include_decision_context (py_strip (ap_risk a))) (\<lambda>risk.
     bindE (must_include_decision_context (py_strip (ap_rollback_note a))) (\<lambda>rollback.
     bindE (guardE (ap_affected_resources a \<noteq> []) (ValueError ''affected_resources'')) (\<lambda>_.
       Inr (a\<lparr>ap_company_id := py_strip (ap_company_id a), ap_requested_by := py_strip (ap_requested_by a),
              ap_source_agent_id := py_strip (ap_source_agent_id a),
              ap_proposed_action := action, ap_reason := reason, ap_risk := risk,
              ap_rollback_note := rollback,
              ap_affected_resources := map py_strip (ap_affected_resources a)\<rparr>))))))"

definition store_request_approval :: "env \<Rightarrow> approval_request \<Rightarrow> (world, approval_request) op" where
  "store_request_approval E approval =
     bindS (write_db (\<lambda>d. d\<lparr>t_approvals := t_approvals d @ [approval]\<rparr>)) (\<lambda>_.
     bindS (flush E) (\<lambda>_. retS approval))"

definition approval_row :: "string \<Rightarrow> db \<Rightarrow> approval_request option" where
  "approval_row approval_id d = find (\<lambda>a. ap_approval_id a = approval_id) (t_approvals d)"

definition get_approval :: "string \<Rightarrow> (world, approval_request option) op" where
  "get_approval approval_id = query_db (approval_row approval_id)"

definition list_approvals ::
  "string \<Rightarrow> string option \<Rightarrow> string option \<Rightarrow> string option \<Rightarrow> string option \<Rightarrow> nat \<Rightarrow>
   (world, approval_request list) op" where
  "list_approvals company_id status run_id trace_id work_item_id limit =
     query_db (\<lambda>d. take limit (sort_key (\<lambda>a. - dt_utc (ap_created_at a)) (filter (\<lambda>a.
        ap_company_id a = company_id \<and>
        (truthy_str status \<longrightarrow> Some (approval_status_value (ap_status a)) = status) \<and>
        (truthy_str run_id \<longrightarrow> ap_run_id a = run_id) \<and>
        (truthy_str trace_id \<longrightarrow> ap_trace_id a = trace_id) \<and>
        (truthy_str work_item_id \<longrightarrow> ap_work_item_id a = work_item_id)) (t_approvals d))))"

definition store_resolve_approval ::
  "env \<Rightarrow> string \<Rightarrow> approval_status \<Rightarrow> string \<Rightarrow> (world, approval_request option) op" where
  "store_resolve_approval E approval_id status resolved_by =
     bindS (get_approval approval_id) (\<lambda>row. case row of
         None \<Rightarrow> retS None
       | Some r \<Rightarrow>
           if ap_status r \<noteq> ApprovalStatus_PENDING
           then raiseS (InvalidApprovalTransitionError ''approval_already_resolved'')
           else
             bindS (now_utc E) (\<lambda>t.
             bindS (write_db (\<lambda>d. d\<lparr>t_approvals := update_row ap_approval_id approval_id
               (\<lambda>r. r\<lparr>ap_status := status, ap_resolved_by := Some resolved_by,
                      ap_resolved_at := Some (utc_dt t), ap_updated_at := utc_dt t\<rparr>) (t_approvals d)\<rparr>)) (\<lambda>_.
             bindS (flush E) (\<lambda>_. get_approval approval_id))))"

section \<open>The gate\<close>

record approval_decision =
  ad_approval_id :: string
  ad_status :: approval_status
  ad_approved :: bool

definition gate_request_approval :: "env \<Rightarrow> (string \<Rightarrow> int \<Rightarrow> approval_request) \<Rightarrow> (world, approval_request) op" where
  "gate_request_approval E mk =
     bindS (generate_id E ''apr'') (\<lambda>i. bindS (now_utc E) (\<lambda>t.
     let a = mk i t in
     bindS (liftE (approval_request_new
       (a\<lparr>ap_affected_resources := (if ap_affected_resources a = []
          then [''agent:'' @ ap_source_agent_id a] else ap_affected_resources a)\<rparr>))) (\<lambda>a'.
       store_request_approval E a')))"

definition approval_audit_context :: "approval_request \<Rightarrow> string \<Rightarrow> domain_event_audit_context" where
  "approval_audit_context row resolved_by =
     \<lparr>dctx_actor_type = ''user'', dctx_actor_id = resolved_by, dctx_trace_id = ap_trace_id row,
      dctx_run_id = ap_run_id row, dctx_work_item_id = ap_work_item_id row,
      dctx_detail =
        [(''status'', PStr (approval_status_value (ap_status row))),
         (''resolved_by'', opt_str (ap_resolved_by row)),
         (''category'', PStr (approval_category_value (ap_category row))),
         (''source_agent_id'', PStr (ap_source_agent_id row)),
         (''goal_id'', opt_str (ap_goal_id row))]\<rparr>"

text \<open>
  Both commands read the request without a lock, and the store's \<open>resolve_approval\<close> reads it again
  under \<open>SELECT ... FOR UPDATE\<close>. Each command is therefore split at its first read: what follows
  takes the request it has read as an argument, which may be stale when the row is locked.
\<close>

definition approve_after_read ::
  "env \<Rightarrow> string \<Rightarrow> string \<Rightarrow> approval_request option \<Rightarrow> (world, approval_decision) op" where
  "approve_after_read E approval_id resolved_by existing = (case existing of
       None \<Rightarrow> raiseS (ApprovalRequiredError (''approval_not_found: '' @ approval_id))
     | Some ex \<Rightarrow>
         bindS (case ap_expires_at ex of
                  None \<Rightarrow> retS ()
                | Some e \<Rightarrow> bindS (now_utc E) (\<lambda>t.
                    guardS (\<not> dt_local e \<le> t) (ApprovalRequiredError ''approval_expired''))) (\<lambda>_.
         case approval_request_transition_to (EnumArg ApprovalStatus_APPROVED) (from_record ex) of
           (Inl e, a) \<Rightarrow> raiseS e
         | (Inr u, a) \<Rightarrow>
             bindS (store_resolve_approval E approval_id ApprovalStatus_APPROVED resolved_by) (\<lambda>row. case row of
               None \<Rightarrow> raiseS (ApprovalRequiredError (''approval_not_found: '' @ approval_id))
             | Some r \<Rightarrow>
                 bindS (append_control_plane_domain_event_audits E (map EvApproval (agg_events a))
                          (approval_audit_context r resolved_by)) (\<lambda>_.
                   retS \<lparr>ad_approval_id = ap_approval_id r, ad_status = ap_status r, ad_approved = True\<rparr>))))"

definition approve :: "env \<Rightarrow> string \<Rightarrow> string \<Rightarrow> (world, approval_decision) op" where
  "approve E approval_id resolved_by =
     bindS (get_approval approval_id) (\<lambda>existing. approve_after_read E approval_id resolved_by existing)"

definition reject_after_read ::
  "env \<Rightarrow> string \<Rightarrow> string \<Rightarrow> approval_request option \<Rightarrow> (world, approval_decision) op" where
  "reject_after_read E approval_id resolved_by existing = (case existing of
       None \<Rightarrow> raiseS (ApprovalRequiredError (''approval_not_found: '' @ approval_id))
     | Some ex \<Rightarrow>
         (case approval_request_transition_to (EnumArg ApprovalStatus_REJECTED) (from_record ex) of
           (Inl e, a) \<Rightarrow> raiseS e
         | (Inr u, a) \<Rightarrow>
             bindS (store_resolve_approval E approval_id ApprovalStatus_REJECTED resolved_by) (\<lambda>row. case row of
               None \<Rightarrow> raiseS (ApprovalRequiredError (''approval_not_found: '' @ approval_id))
             | Some r \<Rightarrow>
                 bindS (append_control_plane_domain_event_audits E (map EvApproval (agg_events a))
                          (approval_audit_context r resolved_by)) (\<lambda>_.
                   retS \<lparr>ad_approval_id = ap_approval_id r, ad_status = ap_status r, ad_approved = False\<rparr>))))"

definition reject :: "env \<Rightarrow> string \<Rightarrow> string \<Rightarrow> (world, approval_decision) op" where
  "reject E approval_id resolved_by =
     bindS (get_approval approval_id) (\<lambda>existing. reject_after_read E approval_id resolved_by existing)"

definition ensure_approved :: "string \<Rightarrow> (world, approval_decision) op" where
  "ensure_approved approval_id =
     bindS (get_approval approval_id) (\<lambda>row. case row of
       None \<Rightarrow> raiseS (ApprovalRequiredError (''approval_not_found: '' @ approval_id))
     | Some r \<Rightarrow>
         bindS (liftE (approval_is_approved (from_record r))) (\<lambda>ok.
           if \<not> ok
           then raiseS (ApprovalRequiredError (''approval_required: '' @ approval_id @ '' status='' @
                  approval_status_value (ap_status r)))
           else retS \<lparr>ad_approval_id = ap_approval_id r, ad_status = ap_status r, ad_approved = True\<rparr>))"

text \<open>The session-owning service: disabled it does nothing, enforced it demands an identifier.\<close>

definition sensitive_action ::
  "bool \<Rightarrow> bool \<Rightarrow> (string \<Rightarrow> (world, approval_decision) op) \<Rightarrow> string option \<Rightarrow> (world, approval_decision option) op" where
  "sensitive_action enabled enforced gate approval_id =
     (if \<not> enabled then retS None
      else case approval_id of
        Some (c # cs) \<Rightarrow> bindS (in_transaction (gate (c # cs))) (\<lambda>d. retS (Some d))
      | _ \<Rightarrow> if enforced then raiseS (ApprovalRequiredError ''control_plane_approval_required'') else retS None)"

definition approve_for_sensitive_action ::
  "env \<Rightarrow> bool \<Rightarrow> bool \<Rightarrow> string option \<Rightarrow> string \<Rightarrow> (world, approval_decision option) op" where
  "approve_for_sensitive_action E enabled enforced approval_id resolved_by =
     sensitive_action enabled enforced (\<lambda>i. approve E i resolved_by) approval_id"

definition reject_for_sensitive_action ::
  "env \<Rightarrow> bool \<Rightarrow> bool \<Rightarrow> string option \<Rightarrow> string \<Rightarrow> (world, approval_decision option) op" where
  "reject_for_sensitive_action E enabled enforced approval_id resolved_by =
     sensitive_action enabled enforced (\<lambda>i. reject E i resolved_by) approval_id"

definition ensure_approved_for_sensitive_action ::
  "bool \<Rightarrow> bool \<Rightarrow> string option \<Rightarrow> (world, approval_decision option) op" where
  "ensure_approved_for_sensitive_action enabled enforced approval_id =
     sensitive_action enabled enforced ensure_approved approval_id"

definition resolve_approval :: "env \<Rightarrow> string \<Rightarrow> string \<Rightarrow> bool \<Rightarrow> (world, approval_decision) op" where
  "resolve_approval E approval_id resolved_by approved =
     (if approved then approve E approval_id resolved_by else reject E approval_id resolved_by)"

section \<open>Sequences of resolution commands\<close>

record resolution =
  rc_approval_id :: string
  rc_resolved_by :: string
  rc_approved :: bool

definition run_resolution :: "env \<Rightarrow> resolution \<Rightarrow> (world, unit) op" where
  "run_resolution E c =
     bindS (in_transaction (resolve_approval E (rc_approval_id c) (rc_resolved_by c) (rc_approved c))) (\<lambda>_. retS ())"

section \<open>What a resolving command promises\<close>

definition resolved_row :: "approval_status \<Rightarrow> string \<Rightarrow> int \<Rightarrow> approval_request \<Rightarrow> approval_request" where
  "resolved_row s who t r = r\<lparr>ap_status := s, ap_resolved_by := Some who, ap_resolved_at := Some (utc_dt t),
                            ap_updated_at := utc_dt t\<rparr>"

locale approval_resolver =
  fixes resolve :: "string \<Rightarrow> string \<Rightarrow> (world, approval_decision) op" and verdict :: approval_status
  assumes resolve_ok: "resolve i who w = (Inr dec, w') \<Longrightarrow>
      (\<exists>r t. approval_row i (w_db w) = Some r \<and> ap_status r = ApprovalStatus_PENDING \<and>
         t_approvals (w_db w') = update_row ap_approval_id i (resolved_row verdict who t) (t_approvals (w_db w)) \<and>
         ad_status dec = verdict)"
    and resolve_committed: "keeps (\<lambda>w. w_committed w = d) (resolve i who)"
    and verdict_final: "verdict \<noteq> ApprovalStatus_PENDING"
begin

lemma resolved_stays:
  assumes "resolve i who w = (Inr dec, w')" and "approval_row j (w_db w) = Some r"
    and "ap_status r \<noteq> ApprovalStatus_PENDING"
  shows "approval_row j (w_db w') = Some r"
proof -
  from resolve_ok [OF assms(1)] obtain r0 t where r0: "approval_row i (w_db w) = Some r0"
    "ap_status r0 = ApprovalStatus_PENDING"
    "t_approvals (w_db w') = update_row ap_approval_id i (resolved_row verdict who t) (t_approvals (w_db w))"
    by blast
  have "i \<noteq> j" using r0 assms(2,3) by auto
  then show ?thesis
    using assms(2) r0(3) by (simp add: approval_row_def find_update_row_other resolved_row_def)
qed

lemma resolves_own_row:
  assumes "resolve i who w = (Inr dec, w')"
  shows "\<exists>r. approval_row i (w_db w') = Some r \<and> ap_status r = verdict \<and> ap_resolved_by r = Some who"
proof -
  from resolve_ok [OF assms] obtain r t where r: "approval_row i (w_db w) = Some r"
    "t_approvals (w_db w') = update_row ap_approval_id i (resolved_row verdict who t) (t_approvals (w_db w))"
    by blast
  have "find (\<lambda>a. ap_approval_id a = i) (t_approvals (w_db w')) = Some (resolved_row verdict who t r)"
    unfolding r(2) using r(1) by (subst find_update_row) (auto simp: resolved_row_def approval_row_def)
  then show ?thesis by (simp add: approval_row_def resolved_row_def)
qed

lemma no_second_resolution:
  assumes "approval_row i (w_db w) = Some r" and "ap_status r \<noteq> ApprovalStatus_PENDING"
  shows "\<exists>e w'. resolve i who w = (Inl e, w')"
proof (cases "resolve i who w")
  case (Pair res w')
  then show ?thesis using resolve_ok [of i who w _ w'] assms by (cases res) auto
qed

lemma committed_resolved_stays:
  assumes "w_db w = w_committed w" and "approval_row j (w_committed w) = Some r"
    and "ap_status r \<noteq> ApprovalStatus_PENDING"
  shows "approval_row j (w_committed (snd (in_transaction (resolve i who) w))) = Some r \<and>
    w_db (snd (in_transaction (resolve i who) w)) = w_committed (snd (in_transaction (resolve i who) w))"
proof -
  obtain res w' where run: "resolve i who w = (res, w')" by force
  have "w_committed w' = w_committed w" by (rule keepsD_run [OF resolve_committed _ run]) simp
  with run assms show ?thesis
    by (cases res) (auto simp: in_transaction_def intro: resolved_stays)
qed

end

section \<open>Both verdicts keep the promise\<close>

lemma store_resolve_run:
  assumes "store_resolve_approval E i s who w = (Inr row, w')"
  shows "case approval_row i (w_db w) of
      None \<Rightarrow> row = None \<and> w' = w
    | Some r \<Rightarrow> ap_status r = ApprovalStatus_PENDING \<and>
        row = Some (resolved_row s who (e_clock E (w_tick w)) r) \<and>
        t_approvals (w_db w') = update_row ap_approval_id i (resolved_row s who (e_clock E (w_tick w)))
          (t_approvals (w_db w))"
proof (cases "approval_row i (w_db w)")
  case None
  with assms show ?thesis by (simp add: store_resolve_approval_def get_approval_def)
next
  case (Some r)
  have "find (\<lambda>a. ap_approval_id a = i) (update_row ap_approval_id i
      (resolved_row s who (e_clock E (w_tick w))) (t_approvals (w_db w))) =
      Some (resolved_row s who (e_clock E (w_tick w)) r)"
    using Some by (subst find_update_row) (auto simp: resolved_row_def approval_row_def)
  with Some assms show ?thesis
    by (auto simp: store_resolve_approval_def get_approval_def bind_flush_ok approval_row_def
        resolved_row_def [abs_def] split: if_splits)
qed

lemma keeps_committed_resolve: "keeps (\<lambda>w. P (w_committed w)) (store_resolve_approval E i s who)"
  unfolding store_resolve_approval_def get_approval_def by (intro keeps_intros)

lemma keeps_approvals_audits:
  "keeps (\<lambda>w. P (t_approvals (w_db w))) (append_control_plane_domain_event_audits E evs ctx)"
  using keeps_domain_event_audits(1) [where P = "\<lambda>c. P (t_approvals c)"] by simp

lemma approvals_after_audits:
  "append_control_plane_domain_event_audits E evs ctx w = (r, w') \<Longrightarrow>
   t_approvals (w_db w') = t_approvals (w_db w)"
  using keepsD_run [OF keeps_approvals_audits [of "\<lambda>as. as = t_approvals (w_db w)"]] by blast

text \<open>The common tail of both commands.\<close>

lemma resolve_tail:
  assumes "bindS (store_resolve_approval E i s who) (\<lambda>row. case row of
       None \<Rightarrow> raiseS e
     | Some r \<Rightarrow> bindS (append_control_plane_domain_event_audits E evs (ctx r)) (\<lambda>_. retS (dec r))) w = (Inr d, w')"
  shows "\<exists>r t. approval_row i (w_db w) = Some r \<and> ap_status r = ApprovalStatus_PENDING \<and>
     t_approvals (w_db w') = update_row ap_approval_id i (resolved_row s who t) (t_approvals (w_db w)) \<and>
     d = dec (resolved_row s who t r)"
proof -
  from assms obtain row w1 where st: "store_resolve_approval E i s who w = (Inr row, w1)"
    and rest: "(case row of None \<Rightarrow> raiseS e | Some r \<Rightarrow>
        bindS (append_control_plane_domain_event_audits E evs (ctx r)) (\<lambda>_. retS (dec r))) w1 = (Inr d, w')"
    by (auto simp: bindS_Inr_iff)
  from rest obtain r where row: "row = Some r" by (cases row) auto
  from store_resolve_run [OF st] row obtain r0 where r0: "approval_row i (w_db w) = Some r0"
    "ap_status r0 = ApprovalStatus_PENDING" "r = resolved_row s who (e_clock E (w_tick w)) r0"
    "t_approvals (w_db w1) = update_row ap_approval_id i (resolved_row s who (e_clock E (w_tick w))) (t_approvals (w_db w))"
    by (auto split: option.splits)
  from rest row have "t_approvals (w_db w') = t_approvals (w_db w1)" "d = dec r"
    by (auto simp: bindS_Inr_iff dest: approvals_after_audits)
  with r0 show ?thesis by auto
qed

lemma approve_after_read_ok:
  assumes "approve_after_read E i who existing w = (Inr dec, w')"
  shows "\<exists>ex r t. existing = Some ex \<and> approval_row i (w_db w) = Some r \<and> ap_status r = ApprovalStatus_PENDING \<and>
     (\<forall>e. ap_expires_at ex = Some e \<longrightarrow> e_clock E (w_tick w) < dt_local e) \<and>
     t_approvals (w_db w') = update_row ap_approval_id i (resolved_row ApprovalStatus_APPROVED who t) (t_approvals (w_db w)) \<and>
     ad_status dec = ApprovalStatus_APPROVED"
proof (cases existing)
  case None
  with assms show ?thesis by (simp add: approve_after_read_def)
next
  case (Some ex)
  obtain res a where tr: "approval_request_transition_to (EnumArg ApprovalStatus_APPROVED) (from_record ex) = (res, a)"
    by force
  let ?w1 = "case ap_expires_at ex of None \<Rightarrow> w | Some e \<Rightarrow> w\<lparr>w_tick := Suc (w_tick w)\<rparr>"
  let ?tail = "bindS (store_resolve_approval E i ApprovalStatus_APPROVED who) (\<lambda>row. case row of
       None \<Rightarrow> raiseS (ApprovalRequiredError (''approval_not_found: '' @ i))
     | Some r \<Rightarrow> bindS (append_control_plane_domain_event_audits E (map EvApproval (agg_events a))
          (approval_audit_context r who)) (\<lambda>_.
          retS \<lparr>ad_approval_id = ap_approval_id r, ad_status = ap_status r, ad_approved = True\<rparr>))"
  have split: "approve_after_read E i who existing w =
      (if (\<exists>e. ap_expires_at ex = Some e \<and> dt_local e \<le> e_clock E (w_tick w))
       then (Inl (ApprovalRequiredError ''approval_expired''), ?w1)
       else (case res of Inl e \<Rightarrow> raiseS e | Inr u \<Rightarrow> ?tail) ?w1)"
    by (cases "ap_expires_at ex"; cases res)
       (simp_all add: approve_after_read_def Some tr bindS_run [of "bindS (now_utc E) f" for f] guardS_def)
  with assms have fresh: "\<forall>e. ap_expires_at ex = Some e \<longrightarrow> e_clock E (w_tick w) < dt_local e"
    by (auto split: if_splits)
  with assms split have run: "?tail ?w1 = (Inr dec, w')" by (cases res) (auto split: if_splits)
  have "w_db ?w1 = w_db w" by (simp split: option.splits)
  with resolve_tail [OF run] Some fresh show ?thesis by (auto simp: resolved_row_def)
qed

lemma reject_after_read_ok:
  assumes "reject_after_read E i who existing w = (Inr dec, w')"
  shows "\<exists>r t. approval_row i (w_db w) = Some r \<and> ap_status r = ApprovalStatus_PENDING \<and>
     t_approvals (w_db w') = update_row ap_approval_id i (resolved_row ApprovalStatus_REJECTED who t) (t_approvals (w_db w)) \<and>
     ad_status dec = ApprovalStatus_REJECTED"
proof (cases existing)
  case None
  with assms show ?thesis by (simp add: reject_after_read_def)
next
  case (Some ex)
  obtain res a where tr: "approval_request_transition_to (EnumArg ApprovalStatus_REJECTED) (from_record ex) = (res, a)"
    by force
  from assms Some tr have "bindS (store_resolve_approval E i ApprovalStatus_REJECTED who) (\<lambda>row. case row of
       None \<Rightarrow> raiseS (ApprovalRequiredError (''approval_not_found: '' @ i))
     | Some r \<Rightarrow> bindS (append_control_plane_domain_event_audits E (map EvApproval (agg_events a))
          (approval_audit_context r who)) (\<lambda>_.
          retS \<lparr>ad_approval_id = ap_approval_id r, ad_status = ap_status r, ad_approved = False\<rparr>)) w = (Inr dec, w')"
    by (cases res) (auto simp: reject_after_read_def)
  from resolve_tail [OF this] show ?thesis by (auto simp: resolved_row_def)
qed

lemma keeps_committed_after_read:
  "keeps (\<lambda>w. P (w_committed w)) (approve_after_read E i who existing)"
  "keeps (\<lambda>w. P (w_committed w)) (reject_after_read E i who existing)"
  unfolding approve_after_read_def reject_after_read_def
  by (intro keeps_intros; auto split: prod.splits sum.splits option.splits
        intro!: keeps_intros keeps_domain_event_audits keeps_committed_resolve)+

interpretation approving: approval_resolver "approve E" ApprovalStatus_APPROVED for E
proof
  fix i who w dec w' d
  assume "approve E i who w = (Inr dec, w')"
  then have "approve_after_read E i who (approval_row i (w_db w)) w = (Inr dec, w')"
    by (simp add: approve_def get_approval_def)
  from approve_after_read_ok [OF this]
  show "\<exists>r t. approval_row i (w_db w) = Some r \<and> ap_status r = ApprovalStatus_PENDING \<and>
         t_approvals (w_db w') = update_row ap_approval_id i (resolved_row ApprovalStatus_APPROVED who t) (t_approvals (w_db w)) \<and>
         ad_status dec = ApprovalStatus_APPROVED"
    by blast
next
  fix i who d
  show "keeps (\<lambda>w. w_committed w = d) (approve E i who)"
    unfolding approve_def get_approval_def by (intro keeps_intros keeps_committed_after_read)
qed simp

interpretation rejecting: approval_resolver "reject E" ApprovalStatus_REJECTED for E
proof
  fix i who w dec w' d
  assume "reject E i who w = (Inr dec, w')"
  then have "reject_after_read E i who (approval_row i (w_db w)) w = (Inr dec, w')"
    by (simp add: reject_def get_approval_def)
  from reject_after_read_ok [OF this]
  show "\<exists>r t. approval_row i (w_db w) = Some r \<and> ap_status r = ApprovalStatus_PENDING \<and>
         t_approvals (w_db w') = update_row ap_approval_id i (resolved_row ApprovalStatus_REJECTED who t) (t_approvals (w_db w)) \<and>
         ad_status dec = ApprovalStatus_REJECTED" .
next
  fix i who d
  show "keeps (\<lambda>w. w_committed w = d) (reject E i who)"
    unfolding reject_def get_approval_def by (intro keeps_intros keeps_committed_after_read)
qed simp

section \<open>Sample data\<close>

definition sample_approval :: approval_request where
  "sample_approval =
     \<lparr>ap_approval_id = ''apr-1'', ap_company_id = ''acme'', ap_category = ApprovalCategory_FINANCE,
      ap_status = ApprovalStatus_PENDING, ap_requested_by = ''agent:pm'', ap_source_agent_id = ''pm'',
      ap_proposed_action = ''act'', ap_reason = ''why'', ap_risk = ''low'', ap_rollback_note = ''undo'',
      ap_affected_resources = [''agent:pm''], ap_artifact_links = [], ap_run_id = None, ap_work_item_id = None,
      ap_goal_id = None, ap_trace_id = None, ap_resolved_by = None, ap_resolved_at = None,
      ap_expires_at = None, ap_metadata = [],
      ap_created_at = utc_dt 0, ap_updated_at = utc_dt 0\<rparr>"

definition sample_company :: company_context where
  "sample_company = \<lparr>c_company_id = ''acme'', c_name = ''Acme'', c_mission = ''m'', c_metadata = [],
     c_created_at = utc_dt 0, c_updated_at = utc_dt 0\<rparr>"

definition approval_world :: world where
  "approval_world = world_of (empty_db\<lparr>t_companies := [sample_company], t_approvals := [sample_approval]\<rparr>)"

section \<open>Properties\<close>

lemma run_resolution_stays:
  assumes "w_db w = w_committed w" and "approval_row j (w_committed w) = Some r"
    and "ap_status r \<noteq> ApprovalStatus_PENDING"
  shows "approval_row j (w_committed (snd (run_resolution E c w))) = Some r \<and>
    w_db (snd (run_resolution E c w)) = w_committed (snd (run_resolution E c w))"
proof -
  have "snd (run_resolution E c w) =
      snd (in_transaction (resolve_approval E (rc_approval_id c) (rc_resolved_by c) (rc_approved c)) w)"
    by (auto simp: run_resolution_def bindS_run split: prod.splits sum.splits)
  then show ?thesis
    using approving.committed_resolved_stays [OF assms] rejecting.committed_resolved_stays [OF assms]
    by (simp add: resolve_approval_def)
qed

lemma runs_resolution_stay:
  assumes "w_db w = w_committed w" and "approval_row j (w_committed w) = Some r"
    and "ap_status r \<noteq> ApprovalStatus_PENDING"
  shows "approval_row j (w_committed (attempts (run_resolution E) cs w)) = Some r"
  using assms
proof (induction cs arbitrary: w)
  case (Cons c cs)
  from run_resolution_stays [OF Cons.prems, of E c] Cons.IH [of "snd (run_resolution E c w)"] Cons.prems(3)
  show ?case by simp
qed simp

text \<open>
  C27. Resolving an approval is final: whatever sequence of approve and reject commands runs, on any
  requests and by anyone, an approval that has been resolved and committed keeps its status, its
  resolver and its resolution time.\<close>

theorem resolved_approval_is_final:
  assumes "w_db w = w_committed w" and "approval_row j (w_committed w) = Some r"
    and "ap_status r \<noteq> ApprovalStatus_PENDING"
  shows "approval_row j (w_committed (attempts (run_resolution E) cs w)) = Some r"
  by (rule runs_resolution_stay [OF assms])

lemma approval_world_approved:
  "w_db (snd (run_resolution sample_env \<lparr>rc_approval_id = ''apr-1'', rc_resolved_by = ''ann'', rc_approved = True\<rparr> approval_world)) =
   w_committed (snd (run_resolution sample_env \<lparr>rc_approval_id = ''apr-1'', rc_resolved_by = ''ann'', rc_approved = True\<rparr> approval_world))"
  "approval_row ''apr-1'' (w_committed (snd (run_resolution sample_env
     \<lparr>rc_approval_id = ''apr-1'', rc_resolved_by = ''ann'', rc_approved = True\<rparr> approval_world))) =
   Some (resolved_row ApprovalStatus_APPROVED ''ann'' 0 sample_approval)"
  by code_simp+

theorem resolved_approval_is_final_witness:
  "approval_row ''apr-1'' (w_committed (attempts (run_resolution sample_env)
     [\<lparr>rc_approval_id = ''apr-1'', rc_resolved_by = ''bob'', rc_approved = False\<rparr>]
     (snd (run_resolution sample_env
        \<lparr>rc_approval_id = ''apr-1'', rc_resolved_by = ''ann'', rc_approved = True\<rparr> approval_world)))) =
   Some (resolved_row ApprovalStatus_APPROVED ''ann'' 0 sample_approval)"
  by (rule resolved_approval_is_final [OF approval_world_approved]) (simp add: resolved_row_def)



text \<open>
  The gate opens exactly on an approved row: \<open>ensure_approved\<close> returns a decision if and only if
  the request exists and its status is approved, and it changes nothing.\<close>

theorem ensure_approved_iff:
  "ensure_approved i w = (Inr dec, w') \<longleftrightarrow>
     w' = w \<and> (\<exists>r. approval_row i (w_db w) = Some r \<and> ap_status r = ApprovalStatus_APPROVED \<and>
       dec = \<lparr>ad_approval_id = ap_approval_id r, ad_status = ApprovalStatus_APPROVED, ad_approved = True\<rparr>)"
  by (cases "approval_row i (w_db w)")
     (auto simp: ensure_approved_def get_approval_def approval_is_approved_def approval_status_is_approved_def
       from_record_def)

end
