(* ===== verification/Budget_Service.thy ===== *)
theory Budget_Service
  imports Control_Store
begin

text \<open>
  Budget persistence, the budget use cases and the budget guard (\<open>budget_store.py\<close>,
  \<open>budget_use_cases.py\<close>, \<open>budget_guard.py\<close>). The main results: creating and updating policies
  keeps every stored policy normalised and at most one policy active per company, scope and
  period; a check is monotone in the estimated cost although amounts are rounded floats; and a spend
  that was checked and then recorded leaves the recorded total within the limit.
\<close>

section \<open>Store\<close>

text \<open>\<open>ORDER BY key DESC LIMIT 1\<close>.\<close>

fun first_desc :: "('a \<Rightarrow> int) \<Rightarrow> 'a list \<Rightarrow> 'a option" where
  "first_desc key [] = None"
| "first_desc key (r # rs) =
     (case first_desc key rs of
        None \<Rightarrow> Some r
      | Some s \<Rightarrow> if key r < key s then Some s else Some r)"

definition order_desc :: "('a \<Rightarrow> int) \<Rightarrow> 'a list \<Rightarrow> 'a list" where
  "order_desc key rows = sort_key (\<lambda>r. - key r) rows"

definition store_create_budget_policy :: "env \<Rightarrow> budget_policy \<Rightarrow> (world, budget_policy) op" where
  "store_create_budget_policy E budget =
     bindS (write_db (\<lambda>d. d\<lparr>t_policies := t_policies d @ [budget]\<rparr>)) (\<lambda>_.
     bindS (flush E) (\<lambda>_. retS budget))"

definition store_get_budget_policy :: "string \<Rightarrow> (world, budget_policy option) op" where
  "store_get_budget_policy budget_id =
     query_db (\<lambda>d. find (\<lambda>b. b_budget_id b = budget_id) (t_policies d))"

definition store_list_budget_policies ::
  "string \<Rightarrow> budget_scope option \<Rightarrow> string option \<Rightarrow> budget_period option \<Rightarrow> string option \<Rightarrow> nat \<Rightarrow>
   (world, budget_policy list) op" where
  "store_list_budget_policies company_id scope scope_id period status limit =
     query_db (\<lambda>d. take limit (order_desc (\<lambda>b. dt_utc (b_created_at b)) (filter (\<lambda>b.
        b_company_id b = company_id \<and>
        (case scope of None \<Rightarrow> True | Some s \<Rightarrow> b_scope b = s) \<and>
        (truthy_str scope_id \<longrightarrow> b_scope_id b = scope_id) \<and>
        (case period of None \<Rightarrow> True | Some p \<Rightarrow> b_period b = p) \<and>
        (truthy_str status \<longrightarrow> Some (b_status b) = status)) (t_policies d))))"

definition store_update_budget_policy ::
  "env \<Rightarrow> string \<Rightarrow> budget_update \<Rightarrow> (world, budget_policy option) op" where
  "store_update_budget_policy E budget_id u =
     bindS (store_get_budget_policy budget_id) (\<lambda>row. case row of
         None \<Rightarrow> retS None
       | Some r \<Rightarrow>
           bindS (now_utc E) (\<lambda>t.
           bindS (write_db (\<lambda>d. d\<lparr>t_policies := update_row b_budget_id budget_id
             (\<lambda>r. (set_opt (\<lambda>m r. r\<lparr>b_metadata := m\<rparr>) (up_metadata u)
                  (set_opt (\<lambda>m r. r\<lparr>b_model_allowlist := m\<rparr>) (up_model_allowlist u)
                  (set_opt (\<lambda>s r. r\<lparr>b_status := s\<rparr>) (up_status u)
                  (set_opt (\<lambda>t r. r\<lparr>b_warning_threshold := t\<rparr>) (up_warning_threshold u)
                  (set_opt (\<lambda>l r. r\<lparr>b_limit_usd := l\<rparr>) (up_limit_usd u) r)))))
                  \<lparr>b_updated_at := utc_dt t\<rparr>) (t_policies d)\<rparr>)) (\<lambda>_.
           bindS (flush E) (\<lambda>_. store_get_budget_policy budget_id))))"

definition active_policies ::
  "string \<Rightarrow> budget_scope \<Rightarrow> budget_period \<Rightarrow> string option \<Rightarrow> db \<Rightarrow> budget_policy list" where
  "active_policies company_id scope period scope_id d =
     filter (\<lambda>b. b_company_id b = company_id \<and> b_scope b = scope \<and> b_period b = period \<and>
                b_status b = ''active'' \<and> b_scope_id b = scope_id) (t_policies d)"

definition get_active_budget_policy ::
  "string \<Rightarrow> budget_scope \<Rightarrow> budget_period \<Rightarrow> string option \<Rightarrow> (world, budget_policy option) op" where
  "get_active_budget_policy company_id scope period scope_id =
     query_db (\<lambda>d. first_desc (\<lambda>b. dt_utc (b_created_at b))
                     (active_policies company_id scope period scope_id d))"

definition store_record_budget_usage :: "env \<Rightarrow> budget_usage \<Rightarrow> (world, budget_usage) op" where
  "store_record_budget_usage E usage =
     bindS (liftE (budget_usage_for_recording usage)) (\<lambda>a.
     bindS (write_db (\<lambda>d. d\<lparr>t_usage := t_usage d @ [agg_record a]\<rparr>)) (\<lambda>_.
     bindS (flush E) (\<lambda>_. retS (agg_record a))))"

definition list_budget_usage ::
  "string \<Rightarrow> string option \<Rightarrow> string option \<Rightarrow> string option \<Rightarrow> nat \<Rightarrow> (world, budget_usage list) op" where
  "list_budget_usage company_id budget_id run_id trace_id limit =
     query_db (\<lambda>d. take limit (sort_key (\<lambda>u. - dt_utc (bu_created_at u)) (filter (\<lambda>u.
        bu_company_id u = company_id \<and>
        (truthy_str budget_id \<longrightarrow> Some (bu_budget_id u) = budget_id) \<and>
        (truthy_str run_id \<longrightarrow> bu_run_id u = run_id) \<and>
        (truthy_str trace_id \<longrightarrow> bu_trace_id u = trace_id)) (t_usage d))))"

definition usage_costs :: "string \<Rightarrow> db \<Rightarrow> pyfloat list" where
  "usage_costs budget_id d = map bu_cost_usd (filter (\<lambda>u. bu_budget_id u = budget_id) (t_usage d))"

definition usage_total :: "env \<Rightarrow> string \<Rightarrow> db \<Rightarrow> pyfloat" where
  "usage_total E budget_id d =
     (case usage_costs budget_id d of [] \<Rightarrow> Fin 0 | cs \<Rightarrow> e_sum E cs)"

definition get_budget_usage_total :: "env \<Rightarrow> string \<Rightarrow> (world, pyfloat) op" where
  "get_budget_usage_total E budget_id = query_db (usage_total E budget_id)"

section \<open>Use cases\<close>

definition get_budget_policy :: "string \<Rightarrow> string \<Rightarrow> (world, budget_policy) op" where
  "get_budget_policy company_id budget_id =
     bindS (store_get_budget_policy budget_id) (\<lambda>policy. case policy of
         None \<Rightarrow> raiseS (BudgetPolicyNotFoundError budget_id)
       | Some p \<Rightarrow>
           if b_company_id p \<noteq> company_id then raiseS (BudgetPolicyNotFoundError budget_id) else retS p)"

definition conflict_error :: "exc \<Rightarrow> exc" where
  "conflict_error e = (case e of BudgetPolicyConflictError i \<Rightarrow> ActiveBudgetPolicyConflictError i | _ \<Rightarrow> e)"

definition ensure_no_active_policy_conflict ::
  "string \<Rightarrow> budget_scope \<Rightarrow> budget_period \<Rightarrow> string option \<Rightarrow> string option \<Rightarrow> (world, unit) op" where
  "ensure_no_active_policy_conflict company_id scope period scope_id current_budget_id =
     bindS (get_active_budget_policy company_id scope period scope_id) (\<lambda>existing.
       liftE (mapErr conflict_error (ensure_no_active_conflict existing current_budget_id)))"

fun budget_domain_event :: "budget_policy_event \<Rightarrow> domain_event" where
  "budget_domain_event (Created e) = EvBudgetCreated e"
| "budget_domain_event (Updated e) = EvBudgetUpdated e"

definition create_budget_policy_with_audit ::
  "env \<Rightarrow> budget_policy \<Rightarrow> string \<Rightarrow> (world, budget_policy) op" where
  "create_budget_policy_with_audit E budget created_by =
     bindS (liftE (budget_policy_for_creation budget)) (\<lambda>a.
     let rec = agg_record a in
     bindS (ensure_company E (b_company_id rec)) (\<lambda>_.
     bindS (liftE (budget_policy_record_status rec)) (\<lambda>status.
     bindS (whenS (requires_unique_active_policy (EnumArg status))
             (ensure_no_active_policy_conflict (b_company_id rec) (b_scope rec) (b_period rec)
                (b_scope_id rec) None)) (\<lambda>_.
     bindS (store_create_budget_policy E rec) (\<lambda>created.
     bindS (liftE (budget_mark_created (a\<lparr>agg_record := created\<rparr>))) (\<lambda>a'.
     bindS (append_control_plane_domain_event_audits E (map budget_domain_event (agg_events a'))
              (audit_context ''user'' created_by)) (\<lambda>_.
       retS created)))))))"

definition only_if :: "'b option \<Rightarrow> 'a \<Rightarrow> 'a option" where
  "only_if given v = (case given of None \<Rightarrow> None | Some _ \<Rightarrow> Some v)"

definition update_budget_policy_with_audit ::
  "env \<Rightarrow> string \<Rightarrow> string \<Rightarrow> budget_update \<Rightarrow> string \<Rightarrow> string list \<Rightarrow> (world, budget_policy) op" where
  "update_budget_policy_with_audit E company_id budget_id u actor_id changed_fields =
     bindS (get_budget_policy company_id budget_id) (\<lambda>existing.
     bindS (liftE (budget_policy_from_record existing)) (\<lambda>a.
     bindS (liftE (budget_policy_status_of (case up_status u of None \<Rightarrow> NoneArg | Some s \<Rightarrow> StrArg s))) (\<lambda>st.
     bindS (whenS (requires_unique_active_policy (case st of None \<Rightarrow> NoneArg | Some e \<Rightarrow> EnumArg e))
             (ensure_no_active_policy_conflict company_id (b_scope existing) (b_period existing)
                (b_scope_id existing) (Some budget_id))) (\<lambda>_.
     bindS (liftE (budget_apply_update u changed_fields a)) (\<lambda>a'.
     let rec = agg_record a' in
     bindS (store_update_budget_policy E budget_id
             \<lparr>up_limit_usd = only_if (up_limit_usd u) (b_limit_usd rec),
              up_warning_threshold = only_if (up_warning_threshold u) (b_warning_threshold rec),
              up_status = only_if (up_status u) (b_status rec),
              up_model_allowlist = only_if (up_model_allowlist u) (b_model_allowlist rec),
              up_metadata = only_if (up_metadata u) (b_metadata rec)\<rparr>) (\<lambda>updated.
     case updated of
       None \<Rightarrow> raiseS (BudgetPolicyNotFoundError budget_id)
     | Some row \<Rightarrow>
         bindS (append_control_plane_domain_event_audits E (map budget_domain_event (agg_events a'))
                  (audit_context ''user'' actor_id)) (\<lambda>_.
           retS row)))))))"

section \<open>Budget guard\<close>

record budget_decision =
  bd_allowed :: bool
  bd_budget_id :: "string option"
  bd_current_cost_usd :: pyfloat
  bd_estimated_cost_usd :: pyfloat
  bd_estimated_total_usd :: pyfloat
  bd_limit_usd :: "pyfloat option"
  bd_reason :: string

definition budget_guard_check ::
  "env \<Rightarrow> string \<Rightarrow> budget_scope \<Rightarrow> budget_period \<Rightarrow> pyfloat \<Rightarrow> string option \<Rightarrow> string option \<Rightarrow>
   (world, budget_decision) op" where
  "budget_guard_check E company_id scope period estimated_cost_usd scope_id model =
     bindS (liftE (non_negative_usd estimated_cost_usd)) (\<lambda>estimated.
     bindS (get_active_budget_policy company_id scope period scope_id) (\<lambda>policy. case policy of
       None \<Rightarrow> retS \<lparr>bd_allowed = True, bd_budget_id = None, bd_current_cost_usd = Fin 0,
                     bd_estimated_cost_usd = usd estimated, bd_estimated_total_usd = usd estimated,
                     bd_limit_usd = None, bd_reason = ''no_active_policy''\<rparr>
     | Some p \<Rightarrow>
         bindS (liftE (positive_usd (b_limit_usd p))) (\<lambda>limit.
         if truthy_str model \<and> b_model_allowlist p \<noteq> [] \<and> str_or_empty model \<notin> set (b_model_allowlist p)
         then
           bindS (get_budget_usage_total E (b_budget_id p)) (\<lambda>total.
           bindS (liftE (non_negative_usd total)) (\<lambda>current.
             retS \<lparr>bd_allowed = False, bd_budget_id = Some (b_budget_id p),
                   bd_current_cost_usd = usd current, bd_estimated_cost_usd = usd estimated,
                   bd_estimated_total_usd = usd estimated, bd_limit_usd = Some (usd limit),
                   bd_reason = ''model_not_allowed''\<rparr>))
         else
           bindS (get_budget_usage_total E (b_budget_id p)) (\<lambda>total.
           bindS (liftE (non_negative_usd total)) (\<lambda>current.
           bindS (liftE (amount_plus current estimated)) (\<lambda>estimated_total.
           let allowed = \<not> amount_exceeds estimated_total limit in
             retS \<lparr>bd_allowed = allowed, bd_budget_id = Some (b_budget_id p),
                   bd_current_cost_usd = usd current, bd_estimated_cost_usd = usd estimated,
                   bd_estimated_total_usd = usd estimated_total, bd_limit_usd = Some (usd limit),
                   bd_reason = (if allowed then [] else ''budget_exceeded'')\<rparr>))))))"

definition budget_guard_ensure_allowed ::
  "env \<Rightarrow> string \<Rightarrow> budget_scope \<Rightarrow> budget_period \<Rightarrow> pyfloat \<Rightarrow> string option \<Rightarrow> string option \<Rightarrow>
   (world, budget_decision) op" where
  "budget_guard_ensure_allowed E company_id scope period cost scope_id model =
     bindS (budget_guard_check E company_id scope period cost scope_id model) (\<lambda>decision.
       if \<not> bd_allowed decision then raiseS (BudgetExceededError (bd_reason decision))
       else retS decision)"

definition budget_guard_record_usage ::
  "env \<Rightarrow> string \<Rightarrow> string \<Rightarrow> pyfloat \<Rightarrow> string \<Rightarrow> int \<Rightarrow> int \<Rightarrow> string option \<Rightarrow> string option \<Rightarrow>
   (world, budget_usage) op" where
  "budget_guard_record_usage E company_id budget_id cost_usd model input_tokens output_tokens run_id trace_id =
     bindS (liftE (non_negative_usd cost_usd)) (\<lambda>cost.
     bindS (generate_id E ''busg'') (\<lambda>i. bindS (now_utc E) (\<lambda>t.
     bindS (liftE (budget_usage_for_recording
             \<lparr>bu_usage_id = i, bu_company_id = company_id, bu_budget_id = budget_id,
              bu_cost_usd = usd cost, bu_model = model, bu_input_tokens = input_tokens,
              bu_output_tokens = output_tokens, bu_run_id = run_id, bu_trace_id = trace_id,
              bu_metadata = [], bu_created_at = utc_dt t\<rparr>)) (\<lambda>usage.
     bindS (store_record_budget_usage E (agg_record usage)) (\<lambda>recorded.
     let usage' = budget_mark_recorded (usage\<lparr>agg_record := recorded\<rparr>) in
     bindS (append_control_plane_domain_event_audits E (map EvBudgetUsage (agg_events usage'))
              ((audit_context ''system'' ''budget_guard'')
                 \<lparr>dctx_trace_id := trace_id, dctx_run_id := run_id\<rparr>)) (\<lambda>_.
       retS recorded))))))"

section \<open>Invariants\<close>

definition same_target :: "budget_policy \<Rightarrow> budget_policy \<Rightarrow> bool" where
  "same_target p q \<longleftrightarrow> b_company_id p = b_company_id q \<and> b_scope p = b_scope q \<and>
     b_period p = b_period q \<and> b_scope_id p = b_scope_id q"

definition policies_inv :: "db \<Rightarrow> bool" where
  "policies_inv d \<longleftrightarrow>
     distinct (map b_budget_id (t_policies d)) \<and>
     (\<forall>p \<in> set (t_policies d). budget_policy_ok p) \<and>
     (\<forall>p \<in> set (t_policies d). \<forall>q \<in> set (t_policies d).
        b_status p = ''active'' \<and> b_status q = ''active'' \<and> same_target p q \<longrightarrow>
        b_budget_id p = b_budget_id q)"

text \<open>A database that sums a column by adding its rows in insertion order.\<close>

definition sequential_sum :: "env \<Rightarrow> bool" where
  "sequential_sum E \<longleftrightarrow>
     (\<forall>x. e_sum E [x] = pf_add (Fin 0) x) \<and>
     (\<forall>xs x. xs \<noteq> [] \<longrightarrow> e_sum E (xs @ [x]) = pf_add (e_sum E xs) x)"

definition sample_policy :: budget_policy where
  "sample_policy = \<lparr>b_budget_id = ''bud-1'', b_company_id = ''cmp-1'', b_scope = BudgetScope_COMPANY,
     b_period = BudgetPeriod_DAILY, b_limit_usd = Fin 10, b_scope_id = None,
     b_warning_threshold = Fin (4 / 5), b_status = ''Active '', b_model_allowlist = [''m '', '' ''],
     b_metadata = [], b_created_at = utc_dt 0, b_updated_at = utc_dt 0\<rparr>"

definition sample_usage :: "string \<Rightarrow> pyfloat \<Rightarrow> budget_usage" where
  "sample_usage i cost = \<lparr>bu_usage_id = i, bu_company_id = ''cmp-1'', bu_budget_id = ''bud-1'',
     bu_cost_usd = cost, bu_model = ''m'', bu_input_tokens = 0, bu_output_tokens = 0, bu_run_id = None,
     bu_trace_id = None, bu_metadata = [], bu_created_at = utc_dt 0\<rparr>"

definition sample_budget_db :: db where
  "sample_budget_db = empty_db\<lparr>
     t_companies := [\<lparr>c_company_id = ''cmp-1'', c_name = ''Cell'', c_mission = [], c_metadata = [],
       c_created_at = utc_dt 0, c_updated_at = utc_dt 0\<rparr>],
     t_policies := [sample_policy\<lparr>b_status := ''active'', b_model_allowlist := [''m'']\<rparr>],
     t_usage := [sample_usage ''u-1'' (Fin 4)]\<rparr>"

text \<open>Replacing the time stamps of all usage rows.\<close>

definition restamp_usage :: "(budget_usage \<Rightarrow> pydt) \<Rightarrow> world \<Rightarrow> world" where
  "restamp_usage f w =
     w\<lparr>w_db := (w_db w)\<lparr>t_usage := map (\<lambda>u. u\<lparr>bu_created_at := f u\<rparr>) (t_usage (w_db w))\<rparr>\<rparr>"

section \<open>Lemmas: queries and frames\<close>

lemma first_desc_None [simp]: "first_desc key rows = None \<longleftrightarrow> rows = []"
  by (cases rows) (auto split: option.splits)

lemma first_desc_in: "first_desc key rows = Some r \<Longrightarrow> r \<in> set rows"
  by (induction rows arbitrary: r) (auto split: option.splits if_splits)

lemma first_desc_max: "first_desc key rows = Some r \<Longrightarrow> s \<in> set rows \<Longrightarrow> key s \<le> key r"
  by (induction rows arbitrary: r) (fastforce split: option.splits if_splits)+

lemma active_policies_iff:
  "p \<in> set (active_policies c sc pe sid d) \<longleftrightarrow>
     p \<in> set (t_policies d) \<and> b_company_id p = c \<and> b_scope p = sc \<and> b_period p = pe \<and>
     b_status p = ''active'' \<and> b_scope_id p = sid"
  by (auto simp: active_policies_def)

lemma keeps_policies_companies:
  "keeps (\<lambda>w. P (t_policies (w_db w))) (ensure_company E c)"
  unfolding ensure_company_def get_company_def create_company_def
  by (intro keeps_intros keeps_write) simp_all

lemma keeps_policies_audits:
  "keeps (\<lambda>w. P (t_policies (w_db w))) (append_control_plane_domain_event_audits E evs ctx)"
  using keeps_domain_event_audits(1) [where P = "\<lambda>c. P (t_policies c)"] by simp

lemma policies_inv_cong: "t_policies d = t_policies d' \<Longrightarrow> policies_inv d \<longleftrightarrow> policies_inv d'"
  by (simp add: policies_inv_def)

lemma keeps_inv_frame:
  assumes "\<And>P. keeps (\<lambda>w. P (t_policies (w_db w))) m"
  shows "keeps (\<lambda>w. policies_inv (w_db w)) m"
  using assms [of "\<lambda>ps. policies_inv (undefined\<lparr>t_policies := ps\<rparr>)"]
  by (simp add: policies_inv_def)

lemma active_status_iff:
  "budget_policy_record_status r = Inr s \<Longrightarrow> budget_policy_ok r \<Longrightarrow>
     b_status r = ''active'' \<longleftrightarrow> s = BudgetPolicyStatus_ACTIVE"
proof -
  assume "budget_policy_record_status r = Inr s" and "budget_policy_ok r"
  then have "normalize_budget_policy_status (b_status r) = budget_policy_status_value s"
    and "b_status r \<in> range budget_policy_status_value"
    by (auto simp: record_status_ok budget_policy_ok_def range_budget_policy_status_value)
  then obtain s' where "b_status r = budget_policy_status_value s'"
    and "budget_policy_status_value s' = budget_policy_status_value s" by auto
  then show ?thesis
    using budget_policy_status_enum.val_inj by (cases s) (auto dest: injD)
qed

section \<open>Policies stay normalised and uniquely active\<close>

lemma conflict_check_ok:
  assumes "ensure_no_active_policy_conflict c sc pe sid cur w = (r, w')"
  shows "w' = w \<and> (\<forall>u p. r = Inr u \<and>
      first_desc (\<lambda>b. dt_utc (b_created_at b)) (active_policies c sc pe sid (w_db w)) = Some p \<longrightarrow>
      cur = Some (b_budget_id p))"
  using assms
  by (cases "first_desc (\<lambda>b. dt_utc (b_created_at b)) (active_policies c sc pe sid (w_db w))")
     (auto simp: ensure_no_active_policy_conflict_def get_active_budget_policy_def
      ensure_no_active_conflict_def mapErr_def split: if_splits)

text \<open>After a passed check with no own identifier, no active policy has the target.\<close>

lemma conflict_check_triple:
  "triple (\<lambda>w. P (w_db w)) (ensure_no_active_policy_conflict c sc pe sid None)
     (\<lambda>_ w. P (w_db w) \<and> active_policies c sc pe sid (w_db w) = []) (\<lambda>w. P (w_db w))"
proof (rule tripleI)
  fix w :: world and u w' assume "P (w_db w)" "ensure_no_active_policy_conflict c sc pe sid None w = (Inr u, w')"
  moreover from conflict_check_ok [OF this(2)] have "w' = w"
    "first_desc (\<lambda>b. dt_utc (b_created_at b)) (active_policies c sc pe sid (w_db w)) = None" by auto
  ultimately show "P (w_db w') \<and> active_policies c sc pe sid (w_db w') = []" by simp
qed (auto dest: conflict_check_ok)

lemma same_target_sym: "same_target p q \<Longrightarrow> same_target q p"
  by (simp add: same_target_def)

lemma policies_inv_insert:
  assumes "policies_inv d" and "budget_policy_ok r" and "b_budget_id r \<notin> b_budget_id ` set (t_policies d)"
    and "b_status r = ''active'' \<Longrightarrow>
      active_policies (b_company_id r) (b_scope r) (b_period r) (b_scope_id r) d = []"
  shows "policies_inv (d\<lparr>t_policies := t_policies d @ [r]\<rparr>)"
proof -
  have new: "\<not> (b_status q = ''active'' \<and> same_target r q)"
    if "q \<in> set (t_policies d)" "b_status r = ''active''" for q
    using that assms(4) by (simp add: active_policies_def filter_empty_conv same_target_def) metis
  then have new': "\<not> (b_status q = ''active'' \<and> same_target q r)"
    if "q \<in> set (t_policies d)" "b_status r = ''active''" for q
    using that new same_target_sym by blast
  from assms(1,2,3) new new' show ?thesis
    unfolding policies_inv_def by simp metis
qed

lemma keeps_inv_audits:
  "keeps (\<lambda>w. policies_inv (w_db w)) (append_control_plane_domain_event_audits E evs ctx)"
  by (rule keeps_inv_frame [OF keeps_policies_audits])

lemma create_policy_inv:
  "triple (\<lambda>w. policies_inv (w_db w)) (create_budget_policy_with_audit E budget created_by)
     (\<lambda>_ w. policies_inv (w_db w)) (\<lambda>_. True)"
  unfolding create_budget_policy_with_audit_def Let_def
proof (rule triple_bind [OF triple_lift_any], rule triple_assume)
  fix a assume "budget_policy_for_creation budget = Inr a"
  then obtain r where r: "a = \<lparr>agg_record = r, agg_events = []\<rparr>" "budget_policy_ok r"
    by (auto simp: budget_policy_for_creation_def dest: normalize_budget_policy_ok)
  let ?I = "\<lambda>w. policies_inv (w_db w)"
  let ?free = "\<lambda>w. b_status r = ''active'' \<longrightarrow>
      active_policies (b_company_id r) (b_scope r) (b_period r) (b_scope_id r) (w_db w) = []"
  have check: "triple ?I (whenS (requires_unique_active_policy (EnumArg st))
      (ensure_no_active_policy_conflict (b_company_id r) (b_scope r) (b_period r) (b_scope_id r) None))
      (\<lambda>_ w. ?I w \<and> ?free w) (\<lambda>_. True)" if "budget_policy_record_status r = Inr st" for st
    using active_status_iff [OF that r(2)]
    by (auto simp: whenS_def requires_unique_active_policy_def triple_def
        dest: tripleD [OF conflict_check_triple [of policies_inv]] split: prod.splits sum.splits)
  have insert: "triple (\<lambda>w. ?I w \<and> ?free w) (store_create_budget_policy E r) (\<lambda>_. ?I) (\<lambda>_. True)"
    by (rule tripleI) (auto simp: store_create_budget_policy_def bind_flush_ok unique_ok_def
        intro!: policies_inv_insert [OF _ r(2)])
  show "triple ?I (bindS (ensure_company E (b_company_id (agg_record a))) (\<lambda>_.
     bindS (liftE (budget_policy_record_status (agg_record a))) (\<lambda>status.
     bindS (whenS (requires_unique_active_policy (EnumArg status))
             (ensure_no_active_policy_conflict (b_company_id (agg_record a)) (b_scope (agg_record a))
                (b_period (agg_record a)) (b_scope_id (agg_record a)) None)) (\<lambda>_.
     bindS (store_create_budget_policy E (agg_record a)) (\<lambda>created.
     bindS (liftE (budget_mark_created (a\<lparr>agg_record := created\<rparr>))) (\<lambda>a'.
     bindS (append_control_plane_domain_event_audits E (map budget_domain_event (agg_events a'))
              (audit_context ''user'' created_by)) (\<lambda>_. retS created)))))))
     (\<lambda>_. ?I) (\<lambda>_. True)"
    unfolding r(1) aggregate.simps
    by (intro triple_bind [OF triple_keeps_any [OF keeps_inv_frame [OF keeps_policies_companies]]]
        triple_bind [OF triple_lift_any] triple_assume triple_bind [OF check] triple_bind [OF insert]
        triple_keeps_any keeps_intros keeps_inv_audits)
qed

text \<open>Overwriting one row: the other rows keep their uniqueness, the new one must not clash.\<close>

lemma policies_inv_update:
  assumes inv: "policies_inv d" and p: "p \<in> set (t_policies d)" "b_budget_id p = i"
    and f: "b_budget_id (f p) = i" "same_target (f p) p" "budget_policy_ok (f p)"
    and act: "\<And>q. b_status (f p) = ''active'' \<Longrightarrow> b_status p \<noteq> ''active'' \<Longrightarrow> q \<in> set (t_policies d) \<Longrightarrow>
       b_status q = ''active'' \<Longrightarrow> same_target p q \<Longrightarrow> b_budget_id q = i"
    and key: "\<And>r. b_budget_id (f r) = b_budget_id r"
  shows "policies_inv (d\<lparr>t_policies := update_row b_budget_id i f (t_policies d)\<rparr>)"
proof -
  have uniq: "r = p" if "r \<in> set (t_policies d)" "b_budget_id r = i" for r
    using inv p that by (auto simp: policies_inv_def distinct_map inj_on_def)
  have rows: "set (update_row b_budget_id i f (t_policies d)) =
      insert (f p) {r \<in> set (t_policies d). b_budget_id r \<noteq> i}"
    by (rule set_update_row_unique [of p "t_policies d" b_budget_id i f, OF p uniq])
  have clash: "b_budget_id q = i" if "b_status (f p) = ''active''" "q \<in> set (t_policies d)"
    "b_status q = ''active''" "same_target (f p) q" for q
  proof -
    have "same_target p q" using that(4) f(2) by (simp add: same_target_def)
    then show ?thesis using that act inv p by (cases "b_status p = ''active''") (auto simp: policies_inv_def)
  qed
  have "distinct (map b_budget_id (update_row b_budget_id i f (t_policies d)))"
    using inv key by (simp add: update_row_keys policies_inv_def)
  moreover have "budget_policy_ok r" if "r \<in> set (update_row b_budget_id i f (t_policies d))" for r
    using that inv f(3) by (auto simp: rows policies_inv_def)
  moreover have "b_budget_id r = b_budget_id q"
    if "r \<in> set (update_row b_budget_id i f (t_policies d))" "q \<in> set (update_row b_budget_id i f (t_policies d))"
      "b_status r = ''active''" "b_status q = ''active''" "same_target r q" for r q
    using that clash [of q] clash [of r] same_target_sym [of r q] inv f(1)
    by (auto simp: rows policies_inv_def)
  ultimately show ?thesis by (auto simp: policies_inv_def)
qed

text \<open>The row that \<open>store_update_budget_policy\<close> writes for an update of a normalised policy.\<close>

definition written_row :: "budget_update \<Rightarrow> int \<Rightarrow> budget_policy \<Rightarrow> budget_policy" where
  "written_row u t r =
     (set_opt (\<lambda>m r. r\<lparr>b_metadata := m\<rparr>) (up_metadata u)
     (set_opt (\<lambda>m r. r\<lparr>b_model_allowlist := m\<rparr>) (up_model_allowlist u)
     (set_opt (\<lambda>s r. r\<lparr>b_status := s\<rparr>) (up_status u)
     (set_opt (\<lambda>t r. r\<lparr>b_warning_threshold := t\<rparr>) (up_warning_threshold u)
     (set_opt (\<lambda>l r. r\<lparr>b_limit_usd := l\<rparr>) (up_limit_usd u) r)))))
     \<lparr>b_updated_at := utc_dt t\<rparr>"

lemma written_row_fields:
  "b_budget_id (written_row u t r) = b_budget_id r"
  "same_target (written_row u t r) r"
  "b_scope_id (written_row u t r) = b_scope_id r"
  "b_scope (written_row u t r) = b_scope r"
  "b_limit_usd (written_row u t r) = (case up_limit_usd u of None \<Rightarrow> b_limit_usd r | Some l \<Rightarrow> l)"
  "b_warning_threshold (written_row u t r) =
     (case up_warning_threshold u of None \<Rightarrow> b_warning_threshold r | Some l \<Rightarrow> l)"
  "b_status (written_row u t r) = (case up_status u of None \<Rightarrow> b_status r | Some s \<Rightarrow> s)"
  "b_model_allowlist (written_row u t r) =
     (case up_model_allowlist u of None \<Rightarrow> b_model_allowlist r | Some l \<Rightarrow> l)"
  by (simp_all add: written_row_def same_target_def set_opt_def split: option.splits)

definition update_of :: "budget_update \<Rightarrow> budget_policy \<Rightarrow> budget_update" where
  "update_of u rec =
     \<lparr>up_limit_usd = only_if (up_limit_usd u) (b_limit_usd rec),
      up_warning_threshold = only_if (up_warning_threshold u) (b_warning_threshold rec),
      up_status = only_if (up_status u) (b_status rec),
      up_model_allowlist = only_if (up_model_allowlist u) (b_model_allowlist rec),
      up_metadata = only_if (up_metadata u) (b_metadata rec)\<rparr>"

lemma written_row_ok:
  assumes "budget_policy_ok p" and "budget_policy_ok rec"
  shows "budget_policy_ok (written_row (update_of u rec) t p)"
  using assms
  by (simp add: budget_policy_ok_def written_row_fields update_of_def only_if_def split: option.splits)

lemma store_update_triple:
  assumes p: "budget_policy_ok rec"
  shows "triple (\<lambda>w. policies_inv (w_db w) \<and> p \<in> set (t_policies (w_db w)) \<and> b_budget_id p = i \<and>
        (up_status u \<noteq> None \<longrightarrow> b_status rec = ''active'' \<longrightarrow> (\<forall>q \<in> set (t_policies (w_db w)).
           b_status q = ''active'' \<and> same_target p q \<longrightarrow> b_budget_id q = i)))
     (store_update_budget_policy E i (update_of u rec)) (\<lambda>_ w. policies_inv (w_db w)) (\<lambda>_. True)"
proof (rule tripleI)
  fix w :: world and a w'
  assume pre: "policies_inv (w_db w) \<and> p \<in> set (t_policies (w_db w)) \<and> b_budget_id p = i \<and>
        (up_status u \<noteq> None \<longrightarrow> b_status rec = ''active'' \<longrightarrow> (\<forall>q \<in> set (t_policies (w_db w)).
           b_status q = ''active'' \<and> same_target p q \<longrightarrow> b_budget_id q = i))"
    and run: "store_update_budget_policy E i (update_of u rec) w = (Inr a, w')"
  let ?f = "written_row (update_of u rec) (e_clock E (w_tick w))"
  have ok: "budget_policy_ok p" using pre by (auto simp: policies_inv_def)
  have "find (\<lambda>b. b_budget_id b = i) (t_policies (w_db w)) \<noteq> None"
    using pre by (auto simp: find_None_iff)
  with run have "w_db w' = (w_db w)\<lparr>t_policies := update_row b_budget_id i ?f (t_policies (w_db w))\<rparr>"
    by (auto simp: store_update_budget_policy_def store_get_budget_policy_def bind_flush_ok
        written_row_def [abs_def])
  moreover have "policies_inv ((w_db w)\<lparr>t_policies := update_row b_budget_id i ?f (t_policies (w_db w))\<rparr>)"
    using pre ok written_row_ok [OF ok p]
    by (intro policies_inv_update [of _ p])
       (auto simp: written_row_fields update_of_def only_if_def split: option.splits)
  ultimately show "policies_inv (w_db w')" by simp
qed simp

lemma update_check_triple:
  "triple (\<lambda>w. policies_inv (w_db w) \<and> p \<in> set (t_policies (w_db w)))
     (ensure_no_active_policy_conflict (b_company_id p) (b_scope p) (b_period p) (b_scope_id p) (Some i))
     (\<lambda>_ w. policies_inv (w_db w) \<and> p \<in> set (t_policies (w_db w)) \<and>
        (\<forall>q \<in> set (t_policies (w_db w)). b_status q = ''active'' \<and> same_target p q \<longrightarrow> b_budget_id q = i))
     (\<lambda>_. True)"
proof (rule tripleI)
  fix w :: world and u w'
  let ?ps = "active_policies (b_company_id p) (b_scope p) (b_period p) (b_scope_id p) (w_db w)"
  assume pre: "policies_inv (w_db w) \<and> p \<in> set (t_policies (w_db w))"
    and "ensure_no_active_policy_conflict (b_company_id p) (b_scope p) (b_period p) (b_scope_id p) (Some i) w
        = (Inr u, w')"
  from conflict_check_ok [OF this(2)] have w': "w' = w"
    and chk: "\<And>q. first_desc (\<lambda>b. dt_utc (b_created_at b)) ?ps = Some q \<Longrightarrow> b_budget_id q = i" by auto
  have "b_budget_id q = i" if q: "q \<in> set (t_policies (w_db w))" "b_status q = ''active''" "same_target p q" for q
  proof -
    have "q \<in> set ?ps" using q by (auto simp: active_policies_iff same_target_def)
    then obtain q' where q': "first_desc (\<lambda>b. dt_utc (b_created_at b)) ?ps = Some q'"
      by (metis empty_iff empty_set first_desc_None not_None_eq)
    then have "q' \<in> set ?ps" by (rule first_desc_in)
    then have "q' \<in> set (t_policies (w_db w))" "b_status q' = ''active''" "same_target q q'"
      using q by (auto simp: active_policies_iff same_target_def)
    with pre q have "b_budget_id q = b_budget_id q'" by (auto simp: policies_inv_def)
    with chk [OF q'] show ?thesis by simp
  qed
  with pre w' show "policies_inv (w_db w') \<and> p \<in> set (t_policies (w_db w')) \<and>
      (\<forall>q \<in> set (t_policies (w_db w')). b_status q = ''active'' \<and> same_target p q \<longrightarrow> b_budget_id q = i)"
    by simp
qed simp

lemma get_policy_triple:
  "triple (\<lambda>w. P (w_db w)) (get_budget_policy c i)
     (\<lambda>p w. P (w_db w) \<and> p \<in> set (t_policies (w_db w)) \<and> b_budget_id p = i \<and> b_company_id p = c)
     (\<lambda>_. True)"
  by (rule tripleI)
     (auto simp: get_budget_policy_def store_get_budget_policy_def find_Some_iff split: option.splits if_splits)

lemma update_policy_inv:
  "triple (\<lambda>w. policies_inv (w_db w)) (update_budget_policy_with_audit E c i u actor cf)
     (\<lambda>_ w. policies_inv (w_db w)) (\<lambda>_. True)"
  unfolding update_budget_policy_with_audit_def Let_def update_of_def [symmetric]
proof (rule triple_bind [OF get_policy_triple [of policies_inv]])
  fix p
  let ?I = "\<lambda>w. policies_inv (w_db w)"
  let ?pre = "\<lambda>w. ?I w \<and> p \<in> set (t_policies (w_db w)) \<and> b_budget_id p = i \<and> b_company_id p = c"
  let ?free = "\<lambda>w. \<forall>q \<in> set (t_policies (w_db w)). b_status q = ''active'' \<and> same_target p q \<longrightarrow> b_budget_id q = i"
  have check: "triple ?pre (whenS (requires_unique_active_policy (case st of None \<Rightarrow> NoneArg | Some e \<Rightarrow> EnumArg e))
      (ensure_no_active_policy_conflict c (b_scope p) (b_period p) (b_scope_id p) (Some i)))
      (\<lambda>_ w. ?pre w \<and> (st = Some BudgetPolicyStatus_ACTIVE \<longrightarrow> ?free w)) (\<lambda>_. True)" for st
  proof (cases "st = Some BudgetPolicyStatus_ACTIVE")
    case True
    show ?thesis
    proof (rule tripleI)
      fix w :: world and v w' assume "?pre w"
        and "whenS (requires_unique_active_policy (case st of None \<Rightarrow> NoneArg | Some e \<Rightarrow> EnumArg e))
          (ensure_no_active_policy_conflict c (b_scope p) (b_period p) (b_scope_id p) (Some i)) w = (Inr v, w')"
      with True tripleD(1) [OF update_check_triple [of p i], of w v w']
      show "?pre w' \<and> (st = Some BudgetPolicyStatus_ACTIVE \<longrightarrow> ?free w')"
        by (auto simp: requires_unique_active_policy_def)
    qed simp
  next
    case False
    then have "\<not> requires_unique_active_policy (case st of None \<Rightarrow> NoneArg | Some e \<Rightarrow> EnumArg e)"
      by (auto simp: requires_unique_active_policy_def is_active_budget_policy_status_def split: option.splits)
    with False show ?thesis by (simp add: triple_def)
  qed
  have upd: "triple (\<lambda>w. ?pre w \<and> (st = Some BudgetPolicyStatus_ACTIVE \<longrightarrow> ?free w))
      (store_update_budget_policy E i (update_of u (agg_record a'))) (\<lambda>_ w. ?I w) (\<lambda>_. True)"
    if "budget_policy_ok p" "budget_policy_from_record p = Inr a"
      "budget_policy_status_of (case up_status u of None \<Rightarrow> NoneArg | Some s \<Rightarrow> StrArg s) = Inr st"
      "budget_apply_update u cf a = Inr a'" for a st a'
  proof -
    have a: "agg_record a = p" using that by (auto simp: budget_policy_from_record_def normalize_budget_policy_id)
    have ok: "budget_policy_ok (agg_record a')"
      using budget_apply_update_ok(1) [OF that(4)] that(1) a by simp
    have "st = Some BudgetPolicyStatus_ACTIVE"
      if s: "up_status u = Some s" and "b_status (agg_record a') = ''active''" for s
    proof -
      from budget_apply_update_status [OF \<open>budget_apply_update u cf a = Inr a'\<close> s] obtain t where
        "budget_policy_status_of (StrArg s) = Inr (Some t)" "b_status (agg_record a') = budget_policy_status_value t"
        by blast
      with that \<open>budget_policy_status_of _ = Inr st\<close> show ?thesis by (cases t) auto
    qed
    then show ?thesis
      by (intro triple_conseq [OF store_update_triple [OF ok, of p i u E]]) auto
  qed
  show "triple ?pre
     (bindS (liftE (budget_policy_from_record p)) (\<lambda>a.
      bindS (liftE (budget_policy_status_of (case up_status u of None \<Rightarrow> NoneArg | Some s \<Rightarrow> StrArg s))) (\<lambda>st.
      bindS (whenS (requires_unique_active_policy (case st of None \<Rightarrow> NoneArg | Some e \<Rightarrow> EnumArg e))
              (ensure_no_active_policy_conflict c (b_scope p) (b_period p) (b_scope_id p) (Some i))) (\<lambda>_.
      bindS (liftE (budget_apply_update u cf a)) (\<lambda>a'.
      bindS (store_update_budget_policy E i (update_of u (agg_record a'))) (\<lambda>updated.
      case updated of
        None \<Rightarrow> raiseS (BudgetPolicyNotFoundError i)
      | Some row \<Rightarrow>
          bindS (append_control_plane_domain_event_audits E (map budget_domain_event (agg_events a'))
                   (audit_context ''user'' actor)) (\<lambda>_. retS row)))))))
     (\<lambda>_. ?I) (\<lambda>_. True)"
  proof (cases "budget_policy_ok p")
    case False
    then show ?thesis by (auto simp: triple_def policies_inv_def)
  next
    case True
    show ?thesis
      by (intro triple_bind [OF triple_lift_any] triple_assume triple_bind [OF check]
          triple_bind [OF upd [OF True]] triple_keeps_any keeps_intros keeps_inv_audits)
  qed
qed

section \<open>The guard\<close>

lemma keeps_committed_budget:
  "keeps (\<lambda>w. Q (w_committed w)) (create_budget_policy_with_audit E b c)"
  "keeps (\<lambda>w. Q (w_committed w)) (update_budget_policy_with_audit E co i u ac cf)"
  unfolding create_budget_policy_with_audit_def update_budget_policy_with_audit_def ensure_company_def
    get_company_def create_company_def store_create_budget_policy_def get_budget_policy_def
    store_get_budget_policy_def store_update_budget_policy_def ensure_no_active_policy_conflict_def
    get_active_budget_policy_def
  by (intro keeps_intros keeps_domain_event_audits)+

text \<open>What a check returns, as a function of the database.\<close>

lemma budget_guard_check_run:
  assumes "budget_guard_check E c sc pe cost sid m w = (Inr dec, w')"
  shows "w' = w \<and> (\<exists>q. cost = Fin q \<and> 0 \<le> q \<and>
    (case first_desc (\<lambda>b. dt_utc (b_created_at b)) (active_policies c sc pe sid (w_db w)) of
       None \<Rightarrow> bd_allowed dec \<and> bd_budget_id dec = None
     | Some p \<Rightarrow> \<exists>l t. b_limit_usd p = Fin l \<and> 0 < l \<and> usage_total E (b_budget_id p) (w_db w) = Fin t \<and> 0 \<le> t \<and>
         bd_budget_id dec = Some (b_budget_id p) \<and> bd_limit_usd dec = Some (Fin l) \<and>
         (if truthy_str m \<and> b_model_allowlist p \<noteq> [] \<and> str_or_empty m \<notin> set (b_model_allowlist p)
          then \<not> bd_allowed dec
          else bd_estimated_total_usd dec = pf_add (Fin t) (Fin q) \<and>
               (bd_allowed dec \<longleftrightarrow> pf_le (pf_add (Fin t) (Fin q)) (Fin l)))))"
proof (cases "first_desc (\<lambda>b. dt_utc (b_created_at b)) (active_policies c sc pe sid (w_db w))")
  case None
  with assms show ?thesis
    by (auto simp: budget_guard_check_def get_active_budget_policy_def bindS_Inr_iff non_negative_usd_ok)
next
  case (Some p)
  have le: "\<not> pf_less (Fin l) x \<longleftrightarrow> pf_le x (Fin l)" if "x = Fin y" for l x y using that by auto
  from Some assms show ?thesis
    by (auto simp: budget_guard_check_def get_active_budget_policy_def get_budget_usage_total_def
        bindS_Inr_iff non_negative_usd_ok positive_usd_ok amount_plus_def amount_exceeds_def
        budget_amount_new_ok Let_def le simp del: pf_add.simps split: if_splits)
qed

text \<open>Recording appends exactly one row with the given cost to the policy's usage.\<close>

lemma usage_total_sum: "usage_costs i d \<noteq> [] \<Longrightarrow> usage_total E i d = e_sum E (usage_costs i d)"
  by (simp add: usage_total_def split: list.splits)

lemma usage_total_none: "usage_costs i d = [] \<Longrightarrow> usage_total E i d = Fin 0"
  by (simp add: usage_total_def)

lemma store_record_run:
  assumes "store_record_budget_usage E u w = (Inr r, w')"
  shows "normalize_budget_usage u = Inr r \<and> w' = w\<lparr>w_db := (w_db w)\<lparr>t_usage := t_usage (w_db w) @ [r]\<rparr>\<rparr>"
  using assms
  by (auto simp: store_record_budget_usage_def budget_usage_for_recording_def bindS_Inr_iff dest!: flush_ok)

lemma recorded_usage_costs:
  assumes "budget_guard_record_usage E c i cost model inp outp run_id trace_id w = (Inr u, w')"
  shows "usage_costs i (w_db w') = usage_costs i (w_db w) @ [cost]"
proof -
  let ?evs = "\<lambda>r. map EvBudgetUsage (agg_events (budget_mark_recorded \<lparr>agg_record = r, agg_events = []\<rparr>))"
  let ?ctx = "(audit_context ''system'' ''budget_guard'')\<lparr>dctx_trace_id := trace_id, dctx_run_id := run_id\<rparr>"
  from assms obtain u0 r w0 w1 as where u0: "bu_cost_usd u0 = cost" "bu_budget_id u0 = i" "w_db w0 = w_db w"
    and rec: "store_record_budget_usage E u0 w0 = (Inr r, w1)"
    and aud: "append_control_plane_domain_event_audits E (?evs r) ?ctx w1 = (Inr as, w')"
    by (clarsimp simp: budget_guard_record_usage_def bindS_Inr_iff Let_def
        budget_usage_for_recording_def normalize_budget_usage_def non_negative_usd_ok)
       (erule that [rotated 3]; simp)
  from store_record_run [OF rec] u0 have r: "bu_cost_usd r = cost" "bu_budget_id r = i"
    and w1: "t_usage (w_db w1) = t_usage (w_db w) @ [r]"
    by (auto simp: normalize_budget_usage_def non_negative_usd_ok)
  have "t_usage (w_db w') = t_usage (w_db w1)"
    using keeps_core_run [OF keeps_domain_event_audits(1) aud] by (metis ledger_core_tables(9))
  with r w1 show ?thesis by (simp add: usage_costs_def)
qed

section \<open>Properties\<close>

text \<open>
  C10. Policies stay normalised and uniquely active: when every stored policy satisfies the policy
  invariant and at most one is active per company, scope, scope identifier and period, the same holds
  of the committed database after any create or update command run in its transaction, whether the
  command returns or raises.
\<close>

theorem budget_commands_keep_policies_inv:
  assumes "policies_inv (w_committed w)" and "w_db w = w_committed w"
  shows "policies_inv (w_committed (snd (in_transaction (create_budget_policy_with_audit E budget created_by) w))) \<and>
    policies_inv (w_committed (snd (in_transaction
      (update_budget_policy_with_audit E company_id budget_id u actor_id changed_fields) w)))"
  using keepsD [OF in_transaction_keeps [OF create_policy_inv keeps_committed_budget(1)], of w E budget created_by]
    keepsD [OF in_transaction_keeps [OF update_policy_inv keeps_committed_budget(2)],
      of w E company_id budget_id u actor_id changed_fields] assms
  by simp

theorem budget_commands_keep_policies_inv_witness:
  "policies_inv (w_committed (world_of empty_db)) \<and>
   w_db (world_of empty_db) = w_committed (world_of empty_db) \<and>
   map b_status (t_policies (w_committed (snd (in_transaction
     (create_budget_policy_with_audit sample_env sample_policy ''op'') (world_of empty_db))))) = [''active''] \<and>
   policies_inv (w_committed (snd (in_transaction
     (create_budget_policy_with_audit sample_env sample_policy ''op'') (world_of empty_db))))"
proof -
  have inv: "policies_inv (w_committed (world_of empty_db))" "w_db (world_of empty_db) = w_committed (world_of empty_db)"
    by (simp_all add: policies_inv_def world_of_def empty_db_def)
  moreover have "map b_status (t_policies (w_committed (snd (in_transaction
     (create_budget_policy_with_audit sample_env sample_policy ''op'') (world_of empty_db))))) = [''active'']"
    by code_simp
  ultimately show ?thesis
    using budget_commands_keep_policies_inv [OF inv, of sample_env sample_policy "''op''"] by blast
qed

text \<open>
  The guard is monotone: in one state, when an estimated cost is allowed then so is every smaller
  non-negative cost for the same policy target and model. Amounts are rounded binary floats, so
  this needs the rounding of the running total to be monotone.
\<close>

theorem budget_guard_monotone:
  assumes "budget_guard_check E c sc pe (Fin b) sid m w = (Inr dec, w1)" and "bd_allowed dec"
    and "0 \<le> a" and "a \<le> b"
  shows "\<exists>dec' w2. budget_guard_check E c sc pe (Fin a) sid m w = (Inr dec', w2) \<and> bd_allowed dec'"
proof -
  note run = budget_guard_check_run [OF assms(1)]
  let ?p = "first_desc (\<lambda>b. dt_utc (b_created_at b)) (active_policies c sc pe sid (w_db w))"
  show ?thesis
  proof (cases ?p)
    case None
    then show ?thesis using assms(3)
      by (simp add: budget_guard_check_def get_active_budget_policy_def non_negative_usd_def budget_amount_new_def)
  next
    case (Some p)
    with run assms(2) obtain l t where lt: "b_limit_usd p = Fin l" "0 < l" "usage_total E (b_budget_id p) (w_db w) = Fin t"
      "0 \<le> t" "pf_le (pf_add (Fin t) (Fin b)) (Fin l)"
      and ok: "\<not> (truthy_str m \<and> b_model_allowlist p \<noteq> [] \<and> str_or_empty m \<notin> set (b_model_allowlist p))"
      by (auto split: if_splits)
    have "pf_le (pf_add (Fin t) (Fin a)) (pf_add (Fin t) (Fin b))" using lt assms by (intro pf_add_mono) auto
    with lt(5) have le: "pf_le (pf_add (Fin t) (Fin a)) (Fin l)" by (rule pf_le_trans [rotated])
    obtain s where s: "pf_add (Fin t) (Fin a) = Fin s" "0 \<le> s" "s \<le> l"
      using le lt assms(3) f64_grid_nonneg [of "t + a"] by (auto simp: f64_round_nonneg split: if_splits)
    show ?thesis using Some lt ok s assms(3)
      by (auto simp: budget_guard_check_def get_active_budget_policy_def get_budget_usage_total_def
          non_negative_usd_def positive_usd_def budget_amount_new_def amount_plus_def amount_exceeds_def Let_def
          simp del: pf_add.simps)
  qed
qed

theorem budget_guard_monotone_witness:
  "\<exists>dec w1 dec' w2.
     budget_guard_check sample_env ''cmp-1'' BudgetScope_COMPANY BudgetPeriod_DAILY (Fin 6) None (Some ''m'')
       (world_of sample_budget_db) = (Inr dec, w1) \<and> bd_allowed dec \<and>
     budget_guard_check sample_env ''cmp-1'' BudgetScope_COMPANY BudgetPeriod_DAILY (Fin (1 / 10)) None (Some ''m'')
       (world_of sample_budget_db) = (Inr dec', w2) \<and> bd_allowed dec'"
proof -
  let ?chk = "\<lambda>q. budget_guard_check sample_env ''cmp-1'' BudgetScope_COMPANY BudgetPeriod_DAILY (Fin q) None (Some ''m'')
       (world_of sample_budget_db)"
  have "f64_round 4 = Fin 4" "f64_round 10 = Fin 10"
    using f64_round_int [of 4] f64_round_int [of 10] by simp_all
  then obtain dec w1 where run: "?chk 6 = (Inr dec, w1)" "bd_allowed dec"
    by (auto simp: budget_guard_check_def non_negative_usd_def budget_amount_new_def get_active_budget_policy_def
        active_policies_def sample_budget_db_def sample_policy_def world_of_def empty_db_def positive_usd_def
        get_budget_usage_total_def usage_total_def usage_costs_def sample_usage_def sample_env_def amount_plus_def
        amount_exceeds_def str_or_empty_def Let_def)
  then show ?thesis using budget_guard_monotone [OF run, of "1 / 10"] by auto
qed



text \<open>
  The guard does not look at periods: for a fixed policy the decision depends on the stored usage
  amounts only, never on when they were spent. Rewriting every usage time stamp leaves the result of
  a check unchanged, so a daily or monthly limit is compared with the spend of all time.
\<close>

theorem budget_guard_ignores_usage_time:
  "fst (budget_guard_check E c sc pe cost sid m (restamp_usage f w)) =
   fst (budget_guard_check E c sc pe cost sid m w)"
proof -
  have tot: "usage_total E i (w_db (restamp_usage f w)) = usage_total E i (w_db w)" for i
    by (simp add: usage_total_def usage_costs_def restamp_usage_def filter_map comp_def)
  have pol: "active_policies c sc pe sid (w_db (restamp_usage f w)) = active_policies c sc pe sid (w_db w)"
    by (simp add: active_policies_def restamp_usage_def)
  show ?thesis
    by (cases "non_negative_usd cost";
        cases "first_desc (\<lambda>b. dt_utc (b_created_at b)) (active_policies c sc pe sid (w_db w))")
       (auto simp: budget_guard_check_def get_active_budget_policy_def get_budget_usage_total_def pol tot
         bindS_run Let_def split: sum.splits prod.splits)
qed

end
