(* ===== verification/Run_Lifecycle.thy ===== *)
theory Run_Lifecycle
  imports Approval_Service Budget_Service Py_Text
begin

text \<open>
  The records of a wakeup run (\<open>agent_run_store.py\<close>, \<open>run_evidence.py\<close>,
  \<open>domain/lifecycle/agent_run_lifecycle.py\<close>): a run starts in state running, ends succeeded, failed or
  cancelled through the AgentRun aggregate, and every end leaves an evidence artifact whose hash covers
  the input, the output and the identifiers of the run's approvals, usage rows and audit rows.
\<close>

section \<open>Store operations\<close>

text \<open>The keyword arguments of \<open>update_agent_run_status\<close>; \<open>None\<close> leaves a column as it is.\<close>

record run_update =
  ru_error_category :: "string option"
  ru_error_message :: "string option"
  ru_last_successful_step :: "string option"
  ru_output_events :: "pydict list option"
  ru_cost_usd :: "pyfloat option"
  ru_input_tokens :: "int option"
  ru_output_tokens :: "int option"

definition no_run_update :: run_update where
  "no_run_update = \<lparr>ru_error_category = None, ru_error_message = None, ru_last_successful_step = None,
     ru_output_events = None, ru_cost_usd = None, ru_input_tokens = None, ru_output_tokens = None\<rparr>"

definition or_keep :: "'a option \<Rightarrow> 'a \<Rightarrow> 'a" where
  "or_keep v old = (case v of None \<Rightarrow> old | Some x \<Rightarrow> x)"

definition updated_run :: "agent_run_status \<Rightarrow> int option \<Rightarrow> run_update \<Rightarrow> agent_run \<Rightarrow> agent_run" where
  "updated_run status completed u r =
     r\<lparr>r_status := status,
       r_completed_at := (case completed of None \<Rightarrow> r_completed_at r | Some t \<Rightarrow> Some (utc_dt t)),
       r_error_category := (case ru_error_category u of None \<Rightarrow> r_error_category r | Some x \<Rightarrow> Some x),
       r_error_message := (case ru_error_message u of None \<Rightarrow> r_error_message r | Some x \<Rightarrow> Some x),
       r_last_successful_step :=
         (case ru_last_successful_step u of None \<Rightarrow> r_last_successful_step r | Some x \<Rightarrow> Some x),
       r_output_events := or_keep (ru_output_events u) (r_output_events r),
       r_cost_usd := or_keep (ru_cost_usd u) (r_cost_usd r),
       r_input_tokens := or_keep (ru_input_tokens u) (r_input_tokens r),
       r_output_tokens := or_keep (ru_output_tokens u) (r_output_tokens r)\<rparr>"

definition update_agent_run_status ::
  "env \<Rightarrow> string \<Rightarrow> agent_run_status \<Rightarrow> run_update \<Rightarrow> (world, agent_run option) op" where
  "update_agent_run_status E run_id status u =
     bindS (get_agent_run run_id) (\<lambda>row. case row of
         None \<Rightarrow> retS None
       | Some r \<Rightarrow>
           bindS (if status \<in> set AGENT_RUN_TERMINAL_STATUSES
                  then bindS (now_utc E) (\<lambda>t. retS (Some t)) else retS None) (\<lambda>completed.
           bindS (write_db (\<lambda>d. d\<lparr>t_runs := update_row r_run_id run_id (updated_run status completed u) (t_runs d)\<rparr>)) (\<lambda>_.
           bindS (flush E) (\<lambda>_. get_agent_run run_id))))"

definition list_agent_runs ::
  "string \<Rightarrow> string option \<Rightarrow> string option \<Rightarrow> string option \<Rightarrow> string option \<Rightarrow> string option \<Rightarrow> nat \<Rightarrow>
   (world, agent_run list) op" where
  "list_agent_runs company_id status agent_id trace_id goal_id work_item_id limit =
     query_db (\<lambda>d. take limit (sort_key (\<lambda>r. - dt_utc (r_started_at r)) (filter (\<lambda>r.
        r_company_id r = company_id \<and>
        (truthy_str status \<longrightarrow> Some (agent_run_status_value (r_status r)) = status) \<and>
        (truthy_str agent_id \<longrightarrow> Some (r_agent_id r) = agent_id) \<and>
        (truthy_str trace_id \<longrightarrow> r_trace_id r = trace_id) \<and>
        (truthy_str goal_id \<longrightarrow> r_goal_id r = goal_id) \<and>
        (truthy_str work_item_id \<longrightarrow> r_work_item_id r = work_item_id)) (t_runs d))))"

definition list_audit_events ::
  "string \<Rightarrow> string option \<Rightarrow> string option \<Rightarrow> string option \<Rightarrow> string option \<Rightarrow> string option \<Rightarrow> nat \<Rightarrow>
   (world, audit_event list) op" where
  "list_audit_events company_id trace_id run_id work_item_id target_type target_id limit =
     query_db (\<lambda>d. take limit (sort_key (\<lambda>a. - dt_utc (ae_created_at a)) (filter (\<lambda>a.
        ae_company_id a = company_id \<and>
        (truthy_str trace_id \<longrightarrow> ae_trace_id a = trace_id) \<and>
        (truthy_str run_id \<longrightarrow> ae_run_id a = run_id) \<and>
        (truthy_str work_item_id \<longrightarrow> ae_work_item_id a = work_item_id) \<and>
        (truthy_str target_type \<longrightarrow> Some (ae_target_type a) = target_type) \<and>
        (truthy_str target_id \<longrightarrow> Some (ae_target_id a) = target_id)) (t_audits d))))"

definition create_artifact :: "env \<Rightarrow> artifact \<Rightarrow> (world, artifact) op" where
  "create_artifact E artifact =
     bindS (write_db (\<lambda>d. d\<lparr>t_artifacts := t_artifacts d @ [artifact]\<rparr>)) (\<lambda>_.
     bindS (flush E) (\<lambda>_. retS artifact))"

section \<open>Evidence\<close>

definition hash_evidence :: "env \<Rightarrow> pydict \<Rightarrow> string" where
  "hash_evidence E v = e_sha256 E (e_canon E (PMap v))"

text \<open>What \<open>create_run_evidence_artifact\<close> is told of a run.\<close>

record evidence_args =
  ev_company_id :: string
  ev_agent_id :: string
  ev_run_id :: string
  ev_actor_type :: string
  ev_actor_id :: string
  ev_trigger :: string
  ev_trace_id :: "string option"
  ev_goal_id :: "string option"
  ev_work_item_id :: "string option"
  ev_adapter_type :: string
  ev_status :: string
  ev_input_event :: "pydict option"
  ev_output_events :: "pydict list"
  ev_output_summary :: pyval
  ev_error_category :: "string option"
  ev_error_message :: "string option"
  ev_generated_by :: string

definition present :: "string \<Rightarrow> pydict list \<Rightarrow> pyval list" where
  "present k events =
     filter py_truthy (map (dict_get k PNone) events)"

definition run_evidence :: "env \<Rightarrow> evidence_args \<Rightarrow> string list \<Rightarrow> string list \<Rightarrow> string list \<Rightarrow> pydict" where
  "run_evidence E a approvals usage audits =
     (let inp = (case ev_input_event a of None \<Rightarrow> [] | Some d \<Rightarrow> d);
          field = (\<lambda>k. dict_get k PNone inp)
      in [(''schema_version'', PStr ''1.0''), (''run_id'', PStr (ev_run_id a)),
          (''company_id'', PStr (ev_company_id a)), (''agent_id'', PStr (ev_agent_id a)),
          (''status'', PStr (ev_status a)), (''trigger'', PStr (ev_trigger a)),
          (''actor_type'', PStr (ev_actor_type a)), (''actor_id'', PStr (ev_actor_id a)),
          (''trace_id'', opt_str (ev_trace_id a)), (''goal_id'', opt_str (ev_goal_id a)),
          (''work_item_id'', opt_str (ev_work_item_id a)), (''adapter_type'', PStr (ev_adapter_type a)),
          (''input_payload_hash'', PStr (hash_evidence E inp)),
          (''output_payload_hash'', PStr (hash_evidence E [(''output_events'', PList (map PMap (ev_output_events a)))])),
          (''events'', PMap
            [(''input_event_id'', field ''event_id''), (''input_event_type'', field ''event_type''),
             (''output_event_ids'', PList (present ''event_id'' (ev_output_events a))),
             (''output_event_types'', PList (present ''event_type'' (ev_output_events a)))]),
          (''approvals'', PList (map PStr approvals)), (''budget_usage'', PList (map PStr usage)),
          (''audit_events'', PList (map PStr audits)), (''output_summary'', ev_output_summary a),
          (''error_category'', opt_str (ev_error_category a)),
          (''error_message'', opt_str (ev_error_message a))])"

definition create_run_evidence_artifact :: "env \<Rightarrow> evidence_args \<Rightarrow> (world, artifact) op" where
  "create_run_evidence_artifact E a =
     bindS (list_approvals (ev_company_id a) None (Some (ev_run_id a)) None None 100) (\<lambda>approvals.
     bindS (list_budget_usage (ev_company_id a) None (Some (ev_run_id a)) None 100) (\<lambda>usage.
     bindS (list_audit_events (ev_company_id a) None (Some (ev_run_id a)) None None None 100) (\<lambda>audits.
     let evidence = run_evidence E a (map ap_approval_id approvals) (map bu_usage_id usage)
                      (map ae_audit_event_id audits);
         content_hash = hash_evidence E evidence in
     bindS (generate_id E ''art'') (\<lambda>i. bindS (now_utc E) (\<lambda>t.
     bindS (liftE (artifact_for_creation
       \<lparr>art_artifact_id = i, art_company_id = py_strip (ev_company_id a),
        art_artifact_type = ArtifactType_RUN_WALKTHROUGH,
        art_title = py_strip (''Run evidence for '' @ ev_agent_id a),
        art_uri = py_strip (''artifact://control-plane/runs/'' @ ev_run_id a @ ''/evidence''),
        art_content_hash = Some (py_strip content_hash), art_run_id = Some (py_strip (ev_run_id a)),
        art_work_item_id = map_option py_strip (ev_work_item_id a),
        art_goal_id = map_option py_strip (ev_goal_id a),
        art_created_by_agent_id = Some (py_strip (ev_agent_id a)),
        art_metadata = [(''evidence'', PMap evidence), (''hash_algorithm'', PStr ''sha256''),
                        (''generated_by'', PStr (ev_generated_by a))],
        art_created_at = utc_dt t\<rparr>)) (\<lambda>agg.
     bindS (create_artifact E (agg_record agg)) (\<lambda>artifact.
     bindS (append_control_plane_domain_event_audits E
              (map EvArtifact (agg_events (artifact_mark_created (agg\<lparr>agg_record := artifact\<rparr>))))
              \<lparr>dctx_actor_type = ev_actor_type a, dctx_actor_id = ev_actor_id a,
               dctx_trace_id = ev_trace_id a, dctx_run_id = Some (ev_run_id a),
               dctx_work_item_id = ev_work_item_id a,
               dctx_detail = [(''uri'', PStr (art_uri artifact)), (''content_hash'', PStr content_hash),
                              (''evidence_for'', PStr ''agent_run'')]\<rparr>) (\<lambda>_.
       retS artifact))))))))"

section \<open>Starting a run\<close>

record agent_wakeup_run_record =
  wr_run :: agent_run
  wr_input_event :: pydict

definition append_agent_run_audit ::
  "env \<Rightarrow> string \<Rightarrow> string \<Rightarrow> string \<Rightarrow> string \<Rightarrow> string option \<Rightarrow> string option \<Rightarrow> pydict \<Rightarrow> (world, unit) op" where
  "append_agent_run_audit E action run_id company_id actor_id trace_id work_item_id detail =
     bindS (new_audit E (\<lambda>i t.
       \<lparr>ae_audit_event_id = i, ae_company_id = company_id, ae_action = action,
        ae_target_type = ''agent_run'', ae_target_id = run_id, ae_actor_type = ''user'',
        ae_actor_id = actor_id, ae_trace_id = trace_id, ae_run_id = Some run_id,
        ae_work_item_id = work_item_id, ae_idempotency_key = None, ae_detail = detail,
        ae_created_at = utc_dt t\<rparr>)) (\<lambda>_. retS ())"

text \<open>The links a dispatch carries: trace, goal and work item.\<close>

record run_links =
  rl_trace_id :: "string option"
  rl_goal_id :: "string option"
  rl_work_item_id :: "string option"

definition wakeup_input_event ::
  "agent_role \<Rightarrow> string \<Rightarrow> string \<Rightarrow> string \<Rightarrow> pydict option \<Rightarrow> run_links \<Rightarrow> pydict" where
  "wakeup_input_event agent event_id run_id actor_id input_payload l =
     [(''event_id'', PStr event_id), (''event_type'', PStr ''agent.wakeup-requested''),
      (''source_agent'', PStr actor_id),
      (''payload'', PMap
        [(''company_id'', PStr (ar_company_id agent)), (''agent_id'', PStr (ar_agent_id agent)),
         (''run_id'', PStr run_id), (''actor_id'', PStr actor_id),
         (''input'', PMap (case input_payload of None \<Rightarrow> [] | Some p \<Rightarrow> p)),
         (''trace_id'', opt_str (rl_trace_id l)), (''goal_id'', opt_str (rl_goal_id l)),
         (''work_item_id'', opt_str (rl_work_item_id l))]),
      (''metadata'', PMap [(''trace_id'', opt_str (rl_trace_id l))])]"

definition start_agent_wakeup_run ::
  "env \<Rightarrow> agent_role \<Rightarrow> pydict option \<Rightarrow> string \<Rightarrow> run_links \<Rightarrow> string \<Rightarrow> string option \<Rightarrow>
   (world, agent_wakeup_run_record) op" where
  "start_agent_wakeup_run E agent input_payload actor_id l trigger run_id =
     bindS (generate_id E ''evt'') (\<lambda>trigger_event_id.
     bindS (generate_id E ''run'') (\<lambda>default_id. bindS (now_utc E) (\<lambda>t.
     let rid = (case run_id of None \<Rightarrow> default_id | Some i \<Rightarrow> py_strip i);
         input_event = wakeup_input_event agent trigger_event_id rid actor_id input_payload l in
     bindS (create_agent_run E
       \<lparr>r_run_id = rid, r_company_id = py_strip (ar_company_id agent), r_agent_id = py_strip (ar_agent_id agent),
        r_status = AgentRunStatus_RUNNING, r_trace_id = map_option py_strip (rl_trace_id l),
        r_goal_id = map_option py_strip (rl_goal_id l),
        r_work_item_id = map_option py_strip (rl_work_item_id l),
        r_trigger_event_id = Some trigger_event_id, r_input_event = Some input_event, r_output_events = [],
        r_started_at = utc_dt t, r_completed_at = None, r_error_category = None, r_error_message = None,
        r_last_successful_step = None, r_cost_usd = Fin 0, r_input_tokens = 0, r_output_tokens = 0,
        r_metadata = []\<rparr>) (\<lambda>run.
     bindS (append_agent_run_audit E ''agent_run.started'' (r_run_id run) (ar_company_id agent) actor_id
              (rl_trace_id l) (rl_work_item_id l)
              [(''trigger'', PStr trigger), (''adapter_type'', PStr (ar_adapter_type agent))]) (\<lambda>_.
       retS \<lparr>wr_run = run, wr_input_event = input_event\<rparr>)))))"

section \<open>Ending a run\<close>

definition validate_run_transition ::
  "string \<Rightarrow> agent_run_status \<Rightarrow> (world, agent_run_status_changed list) op" where
  "validate_run_transition run_id target =
     bindS (get_agent_run run_id) (\<lambda>current. case current of
         None \<Rightarrow> retS []
       | Some r \<Rightarrow> (case agent_run_transition_to target (from_record r) of
            (Inl e, a) \<Rightarrow> raiseS e
          | (Inr u, a) \<Rightarrow> retS (agg_events a)))"

definition opt_entry :: "string \<Rightarrow> string option \<Rightarrow> pydict" where
  "opt_entry k v = (case v of Some (c # cs) \<Rightarrow> [(k, PStr (c # cs))] | _ \<Rightarrow> [])"

definition build_agent_wakeup_completion_event ::
  "env \<Rightarrow> agent_role \<Rightarrow> string \<Rightarrow> run_links \<Rightarrow> string \<Rightarrow> pydict \<Rightarrow> string option \<Rightarrow> string option \<Rightarrow>
   (world, pydict) op" where
  "build_agent_wakeup_completion_event E agent run_id l status output error_category error_message =
     bindS (generate_id E ''evt'') (\<lambda>i. retS
       [(''event_type'', PStr ''agent.wakeup-completed''), (''source_agent'', PStr (ar_agent_id agent)),
        (''payload'', PMap
          ([(''company_id'', PStr (ar_company_id agent)), (''agent_id'', PStr (ar_agent_id agent)),
            (''run_id'', PStr run_id), (''trace_id'', opt_str (rl_trace_id l)),
            (''goal_id'', opt_str (rl_goal_id l)), (''work_item_id'', opt_str (rl_work_item_id l)),
            (''status'', PStr status), (''output'', PMap output)] @
           opt_entry ''error_category'' error_category @ opt_entry ''error_message'' error_message)),
        (''metadata'', PMap [(''trace_id'', opt_str (rl_trace_id l))]), (''event_id'', PStr i)])"

text \<open>The audit of an ended run: the aggregate's event, or a plain row when there was no run to move.\<close>

definition audit_run_end ::
  "env \<Rightarrow> agent_role \<Rightarrow> string \<Rightarrow> string \<Rightarrow> run_links \<Rightarrow> string \<Rightarrow> agent_run_status_changed list \<Rightarrow> pydict \<Rightarrow>
   (world, unit) op" where
  "audit_run_end E agent run_id actor_id l action events detail =
     (if events \<noteq> [] then
        bindS (append_control_plane_domain_event_audits E (map EvAgentRun events)
          \<lparr>dctx_actor_type = ''user'', dctx_actor_id = actor_id, dctx_trace_id = rl_trace_id l,
           dctx_run_id = Some run_id, dctx_work_item_id = rl_work_item_id l, dctx_detail = detail\<rparr>) (\<lambda>_. retS ())
      else append_agent_run_audit E action run_id (ar_company_id agent) actor_id (rl_trace_id l)
             (rl_work_item_id l) detail)"

definition summary_of :: "pydict \<Rightarrow> pyval" where
  "summary_of output =
     (let s = dict_get ''summary'' PNone output in if py_truthy s then s else dict_get ''status'' PNone output)"

definition evidence_of ::
  "agent_role \<Rightarrow> string \<Rightarrow> string \<Rightarrow> run_links \<Rightarrow> string \<Rightarrow> string \<Rightarrow> pydict option \<Rightarrow> pydict \<Rightarrow> evidence_args" where
  "evidence_of agent run_id actor_id l trigger status input_event completion =
     \<lparr>ev_company_id = ar_company_id agent, ev_agent_id = ar_agent_id agent, ev_run_id = run_id,
      ev_actor_type = ''user'', ev_actor_id = actor_id, ev_trigger = trigger, ev_trace_id = rl_trace_id l,
      ev_goal_id = rl_goal_id l, ev_work_item_id = rl_work_item_id l,
      ev_adapter_type = (if ar_adapter_type agent = [] then ''builtin'' else ar_adapter_type agent),
      ev_status = status, ev_input_event = input_event, ev_output_events = [completion],
      ev_output_summary = PNone, ev_error_category = None, ev_error_message = None,
      ev_generated_by = ''control_plane_agent_runner''\<rparr>"

definition complete_agent_wakeup_run ::
  "env \<Rightarrow> agent_role \<Rightarrow> string \<Rightarrow> pydict \<Rightarrow> pydict \<Rightarrow> string \<Rightarrow> run_links \<Rightarrow> string \<Rightarrow> (world, string) op" where
  "complete_agent_wakeup_run E agent run_id input_event output actor_id l trigger =
     bindS (build_agent_wakeup_completion_event E agent run_id l ''succeeded'' output None None) (\<lambda>completion.
     bindS (validate_run_transition run_id AgentRunStatus_SUCCEEDED) (\<lambda>events.
     bindS (update_agent_run_status E run_id AgentRunStatus_SUCCEEDED
              (no_run_update\<lparr>ru_output_events := Some [completion]\<rparr>)) (\<lambda>_.
     bindS (audit_run_end E agent run_id actor_id l ''agent_run.succeeded'' events
              [(''trigger'', PStr trigger), (''adapter_type'', PStr (ar_adapter_type agent)),
               (''output_summary'', summary_of output)]) (\<lambda>_.
     bindS (create_run_evidence_artifact E
              ((evidence_of agent run_id actor_id l trigger ''succeeded'' (Some input_event) completion)
                 \<lparr>ev_output_summary := summary_of output\<rparr>)) (\<lambda>artifact.
       retS (art_artifact_id artifact))))))"

definition fail_agent_wakeup_run ::
  "env \<Rightarrow> agent_role \<Rightarrow> string \<Rightarrow> pydict \<Rightarrow> string \<Rightarrow> run_links \<Rightarrow> string \<Rightarrow> string \<Rightarrow> string \<Rightarrow> bool \<Rightarrow>
   (world, unit) op" where
  "fail_agent_wakeup_run E agent run_id input_event actor_id l trigger error_category error_message cancelled =
     (let status = (if cancelled then ''cancelled'' else ''failed'');
          target = (if cancelled then AgentRunStatus_CANCELLED else AgentRunStatus_FAILED) in
     bindS (build_agent_wakeup_completion_event E agent run_id l status []
              (Some error_category) (Some error_message)) (\<lambda>completion.
     bindS (validate_run_transition run_id target) (\<lambda>events.
     bindS (update_agent_run_status E run_id target
              (no_run_update\<lparr>ru_error_category := Some error_category, ru_error_message := Some error_message,
                 ru_last_successful_step := Some ''agent_definition_loaded'',
                 ru_output_events := Some [completion]\<rparr>)) (\<lambda>_.
     bindS (audit_run_end E agent run_id actor_id l ''agent_run.failed'' events
              [(''trigger'', PStr trigger), (''adapter_type'', PStr (ar_adapter_type agent)),
               (''error_category'', PStr error_category), (''error'', PStr error_message)]) (\<lambda>_.
     bindS (create_run_evidence_artifact E
              ((evidence_of agent run_id actor_id l trigger status (Some input_event) completion)
                 \<lparr>ev_error_category := Some error_category, ev_error_message := Some error_message\<rparr>)) (\<lambda>_.
       retS ()))))))"

end
