(* ===== verification/Audit_Redaction.thy ===== *)
theory Audit_Redaction
  imports Control_Store Py_Text
begin

text \<open>
  The redaction of audit detail before it is stored or exported (\<open>domain/audit_retention.py\<close>): free-form
  entries are dropped, entries with a sensitive name lose their value, depth, breadth and text length are
  bounded. The redaction of secrets inside a text (\<open>_redact_text\<close>) is the environment's \<open>e_redact\<close>.
  The lemmas show that in the result no sensitive name carries anything but the mark, at any depth, and
  that depth and breadth are bounded whatever the input is.
\<close>

section \<open>Names\<close>

definition any_suffix :: "(string \<Rightarrow> string \<Rightarrow> bool) \<Rightarrow> string \<Rightarrow> bool" where
  "any_suffix P s \<longleftrightarrow> list_ex (\<lambda>i. P (take i s) (drop i s)) [0..<Suc (length s)]"

definition contains_text :: "string \<Rightarrow> string \<Rightarrow> bool" where
  "contains_text s w \<longleftrightarrow> any_suffix (\<lambda>_ rest. py_startswith rest w) s"

text \<open>A pattern \<open>(?:^|[_-])(?:w1|w2|...)(?:$|[_-])\<close>; \<open>$\<close> also matches before a final newline.\<close>

definition key_separator :: "char \<Rightarrow> bool" where
  "key_separator c \<longleftrightarrow> c = CHR ''_'' \<or> c = CHR ''-''"

definition bounded_word :: "string list \<Rightarrow> string \<Rightarrow> bool" where
  "bounded_word ws key \<longleftrightarrow>
     any_suffix (\<lambda>before rest.
       (before = [] \<or> key_separator (last before)) \<and>
       list_ex (\<lambda>w. py_startswith rest w \<and>
         (case drop (length w) rest of
            [] \<Rightarrow> True | c # cs \<Rightarrow> key_separator c \<or> (c = CHR 0x0A \<and> cs = []))) ws) (py_lower key)"

definition SENSITIVE_WORDS :: "string list" where
  "SENSITIVE_WORDS = [''secret'', ''token'', ''password'', ''passwd'', ''auth'', ''cookie'', ''credential'',
     ''apikey'', ''api_key'', ''api-key'', ''privatekey'', ''private_key'', ''private-key'',
     ''sessionkey'', ''session_key'', ''session-key'']"

definition FREEFORM_WORDS :: "string list" where
  "FREEFORM_WORDS = [''body'', ''request'', ''response'', ''prompt'', ''message'', ''content'', ''text'',
     ''note'', ''description'', ''metadata'', ''email'', ''phone'', ''address'', ''name'', ''user_agent'',
     ''ip_address'']"

definition LINKAGE_WORDS :: "string list" where
  "LINKAGE_WORDS = [''id'', ''ids'', ''hash'', ''checksum'', ''digest'']"

definition sensitive_key :: "string \<Rightarrow> bool" where
  "sensitive_key key \<longleftrightarrow> list_ex (contains_text (py_lower key)) SENSITIVE_WORDS"

definition freeform_key :: "string \<Rightarrow> bool" where
  "freeform_key key \<longleftrightarrow> bounded_word FREEFORM_WORDS key"

definition linkage_key :: "string \<Rightarrow> bool" where
  "linkage_key key \<longleftrightarrow> bounded_word LINKAGE_WORDS key"

section \<open>Values\<close>

definition MAX_DETAIL_DEPTH :: nat where "MAX_DETAIL_DEPTH = 8"
definition MAX_DETAIL_ITEMS :: nat where "MAX_DETAIL_ITEMS = 100"
definition MAX_DETAIL_STRING_LENGTH :: nat where "MAX_DETAIL_STRING_LENGTH = 4096"

definition redact_text :: "env \<Rightarrow> string \<Rightarrow> string" where
  "redact_text E s = take MAX_DETAIL_STRING_LENGTH (e_redact E (take MAX_DETAIL_STRING_LENGTH s))"

function sanitize_value :: "env \<Rightarrow> nat \<Rightarrow> pyval \<Rightarrow> pyval" where
  "sanitize_value E depth v =
     (if MAX_DETAIL_DEPTH < depth then PStr ''[TRUNCATED]''
      else case v of
        PMap kvs \<Rightarrow>
          let kept = concat (map (\<lambda>(raw, x).
                let key = take 128 raw in
                if freeform_key key \<and> \<not> linkage_key key then []
                else if sensitive_key key then [(key, PStr ''[REDACTED]'')]
                else [(key, sanitize_value E (Suc depth) x)]) (take MAX_DETAIL_ITEMS (sort_key fst kvs)));
              pairs = dict_of [] kept;
              pairs' = (if MAX_DETAIL_ITEMS < length kvs
                        then AList.update ''_truncated_items'' (PInt (int (length kvs - MAX_DETAIL_ITEMS))) pairs
                        else pairs)
          in PMap (sort_key fst pairs')
      | PList xs \<Rightarrow>
          PTuple (map (sanitize_value E (Suc depth)) (take MAX_DETAIL_ITEMS xs) @
                  (if MAX_DETAIL_ITEMS < length xs then [PStr ''[TRUNCATED_ITEMS]''] else []))
      | PTuple xs \<Rightarrow>
          PTuple (map (sanitize_value E (Suc depth)) (take MAX_DETAIL_ITEMS xs) @
                  (if MAX_DETAIL_ITEMS < length xs then [PStr ''[TRUNCATED_ITEMS]''] else []))
      | PStr s \<Rightarrow> PStr (redact_text E s)
      | PEnum s \<Rightarrow> PStr (redact_text E s)
      | PIso s \<Rightarrow> PStr s
      | PNone \<Rightarrow> PNone | PBool b \<Rightarrow> PBool b | PInt i \<Rightarrow> PInt i | PFloat f \<Rightarrow> PFloat f
      | _ \<Rightarrow> PStr ''[UNSUPPORTED_VALUE]'')"
  by pat_completeness auto
termination by (relation "measure (\<lambda>(E, depth, v). Suc MAX_DETAIL_DEPTH - depth)") auto

declare sanitize_value.simps [simp del]

definition sanitize_audit_detail :: "env \<Rightarrow> pydict option \<Rightarrow> pydict" where
  "sanitize_audit_detail E v =
     (case v of
        None \<Rightarrow> []
      | Some d \<Rightarrow> (case sanitize_value E 0 (PMap d) of PMap kvs \<Rightarrow> kvs | _ \<Rightarrow> []))"

fun thaw :: "pyval \<Rightarrow> pyval" where
  "thaw (PMap kvs) = PMap (map (\<lambda>(k, v). (k, thaw v)) kvs)"
| "thaw (PTuple xs) = PList (map thaw xs)"
| "thaw v = v"

definition audit_detail_for_storage :: "env \<Rightarrow> pydict option \<Rightarrow> pydict" where
  "audit_detail_for_storage E v = map (\<lambda>(k, x). (k, thaw x)) (sanitize_audit_detail E v)"

section \<open>What the result may hold\<close>

text \<open>
  \<open>redacted n v\<close>: at most \<open>n\<close> levels of containers, at most 101 entries in each, and every sensitive
  name carries the mark.
\<close>

fun redacted :: "nat \<Rightarrow> pyval \<Rightarrow> bool" where
  "redacted n (PMap kvs) =
     (0 < n \<and> length kvs \<le> Suc MAX_DETAIL_ITEMS \<and>
      (\<forall>kv \<in> set kvs. (sensitive_key (fst kv) \<longrightarrow> snd kv = PStr ''[REDACTED]'') \<and>
         redacted (n - 1) (snd kv)))"
| "redacted n (PTuple xs) = (0 < n \<and> length xs \<le> Suc MAX_DETAIL_ITEMS \<and> (\<forall>x \<in> set xs. redacted (n - 1) x))"
| "redacted n (PList xs) = (0 < n \<and> length xs \<le> Suc MAX_DETAIL_ITEMS \<and> (\<forall>x \<in> set xs. redacted (n - 1) x))"
| "redacted n (PSet xs) = False"
| "redacted n v = True"

section \<open>Lemmas\<close>

lemma dict_of_entries: "set (dict_of acc kvs) \<subseteq> set acc \<union> set kvs"
proof (induction acc kvs rule: dict_of.induct)
  case (2 acc k v kvs)
  have "set (AList.update k v acc) \<subseteq> insert (k, v) (set acc)" by (induction acc) auto
  with 2 show ?case by auto
qed simp

lemma length_update_le: "length (AList.update k v al) \<le> Suc (length al)"
  by (induction al) auto

lemma length_dict_of_le: "length (dict_of acc kvs) \<le> length acc + length kvs"
proof (induction acc kvs rule: dict_of.induct)
  case (2 acc k v kvs)
  then show ?case using length_update_le [of k v acc] by simp
qed simp

lemma set_update_subset: "set (AList.update k v al) \<subseteq> insert (k, v) (set al)"
  by (induction al) auto

lemma length_concat_le1:
  "(\<And>x. length (f x) \<le> 1) \<Longrightarrow> length (concat (map f xs)) \<le> length xs"
proof (induction xs)
  case (Cons x xs)
  then have "length (concat (map f xs)) \<le> length xs" "length (f x) \<le> 1" by auto
  then show ?case by simp
qed simp

lemma truncated_items_not_sensitive: "\<not> sensitive_key ''_truncated_items''"
  by code_simp

text \<open>Collecting entries into a dictionary, with the count of dropped ones.\<close>

lemma collected_entries:
  fixes b :: bool
  assumes kept: "\<And>kv. kv \<in> set kept \<Longrightarrow> Q kv" and count: "Q (k, x)" and len: "length kept \<le> n"
  defines "ps \<equiv> (if b then AList.update k x (dict_of [] kept) else dict_of [] kept)"
  shows "(\<forall>kv \<in> set ps. Q kv) \<and> length ps \<le> Suc n"
proof -
  have "Q kv" if "kv \<in> set (dict_of [] kept)" for kv
    using kept subsetD [OF dict_of_entries [of "[]" kept] that] by simp
  moreover have "set ps \<subseteq> insert (k, x) (set (dict_of [] kept))"
    using set_update_subset [of k x "dict_of [] kept"] by (auto simp: ps_def)
  moreover have "length ps \<le> Suc n"
    using length_update_le [of k x "dict_of [] kept"] length_dict_of_le [of "[]" kept] len
    by (auto simp: ps_def)
  ultimately show ?thesis using count by blast
qed

definition sanitize_entry :: "env \<Rightarrow> nat \<Rightarrow> string \<times> pyval \<Rightarrow> pydict" where
  "sanitize_entry E depth = (\<lambda>(raw, x).
     let key = take 128 raw in
     if freeform_key key \<and> \<not> linkage_key key then []
     else if sensitive_key key then [(key, PStr ''[REDACTED]'')]
     else [(key, sanitize_value E (Suc depth) x)])"

lemma length_entries_le: "length (concat (map (sanitize_entry E depth) items)) \<le> length items"
  by (rule length_concat_le1) (simp add: sanitize_entry_def Let_def split: prod.splits)

lemma sanitize_map:
  assumes "\<not> MAX_DETAIL_DEPTH < depth"
    and "\<And>k x. (k, x) \<in> set (take MAX_DETAIL_ITEMS (sort_key fst kvs)) \<Longrightarrow>
      \<not> (freeform_key (take 128 k) \<and> \<not> linkage_key (take 128 k)) \<Longrightarrow> \<not> sensitive_key (take 128 k) \<Longrightarrow>
      redacted n (sanitize_value E (Suc depth) x)"
  shows "redacted (Suc n) (sanitize_value E depth (PMap kvs))"
proof -
  let ?items = "take MAX_DETAIL_ITEMS (sort_key fst kvs)"
  let ?Q = "\<lambda>kv. (sensitive_key (fst kv) \<longrightarrow> snd kv = PStr ''[REDACTED]'') \<and> redacted n (snd kv)"
  define kept where "kept = concat (map (sanitize_entry E depth) ?items)"
  define ps where "ps = (if MAX_DETAIL_ITEMS < length kvs
      then AList.update ''_truncated_items'' (PInt (int (length kvs - MAX_DETAIL_ITEMS))) (dict_of [] kept)
      else dict_of [] kept)"
  have "?Q kv" if "kv \<in> set kept" for kv
    using that assms(2) by (auto simp: kept_def sanitize_entry_def Let_def split: if_splits)
  moreover have "length kept \<le> MAX_DETAIL_ITEMS"
    using length_entries_le [of E depth ?items] by (simp add: kept_def)
  ultimately have "(\<forall>kv \<in> set ps. ?Q kv) \<and> length ps \<le> Suc MAX_DETAIL_ITEMS"
    unfolding ps_def by (intro collected_entries) (simp_all add: truncated_items_not_sensitive)
  moreover have "sanitize_value E depth (PMap kvs) = PMap (sort_key fst ps)"
    using assms(1)
    by (simp add: sanitize_value.simps [of E depth] ps_def kept_def sanitize_entry_def Let_def)
  ultimately show ?thesis by simp
qed

lemma redacted_sanitize: "depth \<le> 9 \<Longrightarrow> redacted (9 - depth) (sanitize_value E depth v)"
proof (induction E depth v rule: sanitize_value.induct)
  case (1 E depth v)
  show ?case
  proof (cases "MAX_DETAIL_DEPTH < depth")
    case True
    then show ?thesis by (simp add: sanitize_value.simps)
  next
    case False
    then have d: "Suc depth \<le> 9" "9 - depth = Suc (9 - Suc depth)" by (auto simp: MAX_DETAIL_DEPTH_def)
    have seq: "redacted (9 - depth) (PTuple (map (sanitize_value E (Suc depth)) (take MAX_DETAIL_ITEMS xs) @
        (if MAX_DETAIL_ITEMS < length xs then [PStr ''[TRUNCATED_ITEMS]''] else [])))"
      if "\<And>x. x \<in> set (take MAX_DETAIL_ITEMS xs) \<Longrightarrow> redacted (9 - Suc depth) (sanitize_value E (Suc depth) x)" for xs
      using that unfolding d(2) by auto
    show ?thesis
    proof (cases v)
      case (PMap kvs)
      then show ?thesis unfolding d(2)
        using sanitize_map [OF False, of kvs "9 - Suc depth" E] 1(1) [OF False PMap] d(1) by auto
    next
      case (PList xs)
      with False seq [of xs] 1(2) [OF False PList] d(1) show ?thesis
        by (simp add: sanitize_value.simps [of E depth])
    next
      case (PTuple xs)
      with False seq [of xs] 1(3) [OF False PTuple] d(1) show ?thesis
        by (simp add: sanitize_value.simps [of E depth])
    qed (use False in \<open>simp_all add: sanitize_value.simps [of E depth]\<close>)
  qed
qed

lemma redacted_thaw: "redacted n v \<Longrightarrow> redacted n (thaw v)"
proof (induction n v rule: redacted.induct)
  case (1 n kvs)
  have "thaw x = PStr ''[REDACTED]''" if "x = PStr ''[REDACTED]''" for x using that by simp
  with 1 show ?case by (fastforce simp: split_beta)
qed auto


end
