(* ===== verification/Execution_Ledger.thy ===== *)
theory Execution_Ledger
  imports Execution_Policy Run_Lifecycle Audit_Redaction
begin

text \<open>
  The dispatch ledger (\<open>execution_store.py\<close>): claiming an execution, controlling it, settling it and
  recovering an abandoned one. A claim holds the company's row lock, so claims of one company are
  serialised; the model runs one operation at a time. A lease is active while it is running or needs
  recovery. A claim refuses a resource with an active lease, replays a finished execution with the same
  key and intent, demands an approval that is bound to the intent where one is required, and reserves
  the cost ceiling in every budget policy that applies before anything is dispatched.
\<close>

section \<open>Rows\<close>

definition lease_active :: "execution_lease \<Rightarrow> bool" where
  "lease_active l \<longleftrightarrow> le_state l = LeaseRunning \<or> le_state l = LeaseRecoveryRequired"

definition get_lease :: "string \<Rightarrow> (world, execution_lease option) op" where
  "get_lease execution_id = query_db (\<lambda>d. find (\<lambda>l. le_execution_id l = execution_id) (t_leases d))"

definition write_lease :: "string \<Rightarrow> (execution_lease \<Rightarrow> execution_lease) \<Rightarrow> (world, unit) op" where
  "write_lease execution_id f =
     write_db (\<lambda>d. d\<lparr>t_leases := update_row le_execution_id execution_id f (t_leases d)\<rparr>)"

definition get_work :: "string \<Rightarrow> (world, work_item option) op" where
  "get_work work_item_id = query_db (\<lambda>d. find (\<lambda>r. w_work_item_id r = work_item_id) (t_work_items d))"

definition write_work :: "string \<Rightarrow> (work_item \<Rightarrow> work_item) \<Rightarrow> (world, unit) op" where
  "write_work work_item_id f =
     write_db (\<lambda>d. d\<lparr>t_work_items := update_row w_work_item_id work_item_id f (t_work_items d)\<rparr>)"

definition get_role :: "string \<Rightarrow> string \<Rightarrow> (world, agent_role option) op" where
  "get_role company_id agent_id =
     query_db (\<lambda>d. find (\<lambda>r. ar_company_id r = company_id \<and> ar_agent_id r = agent_id) (t_roles d))"

section \<open>Audit and work transitions\<close>

definition ledger_audit :: "env \<Rightarrow> string \<Rightarrow> string \<Rightarrow> string \<Rightarrow> string \<Rightarrow> pydict \<Rightarrow> (world, unit) op" where
  "ledger_audit E company_id resource action actor_id detail =
     bindS (new_audit E (\<lambda>i t.
       \<lparr>ae_audit_event_id = i, ae_company_id = company_id, ae_action = action,
        ae_target_type = ''execution'', ae_target_id = resource, ae_actor_type = ''operator'',
        ae_actor_id = actor_id, ae_trace_id = None, ae_run_id = None, ae_work_item_id = None,
        ae_idempotency_key = None, ae_detail = detail, ae_created_at = utc_dt t\<rparr>)) (\<lambda>_. retS ())"

definition transition_work :: "env \<Rightarrow> work_item \<Rightarrow> work_item_status \<Rightarrow> string \<Rightarrow> (world, unit) op" where
  "transition_work E work state actor_id =
     (case work_item_transition_to (StrArg (work_item_status_value state)) (from_record work) of
        (Inl e, a) \<Rightarrow> raiseS e
      | (Inr u, a) \<Rightarrow>
          bindS (now_utc E) (\<lambda>t.
          bindS (write_work (w_work_item_id work)
                   (\<lambda>r. r\<lparr>w_status := w_status (agg_record a), w_updated_at := utc_dt t\<rparr>)) (\<lambda>_.
          bindS (append_control_plane_domain_event_audits E (map EvWorkItem (agg_events a))
                   \<lparr>dctx_actor_type = ''operator'', dctx_actor_id = actor_id, dctx_trace_id = None,
                    dctx_run_id = None, dctx_work_item_id = Some (w_work_item_id work),
                    dctx_detail = [(''status'', PStr (work_item_status_value state))]\<rparr>) (\<lambda>_. retS ()))))"

section \<open>Claiming\<close>

record claim_args =
  ca_run_id :: string
  ca_payload :: pydict
  ca_work_item_id :: "string option"
  ca_goal_id :: "string option"
  ca_actor_id :: string
  ca_key :: string

definition resource_of :: "agent_role \<Rightarrow> claim_args \<Rightarrow> string" where
  "resource_of agent c =
     (case ca_work_item_id c of Some (x # xs) \<Rightarrow> ''work:'' @ (x # xs) | _ \<Rightarrow> ''agent:'' @ ar_agent_id agent)"

definition execution_id_of :: "env \<Rightarrow> agent_role \<Rightarrow> claim_args \<Rightarrow> string" where
  "execution_id_of E agent c = e_sha256 E (ar_company_id agent @ '':'' @ ca_key c)"

definition denied :: "string \<Rightarrow> int \<Rightarrow> (world, 'a) op" where
  "denied reason status_code = raiseS (ExecutionDenied reason status_code)"

text \<open>The result is the state of the lease afterwards.\<close>

definition mark_abandoned :: "env \<Rightarrow> execution_lease \<Rightarrow> int \<Rightarrow> (world, lease_state) op" where
  "mark_abandoned E lease now =
     (if le_state lease = LeaseRunning \<and> le_expires_at lease \<le> now then
        bindS (write_lease (le_execution_id lease) (\<lambda>l. l\<lparr>le_state := LeaseRecoveryRequired\<rparr>)) (\<lambda>_.
        bindS (ledger_audit E (le_company_id lease) (le_resource_id lease) ''execution.recovery_required'' ''system''
                 [(''execution_id'', PStr (le_execution_id lease)), (''automatic_replay'', PBool False)]) (\<lambda>_.
        bindS checkpoint (\<lambda>_. retS LeaseRecoveryRequired)))
      else retS (le_state lease))"

definition refuse_active :: "env \<Rightarrow> execution_lease \<Rightarrow> int \<Rightarrow> (world, 'a) op" where
  "refuse_active E lease now =
     bindS (mark_abandoned E lease now) (\<lambda>state.
       denied (if state = LeaseRecoveryRequired then ''execution_recovery_required''
               else ''execution_in_progress'') 409)"

text \<open>\<open>now - (completed_at or started_at)\<close> of the agent's latest run against the heartbeat interval.\<close>

definition latest_run :: "string \<Rightarrow> string \<Rightarrow> db \<Rightarrow> agent_run option" where
  "latest_run company_id agent_id d =
     (case sort_key (\<lambda>r. - dt_utc (r_started_at r))
             (rev (sort_key r_run_id
               (filter (\<lambda>r. r_company_id r = company_id \<and> r_agent_id r = agent_id) (t_runs d)))) of
        [] \<Rightarrow> None | r # rs \<Rightarrow> Some r)"

definition check_heartbeat :: "agent_role \<Rightarrow> agent_role \<Rightarrow> claim_args \<Rightarrow> int \<Rightarrow> (world, unit) op" where
  "check_heartbeat agent current c now =
     whenS (map_of (ca_payload c) ''trigger'' = Some (PStr ''heartbeat''))
       (bindS (query_db (latest_run (ar_company_id agent) (ar_agent_id agent))) (\<lambda>latest.
        bindS (liftE (bindE (adapter_config_from_agent_role current) heartbeat_interval_seconds)) (\<lambda>interval.
          case latest of
            None \<Rightarrow> retS ()
          | Some r \<Rightarrow>
              let last = dt_utc (case r_completed_at r of Some t \<Rightarrow> t | None \<Rightarrow> r_started_at r)
              in if now - last < interval * 1000000 then denied ''heartbeat_interval_not_elapsed'' 409
                 else retS ())))"

definition dependency_accepted :: "work_item \<Rightarrow> db \<Rightarrow> string \<Rightarrow> bool" where
  "dependency_accepted work d dependency_id =
     (case find (\<lambda>r. w_work_item_id r = dependency_id) (t_work_items d) of
        None \<Rightarrow> False
      | Some r \<Rightarrow> w_company_id r = w_company_id work \<and> w_status r = WorkItemStatus_COMPLETED)"

definition check_work :: "agent_role \<Rightarrow> claim_args \<Rightarrow> (world, work_item option) op" where
  "check_work agent c =
     (case ca_work_item_id c of
        Some (x # xs) \<Rightarrow>
          bindS (get_work (x # xs)) (\<lambda>work. case work of
              None \<Rightarrow> denied ''work_item_not_found'' 404
            | Some r \<Rightarrow>
                if w_company_id r \<noteq> ar_company_id agent then denied ''work_item_not_found'' 404
                else if w_status r = WorkItemStatus_COMPLETED \<or> w_status r = WorkItemStatus_CANCELLED
                then denied ''work_item_closed'' 409
                else bindS (query_db (\<lambda>d. list_all (dependency_accepted r d) (w_dependencies r))) (\<lambda>ok.
                       if ok then retS (Some r) else denied ''work_item_dependency_not_accepted'' 403))
      | _ \<Rightarrow> retS None)"

section \<open>Approval of an intent\<close>

definition requires_approval :: "agent_role \<Rightarrow> work_item option \<Rightarrow> bool" where
  "requires_approval current work \<longleftrightarrow>
     (case work of None \<Rightarrow> False | Some r \<Rightarrow> w_approval_required r) \<or>
     map_of (ar_escalation_policy current) ''approval_required'' = Some (PBool True)"

text \<open>Approvals bound to an intent that have not expired, in row order.\<close>

definition valid_approvals :: "agent_role \<Rightarrow> string \<Rightarrow> int \<Rightarrow> db \<Rightarrow> approval_request list" where
  "valid_approvals agent digest now d =
     filter (\<lambda>a. case ap_expires_at a of None \<Rightarrow> False | Some e \<Rightarrow> now < dt_utc e)
       (filter (\<lambda>a. ap_company_id a = ar_company_id agent \<and> ap_source_agent_id a = ar_agent_id agent \<and>
                   map_of (ap_metadata a) ''execution_intent_hash'' = Some (PStr digest)) (t_approvals d))"

definition usable_approval :: "approval_request \<Rightarrow> bool" where
  "usable_approval a \<longleftrightarrow> ap_status a = ApprovalStatus_APPROVED \<and>
     \<not> py_truthy (dict_get ''consumed_execution_id'' PNone (ap_metadata a))"

definition intent_approval_request ::
  "env \<Rightarrow> agent_role \<Rightarrow> claim_args \<Rightarrow> string \<Rightarrow> decimal \<Rightarrow> int \<Rightarrow> string \<Rightarrow> int \<Rightarrow> approval_request" where
  "intent_approval_request E agent c digest cost_ceiling now i t =
     \<lparr>ap_approval_id = i, ap_company_id = ar_company_id agent, ap_category = ApprovalCategory_TECHNICAL,
      ap_status = ApprovalStatus_PENDING, ap_requested_by = ca_actor_id c,
      ap_source_agent_id = ar_agent_id agent,
      ap_proposed_action = ''Execute '' @ resource_of agent c @ '' using '' @ ar_adapter_type agent,
      ap_reason = ''Review the bound dispatch intent before any executor call.'',
      ap_risk = ''The executor can produce external effects and incur the declared cost ceiling.'',
      ap_rollback_note = ''Pause the role; uncertain external effects require reconciliation.'',
      ap_affected_resources = [resource_of agent c], ap_artifact_links = [], ap_run_id = None,
      ap_work_item_id = map_option py_strip (ca_work_item_id c), ap_goal_id = map_option py_strip (ca_goal_id c),
      ap_trace_id = None, ap_resolved_by = None, ap_resolved_at = None,
      ap_expires_at = Some (utc_dt (now + 24 * 3600 * 1000000)),
      ap_metadata = [(''execution_intent_hash'', PStr digest), (''execution_key'', PStr (ca_key c)),
        (''reviewed_parameters'', PMap (audit_detail_for_storage E (Some (ca_payload c)))),
        (''reviewed_adapter_type'', PStr (ar_adapter_type agent)),
        (''cost_ceiling_usd'', PStr (decimal_text cost_ceiling))],
      ap_created_at = utc_dt t, ap_updated_at = utc_dt t\<rparr>"

definition ask_for_approval ::
  "env \<Rightarrow> agent_role \<Rightarrow> claim_args \<Rightarrow> work_item option \<Rightarrow> string \<Rightarrow> decimal \<Rightarrow> int \<Rightarrow> (world, 'a) op" where
  "ask_for_approval E agent c work digest cost_ceiling now =
     bindS (query_db (valid_approvals agent digest now)) (\<lambda>valid.
     bindS (whenS (\<not> list_ex (\<lambda>a. ap_status a = ApprovalStatus_PENDING) valid)
              (bindS (generate_id E ''apr'') (\<lambda>i. bindS (now_utc E) (\<lambda>t.
               bindS (liftE (approval_request_new (intent_approval_request E agent c digest cost_ceiling now i t))) (\<lambda>a.
               bindS (store_request_approval E a) (\<lambda>_. retS ())))))) (\<lambda>_.
     bindS (case work of None \<Rightarrow> retS ()
            | Some r \<Rightarrow> transition_work E r WorkItemStatus_AWAITING_APPROVAL (ca_actor_id c)) (\<lambda>_.
     bindS (ledger_audit E (ar_company_id agent) (resource_of agent c) ''execution.approval_required'' (ca_actor_id c)
              [(''intent_hash'', PStr digest)]) (\<lambda>_.
     bindS checkpoint (\<lambda>_. denied ''execution_approval_required'' 403)))))"

definition find_approval ::
  "env \<Rightarrow> agent_role \<Rightarrow> agent_role \<Rightarrow> claim_args \<Rightarrow> work_item option \<Rightarrow> string \<Rightarrow> decimal \<Rightarrow> int \<Rightarrow>
   (world, approval_request option) op" where
  "find_approval E agent current c work digest cost_ceiling now =
     (if requires_approval current work then
        bindS (query_db (\<lambda>d. find usable_approval (valid_approvals agent digest now d))) (\<lambda>approved.
          case approved of
            Some a \<Rightarrow> retS (Some a)
          | None \<Rightarrow> ask_for_approval E agent c work digest cost_ceiling now)
      else retS None)"

section \<open>Budgets\<close>

definition selects_policy :: "agent_role \<Rightarrow> agent_role \<Rightarrow> claim_args \<Rightarrow> budget_policy \<Rightarrow> bool" where
  "selects_policy agent current c p \<longleftrightarrow>
     b_scope p = BudgetScope_COMPANY \<or>
     (b_scope p = BudgetScope_AGENT \<and> b_scope_id p = Some (ar_agent_id agent)) \<or>
     (b_scope p = BudgetScope_WORK_ITEM \<and> b_scope_id p = ca_work_item_id c) \<or>
     (b_scope p = BudgetScope_GOAL \<and> b_scope_id p = ca_goal_id c) \<or>
     Some (b_budget_id p) = ar_budget_policy_id current"

definition selected_policies :: "agent_role \<Rightarrow> agent_role \<Rightarrow> claim_args \<Rightarrow> db \<Rightarrow> budget_policy list" where
  "selected_policies agent current c d =
     filter (selects_policy agent current c)
       (sort_key b_budget_id
         (filter (\<lambda>p. b_company_id p = ar_company_id agent \<and> b_status p = ''active'') (t_policies d)))"

definition configured_model :: "env \<Rightarrow> agent_role \<Rightarrow> string" where
  "configured_model E current =
     (let m = dict_get ''model'' PNone (ar_adapter_config current);
          t = dict_get ''target_model'' PNone (ar_adapter_config current)
      in py_str E (if py_truthy m then m else if py_truthy t then t else PStr []))"

definition consumed_since :: "env \<Rightarrow> string \<Rightarrow> int \<Rightarrow> db \<Rightarrow> pyfloat" where
  "consumed_since E budget_id start d =
     (case filter (\<lambda>u. bu_budget_id u = budget_id \<and> start \<le> dt_utc (bu_created_at u)) (t_usage d) of
        [] \<Rightarrow> Fin 0 | us \<Rightarrow> e_sum E (map bu_cost_usd us))"

definition reserved_total :: "string \<Rightarrow> db \<Rightarrow> rat" where
  "reserved_total budget_id d =
     sum_list (map rs_amount_usd
       (filter (\<lambda>r. rs_budget_id r = budget_id \<and> rs_state r = Reserved) (t_reservations d)))"

text \<open>\<open>Decimal(str(consumed)) + Decimal(str(reserved)) + ceiling > Decimal(str(limit))\<close>.\<close>

fun over_limit :: "pyfloat \<Rightarrow> rat \<Rightarrow> rat \<Rightarrow> pyfloat \<Rightarrow> exc + bool" where
  "over_limit NaN r c l = Inl (InvalidOperation ''comparison involving NaN'')"
| "over_limit x r c NaN = Inl (InvalidOperation ''comparison involving NaN'')"
| "over_limit (Fin q) r c (Fin l) = Inr (float_repr l < dec_add (dec_add (float_repr q) r) c)"
| "over_limit (Fin q) r c PosInf = Inr False"
| "over_limit (Fin q) r c NegInf = Inr True"
| "over_limit PosInf r c l = Inr (l \<noteq> PosInf)"
| "over_limit NegInf r c l = Inr False"

definition check_policy ::
  "env \<Rightarrow> agent_role \<Rightarrow> rat \<Rightarrow> int \<Rightarrow> budget_policy \<Rightarrow> (world, unit) op" where
  "check_policy E current cost_ceiling now p =
     bindS (guardS (b_model_allowlist p = [] \<or> configured_model E current \<in> set (b_model_allowlist p))
              (ExecutionDenied ''execution_model_not_allowed'' 403)) (\<lambda>_.
     bindS (liftE (period_start (budget_period_value (b_period p)) now)) (\<lambda>start.
     bindS (query_db (consumed_since E (b_budget_id p) start)) (\<lambda>consumed.
     bindS (query_db (reserved_total (b_budget_id p))) (\<lambda>reserved.
     bindS (liftE (over_limit consumed reserved cost_ceiling (b_limit_usd p))) (\<lambda>exceeded.
       guardS (\<not> exceeded) (ExecutionDenied ''execution_budget_exceeded'' 403))))))"

definition check_budgets ::
  "env \<Rightarrow> agent_role \<Rightarrow> agent_role \<Rightarrow> claim_args \<Rightarrow> rat \<Rightarrow> int \<Rightarrow> (world, budget_policy list) op" where
  "check_budgets E agent current c cost_ceiling now =
     bindS (query_db (selected_policies agent current c)) (\<lambda>selected.
     bindS (guardS (\<not> (0 < cost_ceiling \<and> selected = []))
              (ExecutionDenied ''execution_budget_required'' 403)) (\<lambda>_.
     bindS (guardS (truthy_str (ar_budget_policy_id current) \<longrightarrow>
                    list_ex (\<lambda>p. Some (b_budget_id p) = ar_budget_policy_id current) selected)
              (ExecutionDenied ''execution_budget_inactive'' 403)) (\<lambda>_.
     bindS (forS selected (check_policy E current cost_ceiling now)) (\<lambda>_. retS selected))))"

section \<open>The claim\<close>

text \<open>The role, the ceiling and the digest of the intent that the claim is about.\<close>

definition claim_intent ::
  "env \<Rightarrow> agent_role \<Rightarrow> claim_args \<Rightarrow> (world, agent_role \<times> decimal \<times> string) op" where
  "claim_intent E agent c =
     bindS (get_company (ar_company_id agent)) (\<lambda>company.
     bindS (guardS (company \<noteq> None) (ExecutionDenied ''company_not_found'' 404)) (\<lambda>_.
     bindS (get_role (ar_company_id agent) (ar_agent_id agent)) (\<lambda>row. case row of
         None \<Rightarrow> denied ''agent_not_found'' 404
       | Some current \<Rightarrow>
           bindS (liftE (authorize_adapter E current)) (\<lambda>cost_ceiling.
           bindS (liftE (intent_hash E current (ca_payload c) (ca_work_item_id c))) (\<lambda>digest.
           bindS (liftE (intent_hash E agent (ca_payload c) (ca_work_item_id c))) (\<lambda>digest'.
           bindS (guardS (digest = digest') (ExecutionDenied ''execution_configuration_changed'' 409)) (\<lambda>_.
             retS (current, cost_ceiling,
               e_sha256 E (digest @ '':'' @ ca_key c @ '':'' @ ca_actor_id c)))))))))"

text \<open>The claimed work item runs, and an earlier acceptance no longer counts.\<close>

definition start_work :: "env \<Rightarrow> claim_args \<Rightarrow> work_item option \<Rightarrow> (world, unit) op" where
  "start_work E c work =
     (case work of
        None \<Rightarrow> retS ()
      | Some r \<Rightarrow>
          bindS (transition_work E r WorkItemStatus_RUNNING (ca_actor_id c)) (\<lambda>_.
            write_work (w_work_item_id r) (\<lambda>r. r\<lparr>w_metadata :=
              filter (\<lambda>(k, v). k \<noteq> ''acceptance_id'' \<and> k \<noteq> ''accepted_artifact_id'') (w_metadata r)\<rparr>)))"

text \<open>What a claim has found when it has passed every check.\<close>

record claim_facts =
  cf_now :: int
  cf_current :: agent_role
  cf_ceiling :: decimal
  cf_digest :: string
  cf_work :: "work_item option"
  cf_approved :: "approval_request option"
  cf_owner :: string
  cf_selected :: "budget_policy list"

text \<open>Everything before the first write of a granted claim: a ticket to replay, or the facts.\<close>

definition claim_prepare :: "env \<Rightarrow> agent_role \<Rightarrow> claim_args \<Rightarrow> (world, execution_ticket + claim_facts) op" where
  "claim_prepare E agent c =
     bindS (now_utc E) (\<lambda>now.
     bindS (claim_intent E agent c) (\<lambda>(current, cost_ceiling, digest).
     bindS (get_lease (execution_id_of E agent c)) (\<lambda>existing. case existing of
         Some l \<Rightarrow>
           if le_intent_hash l \<noteq> digest then denied ''idempotency_key_conflict'' 409
           else if \<not> lease_active l
           then retS (Inl \<lparr>tk_execution_id = execution_id_of E agent c, tk_run_id = le_run_id l,
                           tk_owner_id = le_owner_id l, tk_ceiling_usd = cost_ceiling, tk_replay = True\<rparr>)
           else refuse_active E l now
       | None \<Rightarrow>
           bindS (query_db (\<lambda>d. find (\<lambda>l. le_company_id l = ar_company_id agent \<and>
                    le_resource_id l = resource_of agent c \<and> lease_active l) (t_leases d))) (\<lambda>active. case active of
               Some l \<Rightarrow> refuse_active E l now
             | None \<Rightarrow>
                 bindS (check_heartbeat agent current c now) (\<lambda>_.
                 bindS (check_work agent c) (\<lambda>work.
                 bindS (find_approval E agent current c work digest cost_ceiling now) (\<lambda>approved.
                 bindS (uuid4_hex E) (\<lambda>owner_id.
                 bindS (check_budgets E agent current c (dec_value cost_ceiling) now) (\<lambda>selected.
                   retS (Inr \<lparr>cf_now = now, cf_current = current, cf_ceiling = cost_ceiling, cf_digest = digest,
                              cf_work = work, cf_approved = approved, cf_owner = owner_id,
                              cf_selected = selected\<rparr>))))))))))"

text \<open>Writing lease, consumed approval, reservations and work item, in this order.\<close>

definition new_lease :: "env \<Rightarrow> agent_role \<Rightarrow> claim_args \<Rightarrow> claim_facts \<Rightarrow> execution_lease" where
  "new_lease E agent c k =
     \<lparr>le_execution_id = execution_id_of E agent c, le_company_id = ar_company_id agent,
      le_resource_id = resource_of agent c, le_intent_hash = cf_digest k, le_run_id = ca_run_id c,
      le_owner_id = cf_owner k, le_state = LeaseRunning, le_control_action = ''resume'',
      le_expires_at = cf_now k + 1000 * 1000000, le_created_at = cf_now k\<rparr>"

definition consume_approval :: "env \<Rightarrow> agent_role \<Rightarrow> claim_args \<Rightarrow> approval_request \<Rightarrow> approval_request" where
  "consume_approval E agent c r =
     r\<lparr>ap_metadata := AList.update ''consumed_execution_id'' (PStr (execution_id_of E agent c)) (ap_metadata r),
       ap_run_id := Some (ca_run_id c)\<rparr>"

definition consumed_approvals ::
  "env \<Rightarrow> agent_role \<Rightarrow> claim_args \<Rightarrow> claim_facts \<Rightarrow> approval_request list \<Rightarrow> approval_request list" where
  "consumed_approvals E agent c k rows =
     (case cf_approved k of None \<Rightarrow> rows
      | Some a \<Rightarrow> update_row ap_approval_id (ap_approval_id a) (consume_approval E agent c) rows)"

definition new_reservations :: "env \<Rightarrow> agent_role \<Rightarrow> claim_args \<Rightarrow> claim_facts \<Rightarrow> execution_reservation list" where
  "new_reservations E agent c k =
     map (\<lambda>p. \<lparr>rs_execution_id = execution_id_of E agent c, rs_budget_id = b_budget_id p,
               rs_amount_usd = dec_value (cf_ceiling k), rs_state = Reserved, rs_created_at = cf_now k\<rparr>)
       (cf_selected k)"

definition record_claim :: "env \<Rightarrow> agent_role \<Rightarrow> claim_args \<Rightarrow> claim_facts \<Rightarrow> (world, execution_ticket) op" where
  "record_claim E agent c k =
     bindS (write_db (\<lambda>d. d\<lparr>t_leases := t_leases d @ [new_lease E agent c k]\<rparr>)) (\<lambda>_.
     bindS (write_db (\<lambda>d. d\<lparr>t_approvals := consumed_approvals E agent c k (t_approvals d)\<rparr>)) (\<lambda>_.
     bindS (flush E) (\<lambda>_.
     bindS (write_db (\<lambda>d. d\<lparr>t_reservations := t_reservations d @ new_reservations E agent c k\<rparr>)) (\<lambda>_.
     bindS (start_work E c (cf_work k)) (\<lambda>_.
     bindS (ledger_audit E (ar_company_id agent) (resource_of agent c) ''execution.claimed'' (ca_actor_id c)
              [(''execution_id'', PStr (execution_id_of E agent c)), (''intent_hash'', PStr (cf_digest k)),
               (''ceiling_usd'', PStr (decimal_text (cf_ceiling k)))]) (\<lambda>_.
       retS \<lparr>tk_execution_id = execution_id_of E agent c, tk_run_id = ca_run_id c, tk_owner_id = cf_owner k,
             tk_ceiling_usd = cf_ceiling k, tk_replay = False\<rparr>))))))"

definition claim_inner :: "env \<Rightarrow> agent_role \<Rightarrow> claim_args \<Rightarrow> (world, execution_ticket) op" where
  "claim_inner E agent c =
     bindS (claim_prepare E agent c) (\<lambda>res. case res of
         Inl ticket \<Rightarrow> retS ticket
       | Inr k \<Rightarrow> record_claim E agent c k)"

definition claim :: "env \<Rightarrow> agent_role \<Rightarrow> claim_args \<Rightarrow> (world, execution_ticket) op" where
  "claim E agent c =
     catchS (claim_inner E agent c) (\<lambda>e. case e of
         ExecutionDenied reason code \<Rightarrow>
           bindS (get_company (ar_company_id agent)) (\<lambda>company.
           bindS (whenS (company \<noteq> None)
                    (bindS (ledger_audit E (ar_company_id agent) (resource_of agent c) ''execution.denied''
                              (ca_actor_id c)
                              [(''reason'', PStr reason), (''external_dispatch'', PBool False)]) (\<lambda>_.
                     checkpoint))) (\<lambda>_. raiseS e))
       | _ \<Rightarrow> raiseS e)"

section \<open>Control, settlement, recovery\<close>

definition control_action :: "execution_ticket \<Rightarrow> (world, string) op" where
  "control_action ticket =
     query_db (\<lambda>d. case find (\<lambda>l. le_execution_id l = tk_execution_id ticket \<and>
                               le_owner_id l = tk_owner_id ticket) (t_leases d) of
         None \<Rightarrow> ''terminate''
       | Some l \<Rightarrow> if le_control_action l = [] then ''terminate'' else le_control_action l)"

definition mark_uncertain :: "env \<Rightarrow> execution_ticket \<Rightarrow> (world, unit) op" where
  "mark_uncertain E ticket =
     bindS (get_lease (tk_execution_id ticket)) (\<lambda>lease. case lease of
         None \<Rightarrow> denied ''execution_owner_lost'' 409
       | Some l \<Rightarrow>
           if le_owner_id l \<noteq> tk_owner_id ticket then denied ''execution_owner_lost'' 409
           else
             bindS (now_utc E) (\<lambda>t.
             bindS (write_lease (le_execution_id l) (\<lambda>l. l\<lparr>le_state := LeaseRecoveryRequired, le_expires_at := t\<rparr>)) (\<lambda>_.
             bindS (ledger_audit E (le_company_id l) (le_resource_id l) ''execution.effects_uncertain'' ''system''
                      [(''run_id'', PStr (tk_run_id ticket)), (''automatic_replay'', PBool False)]) (\<lambda>_.
               checkpoint))))"

definition find_run_lease :: "string \<Rightarrow> string \<Rightarrow> (world, execution_lease option) op" where
  "find_run_lease company_id run_id =
     query_db (\<lambda>d. find (\<lambda>l. le_company_id l = company_id \<and> le_run_id l = run_id) (t_leases d))"

definition request_control :: "env \<Rightarrow> string \<Rightarrow> string \<Rightarrow> string \<Rightarrow> string \<Rightarrow> string \<Rightarrow> (world, pydict) op" where
  "request_control E run_id company_id action reason actor_id =
     bindS (find_run_lease company_id run_id) (\<lambda>lease.
     bindS (get_agent_run run_id) (\<lambda>run. case (lease, run) of
         (Some l, Some r) \<Rightarrow>
           bindS (get_role company_id (r_agent_id r)) (\<lambda>agent. case agent of
               None \<Rightarrow> denied ''agent_not_found'' 404
             | Some a \<Rightarrow>
                 bindS (liftE (validate_execution_control (ar_adapter_type a) action (le_state l))) (\<lambda>_.
                 bindS (write_lease (le_execution_id l) (\<lambda>l. l\<lparr>le_control_action := action\<rparr>)) (\<lambda>_.
                 bindS (ledger_audit E company_id (le_resource_id l) (''execution.'' @ action @ ''_requested'') actor_id
                          [(''run_id'', PStr run_id), (''reason'', PStr reason)]) (\<lambda>_.
                   retS [(''run_id'', PStr run_id), (''requested_action'', PStr action),
                         (''state'', PStr ''requested'')]))))
       | _ \<Rightarrow> denied ''execution_not_found'' 404))"

definition settle_reservation ::
  "env \<Rightarrow> execution_ticket \<Rightarrow> string \<Rightarrow> rat \<Rightarrow> bool \<Rightarrow> bool \<Rightarrow> execution_reservation \<Rightarrow> (world, unit) op" where
  "settle_reservation E ticket company_id cost failed estimated r =
     bindS (guardS (rs_state r = Reserved) (ExecutionDenied ''execution_already_settled'' 409)) (\<lambda>_.
     bindS (write_db (\<lambda>d. d\<lparr>t_reservations :=
              update_row (\<lambda>r. (rs_execution_id r, rs_budget_id r)) (rs_execution_id r, rs_budget_id r)
                (\<lambda>r. r\<lparr>rs_state := Settled\<rparr>) (t_reservations d)\<rparr>)) (\<lambda>_.
     bindS (generate_id E ''busg'') (\<lambda>i. bindS (now_utc E) (\<lambda>t.
     bindS (store_record_budget_usage E
              \<lparr>bu_usage_id = i, bu_company_id = company_id, bu_budget_id = rs_budget_id r,
               bu_cost_usd = f64_round cost, bu_model = ''executor'', bu_input_tokens = 0, bu_output_tokens = 0,
               bu_run_id = Some (tk_run_id ticket), bu_trace_id = None,
               bu_metadata = [(''execution_id'', PStr (tk_execution_id ticket)),
                              (''failed_attempt'', PBool failed), (''charged_ceiling'', PBool estimated)],
               bu_created_at = utc_dt t\<rparr>) (\<lambda>_. retS ())))))"

definition reservations_of :: "string \<Rightarrow> db \<Rightarrow> execution_reservation list" where
  "reservations_of execution_id d = filter (\<lambda>r. rs_execution_id r = execution_id) (t_reservations d)"

definition settle :: "env \<Rightarrow> execution_ticket \<Rightarrow> rat \<Rightarrow> bool \<Rightarrow> bool \<Rightarrow> (world, unit) op" where
  "settle E ticket cost failed estimated =
     bindS (get_lease (tk_execution_id ticket)) (\<lambda>lease. case lease of
         None \<Rightarrow> denied ''execution_owner_lost'' 409
       | Some l \<Rightarrow>
           if le_owner_id l \<noteq> tk_owner_id ticket \<or> le_state l \<noteq> LeaseRunning
           then denied ''execution_owner_lost'' 409
           else
             bindS (query_db (reservations_of (tk_execution_id ticket))) (\<lambda>reservations.
             bindS (forS reservations (settle_reservation E ticket (le_company_id l) cost failed estimated)) (\<lambda>_.
             bindS (query_db (\<lambda>d. find (\<lambda>r. r_run_id r = tk_run_id ticket \<and> r_company_id r = le_company_id l) (t_runs d))) (\<lambda>run.
             bindS (guardS (run \<noteq> None) (ExecutionDenied ''execution_run_not_found'' 409)) (\<lambda>_.
             bindS (write_db (\<lambda>d. d\<lparr>t_runs := update_row r_run_id (tk_run_id ticket)
                      (\<lambda>r. r\<lparr>r_cost_usd := f64_round cost,
                             r_metadata := AList.update ''cost_is_estimate'' (PBool estimated) (r_metadata r)\<rparr>) (t_runs d)\<rparr>)) (\<lambda>_.
             bindS (write_lease (le_execution_id l)
                      (\<lambda>l. l\<lparr>le_state := (if failed then LeaseFailed else LeaseSucceeded)\<rparr>)) (\<lambda>_.
               flush E)))))))"

definition strip_work_prefix :: "string \<Rightarrow> string option" where
  "strip_work_prefix resource =
     (if py_startswith resource ''work:'' then Some (drop 5 resource) else None)"

definition recover :: "env \<Rightarrow> string \<Rightarrow> string \<Rightarrow> string \<Rightarrow> string \<Rightarrow> (world, pydict) op" where
  "recover E run_id company_id reason actor_id =
     bindS (find_run_lease company_id run_id) (\<lambda>lease. case lease of
         None \<Rightarrow> denied ''execution_not_found'' 404
       | Some l \<Rightarrow>
           bindS (if lease_active l then bindS (now_utc E) (\<lambda>t. retS (t < le_expires_at l)) else retS True) (\<lambda>live.
           bindS (guardS (\<not> live) (ExecutionDenied ''execution_not_abandoned'' 409)) (\<lambda>_.
           bindS (write_lease (le_execution_id l) (\<lambda>l. l\<lparr>le_state := LeaseRunning\<rparr>)) (\<lambda>_.
           bindS (query_db (reservations_of (le_execution_id l))) (\<lambda>reservations.
           let amount = foldr max (map rs_amount_usd reservations) 0 in
           bindS (settle E \<lparr>tk_execution_id = le_execution_id l, tk_run_id = le_run_id l,
                    tk_owner_id = le_owner_id l, tk_ceiling_usd = \<lparr>dec_value = amount, dec_places = 6\<rparr>,
                    tk_replay = False\<rparr> amount True True) (\<lambda>_.
           bindS (get_agent_run run_id) (\<lambda>run.
           bindS (case run of
                    Some r \<Rightarrow>
                      if r_status r = AgentRunStatus_RUNNING then
                        bindS (get_role company_id (r_agent_id r)) (\<lambda>agent. case agent of
                            None \<Rightarrow> denied ''recovery_agent_required'' 409
                          | Some a \<Rightarrow>
                              fail_agent_wakeup_run E a run_id (case r_input_event r of None \<Rightarrow> [] | Some ev \<Rightarrow> ev)
                                actor_id \<lparr>rl_trace_id = r_trace_id r, rl_goal_id = r_goal_id r,
                                          rl_work_item_id = r_work_item_id r\<rparr>
                                ''operator_reconciliation'' ''operator_reconciled_abandoned_execution''
                                ''external_effects_reviewed'' False)
                      else retS ()
                  | None \<Rightarrow> retS ()) (\<lambda>_.
           bindS (case strip_work_prefix (le_resource_id l) of
                    None \<Rightarrow> retS ()
                  | Some i \<Rightarrow> bindS (get_work i) (\<lambda>work. case work of
                        None \<Rightarrow> retS ()
                      | Some r \<Rightarrow> transition_work E r WorkItemStatus_FAILED actor_id)) (\<lambda>_.
           bindS (ledger_audit E company_id (le_resource_id l) ''execution.reconciled'' actor_id
                    [(''run_id'', PStr run_id), (''reason'', PStr reason), (''automatic_replay'', PBool False)]) (\<lambda>_.
             retS [(''run_id'', PStr run_id), (''state'', PStr ''failed''),
                   (''handoff'', PStr ''operator_reviewed_retry'')]))))))))))"

section \<open>Concrete data for evaluation\<close>

definition sample_role :: agent_role where
  "sample_role = \<lparr>ar_role_id = ''role-1'', ar_company_id = ''acme'', ar_agent_id = ''dev'',
     ar_display_name = ''Dev'', ar_agent_kind = AgentKind_ORGANIZATION_ROLE,
     ar_interaction_mode = AgentInteractionMode_DIRECT, ar_role = ''dev'', ar_title = ''Dev'', ar_domain = ''d'',
     ar_reports_to_agent_id = None, ar_adapter_type = ''process'',
     ar_adapter_config = [(''max_cost_usd'', PInt 1)], ar_context_sources = [], ar_capabilities = [],
     ar_responsibilities = [], ar_subscribed_events = [], ar_published_events = [],
     ar_permissions = [''work.execute'', ''adapter:process'', ''tool:wakeup''], ar_budget_policy_id = None,
     ar_escalation_policy = [], ar_status = ''active'', ar_created_by = ''op'', ar_metadata = [],
     ar_created_at = utc_dt 0, ar_updated_at = utc_dt 0\<rparr>"

definition sample_ledger_policy :: budget_policy where
  "sample_ledger_policy = \<lparr>b_budget_id = ''bud-1'', b_company_id = ''acme'', b_scope = BudgetScope_COMPANY,
     b_period = BudgetPeriod_TOTAL, b_limit_usd = Fin 2, b_scope_id = None, b_warning_threshold = Fin 1,
     b_status = ''active'', b_model_allowlist = [], b_metadata = [], b_created_at = utc_dt 0,
     b_updated_at = utc_dt 0\<rparr>"

definition ledger_db :: db where
  "ledger_db = empty_db\<lparr>t_companies := [sample_company], t_roles := [sample_role],
     t_policies := [sample_ledger_policy]\<rparr>"

definition sample_claim :: claim_args where
  "sample_claim = \<lparr>ca_run_id = ''run-1'', ca_payload = [], ca_work_item_id = None, ca_goal_id = None,
     ca_actor_id = ''op'', ca_key = ''k1''\<rparr>"

end
