(* ===== verification/Ledger_Claims.thy ===== *)
theory Ledger_Claims
  imports Execution_Ledger
begin

text \<open>
  What a claim does (\<open>claim\<close> of \<open>execution_store.py\<close>): the runs of a successful claim, the budget,
  approval and idempotency conditions it has checked, and the tables it leaves alone.
\<close>

section \<open>Read-only steps\<close>

definition readonly :: "(world, 'a) op \<Rightarrow> bool" where
  "readonly m \<longleftrightarrow> (\<forall>w. snd (m w) = w)"

named_theorems readonly_intros

lemma readonly_basic [readonly_intros]:
  "readonly (retS a)" "readonly (raiseS e)" "readonly (liftE r)" "readonly (query_db q)"
  "readonly (guardS b e)" "readonly (denied reason n)"
  by (simp_all add: readonly_def guardS_def denied_def)

lemma readonly_bind [readonly_intros]:
  "readonly m \<Longrightarrow> (\<And>a. readonly (f a)) \<Longrightarrow> readonly (bindS m f)"
  by (auto simp: readonly_def bindS_def split: prod.splits sum.splits) (metis snd_conv)+

lemma readonly_if [readonly_intros]:
  "(b \<Longrightarrow> readonly m) \<Longrightarrow> (\<not> b \<Longrightarrow> readonly n) \<Longrightarrow> readonly (if b then m else n)"
  by simp

lemma readonly_option [readonly_intros]:
  "(x = None \<Longrightarrow> readonly m) \<Longrightarrow> (\<And>y. x = Some y \<Longrightarrow> readonly (f y)) \<Longrightarrow>
   readonly (case x of None \<Rightarrow> m | Some y \<Rightarrow> f y)"
  by (cases x) auto

lemma readonly_when [readonly_intros]: "readonly m \<Longrightarrow> readonly (whenS b m)"
  by (simp add: readonly_def whenS_def)

lemma readonly_let [readonly_intros]: "readonly (f x) \<Longrightarrow> readonly (let y = x in f y)"
  by simp

lemma readonly_for [readonly_intros]: "(\<And>x. readonly (f x)) \<Longrightarrow> readonly (forS xs f)"
  by (induction xs) (auto intro!: readonly_intros)

lemma readonlyD: "readonly m \<Longrightarrow> m w = (r, w') \<Longrightarrow> w' = w"
  by (metis readonly_def snd_conv)

lemma readonly_claim_steps [readonly_intros]:
  "readonly (claim_intent E agent c)" "readonly (check_heartbeat agent current c now)"
  "readonly (check_policy E current x now p)"
  "readonly (check_budgets E agent current c x now)"
  unfolding claim_intent_def check_heartbeat_def check_policy_def check_budgets_def get_company_def
    get_role_def
  by (intro readonly_intros)+

lemma readonly_check_work [readonly_intros]: "readonly (check_work agent c)"
  unfolding check_work_def get_work_def
  by (auto split: option.splits list.splits intro!: readonly_intros)

text \<open>An approval that is found is found without a write.\<close>

lemma find_approval_ok:
  assumes "find_approval E agent current c work digest cc now w = (Inr approved, w')"
  shows "w' = w \<and>
    (if requires_approval current work
     then \<exists>a. approved = Some a \<and> find usable_approval (valid_approvals agent digest now (w_db w)) = Some a
     else approved = None)"
proof -
  have ask: "ask_for_approval E agent c work digest cc now w \<noteq> (Inr a, w')"
    for a :: "approval_request option"
    by (auto simp: ask_for_approval_def denied_def bindS_Inr_iff)
  from assms ask show ?thesis
    by (cases "find usable_approval (valid_approvals agent digest now (w_db w))")
       (auto simp: find_approval_def split: if_splits)
qed

section \<open>A successful claim\<close>

lemma claim_intent_ok:
  assumes "claim_intent E agent c w = (Inr (current, cc, digest), w')"
  shows "w' = w" and "find (\<lambda>r. ar_company_id r = ar_company_id agent \<and> ar_agent_id r = ar_agent_id agent)
      (t_roles (w_db w)) = Some current"
    and "authorize_adapter E current = Inr cc"
    and "\<exists>h. intent_hash E current (ca_payload c) (ca_work_item_id c) = Inr h \<and>
           intent_hash E agent (ca_payload c) (ca_work_item_id c) = Inr h \<and>
           digest = e_sha256 E (h @ '':'' @ ca_key c @ '':'' @ ca_actor_id c)"
    and "find (\<lambda>x. c_company_id x = ar_company_id agent) (t_companies (w_db w)) \<noteq> None"
proof -
  show "w' = w" by (rule readonlyD [OF readonly_claim_steps(1) assms])
  from assms show "find (\<lambda>r. ar_company_id r = ar_company_id agent \<and> ar_agent_id r = ar_agent_id agent)
      (t_roles (w_db w)) = Some current"
    and "authorize_adapter E current = Inr cc"
    and "\<exists>h. intent_hash E current (ca_payload c) (ca_work_item_id c) = Inr h \<and>
           intent_hash E agent (ca_payload c) (ca_work_item_id c) = Inr h \<and>
           digest = e_sha256 E (h @ '':'' @ ca_key c @ '':'' @ ca_actor_id c)"
    and "find (\<lambda>x. c_company_id x = ar_company_id agent) (t_companies (w_db w)) \<noteq> None"
    by (auto simp: claim_intent_def get_company_def get_role_def denied_def bindS_Inr_iff
        split: if_splits option.splits)
qed

text \<open>The facts hold of the store the claim started from.\<close>

definition fresh_claim :: "env \<Rightarrow> agent_role \<Rightarrow> claim_args \<Rightarrow> world \<Rightarrow> claim_facts \<Rightarrow> bool" where
  "fresh_claim E agent c w k \<longleftrightarrow>
     (let w1 = w\<lparr>w_tick := Suc (w_tick w)\<rparr>; w2 = w\<lparr>w_tick := Suc (Suc (w_tick w))\<rparr> in
     cf_now k = e_clock E (w_tick w) \<and>
     claim_intent E agent c w1 = (Inr (cf_current k, cf_ceiling k, cf_digest k), w1) \<and>
     find (\<lambda>l. le_execution_id l = execution_id_of E agent c) (t_leases (w_db w)) = None \<and>
     find (\<lambda>l. le_company_id l = ar_company_id agent \<and> le_resource_id l = resource_of agent c \<and>
               lease_active l) (t_leases (w_db w)) = None \<and>
     check_heartbeat agent (cf_current k) c (cf_now k) w1 = (Inr (), w1) \<and>
     check_work agent c w1 = (Inr (cf_work k), w1) \<and>
     (if requires_approval (cf_current k) (cf_work k)
      then \<exists>a. cf_approved k = Some a \<and>
             find usable_approval (valid_approvals agent (cf_digest k) (cf_now k) (w_db w)) = Some a
      else cf_approved k = None) \<and>
     cf_owner k = e_uuid E (Suc (w_tick w)) \<and>
     check_budgets E agent (cf_current k) c (dec_value (cf_ceiling k)) (cf_now k) w2 = (Inr (cf_selected k), w2))"

lemma fresh_claimD:
  assumes "fresh_claim E agent c w k"
  shows "cf_now k = e_clock E (w_tick w)"
    and "find (\<lambda>l. le_execution_id l = execution_id_of E agent c) (t_leases (w_db w)) = None"
    and "find (\<lambda>l. le_company_id l = ar_company_id agent \<and> le_resource_id l = resource_of agent c \<and>
               lease_active l) (t_leases (w_db w)) = None"
    and "requires_approval (cf_current k) (cf_work k) \<Longrightarrow> \<exists>a. cf_approved k = Some a \<and>
             find usable_approval (valid_approvals agent (cf_digest k) (cf_now k) (w_db w)) = Some a"
    and "\<not> requires_approval (cf_current k) (cf_work k) \<Longrightarrow> cf_approved k = None"
    and "claim_intent E agent c (w\<lparr>w_tick := Suc (w_tick w)\<rparr>) =
           (Inr (cf_current k, cf_ceiling k, cf_digest k), w\<lparr>w_tick := Suc (w_tick w)\<rparr>)"
    and "check_work agent c (w\<lparr>w_tick := Suc (w_tick w)\<rparr>) = (Inr (cf_work k), w\<lparr>w_tick := Suc (w_tick w)\<rparr>)"
    and "check_budgets E agent (cf_current k) c (dec_value (cf_ceiling k)) (cf_now k) (w\<lparr>w_tick := Suc (Suc (w_tick w))\<rparr>) =
           (Inr (cf_selected k), w\<lparr>w_tick := Suc (Suc (w_tick w))\<rparr>)"
  using assms by (auto simp: fresh_claim_def Let_def split: if_splits)

text \<open>A successful preparation is a replay that writes nothing, or it passed every check.\<close>

lemma claim_prepare_ok:
  assumes "claim_prepare E agent c w = (Inr res, w')"
  obtains (replay) l current cc digest where
      "claim_intent E agent c (w\<lparr>w_tick := Suc (w_tick w)\<rparr>) = (Inr (current, cc, digest), w\<lparr>w_tick := Suc (w_tick w)\<rparr>)"
      "find (\<lambda>l. le_execution_id l = execution_id_of E agent c) (t_leases (w_db w)) = Some l"
      "le_intent_hash l = digest" "\<not> lease_active l" "w' = w\<lparr>w_tick := Suc (w_tick w)\<rparr>"
      "res = Inl \<lparr>tk_execution_id = execution_id_of E agent c, tk_run_id = le_run_id l,
             tk_owner_id = le_owner_id l, tk_ceiling_usd = cc, tk_replay = True\<rparr>"
  | (fresh) k where "res = Inr k" "fresh_claim E agent c w k" "w' = w\<lparr>w_tick := Suc (Suc (w_tick w))\<rparr>"
proof -
  let ?now = "e_clock E (w_tick w)" and ?w1 = "w\<lparr>w_tick := Suc (w_tick w)\<rparr>"
  let ?w2 = "w\<lparr>w_tick := Suc (Suc (w_tick w))\<rparr>"
  have refuse: "refuse_active E l t v \<noteq> (Inr res, w')" for l t v
    by (auto simp: refuse_active_def denied_def bindS_Inr_iff)
  from assms obtain current cc digest v where int: "claim_intent E agent c ?w1 = (Inr (current, cc, digest), v)"
    by (auto simp: claim_prepare_def bindS_Inr_iff [of "claim_intent E agent c"])
  then have [simp]: "v = ?w1" by (rule readonlyD [OF readonly_claim_steps(1)])
  show thesis
  proof (cases "find (\<lambda>l. le_execution_id l = execution_id_of E agent c) (t_leases (w_db w))")
    case (Some l)
    with assms int refuse show thesis
      by (intro replay [of current cc digest l])
         (auto simp: claim_prepare_def bindS_step get_lease_def denied_def split: if_splits)
  next
    case no_lease: None
    show thesis
    proof (cases "find (\<lambda>l. le_company_id l = ar_company_id agent \<and> le_resource_id l = resource_of agent c \<and>
        lease_active l) (t_leases (w_db w))")
      case (Some l)
      with assms int no_lease refuse show thesis
        by (auto simp: claim_prepare_def bindS_step get_lease_def)
    next
      case no_active: None
      from assms int no_lease no_active obtain u1 u2 work u3 approved selected where run:
        "check_heartbeat agent current c ?now ?w1 = (Inr (), u1)" "check_work agent c u1 = (Inr work, u2)"
        "find_approval E agent current c work digest cc ?now u2 = (Inr approved, u3)"
        "check_budgets E agent current c (dec_value cc) ?now (u3\<lparr>w_tick := Suc (w_tick u3)\<rparr>) = (Inr selected, w')"
        "res = Inr \<lparr>cf_now = ?now, cf_current = current, cf_ceiling = cc, cf_digest = digest, cf_work = work,
           cf_approved = approved, cf_owner = e_uuid E (w_tick u3), cf_selected = selected\<rparr>"
        by (auto simp: claim_prepare_def bindS_step get_lease_def bindS_Inr_iff)
      have [simp]: "u1 = ?w1" by (rule readonlyD [OF readonly_claim_steps(2) run(1)])
      have [simp]: "u2 = ?w1" using readonlyD [OF readonly_check_work run(2)] by simp
      note ap = find_approval_ok [OF run(3)]
      then have [simp]: "u3 = ?w1" by simp
      have w': "w' = ?w2" using readonlyD [OF readonly_claim_steps(4) run(4)] by simp
      show thesis
        by (rule fresh [OF run(5)])
           (use run int no_lease no_active ap w' in \<open>auto simp: fresh_claim_def Let_def split: if_splits\<close>)
    qed
  qed
qed

lemma claim_inner_ok:
  assumes "claim_inner E agent c w = (Inr tk, w')"
  obtains (replay) l current cc digest where
      "claim_intent E agent c (w\<lparr>w_tick := Suc (w_tick w)\<rparr>) = (Inr (current, cc, digest), w\<lparr>w_tick := Suc (w_tick w)\<rparr>)"
      "find (\<lambda>l. le_execution_id l = execution_id_of E agent c) (t_leases (w_db w)) = Some l"
      "le_intent_hash l = digest" "\<not> lease_active l" "w' = w\<lparr>w_tick := Suc (w_tick w)\<rparr>"
      "tk = \<lparr>tk_execution_id = execution_id_of E agent c, tk_run_id = le_run_id l,
             tk_owner_id = le_owner_id l, tk_ceiling_usd = cc, tk_replay = True\<rparr>"
  | (fresh) k where "fresh_claim E agent c w k"
      "record_claim E agent c k (w\<lparr>w_tick := Suc (Suc (w_tick w))\<rparr>) = (Inr tk, w')"
proof -
  from assms obtain res w1 where prep: "claim_prepare E agent c w = (Inr res, w1)"
    and rest: "(case res of Inl ticket \<Rightarrow> retS ticket | Inr k \<Rightarrow> record_claim E agent c k) w1 = (Inr tk, w')"
    by (auto simp: claim_inner_def bindS_Inr_iff)
  show thesis
  proof (cases rule: claim_prepare_ok [OF prep])
    case (1 l current cc digest)
    show thesis by (rule replay [OF 1(1-4)]) (use 1(5,6) rest in simp_all)
  next
    case (2 k)
    show thesis by (rule fresh [OF 2(2)]) (use 2(1,3) rest in simp)
  qed
qed

section \<open>What a fresh claim writes\<close>

lemma keeps_ledger_audit:
  "keeps (\<lambda>w. P (ledger_core (w_db w))) (ledger_audit E co res act who det)"
  "keeps (\<lambda>w. Q (w_committed w)) (ledger_audit E co res act who det)"
  unfolding ledger_audit_def by (intro keeps_intros keeps_new_audit)+

text \<open>Everything but audits, outbox and work items.\<close>

definition non_work :: "db \<Rightarrow> db" where
  "non_work d = (ledger_core d)\<lparr>t_work_items := []\<rparr>"

lemma non_work_tables [simp]:
  "t_companies (non_work d) = t_companies d" "t_leases (non_work d) = t_leases d"
  "t_reservations (non_work d) = t_reservations d" "t_approvals (non_work d) = t_approvals d"
  "t_policies (non_work d) = t_policies d" "t_usage (non_work d) = t_usage d" "t_runs (non_work d) = t_runs d"
  "t_roles (non_work d) = t_roles d" "t_artifacts (non_work d) = t_artifacts d" "t_goals (non_work d) = t_goals d"
  by (simp_all add: non_work_def)

lemma keeps_core_non_work:
  assumes "\<And>P. keeps (\<lambda>w. P (ledger_core (w_db w))) m"
  shows "keeps (\<lambda>w. P (non_work (w_db w))) m"
  using assms [of "\<lambda>c. P (c\<lparr>t_work_items := []\<rparr>)"] by (simp add: non_work_def)

lemma keeps_write_work:
  "keeps (\<lambda>w. P (non_work (w_db w))) (write_work i f)" "keeps (\<lambda>w. Q (w_committed w)) (write_work i f)"
  unfolding write_work_def by (rule keeps_write, simp add: non_work_def ledger_core_def) (rule keeps_intros)

lemma keeps_transition_work:
  "keeps (\<lambda>w. P (non_work (w_db w))) (transition_work E work state who)"
  "keeps (\<lambda>w. Q (w_committed w)) (transition_work E work state who)"
  unfolding transition_work_def
  by (auto split: prod.splits sum.splits intro!: keeps_intros keeps_write_work
      keeps_core_non_work [OF keeps_domain_event_audits(1)] keeps_domain_event_audits(3))

lemma keeps_start_work:
  "keeps (\<lambda>w. P (non_work (w_db w))) (start_work E c work)"
  "keeps (\<lambda>w. Q (w_committed w)) (start_work E c work)"
  unfolding start_work_def by (intro keeps_intros keeps_transition_work keeps_write_work)+

lemma keeps_run_eq:
  assumes "\<And>P. keeps (\<lambda>w. P (f w)) m" and "m w = (r, w')"
  shows "f w' = f w"
  using keepsD_run [OF assms(1) [of "\<lambda>x. x = f w"] _ assms(2)] by simp

text \<open>The database at the flush inside a claim, before reservations and work item are written.\<close>

definition leased_db :: "env \<Rightarrow> agent_role \<Rightarrow> claim_args \<Rightarrow> claim_facts \<Rightarrow> db \<Rightarrow> db" where
  "leased_db E agent c k d =
     d\<lparr>t_leases := t_leases d @ [new_lease E agent c k],
       t_approvals := consumed_approvals E agent c k (t_approvals d)\<rparr>"

lemma record_claim_ok:
  assumes "record_claim E agent c k w = (Inr tk, w')"
  shows "non_work (w_db w') = non_work ((leased_db E agent c k (w_db w))
           \<lparr>t_reservations := t_reservations (w_db w) @ new_reservations E agent c k\<rparr>)"
    and "w_committed w' = w_committed w"
    and "unique_ok (leased_db E agent c k (w_db w))"
    and "e_fk E \<longrightarrow> foreign_ok (leased_db E agent c k (w_db w))"
    and "tk = \<lparr>tk_execution_id = execution_id_of E agent c, tk_run_id = ca_run_id c, tk_owner_id = cf_owner k,
               tk_ceiling_usd = cf_ceiling k, tk_replay = False\<rparr>"
proof -
  let ?d1 = "leased_db E agent c k (w_db w)"
  let ?d2 = "?d1\<lparr>t_reservations := t_reservations (w_db w) @ new_reservations E agent c k\<rparr>"
  let ?work = "start_work E c (cf_work k)"
  let ?aud = "ledger_audit E (ar_company_id agent) (resource_of agent c) ''execution.claimed'' (ca_actor_id c)
      [(''execution_id'', PStr (execution_id_of E agent c)), (''intent_hash'', PStr (cf_digest k)),
       (''ceiling_usd'', PStr (decimal_text (cf_ceiling k)))]"
  let ?tk = "\<lparr>tk_execution_id = execution_id_of E agent c, tk_run_id = ca_run_id c, tk_owner_id = cf_owner k,
               tk_ceiling_usd = cf_ceiling k, tk_replay = False\<rparr>"
  have run: "unique_ok ?d1 \<and> (e_fk E \<longrightarrow> foreign_ok ?d1) \<and>
      bindS ?work (\<lambda>_. bindS ?aud (\<lambda>_. retS ?tk)) (w\<lparr>w_db := ?d2\<rparr>) = (Inr tk, w')"
    using assms by (simp add: record_claim_def leased_db_def bind_flush_ok)
  then show "unique_ok ?d1" "e_fk E \<longrightarrow> foreign_ok ?d1" by blast+
  from run obtain u1 where work: "?work (w\<lparr>w_db := ?d2\<rparr>) = (Inr (), u1)" and aud: "?aud u1 = (Inr (), w')"
    and "tk = ?tk" by (auto simp: bindS_Inr_iff)
  then show "tk = ?tk" by simp
  have "non_work (w_db w') = non_work (w_db u1)"
    by (rule keeps_run_eq [OF keeps_core_non_work [OF keeps_ledger_audit(1)] aud])
  moreover have "non_work (w_db u1) = non_work ?d2"
    using keeps_run_eq [OF keeps_start_work(1) work] by simp
  ultimately show "non_work (w_db w') = non_work ?d2" by simp
  have "w_committed w' = w_committed u1" by (rule keeps_run_eq [OF keeps_ledger_audit(2) aud])
  moreover have "w_committed u1 = w_committed w" using keeps_run_eq [OF keeps_start_work(2) work] by simp
  ultimately show "w_committed w' = w_committed w" by simp
qed

end
