(* ===== verification/Ledger_Safety.thy ===== *)
theory Ledger_Safety
  imports Ledger_Claims
begin

text \<open>
  Properties of claims: the budget is never over-reserved, an execution key is used once, an approval is
  used once and only for the intent it was given for, and a denied claim leaves no trace but audit
  rows, a request for approval and the mark of an abandoned lease.
\<close>

section \<open>Decimal sums\<close>

definition micro :: "rat \<Rightarrow> bool" where
  "micro q \<longleftrightarrow> (\<exists>k :: int. q = of_int k / 1000000)"

lemma micro_add: "micro p \<Longrightarrow> micro q \<Longrightarrow> micro (p + q)"
  unfolding micro_def by (metis add_divide_distrib of_int_add)

lemma micro_sum_list: "(\<And>q. q \<in> set qs \<Longrightarrow> micro q) \<Longrightarrow> micro (sum_list qs)"
proof (induction qs)
  case Nil
  then show ?case unfolding micro_def by (intro exI [of _ 0]) simp
qed (auto intro: micro_add)

lemma round_sig_int:
  assumes "0 < u" and "of_int k * u \<le> x"
  shows "of_int k * u \<le> of_int (rne (x / u)) * (u :: rat)"
proof -
  have "of_int k \<le> x / u" using assms by (simp add: field_simps)
  then have "k \<le> rne (x / u)" by (rule int_le_rne)
  then show ?thesis using assms(1) by (simp add: mult_right_mono)
qed

text \<open>Rounding a sum to 28 digits never brings it below an amount in millionths that it covers.\<close>

lemma round_sig_covers:
  assumes y: "micro y" "0 \<le> y" "y \<le> 10 ^ 22" and x: "y \<le> x" "0 < x"
  shows "y \<le> round_sig 28 x"
proof -
  define n where "n = rat_ilog 10 x"
  define u :: rat where "u = 10 powi (n - 27)"
  have u: "0 < u" by (simp add: u_def)
  have r: "round_sig 28 x = of_int (rne (x / u)) * u"
    using x(2) by (simp add: round_sig_def u_def n_def Let_def)
  have lo: "10 powi n \<le> x" using rat_ilog_bounds [of 10 x] x(2) by (simp add: n_def)
  show ?thesis
  proof (cases "n \<le> 21")
    case True
    obtain k :: int where k: "y = of_int k / 1000000" using y(1) by (auto simp: micro_def)
    have "(10 :: rat) ^ nat (21 - n) * u = 10 powi (int (nat (21 - n)) + (n - 27))"
      unfolding u_def by (subst power_int_add) (simp_all add: power_int_of_nat del: int_nat_eq)
    also have "\<dots> = 10 powi (- 6)" using True by simp
    finally have "(10 :: rat) ^ nat (21 - n) * u = 1 / 1000000" by (simp add: power_int_minus field_simps)
    then have "y = of_int (k * 10 ^ nat (21 - n)) * u"
      unfolding k by (simp add: mult.assoc)
    with round_sig_int [OF u, of "k * 10 ^ nat (21 - n)" x] x(1) r show ?thesis by simp
  next
    case False
    have "10 powi n = of_int (10 ^ 27) * u" by (simp add: u_def power_int_diff)
    with round_sig_int [OF u, of "10 ^ 27" x] lo r have "10 powi n \<le> round_sig 28 x" by simp
    moreover have "(10 :: rat) ^ 22 \<le> 10 powi n"
      using False power_int_increasing [of 22 n "10 :: rat"] by simp
    ultimately show ?thesis using y(3) by linarith
  qed
qed

lemma round_sig_nonneg:
  assumes "0 \<le> q"
  shows "0 \<le> round_sig n q"
proof -
  have "0 \<le> rne (q / 10 powi (rat_ilog 10 \<bar>q\<bar> - int n + 1))" using assms by (intro int_le_rne) simp
  then show ?thesis by (simp add: round_sig_def Let_def)
qed

lemma float_repr_nonneg: "0 \<le> q \<Longrightarrow> 0 \<le> float_repr q"
  by (auto simp: float_repr_def round_sig_nonneg split: option.splits)

lemma dec_add_covers:
  assumes "0 \<le> c" and "micro r" and "0 \<le> r" and "r \<le> 10 ^ 22"
  shows "r \<le> dec_add c r"
proof (cases "c + r = 0")
  case True
  with assms have "r = 0" by linarith
  with assms show ?thesis by (simp add: dec_add_def round_sig_nonneg)
next
  case False
  with assms show ?thesis unfolding dec_add_def by (intro round_sig_covers) auto
qed

text \<open>The decimal check against a limit covers the exact sum of reservations and ceiling.\<close>

lemma within_limit_exact:
  assumes check: "dec_add (dec_add c r) x \<le> l" and c: "0 \<le> c" and r: "micro r" "0 \<le> r"
    and x: "micro x" "0 \<le> x" and l: "l < 10 ^ 22"
  shows "r + x \<le> l"
proof -
  have mono: "y \<le> dec_add (dec_add c r) x"
    if "micro y" "0 \<le> y" "y \<le> 10 ^ 22" "y \<le> dec_add c r + x" for y
  proof (cases "dec_add c r + x = 0")
    case True
    with that show ?thesis by (simp add: dec_add_def [of "dec_add c r"] round_sig_nonneg)
  next
    case False
    with that show ?thesis unfolding dec_add_def [of "dec_add c r"] by (intro round_sig_covers) auto
  qed
  have big: "micro (10 ^ 22)" unfolding micro_def by (intro exI [of _ "10 ^ 28"]) simp
  show ?thesis
  proof (cases "r + x \<le> 10 ^ 22")
    case True
    with r x have "r \<le> dec_add c r" by (intro dec_add_covers c) auto
    with mono [OF micro_add [OF r(1) x(1)]] r x True have "r + x \<le> dec_add (dec_add c r) x" by simp
    with check show ?thesis by (rule order_trans [rotated])
  next
    case False
    then have "10 ^ 22 \<le> dec_add c r + x"
    proof (cases "r \<le> 10 ^ 22")
      case True
      with dec_add_covers [OF c r True] False show ?thesis by simp
    next
      case False
      have "0 < c + r" using False c by auto
      then have "10 ^ 22 \<le> dec_add c r"
        unfolding dec_add_def using False c big by (intro round_sig_covers) auto
      with x show ?thesis by simp
    qed
    from mono [OF big _ _ this] check l show ?thesis by simp
  qed
qed

section \<open>Budget checks\<close>

lemma forS_ok_each:
  assumes "forS xs f w = (Inr ys, w')" and "\<And>x. readonly (f x)" and "x \<in> set xs"
  shows "\<exists>y. f x w = (Inr y, w)"
  using assms(1,3)
proof (induction xs arbitrary: ys)
  case (Cons z zs)
  from Cons.prems(1) obtain y w1 ys' where run: "f z w = (Inr y, w1)" "forS zs f w1 = (Inr ys', w')"
    by (auto simp: bindS_Inr_iff)
  with readonlyD [OF assms(2) run(1)] Cons show ?case by auto
qed simp

lemma check_policy_ok:
  assumes "check_policy E current x now p w = (Inr u, w')"
  obtains start where "period_start (budget_period_value (b_period p)) now = Inr start"
    "over_limit (consumed_since E (b_budget_id p) start (w_db w)) (reserved_total (b_budget_id p) (w_db w))
       x (b_limit_usd p) = Inr False"
    "b_model_allowlist p = [] \<or> configured_model E current \<in> set (b_model_allowlist p)"
  using assms
  by (auto simp: check_policy_def bindS_Inr_iff guardS_run split: if_splits)

lemma check_budgets_ok:
  assumes "check_budgets E agent current c x now w = (Inr sel, w')"
  shows "sel = selected_policies agent current c (w_db w)" and "0 < x \<Longrightarrow> sel \<noteq> []"
    and "p \<in> set sel \<Longrightarrow> \<exists>u. check_policy E current x now p w = (Inr u, w)"
proof -
  from assms obtain us where run: "sel = selected_policies agent current c (w_db w)"
    "\<not> (0 < x \<and> sel = [])" "forS sel (check_policy E current x now) w = (Inr us, w')"
    by (auto simp: check_budgets_def bindS_Inr_iff guardS_run split: if_splits)
  show "sel = selected_policies agent current c (w_db w)" "0 < x \<Longrightarrow> sel \<noteq> []" using run by auto
  show "p \<in> set sel \<Longrightarrow> \<exists>u. check_policy E current x now p w = (Inr u, w)"
    using forS_ok_each [OF run(3) readonly_claim_steps(3)] by blast
qed

lemma selected_policies_distinct:
  assumes "distinct (map b_budget_id (t_policies d))"
  shows "distinct (map b_budget_id (selected_policies agent current c d))"
  using assms unfolding selected_policies_def
  by (auto simp: distinct_map inj_on_def)

lemma reserved_total_append:
  "reserved_total b (d\<lparr>t_reservations := t_reservations d @ rs\<rparr>) =
   reserved_total b d + sum_list (map rs_amount_usd (filter (\<lambda>r. rs_budget_id r = b \<and> rs_state r = Reserved) rs))"
  by (simp add: reserved_total_def)

lemma reserved_total_cong: "t_reservations d = t_reservations d' \<Longrightarrow> reserved_total b d = reserved_total b d'"
  by (simp add: reserved_total_def)

section \<open>The result of a claim\<close>

text \<open>A returned ticket comes from the claim itself: the handler only raises.\<close>

lemma claim_ok_inner:
  assumes "claim E agent c w = (Inr tk, w')"
  shows "claim_inner E agent c w = (Inr tk, w')"
proof -
  have raise: "(case e of ExecutionDenied reason code \<Rightarrow>
        bindS (get_company (ar_company_id agent)) (\<lambda>company. bindS (whenS (company \<noteq> None)
          (bindS (ledger_audit E (ar_company_id agent) (resource_of agent c) ''execution.denied'' (ca_actor_id c)
             [(''reason'', PStr reason), (''external_dispatch'', PBool False)]) (\<lambda>_. checkpoint))) (\<lambda>_. raiseS e))
      | _ \<Rightarrow> raiseS e) v \<noteq> (Inr t, v')" for e v v' and t :: execution_ticket
    by (cases e) (auto simp: bindS_Inr_iff)
  obtain r v where run: "claim_inner E agent c w = (r, v)" by force
  with assms raise show ?thesis
    by (cases r) (auto simp: claim_def catchS_def)
qed

lemma fresh_ticket:
  assumes "claim E agent c w = (Inr tk, w')" and "\<not> tk_replay tk"
  obtains k where "fresh_claim E agent c w k"
    "non_work (w_db w') = non_work ((leased_db E agent c k (w_db w))
       \<lparr>t_reservations := t_reservations (w_db w) @ new_reservations E agent c k\<rparr>)"
    "unique_ok (leased_db E agent c k (w_db w))"
    "e_fk E \<longrightarrow> foreign_ok (leased_db E agent c k (w_db w))"
    "tk_ceiling_usd tk = cf_ceiling k" "tk_execution_id tk = execution_id_of E agent c"
    "tk_owner_id tk = cf_owner k" "w_committed w' = w_committed w"
proof (cases rule: claim_inner_ok [OF claim_ok_inner [OF assms(1)]])
  case (1 l current cc digest)
  with assms(2) show ?thesis by simp
next
  case (2 k)
  from record_claim_ok [OF 2(2)] show ?thesis
    by (intro that [OF 2(1)]) (simp_all add: leased_db_def)
qed

lemma fresh_claim_role:
  assumes "fresh_claim E agent c w k"
  shows "find (\<lambda>r. ar_company_id r = ar_company_id agent \<and> ar_agent_id r = ar_agent_id agent)
           (t_roles (w_db w)) = Some (cf_current k)"
    and "authorize_adapter E (cf_current k) = Inr (cf_ceiling k)"
  using claim_intent_ok(2,3) [OF fresh_claimD(6) [OF assms]] by simp_all

lemma authorize_adapter_micro:
  assumes "authorize_adapter E agent = Inr c"
  shows "micro (dec_value c)"
proof -
  have "micro 0" unfolding micro_def by (intro exI [of _ 0]) simp
  moreover have "micro (quantize6 q)" for q unfolding micro_def quantize6_def by blast
  ultimately show ?thesis using assms
    by (auto simp: authorize_adapter_def bounded_cost_def split: if_splits option.splits)
qed

lemma new_reservations_of:
  assumes "distinct (map b_budget_id (cf_selected k))" and "p \<in> set (cf_selected k)"
  shows "sum_list (map rs_amount_usd (filter (\<lambda>r. rs_budget_id r = b_budget_id p \<and> rs_state r = Reserved)
           (new_reservations E agent c k))) = dec_value (cf_ceiling k)"
proof -
  have "filter (\<lambda>q. b_budget_id q = b_budget_id p) ps = [p]"
    if "distinct (map b_budget_id ps)" "p \<in> set ps" for ps
    using that
  proof (induction ps)
    case (Cons q ps)
    show ?case
    proof (cases "q = p")
      case True
      with Cons.prems(1) show ?thesis by (auto simp: filter_empty_conv) (metis imageI)
    next
      case False
      with Cons show ?thesis by (auto simp: image_iff)
    qed
  qed simp
  from this [OF assms] show ?thesis
    by (simp add: new_reservations_def filter_map comp_def)
qed

lemma fresh_claim_reserved:
  assumes "fresh_claim E agent c w k"
    and "non_work (w_db w') = non_work ((leased_db E agent c k (w_db w))
       \<lparr>t_reservations := t_reservations (w_db w) @ new_reservations E agent c k\<rparr>)"
    and "distinct (map b_budget_id (t_policies (w_db w)))" and "p \<in> set (cf_selected k)"
  shows "reserved_total (b_budget_id p) (w_db w') =
           reserved_total (b_budget_id p) (w_db w) + dec_value (cf_ceiling k)"
proof -
  have "cf_selected k = selected_policies agent (cf_current k) c (w_db w)"
    using check_budgets_ok(1) [OF fresh_claimD(8) [OF assms(1)]] by simp
  then have sel: "distinct (map b_budget_id (cf_selected k))"
    using selected_policies_distinct [OF assms(3)] by simp
  have "t_reservations (w_db w') = t_reservations (w_db w) @ new_reservations E agent c k"
    using arg_cong [OF assms(2), of t_reservations] by simp
  then show ?thesis
    using new_reservations_of [OF sel assms(4)] by (simp add: reserved_total_def)
qed

text \<open>
  C1. A dispatch never over-reserves a budget: when a claim returns a fresh ticket, every budget policy
  that applies to it (the company's, the agent's, the work item's, the goal's and the role's own) holds a
  new reservation of the ticket's ceiling, and the exact sum of all amounts reserved in that policy is
  within the policy's limit, although the check is made in rounded decimal arithmetic. Amounts are
  millionths, as the column type stores them, limits are below 10^22 dollars and recorded usage is
  finite and not negative.\<close>

theorem fresh_claim_within_limits:
  assumes "claim E agent c w = (Inr tk, w')" and "\<not> tk_replay tk"
    and "distinct (map b_budget_id (t_policies (w_db w)))"
    and "\<forall>r \<in> set (t_reservations (w_db w)). 0 \<le> rs_amount_usd r \<and> micro (rs_amount_usd r)"
    and "find (\<lambda>r. ar_company_id r = ar_company_id agent \<and> ar_agent_id r = ar_agent_id agent)
           (t_roles (w_db w)) = Some current"
    and "p \<in> set (selected_policies agent current c (w_db w))"
    and "b_limit_usd p = Fin l" and "float_repr l < 10 ^ 22"
    and "\<forall>start. \<exists>q \<ge> 0. consumed_since E (b_budget_id p) start (w_db w) = Fin q"
  shows "reserved_total (b_budget_id p) (w_db w') =
           reserved_total (b_budget_id p) (w_db w) + dec_value (tk_ceiling_usd tk) \<and>
         reserved_total (b_budget_id p) (w_db w') \<le> float_repr l"
proof -
  obtain k where k: "fresh_claim E agent c w k" and tk: "tk_ceiling_usd tk = cf_ceiling k"
    and db: "non_work (w_db w') = non_work ((leased_db E agent c k (w_db w))
       \<lparr>t_reservations := t_reservations (w_db w) @ new_reservations E agent c k\<rparr>)"
    by (rule fresh_ticket [OF assms(1,2)])
  from fresh_claim_role [OF k] assms(5) have cur: "cf_current k = current"
    and auth: "authorize_adapter E current = Inr (cf_ceiling k)" by auto
  let ?w2 = "w\<lparr>w_tick := Suc (Suc (w_tick w))\<rparr>"
  note cb = fresh_claimD(8) [OF k, unfolded cur]
  have sel: "p \<in> set (cf_selected k)" using check_budgets_ok(1) [OF cb] assms(6) by simp
  from check_budgets_ok(3) [OF cb sel] obtain u where
    "check_policy E current (dec_value (cf_ceiling k)) (cf_now k) p ?w2 = (Inr u, ?w2)" by blast
  then obtain start where ol: "over_limit (consumed_since E (b_budget_id p) start (w_db w))
      (reserved_total (b_budget_id p) (w_db w)) (dec_value (cf_ceiling k)) (Fin l) = Inr False"
    using assms(7) by (auto elim: check_policy_ok)
  obtain q where q: "0 \<le> q" "consumed_since E (b_budget_id p) start (w_db w) = Fin q" using assms(9) by blast
  have "micro (reserved_total (b_budget_id p) (w_db w))" "0 \<le> reserved_total (b_budget_id p) (w_db w)"
    unfolding reserved_total_def using assms(4) by (auto intro!: micro_sum_list sum_list_nonneg)
  with ol q assms(8) have "reserved_total (b_budget_id p) (w_db w) + dec_value (cf_ceiling k) \<le> float_repr l"
    by (intro within_limit_exact [of "float_repr q"] authorize_adapter_micro [OF auth] authorize_adapter_ok(2) [OF auth])
       (auto simp: float_repr_nonneg)
  with fresh_claim_reserved [OF k db assms(3) sel] tk show ?thesis by simp
qed

definition after_sample_claim :: world where
  "after_sample_claim = snd (claim sample_env sample_role sample_claim (world_of ledger_db))"

lemma sample_claim_runs:
  "claim sample_env sample_role sample_claim (world_of ledger_db) =
   (Inr \<lparr>tk_execution_id = ''hacme:k1'', tk_run_id = ''run-1'', tk_owner_id = ''u'',
        tk_ceiling_usd = \<lparr>dec_value = 1, dec_places = 6\<rparr>, tk_replay = False\<rparr>, after_sample_claim)"
proof -
  have "fst (claim sample_env sample_role sample_claim (world_of ledger_db)) =
     Inr \<lparr>tk_execution_id = ''hacme:k1'', tk_run_id = ''run-1'', tk_owner_id = ''u'',
        tk_ceiling_usd = \<lparr>dec_value = 1, dec_places = 6\<rparr>, tk_replay = False\<rparr>"
    by code_simp
  then show ?thesis by (simp add: after_sample_claim_def prod_eq_iff)
qed

lemma ledger_db_tables [simp]:
  "w_db (world_of ledger_db) = ledger_db" "t_policies ledger_db = [sample_ledger_policy]"
  "t_reservations ledger_db = []" "t_usage ledger_db = []" "t_roles ledger_db = [sample_role]"
  "t_leases ledger_db = []" "t_runs ledger_db = []" "t_approvals ledger_db = []"
  by (simp_all add: world_of_def ledger_db_def empty_db_def)

theorem fresh_claim_within_limits_witness:
  "reserved_total ''bud-1'' (w_db after_sample_claim) = 1 \<and>
   reserved_total ''bud-1'' (w_db after_sample_claim) \<le> float_repr 2"
proof -
  have sel: "selected_policies sample_role sample_role sample_claim ledger_db = [sample_ledger_policy]"
    and "float_repr 2 < 10 ^ 22" by code_simp+
  with fresh_claim_within_limits [OF sample_claim_runs, of sample_role sample_ledger_policy 2]
  show ?thesis
    by (simp add: sample_ledger_policy_def consumed_since_def reserved_total_def [of _ ledger_db])
qed

section \<open>Idempotency keys\<close>

lemma find_append_None: "find P xs = None \<Longrightarrow> find P (xs @ ys) = find P ys"
  by (induction xs) (auto split: if_splits)

lemma fresh_claim_leases:
  assumes "non_work (w_db w') = non_work ((leased_db E agent c k (w_db w))
       \<lparr>t_reservations := t_reservations (w_db w) @ new_reservations E agent c k\<rparr>)"
  shows "t_leases (w_db w') = t_leases (w_db w) @ [new_lease E agent c k]"
    and "t_approvals (w_db w') = consumed_approvals E agent c k (t_approvals (w_db w))"
    and "t_reservations (w_db w') = t_reservations (w_db w) @ new_reservations E agent c k"
    and "t_runs (w_db w') = t_runs (w_db w)" and "t_usage (w_db w') = t_usage (w_db w)"
    and "t_policies (w_db w') = t_policies (w_db w)"
  using assms [THEN arg_cong, of t_leases] assms [THEN arg_cong, of t_approvals]
    assms [THEN arg_cong, of t_reservations] assms [THEN arg_cong, of t_runs]
    assms [THEN arg_cong, of t_usage] assms [THEN arg_cong, of t_policies]
  by (simp_all add: leased_db_def)

definition lease_of :: "string \<Rightarrow> db \<Rightarrow> execution_lease option" where
  "lease_of i d = find (\<lambda>l. le_execution_id l = i) (t_leases d)"

lemma claim_run:
  assumes "claim E agent c w = (Inr tk, w')"
  shows "case lease_of (execution_id_of E agent c) (w_db w) of
      Some l \<Rightarrow> tk_replay tk \<and> tk_run_id tk = le_run_id l \<and> tk_owner_id tk = le_owner_id l \<and>
        \<not> lease_active l \<and> w_db w' = w_db w \<and> w_committed w' = w_committed w
    | None \<Rightarrow> \<not> tk_replay tk \<and> (\<exists>l. t_leases (w_db w') = t_leases (w_db w) @ [l] \<and>
        lease_of (execution_id_of E agent c) (w_db w') = Some l \<and> le_state l = LeaseRunning \<and>
        le_resource_id l = resource_of agent c \<and> le_run_id l = ca_run_id c \<and> le_owner_id l = tk_owner_id tk)"
proof (cases rule: claim_inner_ok [OF claim_ok_inner [OF assms]])
  case (1 l current cc digest)
  then show ?thesis by (simp add: lease_of_def)
next
  case (2 k)
  note rec = record_claim_ok [OF 2(2)]
  from rec(1) have "t_leases (w_db w') = t_leases (w_db w) @ [new_lease E agent c k]"
    by (intro fresh_claim_leases(1)) (simp add: leased_db_def)
  with rec(5) fresh_claimD(2) [OF 2(1)] show ?thesis
    by (simp add: lease_of_def find_append_None new_lease_def)
qed

lemma fresh_ticket_run:
  assumes "claim E agent c w = (Inr tk, w')" and "\<not> tk_replay tk"
  shows "tk_run_id tk = ca_run_id c"
  using assms record_claim_ok(5)
  by (cases rule: claim_inner_ok [OF claim_ok_inner [OF assms(1)]]) force+

text \<open>
  C6. An idempotency key is executed at most once. A claim whose key already has a lease returns a replay
  ticket naming the run and the owner of that lease, only when the lease is finished and was made for
  the same intent, and leaves the database untouched. A claim whose key has no lease adds exactly one:
  running, for the claimed resource and run, and found under that key from then on.\<close>

theorem claim_key_idempotent:
  assumes "claim E agent c w = (Inr tk, w')"
  shows "case lease_of (execution_id_of E agent c) (w_db w) of
      Some l \<Rightarrow> tk_replay tk \<and> tk_run_id tk = le_run_id l \<and> tk_owner_id tk = le_owner_id l \<and>
        \<not> lease_active l \<and> w_db w' = w_db w \<and> w_committed w' = w_committed w
    | None \<Rightarrow> \<not> tk_replay tk \<and> (\<exists>l. t_leases (w_db w') = t_leases (w_db w) @ [l] \<and>
        lease_of (execution_id_of E agent c) (w_db w') = Some l \<and> le_state l = LeaseRunning \<and>
        le_resource_id l = resource_of agent c \<and> le_run_id l = ca_run_id c \<and> le_owner_id l = tk_owner_id tk)"
  using claim_run [OF assms] by blast

theorem claim_key_idempotent_witness:
  "\<exists>l. t_leases (w_db after_sample_claim) = [l] \<and> le_state l = LeaseRunning \<and>
       le_resource_id l = ''agent:dev'' \<and> le_run_id l = ''run-1''"
proof -
  have "resource_of sample_role sample_claim = ''agent:dev''" by code_simp
  with claim_key_idempotent [OF sample_claim_runs] show ?thesis
    by (auto simp: lease_of_def sample_claim_def)
qed

section \<open>Approvals\<close>

definition claimed_work :: "claim_args \<Rightarrow> db \<Rightarrow> work_item option" where
  "claimed_work c d =
     (case ca_work_item_id c of
        Some (x # xs) \<Rightarrow> find (\<lambda>r. w_work_item_id r = x # xs) (t_work_items d) | _ \<Rightarrow> None)"

lemma check_work_ok: "check_work agent c w = (Inr work, w') \<Longrightarrow> work = claimed_work c (w_db w)"
  by (auto simp: check_work_def claimed_work_def get_work_def denied_def bindS_Inr_iff
      split: option.splits list.splits if_splits)

lemma fresh_claim_approval:
  assumes "fresh_claim E agent c w k" and "requires_approval (cf_current k) (claimed_work c (w_db w))"
  obtains a e where "cf_approved k = Some a" "a \<in> set (t_approvals (w_db w))" "usable_approval a"
    "map_of (ap_metadata a) ''execution_intent_hash'' = Some (PStr (cf_digest k))"
    "ap_expires_at a = Some e" "e_clock E (w_tick w) < dt_utc e"
proof -
  have "cf_work k = claimed_work c (w_db w)" using check_work_ok [OF fresh_claimD(7) [OF assms(1)]] by simp
  with fresh_claimD(1,4) [OF assms(1)] assms(2) obtain a where a: "cf_approved k = Some a"
    "find usable_approval (valid_approvals agent (cf_digest k) (e_clock E (w_tick w)) (w_db w)) = Some a" by auto
  then have "usable_approval a" "a \<in> set (valid_approvals agent (cf_digest k) (e_clock E (w_tick w)) (w_db w))"
    by (auto simp: find_Some_iff)
  with a(1) show thesis by (cases "ap_expires_at a") (auto intro: that simp: valid_approvals_def)
qed

lemma find_key_in:
  assumes "x \<in> set xs" and "distinct (map key xs)"
  shows "find (\<lambda>y. key y = key x) xs = Some x"
  using assms by (induction xs) (auto simp: image_iff)

lemma consumed_approvals_keys: "map ap_approval_id (consumed_approvals E agent c k rows) = map ap_approval_id rows"
  by (simp add: consumed_approvals_def update_row_keys consume_approval_def split: option.splits)

text \<open>
  C7. An approval authorises one dispatch of the reviewed intent. When the claimed work item or the role
  demands approval, a fresh ticket is only given against an approval of the company's that is approved,
  has not expired at the time of the claim, has not been consumed, and carries the digest of exactly this
  intent (role configuration, payload, work item, key and operator); afterwards that approval names this
  execution as its consumer and can not be used again.\<close>

theorem claim_consumes_approval:
  assumes "claim E agent c w = (Inr tk, w')" and "\<not> tk_replay tk"
    and "find (\<lambda>r. ar_company_id r = ar_company_id agent \<and> ar_agent_id r = ar_agent_id agent)
           (t_roles (w_db w)) = Some current"
    and "requires_approval current (claimed_work c (w_db w))"
    and "\<forall>s. e_sha256 E s \<noteq> []"
  shows "\<exists>a \<in> set (t_approvals (w_db w)). \<exists>h e a'.
      intent_hash E current (ca_payload c) (ca_work_item_id c) = Inr h \<and>
      map_of (ap_metadata a) ''execution_intent_hash'' =
        Some (PStr (e_sha256 E (h @ '':'' @ ca_key c @ '':'' @ ca_actor_id c))) \<and>
      usable_approval a \<and> ap_expires_at a = Some e \<and> e_clock E (w_tick w) < dt_utc e \<and>
      find (\<lambda>x. ap_approval_id x = ap_approval_id a) (t_approvals (w_db w')) = Some a' \<and>
      map_of (ap_metadata a') ''consumed_execution_id'' = Some (PStr (tk_execution_id tk)) \<and>
      \<not> usable_approval a'"
proof -
  obtain k where k: "fresh_claim E agent c w k" and tk: "tk_execution_id tk = execution_id_of E agent c"
    and db: "non_work (w_db w') = non_work ((leased_db E agent c k (w_db w))
       \<lparr>t_reservations := t_reservations (w_db w) @ new_reservations E agent c k\<rparr>)"
    and uniq: "unique_ok (leased_db E agent c k (w_db w))"
    by (rule fresh_ticket [OF assms(1,2)])
  from fresh_claim_role [OF k] assms(3) have cur: "cf_current k = current" by simp
  obtain a e where a: "cf_approved k = Some a" "a \<in> set (t_approvals (w_db w))" "usable_approval a"
    "map_of (ap_metadata a) ''execution_intent_hash'' = Some (PStr (cf_digest k))"
    "ap_expires_at a = Some e" "e_clock E (w_tick w) < dt_utc e"
    by (rule fresh_claim_approval [OF k]) (use assms(4) cur in auto)
  obtain h where h: "intent_hash E current (ca_payload c) (ca_work_item_id c) = Inr h"
    "cf_digest k = e_sha256 E (h @ '':'' @ ca_key c @ '':'' @ ca_actor_id c)"
    using claim_intent_ok(4) [OF fresh_claimD(6) [OF k]] cur by auto
  have "distinct (map ap_approval_id (t_approvals (w_db w)))"
    using uniq by (simp add: unique_ok_def leased_db_def consumed_approvals_keys)
  then have find: "find (\<lambda>x. ap_approval_id x = ap_approval_id a) (t_approvals (w_db w)) = Some a"
    by (rule find_key_in [OF a(2)])
  have "find (\<lambda>x. ap_approval_id x = ap_approval_id a) (t_approvals (w_db w')) = Some (consume_approval E agent c a)"
    unfolding fresh_claim_leases(2) [OF db] consumed_approvals_def a(1)
    by (simp add: find_update_row [of ap_approval_id "consume_approval E agent c"] consume_approval_def [of _ _ _ _] find)
  moreover have "map_of (ap_metadata (consume_approval E agent c a)) ''consumed_execution_id'' =
      Some (PStr (tk_execution_id tk))" by (simp add: consume_approval_def tk)
  moreover have "\<not> usable_approval (consume_approval E agent c a)"
    using assms(5) by (simp add: usable_approval_def consume_approval_def dict_get_def
        py_truthy_def execution_id_of_def)
  ultimately show ?thesis using a(2-6) h(1) unfolding h(2) by blast
qed

definition gated_role :: agent_role where
  "gated_role = sample_role\<lparr>ar_escalation_policy := [(''approval_required'', PBool True)]\<rparr>"

definition gated_digest :: string where
  "gated_digest =
     (case intent_hash sample_env gated_role [] None of Inl e \<Rightarrow> [] | Inr h \<Rightarrow> ''h'' @ h @ '':k1:op'')"

definition gated_approval :: approval_request where
  "gated_approval = sample_approval\<lparr>ap_source_agent_id := ''dev'', ap_status := ApprovalStatus_APPROVED,
     ap_expires_at := Some (utc_dt 1000), ap_metadata := [(''execution_intent_hash'', PStr gated_digest)]\<rparr>"

definition gated_db :: db where
  "gated_db = ledger_db\<lparr>t_roles := [gated_role], t_approvals := [gated_approval]\<rparr>"

definition after_gated_claim :: world where
  "after_gated_claim = snd (claim (sample_env\<lparr>e_fk := False\<rparr>) gated_role sample_claim (world_of gated_db))"

lemma gated_db_tables [simp]:
  "w_db (world_of gated_db) = gated_db" "t_approvals gated_db = [gated_approval]"
  "t_roles gated_db = [gated_role]" "t_runs gated_db = []"
  by (simp_all add: world_of_def gated_db_def)

lemma gated_requires: "requires_approval gated_role (claimed_work sample_claim gated_db)"
  by code_simp

lemma gated_claim_runs:
  "claim (sample_env\<lparr>e_fk := False\<rparr>) gated_role sample_claim (world_of gated_db) =
   (Inr \<lparr>tk_execution_id = ''hacme:k1'', tk_run_id = ''run-1'', tk_owner_id = ''u'',
        tk_ceiling_usd = \<lparr>dec_value = 1, dec_places = 6\<rparr>, tk_replay = False\<rparr>, after_gated_claim)"
proof -
  have "fst (claim (sample_env\<lparr>e_fk := False\<rparr>) gated_role sample_claim (world_of gated_db)) =
     Inr \<lparr>tk_execution_id = ''hacme:k1'', tk_run_id = ''run-1'', tk_owner_id = ''u'',
        tk_ceiling_usd = \<lparr>dec_value = 1, dec_places = 6\<rparr>, tk_replay = False\<rparr>"
    by code_simp
  then show ?thesis by (simp add: after_gated_claim_def prod_eq_iff)
qed

theorem claim_consumes_approval_witness:
  "\<exists>a. find (\<lambda>x. ap_approval_id x = ap_approval_id gated_approval) (t_approvals (w_db after_gated_claim)) = Some a \<and>
       map_of (ap_metadata a) ''consumed_execution_id'' = Some (PStr ''hacme:k1'') \<and> \<not> usable_approval a"
  using claim_consumes_approval [OF gated_claim_runs, of gated_role] gated_requires
  by (auto simp: sample_env_def)

text \<open>
  C39. On a database that enforces foreign keys no dispatch that needs an approval is ever granted: the
  claim stores the run identifier in the approval and flushes, but the run is only created after the
  claim, so the foreign key of the approval to its run rejects the claim. What remains is a replay.\<close>

theorem gated_claim_needs_existing_run:
  assumes "claim E agent c w = (Inr tk, w')" and "e_fk E"
    and "find (\<lambda>r. ar_company_id r = ar_company_id agent \<and> ar_agent_id r = ar_agent_id agent)
           (t_roles (w_db w)) = Some current"
    and "requires_approval current (claimed_work c (w_db w))"
    and "ca_run_id c \<notin> set (map r_run_id (t_runs (w_db w)))"
  shows "tk_replay tk"
proof (rule ccontr)
  assume fresh: "\<not> tk_replay tk"
  obtain k where k: "fresh_claim E agent c w k" and fk: "e_fk E \<longrightarrow> foreign_ok (leased_db E agent c k (w_db w))"
    by (rule fresh_ticket [OF assms(1) fresh])
  from fresh_claim_role [OF k] assms(3) have cur: "cf_current k = current" by simp
  obtain a e where a: "cf_approved k = Some a" "a \<in> set (t_approvals (w_db w))"
    by (rule fresh_claim_approval [OF k]) (use assms(4) cur in auto)
  have "consume_approval E agent c a \<in> set (t_approvals (leased_db E agent c k (w_db w)))"
    using a by (force simp: leased_db_def consumed_approvals_def update_row_def)
  moreover have "list_all (\<lambda>r. ref (map r_run_id (t_runs (w_db w))) (ap_run_id r))
      (t_approvals (leased_db E agent c k (w_db w)))"
    using fk assms(2) by (auto simp: foreign_ok_def list_all_iff Let_def leased_db_def)
  ultimately show False using assms(5) by (auto simp: list_all_iff ref_def consume_approval_def)
qed

definition replay_db :: db where
  "replay_db = gated_db\<lparr>t_leases := [\<lparr>le_execution_id = ''hacme:k1'', le_company_id = ''acme'',
     le_resource_id = ''agent:dev'', le_intent_hash = gated_digest, le_run_id = ''run-0'', le_owner_id = ''w'',
     le_state = LeaseSucceeded, le_control_action = ''resume'', le_expires_at = 0, le_created_at = 0\<rparr>]\<rparr>"

theorem gated_claim_needs_existing_run_witness:
  "\<exists>tk w'. claim sample_env gated_role sample_claim (world_of replay_db) = (Inr tk, w') \<and> tk_replay tk"
proof -
  have "\<not> isl (fst (claim sample_env gated_role sample_claim (world_of replay_db)))" by code_simp
  then obtain tk where "fst (claim sample_env gated_role sample_claim (world_of replay_db)) = Inr tk"
    by (cases "fst (claim sample_env gated_role sample_claim (world_of replay_db))") auto
  then obtain w' where run: "claim sample_env gated_role sample_claim (world_of replay_db) = (Inr tk, w')"
    by (metis prod.collapse)
  have "requires_approval gated_role (claimed_work sample_claim replay_db)" by code_simp
  then have "tk_replay tk"
    by (intro gated_claim_needs_existing_run [OF run, of gated_role])
       (simp_all add: world_of_def replay_db_def sample_env_def gated_role_def sample_role_def)
  with run show ?thesis by blast
qed

end
