(* ===== verification/Lease_Lifecycle.thy ===== *)
theory Lease_Lifecycle
  imports Ledger_Safety
begin

text \<open>
  Leases over time. The ledger commands (claim, settle, recover, request for control, report of uncertain
  effects) run one after the other, each in its own transaction. At most one lease of a resource is
  active in every reachable database, provided uncertain effects are only reported of leases that are
  still active; the code does not check that, and two theorems state what follows when it happens.
  A dispatch is settled at most once, and its settlement turns each of its reservations into exactly
  one usage row.
\<close>

section \<open>The lease table\<close>

definition active_key :: "execution_lease \<Rightarrow> string \<times> string" where
  "active_key l = (le_company_id l, le_resource_id l)"

definition leases_ok :: "execution_lease list \<Rightarrow> bool" where
  "leases_ok ls \<longleftrightarrow> distinct (map le_execution_id ls) \<and> distinct (map active_key (filter lease_active ls))"

text \<open>A predicate on the leases, of the session's database and of the committed one.\<close>

definition on_leases :: "(execution_lease list \<Rightarrow> bool) \<Rightarrow> world \<Rightarrow> bool" where
  "on_leases P w \<longleftrightarrow> P (t_leases (w_db w)) \<and> P (t_leases (w_committed w))"

text \<open>An update that makes no lease active that was not keeps the invariant.\<close>

lemma leases_ok_update:
  assumes "leases_ok ls"
    and "\<And>l. le_execution_id (f l) = le_execution_id l" "\<And>l. active_key (f l) = active_key l"
    and "\<And>l. l \<in> set ls \<Longrightarrow> le_execution_id l = i \<Longrightarrow> lease_active (f l) \<Longrightarrow> lease_active l"
  shows "leases_ok (update_row le_execution_id i f ls)"
proof -
  have sub: "set (map active_key (filter lease_active (update_row le_execution_id i f ks))) \<subseteq>
      set (map active_key (filter lease_active ks))" if "set ks \<subseteq> set ls" for ks
    using that assms(3,4) by (force simp: update_row_def)
  have "distinct (map active_key (filter lease_active (update_row le_execution_id i f ks)))"
    if "set ks \<subseteq> set ls" "distinct (map active_key (filter lease_active ks))" for ks
    using that
  proof (induction ks)
    case (Cons k ks)
    from Cons.prems sub [of ks] assms(3,4) show ?case
      by (auto simp: update_row_def Cons.IH [unfolded update_row_def] split: if_splits)
  qed (simp add: update_row_def)
  with assms(1) show ?thesis
    by (simp add: leases_ok_def update_row_keys [of le_execution_id, OF assms(2)])
qed

lemma find_unique:
  assumes "x \<in> set xs" and "P x" and "\<And>y. y \<in> set xs \<Longrightarrow> P y \<Longrightarrow> y = x"
  shows "find P xs = Some x"
proof -
  from assms(1,2) obtain y where y: "find P xs = Some y" by (metis find_None_iff not_None_eq)
  then have "y \<in> set xs" "P y" by (auto simp: find_Some_iff)
  with assms(3) y show ?thesis by simp
qed

lemma leases_ok_append:
  assumes "leases_ok ls" and "find (\<lambda>k. le_execution_id k = le_execution_id l) ls = None"
    and "find (\<lambda>k. active_key k = active_key l \<and> lease_active k) ls = None"
  shows "leases_ok (ls @ [l])"
  using assms by (auto simp: leases_ok_def find_None_iff)

section \<open>Commands that leave the leases alone\<close>

text \<open>
  What the lifecycle needs of the audit trail, the work items, the approvals, the runs and the usage
  rows: an operation on them keeps the leases of the session's database and commits nothing.
\<close>

locale lease_frame =
  fixes m :: "(world, 'a) op"
  assumes leases: "keeps (\<lambda>w. P (t_leases (w_db w))) m"
    and committed: "keeps (\<lambda>w. Q (w_committed w)) m"
begin

lemma on_leases: "keeps (on_leases P) m"
proof (rule keepsI)
  fix w assume "on_leases P w"
  then show "on_leases P (snd (m w))"
    using keepsD [OF leases [of P], of w] keepsD [OF committed [of "\<lambda>d. P (t_leases d)"], of w]
    by (simp add: on_leases_def)
qed

lemma same_leases: "m w = (r, w') \<Longrightarrow> t_leases (w_db w') = t_leases (w_db w)"
  by (rule keeps_run_eq [OF leases])

lemma same_committed: "m w = (r, w') \<Longrightarrow> w_committed w' = w_committed w"
  by (rule keeps_run_eq [OF committed])

end

lemma keeps_leases_of_core:
  assumes "\<And>P. keeps (\<lambda>w. P (ledger_core (w_db w))) m"
  shows "keeps (\<lambda>w. P (t_leases (w_db w))) m"
  using assms [of "\<lambda>c. P (t_leases c)"] by simp

lemma keeps_leases_of_non_work:
  assumes "\<And>P. keeps (\<lambda>w. P (non_work (w_db w))) m"
  shows "keeps (\<lambda>w. P (t_leases (w_db w))) m"
  using assms [of "\<lambda>c. P (t_leases c)"] by simp

interpretation audit_frame: lease_frame "ledger_audit E co res act who det" for E co res act who det
  by unfold_locales (rule keeps_leases_of_core keeps_ledger_audit)+

interpretation work_frame: lease_frame "transition_work E work state who" for E work state who
  by unfold_locales (rule keeps_leases_of_non_work keeps_transition_work)+

interpretation start_frame: lease_frame "start_work E c work" for E c work
  by unfold_locales (rule keeps_leases_of_non_work keeps_start_work)+

interpretation request_frame: lease_frame "store_request_approval E a" for E a
proof
  show "keeps (\<lambda>w. P (t_leases (w_db w))) (store_request_approval E a)" for P
    unfolding store_request_approval_def by (intro keeps_intros keeps_write) simp
  show "keeps (\<lambda>w. Q (w_committed w)) (store_request_approval E a)" for Q
    unfolding store_request_approval_def by (intro keeps_intros)
qed

interpretation usage_frame: lease_frame "store_record_budget_usage E u" for E u
proof
  show "keeps (\<lambda>w. P (t_leases (w_db w))) (store_record_budget_usage E u)" for P
    unfolding store_record_budget_usage_def by (intro keeps_intros keeps_write) simp
  show "keeps (\<lambda>w. Q (w_committed w)) (store_record_budget_usage E u)" for Q
    unfolding store_record_budget_usage_def by (intro keeps_intros)
qed

interpretation reservation_frame: lease_frame "settle_reservation E tk co cost failed est r"
  for E tk co cost failed est r
proof
  show "keeps (\<lambda>w. P (t_leases (w_db w))) (settle_reservation E tk co cost failed est r)" for P
    unfolding settle_reservation_def by (intro keeps_intros keeps_write usage_frame.leases) simp
  show "keeps (\<lambda>w. Q (w_committed w)) (settle_reservation E tk co cost failed est r)" for Q
    unfolding settle_reservation_def by (intro keeps_intros usage_frame.committed)
qed

interpretation evidence_frame: lease_frame "create_run_evidence_artifact E a" for E a
proof
  show "keeps (\<lambda>w. P (t_leases (w_db w))) (create_run_evidence_artifact E a)" for P
    unfolding create_run_evidence_artifact_def create_artifact_def list_approvals_def list_budget_usage_def
      list_audit_events_def
    by (intro keeps_intros keeps_write keeps_leases_of_core [OF keeps_domain_event_audits(1)]) simp
  show "keeps (\<lambda>w. Q (w_committed w)) (create_run_evidence_artifact E a)" for Q
    unfolding create_run_evidence_artifact_def create_artifact_def list_approvals_def list_budget_usage_def
      list_audit_events_def
    by (intro keeps_intros keeps_domain_event_audits(3))
qed

lemma keeps_validate_run [keeps_intros]: "keeps P (validate_run_transition i target)"
  unfolding validate_run_transition_def get_agent_run_def
  by (auto split: prod.splits sum.splits intro!: keeps_intros)

lemma keeps_get_run [keeps_intros]: "keeps P (get_agent_run i)"
  unfolding get_agent_run_def by (rule keeps_intros)

interpretation run_update_frame: lease_frame "update_agent_run_status E i status u" for E i status u
proof
  show "keeps (\<lambda>w. P (t_leases (w_db w))) (update_agent_run_status E i status u)" for P
    unfolding update_agent_run_status_def by (intro keeps_intros keeps_write) simp
  show "keeps (\<lambda>w. Q (w_committed w)) (update_agent_run_status E i status u)" for Q
    unfolding update_agent_run_status_def by (intro keeps_intros)
qed

interpretation run_end_frame: lease_frame "audit_run_end E agent i who l action evs det"
  for E agent i who l action evs det
proof
  show "keeps (\<lambda>w. P (t_leases (w_db w))) (audit_run_end E agent i who l action evs det)" for P
    unfolding audit_run_end_def append_agent_run_audit_def
    by (intro keeps_intros keeps_leases_of_core [OF keeps_domain_event_audits(1)]
        keeps_leases_of_core [OF keeps_new_audit(1)])
  show "keeps (\<lambda>w. Q (w_committed w)) (audit_run_end E agent i who l action evs det)" for Q
    unfolding audit_run_end_def append_agent_run_audit_def
    by (intro keeps_intros keeps_domain_event_audits(3) keeps_new_audit(3))
qed

interpretation fail_frame: lease_frame "fail_agent_wakeup_run E agent i ie who l trig cat msg cancelled"
  for E agent i ie who l trig cat msg cancelled
proof
  show "keeps (\<lambda>w. P (t_leases (w_db w))) (fail_agent_wakeup_run E agent i ie who l trig cat msg cancelled)" for P
    unfolding fail_agent_wakeup_run_def build_agent_wakeup_completion_event_def
    by (intro keeps_intros evidence_frame.leases run_update_frame.leases run_end_frame.leases)
  show "keeps (\<lambda>w. Q (w_committed w)) (fail_agent_wakeup_run E agent i ie who l trig cat msg cancelled)" for Q
    unfolding fail_agent_wakeup_run_def build_agent_wakeup_completion_event_def
    by (intro keeps_intros evidence_frame.committed run_update_frame.committed run_end_frame.committed)
qed

section \<open>Every command keeps the invariant\<close>

lemma keeps_on_prims [keeps_intros]:
  "keeps (on_leases P) (now_utc E)" "keeps (on_leases P) (generate_id E p)"
  "keeps (on_leases P) (uuid4_hex E)" "keeps (on_leases P) checkpoint"
  by (auto simp: keeps_def on_leases_def)

lemma keeps_on_write: "(\<And>d. P (t_leases d) \<Longrightarrow> P (t_leases (g d))) \<Longrightarrow> keeps (on_leases P) (write_db g)"
  by (auto simp: keeps_def on_leases_def)

lemma keeps_bind_query:
  "(\<And>w. P w \<Longrightarrow> P (snd (f (q (w_db w)) w))) \<Longrightarrow> keeps P (bindS (query_db q) f)"
  by (simp add: keeps_def)

lemma keeps_of_readonly: "readonly m \<Longrightarrow> keeps P m"
  by (simp add: keeps_def readonly_def)

lemma keeps_denied [keeps_intros]: "keeps P (denied reason n)"
  by (simp add: denied_def keeps_intros)

lemmas frame_keeps = audit_frame.on_leases work_frame.on_leases start_frame.on_leases
  request_frame.on_leases reservation_frame.on_leases fail_frame.on_leases

text \<open>Writing a lease that the session holds and that is active.\<close>

lemma write_active_lease:
  assumes "on_leases leases_ok w" and "l \<in> set (t_leases (w_db w))" and "lease_active l"
    and "\<And>l. le_execution_id (f l) = le_execution_id l" "\<And>l. active_key (f l) = active_key l"
  shows "on_leases leases_ok (snd (write_lease (le_execution_id l) f w))"
proof -
  have "leases_ok (update_row le_execution_id (le_execution_id l) f (t_leases (w_db w)))"
  proof (rule leases_ok_update)
    show "leases_ok (t_leases (w_db w))" using assms(1) by (simp add: on_leases_def)
    then have "k = l" if "k \<in> set (t_leases (w_db w))" "le_execution_id k = le_execution_id l" for k
      using that assms(2) by (auto simp: leases_ok_def distinct_map inj_on_def)
    then show "lease_active k" if "k \<in> set (t_leases (w_db w))" "le_execution_id k = le_execution_id l" for k
      using that assms(3) by blast
  qed (use assms in auto)
  with assms(1) show ?thesis by (simp add: write_lease_def on_leases_def)
qed

lemma keeps_write_inactive:
  assumes "\<And>l. le_execution_id (f l) = le_execution_id l" "\<And>l. active_key (f l) = active_key l"
    and "\<And>l. lease_active (f l) \<Longrightarrow> lease_active l"
  shows "keeps (on_leases leases_ok) (write_lease i f)"
  unfolding write_lease_def
  by (rule keeps_on_write) (simp add: leases_ok_update assms)

lemma run_then_keeps:
  assumes "on_leases P (snd (m w))" and "\<And>a. keeps (on_leases P) (f a)"
  shows "on_leases P (snd (bindS m f w))"
  using assms keepsD by (fastforce simp: bindS_def split: prod.splits sum.splits)

lemma find_Some_in: "find P xs = Some x \<Longrightarrow> x \<in> set xs"
  by (auto simp: find_Some_iff)

lemma refuse_active_ok:
  assumes "on_leases leases_ok w" and "l \<in> set (t_leases (w_db w))"
  shows "on_leases leases_ok (snd (refuse_active E l now w))"
proof -
  have "on_leases leases_ok (snd (mark_abandoned E l now w))"
  proof (cases "le_state l = LeaseRunning \<and> le_expires_at l \<le> now")
    case True
    then have "lease_active l" by (simp add: lease_active_def)
    then have "on_leases leases_ok (snd (write_lease (le_execution_id l) (\<lambda>l. l\<lparr>le_state := LeaseRecoveryRequired\<rparr>) w))"
      using assms by (intro write_active_lease) (auto simp: active_key_def)
    then show ?thesis
      unfolding mark_abandoned_def if_P [OF True] by (rule run_then_keeps) (intro keeps_intros frame_keeps)
  qed (use assms in \<open>auto simp: mark_abandoned_def\<close>)
  then show ?thesis unfolding refuse_active_def by (rule run_then_keeps) (rule keeps_intros)
qed

lemma keeps_find_approval: "keeps (on_leases P) (find_approval E agent current c work digest cc now)"
  unfolding find_approval_def ask_for_approval_def by (intro keeps_intros frame_keeps)

lemma keeps_claim_prepare: "keeps (on_leases leases_ok) (claim_prepare E agent c)"
proof -
  have tail: "keeps (on_leases leases_ok) (bindS (check_heartbeat agent current c now) (\<lambda>_.
      bindS (check_work agent c) (\<lambda>work.
      bindS (find_approval E agent current c work digest cc now) (\<lambda>approved.
      bindS (uuid4_hex E) (\<lambda>owner_id. bindS (check_budgets E agent current c x now) (f work approved owner_id))))))"
    if "\<And>a b o' s. keeps (on_leases leases_ok) (f a b o' s)"
    for current now digest cc x and f :: "_ \<Rightarrow> _ \<Rightarrow> _ \<Rightarrow> _ \<Rightarrow> (world, execution_ticket + claim_facts) op"
    by (intro keeps_intros keeps_find_approval that keeps_of_readonly readonly_claim_steps readonly_check_work)
  have main: "on_leases leases_ok (snd ((case existing of
      Some l \<Rightarrow> if le_intent_hash l \<noteq> digest then denied ''idempotency_key_conflict'' 409
        else if \<not> lease_active l then retS (tk l) else refuse_active E l now
    | None \<Rightarrow> bindS (query_db q) (\<lambda>active. case active of Some l \<Rightarrow> refuse_active E l now | None \<Rightarrow> m)) w))"
    if "on_leases leases_ok w" "existing = find p (t_leases (w_db w))" "keeps (on_leases leases_ok) m"
      "\<And>d. q d = find p' (t_leases d)"
    for existing digest tk now q p p' w and m :: "(world, execution_ticket + claim_facts) op"
  proof -
    show ?thesis
    proof (cases existing)
      case None
      then show ?thesis
        using keepsD [OF that(3,1)] that(1,4)
        by (cases "find p' (t_leases (w_db w))") (auto dest: find_Some_in intro: refuse_active_ok)
    next
      case (Some l)
      then have "l \<in> set (t_leases (w_db w))" using that(2) by (metis find_Some_in)
      with Some that(1) show ?thesis by (simp add: denied_def refuse_active_ok)
    qed
  qed
  show ?thesis
    unfolding claim_prepare_def get_lease_def
    apply (rule keeps_bind [OF keeps_on_prims(1)])
    apply (rule keeps_bind [OF keeps_of_readonly [OF readonly_claim_steps(1)]])
    apply (clarsimp split: prod.split)
    apply (rule keeps_bind_query)
    apply (erule main [OF _ refl tail])
     apply (rule keeps_intros)
    apply (rule refl)
    done
qed

lemma keeps_claim: "keeps (on_leases leases_ok) (claim E agent c)"
proof -
  have "keeps (on_leases leases_ok) (claim_inner E agent c)"
  proof (rule keepsI)
    fix w assume ok: "on_leases leases_ok w"
    obtain r w1 where prep: "claim_prepare E agent c w = (r, w1)" by force
    have ok1: "on_leases leases_ok w1" by (rule keepsD_run [OF keeps_claim_prepare ok prep])
    show "on_leases leases_ok (snd (claim_inner E agent c w))"
    proof (cases r)
      case (Inl e)
      with prep ok1 show ?thesis by (simp add: claim_inner_def bindS_step)
    next
      case (Inr res)
      from prep [unfolded Inr] show ?thesis
      proof (cases rule: claim_prepare_ok)
        case replay
        with prep Inr ok1 show ?thesis by (simp add: claim_inner_def bindS_step)
      next
        case (fresh k)
        let ?add = "write_db (\<lambda>d. d\<lparr>t_leases := t_leases d @ [new_lease E agent c k]\<rparr>)"
        have "leases_ok (t_leases (w_db w1) @ [new_lease E agent c k])"
          using ok1 fresh_claimD(2,3) [OF fresh(2)] fresh(3)
          by (intro leases_ok_append) (simp_all add: on_leases_def new_lease_def active_key_def)
        with ok1 have "on_leases leases_ok (snd (?add w1))" by (simp add: on_leases_def)
        then have "on_leases leases_ok (snd (record_claim E agent c k w1))"
          unfolding record_claim_def
          by (rule run_then_keeps) (intro keeps_intros keeps_on_write frame_keeps; simp)
        with prep Inr fresh(1) show ?thesis by (simp add: claim_inner_def bindS_step)
      qed
    qed
  qed
  moreover have "keeps (on_leases leases_ok) (case e of ExecutionDenied reason code \<Rightarrow>
        bindS (get_company (ar_company_id agent)) (\<lambda>company. bindS (whenS (company \<noteq> None)
          (bindS (ledger_audit E (ar_company_id agent) (resource_of agent c) ''execution.denied'' (ca_actor_id c)
             [(''reason'', PStr reason), (''external_dispatch'', PBool False)]) (\<lambda>_. checkpoint))) (\<lambda>_. raiseS e))
      | _ \<Rightarrow> raiseS e)" for e
    unfolding get_company_def by (cases e) (simp_all, (intro keeps_intros frame_keeps)+)
  ultimately show ?thesis unfolding claim_def by (rule keeps_catch)
qed

lemma keeps_settle: "keeps (on_leases leases_ok) (settle E tk cost failed est)"
  unfolding settle_def get_lease_def
  by (intro keeps_intros frame_keeps keeps_on_write keeps_write_inactive)
     (auto simp: active_key_def lease_active_def split: if_splits)

lemma keeps_recover: "keeps (on_leases leases_ok) (recover E run_id co reason who)"
  unfolding recover_def find_run_lease_def
proof (rule keeps_bind_query, goal_cases)
  case (1 w)
  show ?case
  proof (cases "find (\<lambda>l. le_company_id l = co \<and> le_run_id l = run_id) (t_leases (w_db w))")
    case None
    with 1 show ?thesis by (simp add: denied_def)
  next
    case (Some l)
    note l = find_Some_in [OF Some]
    let ?w1 = "w\<lparr>w_tick := Suc (w_tick w)\<rparr>"
    let ?open = "write_lease (le_execution_id l) (\<lambda>l. l\<lparr>le_state := LeaseRunning\<rparr>)"
    have open_ok: "on_leases leases_ok (snd (?open ?w1))" if "lease_active l"
      using 1 l that by (intro write_active_lease) (auto simp: on_leases_def active_key_def)
    have rest: "on_leases leases_ok (snd (bindS ?open f ?w1))"
      if "lease_active l" "\<And>u. keeps (on_leases leases_ok) (f u)" for f :: "unit \<Rightarrow> (world, pydict) op"
      using open_ok [OF that(1)] that(2) by (rule run_then_keeps)
    show ?thesis
    proof (cases "lease_active l")
      case True
      from 1 have ok1: "on_leases leases_ok ?w1" by (simp add: on_leases_def)
      have now: "bindS (bindS (now_utc E) (\<lambda>t. retS (t < le_expires_at l))) f w =
          f (e_clock E (w_tick w) < le_expires_at l) ?w1" for f :: "bool \<Rightarrow> (world, pydict) op"
        by (simp add: bindS_run)
      show ?thesis
        unfolding Some option.case if_P [OF True] now
        apply (simp add: ok1)
        apply (intro impI rest [OF True] keeps_intros keeps_settle frame_keeps)
         apply (simp_all add: get_role_def get_work_def)
         apply (intro keeps_intros frame_keeps)+
        done
    next
      case False
      with 1 Some show ?thesis by simp
    qed
  qed
qed

lemma keeps_request_control: "keeps (on_leases leases_ok) (request_control E run_id co action reason who)"
  unfolding request_control_def find_run_lease_def get_agent_run_def get_role_def
  by (auto split: option.splits intro!: keeps_intros frame_keeps keeps_write_inactive
      simp: active_key_def lease_active_def)

lemma mark_uncertain_ok:
  assumes "on_leases leases_ok w"
    and "\<And>l. lease_of (tk_execution_id tk) (w_db w) = Some l \<Longrightarrow> lease_active l"
  shows "on_leases leases_ok (snd (mark_uncertain E tk w))"
proof (cases "lease_of (tk_execution_id tk) (w_db w)")
  case None
  with assms(1) show ?thesis by (simp add: mark_uncertain_def get_lease_def lease_of_def denied_def)
next
  case (Some l)
  let ?w1 = "w\<lparr>w_tick := Suc (w_tick w)\<rparr>"
  from assms(1) have ok1: "on_leases leases_ok ?w1" by (simp add: on_leases_def)
  have step: "on_leases leases_ok (snd (write_lease (le_execution_id l)
      (\<lambda>l. l\<lparr>le_state := LeaseRecoveryRequired, le_expires_at := e_clock E (w_tick w)\<rparr>) ?w1))"
    using Some assms(2) find_Some_in [OF Some [unfolded lease_of_def]] ok1
    by (intro write_active_lease) (auto simp: active_key_def)
  have rest: "on_leases leases_ok (snd (bindS (write_lease (le_execution_id l)
      (\<lambda>l. l\<lparr>le_state := LeaseRecoveryRequired, le_expires_at := e_clock E (w_tick w)\<rparr>)) f ?w1))"
    if "\<And>u. keeps (on_leases leases_ok) (f u)" for f :: "unit \<Rightarrow> (world, unit) op"
    using step that by (rule run_then_keeps)
  from Some assms(1) show ?thesis
    by (simp add: mark_uncertain_def get_lease_def lease_of_def denied_def)
       (intro impI rest keeps_intros frame_keeps)
qed

section \<open>Sequences of commands\<close>

datatype ledger_command =
    CmdClaim agent_role claim_args
  | CmdSettle execution_ticket rat bool bool
  | CmdRecover string string string string
  | CmdRequestControl string string string string string
  | CmdMarkUncertain execution_ticket

fun ledger_op :: "env \<Rightarrow> ledger_command \<Rightarrow> (world, unit) op" where
  "ledger_op E (CmdClaim agent c) = bindS (claim E agent c) (\<lambda>_. retS ())"
| "ledger_op E (CmdSettle tk cost failed est) = settle E tk cost failed est"
| "ledger_op E (CmdRecover run_id co reason who) = bindS (recover E run_id co reason who) (\<lambda>_. retS ())"
| "ledger_op E (CmdRequestControl run_id co action reason who) =
     bindS (request_control E run_id co action reason who) (\<lambda>_. retS ())"
| "ledger_op E (CmdMarkUncertain tk) = mark_uncertain E tk"

text \<open>Uncertain effects are reported of a lease that is still active.\<close>

fun timely :: "ledger_command \<Rightarrow> db \<Rightarrow> bool" where
  "timely (CmdMarkUncertain tk) d \<longleftrightarrow>
     (case lease_of (tk_execution_id tk) d of None \<Rightarrow> True | Some l \<Rightarrow> lease_active l)"
| "timely _ d \<longleftrightarrow> True"

inductive ledger_reachable :: "env \<Rightarrow> world \<Rightarrow> world \<Rightarrow> bool" for E where
  reach_refl: "ledger_reachable E w w"
| reach_step: "ledger_reachable E w w1 \<Longrightarrow> timely cmd (w_db w1) \<Longrightarrow>
    ledger_reachable E w (snd (in_transaction (ledger_op E cmd) w1))"

lemma in_transaction_on_leases:
  assumes "on_leases P (snd (m w))"
  shows "on_leases P (snd (in_transaction m w))"
  using assms by (auto simp: in_transaction_def on_leases_def split: prod.splits sum.splits)

lemma ledger_op_ok:
  assumes "on_leases leases_ok w" and "timely cmd (w_db w)"
  shows "on_leases leases_ok (snd (ledger_op E cmd w))"
proof (cases cmd)
  case (CmdMarkUncertain tk)
  with assms show ?thesis by (auto intro: mark_uncertain_ok)
qed (use assms(1) in \<open>auto intro!: run_then_keeps keepsD keeps_intros keeps_claim keeps_settle keeps_recover
      keeps_request_control\<close>)

definition active_leases :: "string \<Rightarrow> string \<Rightarrow> db \<Rightarrow> execution_lease list" where
  "active_leases company_id resource d =
     filter (\<lambda>l. lease_active l \<and> le_company_id l = company_id \<and> le_resource_id l = resource) (t_leases d)"

lemma distinct_map_filter_le: "distinct (map f xs) \<Longrightarrow> length (filter (\<lambda>x. f x = k) xs) \<le> 1"
proof (induction xs)
  case (Cons x xs)
  then have "filter (\<lambda>y. f y = f x) xs = []" by (auto simp: filter_empty_conv image_iff)
  with Cons show ?case by auto
qed simp

lemma leases_ok_active: "leases_ok (t_leases d) \<Longrightarrow> length (active_leases co res d) \<le> 1"
  using distinct_map_filter_le [of active_key "filter lease_active (t_leases d)" "(co, res)"]
  by (simp add: leases_ok_def active_leases_def active_key_def conj_commute)



section \<open>Settlement\<close>

definition settled :: "execution_reservation \<Rightarrow> execution_reservation" where
  "settled r = r\<lparr>rs_state := Settled\<rparr>"

definition res_key :: "execution_reservation \<Rightarrow> string \<times> string" where
  "res_key r = (rs_execution_id r, rs_budget_id r)"

definition settle_keys :: "(string \<times> string) set \<Rightarrow> execution_reservation list \<Rightarrow> execution_reservation list" where
  "settle_keys K = map (\<lambda>r. if res_key r \<in> K then settled r else r)"

definition charged :: "execution_ticket \<Rightarrow> rat \<Rightarrow> execution_reservation list \<Rightarrow> budget_usage list \<Rightarrow> bool" where
  "charged tk cost rs us \<longleftrightarrow> list_all2 (\<lambda>r u. bu_budget_id u = rs_budget_id r \<and>
     bu_cost_usd u = f64_round cost \<and> bu_run_id u = Some (tk_run_id tk)) rs us"

lemma settle_reservation_ok:
  assumes "settle_reservation E tk co cost failed est r w = (Inr u, w')"
  shows "rs_state r = Reserved \<and> (\<exists>x. charged tk cost [r] [x] \<and> w_db w' = (w_db w)
     \<lparr>t_reservations := settle_keys {res_key r} (t_reservations (w_db w)), t_usage := t_usage (w_db w) @ [x]\<rparr>)"
proof -
  from assms obtain u0 w0 x where run: "store_record_budget_usage E u0 w0 = (Inr x, w')"
    and u0: "bu_budget_id u0 = rs_budget_id r" "bu_cost_usd u0 = f64_round cost" "bu_run_id u0 = Some (tk_run_id tk)"
    and w0: "w_db w0 = (w_db w)\<lparr>t_reservations := settle_keys {res_key r} (t_reservations (w_db w))\<rparr>"
    and r: "rs_state r = Reserved"
    by (auto simp: settle_reservation_def bindS_Inr_iff guardS_run settle_keys_def res_key_def settled_def
        update_row_def split: if_splits)
  from store_record_run [OF run] u0 have "charged tk cost [r] [x]"
    by (auto simp: charged_def normalize_budget_usage_def non_negative_usd_ok)
  with store_record_run [OF run] w0 r show ?thesis by auto
qed

lemma settle_keys_Un: "settle_keys K (settle_keys L rs) = settle_keys (K \<union> L) rs"
  by (auto simp: settle_keys_def settled_def res_key_def)

lemma settle_reservations_ok:
  assumes "forS rs (settle_reservation E tk co cost failed est) w = (Inr us, w')"
  shows "(\<forall>r \<in> set rs. rs_state r = Reserved) \<and> (\<exists>xs. charged tk cost rs xs \<and> w_db w' = (w_db w)
     \<lparr>t_reservations := settle_keys (res_key ` set rs) (t_reservations (w_db w)), t_usage := t_usage (w_db w) @ xs\<rparr>)"
  using assms
proof (induction rs arbitrary: w us)
  case Nil
  then show ?case by (simp add: charged_def settle_keys_def)
next
  case (Cons r rs)
  from Cons.prems obtain u w1 us' where run: "settle_reservation E tk co cost failed est r w = (Inr u, w1)"
    "forS rs (settle_reservation E tk co cost failed est) w1 = (Inr us', w')" by (auto simp: bindS_Inr_iff)
  from settle_reservation_ok [OF run(1)] obtain x where x: "rs_state r = Reserved" "charged tk cost [r] [x]"
    "w_db w1 = (w_db w)\<lparr>t_reservations := settle_keys {res_key r} (t_reservations (w_db w)),
       t_usage := t_usage (w_db w) @ [x]\<rparr>" by blast
  from Cons.IH [OF run(2)] obtain xs where xs: "\<forall>r \<in> set rs. rs_state r = Reserved" "charged tk cost rs xs"
    "w_db w' = (w_db w1)\<lparr>t_reservations := settle_keys (res_key ` set rs) (t_reservations (w_db w1)),
       t_usage := t_usage (w_db w1) @ xs\<rparr>" by blast
  have "charged tk cost (r # rs) (x # xs)" using x(2) xs(2) by (simp add: charged_def)
  moreover have "insert (res_key r) (res_key ` set rs) = res_key ` set rs \<union> {res_key r}" by simp
  ultimately show ?case
    using x(1,3) xs(1,3) by (intro conjI exI [of _ "x # xs"]) (simp_all add: settle_keys_Un)
qed

lemma settle_own_reservations:
  "settle_keys (res_key ` set (reservations_of i d)) (t_reservations d) =
   map (\<lambda>r. if rs_execution_id r = i then settled r else r) (t_reservations d)"
  by (auto simp: settle_keys_def reservations_of_def res_key_def)

definition settled_db ::
  "execution_ticket \<Rightarrow> rat \<Rightarrow> bool \<Rightarrow> bool \<Rightarrow> execution_lease \<Rightarrow> db \<Rightarrow> db" where
  "settled_db tk cost failed est l d =
     d\<lparr>t_runs := update_row r_run_id (tk_run_id tk) (\<lambda>r. r\<lparr>r_cost_usd := f64_round cost,
          r_metadata := AList.update ''cost_is_estimate'' (PBool est) (r_metadata r)\<rparr>) (t_runs d),
       t_leases := update_row le_execution_id (le_execution_id l)
          (\<lambda>l. l\<lparr>le_state := (if failed then LeaseFailed else LeaseSucceeded)\<rparr>) (t_leases d)\<rparr>"

lemma settle_ok:
  assumes "settle E tk cost failed est w = (Inr u, w')"
  obtains l us w1 r where
    "find (\<lambda>l. le_execution_id l = tk_execution_id tk) (t_leases (w_db w)) = Some l"
    "forS (reservations_of (tk_execution_id tk) (w_db w))
       (settle_reservation E tk (le_company_id l) cost failed est) w = (Inr us, w1)"
    "find (\<lambda>r. r_run_id r = tk_run_id tk \<and> r_company_id r = le_company_id l) (t_runs (w_db w1)) = Some r"
    "w_db w' = settled_db tk cost failed est l (w_db w1)"
proof -
  from assms obtain l where l: "find (\<lambda>l. le_execution_id l = tk_execution_id tk) (t_leases (w_db w)) = Some l"
    by (cases "find (\<lambda>l. le_execution_id l = tk_execution_id tk) (t_leases (w_db w))")
       (auto simp: settle_def get_lease_def denied_def)
  have own: "\<not> (le_owner_id l \<noteq> tk_owner_id tk \<or> le_state l \<noteq> LeaseRunning)"
  proof
    assume "le_owner_id l \<noteq> tk_owner_id tk \<or> le_state l \<noteq> LeaseRunning"
    with assms l show False by (simp add: settle_def get_lease_def denied_def)
  qed
  let ?loop = "forS (reservations_of (tk_execution_id tk) (w_db w))
      (settle_reservation E tk (le_company_id l) cost failed est)"
  let ?run = "\<lambda>v. find (\<lambda>r. r_run_id r = tk_run_id tk \<and> r_company_id r = le_company_id l) (t_runs (w_db v))"
  obtain x w1 where loop: "?loop w = (x, w1)" by force
  have tail: "bindS ?loop f w = (case x of Inl e \<Rightarrow> (Inl e, w1) | Inr us \<Rightarrow> f us w1)" for f :: "_ \<Rightarrow> (world, unit) op"
    using loop by (simp add: bindS_run split: sum.split)
  have run: "settle E tk cost failed est w = (case x of Inl e \<Rightarrow> (Inl e, w1) | Inr us \<Rightarrow>
      if ?run w1 = None then (Inl (ExecutionDenied ''execution_run_not_found'' 409), w1)
      else flush E (w1\<lparr>w_db := settled_db tk cost failed est l (w_db w1)\<rparr>))"
    unfolding settle_def get_lease_def using l
    by (simp add: own [simplified] tail write_lease_def settled_db_def split: sum.split)
  from assms run obtain us where x: "x = Inr us" by (cases x) auto
  with assms run obtain r where r: "?run w1 = Some r" by (cases "?run w1") auto
  have "w_db w' = settled_db tk cost failed est l (w_db w1)"
    using assms unfolding run x by (auto simp: r flush_def split: if_splits)
  then show thesis by (rule that [OF l loop [unfolded x] r])
qed

lemma settlement_run:
  assumes "settle E tk cost failed est w = (Inr u, w')"
  shows "(\<exists>xs. t_usage (w_db w') = t_usage (w_db w) @ xs \<and>
           charged tk cost (reservations_of (tk_execution_id tk) (w_db w)) xs) \<and>
     (\<forall>r \<in> set (reservations_of (tk_execution_id tk) (w_db w)). rs_state r = Reserved) \<and>
     t_reservations (w_db w') = map (\<lambda>r. if rs_execution_id r = tk_execution_id tk then settled r else r)
       (t_reservations (w_db w)) \<and>
     map_option le_state (lease_of (tk_execution_id tk) (w_db w')) =
       Some (if failed then LeaseFailed else LeaseSucceeded) \<and>
     settle E tk cost' failed' est' w' = (Inl (ExecutionDenied ''execution_owner_lost'' 409), w')"
proof -
  let ?fin = "\<lambda>l. l\<lparr>le_state := (if failed then LeaseFailed else LeaseSucceeded)\<rparr>"
  obtain l us w1 where l: "find (\<lambda>l. le_execution_id l = tk_execution_id tk) (t_leases (w_db w)) = Some l"
    and loop: "forS (reservations_of (tk_execution_id tk) (w_db w))
       (settle_reservation E tk (le_company_id l) cost failed est) w = (Inr us, w1)"
    and w': "w_db w' = settled_db tk cost failed est l (w_db w1)" by (rule settle_ok [OF assms]) blast
  have id: "le_execution_id l = tk_execution_id tk" using l by (auto simp: find_Some_iff)
  obtain xs where xs: "\<forall>r \<in> set (reservations_of (tk_execution_id tk) (w_db w)). rs_state r = Reserved"
    "charged tk cost (reservations_of (tk_execution_id tk) (w_db w)) xs"
    "w_db w1 = (w_db w)\<lparr>t_reservations := settle_keys (res_key ` set (reservations_of (tk_execution_id tk) (w_db w)))
        (t_reservations (w_db w)), t_usage := t_usage (w_db w) @ xs\<rparr>"
    using settle_reservations_ok [OF loop] by blast
  have lease: "lease_of (tk_execution_id tk) (w_db w') = Some (?fin l)"
    using l by (simp add: lease_of_def w' settled_db_def xs(3) id find_update_row)
  then have "settle E tk cost' failed' est' w' = (Inl (ExecutionDenied ''execution_owner_lost'' 409), w')"
    by (simp add: settle_def get_lease_def lease_of_def denied_def)
  with lease xs(1,2) show ?thesis
    by (auto simp: w' settled_db_def xs(3) settle_own_reservations)
qed

lemma settlement_step:
  assumes "settle E tk cost failed est w = (Inr u, w')"
  shows "map_option le_state (lease_of (tk_execution_id tk) (w_db w')) =
       Some (if failed then LeaseFailed else LeaseSucceeded)"
  using settlement_run [OF assms] by blast

text \<open>
  C3. A dispatch is settled exactly once. A settlement that succeeds turns every reservation of its
  execution from reserved to settled and no other, adds exactly one usage row per reservation, charged to
  the budget of the reservation with the cost of the settlement and the run of the ticket, and ends the
  lease; a second settlement under the same ticket is refused because the owner no longer holds the
  lease, and changes nothing.\<close>

theorem settlement_exactly_once:
  assumes "settle E tk cost failed est w = (Inr u, w')"
  shows "(\<exists>xs. t_usage (w_db w') = t_usage (w_db w) @ xs \<and>
           charged tk cost (reservations_of (tk_execution_id tk) (w_db w)) xs) \<and>
     (\<forall>r \<in> set (reservations_of (tk_execution_id tk) (w_db w)). rs_state r = Reserved) \<and>
     t_reservations (w_db w') = map (\<lambda>r. if rs_execution_id r = tk_execution_id tk then settled r else r)
       (t_reservations (w_db w)) \<and>
     map_option le_state (lease_of (tk_execution_id tk) (w_db w')) =
       Some (if failed then LeaseFailed else LeaseSucceeded) \<and>
     settle E tk cost' failed' est' w' = (Inl (ExecutionDenied ''execution_owner_lost'' 409), w')"
  using settlement_run [OF assms] by blast

definition settle_ticket :: execution_ticket where
  "settle_ticket = \<lparr>tk_execution_id = ''x1'', tk_run_id = ''run-1'', tk_owner_id = ''o'',
     tk_ceiling_usd = \<lparr>dec_value = 1, dec_places = 6\<rparr>, tk_replay = False\<rparr>"

definition sample_lease :: execution_lease where
  "sample_lease = \<lparr>le_execution_id = ''x1'', le_company_id = ''acme'', le_resource_id = ''agent:dev'',
     le_intent_hash = ''h'', le_run_id = ''run-1'', le_owner_id = ''o'', le_state = LeaseRunning,
     le_control_action = ''resume'', le_expires_at = 1000, le_created_at = 0\<rparr>"

definition sample_run :: agent_run where
  "sample_run = \<lparr>r_run_id = ''run-1'', r_company_id = ''acme'', r_agent_id = ''dev'',
     r_status = AgentRunStatus_RUNNING, r_trace_id = None, r_goal_id = None, r_work_item_id = None,
     r_trigger_event_id = None, r_input_event = None, r_output_events = [], r_started_at = utc_dt 0,
     r_completed_at = None, r_error_category = None, r_error_message = None, r_last_successful_step = None,
     r_cost_usd = Fin 0, r_input_tokens = 0, r_output_tokens = 0, r_metadata = []\<rparr>"

definition sample_reservation :: execution_reservation where
  "sample_reservation = \<lparr>rs_execution_id = ''x1'', rs_budget_id = ''bud-1'', rs_amount_usd = 1,
     rs_state = Reserved, rs_created_at = 0\<rparr>"

definition settle_world :: world where
  "settle_world = world_of (ledger_db\<lparr>t_leases := [sample_lease], t_runs := [sample_run],
     t_reservations := [sample_reservation]\<rparr>)"

theorem settlement_exactly_once_witness:
  "\<exists>w'. settle sample_env settle_ticket 1 False False settle_world = (Inr (), w') \<and>
     t_reservations (w_db w') = [settled sample_reservation] \<and>
     settle sample_env settle_ticket 1 False False w' = (Inl (ExecutionDenied ''execution_owner_lost'' 409), w')"
proof -
  have "fst (settle sample_env settle_ticket 1 False False settle_world) = Inr ()" by code_simp
  then obtain w' where run: "settle sample_env settle_ticket 1 False False settle_world = (Inr (), w')"
    by (metis prod.collapse)
  from settlement_exactly_once [OF run] run show ?thesis
    by (auto simp: settle_world_def world_of_def sample_reservation_def settle_ticket_def)
qed

section \<open>Late reports of uncertain effects\<close>

lemma mark_uncertain_run:
  assumes "mark_uncertain E tk w = (Inr u, w')"
    and "lease_of (tk_execution_id tk) (w_db w) = Some l"
  shows "le_owner_id l = tk_owner_id tk"
    and "t_leases (w_db w') = update_row le_execution_id (tk_execution_id tk)
      (\<lambda>l. l\<lparr>le_state := LeaseRecoveryRequired, le_expires_at := e_clock E (w_tick w)\<rparr>) (t_leases (w_db w))"
    and "t_reservations (w_db w') = t_reservations (w_db w)" and "w_committed w' = w_db w'"
proof -
  have id: "le_execution_id l = tk_execution_id tk" using assms(2) by (auto simp: lease_of_def find_Some_iff)
  let ?d1 = "(w_db w)\<lparr>t_leases := update_row le_execution_id (tk_execution_id tk)
      (\<lambda>l. l\<lparr>le_state := LeaseRecoveryRequired, le_expires_at := e_clock E (w_tick w)\<rparr>) (t_leases (w_db w))\<rparr>"
  from assms id obtain w1 where own: "le_owner_id l = tk_owner_id tk"
    and aud: "ledger_audit E (le_company_id l) (le_resource_id l) ''execution.effects_uncertain'' ''system''
       [(''run_id'', PStr (tk_run_id tk)), (''automatic_replay'', PBool False)]
       (w\<lparr>w_tick := Suc (w_tick w), w_db := ?d1\<rparr>) = (Inr (), w1)" and w': "w' = w1\<lparr>w_committed := w_db w1\<rparr>"
    by (auto simp: mark_uncertain_def get_lease_def lease_of_def write_lease_def denied_def bindS_Inr_iff
        split: if_splits)
  have core: "ledger_core (w_db w1) = ledger_core ?d1"
    using keeps_core_run [OF keeps_ledger_audit(1) aud] by simp
  show "le_owner_id l = tk_owner_id tk" by (rule own)
  from arg_cong [OF core, of t_leases] w' show "t_leases (w_db w') = update_row le_execution_id (tk_execution_id tk)
      (\<lambda>l. l\<lparr>le_state := LeaseRecoveryRequired, le_expires_at := e_clock E (w_tick w)\<rparr>) (t_leases (w_db w))"
    by simp
  show "t_reservations (w_db w') = t_reservations (w_db w)" using arg_cong [OF core, of t_reservations] w' by simp
  show "w_committed w' = w_db w'" by (simp add: w')
qed

lemma settle_twice_denied:
  assumes "find (\<lambda>l. le_execution_id l = tk_execution_id tk) (t_leases (w_db w)) = Some l"
    and "le_owner_id l = tk_owner_id tk" and "le_state l = LeaseRunning"
    and "reservations_of (tk_execution_id tk) (w_db w) = r # rs" and "rs_state r = Settled"
  shows "settle E tk cost failed est w = (Inl (ExecutionDenied ''execution_already_settled'' 409), w)"
  using assms by (simp add: settle_def get_lease_def settle_reservation_def bindS_run guardS_run)

lemma recover_run:
  assumes "find (\<lambda>k. le_company_id k = co \<and> le_run_id k = i) (t_leases (w_db w)) = Some l" and "lease_active l"
    and "find (\<lambda>k. le_execution_id k = le_execution_id l) (t_leases (w_db w)) = Some l"
    and "reservations_of (le_execution_id l) (w_db w) = r # rs" and "rs_state r = Settled"
  shows "\<exists>reason w2. recover E i co why who w = (Inl (ExecutionDenied reason 409), w2) \<and>
      w_committed w2 = w_committed w"
proof (cases "e_clock E (w_tick w) < le_expires_at l")
  case True
  with assms show ?thesis by (simp add: recover_def find_run_lease_def bindS_run guardS_run)
next
  case False
  let ?d = "(w_db w)\<lparr>t_leases := update_row le_execution_id (le_execution_id l)
      (\<lambda>l. l\<lparr>le_state := LeaseRunning\<rparr>) (t_leases (w_db w))\<rparr>"
  let ?v = "w\<lparr>w_tick := Suc (w_tick w), w_db := ?d\<rparr>"
  have res: "reservations_of (le_execution_id l) ?d = r # rs" using assms(4) by (simp add: reservations_of_def)
  have "settle E \<lparr>tk_execution_id = le_execution_id l, tk_run_id = le_run_id l, tk_owner_id = le_owner_id l,
      tk_ceiling_usd = x, tk_replay = False\<rparr> cost True True ?v =
      (Inl (ExecutionDenied ''execution_already_settled'' 409), ?v)" for x cost
    by (rule settle_twice_denied [where l = "l\<lparr>le_state := LeaseRunning\<rparr>"])
       (use assms(3,5) res in \<open>simp_all add: find_update_row\<close>)
  then show ?thesis using assms(1,2) False
    by (simp add: recover_def find_run_lease_def write_lease_def bindS_run [of "bindS (now_utc E) f" for f]
        bindS_step Let_def)
qed

text \<open>
  C40. A late report of uncertain effects reopens a finished execution for good. The report does not look
  at the state of the lease: when it succeeds for a lease that was already settled, the committed lease
  requires recovery again, which blocks its resource; and every attempt to recover it is denied, because
  its reservations have been settled before, and rolled back.\<close>

theorem late_uncertainty_locks_resource:
  assumes "mark_uncertain E tk w = (Inr u, w')"
    and "lease_of (tk_execution_id tk) (w_db w) = Some l" and "\<not> lease_active l"
    and "reservations_of (tk_execution_id tk) (w_db w) \<noteq> []"
    and "\<forall>r \<in> set (reservations_of (tk_execution_id tk) (w_db w)). rs_state r = Settled"
    and "distinct (map le_run_id (t_leases (w_db w)))"
  shows "map_option le_state (lease_of (tk_execution_id tk) (w_committed w')) = Some LeaseRecoveryRequired \<and>
    (\<exists>reason. fst (in_transaction (recover E (le_run_id l) (le_company_id l) why who) w') =
       Inl (ExecutionDenied reason 409)) \<and>
    w_committed (snd (in_transaction (recover E (le_run_id l) (le_company_id l) why who) w')) = w_committed w'"
proof -
  let ?f = "\<lambda>l. l\<lparr>le_state := LeaseRecoveryRequired, le_expires_at := e_clock E (w_tick w)\<rparr>"
  note run = mark_uncertain_run [OF assms(1,2)]
  have id: "le_execution_id l = tk_execution_id tk" and mem: "l \<in> set (t_leases (w_db w))"
    using assms(2) by (auto simp: lease_of_def find_Some_iff)
  have lease: "find (\<lambda>l. le_execution_id l = tk_execution_id tk) (t_leases (w_db w')) = Some (?f l)"
    using assms(2) by (simp add: run(2) lease_of_def find_update_row)
  have "?f l \<in> set (t_leases (w_db w'))" by (rule find_Some_in [OF lease])
  moreover have "distinct (map le_run_id (t_leases (w_db w')))"
    using assms(6) by (simp add: run(2) update_row_def comp_def if_distrib cong: if_cong)
  ultimately have by_run: "find (\<lambda>k. le_company_id k = le_company_id l \<and> le_run_id k = le_run_id l)
      (t_leases (w_db w')) = Some (?f l)"
    by (intro find_unique) (auto simp: distinct_map inj_on_def)
  obtain r rs where rs: "reservations_of (tk_execution_id tk) (w_db w) = r # rs" "rs_state r = Settled"
    using assms(4,5) by (cases "reservations_of (tk_execution_id tk) (w_db w)") auto
  have "\<exists>reason w2. recover E (le_run_id l) (le_company_id l) why who w' = (Inl (ExecutionDenied reason 409), w2) \<and>
      w_committed w2 = w_committed w'"
    by (rule recover_run [OF by_run, where r = r and rs = rs])
       (use lease id rs run(3) in \<open>simp_all add: lease_active_def reservations_of_def\<close>)
  then show ?thesis
    using lease run(4) by (auto simp: in_transaction_def lease_of_def)
qed

definition late_world :: world where
  "late_world = world_of (ledger_db\<lparr>t_leases := [sample_lease\<lparr>le_state := LeaseSucceeded\<rparr>],
     t_runs := [sample_run], t_reservations := [settled sample_reservation]\<rparr>)"

theorem late_uncertainty_locks_resource_witness:
  "\<exists>w'. mark_uncertain sample_env settle_ticket late_world = (Inr (), w') \<and>
     map_option le_state (lease_of ''x1'' (w_committed w')) = Some LeaseRecoveryRequired \<and>
     (\<exists>reason. fst (in_transaction (recover sample_env ''run-1'' ''acme'' ''r'' ''op'') w') =
        Inl (ExecutionDenied reason 409))"
proof -
  have "fst (mark_uncertain sample_env settle_ticket late_world) = Inr ()" by code_simp
  then obtain w' where run: "mark_uncertain sample_env settle_ticket late_world = (Inr (), w')"
    by (metis prod.collapse)
  from late_uncertainty_locks_resource [OF run, of "sample_lease\<lparr>le_state := LeaseSucceeded\<rparr>" "''r''" "''op''"] run
  show ?thesis
    by (auto simp: late_world_def world_of_def settle_ticket_def lease_of_def sample_lease_def lease_active_def
        reservations_of_def sample_reservation_def settled_def)
qed

end
