(* ===== verification/Outcome_Service.thy ===== *)
theory Outcome_Service
  imports Lease_Lifecycle
begin

text \<open>
  Acceptance of outcomes (\<open>domain/outcome_acceptance.py\<close>, \<open>outcome_store.py\<close>): an operator reviews an
  artifact of the latest run of a work item, the review is recorded with the hash of the artifact, and
  completing the work item requires the recorded acceptance to be valid still. The lemmas say what a
  successful review has checked and recorded, and that it is exactly what completion asks for.
\<close>

section \<open>Checks\<close>

text \<open>\<open>v.get(key, default)\<close> on a value that need not be a dict, and \<open>hash_evidence\<close> of any value.\<close>

definition attr_get :: "string \<Rightarrow> pyval \<Rightarrow> pyval \<Rightarrow> exc + pyval" where
  "attr_get key dflt v =
     (case v of PMap d \<Rightarrow> Inr (dict_get key dflt d) | _ \<Rightarrow> Inl (ExternalError ''AttributeError'' ''get''))"

definition hash_value :: "env \<Rightarrow> pyval \<Rightarrow> string" where
  "hash_value E v = e_sha256 E (e_canon E v)"

lemma hash_evidence_value: "hash_evidence E d = hash_value E (PMap d)"
  by (simp add: hash_evidence_def hash_value_def)

definition business_output :: "agent_run \<Rightarrow> exc + pyval" where
  "business_output run =
     (if r_output_events run = [] then Inr (PMap [])
      else bindE (attr_get ''payload'' (PMap []) (PMap (last (r_output_events run)))) (attr_get ''output'' (PMap [])))"

definition validate_outcome ::
  "work_item \<Rightarrow> agent_run \<Rightarrow> artifact \<Rightarrow> string \<Rightarrow> string \<Rightarrow> exc + unit" where
  "validate_outcome work run art reason verdict =
     (if verdict \<notin> {''accepted'', ''rejected''} \<or> py_strip reason = []
      then Inl (ExecutionDenied ''acceptance_reason_and_verdict_required'' 400)
      else if w_status work \<in> {WorkItemStatus_COMPLETED, WorkItemStatus_CANCELLED}
      then Inl (ExecutionDenied ''work_item_closed'' 409)
      else if art_company_id art \<noteq> w_company_id work \<or> art_work_item_id art \<noteq> Some (w_work_item_id work) \<or>
              art_run_id art \<noteq> Some (r_run_id run) \<or> r_work_item_id run \<noteq> Some (w_work_item_id work) \<or>
              r_company_id run \<noteq> w_company_id work
      then Inl (ExecutionDenied ''acceptance_evidence_link_mismatch'' 400)
      else if r_status run \<noteq> AgentRunStatus_SUCCEEDED \<or> \<not> truthy_str (art_content_hash art)
      then Inl (ExecutionDenied ''acceptance_successful_evidence_required'' 400)
      else
        bindE (business_output run) (\<lambda>output.
        bindE (attr_get ''status'' PNone output) (\<lambda>status.
          if status = PStr ''recorded'' \<or> \<not> py_truthy output
          then Inl (ExecutionDenied ''recorded_run_is_not_business_output'' 400) else Inr ())))"

text \<open>\<open>key in evidence and evidence[key] != value\<close>, for whatever JSON value the evidence is.\<close>

fun binds_other :: "string \<Rightarrow> string \<Rightarrow> pyval \<Rightarrow> exc + bool" where
  "binds_other key value (PMap d) = Inr (case map_of d key of None \<Rightarrow> False | Some x \<Rightarrow> x \<noteq> PStr value)"
| "binds_other key value (PStr s) = (if contains_text s key then Inl (TypeError ''indices'') else Inr False)"
| "binds_other key value (PList vs) = (if PStr key \<in> set vs then Inl (TypeError ''indices'') else Inr False)"
| "binds_other key value _ = Inl (TypeError ''not iterable'')"

definition require_payload_integrity :: "env \<Rightarrow> pyval option \<Rightarrow> agent_run \<Rightarrow> exc + unit" where
  "require_payload_integrity E evidence run =
     (case evidence of
        None \<Rightarrow> Inr ()
      | Some v \<Rightarrow>
          bindE (binds_other ''input_payload_hash''
                   (hash_evidence E (case r_input_event run of None \<Rightarrow> [] | Some d \<Rightarrow> d)) v) (\<lambda>bad_in.
          bindE (if bad_in then Inr True
                 else binds_other ''output_payload_hash''
                        (hash_evidence E [(''output_events'', PList (map PMap (r_output_events run)))]) v) (\<lambda>bad.
            if bad then Inl (ExecutionDenied ''artifact_evidence_integrity_failed'' 409) else Inr ())))"

definition stored_evidence :: "artifact \<Rightarrow> pyval option" where
  "stored_evidence art =
     (case map_of (art_metadata art) ''evidence'' of None \<Rightarrow> None | Some PNone \<Rightarrow> None | Some v \<Rightarrow> Some v)"

definition evidence_names_run :: "env \<Rightarrow> artifact \<Rightarrow> agent_run \<Rightarrow> exc + unit" where
  "evidence_names_run E art run =
     (let failed = Inl (ExecutionDenied ''artifact_evidence_integrity_failed'' 400) in
      case stored_evidence art of
        None \<Rightarrow> Inr ()
      | Some v \<Rightarrow>
          if Some (hash_value E v) \<noteq> art_content_hash art then failed
          else bindE (attr_get ''run_id'' PNone v) (\<lambda>i.
               if i \<noteq> PStr (r_run_id run) then failed
               else bindE (attr_get ''status'' PNone v) (\<lambda>s.
                    if s \<noteq> PStr ''succeeded'' then failed else Inr ())))"

section \<open>The store\<close>

definition latest_work_run :: "string \<Rightarrow> string \<Rightarrow> db \<Rightarrow> agent_run option" where
  "latest_work_run company_id work_item_id d =
     (case sort_key (\<lambda>r. - dt_utc (r_started_at r))
             (rev (sort_key r_run_id
               (filter (\<lambda>r. r_company_id r = company_id \<and> r_work_item_id r = Some work_item_id) (t_runs d)))) of
        [] \<Rightarrow> None | r # rs \<Rightarrow> Some r)"

definition artifact_row :: "string \<Rightarrow> db \<Rightarrow> artifact option" where
  "artifact_row artifact_id d = find (\<lambda>a. art_artifact_id a = artifact_id) (t_artifacts d)"

definition acceptance_row :: "string \<Rightarrow> db \<Rightarrow> outcome_acceptance option" where
  "acceptance_row acceptance_id d = find (\<lambda>a. oa_acceptance_id a = acceptance_id) (t_acceptances d)"

definition reviewed_metadata :: "string \<Rightarrow> string \<Rightarrow> string \<Rightarrow> pydict \<Rightarrow> pydict" where
  "reviewed_metadata verdict artifact_id acceptance_id metadata =
     (if verdict = ''accepted''
      then dict_update metadata [(''accepted_artifact_id'', PStr artifact_id), (''acceptance_id'', PStr acceptance_id)]
      else filter (\<lambda>(k, v). k \<noteq> ''acceptance_id'') (filter (\<lambda>(k, v). k \<noteq> ''accepted_artifact_id'') metadata))"

text \<open>What the review reads and checks: the run that the review is about.\<close>

definition check_review ::
  "env \<Rightarrow> string \<Rightarrow> string \<Rightarrow> string \<Rightarrow> string \<Rightarrow> string \<Rightarrow> (world, work_item \<times> artifact \<times> agent_run) op" where
  "check_review E company_id work_item_id artifact_id verdict reason =
     bindS (query_db (\<lambda>d. find (\<lambda>r. w_company_id r = company_id \<and> w_work_item_id r = work_item_id) (t_work_items d)))
       (\<lambda>found. case found of
         None \<Rightarrow> denied ''work_item_not_found'' 404
       | Some work \<Rightarrow>
           bindS (query_db (artifact_row artifact_id)) (\<lambda>found_artifact. case found_artifact of
               None \<Rightarrow> denied ''artifact_not_found'' 404
             | Some art \<Rightarrow>
                 if \<not> truthy_str (art_run_id art) then denied ''artifact_not_found'' 404
                 else bindS (query_db (latest_work_run company_id work_item_id)) (\<lambda>found_run. case found_run of
                     None \<Rightarrow> denied ''acceptance_run_required'' 400
                   | Some run \<Rightarrow>
                       bindS (liftE (validate_outcome work run art reason verdict)) (\<lambda>_.
                       bindS (liftE (evidence_names_run E art run)) (\<lambda>_.
                       bindS (liftE (require_payload_integrity E (stored_evidence art) run)) (\<lambda>_.
                         retS (work, art, run)))))))"

definition record_review ::
  "env \<Rightarrow> outcome_acceptance \<Rightarrow> work_item \<Rightarrow> (world, work_item option \<times> outcome_acceptance) op" where
  "record_review E acc work =
     bindS (write_db (\<lambda>d. d\<lparr>t_acceptances := t_acceptances d @ [acc]\<rparr>)) (\<lambda>_.
     bindS (write_work (oa_work_item_id acc) (\<lambda>r. r\<lparr>w_metadata :=
              reviewed_metadata (oa_verdict acc) (oa_artifact_id acc) (oa_acceptance_id acc) (w_metadata work)\<rparr>)) (\<lambda>_.
     bindS (new_audit E (\<lambda>i now.
       \<lparr>ae_audit_event_id = i, ae_company_id = oa_company_id acc, ae_action = ''outcome.'' @ oa_verdict acc,
        ae_target_type = ''artifact'', ae_target_id = oa_artifact_id acc, ae_actor_type = ''operator'',
        ae_actor_id = oa_actor_id acc, ae_trace_id = None, ae_run_id = Some (oa_run_id acc),
        ae_work_item_id = Some (oa_work_item_id acc), ae_idempotency_key = None,
        ae_detail = [(''acceptance_id'', PStr (oa_acceptance_id acc)), (''artifact_hash'', opt_str (oa_artifact_hash acc)),
                     (''reason'', PStr (oa_reason acc))],
        ae_created_at = utc_dt now\<rparr>)) (\<lambda>_.
     bindS (flush E) (\<lambda>_.
     bindS (get_work (oa_work_item_id acc)) (\<lambda>row. retS (row, acc))))))"

definition review ::
  "env \<Rightarrow> string \<Rightarrow> string \<Rightarrow> string \<Rightarrow> string \<Rightarrow> string \<Rightarrow> string \<Rightarrow> (world, work_item option \<times> outcome_acceptance) op" where
  "review E company_id work_item_id artifact_id actor_id verdict reason =
     bindS (check_review E company_id work_item_id artifact_id verdict reason) (\<lambda>(work, art, run).
     bindS (uuid4_hex E) (\<lambda>u.
     bindS (now_utc E) (\<lambda>t.
       record_review E
         \<lparr>oa_acceptance_id = ''acc_'' @ u, oa_company_id = company_id, oa_work_item_id = work_item_id,
          oa_artifact_id = artifact_id, oa_run_id = r_run_id run, oa_artifact_hash = art_content_hash art,
          oa_verdict = verdict, oa_actor_id = actor_id, oa_reason = py_strip reason, oa_created_at = t\<rparr> work)))"

text \<open>
  The acceptance a work item names. A primary key that is not a text is no acceptance: the database
  refuses to compare it.
\<close>

definition named_acceptance :: "work_item \<Rightarrow> (world, outcome_acceptance option) op" where
  "named_acceptance work =
     (case dict_get ''acceptance_id'' (PStr []) (w_metadata work) of
        PStr i \<Rightarrow> query_db (acceptance_row i)
      | PNone \<Rightarrow> retS None
      | _ \<Rightarrow> raiseS (ExternalError ''DBAPIError'' ''acceptance_id''))"

definition acceptance_valid :: "work_item \<Rightarrow> outcome_acceptance \<Rightarrow> artifact \<Rightarrow> string option \<Rightarrow> bool" where
  "acceptance_valid work acc art latest_run_id \<longleftrightarrow>
     oa_verdict acc = ''accepted'' \<and> oa_company_id acc = w_company_id work \<and>
     oa_work_item_id acc = w_work_item_id work \<and> oa_artifact_hash acc = art_content_hash art \<and>
     Some (oa_run_id acc) = latest_run_id"

definition require_accepted :: "env \<Rightarrow> work_item \<Rightarrow> (world, unit) op" where
  "require_accepted E work =
     bindS (named_acceptance work) (\<lambda>acceptance.
     bindS (query_db (\<lambda>d. case acceptance of None \<Rightarrow> None | Some a \<Rightarrow> artifact_row (oa_artifact_id a) d)) (\<lambda>art.
     bindS (query_db (\<lambda>d. map_option r_run_id (latest_work_run (w_company_id work) (w_work_item_id work) d))) (\<lambda>latest_run_id.
     case (acceptance, art) of
       (Some acc, Some a) \<Rightarrow>
         if \<not> acceptance_valid work acc a latest_run_id then denied ''accepted_artifact_required'' 409
         else bindS (get_agent_run (oa_run_id acc)) (\<lambda>found_run. case found_run of
             None \<Rightarrow> denied ''accepted_artifact_required'' 409
           | Some run \<Rightarrow>
               (case stored_evidence a of
                  Some v \<Rightarrow> if Some (hash_value E v) \<noteq> art_content_hash a
                            then denied ''artifact_evidence_integrity_failed'' 409
                            else liftE (require_payload_integrity E (Some v) run)
                | None \<Rightarrow> liftE (require_payload_integrity E None run)))
     | _ \<Rightarrow> denied ''accepted_artifact_required'' 409)))"

section \<open>What a review has checked\<close>

lemma readonly_checks [readonly_intros]:
  "readonly (check_review E co i a v r)" "readonly (named_acceptance work)" "readonly (require_accepted E work)"
proof -
  show "readonly (check_review E co i a v r)"
    unfolding check_review_def by (intro readonly_intros)
  show named: "readonly (named_acceptance work)" for work
    unfolding named_acceptance_def by (auto split: pyval.split intro!: readonly_intros)
  show "readonly (require_accepted E work)"
    unfolding require_accepted_def get_agent_run_def
    by (intro readonly_intros named) (auto split: option.splits intro!: readonly_intros)
qed

lemma require_accepted_cases:
  "require_accepted E work w = (Inr (), w) \<or> (\<exists>e. require_accepted E work w = (Inl e, w))"
  by (cases "require_accepted E work w"; cases "fst (require_accepted E work w)")
     (use readonly_checks(3) [of E work] in \<open>auto simp: readonly_def dest: spec [of _ w]\<close>)

lemma check_review_ok:
  assumes "check_review E company_id work_item_id artifact_id verdict reason w = (Inr (work, art, run), w')"
  shows "w' = w" and
    "find (\<lambda>r. w_company_id r = company_id \<and> w_work_item_id r = work_item_id) (t_work_items (w_db w)) = Some work"
    "artifact_row artifact_id (w_db w) = Some art"
    "latest_work_run company_id work_item_id (w_db w) = Some run"
    "validate_outcome work run art reason verdict = Inr ()"
    "evidence_names_run E art run = Inr ()"
    "require_payload_integrity E (stored_evidence art) run = Inr ()"
  using assms unfolding check_review_def
  by (auto simp: denied_def bindS_Inr_iff split: option.splits if_splits)

lemma evidence_hash:
  "evidence_names_run E art run = Inr () \<Longrightarrow> stored_evidence art = Some v \<Longrightarrow>
   Some (hash_value E v) = art_content_hash art"
  by (auto simp: evidence_names_run_def Let_def split: if_splits)

lemma first_in: "(case xs of [] \<Rightarrow> None | x # ys \<Rightarrow> Some x) = Some y \<Longrightarrow> y \<in> set xs"
  by (cases xs) auto

lemma latest_work_run_in:
  "latest_work_run co i d = Some r \<Longrightarrow> r \<in> set (t_runs d) \<and> r_company_id r = co \<and> r_work_item_id r = Some i"
  unfolding latest_work_run_def by (drule first_in) simp

lemma find_by_key:
  "x \<in> set xs \<Longrightarrow> distinct (map key xs) \<Longrightarrow> find (\<lambda>y. key y = key x) xs = Some x"
  by (rule find_unique) (auto simp: distinct_map inj_on_def)

lemma unique_keys:
  assumes "unique_ok d"
  shows "distinct (map w_work_item_id (t_work_items d))" "distinct (map r_run_id (t_runs d))"
    "distinct (map oa_acceptance_id (t_acceptances d))" "distinct (map art_artifact_id (t_artifacts d))"
    "distinct (map g_goal_id (t_goals d))"
  using assms by (simp_all add: unique_ok_def)

text \<open>The tables after a review, and the row that it returns.\<close>

lemma record_review_ok:
  assumes "record_review E acc work w = (Inr (row, acc'), w')"
  shows "acc' = acc" "t_acceptances (w_db w') = t_acceptances (w_db w) @ [acc]"
    "t_work_items (w_db w') = update_row w_work_item_id (oa_work_item_id acc) (\<lambda>r. r\<lparr>w_metadata :=
       reviewed_metadata (oa_verdict acc) (oa_artifact_id acc) (oa_acceptance_id acc) (w_metadata work)\<rparr>)
       (t_work_items (w_db w))"
    "t_artifacts (w_db w') = t_artifacts (w_db w)" "t_runs (w_db w') = t_runs (w_db w)"
    "t_leases (w_db w') = t_leases (w_db w)" "t_goals (w_db w') = t_goals (w_db w)"
    "row = find (\<lambda>r. w_work_item_id r = oa_work_item_id acc) (t_work_items (w_db w'))" "unique_ok (w_db w')"
proof -
  let ?d = "(w_db w)\<lparr>t_acceptances := t_acceptances (w_db w) @ [acc],
     t_work_items := update_row w_work_item_id (oa_work_item_id acc) (\<lambda>r. r\<lparr>w_metadata :=
       reviewed_metadata (oa_verdict acc) (oa_artifact_id acc) (oa_acceptance_id acc) (w_metadata work)\<rparr>)
       (t_work_items (w_db w))\<rparr>"
  from assms obtain a mk where audit: "new_audit E mk (w\<lparr>w_db := ?d\<rparr>) = (Inr a, w')"
    and fin: "acc' = acc" "row = find (\<lambda>r. w_work_item_id r = oa_work_item_id acc) (t_work_items (w_db w'))"
      "unique_ok (w_db w')"
    unfolding record_review_def by (auto simp: bindS_Inr_iff write_work_def get_work_def dest!: flush_ok)
  have core: "ledger_core (w_db w') = ledger_core ?d"
    using keeps_core_run [OF keeps_new_audit(1) audit] by simp
  show "t_acceptances (w_db w') = t_acceptances (w_db w) @ [acc]"
    "t_work_items (w_db w') = update_row w_work_item_id (oa_work_item_id acc) (\<lambda>r. r\<lparr>w_metadata :=
       reviewed_metadata (oa_verdict acc) (oa_artifact_id acc) (oa_acceptance_id acc) (w_metadata work)\<rparr>)
       (t_work_items (w_db w))"
    "t_artifacts (w_db w') = t_artifacts (w_db w)" "t_runs (w_db w') = t_runs (w_db w)"
    "t_leases (w_db w') = t_leases (w_db w)" "t_goals (w_db w') = t_goals (w_db w)"
    using arg_cong [OF core, of t_acceptances] arg_cong [OF core, of t_work_items] arg_cong [OF core, of t_artifacts]
      arg_cong [OF core, of t_runs] arg_cong [OF core, of t_leases] arg_cong [OF core, of t_goals] by simp_all
  show "acc' = acc" "row = find (\<lambda>r. w_work_item_id r = oa_work_item_id acc) (t_work_items (w_db w'))"
    "unique_ok (w_db w')" by (fact fin)+
qed

lemma review_ok:
  assumes "review E company_id work_item_id artifact_id actor_id verdict reason w = (Inr (row, acc), w')"
  obtains work art run w1 where
    "check_review E company_id work_item_id artifact_id verdict reason w = (Inr (work, art, run), w)"
    "oa_company_id acc = company_id" "oa_work_item_id acc = work_item_id" "oa_artifact_id acc = artifact_id"
    "oa_run_id acc = r_run_id run" "oa_artifact_hash acc = art_content_hash art" "oa_verdict acc = verdict"
    "w_db w1 = w_db w" "record_review E acc work w1 = (Inr (row, acc), w')"
proof -
  from assms obtain x w0 where chk: "check_review E company_id work_item_id artifact_id verdict reason w = (Inr x, w0)"
    by (auto simp: review_def bindS_Inr_iff)
  obtain work art run where x: "x = (work, art, run)" by (cases x)
  from chk have "w0 = w" using check_review_ok(1) x by blast
  note chk = chk [unfolded x \<open>w0 = w\<close>]
  have step: "bindS (check_review E company_id work_item_id artifact_id verdict reason) f w = f (work, art, run) w"
    for f :: "_ \<Rightarrow> (world, work_item option \<times> outcome_acceptance) op" using chk by (rule bindS_step(1))
  let ?acc = "\<lparr>oa_acceptance_id = ''acc_'' @ e_uuid E (w_tick w), oa_company_id = company_id,
     oa_work_item_id = work_item_id, oa_artifact_id = artifact_id, oa_run_id = r_run_id run,
     oa_artifact_hash = art_content_hash art, oa_verdict = verdict, oa_actor_id = actor_id,
     oa_reason = py_strip reason, oa_created_at = e_clock E (Suc (w_tick w))\<rparr>"
  let ?w1 = "w\<lparr>w_tick := Suc (Suc (w_tick w))\<rparr>"
  have rec: "record_review E ?acc work ?w1 = (Inr (row, acc), w')"
    using assms unfolding review_def step by simp
  then have "acc = ?acc" by (rule record_review_ok(1))
  with rec show ?thesis by (intro that [OF chk, of ?w1]) simp_all
qed

section \<open>From review to completion\<close>

lemma accepted_metadata:
  "dict_get ''acceptance_id'' dflt (reviewed_metadata ''accepted'' art acc d) = PStr acc"
  by (simp add: reviewed_metadata_def dict_update_def dict_get_def map_of_update)

lemma validate_outcome_ok:
  assumes "validate_outcome work run art reason verdict = Inr ()"
  shows "w_status work \<notin> {WorkItemStatus_COMPLETED, WorkItemStatus_CANCELLED}"
    "verdict \<in> {''accepted'', ''rejected''}" "art_company_id art = w_company_id work"
    "art_work_item_id art = Some (w_work_item_id work)" "art_run_id art = Some (r_run_id run)"
    "r_status run = AgentRunStatus_SUCCEEDED" "truthy_str (art_content_hash art)"
  using assms by (auto simp: validate_outcome_def split: if_splits)

text \<open>
  C22. Acceptance is what completion asks for: when an operator's review accepts an artifact, the work item
  it returns is open and names a new acceptance row, and in that database the check that guards
  completion succeeds on it, so that a work item cannot be accepted and then be refused for want of
  acceptance.\<close>

theorem accepted_review_enables_completion:
  assumes "review E company_id work_item_id artifact_id actor_id ''accepted'' reason w = (Inr (row, acc), w')"
  shows "\<exists>work. row = Some work \<and> w_work_item_id work = work_item_id \<and> w_company_id work = company_id \<and>
           w_status work \<notin> {WorkItemStatus_COMPLETED, WorkItemStatus_CANCELLED} \<and>
           t_acceptances (w_db w') = t_acceptances (w_db w) @ [acc] \<and>
           require_accepted E work w' = (Inr (), w')"
  using assms
proof (cases rule: review_ok)
  case (1 work art run w1)
  note c = check_review_ok [OF 1(1)] and v = validate_outcome_ok [OF check_review_ok(5) [OF 1(1)]]
  note rec = record_review_ok [OF 1(9)] and u = unique_keys [OF record_review_ok(9) [OF 1(9)]]
  have w: "w_db w1 = w_db w" by (fact 1(8))
  have found: "w_company_id work = company_id" "w_work_item_id work = work_item_id" "work \<in> set (t_work_items (w_db w))"
    using c(2) by (auto simp: find_Some_iff)
  have "distinct (map w_work_item_id (t_work_items (w_db w)))"
    using u(1) unfolding rec(3) w by (simp add: update_row_keys)
  then have "find (\<lambda>r. w_work_item_id r = work_item_id) (t_work_items (w_db w)) = Some work"
    using find_by_key [OF found(3), of w_work_item_id] found(2) by simp
  then have row: "row = Some (work\<lparr>w_metadata := reviewed_metadata ''accepted'' artifact_id (oa_acceptance_id acc) (w_metadata work)\<rparr>)"
    unfolding rec(8) rec(3) w 1(3,4,7) by (simp add: find_update_row)
  have acc: "acceptance_row (oa_acceptance_id acc) (w_db w') = Some acc"
    unfolding acceptance_row_def using u(3) by (intro find_by_key) (simp_all add: rec(2))
  have art: "artifact_row artifact_id (w_db w') = Some art"
    using c(3) rec(4) w by (simp add: artifact_row_def)
  have latest: "latest_work_run company_id work_item_id (w_db w') = Some run"
    using c(4) rec(5) w by (simp add: latest_work_run_def)
  have run: "find (\<lambda>r. r_run_id r = r_run_id run) (t_runs (w_db w')) = Some run"
    using latest_work_run_in [OF latest] u(2) by (intro find_by_key) simp_all
  have hash: "Some (hash_value E x) = art_content_hash art" if "stored_evidence art = Some x" for x
    using evidence_hash [OF c(6) that] .
  let ?work = "work\<lparr>w_metadata := reviewed_metadata ''accepted'' artifact_id (oa_acceptance_id acc) (w_metadata work)\<rparr>"
  have "require_accepted E ?work w' = (Inr (), w')"
    using c(7) hash
    by (cases "stored_evidence art")
       (simp_all add: require_accepted_def named_acceptance_def accepted_metadata acc 1(2-7) art found latest
         acceptance_valid_def get_agent_run_def run)
  with row found v(1) rec(2) w show ?thesis by auto
qed

definition reviewed_item :: work_item where
  "reviewed_item = \<lparr>w_work_item_id = ''wi'', w_company_id = ''acme'', w_title = ''Report'', w_description = [],
     w_status = WorkItemStatus_BLOCKED, w_priority = WorkItemPriority_MEDIUM, w_goal_id = None,
     w_owner_agent_id = Some ''dev'', w_owner_user_id = None, w_source = ''manual'', w_external_ref = None,
     w_dependencies = [], w_approval_required = False, w_metadata = [], w_created_at = utc_dt 0,
     w_updated_at = utc_dt 0\<rparr>"

definition reviewed_run :: agent_run where
  "reviewed_run = \<lparr>r_run_id = ''run'', r_company_id = ''acme'', r_agent_id = ''dev'',
     r_status = AgentRunStatus_SUCCEEDED, r_trace_id = None, r_goal_id = None, r_work_item_id = Some ''wi'',
     r_trigger_event_id = None, r_input_event = None,
     r_output_events = [[(''payload'', PMap [(''output'', PMap [(''status'', PStr ''ok'')])])]],
     r_started_at = utc_dt 0, r_completed_at = None, r_error_category = None, r_error_message = None,
     r_last_successful_step = None, r_cost_usd = Fin 0, r_input_tokens = 0, r_output_tokens = 0, r_metadata = []\<rparr>"

definition reviewed_artifact :: artifact where
  "reviewed_artifact = \<lparr>art_artifact_id = ''art'', art_company_id = ''acme'',
     art_artifact_type = ArtifactType_REPORT, art_title = ''Evidence'', art_uri = ''run:1'',
     art_content_hash = Some ''hrun_idstatus'', art_run_id = Some ''run'', art_work_item_id = Some ''wi'',
     art_goal_id = None, art_created_by_agent_id = Some ''dev'',
     art_metadata = [(''evidence'', PMap [(''run_id'', PStr ''run''), (''status'', PStr ''succeeded'')])],
     art_created_at = utc_dt 0\<rparr>"

definition review_world :: world where
  "review_world = world_of (empty_db\<lparr>t_companies := [sample_company], t_work_items := [reviewed_item],
     t_runs := [reviewed_run], t_artifacts := [reviewed_artifact]\<rparr>)"

definition sample_acceptance :: outcome_acceptance where
  "sample_acceptance = \<lparr>oa_acceptance_id = ''acc_'', oa_company_id = ''acme'', oa_work_item_id = ''wi'',
     oa_artifact_id = ''art'', oa_run_id = ''run'', oa_artifact_hash = Some ''hrun_idstatus'',
     oa_verdict = ''accepted'', oa_actor_id = ''op'', oa_reason = ''fine'', oa_created_at = 1000000\<rparr>"

lemma run_of_not_isl: "\<not> isl (fst p) \<Longrightarrow> \<exists>a s'. p = (Inr a, s')"
  by (cases p; cases "fst p") auto

lemma record_runs:
  "\<not> isl (fst (record_review sample_env sample_acceptance reviewed_item (review_world\<lparr>w_tick := 2\<rparr>)))"
  by code_simp

lemma review_runs: "\<exists>row acc w'. review sample_env ''acme'' ''wi'' ''art'' ''op'' ''accepted'' ''fine'' review_world = (Inr (row, acc), w')"
proof -
  have "fst (check_review sample_env ''acme'' ''wi'' ''art'' ''accepted'' ''fine'' review_world) =
      Inr (reviewed_item, reviewed_artifact, reviewed_run)" by code_simp
  then have chk: "check_review sample_env ''acme'' ''wi'' ''art'' ''accepted'' ''fine'' review_world =
      (Inr (reviewed_item, reviewed_artifact, reviewed_run), review_world)"
    using readonly_checks(1) by (simp add: readonly_def prod_eq_iff)
  have "review sample_env ''acme'' ''wi'' ''art'' ''op'' ''accepted'' ''fine'' review_world =
      record_review sample_env sample_acceptance reviewed_item (review_world\<lparr>w_tick := 2\<rparr>)"
    unfolding review_def using chk
    by (simp add: bindS_step sample_acceptance_def reviewed_run_def reviewed_artifact_def sample_env_def
        review_world_def world_of_def py_strip_def py_isspace_def numeral_2_eq_2)
  with run_of_not_isl [OF record_runs] show ?thesis by auto
qed

theorem accepted_review_enables_completion_witness:
  "\<exists>work acc w'. review sample_env ''acme'' ''wi'' ''art'' ''op'' ''accepted'' ''fine'' review_world = (Inr (Some work, acc), w') \<and>
     require_accepted sample_env work w' = (Inr (), w')"
proof -
  obtain row acc w' where run: "review sample_env ''acme'' ''wi'' ''art'' ''op'' ''accepted'' ''fine'' review_world = (Inr (row, acc), w')"
    using review_runs by blast
  from accepted_review_enables_completion [OF run] run show ?thesis by blast
qed

end
