(* ===== verification/Agent_Runner.thy ===== *)
theory Agent_Runner
  imports Lease_Lifecycle
begin

text \<open>
  Running an agent through its adapter (\<open>agent_runner.py\<close>, \<open>adapter_registry.py\<close>,
  \<open>protocols/executor.py\<close>): a wakeup claims the dispatch, records the run, commits both, calls the
  adapter, settles the cost and ends the run. HTTP and subprocesses are ports: a call of a port takes
  the request and the world and returns what came back in the world as other sessions have left it
  meanwhile.
\<close>

section \<open>Adapter registry\<close>

datatype adapter_kind = KindBuiltin | KindHttp | KindLocal

record adapter_definition =
  ad_adapter_type :: string
  ad_kind :: adapter_kind
  ad_description :: string

definition DEFAULT_ADAPTER_REGISTRY :: "adapter_definition list" where
  "DEFAULT_ADAPTER_REGISTRY =
     [\<lparr>ad_adapter_type = ''builtin'', ad_kind = KindBuiltin,
       ad_description = ''Record wakeups for built-in deployed agents.''\<rparr>,
      \<lparr>ad_adapter_type = ''http'', ad_kind = KindHttp,
       ad_description = ''Call a deployed agent request boundary over HTTP.''\<rparr>,
      \<lparr>ad_adapter_type = ''process'', ad_kind = KindLocal,
       ad_description = ''Run an operator-reviewed local process command.''\<rparr>,
      \<lparr>ad_adapter_type = ''codex_local'', ad_kind = KindLocal,
       ad_description = ''Run a local Codex command through the process adapter.''\<rparr>,
      \<lparr>ad_adapter_type = ''claude_local'', ad_kind = KindLocal,
       ad_description = ''Run a local Claude command through the process adapter.''\<rparr>]"

definition registry_get :: "string \<Rightarrow> adapter_definition option" where
  "registry_get adapter_type = find (\<lambda>d. ad_adapter_type d = adapter_type) DEFAULT_ADAPTER_REGISTRY"

definition is_registered :: "string \<Rightarrow> bool" where
  "is_registered adapter_type \<longleftrightarrow> registry_get adapter_type \<noteq> None"

definition is_local :: "string \<Rightarrow> bool" where
  "is_local adapter_type \<longleftrightarrow>
     (case registry_get adapter_type of None \<Rightarrow> False | Some d \<Rightarrow> ad_kind d = KindLocal)"

definition executor_capabilities :: "string \<Rightarrow> pydict" where
  "executor_capabilities adapter_type =
     (let local_kind = (adapter_type = ''process'') in
      [(''schema_version'', PStr ''1.0''), (''adapter_type'', PStr adapter_type),
       (''executes_business_work'', PBool (adapter_type \<noteq> ''builtin'')), (''pause'', PBool local_kind),
       (''resume'', PBool local_kind), (''terminate'', PBool local_kind),
       (''automatic_crash_resume'', PBool False), (''idempotency'', PStr ''durable_dispatch_intent''),
       (''uncertain_effects'', PStr ''operator_reconciliation''), (''output_limit_bytes'', PInt 1000000)])"

section \<open>The executor contract\<close>

record executor_response =
  xr_schema_version :: string
  xr_status :: string
  xr_summary :: string
  xr_cost_usd :: pyfloat
  xr_cost_is_estimate :: bool
  xr_output :: pydict
  xr_artifact_references :: "string list"

text \<open>The constraints of the model on decoded fields.\<close>

definition executor_response_ok :: "executor_response \<Rightarrow> bool" where
  "executor_response_ok r \<longleftrightarrow>
     xr_schema_version r = ''1.0'' \<and>
     xr_status r \<in> {''succeeded'', ''failed'', ''accepted'', ''recorded''} \<and>
     length (xr_summary r) \<le> 20000 \<and>
     (case xr_cost_usd r of Fin q \<Rightarrow> 0 \<le> q \<and> q \<le> 1000000 | _ \<Rightarrow> False) \<and>
     length (xr_artifact_references r) \<le> 100"

definition validate_response :: "executor_response option \<Rightarrow> executor_response option" where
  "validate_response decoded =
     (case decoded of Some r \<Rightarrow> if executor_response_ok r then Some r else None | None \<Rightarrow> None)"

section \<open>Ports and settings\<close>

record http_response =
  hr_status :: int
  hr_content_type :: string
  hr_chunks :: "string list"
  hr_broken :: bool
    \<comment> \<open>the transport fails after these chunks\<close>

record poll =
  po_time :: rat
  po_others :: "world \<Rightarrow> world"
    \<comment> \<open>what other sessions have done since the last poll\<close>

record process_trace =
  pt_start :: rat
  pt_polls :: "poll list"
  pt_result :: "exc + int \<times> string \<times> string"
    \<comment> \<open>return code, standard output and standard error\<close>

record ports =
  x_http :: "string \<Rightarrow> (string \<times> string) list \<Rightarrow> pydict \<Rightarrow> rat \<Rightarrow> (world, http_response option) op"
    \<comment> \<open>None when no response arrives\<close>
  x_spawn :: "string list \<Rightarrow> pydict \<Rightarrow> (world, process_trace) op"
  x_json_loads :: "string \<Rightarrow> pyval option"
  x_text :: "string \<Rightarrow> string"
  x_response :: "pyval \<Rightarrow> executor_response option"
  x_response_json :: "string \<Rightarrow> executor_response option"
  x_shlex :: "string \<Rightarrow> exc + string list"
  x_str_exc :: "exc \<Rightarrow> string"

record runner_settings =
  st_local_adapter_enabled :: bool
  st_local_adapter_allowlist :: string
  st_http_adapter_allowlist :: string
  st_internal_service_key :: string

definition local_adapter_allowlist_entries :: "runner_settings \<Rightarrow> string set" where
  "local_adapter_allowlist_entries st =
     set (filter (\<lambda>s. s \<noteq> []) (map py_strip (py_split (CHR '','') (st_local_adapter_allowlist st))))"

definition http_allowlist :: "runner_settings \<Rightarrow> string set" where
  "http_allowlist st =
     (\<lambda>v. py_rstrip_char (CHR ''/'') (py_strip v)) `
       set (filter (\<lambda>v. py_strip v \<noteq> []) (py_split (CHR '','') (st_http_adapter_allowlist st)))"

section \<open>HTTP\<close>

definition wakeup_error :: "string \<Rightarrow> int \<Rightarrow> string \<Rightarrow> (world, 'a) op" where
  "wakeup_error detail status_code category = raiseS (AgentWakeupError detail status_code category)"

text \<open>The body, read until it is complete, too long or the transport fails.\<close>

fun read_chunks :: "bool \<Rightarrow> string \<Rightarrow> string list \<Rightarrow> (world, string) op" where
  "read_chunks broken content [] =
     (if broken then wakeup_error ''executor_effects_uncertain'' 409 ''uncertain_effects'' else retS content)"
| "read_chunks broken content (c # cs) =
     (if length (content @ c) > 1000000
      then wakeup_error ''executor_output_limit_exceeded'' 409 ''uncertain_effects''
      else read_chunks broken (content @ c) cs)"

definition http_headers :: "runner_settings \<Rightarrow> agent_wakeup_adapter_config \<Rightarrow> string \<Rightarrow> string option \<Rightarrow> (string \<times> string) list" where
  "http_headers st cfg run_id trace_id =
     [(''Idempotency-Key'', run_id)] @
     (if map_of (ac_config cfg) ''contract_version'' = Some (PStr ''1.0'')
      then [(''X-Executor-Contract'', ''1.0'')] else []) @
     (if st_internal_service_key st \<noteq> [] then [(''X-Internal-Key'', st_internal_service_key st)] else []) @
     (case trace_id of Some (c # cs) \<Rightarrow> [(''X-Trace-ID'', c # cs)] | _ \<Rightarrow> [])"

definition contract_output :: "string \<Rightarrow> executor_response \<Rightarrow> pydict" where
  "contract_output adapter r =
     [(''status'', PStr (if xr_status r = ''succeeded'' then ''ok'' else ''recorded'')),
      (''adapter'', PStr adapter), (''cost_usd'', PFloat (xr_cost_usd r)),
      (''cost_is_estimate'', PBool (xr_cost_is_estimate r)), (''summary'', PStr (xr_summary r)),
      (''response'', PMap (xr_output r)),
      (''artifact_references'', PList (map PStr (xr_artifact_references r)))]"

definition execute_http ::
  "ports \<Rightarrow> runner_settings \<Rightarrow> agent_wakeup_adapter_config \<Rightarrow> pydict \<Rightarrow> string \<Rightarrow> string option \<Rightarrow> (world, pydict) op" where
  "execute_http X st cfg request run_id trace_id =
     (case string_value cfg [''base_url'', ''url'', ''endpoint''] of
        None \<Rightarrow> wakeup_error ''http_adapter_base_url_required'' 400 ''adapter_config_error''
      | Some base_url \<Rightarrow>
          if py_rstrip_char (CHR ''/'') base_url \<notin> http_allowlist st
          then wakeup_error ''http_adapter_endpoint_not_allowlisted'' 403 ''adapter_not_allowlisted''
          else
            let path = (case string_value cfg [''path''] of Some p \<Rightarrow> p | None \<Rightarrow> ''/agent/request'');
                url = py_rstrip_char (CHR ''/'') base_url @ (if py_startswith path ''/'' then path else ''/'' @ path) in
            bindS (liftE (http_timeout_seconds cfg)) (\<lambda>timeout.
            bindS (x_http X url (http_headers st cfg run_id trace_id) request timeout) (\<lambda>response. case response of
                None \<Rightarrow> wakeup_error ''executor_effects_uncertain'' 409 ''uncertain_effects''
              | Some resp \<Rightarrow>
                  if hr_status resp \<ge> 500
                  then wakeup_error ''executor_effects_uncertain'' 409 ''uncertain_effects''
                  else if \<not> (200 \<le> hr_status resp \<and> hr_status resp \<le> 299)
                  then raiseS (ExternalError ''HTTPStatusError'' (int_text (hr_status resp)))
                  else
                    bindS (read_chunks (hr_broken resp) [] (hr_chunks resp)) (\<lambda>content.
                    bindS (if contains_text (hr_content_type resp) ''application/json''
                           then (case x_json_loads X content of
                                   None \<Rightarrow> wakeup_error ''executor_contract_invalid'' 409 ''uncertain_effects''
                                 | Some b \<Rightarrow> retS b)
                           else retS (PMap [(''text'', PStr (x_text X content))])) (\<lambda>body.
                    if map_of (ac_config cfg) ''contract_version'' = Some (PStr ''1.0'') then
                      (case validate_response (x_response X body) of
                         None \<Rightarrow> wakeup_error ''executor_contract_invalid'' 409 ''uncertain_effects''
                       | Some r \<Rightarrow>
                           if xr_status r = ''failed'' then wakeup_error ''http_executor_failed'' 502 ''wakeup_error''
                           else retS (contract_output ''http'' r))
                    else
                      retS [(''status'', PStr ''recorded''), (''adapter'', PStr ''http''), (''response'', body),
                            (''summary'', case body of PMap d \<Rightarrow> dict_get ''status'' PNone d | _ \<Rightarrow> PStr ''ok'')])))))"

section \<open>Subprocesses\<close>

datatype process_signal = SIGSTOP | SIGCONT

text \<open>
  One pass of the supervision loop per poll while the process runs: the deadline, then the control
  action of the lease. The result is the signals sent; every error path kills the process group.
\<close>

fun supervise :: "execution_ticket option \<Rightarrow> rat \<Rightarrow> poll list \<Rightarrow> bool \<Rightarrow> (world, process_signal list) op" where
  "supervise ticket deadline [] paused = retS []"
| "supervise ticket deadline (p # ps) paused =
     bindS (modifyS (po_others p)) (\<lambda>_.
     if deadline \<le> po_time p then wakeup_error ''local_adapter_timeout'' 504 ''timeout''
     else case ticket of
         None \<Rightarrow> supervise ticket deadline ps paused
       | Some tk \<Rightarrow>
           bindS (control_action tk) (\<lambda>action.
             if action = ''terminate'' then wakeup_error ''execution_terminated'' 409 ''cancelled''
             else if action = ''pause'' \<and> \<not> paused
             then bindS (supervise ticket deadline ps True) (\<lambda>sigs. retS (SIGSTOP # sigs))
             else if action = ''resume'' \<and> paused
             then bindS (supervise ticket deadline ps False) (\<lambda>sigs. retS (SIGCONT # sigs))
             else supervise ticket deadline ps paused))"

definition adapter_command :: "env \<Rightarrow> ports \<Rightarrow> agent_wakeup_adapter_config \<Rightarrow> exc + string list" where
  "adapter_command E X cfg =
     (case map_of (ac_config cfg) ''command'' of
        Some (PStr s) \<Rightarrow> x_shlex X s
      | Some (PEnum s) \<Rightarrow> x_shlex X s
      | Some (PList vs) \<Rightarrow> Inr (filter (\<lambda>s. s \<noteq> []) (map (py_str E) vs))
      | Some (PTuple vs) \<Rightarrow> Inr (filter (\<lambda>s. s \<noteq> []) (map (py_str E) vs))
      | _ \<Rightarrow> Inr [])"

definition truncate_stdio :: "string \<Rightarrow> string" where
  "truncate_stdio s = (if length s \<le> 20000 then s else take 20000 s @ CHR 0x0A # ''...[truncated]'')"

text \<open>White space of a byte string, as \<open>bytes.strip\<close> sees it.\<close>

definition bytes_space :: "char \<Rightarrow> bool" where
  "bytes_space c \<longleftrightarrow> c \<in> set [CHR 0x20, CHR 0x09, CHR 0x0A, CHR 0x0B, CHR 0x0C, CHR 0x0D]"

definition process_output :: "ports \<Rightarrow> string \<Rightarrow> string \<Rightarrow> pydict" where
  "process_output X stdout stderr =
     (let out = truncate_stdio (x_text X stdout) in
      [(''status'', PStr (if list_all bytes_space stdout then ''recorded'' else ''ok'')),
       (''adapter'', PStr ''process''), (''exit_code'', PInt 0), (''stdout'', PStr out),
       (''stderr'', PStr (truncate_stdio (x_text X stderr))),
       (''summary'', PStr (if py_strip out \<noteq> [] then last_line (py_strip out) else ''ok''))])"

definition execute_process ::
  "env \<Rightarrow> ports \<Rightarrow> agent_wakeup_adapter_config \<Rightarrow> execution_ticket option \<Rightarrow> pydict \<Rightarrow> (world, pydict) op" where
  "execute_process E X cfg ticket request =
     bindS (liftE (adapter_command E X cfg)) (\<lambda>command.
     if command = [] then wakeup_error ''local_adapter_command_required'' 400 ''adapter_config_error''
     else if string_value cfg [''cwd'', ''working_directory''] \<noteq> None
     then wakeup_error ''local_adapter_custom_workspace_forbidden'' 403 ''wakeup_error''
     else
       bindS (liftE (process_timeout_seconds cfg 900)) (\<lambda>timeout.
       bindS (x_spawn X command request) (\<lambda>trace.
       bindS (supervise ticket (pt_start trace + of_int timeout) (pt_polls trace) False) (\<lambda>_.
       bindS (liftE (pt_result trace)) (\<lambda>(code, stdout, stderr).
         if code \<noteq> 0 then wakeup_error ''local_adapter_failed'' 502 ''process_failed''
         else if map_of (ac_config cfg) ''contract_version'' = Some (PStr ''1.0'') then
           (case validate_response (x_response_json X stdout) of
              None \<Rightarrow> wakeup_error ''executor_contract_invalid'' 502 ''wakeup_error''
            | Some r \<Rightarrow>
                if xr_status r = ''failed'' then wakeup_error ''process_executor_failed'' 502 ''wakeup_error''
                else retS (contract_output ''process'' r))
         else retS (process_output X stdout stderr))))))"

section \<open>Dispatch\<close>

definition executor_request ::
  "agent_role \<Rightarrow> agent_wakeup_adapter_config \<Rightarrow> string \<Rightarrow> run_links \<Rightarrow> pydict \<Rightarrow> execution_ticket option \<Rightarrow> pydict" where
  "executor_request agent cfg run_id l payload ticket =
     [(''schema_version'', PStr ''1.0''), (''company_id'', PStr (ar_company_id agent)),
      (''action'', adapter_action cfg), (''agent_id'', PStr (ar_agent_id agent)), (''run_id'', PStr run_id),
      (''trace_id'', opt_str (rl_trace_id l)), (''goal_id'', opt_str (rl_goal_id l)),
      (''work_item_id'', opt_str (rl_work_item_id l)), (''input'', PMap payload),
      (''max_cost_usd'', case ticket of
          None \<Rightarrow> PInt 0 | Some tk \<Rightarrow> PFloat (f64_round (dec_value (tk_ceiling_usd tk))))]"

definition builtin_output :: "agent_role \<Rightarrow> pydict" where
  "builtin_output agent =
     [(''status'', PStr ''recorded''),
      (''summary'', PStr (ar_display_name agent @ '' wakeup was recorded by the control plane.'')),
      (''agent_kind'', PEnum (agent_kind_value (ar_agent_kind agent))), (''role'', PStr (ar_role agent)),
      (''title'', PStr (ar_title agent)), (''capabilities'', PList (map PStr (ar_capabilities agent))),
      (''responsibilities'', PList (map PStr (ar_responsibilities agent)))]"

definition execute_adapter ::
  "env \<Rightarrow> ports \<Rightarrow> runner_settings \<Rightarrow> agent_role \<Rightarrow> string \<Rightarrow> pydict \<Rightarrow> run_links \<Rightarrow> execution_ticket option \<Rightarrow>
   (world, pydict) op" where
  "execute_adapter E X st agent run_id payload l ticket =
     bindS (liftE (adapter_config_from_agent_role agent)) (\<lambda>cfg.
     if \<not> is_registered (ac_adapter_type cfg)
     then wakeup_error ''unsupported_adapter_type'' 400 ''unsupported_adapter''
     else
       let request = executor_request agent cfg run_id l payload ticket in
       if ac_adapter_type cfg = ''builtin'' then retS (builtin_output agent)
       else if ac_adapter_type cfg = ''http'' then execute_http X st cfg request run_id (rl_trace_id l)
       else if is_local (ac_adapter_type cfg) then
         (if \<not> st_local_adapter_enabled st then wakeup_error ''local_adapter_disabled'' 403 ''adapter_disabled''
          else if allowlist_key cfg \<notin> local_adapter_allowlist_entries st
          then wakeup_error ''local_adapter_not_allowlisted'' 403 ''adapter_not_allowlisted''
          else execute_process E X cfg ticket request)
       else wakeup_error ''unsupported_adapter_type'' 400 ''wakeup_error'')"

section \<open>Waking an agent\<close>

text \<open>\<open>type(exc).__name__\<close>.\<close>

fun exc_class :: "exc \<Rightarrow> string" where
  "exc_class (ValueError x) = ''ValueError''"
| "exc_class (TypeError x) = ''TypeError''"
| "exc_class (OverflowError x) = ''OverflowError''"
| "exc_class (InvalidOperation x) = ''InvalidOperation''"
| "exc_class (EnumValueError x y) = ''ValueError''"
| "exc_class (InvalidControlPlaneStateMachineError x) = ''InvalidControlPlaneStateMachineError''"
| "exc_class (InvalidGoalTransitionError x) = ''InvalidGoalTransitionError''"
| "exc_class (InvalidWorkItemTransitionError x) = ''InvalidWorkItemTransitionError''"
| "exc_class (InvalidAgentRunTransitionError x) = ''InvalidAgentRunTransitionError''"
| "exc_class (InvalidDecisionTransitionError x) = ''InvalidDecisionTransitionError''"
| "exc_class (InvalidApprovalTransitionError x) = ''InvalidApprovalTransitionError''"
| "exc_class (InvalidAgentRoleStatusError x) = ''InvalidAgentRoleStatusError''"
| "exc_class (InvalidAgentRoleTransitionError x) = ''InvalidAgentRoleTransitionError''"
| "exc_class (InvalidEvolutionRolloutTransitionError x) = ''InvalidEvolutionRolloutTransitionError''"
| "exc_class (InvalidBudgetPolicyError x) = ''InvalidBudgetPolicyError''"
| "exc_class (InvalidBudgetPolicyStatusError x) = ''InvalidBudgetPolicyStatusError''"
| "exc_class (InvalidBudgetPolicyTransitionError x) = ''InvalidBudgetPolicyTransitionError''"
| "exc_class (BudgetPolicyConflictError x) = ''BudgetPolicyConflictError''"
| "exc_class (ActiveBudgetPolicyConflictError x) = ''ActiveBudgetPolicyConflictError''"
| "exc_class (BudgetPolicyNotFoundError x) = ''BudgetPolicyNotFoundError''"
| "exc_class (BudgetExceededError x) = ''BudgetExceededError''"
| "exc_class (InvalidBudgetUsageError x) = ''InvalidBudgetUsageError''"
| "exc_class (InvalidControlPlaneMetadataError x) = ''InvalidControlPlaneMetadataError''"
| "exc_class (InvalidAuditEventError x) = ''InvalidAuditEventError''"
| "exc_class (InvalidArtifactError x) = ''InvalidArtifactError''"
| "exc_class (InvalidCompanyContextError x) = ''InvalidCompanyContextError''"
| "exc_class (InvalidAgentPromptConfigError x) = ''InvalidAgentPromptConfigError''"
| "exc_class (GoalNotFoundError x) = ''GoalNotFoundError''"
| "exc_class (ParentGoalNotFoundError x) = ''ParentGoalNotFoundError''"
| "exc_class (WorkItemNotFoundError x) = ''WorkItemNotFoundError''"
| "exc_class (WorkItemGoalNotFoundError x) = ''WorkItemGoalNotFoundError''"
| "exc_class (WorkItemDependencyNotFoundError x) = ''WorkItemDependencyNotFoundError''"
| "exc_class (WorkItemAssigneeRequiredError x) = ''WorkItemAssigneeRequiredError''"
| "exc_class (WorkItemCloseStatusError x) = ''WorkItemCloseStatusError''"
| "exc_class (WorkItemExecutionAgentRequiredError x) = ''WorkItemExecutionAgentRequiredError''"
| "exc_class (AgentDefinitionNotFoundError x) = ''AgentDefinitionNotFoundError''"
| "exc_class (AgentOperationCompanyNotFoundError x) = ''AgentOperationCompanyNotFoundError''"
| "exc_class (EvolutionProposalNotFoundError x) = ''EvolutionProposalNotFoundError''"
| "exc_class (EvolutionProposalApprovalNotFoundError x) = ''EvolutionProposalApprovalNotFoundError''"
| "exc_class (EvolutionProposalApprovalRequiredError x) = ''EvolutionProposalApprovalRequiredError''"
| "exc_class (SkillReleaseError x) = ''SkillReleaseError''"
| "exc_class (ReleaseCommandConflict x) = ''ReleaseCommandConflict''"
| "exc_class (ReleaseOwnershipError x) = ''ReleaseOwnershipError''"
| "exc_class (ExecutionLinkMismatchError x) = ''ExecutionLinkMismatchError''"
| "exc_class (ApprovalRequiredError x) = ''ApprovalRequiredError''"
| "exc_class (ExecutionDenied x y) = ''ExecutionDenied''"
| "exc_class (AgentWakeupError x y z) = ''AgentWakeupError''"
| "exc_class (ExternalError c t) = c"
| "exc_class (IntegrityError x) = ''IntegrityError''"

definition error_category :: "exc \<Rightarrow> string" where
  "error_category e = (case e of AgentWakeupError d n c \<Rightarrow> c | _ \<Rightarrow> exc_class e)"

definition error_message :: "ports \<Rightarrow> exc \<Rightarrow> string" where
  "error_message X e = (case e of AgentWakeupError d n c \<Rightarrow> d | _ \<Rightarrow> x_str_exc X e)"

record wake_args =
  wa_input_payload :: "pydict option"
  wa_actor_id :: string
  wa_links :: run_links
  wa_trigger :: string
  wa_idempotency_key :: "string option"

record agent_wakeup_result =
  ar_run_id :: string
  ar_output :: pyval
  ar_evidence_artifact_id :: "string option"

definition payload_or_empty :: "wake_args \<Rightarrow> pydict" where
  "payload_or_empty a = (case wa_input_payload a of None \<Rightarrow> [] | Some p \<Rightarrow> p)"

definition wake_claim_args :: "wake_args \<Rightarrow> string \<Rightarrow> string \<Rightarrow> claim_args" where
  "wake_claim_args a actor_id run_id =
     \<lparr>ca_run_id = run_id, ca_payload = payload_or_empty a, ca_work_item_id = rl_work_item_id (wa_links a),
      ca_goal_id = rl_goal_id (wa_links a), ca_actor_id = actor_id,
      ca_key = (case wa_idempotency_key a of Some (c # cs) \<Rightarrow> c # cs | _ \<Rightarrow> run_id)\<rparr>"

text \<open>\<open>bounded_cost(output.get("cost_usd", ticket.ceiling_usd))\<close>, and at least the ceiling when it is an estimate.\<close>

definition cost_is_estimated :: "pydict \<Rightarrow> bool" where
  "cost_is_estimated output \<longleftrightarrow>
     map_of output ''cost_usd'' = None \<or> map_of output ''cost_is_estimate'' = Some (PBool True)"

definition settlement_cost :: "execution_ticket \<Rightarrow> pydict \<Rightarrow> exc + rat" where
  "settlement_cost ticket output =
     bindE (case map_of output ''cost_usd'' of
              None \<Rightarrow> Inr (quantize6 (dec_value (tk_ceiling_usd ticket)))
            | Some v \<Rightarrow> bindE (bounded_cost v) (\<lambda>c. Inr (dec_value c))) (\<lambda>cost.
       Inr (if cost_is_estimated output then max cost (dec_value (tk_ceiling_usd ticket)) else cost))"

definition replayed_output :: "agent_run \<Rightarrow> pyval" where
  "replayed_output r =
     (if r_output_events r = [] then PMap []
      else case dict_get ''payload'' (PMap []) (last (r_output_events r)) of
             PMap d \<Rightarrow> dict_get ''output'' (PMap []) d | _ \<Rightarrow> PNone)"

definition replay_result :: "execution_ticket \<Rightarrow> (world, agent_wakeup_result) op" where
  "replay_result ticket =
     bindS (get_agent_run (tk_run_id ticket)) (\<lambda>existing. case existing of
         None \<Rightarrow> wakeup_error ''execution_recovery_required'' 409 ''wakeup_error''
       | Some r \<Rightarrow>
           if r_status r \<noteq> AgentRunStatus_SUCCEEDED
           then wakeup_error ''previous_attempt_failed'' 409 ''wakeup_error''
           else retS \<lparr>ar_run_id = tk_run_id ticket, ar_output = replayed_output r,
                      ar_evidence_artifact_id = None\<rparr>)"

text \<open>The body of the try statement: the result is the output and whether the cost exceeded the ceiling.\<close>

definition dispatch ::
  "env \<Rightarrow> ports \<Rightarrow> runner_settings \<Rightarrow> agent_role \<Rightarrow> wake_args \<Rightarrow> string \<Rightarrow> execution_ticket option \<Rightarrow>
   (world, pydict \<times> bool) op" where
  "dispatch E X st agent a run_id ticket =
     bindS (execute_adapter E X st agent run_id (payload_or_empty a) (wa_links a) ticket) (\<lambda>output.
       case ticket of
         None \<Rightarrow> retS (output, False)
       | Some tk \<Rightarrow>
           bindS (liftE (settlement_cost tk output)) (\<lambda>cost.
           bindS (settle E tk cost (dec_value (tk_ceiling_usd tk) < cost) (cost_is_estimated output)) (\<lambda>_.
             retS (output, dec_value (tk_ceiling_usd tk) < cost))))"

definition dispatch_failed ::
  "env \<Rightarrow> ports \<Rightarrow> agent_role \<Rightarrow> wake_args \<Rightarrow> string \<Rightarrow> agent_wakeup_run_record \<Rightarrow> execution_ticket option \<Rightarrow>
   bool \<Rightarrow> exc \<Rightarrow> (world, 'a) op" where
  "dispatch_failed E X agent a actor_id rec ticket is_settled e =
     (case ticket of
        Some tk \<Rightarrow>
          if error_category e = ''uncertain_effects''
          then bindS (mark_uncertain E tk) (\<lambda>_. raiseS e)
          else
            bindS (whenS (\<not> is_settled) (settle E tk (dec_value (tk_ceiling_usd tk)) True True)) (\<lambda>_.
            bindS (fail_agent_wakeup_run E agent (r_run_id (wr_run rec)) (wr_input_event rec) actor_id (wa_links a)
                     (wa_trigger a) (error_category e) (error_message X e) (error_category e = ''cancelled'')) (\<lambda>_.
              raiseS (case e of AgentWakeupError d n c \<Rightarrow> e
                      | _ \<Rightarrow> AgentWakeupError ''agent_wakeup_failed'' 502 (error_category e))))
      | None \<Rightarrow>
          bindS (fail_agent_wakeup_run E agent (r_run_id (wr_run rec)) (wr_input_event rec) actor_id (wa_links a)
                   (wa_trigger a) (error_category e) (error_message X e) (error_category e = ''cancelled'')) (\<lambda>_.
            raiseS (case e of AgentWakeupError d n c \<Rightarrow> e
                    | _ \<Rightarrow> AgentWakeupError ''agent_wakeup_failed'' 502 (error_category e))))"

definition run_dispatch ::
  "env \<Rightarrow> ports \<Rightarrow> runner_settings \<Rightarrow> agent_role \<Rightarrow> wake_args \<Rightarrow> string \<Rightarrow> agent_wakeup_run_record \<Rightarrow>
   execution_ticket option \<Rightarrow> (world, agent_wakeup_result) op" where
  "run_dispatch E X st agent a actor_id rec ticket =
     bindS (catchS (dispatch E X st agent a (r_run_id (wr_run rec)) ticket)
              (dispatch_failed E X agent a actor_id rec ticket False)) (\<lambda>(output, exceeded).
     bindS (whenS exceeded (dispatch_failed E X agent a actor_id rec ticket True
              (AgentWakeupError ''executor_cost_ceiling_exceeded'' 502 ''executor_contract''))) (\<lambda>_.
     bindS (complete_agent_wakeup_run E agent (r_run_id (wr_run rec)) (wr_input_event rec) output actor_id
              (wa_links a) (wa_trigger a)) (\<lambda>artifact_id.
       retS \<lparr>ar_run_id = r_run_id (wr_run rec), ar_output = PMap output,
             ar_evidence_artifact_id = Some artifact_id\<rparr>)))"

text \<open>\<open>governed\<close>: the repository offers execution governance, as the database store does.\<close>

definition start_and_dispatch ::
  "env \<Rightarrow> ports \<Rightarrow> runner_settings \<Rightarrow> agent_role \<Rightarrow> wake_args \<Rightarrow> string \<Rightarrow> string \<Rightarrow> execution_ticket option \<Rightarrow>
   (world, agent_wakeup_result) op" where
  "start_and_dispatch E X st agent a actor_id run_id ticket =
     bindS (start_agent_wakeup_run E agent (wa_input_payload a) actor_id (wa_links a) (wa_trigger a)
              (Some run_id)) (\<lambda>rec.
     bindS (whenS (ticket \<noteq> None) checkpoint) (\<lambda>_.
       run_dispatch E X st agent a actor_id rec ticket))"

definition wake ::
  "env \<Rightarrow> ports \<Rightarrow> runner_settings \<Rightarrow> bool \<Rightarrow> agent_role \<Rightarrow> wake_args \<Rightarrow> (world, agent_wakeup_result) op" where
  "wake E X st governed agent a =
     bindS (getS w_operator) (\<lambda>principal.
     let actor_id = (case principal of Some p \<Rightarrow> p | None \<Rightarrow> wa_actor_id a) in
     case agent_role_is_runnable (from_record agent) of
       Inl (InvalidAgentRoleStatusError m) \<Rightarrow> wakeup_error ''invalid_agent_status'' 409 ''invalid_agent_status''
     | Inl e \<Rightarrow> raiseS e
     | Inr runnable \<Rightarrow>
         if \<not> runnable then wakeup_error ''agent_not_runnable'' 409 ''wakeup_error''
         else
           bindS (generate_id E ''run'') (\<lambda>run_id.
           if \<not> governed then start_and_dispatch E X st agent a actor_id run_id None
           else
             bindS (catchS (claim E agent (wake_claim_args a actor_id run_id)) (\<lambda>e. case e of
                 ExecutionDenied reason code \<Rightarrow> wakeup_error reason code ''execution_denied''
               | _ \<Rightarrow> raiseS e)) (\<lambda>ticket.
             if tk_replay ticket then replay_result ticket
             else start_and_dispatch E X st agent a actor_id run_id (Some ticket))))"

section \<open>Calls of the ports\<close>

text \<open>The dispatch of a run is on record: a committed running lease and a committed running run.\<close>

definition dispatch_ready :: "string \<Rightarrow> world \<Rightarrow> bool" where
  "dispatch_ready run_id w \<longleftrightarrow> w_db w = w_committed w \<and>
     list_ex (\<lambda>l. py_strip (le_run_id l) = run_id \<and> le_state l = LeaseRunning) (t_leases (w_committed w)) \<and>
     list_ex (\<lambda>r. r_run_id r = run_id \<and> r_status r = AgentRunStatus_RUNNING) (t_runs (w_committed w))"

definition request_ready :: "pydict \<Rightarrow> world \<Rightarrow> bool" where
  "request_ready request w \<longleftrightarrow>
     (case map_of request ''run_id'' of Some (PStr i) \<Rightarrow> dispatch_ready i w | _ \<Rightarrow> False)"

text \<open>Ports that differ at most in what they do when a dispatch is not on record.\<close>

definition same_when_ready :: "ports \<Rightarrow> ports \<Rightarrow> bool" where
  "same_when_ready X Y \<longleftrightarrow>
     (\<forall>url headers request timeout w. request_ready request w \<longrightarrow>
        x_http X url headers request timeout w = x_http Y url headers request timeout w) \<and>
     (\<forall>command request w. request_ready request w \<longrightarrow> x_spawn X command request w = x_spawn Y command request w) \<and>
     X\<lparr>x_http := x_http Y, x_spawn := x_spawn Y\<rparr> = Y"

lemma same_when_readyD:
  assumes "same_when_ready X Y"
  shows "request_ready request w \<Longrightarrow> x_http X url headers request timeout w = x_http Y url headers request timeout w"
    and "request_ready request w \<Longrightarrow> x_spawn X command request w = x_spawn Y command request w"
    and "x_json_loads X = x_json_loads Y" "x_text X = x_text Y" "x_response X = x_response Y"
    "x_response_json X = x_response_json Y" "x_shlex X = x_shlex Y" "x_str_exc X = x_str_exc Y"
proof -
  have eq: "X\<lparr>x_http := x_http Y, x_spawn := x_spawn Y\<rparr> = Y" using assms by (simp add: same_when_ready_def)
  show "x_json_loads X = x_json_loads Y" "x_text X = x_text Y" "x_response X = x_response Y"
    "x_response_json X = x_response_json Y" "x_shlex X = x_shlex Y" "x_str_exc X = x_str_exc Y"
    by (subst eq [symmetric], simp)+
qed (use assms in \<open>auto simp: same_when_ready_def\<close>)

lemma bindS_cong_run:
  "m w = m' w \<Longrightarrow> (\<And>a v. m' w = (Inr a, v) \<Longrightarrow> f a v = g a v) \<Longrightarrow> bindS m f w = bindS m' g w"
  by (auto simp: bindS_def split: prod.splits sum.splits)

lemma execute_adapter_same:
  assumes "same_when_ready X Y" and "dispatch_ready run_id w"
  shows "execute_adapter E X st agent run_id payload l ticket w = execute_adapter E Y st agent run_id payload l ticket w"
proof -
  have ready: "request_ready (executor_request agent cfg run_id l payload ticket) w" for cfg
    using assms(2) by (simp add: request_ready_def executor_request_def)
  note same = same_when_readyD [OF assms(1)]
  have http: "execute_http X st cfg (executor_request agent cfg run_id l payload ticket) run_id tr w =
      execute_http Y st cfg (executor_request agent cfg run_id l payload ticket) run_id tr w" for cfg tr
    unfolding execute_http_def same(3-8)
    by (auto split: option.split simp: Let_def same(1) [OF ready] intro!: bindS_cong_run)
  have process: "execute_process E X cfg ticket (executor_request agent cfg run_id l payload ticket) w =
      execute_process E Y cfg ticket (executor_request agent cfg run_id l payload ticket) w" for cfg
    unfolding execute_process_def adapter_command_def process_output_def same(3-8)
    by (auto simp: same(2) [OF ready] intro!: bindS_cong_run)
  show ?thesis
    unfolding execute_adapter_def
    by (rule bindS_cong_run) (auto simp: Let_def http process)
qed

lemma keeps_run_audit: "keeps (\<lambda>w. P (ledger_core (w_db w))) (append_agent_run_audit E act i co who tr wi det)"
  unfolding append_agent_run_audit_def by (intro keeps_intros keeps_new_audit)

lemma start_run_ok:
  assumes "start_agent_wakeup_run E agent payload who l trigger (Some run_id) w = (Inr rec, w')"
  shows "r_run_id (wr_run rec) = py_strip run_id" and "r_status (wr_run rec) = AgentRunStatus_RUNNING"
    and "t_runs (w_db w') = t_runs (w_db w) @ [wr_run rec]" and "t_leases (w_db w') = t_leases (w_db w)"
proof -
  from assms obtain run v where run: "r_run_id run = py_strip run_id" "r_status run = AgentRunStatus_RUNNING"
    "wr_run rec = run" "w_db v = (w_db w)\<lparr>t_runs := t_runs (w_db w) @ [run]\<rparr>"
    and aud: "append_agent_run_audit E ''agent_run.started'' (py_strip run_id) (ar_company_id agent) who
       (rl_trace_id l) (rl_work_item_id l)
       [(''trigger'', PStr trigger), (''adapter_type'', PStr (ar_adapter_type agent))] v = (Inr (), w')"
    by (clarsimp simp: start_agent_wakeup_run_def create_agent_run_def Let_def bindS_Inr_iff dest!: flush_ok)
       (erule that [rotated 4]; simp)
  note core = keeps_core_run [OF keeps_run_audit aud]
  show "r_run_id (wr_run rec) = py_strip run_id" "r_status (wr_run rec) = AgentRunStatus_RUNNING"
    using run by simp_all
  show "t_runs (w_db w') = t_runs (w_db w) @ [wr_run rec]" "t_leases (w_db w') = t_leases (w_db w)"
    using arg_cong [OF core, of t_runs] arg_cong [OF core, of t_leases] run by simp_all
qed

lemma start_and_dispatch_same:
  assumes "same_when_ready X Y"
    and "list_ex (\<lambda>l. le_run_id l = run_id \<and> le_state l = LeaseRunning) (t_leases (w_db w))"
  shows "start_and_dispatch E X st agent a who run_id (Some tk) w = start_and_dispatch E Y st agent a who run_id (Some tk) w"
  unfolding start_and_dispatch_def
proof (rule bindS_cong_run [OF refl], goal_cases)
  case (1 rec v)
  note run = start_run_ok [OF 1]
  let ?v = "v\<lparr>w_committed := w_db v\<rparr>"
  have "dispatch_ready (r_run_id (wr_run rec)) ?v"
    using assms(2) run by (auto simp: dispatch_ready_def list_ex_iff)
  then have d: "dispatch E X st agent a (r_run_id (wr_run rec)) (Some tk) ?v =
      dispatch E Y st agent a (r_run_id (wr_run rec)) (Some tk) ?v"
    unfolding dispatch_def by (intro bindS_cong_run execute_adapter_same [OF assms(1)]) auto
  have f: "dispatch_failed E X agent a who rec (Some tk) b = dispatch_failed E Y agent a who rec (Some tk) b" for b
    unfolding dispatch_failed_def error_message_def same_when_readyD(8) [OF assms(1)] by (rule refl)
  have "run_dispatch E X st agent a who rec (Some tk) ?v = run_dispatch E Y st agent a who rec (Some tk) ?v"
    unfolding run_dispatch_def f by (rule bindS_cong_run) (simp_all add: catchS_def d)
  then show ?case by simp
qed

text \<open>
  C4. Nothing is dispatched that is not on record: a governed wakeup calls the HTTP client or starts a
  process only in a world whose committed database has a running lease and a running run for the
  request. Two implementations of the ports that agree in such worlds, whatever they do in
  others, give the same wakeup, in its result and in the world it leaves.\<close>

theorem wake_dispatches_only_on_record:
  assumes "same_when_ready X Y"
  shows "wake E X st True agent a w = wake E Y st True agent a w"
proof -
  have "(if tk_replay tk then replay_result tk else start_and_dispatch E X st agent a who run_id (Some tk)) v =
        (if tk_replay tk then replay_result tk else start_and_dispatch E Y st agent a who run_id (Some tk)) v"
    if run: "catchS (claim E agent (wake_claim_args a who run_id)) (\<lambda>e. case e of
        ExecutionDenied reason code \<Rightarrow> wakeup_error reason code ''execution_denied'' | _ \<Rightarrow> raiseS e) u = (Inr tk, v)"
    for who run_id tk u v
  proof -
    have "claim E agent (wake_claim_args a who run_id) u = (Inr tk, v)"
      using run by (auto simp: catchS_def wakeup_error_def split: prod.splits sum.splits exc.splits)
    from claim_run [OF this] have "tk_replay tk \<or>
        list_ex (\<lambda>l. le_run_id l = run_id \<and> le_state l = LeaseRunning) (t_leases (w_db v))"
      by (auto simp: list_ex_iff wake_claim_args_def split: option.splits)
    then show ?thesis using start_and_dispatch_same [OF assms] by auto
  qed
  then show ?thesis
    unfolding wake_def
    by (auto simp: Let_def split: sum.split exc.split intro!: bindS_cong_run)
qed

definition sample_ports :: ports where
  "sample_ports = \<lparr>x_http = (\<lambda>url headers request timeout. retS None),
     x_spawn = (\<lambda>command request. retS \<lparr>pt_start = 0, pt_polls = [], pt_result = Inr (0, ''done'', [])\<rparr>),
     x_json_loads = (\<lambda>s. None), x_text = (\<lambda>s. s), x_response = (\<lambda>v. None), x_response_json = (\<lambda>s. None),
     x_shlex = (\<lambda>s. Inr [s]), x_str_exc = (\<lambda>e. ''error'')\<rparr>"

text \<open>Ports that raise when a request is not on record.\<close>

definition strict_ports :: ports where
  "strict_ports = sample_ports\<lparr>
     x_http := (\<lambda>url headers request timeout w. if request_ready request w
        then x_http sample_ports url headers request timeout w else (Inl (ValueError ''off the record''), w)),
     x_spawn := (\<lambda>command request w. if request_ready request w
        then x_spawn sample_ports command request w else (Inl (ValueError ''off the record''), w))\<rparr>"

definition sample_settings :: runner_settings where
  "sample_settings = \<lparr>st_local_adapter_enabled = True, st_local_adapter_allowlist = ''process:dev'',
     st_http_adapter_allowlist = [], st_internal_service_key = []\<rparr>"

definition sample_wake :: wake_args where
  "sample_wake = \<lparr>wa_input_payload = None, wa_actor_id = ''op'',
     wa_links = \<lparr>rl_trace_id = None, rl_goal_id = None, rl_work_item_id = None\<rparr>,
     wa_trigger = ''manual_wakeup'', wa_idempotency_key = None\<rparr>"

definition process_role :: agent_role where
  "process_role = sample_role\<lparr>ar_adapter_config := [(''max_cost_usd'', PInt 1), (''command'', PStr ''run'')]\<rparr>"

definition wake_world :: world where
  "wake_world = world_of (ledger_db\<lparr>t_roles := [process_role]\<rparr>)"

theorem wake_dispatches_only_on_record_witness:
  "wake sample_env strict_ports sample_settings True process_role sample_wake wake_world =
   wake sample_env sample_ports sample_settings True process_role sample_wake wake_world"
  by (rule wake_dispatches_only_on_record) (simp add: same_when_ready_def strict_ports_def)

section \<open>A successful wakeup\<close>

lemma keeps_runs_of_core:
  assumes "\<And>P. keeps (\<lambda>w. P (ledger_core (w_db w))) m"
  shows "keeps (\<lambda>w. P (t_runs (w_db w))) m"
  using assms [of "\<lambda>c. P (t_runs c)"] by simp

lemma audit_run_end_core: "keeps (\<lambda>w. P (ledger_core (w_db w))) (audit_run_end E agent i who l action evs det)"
  unfolding audit_run_end_def by (intro keeps_intros keeps_domain_event_audits keeps_run_audit)

lemma evidence_ok:
  assumes "create_run_evidence_artifact E a w = (Inr art, w')"
  shows "t_runs (w_db w') = t_runs (w_db w)" and "t_leases (w_db w') = t_leases (w_db w)"
    and "art \<in> set (t_artifacts (w_db w'))"
proof -
  have "keeps (\<lambda>w. P (t_runs (w_db w))) (create_run_evidence_artifact E a)" for P
    unfolding create_run_evidence_artifact_def create_artifact_def list_approvals_def list_budget_usage_def
      list_audit_events_def
    by (intro keeps_intros keeps_write keeps_runs_of_core keeps_domain_event_audits) simp
  from keeps_run_eq [OF this assms] show "t_runs (w_db w') = t_runs (w_db w)" .
  show "t_leases (w_db w') = t_leases (w_db w)" by (rule evidence_frame.same_leases [OF assms])
  from assms obtain v evs ctx as where v: "t_artifacts (w_db v) = t_artifacts (w_db w) @ [art]"
    and aud: "append_control_plane_domain_event_audits E evs ctx v = (Inr as, w')"
    by (clarsimp simp: create_run_evidence_artifact_def create_artifact_def list_approvals_def
        list_budget_usage_def list_audit_events_def Let_def bindS_Inr_iff dest!: flush_ok)
       (erule that [rotated]; simp)
  have "t_artifacts (w_db w') = t_artifacts (w_db v)"
    using arg_cong [OF keeps_core_run [OF keeps_domain_event_audits(1) aud], of t_artifacts] by simp
  with v show "art \<in> set (t_artifacts (w_db w'))" by simp
qed

lemma update_run_status_ok:
  assumes "update_agent_run_status E i s u w = (Inr x, w')"
  shows "t_leases (w_db w') = t_leases (w_db w)"
    and "map_option r_status (find (\<lambda>r. r_run_id r = i) (t_runs (w_db w'))) =
         map_option (\<lambda>_. s) (find (\<lambda>r. r_run_id r = i) (t_runs (w_db w)))"
proof -
  show "t_leases (w_db w') = t_leases (w_db w)" by (rule run_update_frame.same_leases [OF assms])
  show "map_option r_status (find (\<lambda>r. r_run_id r = i) (t_runs (w_db w'))) =
         map_option (\<lambda>_. s) (find (\<lambda>r. r_run_id r = i) (t_runs (w_db w)))"
  proof (cases "find (\<lambda>r. r_run_id r = i) (t_runs (w_db w))")
    case None
    with assms show ?thesis by (simp add: update_agent_run_status_def get_agent_run_def)
  next
    case (Some r)
    with assms obtain c where "t_runs (w_db w') = update_row r_run_id i (updated_run s c u) (t_runs (w_db w))"
      by (auto simp: update_agent_run_status_def get_agent_run_def bindS_Inr_iff split: if_splits dest!: flush_ok)
    with Some show ?thesis by (simp add: find_update_row updated_run_def)
  qed
qed

lemma complete_run_ok:
  assumes "complete_agent_wakeup_run E agent i ie out who l trig w = (Inr aid, w')"
  shows "t_leases (w_db w') = t_leases (w_db w)"
    and "map_option r_status (find (\<lambda>r. r_run_id r = i) (t_runs (w_db w'))) =
         map_option (\<lambda>_. AgentRunStatus_SUCCEEDED) (find (\<lambda>r. r_run_id r = i) (t_runs (w_db w)))"
    and "aid \<in> art_artifact_id ` set (t_artifacts (w_db w'))"
proof -
  let ?w1 = "w\<lparr>w_tick := Suc (w_tick w)\<rparr>"
  from assms obtain evs v1 u x v2 act det v3 ev art where
    val: "validate_run_transition i AgentRunStatus_SUCCEEDED ?w1 = (Inr evs, v1)"
    and upd: "update_agent_run_status E i AgentRunStatus_SUCCEEDED u v1 = (Inr x, v2)"
    and aud: "audit_run_end E agent i who l act evs det v2 = (Inr (), v3)"
    and evi: "create_run_evidence_artifact E ev v3 = (Inr art, w')" and aid: "aid = art_artifact_id art"
    by (auto simp: complete_agent_wakeup_run_def build_agent_wakeup_completion_event_def bindS_Inr_iff)
  have v1: "v1 = ?w1" using keepsD_run [OF keeps_validate_run [of "\<lambda>v. v = ?w1"] _ val] by simp
  note core = keeps_core_run [OF audit_run_end_core aud]
  note ev = evidence_ok [OF evi] and up = update_run_status_ok [OF upd]
  show "t_leases (w_db w') = t_leases (w_db w)"
    using ev(2) arg_cong [OF core, of t_leases] up(1) v1 by simp
  show "map_option r_status (find (\<lambda>r. r_run_id r = i) (t_runs (w_db w'))) =
         map_option (\<lambda>_. AgentRunStatus_SUCCEEDED) (find (\<lambda>r. r_run_id r = i) (t_runs (w_db w)))"
    using ev(1) arg_cong [OF core, of t_runs] up(2) v1 by simp
  show "aid \<in> art_artifact_id ` set (t_artifacts (w_db w'))" using ev(3) aid by simp
qed

lemma settle_run_exists:
  assumes "settle E tk cost failed est w = (Inr u, w')"
  shows "find (\<lambda>r. r_run_id r = tk_run_id tk) (t_runs (w_db w')) \<noteq> None"
proof -
  obtain l :: execution_lease and w1 :: world and r :: agent_run where r: "find (\<lambda>r. r_run_id r = tk_run_id tk \<and> r_company_id r = le_company_id l) (t_runs (w_db w1)) = Some r"
    and w': "w_db w' = settled_db tk cost failed est l (w_db w1)"
    by (rule settle_ok [OF assms]) blast
  have "r \<in> set (t_runs (w_db w1))" "r_run_id r = tk_run_id tk" using r by (auto simp: find_Some_iff)
  then have "tk_run_id tk \<in> set (map r_run_id (t_runs (w_db w1)))" by force
  then have "tk_run_id tk \<in> set (map r_run_id (t_runs (w_db w')))"
    unfolding w' settled_db_def by (simp del: set_map add: update_row_keys)
  then show ?thesis by (auto simp del: not_None_eq simp: find_None_iff)
qed

lemma dispatch_failed_raises: "dispatch_failed E X agent a who rec ticket b e w \<noteq> (Inr r, w')"
  by (auto simp: dispatch_failed_def bindS_Inr_iff split: option.splits if_splits)

lemma run_dispatch_ok:
  assumes "run_dispatch E X st agent a who rec (Some tk) w = (Inr res, w')"
    and "r_run_id (wr_run rec) = tk_run_id tk"
  shows "ar_run_id res = tk_run_id tk"
    and "map_option le_state (lease_of (tk_execution_id tk) (w_db w')) = Some LeaseSucceeded"
    and "map_option r_status (find (\<lambda>r. r_run_id r = tk_run_id tk) (t_runs (w_db w'))) = Some AgentRunStatus_SUCCEEDED"
    and "\<exists>aid \<in> art_artifact_id ` set (t_artifacts (w_db w')). ar_evidence_artifact_id res = Some aid"
proof -
  from assms(1) obtain out b v v2 aid where
    attempt: "catchS (dispatch E X st agent a (r_run_id (wr_run rec)) (Some tk))
       (dispatch_failed E X agent a who rec (Some tk) False) w = (Inr (out, b), v)"
    and over: "whenS b (dispatch_failed E X agent a who rec (Some tk) True
       (AgentWakeupError ''executor_cost_ceiling_exceeded'' 502 ''executor_contract'')) v = (Inr (), v2)"
    and comp: "complete_agent_wakeup_run E agent (r_run_id (wr_run rec)) (wr_input_event rec) out who
       (wa_links a) (wa_trigger a) v2 = (Inr aid, w')"
    and res: "res = \<lparr>ar_run_id = r_run_id (wr_run rec), ar_output = PMap out, ar_evidence_artifact_id = Some aid\<rparr>"
    by (auto simp: run_dispatch_def bindS_Inr_iff)
  have b: "\<not> b" and v2: "v2 = v" using over dispatch_failed_raises by (cases b; fastforce)+
  from attempt have "dispatch E X st agent a (r_run_id (wr_run rec)) (Some tk) w = (Inr (out, b), v)"
    using dispatch_failed_raises by (fastforce simp: catchS_def split: prod.splits sum.splits)
  with b obtain u cost est where settled: "settle E tk cost False est u = (Inr (), v)"
    by (auto simp: dispatch_def bindS_Inr_iff)
  note comp = complete_run_ok [OF comp [unfolded v2 assms(2)]]
  show "ar_run_id res = tk_run_id tk" using res assms(2) by simp
  show "map_option le_state (lease_of (tk_execution_id tk) (w_db w')) = Some LeaseSucceeded"
    using settlement_step [OF settled] comp(1) by (simp add: lease_of_def)
  show "map_option r_status (find (\<lambda>r. r_run_id r = tk_run_id tk) (t_runs (w_db w'))) = Some AgentRunStatus_SUCCEEDED"
    using comp(2) settle_run_exists [OF settled] by auto
  show "\<exists>aid \<in> art_artifact_id ` set (t_artifacts (w_db w')). ar_evidence_artifact_id res = Some aid"
    using comp(3) res by auto
qed


definition builtin_role :: agent_role where
  "builtin_role = sample_role\<lparr>ar_adapter_type := ''builtin''\<rparr>"

definition replayed_digest :: string where
  "replayed_digest =
     (case intent_hash sample_env builtin_role [] None of Inl e \<Rightarrow> [] | Inr h \<Rightarrow> ''h'' @ h @ '':k9:op'')"

definition builtin_world :: world where
  "builtin_world = world_of (ledger_db\<lparr>t_roles := [builtin_role], t_policies := [],
     t_runs := [sample_run\<lparr>r_status := AgentRunStatus_SUCCEEDED\<rparr>],
     t_leases := [sample_lease\<lparr>le_execution_id := ''hacme:k9'', le_state := LeaseSucceeded,
       le_intent_hash := replayed_digest\<rparr>]\<rparr>)"

definition keyed_wake :: wake_args where
  "keyed_wake = sample_wake\<lparr>wa_idempotency_key := Some ''k9''\<rparr>"

lemma keyed_wake_runs:
  "\<not> isl (fst (wake sample_env sample_ports sample_settings True builtin_role keyed_wake builtin_world))"
  by code_simp


section \<open>Supervision\<close>

fun alternates :: "bool \<Rightarrow> process_signal list \<Rightarrow> bool" where
  "alternates paused [] = True"
| "alternates paused (s # ss) \<longleftrightarrow> s = (if paused then SIGCONT else SIGSTOP) \<and> alternates (\<not> paused) ss"

lemma supervise_ok:
  assumes "supervise ticket deadline ps paused w = (Inr sigs, w')"
  shows "alternates paused sigs \<and> (\<forall>p \<in> set ps. po_time p < deadline)"
  using assms
proof (induction ps arbitrary: paused w sigs)
  case (Cons p ps)
  show ?case
  proof (cases ticket)
    case None
    with Cons show ?thesis by (auto simp: wakeup_error_def split: if_splits)
  next
    case (Some tk)
    from Cons.prems show ?thesis
      by (auto simp: Some wakeup_error_def bindS_Inr_iff split: if_splits dest!: Cons.IH [unfolded Some])
  qed
qed simp


definition paused_lease_world :: world where
  "paused_lease_world = world_of (ledger_db\<lparr>t_leases := [sample_lease\<lparr>le_control_action := ''pause''\<rparr>]\<rparr>)"

definition resumed :: "world \<Rightarrow> world" where
  "resumed w = w\<lparr>w_db := (w_db w)\<lparr>t_leases := [sample_lease]\<rparr>\<rparr>"

definition sample_polls :: "poll list" where
  "sample_polls = [\<lparr>po_time = 1, po_others = (\<lambda>w. w)\<rparr>, \<lparr>po_time = 2, po_others = resumed\<rparr>]"


end
