(* ===== verification/Work_Service.thy ===== *)
theory Work_Service
  imports Outcome_Service Agent_Runner
begin

text \<open>
  Goals and work items: their stores (\<open>goal_store.py\<close>, \<open>work_item_store.py\<close>), the use cases
  (\<open>goal_use_cases.py\<close>, \<open>work_item_use_cases.py\<close>, \<open>work_item_operation_use_cases.py\<close>), running a work item
  through its agent (\<open>work_item_execution_use_cases.py\<close>, \<open>agent_operation_use_cases.py\<close>) and the routes that
  add checks of their own (\<open>api_routes/work_items.py\<close>).
\<close>

section \<open>Goals\<close>

definition store_create_goal :: "env \<Rightarrow> goal \<Rightarrow> (world, goal) op" where
  "store_create_goal E goal =
     bindS (write_db (\<lambda>d. d\<lparr>t_goals := t_goals d @ [goal]\<rparr>)) (\<lambda>_. bindS (flush E) (\<lambda>_. retS goal))"

definition store_get_goal :: "string \<Rightarrow> (world, goal option) op" where
  "store_get_goal goal_id = query_db (\<lambda>d. find (\<lambda>g. g_goal_id g = goal_id) (t_goals d))"

definition store_update_goal_status ::
  "env \<Rightarrow> string \<Rightarrow> goal_status \<Rightarrow> pyfloat option \<Rightarrow> (world, goal option) op" where
  "store_update_goal_status E goal_id status current_value =
     bindS (store_get_goal goal_id) (\<lambda>row. case row of
         None \<Rightarrow> retS None
       | Some g \<Rightarrow>
           bindS (now_utc E) (\<lambda>t.
           bindS (write_db (\<lambda>d. d\<lparr>t_goals := update_row g_goal_id goal_id
             (\<lambda>g. g\<lparr>g_status := status,
                    g_current_value := (case current_value of None \<Rightarrow> g_current_value g | Some v \<Rightarrow> Some v),
                    g_updated_at := utc_dt t\<rparr>) (t_goals d)\<rparr>)) (\<lambda>_.
           bindS (flush E) (\<lambda>_. store_get_goal goal_id))))"

definition get_goal :: "string \<Rightarrow> string \<Rightarrow> (world, goal) op" where
  "get_goal company_id goal_id =
     bindS (store_get_goal goal_id) (\<lambda>found. case found of
         None \<Rightarrow> raiseS (GoalNotFoundError goal_id)
       | Some g \<Rightarrow> if g_company_id g \<noteq> company_id then raiseS (GoalNotFoundError goal_id) else retS g)"

text \<open>A user's audit row, as the goal and work-item use cases write it.\<close>

definition user_audit ::
  "env \<Rightarrow> string \<Rightarrow> string \<Rightarrow> string \<Rightarrow> string \<Rightarrow> string \<Rightarrow> string option \<Rightarrow> pydict \<Rightarrow> (world, audit_event) op" where
  "user_audit E company_id action target_type target_id actor_id work_item_id detail =
     new_audit E (\<lambda>i t.
       \<lparr>ae_audit_event_id = i, ae_company_id = company_id, ae_action = action, ae_target_type = target_type,
        ae_target_id = target_id, ae_actor_type = ''user'', ae_actor_id = actor_id, ae_trace_id = None,
        ae_run_id = None, ae_work_item_id = work_item_id, ae_idempotency_key = None, ae_detail = detail,
        ae_created_at = utc_dt t\<rparr>)"

definition check_parent :: "goal \<Rightarrow> (world, unit) op" where
  "check_parent goal =
     (case g_parent_goal_id goal of
        Some (c # cs) \<Rightarrow>
          bindS (store_get_goal (c # cs)) (\<lambda>parent. case parent of
              None \<Rightarrow> raiseS (ParentGoalNotFoundError (c # cs))
            | Some p \<Rightarrow> if g_company_id p \<noteq> g_company_id goal then raiseS (ParentGoalNotFoundError (c # cs))
                        else retS ())
      | _ \<Rightarrow> retS ())"

definition create_goal_with_audit :: "env \<Rightarrow> goal \<Rightarrow> string \<Rightarrow> (world, goal) op" where
  "create_goal_with_audit E goal created_by =
     bindS (ensure_company E (g_company_id goal)) (\<lambda>_.
     bindS (check_parent goal) (\<lambda>_.
     bindS (store_create_goal E goal) (\<lambda>created.
     bindS (user_audit E (g_company_id goal) ''goal.created'' ''goal'' (g_goal_id created) created_by None
              [(''goal_id'', PStr (g_goal_id created)), (''status'', PStr (goal_status_value (g_status created))),
               (''parent_goal_id'', opt_str (g_parent_goal_id created)),
               (''owner_agent_id'', opt_str (g_owner_agent_id created)),
               (''owner_user_id'', opt_str (g_owner_user_id created))]) (\<lambda>_.
       retS created))))"

definition user_context :: "string \<Rightarrow> string option \<Rightarrow> pydict \<Rightarrow> domain_event_audit_context" where
  "user_context actor_id work_item_id detail =
     \<lparr>dctx_actor_type = ''user'', dctx_actor_id = actor_id, dctx_trace_id = None, dctx_run_id = None,
      dctx_work_item_id = work_item_id, dctx_detail = detail\<rparr>"

definition update_goal_status_with_audit ::
  "env \<Rightarrow> string \<Rightarrow> string \<Rightarrow> goal_status enum_arg \<Rightarrow> pyfloat option \<Rightarrow> string \<Rightarrow> (world, goal) op" where
  "update_goal_status_with_audit E company_id goal_id status current_value actor_id =
     bindS (get_goal company_id goal_id) (\<lambda>existing.
     case goal_transition_to status (from_record existing) of
       (Inl e, a) \<Rightarrow> raiseS e
     | (Inr u, a) \<Rightarrow>
         bindS (liftE (goal_current_value_for_update a current_value)) (\<lambda>progress_value.
         bindS (store_update_goal_status E goal_id (g_status (agg_record a)) progress_value) (\<lambda>updated. case updated of
             None \<Rightarrow> raiseS (GoalNotFoundError goal_id)
           | Some g \<Rightarrow>
               let detail = [(''status'', PStr (goal_status_value (g_status g))),
                             (''current_value'', case g_current_value g of None \<Rightarrow> PNone | Some v \<Rightarrow> PFloat v)] in
               if agg_events a \<noteq> [] then
                 bindS (append_control_plane_domain_event_audits E (map EvGoal (agg_events a))
                          (user_context actor_id None detail)) (\<lambda>_. retS g)
               else
                 bindS (user_audit E company_id ''goal.updated'' ''goal'' (g_goal_id g) actor_id None detail) (\<lambda>_.
                   retS g))))"

section \<open>Work items\<close>

definition store_create_work_item :: "env \<Rightarrow> work_item \<Rightarrow> (world, work_item) op" where
  "store_create_work_item E work_item =
     bindS (write_db (\<lambda>d. d\<lparr>t_work_items := t_work_items d @ [work_item]\<rparr>)) (\<lambda>_.
     bindS (flush E) (\<lambda>_. retS work_item))"

text \<open>
  Changing a row under the company lock: refused while an execution holds the work item, and completing
  it requires an accepted outcome.
\<close>

definition holds_work :: "string \<Rightarrow> string \<Rightarrow> execution_lease \<Rightarrow> bool" where
  "holds_work company_id work_item_id l \<longleftrightarrow>
     le_company_id l = company_id \<and> le_resource_id l = ''work:'' @ work_item_id \<and> lease_active l"

definition write_work_status ::
  "env \<Rightarrow> string \<Rightarrow> work_item_status \<Rightarrow> string option \<Rightarrow> string option \<Rightarrow> (world, work_item option) op" where
  "write_work_status E work_item_id status owner_agent_id owner_user_id =
     bindS (now_utc E) (\<lambda>t.
     bindS (write_work work_item_id (\<lambda>r. r\<lparr>w_status := status,
              w_owner_agent_id := (case owner_agent_id of None \<Rightarrow> w_owner_agent_id r | Some x \<Rightarrow> Some x),
              w_owner_user_id := (case owner_user_id of None \<Rightarrow> w_owner_user_id r | Some x \<Rightarrow> Some x),
              w_updated_at := utc_dt t\<rparr>)) (\<lambda>_.
     bindS (flush E) (\<lambda>_. get_work work_item_id)))"

definition store_update_work_item_status ::
  "env \<Rightarrow> string \<Rightarrow> work_item_status \<Rightarrow> string option \<Rightarrow> string option \<Rightarrow> (world, work_item option) op" where
  "store_update_work_item_status E work_item_id status owner_agent_id owner_user_id =
     bindS (get_work work_item_id) (\<lambda>row. case row of
         None \<Rightarrow> retS None
       | Some r \<Rightarrow>
           bindS (query_db (\<lambda>d. find (holds_work (w_company_id r) work_item_id) (t_leases d))) (\<lambda>active.
           if active \<noteq> None then denied ''execution_control_or_recovery_required'' 409
           else
             bindS (liftE (fst (work_item_transition_to (StrArg (work_item_status_value status)) (from_record r)))) (\<lambda>_.
             bindS (whenS (status = WorkItemStatus_COMPLETED) (require_accepted E r)) (\<lambda>_.
               write_work_status E work_item_id status owner_agent_id owner_user_id))))"

definition get_work_item :: "string \<Rightarrow> string \<Rightarrow> (world, work_item) op" where
  "get_work_item company_id work_item_id =
     bindS (get_work work_item_id) (\<lambda>found. case found of
         None \<Rightarrow> raiseS (WorkItemNotFoundError work_item_id)
       | Some r \<Rightarrow> if w_company_id r \<noteq> company_id then raiseS (WorkItemNotFoundError work_item_id) else retS r)"

definition check_goal :: "work_item \<Rightarrow> (world, unit) op" where
  "check_goal work_item =
     (case w_goal_id work_item of
        Some (c # cs) \<Rightarrow>
          bindS (store_get_goal (c # cs)) (\<lambda>goal. case goal of
              None \<Rightarrow> raiseS (WorkItemGoalNotFoundError (c # cs))
            | Some g \<Rightarrow> if g_company_id g \<noteq> w_company_id work_item then raiseS (WorkItemGoalNotFoundError (c # cs))
                        else retS ())
      | _ \<Rightarrow> retS ())"

definition check_dependency :: "work_item \<Rightarrow> string \<Rightarrow> (world, unit) op" where
  "check_dependency work_item dependency_id =
     bindS (get_work dependency_id) (\<lambda>dependency. case dependency of
         None \<Rightarrow> raiseS (WorkItemDependencyNotFoundError dependency_id)
       | Some r \<Rightarrow> if w_company_id r \<noteq> w_company_id work_item
                   then raiseS (WorkItemDependencyNotFoundError dependency_id) else retS ())"

definition create_work_item_with_audit :: "env \<Rightarrow> work_item \<Rightarrow> string \<Rightarrow> (world, work_item) op" where
  "create_work_item_with_audit E work_item created_by =
     bindS (ensure_company E (w_company_id work_item)) (\<lambda>_.
     bindS (check_goal work_item) (\<lambda>_.
     bindS (forS (w_dependencies work_item) (check_dependency work_item)) (\<lambda>_.
     bindS (store_create_work_item E work_item) (\<lambda>created.
     bindS (user_audit E (w_company_id work_item) ''work_item.created'' ''work_item'' (w_work_item_id created)
              created_by (Some (w_work_item_id created))
              [(''work_item_id'', PStr (w_work_item_id created)),
               (''status'', PStr (work_item_status_value (w_status created))),
               (''priority'', PStr (work_item_priority_value (w_priority created))),
               (''goal_id'', opt_str (w_goal_id created)),
               (''owner_agent_id'', opt_str (w_owner_agent_id created)),
               (''owner_user_id'', opt_str (w_owner_user_id created))]) (\<lambda>_.
       retS created)))))"

definition opt_detail :: "string \<Rightarrow> string option \<Rightarrow> pydict" where
  "opt_detail key v = (case v of Some (c # cs) \<Rightarrow> [(key, PStr (c # cs))] | _ \<Rightarrow> [])"

record work_update =
  wu_status :: "work_item_status enum_arg"
  wu_owner_agent_id :: "string option"
  wu_owner_user_id :: "string option"
  wu_command :: "string option"
  wu_reason :: "string option"

definition update_work_item_status_with_audit ::
  "env \<Rightarrow> string \<Rightarrow> string \<Rightarrow> work_update \<Rightarrow> string \<Rightarrow> (world, work_item) op" where
  "update_work_item_status_with_audit E company_id work_item_id u actor_id =
     bindS (get_work_item company_id work_item_id) (\<lambda>existing.
     case work_item_transition_to (wu_status u) (from_record existing) of
       (Inl e, a) \<Rightarrow> raiseS e
     | (Inr _, a) \<Rightarrow>
         bindS (store_update_work_item_status E work_item_id (w_status (agg_record a)) (wu_owner_agent_id u)
                  (wu_owner_user_id u)) (\<lambda>updated. case updated of
             None \<Rightarrow> raiseS (WorkItemNotFoundError work_item_id)
           | Some r \<Rightarrow>
               let detail = [(''status'', PStr (work_item_status_value (w_status r))),
                             (''owner_agent_id'', opt_str (w_owner_agent_id r)),
                             (''owner_user_id'', opt_str (w_owner_user_id r))] @
                            opt_detail ''command'' (wu_command u) @ opt_detail ''reason'' (wu_reason u) in
               if agg_events a \<noteq> [] then
                 bindS (append_control_plane_domain_event_audits E (map EvWorkItem (agg_events a))
                          (user_context actor_id (Some (w_work_item_id r)) detail)) (\<lambda>_. retS r)
               else
                 bindS (user_audit E company_id ''work_item.updated'' ''work_item'' (w_work_item_id r) actor_id
                          (Some (w_work_item_id r)) detail) (\<lambda>_. retS r)))"

section \<open>Operations on work items\<close>

definition reassign_work_item ::
  "env \<Rightarrow> string \<Rightarrow> string \<Rightarrow> string option \<Rightarrow> string option \<Rightarrow> string \<Rightarrow> string option \<Rightarrow> (world, work_item) op" where
  "reassign_work_item E company_id work_item_id owner_agent_id owner_user_id actor_id reason =
     bindS (get_work_item company_id work_item_id) (\<lambda>existing.
     if \<not> truthy_str owner_agent_id \<and> \<not> truthy_str owner_user_id
     then raiseS (WorkItemAssigneeRequiredError work_item_id)
     else update_work_item_status_with_audit E company_id work_item_id
            \<lparr>wu_status = StrArg (work_item_status_value (w_status existing)), wu_owner_agent_id = owner_agent_id,
             wu_owner_user_id = owner_user_id, wu_command = Some ''reassign'', wu_reason = reason\<rparr> actor_id)"

definition block_work_item :: "env \<Rightarrow> string \<Rightarrow> string \<Rightarrow> string \<Rightarrow> string \<Rightarrow> (world, work_item) op" where
  "block_work_item E company_id work_item_id actor_id reason =
     bindS (get_work_item company_id work_item_id) (\<lambda>existing.
       update_work_item_status_with_audit E company_id work_item_id
         \<lparr>wu_status = EnumArg WorkItemStatus_BLOCKED, wu_owner_agent_id = w_owner_agent_id existing,
          wu_owner_user_id = w_owner_user_id existing, wu_command = Some ''block'', wu_reason = Some reason\<rparr> actor_id)"

definition close_work_item ::
  "env \<Rightarrow> string \<Rightarrow> string \<Rightarrow> work_item_status \<Rightarrow> string \<Rightarrow> string option \<Rightarrow> (world, work_item) op" where
  "close_work_item E company_id work_item_id status actor_id reason =
     bindS (liftE (is_work_item_close_status (EnumArg status))) (\<lambda>closes.
     if \<not> closes then raiseS (WorkItemCloseStatusError (work_item_status_value status))
     else bindS (get_work_item company_id work_item_id) (\<lambda>existing.
       update_work_item_status_with_audit E company_id work_item_id
         \<lparr>wu_status = EnumArg status, wu_owner_agent_id = w_owner_agent_id existing,
          wu_owner_user_id = w_owner_user_id existing, wu_command = Some ''close'', wu_reason = reason\<rparr> actor_id))"

section \<open>Running a work item\<close>

definition wake_agent_definition ::
  "env \<Rightarrow> ports \<Rightarrow> runner_settings \<Rightarrow> bool \<Rightarrow> string \<Rightarrow> string \<Rightarrow> wake_args \<Rightarrow>
   (world, agent_run option \<times> agent_wakeup_result) op" where
  "wake_agent_definition E X st governed company_id agent_id a =
     bindS (get_role company_id agent_id) (\<lambda>agent. case agent of
         None \<Rightarrow> raiseS (AgentDefinitionNotFoundError agent_id)
       | Some role \<Rightarrow>
           bindS (wake E X st governed role a) (\<lambda>wakeup.
           bindS (get_agent_run (ar_run_id wakeup)) (\<lambda>run_row. retS (run_row, wakeup))))"

definition build_agent_input_payload :: "work_item \<Rightarrow> pydict option \<Rightarrow> pydict" where
  "build_agent_input_payload work_item input_payload =
     AList.update ''work_item'' (PMap
       [(''work_item_id'', PStr (w_work_item_id work_item)), (''company_id'', PStr (w_company_id work_item)),
        (''title'', PStr (w_title work_item)), (''description'', PStr (w_description work_item)),
        (''priority'', PStr (work_item_priority_value (w_priority work_item))),
        (''goal_id'', opt_str (w_goal_id work_item)), (''owner_agent_id'', opt_str (w_owner_agent_id work_item)),
        (''owner_user_id'', opt_str (w_owner_user_id work_item)), (''source'', PStr (w_source work_item)),
        (''external_ref'', opt_str (w_external_ref work_item)),
        (''dependencies'', PList (map PStr (w_dependencies work_item))),
        (''approval_required'', PBool (w_approval_required work_item)), (''metadata'', PMap (w_metadata work_item))])
       (case input_payload of None \<Rightarrow> [] | Some p \<Rightarrow> p)"

definition work_item_status_from_run :: "agent_run option \<Rightarrow> exc + work_item_status" where
  "work_item_status_from_run run =
     (case run of
        None \<Rightarrow> work_item_status_from_agent_run_status NoneArg
      | Some r \<Rightarrow>
          if r_status r = AgentRunStatus_SUCCEEDED then Inr WorkItemStatus_BLOCKED
          else work_item_status_from_agent_run_status (StrArg (agent_run_status_value (r_status r))))"

record run_args =
  ra_agent_id :: "string option"
  ra_input_payload :: "pydict option"
  ra_actor_id :: string
  ra_trace_id :: "string option"
  ra_idempotency_key :: "string option"

definition run_wake_args :: "work_item \<Rightarrow> run_args \<Rightarrow> wake_args" where
  "run_wake_args work_item a =
     \<lparr>wa_input_payload = Some (build_agent_input_payload work_item (ra_input_payload a)),
      wa_actor_id = ra_actor_id a,
      wa_links = \<lparr>rl_trace_id = ra_trace_id a, rl_goal_id = w_goal_id work_item,
                  rl_work_item_id = Some (w_work_item_id work_item)\<rparr>,
      wa_trigger = ''manual_wakeup'', wa_idempotency_key = ra_idempotency_key a\<rparr>"

definition owned_update :: "work_item_status \<Rightarrow> string \<Rightarrow> work_update" where
  "owned_update status agent_id =
     \<lparr>wu_status = EnumArg status, wu_owner_agent_id = Some agent_id, wu_owner_user_id = None,
      wu_command = None, wu_reason = None\<rparr>"

definition run_failed ::
  "env \<Rightarrow> string \<Rightarrow> string \<Rightarrow> string \<Rightarrow> string \<Rightarrow> exc \<Rightarrow> (world, 'a) op" where
  "run_failed E company_id work_item_id agent_id actor_id e =
     (case e of
        AgentWakeupError d n category \<Rightarrow>
          if category \<in> {''execution_denied'', ''uncertain_effects''} then raiseS e
          else bindS (update_work_item_status_with_audit E company_id work_item_id
                        (owned_update (if category = ''cancelled'' then WorkItemStatus_CANCELLED
                                       else WorkItemStatus_FAILED) agent_id) actor_id) (\<lambda>_. raiseS e)
      | _ \<Rightarrow> raiseS e)"

definition run_work_item_with_agent ::
  "env \<Rightarrow> ports \<Rightarrow> runner_settings \<Rightarrow> bool \<Rightarrow> string \<Rightarrow> string \<Rightarrow> run_args \<Rightarrow>
   (world, work_item \<times> agent_run option \<times> agent_wakeup_result) op" where
  "run_work_item_with_agent E X st governed company_id work_item_id a =
     bindS (get_work_item company_id work_item_id) (\<lambda>work_item.
     let agent_id = py_strip (str_or_empty (opt_or (ra_agent_id a) (w_owner_agent_id work_item))) in
     if agent_id = [] then raiseS (WorkItemExecutionAgentRequiredError work_item_id)
     else
       bindS (catchS (wake_agent_definition E X st governed company_id agent_id (run_wake_args work_item a))
                (run_failed E company_id work_item_id agent_id (ra_actor_id a))) (\<lambda>(run, wakeup).
       bindS (liftE (work_item_status_from_run run)) (\<lambda>final_status.
       bindS (update_work_item_status_with_audit E company_id work_item_id (owned_update final_status agent_id)
                (ra_actor_id a)) (\<lambda>updated.
         retS (updated, run, wakeup)))))"

section \<open>Routes\<close>

text \<open>
  A route works in one unit of work. The route that creates a work item refuses a completed one and
  reserved metadata; the route that runs one commits also when the wakeup fails, and names the first
  attempt when the client gives no key.
\<close>

definition route_create_work_item :: "env \<Rightarrow> work_item \<Rightarrow> string \<Rightarrow> (world, work_item) op" where
  "route_create_work_item E work_item created_by =
     in_transaction
       (if w_status work_item = WorkItemStatus_COMPLETED
        then raiseS (ExternalError ''HTTPException'' ''accepted_artifact_required'')
        else bindS (create_work_item_with_audit E work_item created_by) (\<lambda>row.
             if list_ex (\<lambda>k. k \<in> fst ` set (w_metadata work_item)) [''accepted_artifact_id'', ''acceptance_id'']
             then raiseS (ExternalError ''HTTPException'' ''reserved_work_item_metadata'') else retS row))"

definition commit_wakeup_error :: "(world, 'a) op \<Rightarrow> (world, 'a) op" where
  "commit_wakeup_error m =
     in_transaction (catchS m (\<lambda>e. case e of
         AgentWakeupError d n c \<Rightarrow> bindS checkpoint (\<lambda>_. raiseS e)
       | _ \<Rightarrow> raiseS e))"

definition route_run_work_item ::
  "env \<Rightarrow> ports \<Rightarrow> runner_settings \<Rightarrow> bool \<Rightarrow> string \<Rightarrow> string \<Rightarrow> run_args \<Rightarrow>
   (world, work_item \<times> agent_run option \<times> agent_wakeup_result) op" where
  "route_run_work_item E X st governed company_id work_item_id a =
     commit_wakeup_error (run_work_item_with_agent E X st governed company_id work_item_id
       (a\<lparr>ra_idempotency_key := Some (if truthy_str (ra_idempotency_key a)
            then str_or_empty (ra_idempotency_key a) else ''work:'' @ work_item_id @ '':initial'')\<rparr>))"

definition route_retry_work_item ::
  "env \<Rightarrow> ports \<Rightarrow> runner_settings \<Rightarrow> bool \<Rightarrow> string \<Rightarrow> string \<Rightarrow> run_args \<Rightarrow>
   (world, work_item \<times> agent_run option \<times> agent_wakeup_result) op" where
  "route_retry_work_item E X st governed company_id work_item_id a =
     commit_wakeup_error (run_work_item_with_agent E X st governed company_id work_item_id
       (a\<lparr>ra_idempotency_key := Some (if truthy_str (ra_idempotency_key a)
            then str_or_empty (ra_idempotency_key a)
            else ''work:'' @ work_item_id @ '':retry:'' @
                 (if truthy_str (ra_trace_id a) then str_or_empty (ra_trace_id a) else ''default''))\<rparr>))"

end
