(* ===== verification/Work_Invariant.thy ===== *)
theory Work_Invariant
  imports Work_Service
begin

text \<open>
  The invariant of goals and work items over all commands: creating and updating goals and work items,
  reviews, runs through an agent and the ledger's commands. Parents, goals and dependencies lie in the
  same company and were created earlier, so that the goal tree and the dependency graph have no cycle,
  and a completed work item names a recorded acceptance of an unchanged artifact.
\<close>

section \<open>References to earlier rows\<close>

definition ordered_links :: "('a \<Rightarrow> 'k) \<Rightarrow> ('a \<Rightarrow> 'c) \<Rightarrow> ('a \<Rightarrow> 'k list) \<Rightarrow> 'a list \<Rightarrow> bool" where
  "ordered_links key co refs xs \<longleftrightarrow>
     (\<forall>i < length xs. \<forall>k \<in> set (refs (xs ! i)). \<exists>j < i. key (xs ! j) = k \<and> co (xs ! j) = co (xs ! i))"

definition link_graph :: "('a \<Rightarrow> 'k) \<Rightarrow> ('a \<Rightarrow> 'k list) \<Rightarrow> 'a list \<Rightarrow> ('k \<times> 'k) set" where
  "link_graph key refs xs = {(key x, k) | x k. x \<in> set xs \<and> k \<in> set (refs x)}"

lemma ordered_links_append:
  assumes "ordered_links key co refs xs"
    and "\<And>k. k \<in> set (refs x) \<Longrightarrow> \<exists>y \<in> set xs. key y = k \<and> co y = co x"
  shows "ordered_links key co refs (xs @ [x])"
  unfolding ordered_links_def
proof (intro allI impI ballI)
  fix i k assume i: "i < length (xs @ [x])" and k: "k \<in> set (refs ((xs @ [x]) ! i))"
  show "\<exists>j < i. key ((xs @ [x]) ! j) = k \<and> co ((xs @ [x]) ! j) = co ((xs @ [x]) ! i)"
  proof (cases "i < length xs")
    case True
    with assms(1) k obtain j where "j < i" "key (xs ! j) = k" "co (xs ! j) = co (xs ! i)"
      by (auto simp: ordered_links_def nth_append)
    with True show ?thesis by (intro exI [of _ j]) (simp add: nth_append)
  next
    case False
    with i have "i = length xs" by simp
    with k assms(2) obtain y where "y \<in> set xs" "key y = k" "co y = co x" by auto
    then show ?thesis using \<open>i = length xs\<close> by (auto simp: in_set_conv_nth nth_append)
  qed
qed

lemma ordered_links_map:
  assumes "ordered_links key co refs xs"
    and "\<And>x. key (f x) = key x" "\<And>x. co (f x) = co x" "\<And>x. refs (f x) = refs x"
  shows "ordered_links key co refs (map f xs)"
  unfolding ordered_links_def
proof (intro allI impI ballI)
  fix i k assume i: "i < length (map f xs)" and k: "k \<in> set (refs (map f xs ! i))"
  with assms(1) obtain j where "j < i" "key (xs ! j) = k" "co (xs ! j) = co (xs ! i)"
    by (auto simp: ordered_links_def assms(4))
  with i show "\<exists>j < i. key (map f xs ! j) = k \<and> co (map f xs ! j) = co (map f xs ! i)"
    by (intro exI [of _ j]) (simp add: assms(2,3))
qed

lemma ordered_links_update:
  assumes "ordered_links key co refs xs"
    and "\<And>x. key (f x) = key x" "\<And>x. co (f x) = co x" "\<And>x. refs (f x) = refs x"
  shows "ordered_links key co refs (update_row key' i f xs)"
  unfolding update_row_def by (rule ordered_links_map [OF assms(1)]) (simp_all add: assms)

lemma ordered_links_same_company:
  assumes "ordered_links key co refs xs" and "x \<in> set xs" and "k \<in> set (refs x)"
  shows "\<exists>y \<in> set xs. key y = k \<and> co y = co x"
proof -
  obtain i where i: "i < length xs" "xs ! i = x" using assms(2) by (auto simp: in_set_conv_nth)
  with assms(1,3) obtain j where "j < i" "key (xs ! j) = k" "co (xs ! j) = co x"
    unfolding ordered_links_def by blast
  with i(1) show ?thesis by (intro bexI [of _ "xs ! j"]) simp_all
qed

text \<open>Keys are ranked by the position of their row; every reference goes down.\<close>

lemma link_graph_acyclic:
  assumes "ordered_links key co refs xs" and "distinct (map key xs)"
  shows "acyclic (link_graph key refs xs)"
proof (rule acyclicI_order)
  let ?rank = "\<lambda>k. THE i. i < length xs \<and> key (xs ! i) = k"
  have rank: "?rank (key (xs ! i)) = i" if "i < length xs" for i
  proof (rule the_equality)
    fix j assume "j < length xs \<and> key (xs ! j) = key (xs ! i)"
    then have "map key xs ! j = map key xs ! i" "j < length (map key xs)" using that by auto
    then show "j = i" using nth_eq_iff_index_eq [OF assms(2), of j i] that by simp
  qed (use that in simp)
  fix a b assume "(a, b) \<in> link_graph key refs xs"
  then obtain i where i: "i < length xs" "a = key (xs ! i)" "b \<in> set (refs (xs ! i))"
    by (auto simp: link_graph_def in_set_conv_nth)
  from assms(1) i(1,3) obtain j where j: "j < i" "key (xs ! j) = b" unfolding ordered_links_def by blast
  with i(1) have "?rank b = j" using rank [of j] by simp
  with i j show "?rank b < ?rank a" by (simp add: rank)
qed

section \<open>The invariant\<close>

definition goal_refs :: "goal \<Rightarrow> string list" where
  "goal_refs g = (case g_parent_goal_id g of Some (c # cs) \<Rightarrow> [c # cs] | _ \<Rightarrow> [])"

definition goal_link_ok :: "db \<Rightarrow> work_item \<Rightarrow> bool" where
  "goal_link_ok d r \<longleftrightarrow>
     (truthy_str (w_goal_id r) \<longrightarrow>
      (\<exists>g \<in> set (t_goals d). Some (g_goal_id g) = w_goal_id r \<and> g_company_id g = w_company_id r))"

definition accepted_item :: "db \<Rightarrow> work_item \<Rightarrow> bool" where
  "accepted_item d r \<longleftrightarrow>
     (\<exists>acc \<in> set (t_acceptances d). \<exists>art \<in> set (t_artifacts d).
        dict_get ''acceptance_id'' (PStr []) (w_metadata r) = PStr (oa_acceptance_id acc) \<and>
        oa_verdict acc = ''accepted'' \<and> oa_company_id acc = w_company_id r \<and>
        oa_work_item_id acc = w_work_item_id r \<and> art_artifact_id art = oa_artifact_id acc \<and>
        art_content_hash art = oa_artifact_hash acc)"

definition item_ok :: "db \<Rightarrow> work_item \<Rightarrow> bool" where
  "item_ok d r \<longleftrightarrow> goal_link_ok d r \<and> (w_status r = WorkItemStatus_COMPLETED \<longrightarrow> accepted_item d r)"

definition work_inv :: "db \<Rightarrow> bool" where
  "work_inv d \<longleftrightarrow>
     distinct (map w_work_item_id (t_work_items d)) \<and> distinct (map g_goal_id (t_goals d)) \<and>
     ordered_links g_goal_id g_company_id goal_refs (t_goals d) \<and>
     ordered_links w_work_item_id w_company_id w_dependencies (t_work_items d) \<and>
     (\<forall>r \<in> set (t_work_items d). item_ok d r)"

definition on_both :: "(db \<Rightarrow> bool) \<Rightarrow> world \<Rightarrow> bool" where
  "on_both P w \<longleftrightarrow> P (w_db w) \<and> P (w_committed w)"

text \<open>Tables the invariant does not mention.\<close>

lemma work_inv_frame [simp]:
  "work_inv (d\<lparr>t_runs := a\<rparr>) = work_inv d" "work_inv (d\<lparr>t_leases := b\<rparr>) = work_inv d"
  "work_inv (d\<lparr>t_reservations := c\<rparr>) = work_inv d" "work_inv (d\<lparr>t_usage := e\<rparr>) = work_inv d"
  "work_inv (d\<lparr>t_approvals := f\<rparr>) = work_inv d" "work_inv (d\<lparr>t_audits := g\<rparr>) = work_inv d"
  "work_inv (d\<lparr>t_outbox := h\<rparr>) = work_inv d" "work_inv (d\<lparr>t_companies := i\<rparr>) = work_inv d"
  by (simp_all add: work_inv_def item_ok_def goal_link_ok_def accepted_item_def)

lemma work_inv_core [simp]: "work_inv (ledger_core d) = work_inv d"
  by (simp add: ledger_core_def)

lemma accepted_item_mono:
  "accepted_item d r \<Longrightarrow> set (t_acceptances d) \<subseteq> set (t_acceptances d') \<Longrightarrow>
   set (t_artifacts d) \<subseteq> set (t_artifacts d') \<Longrightarrow> accepted_item d' r"
  unfolding accepted_item_def by blast

lemma work_inv_artifact: "work_inv d \<Longrightarrow> work_inv (d\<lparr>t_artifacts := t_artifacts d @ [a]\<rparr>)"
  by (auto simp: work_inv_def item_ok_def goal_link_ok_def elim!: accepted_item_mono dest!: bspec)

lemma accepted_item_frame [simp]: "accepted_item (d\<lparr>t_work_items := x\<rparr>) r = accepted_item d r"
  "accepted_item (d\<lparr>t_goals := y\<rparr>) r = accepted_item d r"
  by (simp_all add: accepted_item_def)

lemma goal_link_frame [simp]: "goal_link_ok (d\<lparr>t_work_items := x\<rparr>) r = goal_link_ok d r"
  by (simp add: goal_link_ok_def)

lemma work_inv_update_item:
  assumes "work_inv d"
    and "\<And>r. w_work_item_id (f r) = w_work_item_id r" "\<And>r. w_company_id (f r) = w_company_id r"
      "\<And>r. w_dependencies (f r) = w_dependencies r" "\<And>r. w_goal_id (f r) = w_goal_id r"
    and "\<And>r. r \<in> set (t_work_items d) \<Longrightarrow> w_work_item_id r = i \<Longrightarrow>
           w_status (f r) = WorkItemStatus_COMPLETED \<Longrightarrow> accepted_item d (f r)"
  shows "work_inv (d\<lparr>t_work_items := update_row w_work_item_id i f (t_work_items d)\<rparr>)"
proof -
  have "item_ok d r'" if "r' \<in> set (update_row w_work_item_id i f (t_work_items d))" for r'
  proof -
    from that obtain r where r: "r \<in> set (t_work_items d)" "r' = (if w_work_item_id r = i then f r else r)"
      by (auto simp: update_row_def)
    moreover from r(1) assms(1) have "item_ok d r" by (simp add: work_inv_def)
    ultimately show ?thesis using assms(3,5,6) by (auto simp: item_ok_def goal_link_ok_def)
  qed
  with assms(1-4) show ?thesis
    by (auto simp: work_inv_def update_row_keys item_ok_def intro!: ordered_links_update)
qed

lemma work_inv_update_goal:
  assumes "work_inv d"
    and "\<And>g. g_goal_id (f g) = g_goal_id g" "\<And>g. g_company_id (f g) = g_company_id g"
      "\<And>g. g_parent_goal_id (f g) = g_parent_goal_id g"
  shows "work_inv (d\<lparr>t_goals := update_row g_goal_id i f (t_goals d)\<rparr>)"
proof -
  have link: "goal_link_ok (d\<lparr>t_goals := update_row g_goal_id i f (t_goals d)\<rparr>) r" if ok: "goal_link_ok d r" for r
    unfolding goal_link_ok_def
  proof
    assume "truthy_str (w_goal_id r)"
    with ok obtain g where "g \<in> set (t_goals d)" "Some (g_goal_id g) = w_goal_id r" "g_company_id g = w_company_id r"
      by (auto simp: goal_link_ok_def)
    then show "\<exists>g \<in> set (t_goals (d\<lparr>t_goals := update_row g_goal_id i f (t_goals d)\<rparr>)).
        Some (g_goal_id g) = w_goal_id r \<and> g_company_id g = w_company_id r"
      using assms(2,3) by (intro bexI [of _ "if g_goal_id g = i then f g else g"]) (auto simp: update_row_def)
  qed
  have "goal_refs (f g) = goal_refs g" for g by (simp add: goal_refs_def assms(4))
  with assms(1-3) link show ?thesis
    by (auto simp: work_inv_def update_row_keys item_ok_def intro!: ordered_links_update)
qed

section \<open>Commands that keep the invariant\<close>

lemma on_both_prims [keeps_intros]:
  "keeps (on_both P) (now_utc E)" "keeps (on_both P) (generate_id E p)"
  "keeps (on_both P) (uuid4_hex E)" "keeps (on_both P) checkpoint"
  by (auto simp: keeps_def on_both_def)

lemma on_both_write: "(\<And>d. P d \<Longrightarrow> P (g d)) \<Longrightarrow> keeps (on_both P) (write_db g)"
  by (auto simp: keeps_def on_both_def)

lemma on_both_of_core:
  assumes "\<And>P. keeps (\<lambda>w. P (ledger_core (w_db w))) m" and "\<And>Q. keeps (\<lambda>w. Q (w_committed w)) m"
  shows "keeps (on_both work_inv) m"
proof (rule keepsI)
  fix w assume "on_both work_inv w"
  then show "on_both work_inv (snd (m w))"
    using keepsD [OF assms(1) [of work_inv], of w] keepsD [OF assms(2) [of work_inv], of w] by (simp add: on_both_def)
qed

lemmas audit_keeps = on_both_of_core [OF keeps_new_audit(1,3)]
  on_both_of_core [OF keeps_domain_event_audits(1,3)] on_both_of_core [OF keeps_ledger_audit]

lemma keeps_sum [keeps_intros]:
  "(\<And>a. x = Inl a \<Longrightarrow> keeps P (f a)) \<Longrightarrow> (\<And>b. x = Inr b \<Longrightarrow> keeps P (g b)) \<Longrightarrow>
   keeps P (case x of Inl a \<Rightarrow> f a | Inr b \<Rightarrow> g b)"
  by (cases x) auto

lemma keeps_prod [keeps_intros]: "(\<And>a b. x = (a, b) \<Longrightarrow> keeps P (f a b)) \<Longrightarrow> keeps P (case x of (a, b) \<Rightarrow> f a b)"
  by (cases x) auto

lemma transition_target:
  "work_item_transition_to (StrArg (work_item_status_value s)) a = (Inr u, a') \<Longrightarrow> w_status (agg_record a') = s"
  "work_item_transition_to (EnumArg s) a = (Inr u, a') \<Longrightarrow> w_status (agg_record a') = s"
  by (auto simp: work_item_transition_to_def Let_def split: if_splits sum.splits)

lemma open_write:
  assumes "s \<noteq> WorkItemStatus_COMPLETED" "\<And>r. w_status (f r) = s"
    and "\<And>r. w_work_item_id (f r) = w_work_item_id r" "\<And>r. w_company_id (f r) = w_company_id r"
      "\<And>r. w_dependencies (f r) = w_dependencies r" "\<And>r. w_goal_id (f r) = w_goal_id r"
  shows "keeps (on_both work_inv) (write_work i f)"
  unfolding write_work_def by (rule on_both_write) (rule work_inv_update_item, use assms in auto)

lemma keeps_transition:
  "s \<noteq> WorkItemStatus_COMPLETED \<Longrightarrow> keeps (on_both work_inv) (transition_work E work s who)"
  unfolding transition_work_def
  by (auto split: prod.split sum.split intro!: keeps_intros audit_keeps open_write [where s = s] dest: transition_target)

lemma transition_work_status:
  assumes "transition_work E work s who w = (Inr u, w')" and "r \<in> set (t_work_items (w_db w'))"
    and "w_work_item_id r = w_work_item_id work"
  shows "w_status r = s"
proof -
  let ?f = "\<lambda>a t r. r\<lparr>w_status := w_status (agg_record a), w_updated_at := utc_dt t\<rparr>"
  from assms(1) obtain v a t evs ctx w1 rows where
    to: "work_item_transition_to (StrArg (work_item_status_value s)) (from_record work) = (Inr v, a)"
    and w1: "t_work_items (w_db w1) = update_row w_work_item_id (w_work_item_id work) (?f a t) (t_work_items (w_db w))"
    and audit: "append_control_plane_domain_event_audits E evs ctx w1 = (Inr rows, w')"
    unfolding transition_work_def by (force simp: bindS_Inr_iff write_work_def split: prod.splits sum.splits)
  have "t_work_items (w_db w') = t_work_items (w_db w1)"
    using arg_cong [OF keeps_core_run [OF keeps_domain_event_audits(1) audit], of t_work_items] by simp
  with assms(2,3) w1 transition_target(1) [OF to] show ?thesis by (auto simp: update_row_def split: if_splits)
qed

lemma keeps_start: "keeps (on_both work_inv) (start_work E c work)"
proof (cases work)
  case (Some r)
  let ?f = "\<lambda>r. r\<lparr>w_metadata := filter (\<lambda>(k, v). k \<noteq> ''acceptance_id'' \<and> k \<noteq> ''accepted_artifact_id'') (w_metadata r)\<rparr>"
  show ?thesis
  proof (rule keepsI)
    fix w assume inv: "on_both work_inv w"
    obtain res w1 where run: "transition_work E r WorkItemStatus_RUNNING (ca_actor_id c) w = (res, w1)" by force
    have inv1: "on_both work_inv w1" by (rule keepsD_run [OF keeps_transition inv run]) simp
    show "on_both work_inv (snd (start_work E c work w))"
    proof (cases res)
      case (Inl e)
      with run Some inv1 show ?thesis by (simp add: start_work_def bindS_step)
    next
      case (Inr u)
      have "work_inv ((w_db w1)\<lparr>t_work_items := update_row w_work_item_id (w_work_item_id r) ?f (t_work_items (w_db w1))\<rparr>)"
        using inv1 transition_work_status [OF run [unfolded Inr]]
        by (intro work_inv_update_item) (auto simp: on_both_def)
      with run Some Inr inv1 show ?thesis by (simp add: start_work_def bindS_step write_work_def on_both_def)
    qed
  qed
qed (simp add: start_work_def keeps_intros)

text \<open>What touches none of the tables of the invariant.\<close>

lemma keeps_elsewhere [keeps_intros]:
  "keeps (on_both work_inv) (write_lease i f)" "keeps (on_both work_inv) (store_request_approval E a)"
  "keeps (on_both work_inv) (settle_reservation E tk co cost failed est rs)"
  "keeps (on_both work_inv) (update_agent_run_status E i status u)"
  "keeps (on_both work_inv) (create_agent_run E run)" "keeps (on_both work_inv) (create_artifact E art)"
  "keeps (on_both work_inv) (ensure_company E co)"
  unfolding write_lease_def store_request_approval_def settle_reservation_def store_record_budget_usage_def
    update_agent_run_status_def create_agent_run_def create_artifact_def ensure_company_def create_company_def
    get_company_def
  by (intro keeps_intros on_both_write; simp add: work_inv_artifact)+

lemma keeps_evidence [keeps_intros]: "keeps (on_both work_inv) (create_run_evidence_artifact E a)"
  unfolding create_run_evidence_artifact_def list_approvals_def list_budget_usage_def list_audit_events_def
  by (intro keeps_intros audit_keeps)

lemma keeps_run_ends [keeps_intros]:
  "keeps (on_both work_inv) (fail_agent_wakeup_run E agent i ie who l trig cat msg cancelled)"
  "keeps (on_both work_inv) (complete_agent_wakeup_run E agent i ie out who l trig)"
  "keeps (on_both work_inv) (start_agent_wakeup_run E agent inp who l trig rid)"
  unfolding fail_agent_wakeup_run_def complete_agent_wakeup_run_def build_agent_wakeup_completion_event_def
    audit_run_end_def append_agent_run_audit_def start_agent_wakeup_run_def
  by (intro keeps_intros audit_keeps)+

lemma keeps_mark_abandoned: "keeps (on_both work_inv) (mark_abandoned E l now)"
  unfolding mark_abandoned_def by (intro keeps_intros audit_keeps)

lemma keeps_work_approval: "keeps (on_both work_inv) (find_approval E agent current c work digest cc now)"
  unfolding find_approval_def ask_for_approval_def by (intro keeps_intros audit_keeps keeps_transition) simp

lemma keeps_work_claim: "keeps (on_both work_inv) (claim E agent c)"
proof -
  have "keeps (on_both work_inv) (claim_inner E agent c)"
    unfolding claim_inner_def claim_prepare_def record_claim_def refuse_active_def get_lease_def
    by (intro keeps_intros keeps_mark_abandoned keeps_work_approval keeps_start audit_keeps on_both_write
        keeps_of_readonly [OF readonly_claim_steps(1)] keeps_of_readonly [OF readonly_claim_steps(2)]
        keeps_of_readonly [OF readonly_claim_steps(4)] keeps_of_readonly [OF readonly_check_work]) simp_all
  moreover have "keeps (on_both work_inv) (case e of ExecutionDenied reason code \<Rightarrow>
        bindS (get_company (ar_company_id agent)) (\<lambda>company. bindS (whenS (company \<noteq> None)
          (bindS (ledger_audit E (ar_company_id agent) (resource_of agent c) ''execution.denied'' (ca_actor_id c)
             [(''reason'', PStr reason), (''external_dispatch'', PBool False)]) (\<lambda>_. checkpoint))) (\<lambda>_. raiseS e))
      | _ \<Rightarrow> raiseS e)" for e
    unfolding get_company_def by (cases e) (simp_all, (intro keeps_intros audit_keeps)+)
  ultimately show ?thesis unfolding claim_def by (rule keeps_catch)
qed

lemma keeps_work_settle: "keeps (on_both work_inv) (settle E tk cost failed est)"
  unfolding settle_def get_lease_def by (intro keeps_intros on_both_write) simp

lemma keeps_work_ledger:
  "keeps (on_both work_inv) (mark_uncertain E tk)"
  "keeps (on_both work_inv) (recover E run_id co reason who)"
  "keeps (on_both work_inv) (request_control E run_id co action reason who)"
proof -
  show "keeps (on_both work_inv) (mark_uncertain E tk)"
    unfolding mark_uncertain_def get_lease_def by (intro keeps_intros audit_keeps)
  show "keeps (on_both work_inv) (recover E run_id co reason who)"
    unfolding recover_def find_run_lease_def get_role_def get_work_def
    by (intro keeps_intros audit_keeps keeps_work_settle keeps_transition) simp
  show "keeps (on_both work_inv) (request_control E run_id co action reason who)"
    unfolding request_control_def find_run_lease_def get_agent_run_def get_role_def
    by (auto split: option.splits intro!: keeps_intros audit_keeps)
qed

section \<open>Updates of work items and goals\<close>

lemma require_accepted_row:
  assumes "require_accepted E r w = (Inr (), w')"
  shows "\<exists>acc art run. dict_get ''acceptance_id'' (PStr []) (w_metadata r) = PStr (oa_acceptance_id acc) \<and>
    acceptance_row (oa_acceptance_id acc) (w_db w) = Some acc \<and>
    artifact_row (oa_artifact_id acc) (w_db w) = Some art \<and>
    latest_work_run (w_company_id r) (w_work_item_id r) (w_db w) = Some run \<and> r_run_id run = oa_run_id acc \<and>
    (\<forall>v. stored_evidence art = Some v \<longrightarrow> art_content_hash art = Some (hash_value E v)) \<and>
    acceptance_valid r acc art (Some (r_run_id run))"
proof -
  from assms obtain x w1 where x: "named_acceptance r w = (Inr x, w1)"
    by (auto simp: require_accepted_def bindS_Inr_iff)
  then have [simp]: "w1 = w" by (rule readonlyD [OF readonly_checks(2)])
  have step: "bindS (named_acceptance r) f w = f x w" for f :: "_ \<Rightarrow> (world, unit) op"
    using x by (simp add: bindS_step)
  from assms obtain acc art where "x = Some acc" and art: "artifact_row (oa_artifact_id acc) (w_db w) = Some art"
    and ok: "acceptance_valid r acc art (map_option r_run_id (latest_work_run (w_company_id r) (w_work_item_id r) (w_db w)))"
    and hash: "\<forall>v. stored_evidence art = Some v \<longrightarrow> art_content_hash art = Some (hash_value E v)"
    unfolding require_accepted_def step
    by (cases x) (auto simp: denied_def get_agent_run_def split: option.splits if_splits)
  with x obtain i where i: "dict_get ''acceptance_id'' (PStr []) (w_metadata r) = PStr i"
    and row: "acceptance_row i (w_db w) = Some acc"
    by (auto simp: named_acceptance_def split: pyval.splits)
  from row have "oa_acceptance_id acc = i" by (auto simp: acceptance_row_def find_Some_iff)
  moreover from ok obtain run where "latest_work_run (w_company_id r) (w_work_item_id r) (w_db w) = Some run"
    "r_run_id run = oa_run_id acc"
    by (cases "latest_work_run (w_company_id r) (w_work_item_id r) (w_db w)") (auto simp: acceptance_valid_def)
  ultimately show ?thesis using i row art ok hash by auto
qed

lemma require_accepted_item:
  assumes "require_accepted E r w = (Inr (), w')"
  shows "accepted_item (w_db w) r"
proof -
  obtain acc art where acc: "dict_get ''acceptance_id'' (PStr []) (w_metadata r) = PStr (oa_acceptance_id acc)"
    "acceptance_row (oa_acceptance_id acc) (w_db w) = Some acc"
    "artifact_row (oa_artifact_id acc) (w_db w) = Some art"
    "\<exists>n. acceptance_valid r acc art n" using require_accepted_row [OF assms] by blast
  have "acc \<in> set (t_acceptances (w_db w))" "art \<in> set (t_artifacts (w_db w))" "art_artifact_id art = oa_artifact_id acc"
    using acc(2,3) by (auto simp: acceptance_row_def artifact_row_def find_Some_iff)
  with acc(1,4) show ?thesis
    unfolding accepted_item_def acceptance_valid_def by (intro bexI [of _ acc] bexI [of _ art]) auto
qed

lemma write_status_inv:
  assumes "on_both work_inv w" and "find (\<lambda>r. w_work_item_id r = i) (t_work_items (w_db w)) = Some r"
    and "s = WorkItemStatus_COMPLETED \<Longrightarrow> accepted_item (w_db w) r"
  shows "on_both work_inv (snd (write_work_status E i s oa ou w))"
proof -
  have only: "r' = r" if "r' \<in> set (t_work_items (w_db w))" "w_work_item_id r' = i" for r'
  proof -
    from assms(1) have "distinct (map w_work_item_id (t_work_items (w_db w)))" by (simp add: on_both_def work_inv_def)
    with that assms(2) show ?thesis by (auto simp: find_Some_iff distinct_map inj_on_def)
  qed
  let ?f = "\<lambda>r. r\<lparr>w_status := s, w_owner_agent_id := (case oa of None \<Rightarrow> w_owner_agent_id r | Some x \<Rightarrow> Some x),
     w_owner_user_id := (case ou of None \<Rightarrow> w_owner_user_id r | Some x \<Rightarrow> Some x), w_updated_at := utc_dt (e_clock E (w_tick w))\<rparr>"
  have "work_inv ((w_db w)\<lparr>t_work_items := update_row w_work_item_id i ?f (t_work_items (w_db w))\<rparr>)"
  proof (rule work_inv_update_item)
    show "work_inv (w_db w)" using assms(1) by (simp add: on_both_def)
    fix r' assume "r' \<in> set (t_work_items (w_db w))" "w_work_item_id r' = i" "w_status (?f r') = WorkItemStatus_COMPLETED"
    with assms(3) only show "accepted_item (w_db w) (?f r')" by (simp add: accepted_item_def)
  qed simp_all
  with assms(1) show ?thesis
    unfolding write_work_status_def write_work_def get_work_def
    by (auto simp: on_both_def bindS_run flush_def split: prod.splits sum.splits if_splits)
qed

lemma keeps_store_update: "keeps (on_both work_inv) (store_update_work_item_status E i s oa ou)"
proof (rule keepsI)
  fix w assume inv: "on_both work_inv w"
  show "on_both work_inv (snd (store_update_work_item_status E i s oa ou w))"
  proof (cases "find (\<lambda>r. w_work_item_id r = i) (t_work_items (w_db w))")
    case None
    with inv show ?thesis by (simp add: store_update_work_item_status_def get_work_def)
  next
    case (Some r)
    have w: "on_both work_inv (snd (write_work_status E i s oa ou w))"
      if "s = WorkItemStatus_COMPLETED \<Longrightarrow> require_accepted E r w = (Inr (), w)"
      using write_status_inv [OF inv Some] require_accepted_item that by blast
    let ?move = "fst (work_item_transition_to (StrArg (work_item_status_value s)) (from_record r))"
    have "on_both work_inv (snd (bindS (liftE ?move) (\<lambda>_.
        bindS (whenS (s = WorkItemStatus_COMPLETED) (require_accepted E r)) (\<lambda>_. write_work_status E i s oa ou)) w))"
      using inv w require_accepted_cases [of E r w] by (cases ?move) (auto simp: whenS_def bindS_step)
    with inv Some show ?thesis by (simp add: store_update_work_item_status_def get_work_def denied_def)
  qed
qed

lemma keeps_work_update [keeps_intros]:
  "keeps (on_both work_inv) (update_work_item_status_with_audit E co i u who)"
  "keeps (on_both work_inv) (reassign_work_item E co i oa ou who reason)"
  "keeps (on_both work_inv) (block_work_item E co i who why)"
  "keeps (on_both work_inv) (close_work_item E co i s who reason)"
  unfolding reassign_work_item_def block_work_item_def close_work_item_def update_work_item_status_with_audit_def
    get_work_item_def get_work_def user_audit_def
  by (intro keeps_intros audit_keeps keeps_store_update)+

lemma keeps_goal_update: "keeps (on_both work_inv) (update_goal_status_with_audit E co i s v who)"
  unfolding update_goal_status_with_audit_def get_goal_def store_get_goal_def store_update_goal_status_def user_audit_def
  by (intro keeps_intros audit_keeps on_both_write work_inv_update_goal) simp_all

section \<open>Reviews\<close>

lemma bind_then_keeps: "P (snd (m w)) \<Longrightarrow> (\<And>a. keeps P (f a)) \<Longrightarrow> P (snd (bindS m f w))"
  by (cases "m w"; cases "fst (m w)") (auto simp: bindS_def dest: keepsD)

lemma record_review_inv:
  assumes "on_both work_inv w"
    and "\<And>r. r \<in> set (t_work_items (w_db w)) \<Longrightarrow> w_work_item_id r = oa_work_item_id acc \<Longrightarrow> w_status r \<noteq> WorkItemStatus_COMPLETED"
  shows "on_both work_inv (snd (record_review E acc work w))"
proof -
  let ?f = "\<lambda>r. r\<lparr>w_metadata := reviewed_metadata (oa_verdict acc) (oa_artifact_id acc) (oa_acceptance_id acc) (w_metadata work)\<rparr>"
  let ?d = "(w_db w)\<lparr>t_acceptances := t_acceptances (w_db w) @ [acc]\<rparr>"
  have "work_inv ?d"
    using assms(1) by (auto simp: on_both_def work_inv_def item_ok_def goal_link_ok_def elim!: accepted_item_mono)
  then have inv: "work_inv (?d\<lparr>t_work_items := update_row w_work_item_id (oa_work_item_id acc) ?f (t_work_items ?d)\<rparr>)"
    by (rule work_inv_update_item) (use assms(2) in auto)
  let ?w = "w\<lparr>w_db := ?d\<lparr>t_work_items := update_row w_work_item_id (oa_work_item_id acc) ?f (t_work_items ?d)\<rparr>\<rparr>"
  have "on_both work_inv ?w" using inv assms(1) by (simp add: on_both_def)
  moreover have "keeps (on_both work_inv) (bindS (new_audit E mk) (\<lambda>_. bindS (flush E) (\<lambda>_.
      bindS (get_work (oa_work_item_id acc)) (\<lambda>row. retS (row, acc)))))" for mk
    unfolding get_work_def by (intro keeps_intros audit_keeps)
  ultimately show ?thesis
    unfolding record_review_def write_work_def by (simp add: keepsD)
qed

lemma keeps_review: "keeps (on_both work_inv) (review E co i art who verdict reason)"
proof (rule keepsI)
  fix w assume inv: "on_both work_inv w"
  obtain res w1 where chk: "check_review E co i art verdict reason w = (res, w1)" by force
  then have [simp]: "w1 = w" by (rule readonlyD [OF readonly_checks(1)])
  show "on_both work_inv (snd (review E co i art who verdict reason w))"
  proof (cases res)
    case (Inl e)
    with chk inv show ?thesis by (simp add: review_def bindS_step)
  next
    case (Inr x)
    obtain work a run where x: "x = (work, a, run)" by (cases x)
    note ok = check_review_ok [OF chk [unfolded Inr x]]
    from ok(2) have "work \<in> set (t_work_items (w_db w))" "w_work_item_id work = i" by (auto simp: find_Some_iff)
    moreover have "distinct (map w_work_item_id (t_work_items (w_db w)))" using inv by (simp add: on_both_def work_inv_def)
    ultimately have "w_status r \<noteq> WorkItemStatus_COMPLETED" if "r \<in> set (t_work_items (w_db w))" "w_work_item_id r = i" for r
      using that validate_outcome_ok(1) [OF ok(5)] by (auto simp: distinct_map inj_on_def)
    then show ?thesis
      using chk inv unfolding Inr x review_def
      by (simp add: bindS_step) (rule record_review_inv, auto simp: on_both_def)
  qed
qed

section \<open>Creating goals and work items\<close>

lemma work_inv_add_goal:
  assumes "work_inv d" and "unique_ok (d\<lparr>t_goals := t_goals d @ [g]\<rparr>)"
    and "\<And>k. k \<in> set (goal_refs g) \<Longrightarrow> \<exists>p \<in> set (t_goals d). g_goal_id p = k \<and> g_company_id p = g_company_id g"
  shows "work_inv (d\<lparr>t_goals := t_goals d @ [g]\<rparr>)"
  using assms(1,3) unique_keys(5) [OF assms(2)]
  by (auto simp: work_inv_def item_ok_def goal_link_ok_def intro!: ordered_links_append)

lemma work_inv_add_item:
  assumes "work_inv d" and "unique_ok (d\<lparr>t_work_items := t_work_items d @ [r]\<rparr>)"
    and "\<And>k. k \<in> set (w_dependencies r) \<Longrightarrow>
           \<exists>p \<in> set (t_work_items d). w_work_item_id p = k \<and> w_company_id p = w_company_id r"
    and "goal_link_ok d r" and "w_status r \<noteq> WorkItemStatus_COMPLETED"
  shows "work_inv (d\<lparr>t_work_items := t_work_items d @ [r]\<rparr>)"
  using assms(1,3-5) unique_keys(1) [OF assms(2)]
  by (auto simp: work_inv_def item_ok_def intro!: ordered_links_append)

lemma check_parent_ok:
  assumes "check_parent g w = (Inr u, w')"
  shows "w' = w" and "k \<in> set (goal_refs g) \<Longrightarrow> \<exists>p \<in> set (t_goals (w_db w)). g_goal_id p = k \<and> g_company_id p = g_company_id g"
  using assms unfolding check_parent_def goal_refs_def store_get_goal_def
  by (auto split: option.splits list.splits if_splits simp: find_Some_iff)

lemma check_goal_ok:
  assumes "check_goal r w = (Inr u, w')"
  shows "w' = w" and "goal_link_ok (w_db w) r"
  using assms unfolding check_goal_def goal_link_ok_def store_get_goal_def
  by (auto split: option.splits list.splits if_splits simp: find_Some_iff truthy_str_def)

lemma check_dependency_ok:
  assumes "check_dependency r k w = (Inr u, w')"
  shows "\<exists>p \<in> set (t_work_items (w_db w)). w_work_item_id p = k \<and> w_company_id p = w_company_id r"
  using assms unfolding check_dependency_def get_work_def
  by (auto split: option.splits if_splits simp: find_Some_iff)

lemma readonly_dependency [readonly_intros]: "readonly (check_dependency r k)"
  unfolding check_dependency_def get_work_def by (intro readonly_intros)

lemma for_readonly_ok:
  assumes "\<And>x. readonly (f x)" and "forS xs f w = (Inr ys, w')" and "x \<in> set xs"
  shows "\<exists>y. f x w = (Inr y, w)"
  using assms(2,3)
proof (induction xs arbitrary: ys)
  case (Cons z zs)
  from Cons.prems(1) obtain y ys' w1 where z: "f z w = (Inr y, w1)" and zs: "forS zs f w1 = (Inr ys', w')"
    by (auto simp: bindS_Inr_iff)
  have "w1 = w" by (rule readonlyD [OF assms(1) z])
  with z zs Cons show ?case by auto
qed simp

lemma keeps_user_audit: "keeps (on_both work_inv) (user_audit E co act tt ti who wi det)"
  unfolding user_audit_def by (rule audit_keeps)

lemma keeps_committed_create:
  "keeps (\<lambda>w. Q (w_committed w)) (create_goal_with_audit E g who)"
  "keeps (\<lambda>w. Q (w_committed w)) (create_work_item_with_audit E r who)"
  unfolding create_goal_with_audit_def create_work_item_with_audit_def ensure_company_def get_company_def
    create_company_def check_parent_def store_get_goal_def store_create_goal_def check_goal_def
    store_create_work_item_def user_audit_def check_dependency_def get_work_def
  by (auto split: option.split list.split intro!: keeps_intros keeps_new_audit(3))

lemma create_goal_inv:
  assumes "on_both work_inv w" and "create_goal_with_audit E g who w = (Inr a, w')"
  shows "work_inv (w_db w')"
proof -
  from assms(2) obtain u w1 v w2 x aud where
    co: "ensure_company E (g_company_id g) w = (Inr u, w1)" and parent: "check_parent g w1 = (Inr v, w2)"
    and new: "store_create_goal E g w2 = (Inr x, aud)"
    and log: "\<exists>c act tt ti wi det y. user_audit E c act tt ti who wi det aud = (Inr y, w')"
    unfolding create_goal_with_audit_def by (auto simp: bindS_Inr_iff) blast
  have inv1: "on_both work_inv w1" by (rule keepsD_run [OF keeps_elsewhere(7) assms(1) co])
  note p = check_parent_ok [OF parent]
  from new have aud: "w_db aud = (w_db w2)\<lparr>t_goals := t_goals (w_db w2) @ [g]\<rparr>" "unique_ok (w_db aud)"
    "w_committed aud = w_committed w2"
    by (auto simp: store_create_goal_def bind_flush_ok)
  have "on_both work_inv aud"
    using inv1 p aud work_inv_add_goal [of "w_db w1" g] by (simp add: on_both_def)
  moreover from log obtain c act tt ti wi det y where "user_audit E c act tt ti who wi det aud = (Inr y, w')" by blast
  ultimately have "on_both work_inv w'"
    using keepsD [OF keeps_user_audit, of aud E c act tt ti who wi det] by simp
  then show ?thesis by (simp add: on_both_def)
qed

lemma create_item_inv:
  assumes "on_both work_inv w" and "create_work_item_with_audit E r who w = (Inr a, w')"
    and "w_status r \<noteq> WorkItemStatus_COMPLETED"
  shows "work_inv (w_db w')"
proof -
  from assms(2) obtain u w1 v w2 us w3 x aud where
    co: "ensure_company E (w_company_id r) w = (Inr u, w1)" and goal: "check_goal r w1 = (Inr v, w2)"
    and deps: "forS (w_dependencies r) (check_dependency r) w2 = (Inr us, w3)"
    and new: "store_create_work_item E r w3 = (Inr x, aud)"
    and log: "\<exists>c act tt ti wi det y. user_audit E c act tt ti who wi det aud = (Inr y, w')"
    unfolding create_work_item_with_audit_def by (auto simp: bindS_Inr_iff) blast
  have inv1: "on_both work_inv w1" by (rule keepsD_run [OF keeps_elsewhere(7) assms(1) co])
  note g = check_goal_ok [OF goal]
  have w3: "w3 = w2" by (rule readonlyD [OF readonly_for deps]) (rule readonly_dependency)
  have dep: "\<exists>p \<in> set (t_work_items (w_db w2)). w_work_item_id p = k \<and> w_company_id p = w_company_id r"
    if "k \<in> set (w_dependencies r)" for k
    using for_readonly_ok [OF readonly_dependency deps that] check_dependency_ok by blast
  from new have aud: "w_db aud = (w_db w3)\<lparr>t_work_items := t_work_items (w_db w3) @ [r]\<rparr>" "unique_ok (w_db aud)"
    "w_committed aud = w_committed w3"
    by (auto simp: store_create_work_item_def bind_flush_ok)
  have "on_both work_inv aud"
    using inv1 g dep aud w3 assms(3) work_inv_add_item [of "w_db w1" r] by (simp add: on_both_def)
  moreover from log obtain c act tt ti wi det y where "user_audit E c act tt ti who wi det aud = (Inr y, w')" by blast
  ultimately have "on_both work_inv w'"
    using keepsD [OF keeps_user_audit, of aud E c act tt ti who wi det] by simp
  then show ?thesis by (simp add: on_both_def)
qed

lemma in_transaction_both:
  assumes "keeps (\<lambda>w. P (w_committed w)) m"
    and "\<And>w a w'. on_both P w \<Longrightarrow> m w = (Inr a, w') \<Longrightarrow> P (w_db w')"
  shows "keeps (on_both P) (in_transaction m)"
proof (rule keepsI)
  fix w assume w: "on_both P w"
  obtain r w' where run: "m w = (r, w')" by force
  have "P (w_committed w')" using keepsD_run [OF assms(1) _ run] w by (simp add: on_both_def)
  with assms(2) [OF w] run show "on_both P (snd (in_transaction m w))"
    by (cases r) (simp_all add: in_transaction_def on_both_def)
qed

lemma in_transaction_both_keeps: "keeps (on_both P) m \<Longrightarrow> keeps (on_both P) (in_transaction m)"
  by (auto simp: keeps_def in_transaction_def on_both_def split: prod.splits sum.splits)

lemma keeps_route_create: "keeps (on_both work_inv) (route_create_work_item E r who)"
proof (cases "w_status r = WorkItemStatus_COMPLETED")
  case False
  show ?thesis
    unfolding route_create_work_item_def if_not_P [OF False]
  proof (rule in_transaction_both, goal_cases)
    case 1
    show ?case by (intro keeps_intros keeps_committed_create)
  next
    case (2 w a w')
    then show ?case using create_item_inv False by (auto simp: bindS_Inr_iff split: if_splits)
  qed
qed (simp add: route_create_work_item_def in_transaction_both_keeps keeps_intros)

section \<open>Running\<close>

text \<open>What other sessions and executors do to the database while a call is out keeps the predicate.\<close>

definition ports_keep :: "(world \<Rightarrow> bool) \<Rightarrow> ports \<Rightarrow> bool" where
  "ports_keep P X \<longleftrightarrow>
     (\<forall>url h req t. keeps P (x_http X url h req t)) \<and> (\<forall>cmd req. keeps P (x_spawn X cmd req)) \<and>
     (\<forall>cmd req w tr w'. x_spawn X cmd req w = (Inr tr, w') \<longrightarrow>
        (\<forall>p \<in> set (pt_polls tr). \<forall>v. P v \<longrightarrow> P (po_others p v)))"

lemma keeps_wakeup_error [keeps_intros]: "keeps P (wakeup_error d n c)"
  by (simp add: wakeup_error_def keeps_intros)

lemma keeps_chunks [keeps_intros]: "keeps P (read_chunks broken content cs)"
  by (induction broken content cs rule: read_chunks.induct) (auto intro!: keeps_intros)

lemma keeps_supervise:
  "(\<And>p v. p \<in> set ps \<Longrightarrow> P v \<Longrightarrow> P (po_others p v)) \<Longrightarrow> keeps P (supervise ticket deadline ps paused)"
proof (induction ps arbitrary: paused)
  case (Cons p ps)
  have "keeps P (supervise ticket deadline ps b)" for b by (rule Cons.IH) (simp add: Cons.prems)
  with Cons.prems [of p] show ?case
    unfolding supervise.simps control_action_def by (intro keeps_intros) simp_all
qed (simp add: keeps_intros)

lemma keeps_execute:
  assumes "ports_keep P X"
  shows "keeps P (execute_adapter E X st agent run_id payload l ticket)"
proof -
  have http: "keeps P (execute_http X st cfg request i tr)" for cfg request i tr
    using assms unfolding execute_http_def ports_keep_def by (intro keeps_intros) simp_all
  have process: "keeps P (execute_process E X cfg ticket request)" for cfg request
  proof -
    have spawn: "keeps P (bindS (x_spawn X command request) (\<lambda>trace.
        bindS (supervise ticket (pt_start trace + of_int timeout) (pt_polls trace) False) (f trace)))"
      if f: "\<And>tr sigs. keeps P (f tr sigs)" for command timeout and f :: "_ \<Rightarrow> _ \<Rightarrow> (world, pydict) op"
    proof (rule keepsI)
      fix w assume w: "P w"
      obtain r w1 where run: "x_spawn X command request w = (r, w1)" by force
      have "keeps P (x_spawn X command request)" using assms by (simp add: ports_keep_def)
      then have "P w1" using keepsD [of P "x_spawn X command request" w] w run by simp
      show "P (snd (bindS (x_spawn X command request) (\<lambda>trace.
        bindS (supervise ticket (pt_start trace + of_int timeout) (pt_polls trace) False) (f trace)) w))"
      proof (cases r)
        case (Inl e)
        with run \<open>P w1\<close> show ?thesis by (simp add: bindS_step)
      next
        case (Inr tr)
        have "keeps P (bindS (supervise ticket (pt_start tr + of_int timeout) (pt_polls tr) False) (f tr))"
          using assms run Inr unfolding ports_keep_def by (intro keeps_bind keeps_supervise f) blast
        with run Inr \<open>P w1\<close> show ?thesis by (simp add: bindS_step keepsD)
      qed
    qed
    show ?thesis
      unfolding execute_process_def
      by (intro keeps_bind [OF keeps_basic(3)] keeps_if keeps_wakeup_error spawn keeps_prod keeps_option keeps_basic)
  qed
  show ?thesis unfolding execute_adapter_def by (intro keeps_intros http process)
qed

lemma keeps_wake:
  assumes "ports_keep (on_both work_inv) X"
  shows "keeps (on_both work_inv) (wake E X st governed agent a)"
proof -
  have failed: "keeps (on_both work_inv) (dispatch_failed E X agent a who rec ticket b e)" for who rec ticket b e
    unfolding dispatch_failed_def by (intro keeps_intros keeps_work_ledger keeps_work_settle)
  have "keeps (on_both work_inv) (start_and_dispatch E X st agent a who run_id ticket)" for who run_id ticket
    unfolding start_and_dispatch_def run_dispatch_def dispatch_def
    by (intro keeps_intros failed keeps_execute [OF assms] keeps_work_settle)
  moreover have "keeps (on_both work_inv) (replay_result tk)" for tk
    unfolding replay_result_def by (intro keeps_intros)
  moreover have "keeps (on_both work_inv) (case e of ExecutionDenied reason code \<Rightarrow> wakeup_error reason code ''execution_denied''
      | _ \<Rightarrow> raiseS e)" for e :: exc
    by (cases e) (simp_all add: keeps_intros)
  ultimately show ?thesis
    unfolding wake_def
    apply (intro keeps_bind keeps_let keeps_basic)
    apply (rule keeps_sum)
    subgoal for w e by (cases e) (simp_all add: keeps_intros)
    by (intro keeps_intros keeps_work_claim; simp)
qed

lemma keeps_run:
  assumes "ports_keep (on_both work_inv) X"
  shows "keeps (on_both work_inv) (run_work_item_with_agent E X st governed co i a)"
proof -
  have "keeps (on_both work_inv) (wake_agent_definition E X st governed co agent args)" for agent args
    unfolding wake_agent_definition_def get_role_def by (intro keeps_intros keeps_wake assms)
  moreover have "keeps (on_both work_inv) (run_failed E co i agent who e)" for agent who e
    unfolding run_failed_def by (cases e) (auto intro!: keeps_intros)
  ultimately show ?thesis
    unfolding run_work_item_with_agent_def get_work_item_def get_work_def by (intro keeps_intros) simp_all
qed

lemma keeps_commit_error: "keeps (on_both P) m \<Longrightarrow> keeps (on_both P) (commit_wakeup_error m)"
  unfolding commit_wakeup_error_def
  by (intro in_transaction_both_keeps keeps_catch) (auto split: exc.split intro!: keeps_intros)

section \<open>Every command\<close>

datatype work_command =
    CreateGoal goal string
  | UpdateGoal string string "goal_status enum_arg" "pyfloat option" string
  | CreateItem work_item string
  | UpdateItem string string work_update string
  | Reassign string string "string option" "string option" string "string option"
  | Block string string string string
  | Close string string work_item_status string "string option"
  | Review string string string string string string
  | Run string string run_args
  | Retry string string run_args
  | Ledger ledger_command

definition discard :: "(world, 'a) op \<Rightarrow> (world, unit) op" where
  "discard m = bindS m (\<lambda>_. retS ())"

fun run_work_command ::
  "env \<Rightarrow> ports \<Rightarrow> runner_settings \<Rightarrow> bool \<Rightarrow> work_command \<Rightarrow> (world, unit) op" where
  "run_work_command E X st gov (CreateGoal g who) = in_transaction (discard (create_goal_with_audit E g who))"
| "run_work_command E X st gov (UpdateGoal co i s v who) =
     in_transaction (discard (update_goal_status_with_audit E co i s v who))"
| "run_work_command E X st gov (CreateItem r who) = discard (route_create_work_item E r who)"
| "run_work_command E X st gov (UpdateItem co i u who) =
     in_transaction (discard (update_work_item_status_with_audit E co i u who))"
| "run_work_command E X st gov (Reassign co i oa ou who why) =
     in_transaction (discard (reassign_work_item E co i oa ou who why))"
| "run_work_command E X st gov (Block co i who why) = in_transaction (discard (block_work_item E co i who why))"
| "run_work_command E X st gov (Close co i s who why) = in_transaction (discard (close_work_item E co i s who why))"
| "run_work_command E X st gov (Review co i art who verdict why) =
     in_transaction (discard (review E co i art who verdict why))"
| "run_work_command E X st gov (Run co i a) = discard (route_run_work_item E X st gov co i a)"
| "run_work_command E X st gov (Retry co i a) = discard (route_retry_work_item E X st gov co i a)"
| "run_work_command E X st gov (Ledger c) = in_transaction (ledger_op E c)"

lemma keeps_discard: "keeps P m \<Longrightarrow> keeps P (discard m)"
  unfolding discard_def by (intro keeps_intros)

lemma work_command_keeps:
  assumes "ports_keep (on_both work_inv) X"
  shows "keeps (on_both work_inv) (run_work_command E X st gov c)"
proof (cases c)
  case (CreateGoal g who)
  show ?thesis unfolding CreateGoal run_work_command.simps discard_def
  proof (rule in_transaction_both, goal_cases)
    case 1
    show ?case by (intro keeps_intros keeps_committed_create)
  next
    case (2 w a w')
    then show ?case using create_goal_inv by (auto simp: bindS_Inr_iff)
  qed
next
  case (Ledger l)
  show ?thesis
    unfolding Ledger run_work_command.simps
    by (cases l; simp; intro in_transaction_both_keeps keeps_intros keeps_work_claim keeps_work_settle keeps_work_ledger)
qed (simp_all add: keeps_discard in_transaction_both_keeps keeps_goal_update keeps_route_create keeps_work_update
      keeps_review route_run_work_item_def route_retry_work_item_def keeps_commit_error keeps_run [OF assms])

lemma work_commands_keep:
  assumes "ports_keep (on_both work_inv) X" and "on_both work_inv w"
  shows "on_both work_inv (attempts (run_work_command E X st gov) cs w)"
  using assms(2) by (induction cs arbitrary: w) (auto dest: keepsD [OF work_command_keeps [OF assms(1)]])

lemma empty_inv: "on_both work_inv (world_of empty_db)"
  by (simp add: on_both_def world_of_def empty_db_def work_inv_def ordered_links_def)

lemma work_inv_links:
  assumes "work_inv d"
  shows "acyclic (link_graph w_work_item_id w_dependencies (t_work_items d))"
    "acyclic (link_graph g_goal_id goal_refs (t_goals d))"
    "\<forall>r \<in> set (t_work_items d). goal_link_ok d r \<and>
       (\<forall>k \<in> set (w_dependencies r). \<exists>p \<in> set (t_work_items d). w_work_item_id p = k \<and> w_company_id p = w_company_id r)"
    "\<forall>g \<in> set (t_goals d). \<forall>k \<in> set (goal_refs g).
       \<exists>p \<in> set (t_goals d). g_goal_id p = k \<and> g_company_id p = g_company_id g"
proof -
  note inv = assms [unfolded work_inv_def item_ok_def]
  show "acyclic (link_graph w_work_item_id w_dependencies (t_work_items d))"
    by (rule link_graph_acyclic [of _ w_company_id]) (use inv in simp_all)
  show "acyclic (link_graph g_goal_id goal_refs (t_goals d))"
    by (rule link_graph_acyclic [of _ g_company_id]) (use inv in simp_all)
  show "\<forall>r \<in> set (t_work_items d). goal_link_ok d r \<and>
      (\<forall>k \<in> set (w_dependencies r). \<exists>p \<in> set (t_work_items d). w_work_item_id p = k \<and> w_company_id p = w_company_id r)"
    using inv ordered_links_same_company [of w_work_item_id w_company_id w_dependencies "t_work_items d"] by simp
  show "\<forall>g \<in> set (t_goals d). \<forall>k \<in> set (goal_refs g).
      \<exists>p \<in> set (t_goals d). g_goal_id p = k \<and> g_company_id p = g_company_id g"
    using inv ordered_links_same_company [of g_goal_id g_company_id goal_refs "t_goals d"] by simp
qed

text \<open>
  C8. Goals and dependencies form forests inside one company: from an empty database, whatever sequence of
  commands of goals, work items, reviews, runs and the ledger is executed, successful or refused, the
  committed goals have parents of their own company and the committed work items have goals and
  dependencies of their own company, and neither relation has a cycle, so that some work item can always
  go first. Other sessions that act while an executor runs are assumed to keep the same invariant.\<close>

theorem links_acyclic_within_company:
  assumes "ports_keep (on_both work_inv) X"
  shows "let d = w_committed (attempts (run_work_command E X st gov) cs (world_of empty_db)) in
     acyclic (link_graph w_work_item_id w_dependencies (t_work_items d)) \<and>
     acyclic (link_graph g_goal_id goal_refs (t_goals d)) \<and>
     (\<forall>r \<in> set (t_work_items d). goal_link_ok d r \<and>
        (\<forall>k \<in> set (w_dependencies r). \<exists>p \<in> set (t_work_items d). w_work_item_id p = k \<and> w_company_id p = w_company_id r)) \<and>
     (\<forall>g \<in> set (t_goals d). \<forall>k \<in> set (goal_refs g).
        \<exists>p \<in> set (t_goals d). g_goal_id p = k \<and> g_company_id p = g_company_id g)"
proof -
  have "work_inv (w_committed (attempts (run_work_command E X st gov) cs (world_of empty_db)))"
    using work_commands_keep [OF assms empty_inv] by (simp add: on_both_def)
  from work_inv_links [OF this] show ?thesis by (simp add: Let_def)
qed

lemma sample_ports_keep: "ports_keep P sample_ports"
  by (simp add: ports_keep_def sample_ports_def keeps_intros)

theorem links_acyclic_within_company_witness:
  "acyclic (link_graph w_work_item_id w_dependencies (t_work_items (w_committed
     (attempts (run_work_command sample_env sample_ports sample_settings True)
       [CreateItem reviewed_item ''ann'', CreateItem (reviewed_item\<lparr>w_work_item_id := ''w2'', w_dependencies := [''wi'']\<rparr>) ''ann'']
       (world_of empty_db)))))"
  using links_acyclic_within_company [OF sample_ports_keep, of sample_env sample_settings True
      "[CreateItem reviewed_item ''ann'', CreateItem (reviewed_item\<lparr>w_work_item_id := ''w2'', w_dependencies := [''wi'']\<rparr>) ''ann'']"]
  unfolding Let_def by (rule conjunct1)

text \<open>
  C5. A completed work item has been accepted: along every sequence of commands, each committed work item
  that is completed names a recorded acceptance with verdict \<open>accepted\<close> for itself, and the accepted
  artifact is still there with the hash that was accepted. No review, run, reassignment or recovery
  removes that afterwards without also taking the item out of the completed status.\<close>

theorem completed_items_are_accepted:
  assumes "ports_keep (on_both work_inv) X" and "on_both work_inv w"
    and "r \<in> set (t_work_items (w_committed (attempts (run_work_command E X st gov) cs w)))"
    and "w_status r = WorkItemStatus_COMPLETED"
  shows "accepted_item (w_committed (attempts (run_work_command E X st gov) cs w)) r"
proof -
  have "work_inv (w_committed (attempts (run_work_command E X st gov) cs w))"
    using work_commands_keep [OF assms(1,2)] by (simp add: on_both_def)
  with assms(3,4) show ?thesis by (simp add: work_inv_def item_ok_def)
qed

definition completed_item :: work_item where
  "completed_item = reviewed_item\<lparr>w_status := WorkItemStatus_COMPLETED, w_metadata := [(''acceptance_id'', PStr ''acc_'')]\<rparr>"

definition completed_world :: world where
  "completed_world = world_of (empty_db\<lparr>t_companies := [sample_company], t_work_items := [completed_item],
     t_runs := [reviewed_run], t_artifacts := [reviewed_artifact], t_acceptances := [sample_acceptance]\<rparr>)"

lemma completed_world_inv: "on_both work_inv completed_world"
  by (simp add: on_both_def completed_world_def world_of_def work_inv_def ordered_links_def item_ok_def
      goal_link_ok_def accepted_item_def completed_item_def reviewed_item_def reviewed_artifact_def
      sample_acceptance_def empty_db_def dict_get_def)

lemma readonly_raises: "readonly m \<Longrightarrow> isl (fst (m w)) \<Longrightarrow> \<exists>e. m w = (Inl e, w)"
  by (cases "m w"; cases "fst (m w)") (auto dest: readonlyD)

theorem completed_items_are_accepted_witness:
  "accepted_item (w_committed (attempts (run_work_command sample_env sample_ports sample_settings True)
     [Review ''acme'' ''wi'' ''art'' ''op'' ''rejected'' ''changed my mind''] completed_world)) completed_item"
proof (rule completed_items_are_accepted [OF sample_ports_keep completed_world_inv])
  have "isl (fst (check_review sample_env ''acme'' ''wi'' ''art'' ''rejected'' ''changed my mind'' completed_world))"
    by code_simp
  then obtain e where "check_review sample_env ''acme'' ''wi'' ''art'' ''rejected'' ''changed my mind'' completed_world =
      (Inl e, completed_world)"
    using readonly_raises [OF readonly_checks(1)] by blast
  then have "attempts (run_work_command sample_env sample_ports sample_settings True)
      [Review ''acme'' ''wi'' ''art'' ''op'' ''rejected'' ''changed my mind''] completed_world = completed_world"
    by (simp add: discard_def review_def bindS_step in_transaction_def)
       (simp add: completed_world_def world_of_def)
  then show "completed_item \<in> set (t_work_items (w_committed (attempts (run_work_command sample_env sample_ports sample_settings True)
      [Review ''acme'' ''wi'' ''art'' ''op'' ''rejected'' ''changed my mind''] completed_world)))"
    by (simp add: completed_world_def world_of_def)
qed (simp add: completed_item_def)

section \<open>Completion and runs\<close>

lemma store_update_result:
  assumes "store_update_work_item_status E i s oa ou w = (Inr (Some r), w')"
  obtains old where "find (\<lambda>r. w_work_item_id r = i) (t_work_items (w_db w)) = Some old"
    "find (holds_work (w_company_id old) i) (t_leases (w_db w)) = None"
    "s = WorkItemStatus_COMPLETED \<Longrightarrow> require_accepted E old w = (Inr (), w)" "w_status r = s"
proof -
  from assms obtain old where old: "find (\<lambda>r. w_work_item_id r = i) (t_work_items (w_db w)) = Some old"
    by (auto simp: store_update_work_item_status_def get_work_def split: option.splits)
  with assms have free: "find (holds_work (w_company_id old) i) (t_leases (w_db w)) = None"
    by (auto simp: store_update_work_item_status_def get_work_def denied_def split: if_splits)
  from assms old free obtain u w1 where acc: "whenS (s = WorkItemStatus_COMPLETED) (require_accepted E old) w = (Inr u, w1)"
    and wr: "write_work_status E i s oa ou w1 = (Inr (Some r), w')"
    by (auto simp: store_update_work_item_status_def get_work_def bindS_Inr_iff)
  have "w1 = w" by (rule readonlyD [OF readonly_when [OF readonly_checks(3)] acc])
  moreover have "w_status r = s"
    using wr by (auto simp: write_work_status_def write_work_def get_work_def bind_flush_ok find_update_row)
  moreover have "require_accepted E old w = (Inr (), w)" if "s = WorkItemStatus_COMPLETED"
    using acc that \<open>w1 = w\<close> by simp
  ultimately show ?thesis using that [OF old free] by blast
qed

lemma update_result:
  assumes "update_work_item_status_with_audit E co i u who w = (Inr r, w')"
  obtains old s w1 where "find (\<lambda>r. w_work_item_id r = i) (t_work_items (w_db w)) = Some old" "w_company_id old = co"
    "store_update_work_item_status E i s (wu_owner_agent_id u) (wu_owner_user_id u) w = (Inr (Some r), w1)"
    "\<And>t. wu_status u = EnumArg t \<Longrightarrow> s = t"
proof -
  from assms obtain old where old: "find (\<lambda>r. w_work_item_id r = i) (t_work_items (w_db w)) = Some old" "w_company_id old = co"
    by (auto simp: update_work_item_status_with_audit_def get_work_item_def get_work_def bindS_run split: option.splits if_splits)
  then have get: "get_work_item co i w = (Inr old, w)" by (simp add: get_work_item_def get_work_def)
  have step: "bindS (get_work_item co i) f w = f old w" for f :: "_ \<Rightarrow> (world, work_item) op"
    using get by (simp add: bindS_step)
  from assms obtain v a where to: "work_item_transition_to (wu_status u) (from_record old) = (Inr v, a)"
    unfolding update_work_item_status_with_audit_def step by (auto split: prod.splits sum.splits)
  from assms to obtain w1 where
    "store_update_work_item_status E i (w_status (agg_record a)) (wu_owner_agent_id u) (wu_owner_user_id u) w = (Inr (Some r), w1)"
    unfolding update_work_item_status_with_audit_def step
    by (auto simp: bindS_Inr_iff Let_def split: option.splits if_splits)
  then show ?thesis using that [OF old] transition_target(2) to by metis
qed

text \<open>
  C21. Completing a work item takes a fresh acceptance: whichever command reports a completed work item, at
  that moment no execution held the item, its metadata named a recorded acceptance of verdict \<open>accepted\<close>
  for this item and company, the accepted artifact had the accepted hash, the evidence stored in it
  hashed to it, and the acceptance was about the latest run of the item.\<close>

theorem completion_takes_fresh_acceptance:
  assumes "update_work_item_status_with_audit E co i u who w = (Inr r, w')" and "w_status r = WorkItemStatus_COMPLETED"
  shows "(\<forall>l \<in> set (t_leases (w_db w)). \<not> holds_work co i l) \<and>
    (\<exists>old acc art run. find (\<lambda>r. w_work_item_id r = i) (t_work_items (w_db w)) = Some old \<and>
       dict_get ''acceptance_id'' (PStr []) (w_metadata old) = PStr (oa_acceptance_id acc) \<and>
       acceptance_row (oa_acceptance_id acc) (w_db w) = Some acc \<and> oa_verdict acc = ''accepted'' \<and>
       oa_company_id acc = co \<and> oa_work_item_id acc = i \<and>
       artifact_row (oa_artifact_id acc) (w_db w) = Some art \<and> art_content_hash art = oa_artifact_hash acc \<and>
       (\<forall>v. stored_evidence art = Some v \<longrightarrow> art_content_hash art = Some (hash_value E v)) \<and>
       latest_work_run co i (w_db w) = Some run \<and> r_run_id run = oa_run_id acc)"
  using assms(1)
proof (cases rule: update_result)
  case (1 old s w1)
  from 1(3) show ?thesis
  proof (cases rule: store_update_result)
    case (1 old')
    with \<open>find (\<lambda>r. w_work_item_id r = i) (t_work_items (w_db w)) = Some old\<close> have [simp]: "old' = old" by simp
    have id: "w_work_item_id old = i" using 1(1) by (auto simp: find_Some_iff)
    have acc: "require_accepted E old w = (Inr (), w)" using 1(3,4) assms(2) by simp
    from require_accepted_row [OF acc] \<open>w_company_id old = co\<close> id 1(1,2) show ?thesis
      by (auto simp: acceptance_valid_def find_None_iff)
  qed
qed

lemma status_from_run:
  "work_item_status_from_run run = Inr s \<Longrightarrow> s \<noteq> WorkItemStatus_COMPLETED"
  "work_item_status_from_run (Some x) = Inr s \<Longrightarrow> r_status x = AgentRunStatus_SUCCEEDED \<Longrightarrow> s = WorkItemStatus_BLOCKED"
  by (auto simp: work_item_status_from_run_def work_item_status_from_agent_run_status_def split: option.splits if_splits)


definition rerun_args :: run_args where
  "rerun_args = \<lparr>ra_agent_id = None, ra_input_payload = None, ra_actor_id = ''op'', ra_trace_id = None,
     ra_idempotency_key = Some ''work:wi:initial''\<rparr>"

definition rerun_db :: db where
  "rerun_db = empty_db\<lparr>t_companies := [sample_company], t_roles := [builtin_role],
     t_work_items := [reviewed_item], t_runs := [reviewed_run]\<rparr>"

definition rerun_digest :: string where
  "rerun_digest = (case fst (claim_intent sample_env builtin_role
     (wake_claim_args (run_wake_args reviewed_item rerun_args) ''op'' ''run-'') (world_of rerun_db)) of
        Inr (a, b, d) \<Rightarrow> d | Inl e \<Rightarrow> [])"

definition rerun_world :: world where
  "rerun_world = world_of (rerun_db\<lparr>t_leases := [sample_lease\<lparr>le_execution_id := ''hacme:work:wi:initial'',
     le_resource_id := ''work:wi'', le_run_id := ''run'', le_state := LeaseSucceeded, le_intent_hash := rerun_digest\<rparr>]\<rparr>)"

lemma rerun_runs:
  "\<not> isl (fst (run_work_item_with_agent sample_env sample_ports sample_settings True ''acme'' ''wi'' rerun_args rerun_world))"
  by code_simp


theorem completion_takes_fresh_acceptance_witness:
  "\<exists>w'. update_work_item_status_with_audit sample_env ''acme'' ''wi'' (owned_update WorkItemStatus_COMPLETED ''dev'') ''op''
     completed_world = (Inr (completed_item\<lparr>w_updated_at := utc_dt 0\<rparr>), w') \<and>
     latest_work_run ''acme'' ''wi'' (w_db completed_world) \<noteq> None"
proof -
  have "fst (update_work_item_status_with_audit sample_env ''acme'' ''wi'' (owned_update WorkItemStatus_COMPLETED ''dev'') ''op''
     completed_world) = Inr (completed_item\<lparr>w_updated_at := utc_dt 0\<rparr>)"
    by code_simp
  then obtain w' where run: "update_work_item_status_with_audit sample_env ''acme'' ''wi'' (owned_update WorkItemStatus_COMPLETED ''dev'') ''op''
     completed_world = (Inr (completed_item\<lparr>w_updated_at := utc_dt 0\<rparr>), w')"
    by (metis prod.collapse)
  from completion_takes_fresh_acceptance [OF run] run show ?thesis by (auto simp: completed_item_def)
qed

end
