(* ===== verification/Heartbeat.thy ===== *)
theory Heartbeat
  imports Work_Service
begin

text \<open>
  The heartbeat scheduler (\<open>scheduler.py\<close>, \<open>run_heartbeat_scheduler_once\<close> of
  \<open>agent_operation_use_cases.py\<close> and its route): one pass over the active agents of a company wakes
  those whose heartbeat is due. The decision that an agent is due is read before the wakeup claims
  the dispatch, so other schedulers may act in between; the claim decides again under the lock of
  the company.
\<close>

section \<open>Times in wakeup payloads\<close>

definition zero_pad :: "nat \<Rightarrow> int \<Rightarrow> string" where
  "zero_pad n i = (let s = int_text i in replicate (n - length s) (CHR ''0'') @ s)"

text \<open>\<open>datetime.fromtimestamp(s, UTC).isoformat()\<close> for whole seconds.\<close>

definition iso_utc_seconds :: "int \<Rightarrow> string" where
  "iso_utc_seconds s =
     (let d = s div 86400; r = s mod 86400; y = year_of_day d; m = month_of_day d;
          dom = d - days_before_year y - days_before_month (leap_year y) m + 1 in
      zero_pad 4 y @ ''-'' @ zero_pad 2 (int m + 1) @ ''-'' @ zero_pad 2 dom @ ''T'' @
      zero_pad 2 (r div 3600) @ '':'' @ zero_pad 2 (r mod 3600 div 60) @ '':'' @ zero_pad 2 (r mod 60) @ ''+00:00'')"

text \<open>\<open>int(checked_at.timestamp())\<close>.\<close>

definition timestamp_seconds :: "int \<Rightarrow> int" where
  "timestamp_seconds t = (if t < 0 then - (- t div 1000000) else t div 1000000)"

section \<open>The scheduler\<close>

record agent_heartbeat_result =
  hb_company_id :: string
  hb_agent_id :: string
  hb_status :: string
  hb_run_id :: "string option"
  hb_skipped_reason :: "string option"
  hb_error :: "string option"

definition list_agent_roles :: "string \<Rightarrow> string option \<Rightarrow> nat \<Rightarrow> (world, agent_role list) op" where
  "list_agent_roles company_id status limit =
     query_db (\<lambda>d. take limit (sort_key (\<lambda>r. - dt_utc (ar_created_at r)) (filter (\<lambda>r.
        ar_company_id r = company_id \<and> (truthy_str status \<longrightarrow> Some (ar_status r) = status)) (t_roles d))))"

definition is_due :: "string \<Rightarrow> string \<Rightarrow> int \<Rightarrow> int \<Rightarrow> (world, bool \<times> string option) op" where
  "is_due agent_id company_id interval_seconds now =
     bindS (list_agent_runs company_id None (Some agent_id) None None None 1) (\<lambda>runs.
       retS (case runs of
           [] \<Rightarrow> (True, None)
         | latest # rest \<Rightarrow>
             if r_status latest = AgentRunStatus_RUNNING then (False, Some ''already_running'')
             else
               let last_at = (case r_completed_at latest of Some t \<Rightarrow> t | None \<Rightarrow> r_started_at latest) in
               if now - dt_utc last_at < interval_seconds * 1000000 then (False, Some ''interval_not_elapsed'')
               else (True, None)))"

definition heartbeat_wake_args :: "string \<Rightarrow> int \<Rightarrow> int \<Rightarrow> string \<Rightarrow> wake_args" where
  "heartbeat_wake_args agent_id interval_seconds checked_at trace_id =
     (let slot = timestamp_seconds checked_at div interval_seconds in
      \<lparr>wa_input_payload = Some
         [(''trigger'', PStr ''heartbeat''),
          (''scheduled_at'', PStr (iso_utc_seconds (slot * interval_seconds))),
          (''heartbeat_interval_seconds'', PInt interval_seconds)],
       wa_actor_id = ''control-plane:scheduler'',
       wa_links = \<lparr>rl_trace_id = Some trace_id, rl_goal_id = None, rl_work_item_id = None\<rparr>,
       wa_trigger = ''scheduled_heartbeat'',
       wa_idempotency_key = Some (''heartbeat:'' @ agent_id @ '':'' @ int_text slot)\<rparr>)"

text \<open>The try statement of the loop, entered when the agent was found due.\<close>

definition heartbeat_wake ::
  "env \<Rightarrow> ports \<Rightarrow> runner_settings \<Rightarrow> bool \<Rightarrow> string \<Rightarrow> agent_role \<Rightarrow> int \<Rightarrow> int \<Rightarrow> (world, agent_heartbeat_result) op" where
  "heartbeat_wake E X st governed company_id agent interval_seconds checked_at =
     catchS
       (bindS (generate_id E ''trace'') (\<lambda>trace_id.
        bindS (wake E X st governed agent
                 (heartbeat_wake_args (ar_agent_id agent) interval_seconds checked_at trace_id)) (\<lambda>wakeup.
          retS \<lparr>hb_company_id = company_id, hb_agent_id = ar_agent_id agent, hb_status = ''succeeded'',
                hb_run_id = Some (ar_run_id wakeup), hb_skipped_reason = None, hb_error = None\<rparr>)))
       (\<lambda>e. retS \<lparr>hb_company_id = company_id, hb_agent_id = ar_agent_id agent, hb_status = ''failed'',
                  hb_run_id = None, hb_skipped_reason = None, hb_error = Some (error_message X e)\<rparr>)"

text \<open>One pass of the loop body; no result for an agent whose heartbeat is not enabled.\<close>

definition heartbeat_agent ::
  "env \<Rightarrow> ports \<Rightarrow> runner_settings \<Rightarrow> bool \<Rightarrow> string \<Rightarrow> int \<Rightarrow> agent_role \<Rightarrow> (world, agent_heartbeat_result list) op" where
  "heartbeat_agent E X st governed company_id checked_at agent =
     bindS (liftE (adapter_config_from_agent_role agent)) (\<lambda>cfg.
     if \<not> heartbeat_enabled cfg then retS []
     else
       bindS (liftE (heartbeat_interval_seconds cfg)) (\<lambda>interval_seconds.
       bindS (is_due (ar_agent_id agent) company_id interval_seconds checked_at) (\<lambda>(due, skipped_reason).
       if \<not> due
       then retS [\<lparr>hb_company_id = company_id, hb_agent_id = ar_agent_id agent, hb_status = ''skipped'',
                   hb_run_id = None, hb_skipped_reason = skipped_reason, hb_error = None\<rparr>]
       else bindS (heartbeat_wake E X st governed company_id agent interval_seconds checked_at) (\<lambda>r. retS [r]))))"

definition run_due_once ::
  "env \<Rightarrow> ports \<Rightarrow> runner_settings \<Rightarrow> bool \<Rightarrow> string \<Rightarrow> nat \<Rightarrow> int option \<Rightarrow> (world, agent_heartbeat_result list) op" where
  "run_due_once E X st governed company_id limit now =
     bindS (case now of Some t \<Rightarrow> retS t | None \<Rightarrow> now_utc E) (\<lambda>checked_at.
     bindS (list_agent_roles company_id (Some ''active'') limit) (\<lambda>agents.
     bindS (forS agents (heartbeat_agent E X st governed company_id checked_at)) (\<lambda>results.
       retS (concat results))))"

definition run_heartbeat_scheduler_once ::
  "env \<Rightarrow> ports \<Rightarrow> runner_settings \<Rightarrow> bool \<Rightarrow> string \<Rightarrow> nat \<Rightarrow> (world, agent_heartbeat_result list) op" where
  "run_heartbeat_scheduler_once E X st governed company_id limit =
     bindS (get_company company_id) (\<lambda>company.
     if company = None then raiseS (AgentOperationCompanyNotFoundError company_id)
     else run_due_once E X st governed company_id limit None)"

definition route_run_heartbeat_scheduler_once ::
  "env \<Rightarrow> ports \<Rightarrow> runner_settings \<Rightarrow> bool \<Rightarrow> string \<Rightarrow> nat \<Rightarrow> (world, agent_heartbeat_result list) op" where
  "route_run_heartbeat_scheduler_once E X st governed company_id limit =
     in_transaction (run_heartbeat_scheduler_once E X st governed company_id limit)"

section \<open>What a pass reports\<close>

definition active_roles :: "string \<Rightarrow> nat \<Rightarrow> db \<Rightarrow> agent_role list" where
  "active_roles company_id limit d =
     take limit (sort_key (\<lambda>r. - dt_utc (ar_created_at r))
       (filter (\<lambda>r. ar_company_id r = company_id \<and> ar_status r = ''active'') (t_roles d)))"

definition heartbeat_on :: "agent_role \<Rightarrow> bool" where
  "heartbeat_on a \<longleftrightarrow> (case adapter_config_from_agent_role a of Inl e \<Rightarrow> False | Inr cfg \<Rightarrow> heartbeat_enabled cfg)"

text \<open>The most recent run of an agent is still running, or ended less than an interval ago.\<close>

definition recently_run :: "string \<Rightarrow> int \<Rightarrow> agent_role \<Rightarrow> db \<Rightarrow> bool" where
  "recently_run company_id now a d \<longleftrightarrow>
     (\<exists>interval latest. bindE (adapter_config_from_agent_role a) heartbeat_interval_seconds = Inr interval \<and>
        fst (list_agent_runs company_id None (Some (ar_agent_id a)) None None None 1 (world_of d)) = Inr [latest] \<and>
        (r_status latest = AgentRunStatus_RUNNING \<or>
         now - dt_utc (case r_completed_at latest of Some t \<Rightarrow> t | None \<Rightarrow> r_started_at latest) < interval * 1000000))"

definition skipped_result :: "agent_heartbeat_result \<Rightarrow> bool" where
  "skipped_result r \<longleftrightarrow> hb_status r = ''skipped'' \<and> hb_run_id r = None \<and> hb_error r = None \<and>
     hb_skipped_reason r \<in> {Some ''already_running'', Some ''interval_not_elapsed''}"

definition reported_result :: "agent_heartbeat_result \<Rightarrow> bool" where
  "reported_result r \<longleftrightarrow> skipped_result r \<or>
     hb_skipped_reason r = None \<and>
       (hb_status r = ''succeeded'' \<and> hb_run_id r \<noteq> None \<and> hb_error r = None \<or>
        hb_status r = ''failed'' \<and> hb_run_id r = None \<and> hb_error r \<noteq> None)"

lemma is_due_run:
  "\<exists>due reason. is_due agent_id co i now w = (Inr (due, reason), w) \<and>
     (\<not> due \<longrightarrow> reason \<in> {Some ''already_running'', Some ''interval_not_elapsed''})"
  by (auto simp: is_due_def list_agent_runs_def Let_def split: list.splits)

lemma is_due_recent:
  assumes "recently_run co now a d" and "adapter_config_from_agent_role a = Inr cfg"
    and "heartbeat_interval_seconds cfg = Inr i" and "w_db w = d"
  shows "\<exists>reason. is_due (ar_agent_id a) co i now w = (Inr (False, reason), w)"
  using assms by (auto simp: is_due_def recently_run_def list_agent_runs_def world_of_def Let_def)

lemma heartbeat_wake_run:
  obtains r w' where "heartbeat_wake E X st g co a i t w = (Inr r, w')" "hb_agent_id r = ar_agent_id a" "reported_result r"
proof -
  obtain q v where "wake E X st g a (heartbeat_wake_args (ar_agent_id a) i t (e_id E ''trace'' (w_tick w)))
      (w\<lparr>w_tick := Suc (w_tick w)\<rparr>) = (q, v)" by force
  then show thesis
    by (cases q) (auto simp: heartbeat_wake_def catchS_def reported_result_def bindS_step intro: that)
qed

lemma heartbeat_agent_ok:
  assumes "heartbeat_agent E X st g co t a w = (Inr rs, w')"
  shows "map hb_agent_id rs = map ar_agent_id (filter heartbeat_on [a])" and "list_all reported_result rs"
    and "heartbeat_on a \<longrightarrow> recently_run co t a (w_db w) \<Longrightarrow> w' = w \<and> list_all skipped_result rs"
proof -
  from assms obtain cfg where cfg: "adapter_config_from_agent_role a = Inr cfg"
    by (auto simp: heartbeat_agent_def bindS_Inr_iff)
  have "map hb_agent_id rs = map ar_agent_id (filter heartbeat_on [a]) \<and> list_all reported_result rs \<and>
    ((heartbeat_on a \<longrightarrow> recently_run co t a (w_db w)) \<longrightarrow> w' = w \<and> list_all skipped_result rs)"
  proof (cases "heartbeat_enabled cfg")
    case False
    with assms cfg show ?thesis by (simp add: heartbeat_agent_def heartbeat_on_def)
  next
    case True
    with assms cfg obtain i where i: "heartbeat_interval_seconds cfg = Inr i"
      by (auto simp: heartbeat_agent_def bindS_Inr_iff)
    obtain due reason where due: "is_due (ar_agent_id a) co i t w = (Inr (due, reason), w)"
      "\<not> due \<longrightarrow> reason \<in> {Some ''already_running'', Some ''interval_not_elapsed''}"
      using is_due_run by blast
    obtain r v where wk: "heartbeat_wake E X st g co a i t w = (Inr r, v)" "hb_agent_id r = ar_agent_id a" "reported_result r"
      by (rule heartbeat_wake_run)
    show ?thesis
      using assms cfg i True due wk is_due_recent [OF _ cfg i refl, of co t w]
      by (auto simp: heartbeat_agent_def heartbeat_on_def bindS_step reported_result_def skipped_result_def split: if_splits)
  qed
  then show "map hb_agent_id rs = map ar_agent_id (filter heartbeat_on [a])" "list_all reported_result rs"
    "heartbeat_on a \<longrightarrow> recently_run co t a (w_db w) \<Longrightarrow> w' = w \<and> list_all skipped_result rs"
    by blast+
qed

lemma heartbeat_agents_ok:
  assumes "forS as (heartbeat_agent E X st g co t) w = (Inr rss, w')"
  shows "map hb_agent_id (concat rss) = map ar_agent_id (filter heartbeat_on as) \<and>
    list_all reported_result (concat rss) \<and>
    ((\<forall>a \<in> set as. heartbeat_on a \<longrightarrow> recently_run co t a (w_db w)) \<longrightarrow> w' = w \<and> list_all skipped_result (concat rss))"
  using assms
proof (induction as arbitrary: w rss)
  case (Cons a as)
  from Cons.prems obtain rs v rest where a: "heartbeat_agent E X st g co t a w = (Inr rs, v)"
    and as: "forS as (heartbeat_agent E X st g co t) v = (Inr rest, w')" and rss: "rss = rs # rest"
    by (auto simp: bindS_Inr_iff)
  show ?case
    using heartbeat_agent_ok [OF a] Cons.IH [OF as] by (auto simp: rss)
qed simp

text \<open>
  C26. A pass of the heartbeat scheduler that returns reports exactly one result for each active agent
  with an enabled heartbeat, in the order of the listing: skipped with a reason, succeeded with a run
  or failed with an error. When the most recent run of each of these agents is still running or ended
  less than the agent's interval ago, all are skipped and nothing at all is changed.\<close>

theorem heartbeat_pass_reports_each_agent:
  assumes "run_due_once E X st governed co limit (Some now) w = (Inr results, w')"
  shows "map hb_agent_id results = map ar_agent_id (filter heartbeat_on (active_roles co limit (w_db w))) \<and>
    (\<forall>r \<in> set results. reported_result r) \<and>
    ((\<forall>a \<in> set (active_roles co limit (w_db w)). heartbeat_on a \<longrightarrow> recently_run co now a (w_db w)) \<longrightarrow>
       w' = w \<and> (\<forall>r \<in> set results. skipped_result r))"
proof -
  from assms obtain rss where
    run: "forS (active_roles co limit (w_db w)) (heartbeat_agent E X st governed co now) w = (Inr rss, w')"
    and res: "results = concat rss"
    by (auto simp: run_due_once_def list_agent_roles_def active_roles_def bindS_Inr_iff)
  from heartbeat_agents_ok [OF run] show ?thesis
    by (simp only: res list_all_iff) blast
qed

section \<open>Spacing of heartbeats\<close>

text \<open>The claim of a heartbeat wakeup, up to the identifier of the run and the actor.\<close>

definition heartbeat_claim :: "agent_role \<Rightarrow> int \<Rightarrow> int \<Rightarrow> claim_args" where
  "heartbeat_claim agent interval_seconds checked_at =
     wake_claim_args (heartbeat_wake_args (ar_agent_id agent) interval_seconds checked_at []) [] []"

text \<open>The interval of the stored role has passed since the agent's latest run.\<close>

definition interval_elapsed :: "agent_role \<Rightarrow> int \<Rightarrow> db \<Rightarrow> bool" where
  "interval_elapsed agent now d \<longleftrightarrow>
     (\<exists>current interval. find (\<lambda>r. ar_company_id r = ar_company_id agent \<and> ar_agent_id r = ar_agent_id agent) (t_roles d) = Some current \<and>
        bindE (adapter_config_from_agent_role current) heartbeat_interval_seconds = Inr interval \<and>
        (\<forall>r. latest_run (ar_company_id agent) (ar_agent_id agent) d = Some r \<longrightarrow>
           interval * 1000000 \<le> now - dt_utc (case r_completed_at r of Some t \<Rightarrow> t | None \<Rightarrow> r_started_at r)))"

lemma wake_claimed:
  assumes "wake E X st True agent a w = (Inr res, w')"
  obtains who tk v where
    "claim E agent (wake_claim_args a who (e_id E ''run'' (w_tick w))) (w\<lparr>w_tick := Suc (w_tick w)\<rparr>) = (Inr tk, v)"
    "(if tk_replay tk then replay_result tk
      else start_and_dispatch E X st agent a who (e_id E ''run'' (w_tick w)) (Some tk)) v = (Inr res, w')"
  using assms
  by (auto simp: wake_def Let_def wakeup_error_def bindS_Inr_iff catchS_def
      split: sum.splits exc.splits if_splits prod.splits)

lemma claim_of_heartbeat:
  "execution_id_of E agent (wake_claim_args (heartbeat_wake_args (ar_agent_id agent) i t tr) who run_id) =
     execution_id_of E agent (heartbeat_claim agent i t)"
  "resource_of agent (wake_claim_args (heartbeat_wake_args (ar_agent_id agent) i t tr) who run_id) =
     ''agent:'' @ ar_agent_id agent"
  "map_of (ca_payload (wake_claim_args (heartbeat_wake_args (ar_agent_id agent) i t tr) who run_id)) ''trigger'' =
     Some (PStr ''heartbeat'')"
  by (simp_all add: execution_id_of_def heartbeat_claim_def wake_claim_args_def heartbeat_wake_args_def resource_of_def
      payload_or_empty_def Let_def)

lemma claimed_role:
  assumes "claim_intent E agent c v = (Inr (current, cc, digest), v')"
  shows "find (\<lambda>r. ar_company_id r = ar_company_id agent \<and> ar_agent_id r = ar_agent_id agent) (t_roles (w_db v)) = Some current"
  using assms by (auto simp: claim_intent_def get_company_def get_role_def denied_def bindS_Inr_iff split: option.splits if_splits)

lemma checked_interval:
  assumes "check_heartbeat agent current c now v = (Inr (), v')"
    and "map_of (ca_payload c) ''trigger'' = Some (PStr ''heartbeat'')"
  obtains interval where "bindE (adapter_config_from_agent_role current) heartbeat_interval_seconds = Inr interval"
    "\<And>r. latest_run (ar_company_id agent) (ar_agent_id agent) (w_db v) = Some r \<Longrightarrow>
       interval * 1000000 \<le> now - dt_utc (case r_completed_at r of Some t \<Rightarrow> t | None \<Rightarrow> r_started_at r)"
proof -
  from assms obtain interval where i: "bindE (adapter_config_from_agent_role current) heartbeat_interval_seconds = Inr interval"
    and rest: "(case latest_run (ar_company_id agent) (ar_agent_id agent) (w_db v) of None \<Rightarrow> retS ()
      | Some r \<Rightarrow> let last = dt_utc (case r_completed_at r of Some t \<Rightarrow> t | None \<Rightarrow> r_started_at r)
          in if now - last < interval * 1000000 then denied ''heartbeat_interval_not_elapsed'' 409 else retS ()) v = (Inr (), v')"
    by (auto simp: check_heartbeat_def bindS_Inr_iff simp del: bindE_eq_Inr)
  show thesis
  proof (rule that [OF i])
    fix r assume "latest_run (ar_company_id agent) (ar_agent_id agent) (w_db v) = Some r"
    with rest show "interval * 1000000 \<le> now - dt_utc (case r_completed_at r of Some t \<Rightarrow> t | None \<Rightarrow> r_started_at r)"
      by (simp add: Let_def denied_def split: if_splits)
  qed
qed

lemma heartbeat_claim_spaced:
  assumes "claim E agent c w = (Inr tk, w')" and "\<not> tk_replay tk"
    and "map_of (ca_payload c) ''trigger'' = Some (PStr ''heartbeat'')"
  shows "interval_elapsed agent (e_clock E (w_tick w)) (w_db w)"
    and "find (\<lambda>l. le_company_id l = ar_company_id agent \<and> le_resource_id l = resource_of agent c \<and> lease_active l)
           (t_leases (w_db w)) = None"
proof -
  obtain k where k: "fresh_claim E agent c w k" by (rule fresh_ticket [OF assms(1,2)])
  note facts = fresh_claimD [OF k]
  have "check_heartbeat agent (cf_current k) c (cf_now k) (w\<lparr>w_tick := Suc (w_tick w)\<rparr>) =
      (Inr (), w\<lparr>w_tick := Suc (w_tick w)\<rparr>)"
    using k unfolding fresh_claim_def Let_def by (elim conjE)
  from checked_interval [OF this assms(3)] claimed_role [OF facts(6)] facts(1)
  show "interval_elapsed agent (e_clock E (w_tick w)) (w_db w)"
    unfolding interval_elapsed_def by fastforce
  show "find (\<lambda>l. le_company_id l = ar_company_id agent \<and> le_resource_id l = resource_of agent c \<and> lease_active l)
      (t_leases (w_db w)) = None" by (rule facts(3))
qed


definition heartbeat_role :: agent_role where
  "heartbeat_role = sample_role\<lparr>ar_adapter_type := ''builtin'',
     ar_adapter_config := [(''max_cost_usd'', PInt 0), (''heartbeat_enabled'', PBool True),
       (''heartbeat_interval_seconds'', PInt 120)]\<rparr>"

text \<open>A world whose current time slot has its run already: the lease of its key has ended well.\<close>

definition heartbeat_digest :: string where
  "heartbeat_digest =
     (case intent_hash sample_env heartbeat_role (ca_payload (heartbeat_claim heartbeat_role 120 200000000)) None of
        Inl e \<Rightarrow> [] | Inr h \<Rightarrow> ''h'' @ h @ '':heartbeat:dev:1:control-plane:scheduler'')"

definition heartbeat_world :: world where
  "heartbeat_world = world_of (ledger_db\<lparr>t_roles := [heartbeat_role], t_policies := [],
     t_runs := [sample_run\<lparr>r_status := AgentRunStatus_SUCCEEDED, r_completed_at := Some (utc_dt 0)\<rparr>],
     t_leases := [sample_lease\<lparr>le_execution_id := ''hacme:heartbeat:dev:1'', le_state := LeaseSucceeded,
       le_intent_hash := heartbeat_digest\<rparr>]\<rparr>)"

lemma heartbeat_wake_succeeds:
  "case fst (heartbeat_wake sample_env sample_ports sample_settings True ''acme'' heartbeat_role 120 200000000 heartbeat_world) of
     Inl e \<Rightarrow> False | Inr r \<Rightarrow> hb_status r = ''succeeded''"
  by code_simp


lemma pass_skips:
  "\<not> isl (fst (run_due_once sample_env sample_ports sample_settings True ''acme'' 500 (Some 60000000) heartbeat_world))"
  "active_roles ''acme'' 500 (w_db heartbeat_world) = [heartbeat_role]" "heartbeat_on heartbeat_role"
  by code_simp+

lemma heartbeat_recent: "recently_run ''acme'' 60000000 heartbeat_role (w_db heartbeat_world)"
proof -
  have "bindE (adapter_config_from_agent_role heartbeat_role) heartbeat_interval_seconds = Inr 120"
    by code_simp
  moreover have "fst (list_agent_runs ''acme'' None (Some (ar_agent_id heartbeat_role)) None None None 1
      (world_of (w_db heartbeat_world))) =
      Inr [sample_run\<lparr>r_status := AgentRunStatus_SUCCEEDED, r_completed_at := Some (utc_dt 0)\<rparr>]"
    by (simp add: list_agent_runs_def heartbeat_world_def world_of_def sample_run_def heartbeat_role_def sample_role_def)
  ultimately show ?thesis
    by (auto simp: recently_run_def dt_utc_def utc_dt_def simp del: bindE_eq_Inr)
qed

theorem heartbeat_pass_reports_each_agent_witness:
  "\<exists>results w'. run_due_once sample_env sample_ports sample_settings True ''acme'' 500 (Some 60000000) heartbeat_world =
     (Inr results, w') \<and> map hb_agent_id results = [''dev''] \<and> w' = heartbeat_world"
proof -
  obtain results w' where run: "run_due_once sample_env sample_ports sample_settings True ''acme'' 500 (Some 60000000)
      heartbeat_world = (Inr results, w')"
    using run_of_not_isl [OF pass_skips(1)] by blast
  have dev: "ar_agent_id heartbeat_role = ''dev''" by (simp add: heartbeat_role_def sample_role_def)
  from heartbeat_pass_reports_each_agent [OF run] pass_skips(2,3) heartbeat_recent dev run show ?thesis
    by simp
qed

end
