(* ===== verification/Lifecycle_Properties.thy ===== *)
theory Lifecycle_Properties
  imports Control_Store
begin

text \<open>
  Properties of the aggregates, proved once for the lifecycle and enum contracts of \<open>State_Machine\<close> and
  read off the interpretations: the recorded events of an aggregate are a path through its transition
  table, finished aggregates stay finished, and stored texts and metadata read back as they were.
\<close>

section \<open>Refinement of the transition tables\<close>

text \<open>The abstract specification: a table of allowed moves, and the moves a client observes.\<close>

definition follows_table :: "('s \<times> 's list) list \<Rightarrow> 's \<Rightarrow> ('s \<times> 's) list \<Rightarrow> 's \<Rightarrow> bool" where
  "follows_table table s moves t \<longleftrightarrow>
     trail_path (\<lambda>a b. case map_of table a of None \<Rightarrow> False | Some bs \<Rightarrow> b \<in> set bs) s moves t"

lemma follows_machine:
  assumes "\<And>a b. edge m a b \<longleftrightarrow> (case map_of table a of None \<Rightarrow> False | Some bs \<Rightarrow> b \<in> set bs)"
    and "trail_path (edge m) s es t"
  shows "follows_table table s es t"
proof -
  have "edge m = (\<lambda>a b. case map_of table a of None \<Rightarrow> False | Some bs \<Rightarrow> b \<in> set bs)"
    by (intro ext) (rule assms(1))
  with assms(2) show ?thesis by (simp add: follows_table_def)
qed

text \<open>
  C32. Goals and work items refine their transition tables: whatever sequence of status changes is
  attempted on a loaded record, legal or not, given as enum members or as text, the status-changed
  events that were recorded are a gapless sequence of moves of the table that leads from the loaded
  status to the final one.\<close>

theorem status_events_follow_table:
  "follows_table GOAL_VALID_TRANSITIONS (g_status g) (goal_trail (attempts goal_transition_to gs (from_record g)))
     (g_status (agg_record (attempts goal_transition_to gs (from_record g)))) \<and>
   follows_table WORK_ITEM_VALID_TRANSITIONS (w_status r)
     (work_item_trail (attempts work_item_transition_to ws (from_record r)))
     (w_status (agg_record (attempts work_item_transition_to ws (from_record r))))"
proof
  show "follows_table GOAL_VALID_TRANSITIONS (g_status g) (goal_trail (attempts goal_transition_to gs (from_record g)))
     (g_status (agg_record (attempts goal_transition_to gs (from_record g))))"
    using goal_lc.attempts_path [of "from_record g" "g_status g" gs]
    by (auto simp: goal_trail_def from_record_def intro!: follows_machine [OF goal_edge])
  show "follows_table WORK_ITEM_VALID_TRANSITIONS (w_status r)
     (work_item_trail (attempts work_item_transition_to ws (from_record r)))
     (w_status (agg_record (attempts work_item_transition_to ws (from_record r))))"
    using work_item_lc.attempts_path [of "from_record r" "w_status r" ws]
    by (auto simp: work_item_trail_def from_record_def intro!: follows_machine [OF work_item_edge])
qed

section \<open>Finished aggregates\<close>

lemma agent_run_terminal_no_edge:
  assumes "s \<in> set AGENT_RUN_TERMINAL_STATUSES"
  shows "\<not> edge AGENT_RUN_STATE_MACHINE s t"
proof -
  have "list_all (\<lambda>s. map_of AGENT_RUN_VALID_TRANSITIONS s = Some []) AGENT_RUN_TERMINAL_STATUSES" by code_simp
  with assms show ?thesis by (auto simp: list_all_iff agent_run_edge)
qed

text \<open>
  What is finished stays finished: on a run in a terminal status and on a cancelled work item, no
  sequence of status changes changes the record or records an event.\<close>

theorem finished_aggregates_are_final:
  assumes "r_status r \<in> set AGENT_RUN_TERMINAL_STATUSES" and "w_status i = WorkItemStatus_CANCELLED"
  shows "attempts agent_run_transition_to rs (from_record r) = from_record r \<and>
         attempts work_item_transition_to ws (from_record i) = from_record i"
proof
  show "attempts agent_run_transition_to rs (from_record r) = from_record r"
    by (rule agent_run_lc.terminal_absorbs [where s = "r_status r"])
       (simp_all add: from_record_def agent_run_terminal_no_edge [OF assms(1)])
  show "attempts work_item_transition_to ws (from_record i) = from_record i"
    by (rule work_item_lc.terminal_absorbs [where s = "w_status i"])
       (simp_all add: from_record_def assms(2) work_item_cancelled_terminal)
qed

definition done_run :: agent_run where
  "done_run = \<lparr>r_run_id = ''run-1'', r_company_id = ''acme'', r_agent_id = ''dev'',
     r_status = AgentRunStatus_SUCCEEDED, r_trace_id = None, r_goal_id = None, r_work_item_id = None,
     r_trigger_event_id = None, r_input_event = None, r_output_events = [], r_started_at = utc_dt 0,
     r_completed_at = None, r_error_category = None, r_error_message = None, r_last_successful_step = None,
     r_cost_usd = Fin 0, r_input_tokens = 0, r_output_tokens = 0, r_metadata = []\<rparr>"

theorem finished_aggregates_are_final_witness:
  "\<exists>i. w_status i = WorkItemStatus_CANCELLED \<and>
     attempts agent_run_transition_to [AgentRunStatus_RUNNING] (from_record done_run) = from_record done_run \<and>
     attempts work_item_transition_to [EnumArg WorkItemStatus_RUNNING] (from_record i) = from_record i"
proof -
  have "r_status done_run \<in> set AGENT_RUN_TERMINAL_STATUSES" by code_simp
  moreover obtain i :: work_item where "w_status i = WorkItemStatus_CANCELLED"
    by (meson work_item.select_convs)
  ultimately show ?thesis using finished_aggregates_are_final by blast
qed

section \<open>Round trips\<close>

text \<open>
  Stored statuses read back: for every status enum of the Control Plane, parsing a text gives a member
  exactly when the text is the one that member prints as, so printing and parsing are inverse and every
  other text is refused.\<close>

theorem status_texts_round_trip:
  "(enum_parse ''GoalStatus'' goal_status_value goal_status_members s = Inr g \<longleftrightarrow> s = goal_status_value g) \<and>
   (enum_parse ''WorkItemStatus'' work_item_status_value work_item_status_members s = Inr i \<longleftrightarrow> s = work_item_status_value i) \<and>
   (enum_parse ''AgentRunStatus'' agent_run_status_value agent_run_status_members s = Inr r \<longleftrightarrow> s = agent_run_status_value r) \<and>
   (enum_parse ''DecisionStatus'' decision_status_value decision_status_members s = Inr d \<longleftrightarrow> s = decision_status_value d) \<and>
   (enum_parse ''ApprovalStatus'' approval_status_value approval_status_members s = Inr a \<longleftrightarrow> s = approval_status_value a) \<and>
   (enum_parse ''BudgetPeriod'' budget_period_value budget_period_members s = Inr b \<longleftrightarrow> s = budget_period_value b) \<and>
   (enum_parse ''AgentRoleStatus'' agent_role_status_value agent_role_status_members s = Inr l \<longleftrightarrow> s = agent_role_status_value l)"
  by (simp only: goal_status_enum.parse_ok_iff work_item_status_enum.parse_ok_iff agent_run_status_enum.parse_ok_iff
      decision_status_enum.parse_ok_iff approval_status_enum.parse_ok_iff budget_period_enum.parse_ok_iff
      agent_role_status_enum.parse_ok_iff simp_thms)

text \<open>
  Metadata has a normal form: whatever mapping is accepted as metadata, its stored form is JSON data
  with stripped, non-empty keys, and reading the stored form as metadata again gives the same stored form.\<close>

theorem metadata_round_trip:
  assumes "from_mapping d = Inr m"
  shows "json_dict (as_dict m) \<and> (\<exists>m'. from_mapping (Some (as_dict m)) = Inr m' \<and> as_dict m' = as_dict m)"
  using freeze_mapping_json [OF assms] json_dict_normal by blast

theorem metadata_round_trip_witness:
  "\<exists>m. from_mapping (Some [('' k '', PTuple [PInt 1, PSet [(''b'', PStr ''b''), (''a'', PStr ''a'')]])]) = Inr m \<and>
     json_dict (as_dict m)"
proof -
  have "\<not> isl (from_mapping (Some [('' k '', PTuple [PInt 1, PSet [(''b'', PStr ''b''), (''a'', PStr ''a'')]])]))"
    by code_simp
  then obtain m where "from_mapping (Some [('' k '', PTuple [PInt 1, PSet [(''b'', PStr ''b''), (''a'', PStr ''a'')]])]) = Inr m"
    by (cases "from_mapping (Some [('' k '', PTuple [PInt 1, PSet [(''b'', PStr ''b''), (''a'', PStr ''a'')]])])") auto
  with metadata_round_trip [OF this] show ?thesis by blast
qed

section \<open>The audit trail\<close>

definition new_rows_ok :: "audit_event list \<Rightarrow> db \<Rightarrow> bool" where
  "new_rows_ok xs d \<longleftrightarrow> (\<exists>ys. t_audits d = xs @ ys \<and> list_all audit_event_ok ys)"

lemma keeps_bind_lift: "(\<And>a. r = Inr a \<Longrightarrow> keeps P (f a)) \<Longrightarrow> keeps P (bindS (liftE r) f)"
  by (cases r) (auto simp: keeps_def)

lemma keeps_rows_append: "keeps (\<lambda>w. new_rows_ok xs (w_db w)) (append_audit_event E ev)"
proof -
  have add: "keeps (\<lambda>w. new_rows_ok xs (w_db w)) (write_db (\<lambda>d. d\<lparr>t_audits := t_audits d @ [a]\<rparr>))"
    if "audit_event_ok a" for a
    by (rule keeps_write) (use that in \<open>auto simp: new_rows_ok_def\<close>)
  show ?thesis
    unfolding append_audit_event_def outbox_add_def
    by (intro keeps_bind [OF keeps_basic(4)] keeps_let keeps_bind_lift keeps_intros add audit_event_for_append_ok
        keeps_write [of "new_rows_ok xs"]) (simp_all add: new_rows_ok_def)
qed

text \<open>
  C38. The audit trail is append-only and well formed: recording domain events, whether it succeeds or
  raises half way, leaves all earlier rows in place and adds only rows whose required texts are stripped
  and not empty and whose detail is JSON data; no other table but the outbox changes, and nothing is
  committed.\<close>

theorem audit_trail_appends_well_formed:
  "(\<exists>ys. t_audits (w_db (snd (append_control_plane_domain_event_audits E evs ctx w))) = t_audits (w_db w) @ ys \<and>
      list_all audit_event_ok ys) \<and>
   ledger_core (w_db (snd (append_control_plane_domain_event_audits E evs ctx w))) = ledger_core (w_db w) \<and>
   w_committed (snd (append_control_plane_domain_event_audits E evs ctx w)) = w_committed w"
proof -
  have "keeps (\<lambda>v. new_rows_ok (t_audits (w_db w)) (w_db v)) (append_control_plane_domain_event_audits E evs ctx)"
    unfolding append_control_plane_domain_event_audits_def by (intro keeps_intros keeps_rows_append)
  from keepsD [OF this, of w] have "new_rows_ok (t_audits (w_db w)) (w_db (snd (append_control_plane_domain_event_audits E evs ctx w)))"
    by (simp add: new_rows_ok_def)
  then show ?thesis
    using keepsD [OF keeps_domain_event_audits(1) [of "\<lambda>c. c = ledger_core (w_db w)"], of w]
      keepsD [OF keeps_domain_event_audits(3) [of "\<lambda>c. c = w_committed w"], of w]
    by (simp add: new_rows_ok_def)
qed

end
