(* ===== verification/Breakers.thy ===== *)
theory Breakers
  imports Py_Numbers Py_Text
begin

text \<open>
  The two circuit breakers of the runtime: the service-call breaker (\<open>infra/circuit_breaker.py\<close>), which
  opens on consecutive failures and probes again after a timeout, and the agent-loop breaker
  (\<open>infra/agent_loop_breaker.py\<close>), whose state is a Redis hash of texts and which opens on rounds without
  progress, repeated errors or shrinking output. The lemmas characterise when the first opens by the
  history of calls alone, and show that the second stops every loop that makes no progress.
\<close>

section \<open>The service-call breaker\<close>

datatype circuit_state = CLOSED | OPEN | HALF_OPEN

fun circuit_state_value :: "circuit_state \<Rightarrow> string" where
  "circuit_state_value CLOSED = ''closed''"
| "circuit_state_value OPEN = ''open''"
| "circuit_state_value HALF_OPEN = ''half_open''"

record circuit_breaker =
  cb_failure_threshold :: int
  cb_recovery_timeout :: int
  cb_state :: circuit_state
  cb_failure_count :: int
  cb_last_failure_time :: "rat option"

definition circuit_breaker_new :: "int \<Rightarrow> int \<Rightarrow> circuit_breaker" where
  "circuit_breaker_new failure_threshold recovery_timeout =
     \<lparr>cb_failure_threshold = failure_threshold, cb_recovery_timeout = recovery_timeout, cb_state = CLOSED,
      cb_failure_count = 0, cb_last_failure_time = None\<rparr>"

text \<open>\<open>now\<close> is the reading of the clock inside the call; the elapsed time is a float difference.\<close>

definition cb_can_execute :: "rat \<Rightarrow> circuit_breaker \<Rightarrow> bool \<times> circuit_breaker" where
  "cb_can_execute now b =
     (case cb_state b of
        CLOSED \<Rightarrow> (True, b)
      | OPEN \<Rightarrow>
          (case cb_last_failure_time b of
             None \<Rightarrow> (True, b)
           | Some t \<Rightarrow>
               if pf_le (Fin (of_int (cb_recovery_timeout b))) (f64_round (now - t))
               then (True, b\<lparr>cb_state := HALF_OPEN\<rparr>) else (False, b))
      | HALF_OPEN \<Rightarrow> (True, b))"

definition cb_record_success :: "circuit_breaker \<Rightarrow> circuit_breaker" where
  "cb_record_success b =
     (case cb_state b of
        HALF_OPEN \<Rightarrow> b\<lparr>cb_state := CLOSED, cb_failure_count := 0\<rparr>
      | CLOSED \<Rightarrow> b\<lparr>cb_failure_count := 0\<rparr>
      | OPEN \<Rightarrow> b)"

definition cb_record_failure :: "rat \<Rightarrow> circuit_breaker \<Rightarrow> circuit_breaker" where
  "cb_record_failure now b0 =
     (let b = b0\<lparr>cb_failure_count := cb_failure_count b0 + 1, cb_last_failure_time := Some now\<rparr>
      in case cb_state b of
           HALF_OPEN \<Rightarrow> b\<lparr>cb_state := OPEN\<rparr>
         | CLOSED \<Rightarrow> if cb_failure_threshold b \<le> cb_failure_count b then b\<lparr>cb_state := OPEN\<rparr> else b
         | OPEN \<Rightarrow> b)"

definition cb_reset :: "circuit_breaker \<Rightarrow> circuit_breaker" where
  "cb_reset b = b\<lparr>cb_state := CLOSED, cb_failure_count := 0, cb_last_failure_time := None\<rparr>"

datatype cb_call = CanExecute rat | RecordSuccess | RecordFailure rat | Reset

fun cb_step :: "cb_call \<Rightarrow> circuit_breaker \<Rightarrow> circuit_breaker" where
  "cb_step (CanExecute now) b = snd (cb_can_execute now b)"
| "cb_step RecordSuccess b = cb_record_success b"
| "cb_step (RecordFailure now) b = cb_record_failure now b"
| "cb_step Reset b = cb_reset b"

section \<open>The agent-loop breaker\<close>

record loop_config =
  lc_no_progress_threshold :: int
  lc_same_error_threshold :: int
  lc_half_open_threshold :: int
  lc_output_decline_threshold :: pyfloat
  lc_output_decline_rounds :: int

record loop_data =
  ld_state :: string
  ld_no_progress_count :: int
  ld_same_error_count :: int
  ld_last_error_signature :: string
  ld_total_opens :: int
  ld_output_decline_count :: int

text \<open>The keys of one agent in Redis: the state hash, the transition history and the output lengths.\<close>

record loop_store =
  ls_hash :: "(string \<times> string) list"
  ls_history :: "(string \<times> string \<times> string) list"
  ls_lengths :: "string list"

definition read_int :: "string \<Rightarrow> exc + int" where
  "read_int s = (case int_of_text s of Some i \<Rightarrow> Inr i | None \<Rightarrow> Inl (ValueError ''int''))"

definition hash_get :: "(string \<times> string) list \<Rightarrow> string \<Rightarrow> string \<Rightarrow> string" where
  "hash_get raw k dflt = (case map_of raw k of Some v \<Rightarrow> v | None \<Rightarrow> dflt)"

definition lb_load :: "loop_store \<Rightarrow> exc + loop_data" where
  "lb_load s =
     (let raw = ls_hash s in
      if raw = [] then
        Inr \<lparr>ld_state = ''closed'', ld_no_progress_count = 0, ld_same_error_count = 0,
             ld_last_error_signature = [], ld_total_opens = 0, ld_output_decline_count = 0\<rparr>
      else
        bindE (read_int (hash_get raw ''no_progress_count'' ''0'')) (\<lambda>np.
        bindE (read_int (hash_get raw ''same_error_count'' ''0'')) (\<lambda>se.
        bindE (read_int (hash_get raw ''total_opens'' ''0'')) (\<lambda>op.
        bindE (read_int (hash_get raw ''output_decline_count'' ''0'')) (\<lambda>od.
          Inr \<lparr>ld_state = hash_get raw ''state'' ''closed'', ld_no_progress_count = np, ld_same_error_count = se,
               ld_last_error_signature = hash_get raw ''last_error_signature'' [], ld_total_opens = op,
               ld_output_decline_count = od\<rparr>)))))"

text \<open>\<open>HSET\<close> with a mapping sets the named fields and keeps the others.\<close>

definition lb_save :: "loop_data \<Rightarrow> loop_store \<Rightarrow> loop_store" where
  "lb_save d s = s\<lparr>ls_hash := foldl (\<lambda>h (k, v). AList.update k v h) (ls_hash s)
     [(''state'', ld_state d), (''no_progress_count'', int_text (ld_no_progress_count d)),
      (''same_error_count'', int_text (ld_same_error_count d)),
      (''last_error_signature'', ld_last_error_signature d),
      (''total_opens'', int_text (ld_total_opens d)),
      (''output_decline_count'', int_text (ld_output_decline_count d))]\<rparr>"

text \<open>\<open>RPUSH\<close> followed by \<open>LTRIM key -n -1\<close>.\<close>

definition push_trim :: "nat \<Rightarrow> 'a \<Rightarrow> 'a list \<Rightarrow> 'a list" where
  "push_trim n x xs = (let ys = xs @ [x] in drop (length ys - n) ys)"

definition lb_record_transition :: "string \<Rightarrow> string \<Rightarrow> string \<Rightarrow> loop_store \<Rightarrow> loop_store" where
  "lb_record_transition from_state to_state reason s =
     s\<lparr>ls_history := push_trim 50 (from_state, to_state, reason) (ls_history s)\<rparr>"

definition lb_can_execute :: "loop_store \<Rightarrow> exc + bool" where
  "lb_can_execute s = bindE (lb_load s) (\<lambda>d. Inr (ld_state d \<noteq> circuit_state_value OPEN))"

text \<open>
  The latest length over the mean of the earlier ones, once there are three; \<open>None\<close> when the mean is
  zero. Integers divide as floats do.
\<close>

fun pf_div :: "pyfloat \<Rightarrow> pyfloat \<Rightarrow> pyfloat" where
  "pf_div (Fin a) (Fin b) = f64_round (a / b)"
| "pf_div NaN _ = NaN"
| "pf_div _ NaN = NaN"
| "pf_div (Fin a) _ = Fin 0"
| "pf_div PosInf (Fin b) = (if b < 0 then NegInf else PosInf)"
| "pf_div NegInf (Fin b) = (if b < 0 then PosInf else NegInf)"
| "pf_div _ _ = NaN"

definition decline_ratio :: "int list \<Rightarrow> pyfloat option" where
  "decline_ratio lengths =
     (if length lengths < 3 then None
      else let mean_previous = f64_round (of_int (sum_list (butlast lengths)) / of_nat (length (butlast lengths)))
           in if mean_previous = Fin 0 then None
              else Some (pf_div (f64_round (of_int (last lengths))) mean_previous))"

definition lb_check_output_decline :: "int \<Rightarrow> loop_store \<Rightarrow> (exc + pyfloat option) \<times> loop_store" where
  "lb_check_output_decline output_length s =
     (let s' = s\<lparr>ls_lengths := push_trim 10 (int_text output_length) (ls_lengths s)\<rparr>
      in (bindE (mapE read_int (ls_lengths s')) (\<lambda>lengths. Inr (decline_ratio lengths)), s'))"

text \<open>The counters after a round: errors, then progress.\<close>

definition count_round :: "bool \<Rightarrow> string option \<Rightarrow> loop_data \<Rightarrow> loop_data" where
  "count_round has_progress error_signature d0 =
     (let d = (if truthy_str error_signature then
                 (if error_signature = Some (ld_last_error_signature d0)
                  then d0\<lparr>ld_same_error_count := ld_same_error_count d0 + 1\<rparr>
                  else d0\<lparr>ld_same_error_count := 1, ld_last_error_signature := str_or_empty error_signature\<rparr>)
               else d0\<lparr>ld_same_error_count := 0, ld_last_error_signature := []\<rparr>)
      in d\<lparr>ld_no_progress_count := (if has_progress then 0 else ld_no_progress_count d + 1)\<rparr>)"

definition count_decline :: "loop_config \<Rightarrow> pyfloat option \<Rightarrow> loop_data \<Rightarrow> loop_data" where
  "count_decline c ratio d =
     (case ratio of
        None \<Rightarrow> d
      | Some r \<Rightarrow> if pf_less r (lc_output_decline_threshold c)
                  then d\<lparr>ld_output_decline_count := ld_output_decline_count d + 1\<rparr>
                  else d\<lparr>ld_output_decline_count := 0\<rparr>)"

text \<open>The state after a round, and whether the count of rounds without progress is reset with it.\<close>

definition next_state :: "loop_config \<Rightarrow> bool \<Rightarrow> string \<Rightarrow> loop_data \<Rightarrow> string \<times> loop_data" where
  "next_state c has_progress old_state d =
     (if lc_same_error_threshold c \<le> ld_same_error_count d then (circuit_state_value OPEN, d)
      else if lc_output_decline_rounds c \<le> ld_output_decline_count d then (circuit_state_value OPEN, d)
      else if old_state = circuit_state_value CLOSED then
        (if lc_no_progress_threshold c \<le> ld_no_progress_count d then (circuit_state_value OPEN, d)
         else if lc_half_open_threshold c \<le> ld_no_progress_count d then (circuit_state_value HALF_OPEN, d)
         else (old_state, d))
      else if old_state = circuit_state_value HALF_OPEN then
        (if has_progress \<and> ld_same_error_count d < lc_same_error_threshold c
         then (circuit_state_value CLOSED, d\<lparr>ld_no_progress_count := 0\<rparr>)
         else if lc_no_progress_threshold c \<le> ld_no_progress_count d then (circuit_state_value OPEN, d)
         else (old_state, d))
      else (old_state, d))"

definition transition_reason :: "loop_config \<Rightarrow> bool \<Rightarrow> loop_data \<Rightarrow> string" where
  "transition_reason c has_progress d =
     (if lc_same_error_threshold c \<le> ld_same_error_count d
      then ''same_error('' @ int_text (ld_same_error_count d) @ '')''
      else if lc_output_decline_rounds c \<le> ld_output_decline_count d
      then ''output_decline('' @ int_text (ld_output_decline_count d) @ '')''
      else if \<not> has_progress then ''no_progress('' @ int_text (ld_no_progress_count d) @ '')''
      else ''progress_recovered'')"

definition lb_record_round ::
  "loop_config \<Rightarrow> bool \<Rightarrow> string option \<Rightarrow> int option \<Rightarrow> (loop_store, unit) op" where
  "lb_record_round c has_progress error_signature output_length =
     bindS (\<lambda>s. (lb_load s, s)) (\<lambda>data.
     let old_state = ld_state data; d1 = count_round has_progress error_signature data in
     bindS (case output_length of
              None \<Rightarrow> retS None
            | Some n \<Rightarrow> lb_check_output_decline n) (\<lambda>ratio.
     let d2 = count_decline c ratio d1;
         (new_state, d3) = next_state c has_progress old_state d2;
         opened = (new_state = circuit_state_value OPEN \<and> old_state \<noteq> circuit_state_value OPEN);
         d4 = d3\<lparr>ld_total_opens := ld_total_opens d3 + (if opened then 1 else 0), ld_state := new_state\<rparr> in
     bindS (modifyS (lb_save d4)) (\<lambda>_.
       whenS (new_state \<noteq> old_state)
         (modifyS (lb_record_transition old_state new_state (transition_reason c has_progress d4))))))"

definition lb_reset :: "string \<Rightarrow> (loop_store, unit) op" where
  "lb_reset reason =
     bindS (\<lambda>s. (lb_load s, s)) (\<lambda>data.
     let old_state = ld_state data in
     bindS (modifyS (\<lambda>s. (lb_save \<lparr>ld_state = circuit_state_value CLOSED, ld_no_progress_count = 0,
              ld_same_error_count = 0, ld_last_error_signature = [], ld_total_opens = ld_total_opens data,
              ld_output_decline_count = 0\<rparr> s)\<lparr>ls_lengths := []\<rparr>)) (\<lambda>_.
       whenS (old_state \<noteq> circuit_state_value CLOSED)
         (modifyS (lb_record_transition old_state (circuit_state_value CLOSED) (''reset:'' @ reason)))))"

section \<open>When the service-call breaker opens\<close>

fun is_failure :: "cb_call \<Rightarrow> bool" where
  "is_failure (RecordFailure now) = True"
| "is_failure _ = False"

fun is_record :: "cb_call \<Rightarrow> bool" where
  "is_record RecordSuccess = True"
| "is_record (RecordFailure now) = True"
| "is_record _ = False"

definition trailing_failures :: "cb_call list \<Rightarrow> nat" where
  "trailing_failures cs = length (takeWhile is_failure (rev cs))"

definition cb_run :: "cb_call list \<Rightarrow> circuit_breaker \<Rightarrow> circuit_breaker" where
  "cb_run cs b = fold cb_step cs b"

lemma cb_run_simps [simp]: "cb_run [] b = b" "cb_run (cs @ [c]) b = cb_step c (cb_run cs b)"
  by (simp_all add: cb_run_def)

lemmas cb_defs = cb_can_execute_def cb_record_success_def cb_record_failure_def cb_reset_def Let_def

lemma cb_step_config [simp]:
  "cb_failure_threshold (cb_step c b) = cb_failure_threshold b"
  "cb_recovery_timeout (cb_step c b) = cb_recovery_timeout b"
  by (cases c; cases "cb_state b"; cases "cb_last_failure_time b"; simp add: cb_defs)+

lemma cb_run_config [simp]:
  "cb_failure_threshold (cb_run cs b) = cb_failure_threshold b"
  "cb_recovery_timeout (cb_run cs b) = cb_recovery_timeout b"
  by (induction cs rule: rev_induct) simp_all

lemma ex_le_Suc: "(\<exists>k \<le> Suc n. P k) \<longleftrightarrow> (\<exists>k \<le> n. P k) \<or> P (Suc n)"
  by (auto simp: le_Suc_eq)

lemma cb_records_trace:
  fixes t :: int
  assumes "list_all is_record cs" and "0 < n"
  defines "b \<equiv> cb_run cs (circuit_breaker_new n t)"
  shows "if \<exists>k \<le> length cs. n \<le> int (trailing_failures (take k cs)) then cb_state b = OPEN
         else cb_state b = CLOSED \<and> cb_failure_count b = int (trailing_failures cs)"
  using assms(1) unfolding b_def
proof (induction cs rule: rev_induct)
  case Nil
  then show ?case using assms(2) by (simp add: trailing_failures_def circuit_breaker_new_def)
next
  case (snoc c cs)
  have split: "(\<exists>k \<le> length (cs @ [c]). n \<le> int (trailing_failures (take k (cs @ [c])))) \<longleftrightarrow>
      (\<exists>k \<le> length cs. n \<le> int (trailing_failures (take k cs))) \<or> n \<le> int (trailing_failures (cs @ [c]))"
    by (auto simp: ex_le_Suc)
  let ?b = "cb_run cs (circuit_breaker_new n t)"
  have thr: "cb_failure_threshold ?b = n" by (simp add: circuit_breaker_new_def)
  from snoc have c: "c = RecordSuccess \<or> (\<exists>now. c = RecordFailure now)" by (cases c) auto
  from c snoc thr show ?case
    unfolding split
    by (auto simp: cb_defs trailing_failures_def assms(2) split: if_splits circuit_state.split)
qed

text \<open>
  C34. The service breaker opens exactly on consecutive failures: after any sequence of recorded successes
  and failures, a new breaker with a positive threshold is open if and only if at some point of the
  sequence the latest calls were failures, threshold many of them in a row. This is the specification
  by history that the counter implements.\<close>

theorem breaker_opens_iff_consecutive_failures:
  assumes "list_all is_record cs" and "0 < n"
  shows "cb_state (cb_run cs (circuit_breaker_new n t)) = OPEN \<longleftrightarrow>
         (\<exists>k \<le> length cs. n \<le> int (trailing_failures (take k cs)))"
  using cb_records_trace [OF assms, of t] by (auto split: if_splits)

theorem breaker_opens_iff_consecutive_failures_witness:
  "cb_state (cb_run [RecordFailure 0, RecordSuccess, RecordFailure 1, RecordFailure 2, RecordSuccess]
     (circuit_breaker_new 2 60)) = OPEN"
proof -
  let ?cs = "[RecordFailure 0, RecordSuccess, RecordFailure 1, RecordFailure 2, RecordSuccess]"
  have "\<exists>k \<le> length ?cs. (2 :: int) \<le> int (trailing_failures (take k ?cs))"
    by (intro exI [of _ 4]) (simp add: trailing_failures_def)
  then show ?thesis
    by (subst breaker_opens_iff_consecutive_failures) simp_all
qed

section \<open>Fail fast and recovery\<close>

lemma open_has_time: "cb_state (cb_run cs (circuit_breaker_new n t)) \<noteq> CLOSED \<Longrightarrow>
    cb_last_failure_time (cb_run cs (circuit_breaker_new n t)) \<noteq> None"
proof (induction cs rule: rev_induct)
  case Nil
  then show ?case by (simp add: circuit_breaker_new_def)
next
  case (snoc c cs)
  let ?b = "cb_run cs (circuit_breaker_new n t)"
  show ?case
  proof (cases c)
    case (CanExecute now)
    with snoc show ?thesis by (cases "cb_state ?b"; cases "cb_last_failure_time ?b"; simp add: cb_defs)
  next
    case RecordSuccess
    with snoc show ?thesis by (cases "cb_state ?b"; simp add: cb_defs)
  next
    case (RecordFailure now)
    then show ?thesis by (cases "cb_state ?b"; simp add: cb_defs)
  next
    case Reset
    with snoc show ?thesis by (simp add: cb_defs)
  qed
qed

text \<open>
  An open breaker fails fast and then recovers: whatever calls a breaker has seen, when it is open the
  time of a failure is known; up to one second before the recovery timeout after that failure it refuses
  execution and stays as it is; from the timeout on it admits a call, and if that call succeeds the
  breaker is closed with no failures counted.\<close>

theorem open_breaker_recovers:
  assumes "cb_state (cb_run cs (circuit_breaker_new n t)) = OPEN" and "0 < t" and "t < 2 ^ 53"
  shows "\<exists>last. cb_last_failure_time (cb_run cs (circuit_breaker_new n t)) = Some last \<and>
    (\<forall>now. last \<le> now \<and> now - last \<le> of_int (t - 1) \<longrightarrow>
       cb_can_execute now (cb_run cs (circuit_breaker_new n t)) = (False, cb_run cs (circuit_breaker_new n t))) \<and>
    (\<forall>now. of_int t \<le> now - last \<longrightarrow>
       fst (cb_can_execute now (cb_run cs (circuit_breaker_new n t))) \<and>
       cb_state (cb_record_success (snd (cb_can_execute now (cb_run cs (circuit_breaker_new n t))))) = CLOSED \<and>
       cb_failure_count (cb_record_success (snd (cb_can_execute now (cb_run cs (circuit_breaker_new n t))))) = 0)"
proof -
  let ?b = "cb_run cs (circuit_breaker_new n t)"
  obtain last where last: "cb_last_failure_time ?b = Some last" using open_has_time assms(1) by fastforce
  have t: "cb_recovery_timeout ?b = t" by (simp add: circuit_breaker_new_def)
  have early: "\<not> pf_le (Fin (of_int t)) (f64_round (now - last))"
    if "last \<le> now" "now - last \<le> of_int (t - 1)" for now
  proof
    assume "pf_le (Fin (of_int t)) (f64_round (now - last))"
    moreover have "pf_le (f64_round (now - last)) (Fin (of_int (t - 1)))"
      using f64_round_mono [of "now - last" "of_int (t - 1)"] that assms(2,3) f64_round_int [of "t - 1"] by simp
    ultimately have "pf_le (Fin (of_int t)) (Fin (of_int (t - 1)))" by (rule pf_le_trans)
    then show False by simp
  qed
  have late: "pf_le (Fin (of_int t)) (f64_round (now - last))" if "of_int t \<le> now - last" for now
    using f64_round_mono [of "of_int t" "now - last"] that assms(2,3) f64_round_int [of t] by simp
  show ?thesis
    using last t early late assms(1) by (auto simp: cb_defs)
qed

theorem open_breaker_recovers_witness:
  "\<exists>last. cb_last_failure_time (cb_run [RecordFailure 5] (circuit_breaker_new 1 60)) = Some last \<and>
     fst (cb_can_execute (last + 60) (cb_run [RecordFailure 5] (circuit_breaker_new 1 60)))"
proof -
  have "cb_state (cb_run [RecordFailure 5] (circuit_breaker_new 1 60)) = OPEN" by code_simp
  from open_breaker_recovers [OF this] show ?thesis by fastforce
qed

section \<open>Loops without progress\<close>

lemma read_int_text [simp]: "read_int (int_text i) = Inr i"
  by (simp add: read_int_def int_of_text_int_text)

text \<open>What is saved is what is loaded.\<close>

lemma load_save [simp]: "lb_load (lb_save d s) = Inr d"
  by (simp add: lb_load_def lb_save_def Let_def hash_get_def)

lemma load_cong: "ls_hash s = ls_hash s' \<Longrightarrow> lb_load s = lb_load s'"
  by (simp add: lb_load_def)

definition lengths_ok :: "loop_store \<Rightarrow> bool" where
  "lengths_ok s \<longleftrightarrow> list_all (\<lambda>v. int_of_text v \<noteq> None) (ls_lengths s)"

lemma mapE_read_int: "list_all (\<lambda>v. int_of_text v \<noteq> None) vs \<Longrightarrow> \<exists>is. mapE read_int vs = Inr is"
  by (induction vs) (auto simp: read_int_def)

lemma push_trim_all: "list_all P xs \<Longrightarrow> P x \<Longrightarrow> list_all P (push_trim n x xs)"
  by (auto simp: push_trim_def Let_def list_all_iff dest: in_set_dropD)

lemma length_push_trim: "length (push_trim n x xs) \<le> n"
  by (simp add: push_trim_def Let_def)

lemma check_decline_ok:
  assumes "lengths_ok s"
  shows "\<exists>ratio. lb_check_output_decline n s =
    (Inr ratio, s\<lparr>ls_lengths := push_trim 10 (int_text n) (ls_lengths s)\<rparr>)"
    and "lengths_ok (s\<lparr>ls_lengths := push_trim 10 (int_text n) (ls_lengths s)\<rparr>)"
proof -
  show ok: "lengths_ok (s\<lparr>ls_lengths := push_trim 10 (int_text n) (ls_lengths s)\<rparr>)"
    using assms by (simp add: lengths_ok_def push_trim_all int_of_text_int_text)
  then show "\<exists>ratio. lb_check_output_decline n s =
    (Inr ratio, s\<lparr>ls_lengths := push_trim 10 (int_text n) (ls_lengths s)\<rparr>)"
    using mapE_read_int by (fastforce simp: lb_check_output_decline_def lengths_ok_def Let_def)
qed

text \<open>A round over a readable store succeeds and leaves a readable store.\<close>

lemma round_ok:
  assumes "lengths_ok s" and "lb_load s = Inr d"
  obtains s' d2 d' where "lb_record_round c p e n s = (Inr (), s')" "lengths_ok s'" "lb_load s' = Inr d'"
    "ld_state d' = fst (next_state c p (ld_state d) d2)"
    "ld_no_progress_count d' = ld_no_progress_count (snd (next_state c p (ld_state d) d2))"
    "ld_no_progress_count d2 = (if p then 0 else ld_no_progress_count d + 1)"
proof -
  define d1 where "d1 = count_round p e d"
  obtain ratio s1 where s1: "(case n of None \<Rightarrow> retS None | Some n \<Rightarrow> lb_check_output_decline n) s = (Inr ratio, s1)"
    "lengths_ok s1" "ls_hash s1 = ls_hash s"
    using check_decline_ok [OF assms(1)] assms(1) by (cases n) fastforce+
  define d2 where "d2 = count_decline c ratio d1"
  obtain st d3 where ns: "next_state c p (ld_state d) d2 = (st, d3)" by force
  define d4 where "d4 = d3\<lparr>ld_total_opens := ld_total_opens d3 +
    (if st = circuit_state_value OPEN \<and> ld_state d \<noteq> circuit_state_value OPEN then 1 else 0), ld_state := st\<rparr>"
  let ?s' = "(if st \<noteq> ld_state d then lb_record_transition (ld_state d) st (transition_reason c p d4) (lb_save d4 s1)
      else lb_save d4 s1)"
  have "lb_record_round c p e n s = (Inr (), ?s')"
    unfolding lb_record_round_def
    by (simp add: bindS_run assms(2) Let_def d1_def [symmetric] s1(1) d2_def [symmetric] ns d4_def)
  moreover have "ls_hash ?s' = ls_hash (lb_save d4 s1)" "ls_lengths ?s' = ls_lengths s1"
    by (simp_all add: lb_record_transition_def lb_save_def)
  moreover from this(1) have "lb_load ?s' = Inr d4" using load_cong load_save by metis
  moreover have "ld_no_progress_count d2 = (if p then 0 else ld_no_progress_count d + 1)"
    by (auto simp: d2_def count_decline_def d1_def count_round_def Let_def split: option.splits)
  ultimately show thesis
    using s1(2) ns by (intro that [of ?s' d4 d2]) (simp_all add: lengths_ok_def d4_def)
qed

definition run_round :: "loop_config \<Rightarrow> bool \<times> string option \<times> int option \<Rightarrow> (loop_store, unit) op" where
  "run_round c r = (case r of (p, e, n) \<Rightarrow> lb_record_round c p e n)"

lemma run_round_simp [simp]: "run_round c (p, e, n) = lb_record_round c p e n"
  by (simp add: run_round_def)

lemma rounds_lengths_ok:
  assumes "lengths_ok s" and "lb_load s = Inr d" and "forS rounds (run_round c) s = (Inr us, s')"
  shows "lengths_ok s'"
  using assms
proof (induction rounds arbitrary: s d us)
  case (Cons r rounds)
  obtain p e n where r: "r = (p, e, n)" by (cases r)
  obtain s1 d1 where s1: "lb_record_round c p e n s = (Inr (), s1)" "lengths_ok s1" "lb_load s1 = Inr d1"
    by (rule round_ok [OF Cons.prems(1,2)]) blast
  from Cons.prems(3) s1(1) r obtain us' where "forS rounds (run_round c) s1 = (Inr us', s')"
    by (auto simp: bindS_Inr_iff)
  from Cons.IH [OF s1(2,3) this] show ?case .
qed auto

lemma open_stays:
  assumes "lengths_ok s" and "lb_load s = Inr d" and "ld_state d = circuit_state_value OPEN"
  shows "\<exists>s' d' us. forS rounds (run_round c) s = (Inr us, s') \<and> lb_load s' = Inr d' \<and>
    ld_state d' = circuit_state_value OPEN"
  using assms
proof (induction rounds arbitrary: s d)
  case (Cons r rounds)
  obtain p e n where r: "r = (p, e, n)" by (cases r)
  obtain s1 d1 d2 where s1: "lb_record_round c p e n s = (Inr (), s1)" "lengths_ok s1" "lb_load s1 = Inr d1"
    "ld_state d1 = fst (next_state c p (ld_state d) d2)"
    by (rule round_ok [OF Cons.prems(1,2)]) blast
  have "ld_state d1 = circuit_state_value OPEN" using s1(4) Cons.prems(3) by (simp add: next_state_def)
  from Cons.IH [OF s1(2,3) this] s1(1) r show ?case by (auto simp: bindS_run)
qed auto

definition known_state :: "string \<Rightarrow> bool" where
  "known_state st \<longleftrightarrow> st = circuit_state_value CLOSED \<or> st = circuit_state_value HALF_OPEN \<or> st = circuit_state_value OPEN"

lemma stuck_rounds:
  assumes "lengths_ok s" and "lb_load s = Inr d" and "known_state (ld_state d)"
    and "list_all (\<lambda>(p, e, n). \<not> p) rounds" and "rounds \<noteq> []"
    and "lc_no_progress_threshold c \<le> ld_no_progress_count d + int (length rounds)"
  shows "\<exists>s' d' us. forS rounds (run_round c) s = (Inr us, s') \<and> lb_load s' = Inr d' \<and>
    ld_state d' = circuit_state_value OPEN"
  using assms
proof (induction rounds arbitrary: s d)
  case (Cons r rounds)
  obtain e n where r: "r = (False, e, n)" using Cons.prems(4) by (cases r) auto
  obtain s1 d1 d2 where s1: "lb_record_round c False e n s = (Inr (), s1)" "lengths_ok s1" "lb_load s1 = Inr d1"
    "ld_state d1 = fst (next_state c False (ld_state d) d2)"
    "ld_no_progress_count d1 = ld_no_progress_count (snd (next_state c False (ld_state d) d2))"
    "ld_no_progress_count d2 = ld_no_progress_count d + 1"
    by (rule round_ok [OF Cons.prems(1,2), of c False e n]) auto
  have np: "ld_no_progress_count d1 = ld_no_progress_count d + 1" using s1(5,6) by (auto simp: next_state_def)
  have kn: "known_state (ld_state d1)" using s1(4) Cons.prems(3) by (auto simp: next_state_def known_state_def)
  show ?case
  proof (cases "rounds = []")
    case True
    have "ld_state d1 = circuit_state_value OPEN"
      using s1(4,6) Cons.prems(3,6) True by (auto simp: next_state_def known_state_def)
    with s1 r True show ?thesis by (auto simp: bindS_run)
  next
    case False
    with Cons.IH [OF s1(2,3) kn] Cons.prems(4,6) np have "\<exists>s' d' us. forS rounds (run_round c) s1 = (Inr us, s') \<and>
        lb_load s' = Inr d' \<and> ld_state d' = circuit_state_value OPEN" by simp
    with s1(1) r show ?thesis by (auto simp: bindS_run)
  qed
qed simp

text \<open>
  C33. A loop that makes no progress is stopped: starting from a readable breaker store, as many rounds
  without progress in a row as the threshold asks for (and at least one) are recorded without an error,
  whatever errors and output lengths they report, and then execution is refused; further rounds, with
  progress or not, do not change that. Only a reset does.\<close>

theorem loop_breaker_stops_stuck_loop:
  assumes "lengths_ok s" and "lb_load s = Inr d" and "known_state (ld_state d)"
    and "0 \<le> ld_no_progress_count d" and "list_all (\<lambda>(p, e, n). \<not> p) stuck" and "stuck \<noteq> []"
    and "lc_no_progress_threshold c \<le> int (length stuck)"
  shows "\<exists>us s'. forS (stuck @ later) (run_round c) s = (Inr us, s') \<and> lb_can_execute s' = Inr False \<and>
     (\<exists>s''. lb_reset reason s' = (Inr (), s'') \<and> lb_can_execute s'' = Inr True)"
proof -
  from stuck_rounds [OF assms(1-3,5,6), of c] assms(4,7) obtain s1 d1 us1 where
    s1: "forS stuck (run_round c) s = (Inr us1, s1)" "lb_load s1 = Inr d1" "ld_state d1 = circuit_state_value OPEN" by auto
  have "lengths_ok s1" using rounds_lengths_ok [OF assms(1,2) s1(1)] .
  from open_stays [OF this s1(2,3), of later c] obtain s2 d2 us2 where
    s2: "forS later (run_round c) s1 = (Inr us2, s2)" "lb_load s2 = Inr d2" "ld_state d2 = circuit_state_value OPEN" by auto
  have "forS (stuck @ later) (run_round c) s = (Inr (us1 @ us2), s2)"
    using s1(1) s2(1) by (simp add: forS_append_run bindS_run)
  moreover have "lb_can_execute s2 = Inr False" using s2 by (simp add: lb_can_execute_def)
  moreover have "\<exists>s''. lb_reset reason s2 = (Inr (), s'') \<and> lb_can_execute s'' = Inr True"
    using s2(2,3)
    by (auto simp: lb_reset_def bindS_run Let_def lb_can_execute_def lb_record_transition_def
        load_cong [of "lb_save x y\<lparr>ls_lengths := z, ls_history := u\<rparr>" "lb_save x y" for x y z u])
  ultimately show ?thesis by blast
qed

definition sample_loop :: loop_config where
  "sample_loop = \<lparr>lc_no_progress_threshold = 3, lc_same_error_threshold = 5, lc_half_open_threshold = 2,
     lc_output_decline_threshold = f64_round (3 / 10), lc_output_decline_rounds = 3\<rparr>"

definition empty_loop_store :: loop_store where
  "empty_loop_store = \<lparr>ls_hash = [], ls_history = [], ls_lengths = []\<rparr>"

theorem loop_breaker_stops_stuck_loop_witness:
  "\<exists>us s'. forS ([(False, None, Some 7), (False, Some ''e'', None), (False, None, Some 1)] @ [(True, None, None)])
     (run_round sample_loop) empty_loop_store = (Inr us, s') \<and> lb_can_execute s' = Inr False"
proof -
  let ?stuck = "[(False, None, Some 7), (False, Some ''e'', None), (False, None, Some 1)] ::
    (bool \<times> string option \<times> int option) list"
  have load: "lb_load empty_loop_store = Inr \<lparr>ld_state = ''closed'', ld_no_progress_count = 0, ld_same_error_count = 0,
      ld_last_error_signature = [], ld_total_opens = 0, ld_output_decline_count = 0\<rparr>"
    by (simp add: lb_load_def empty_loop_store_def)
  obtain us s' where "forS (?stuck @ [(True, None, None)]) (run_round sample_loop) empty_loop_store = (Inr us, s')"
    "lb_can_execute s' = Inr False"
    using loop_breaker_stops_stuck_loop [OF _ load, of ?stuck sample_loop "[(True, None, None)]" "[]"]
    by (simp only: lengths_ok_def empty_loop_store_def known_state_def sample_loop_def) force
  then show ?thesis by blast
qed

end
