(* ===== verification/Skill_Release.thy ===== *)
theory Skill_Release
  imports Control_Store "HOL-Library.Word"
begin

text \<open>
  The evolution runtime's side of skill releases (\<open>evolution/domain/skill_release.py\<close>,
  \<open>evolution/db/release_store.py\<close>, \<open>capabilities/evolution/core/release_use_cases.py\<close>, and the
  experiment writes of \<open>evolution/db/repository.py\<close>): a signed command moves a release through
  shadow, canary, active and rolled back, together with the skill versions and the canary experiment,
  in one transaction, and leaves a receipt that answers its replays.

  The runtime has a database of its own. \<open>runtime_settings\<close> holds what comes from outside: the owning
  company, the signing key, HMAC, the JSON text that is signed, Python's \<open>sum\<close> of floats, whose rounding
  depends on the version of the interpreter, the bytes of an MD5 digest, and whether debug logging is on.
\<close>

section \<open>Tables\<close>

record skill_config =
  sk_id :: int
  sk_skill_id :: string
  sk_version :: string
  sk_status :: string
  sk_system_prompt :: string
  sk_parameters :: "pydict option"
  sk_few_shot_examples :: "pyval list option"
  sk_output_format :: string
  sk_target_model :: string
  sk_total_executions :: int
  sk_success_rate :: pyfloat
  sk_avg_human_rating :: pyfloat
  sk_created_at :: int
  sk_promoted_at :: "int option"

record evolution_experiment =
  xp_experiment_id :: string
  xp_agent_id :: string
  xp_skill_id :: string
  xp_control_version :: int
  xp_candidate_version :: int
  xp_traffic_pct :: int
  xp_min_samples :: int
  xp_max_duration_hours :: int
  xp_success_metric :: string
  xp_min_improvement :: pyfloat
  xp_status :: string
  xp_control_results :: "pyfloat list option"
  xp_candidate_results :: "pyfloat list option"
  xp_created_at :: int
  xp_concluded_at :: "int option"

record skill_release =
  sr_deployment_id :: string
  sr_company_id :: string
  sr_proposal_id :: string
  sr_evaluation_report_id :: string
  sr_evaluation_hash :: string
  sr_skill_id :: string
  sr_agent_id :: string
  sr_baseline_version :: int
  sr_candidate_version :: int
  sr_baseline_config_hash :: string
  sr_candidate_config_hash :: string
  sr_state :: string
  sr_version :: int
  sr_experiment_id :: "string option"
  sr_created_at :: int
  sr_updated_at :: int

record release_receipt =
  rc_command_id :: string
  rc_deployment_id :: string
  rc_payload_hash :: string
  rc_response :: pydict
  rc_created_at :: int

text \<open>The columns of a trace that selection, observation and the guard read or write.\<close>

record evolution_trace =
  et_trace_id :: string
  et_agent_id :: string
  et_event_type :: string
  et_skill_used :: "string option"
  et_skill_version :: "string option"
  et_success :: bool
  et_auto_score :: "pyfloat option"
  et_started_at :: int
  et_created_at :: int

record runtime =
  rt_skills :: "skill_config list"
  rt_experiments :: "evolution_experiment list"
  rt_releases :: "skill_release list"
  rt_receipts :: "release_receipt list"
  rt_traces :: "evolution_trace list"
  rt_tick :: nat

record runtime_settings =
  rs_company_id :: string
  rs_signing_key :: string
  rs_hmac :: "string \<Rightarrow> string \<Rightarrow> string"
  rs_command_text :: "skill_release_command \<Rightarrow> string"
  rs_sum :: "pyfloat list \<Rightarrow> pyfloat"
  rs_md5 :: "string \<Rightarrow> 8 word list"
  rs_debug :: bool

definition now_runtime :: "env \<Rightarrow> (runtime, int) op" where
  "now_runtime E w = (Inr (e_clock E (rt_tick w)), w\<lparr>rt_tick := Suc (rt_tick w)\<rparr>)"

section \<open>Hashes and signatures\<close>

text \<open>\<open>json.dumps\<close> refuses NaN and infinities.\<close>

definition canonical_hash :: "env \<Rightarrow> pyval \<Rightarrow> exc + string" where
  "canonical_hash E v =
     (case e_json E v of
        None \<Rightarrow> Inl (ValueError ''Out of range float values are not JSON compliant'')
      | Some t \<Rightarrow> Inr (e_sha256 E t))"

definition payload_hash :: "env \<Rightarrow> skill_release_command \<Rightarrow> exc + string" where
  "payload_hash E c = canonical_hash E (release_command_json (e_iso E) c)"

definition skill_config_hash :: "env \<Rightarrow> skill_config \<Rightarrow> exc + string" where
  "skill_config_hash E s = canonical_hash E (PMap
     [(''skill_id'', PStr (sk_skill_id s)), (''version'', PStr (sk_version s)),
      (''system_prompt'', PStr (sk_system_prompt s)),
      (''parameters'', PMap (case sk_parameters s of None \<Rightarrow> [] | Some p \<Rightarrow> p)),
      (''few_shot_examples'', PList (case sk_few_shot_examples s of None \<Rightarrow> [] | Some x \<Rightarrow> x)),
      (''output_format'', PStr (sk_output_format s)), (''target_model'', PStr (sk_target_model s))])"

definition sign_command :: "runtime_settings \<Rightarrow> skill_release_command \<Rightarrow> exc + string" where
  "sign_command R c =
     (if length (rs_signing_key R) < 32 then Inl (ValueError ''evolution_deployment_signing_key_required'')
      else Inr (rs_hmac R (rs_signing_key R) (rs_command_text R c)))"

definition command_expired :: "skill_release_command \<Rightarrow> int \<Rightarrow> bool" where
  "command_expired c now \<longleftrightarrow> dt_offset (sc_expires_at c) = None \<or> dt_utc (sc_expires_at c) \<le> now"

definition verify_command :: "env \<Rightarrow> runtime_settings \<Rightarrow> skill_release_command \<Rightarrow> string \<Rightarrow> (runtime, unit) op" where
  "verify_command E R c signature =
     bindS (now_runtime E) (\<lambda>now.
     if command_expired c now then raiseS (ValueError ''evolution_command_expired'')
     else bindS (liftE (sign_command R c)) (\<lambda>expected.
       guardS (expected = signature) (ValueError ''evolution_command_signature_invalid'')))"

section \<open>The lifecycle\<close>

record skill_release_snapshot =
  ss_deployment_id :: string
  ss_skill_id :: string
  ss_agent_id :: string
  ss_baseline_version :: int
  ss_candidate_version :: int
  ss_baseline_config_hash :: string
  ss_candidate_config_hash :: string
  ss_state :: string
  ss_version :: int
  ss_experiment_id :: "string option"

definition release_error :: "string \<Rightarrow> exc + 'a" where
  "release_error code = Inl (SkillReleaseError code)"

definition same_snapshot :: "skill_release_snapshot \<Rightarrow> skill_release_command \<Rightarrow> bool" where
  "same_snapshot s c \<longleftrightarrow>
     (ss_deployment_id s, ss_skill_id s, ss_agent_id s, ss_baseline_version s, ss_candidate_version s,
      ss_baseline_config_hash s, ss_candidate_config_hash s) =
     (sc_deployment_id c, sc_skill_id c, sc_agent_id c, sc_baseline_version c, sc_candidate_version c,
      sc_baseline_config_hash c, sc_candidate_config_hash c)"

definition transition ::
  "skill_release_snapshot option \<Rightarrow> skill_release_command \<Rightarrow> int option \<Rightarrow> string option \<Rightarrow>
   exc + skill_release_snapshot" where
  "transition snapshot c expected_version experiment_id =
     (case snapshot of
        None \<Rightarrow>
          if sc_action c \<noteq> ''shadow'' \<or> expected_version \<notin> {None, Some 0} then release_error ''release_must_start_in_shadow''
          else Inr \<lparr>ss_deployment_id = sc_deployment_id c, ss_skill_id = sc_skill_id c, ss_agent_id = sc_agent_id c,
                    ss_baseline_version = sc_baseline_version c, ss_candidate_version = sc_candidate_version c,
                    ss_baseline_config_hash = sc_baseline_config_hash c,
                    ss_candidate_config_hash = sc_candidate_config_hash c,
                    ss_state = ''shadow'', ss_version = 1, ss_experiment_id = None\<rparr>
      | Some s \<Rightarrow>
          if expected_version \<noteq> Some (ss_version s) then release_error ''release_version_conflict''
          else if \<not> same_snapshot s c then release_error ''release_snapshot_changed''
          else if sc_action c = ''canary'' \<and> ss_state s = ''shadow''
          then Inr (s\<lparr>ss_state := ''canary'', ss_version := ss_version s + 1,
                      ss_experiment_id := opt_or experiment_id (ss_experiment_id s)\<rparr>)
          else if sc_action c = ''promote'' \<and> ss_state s = ''canary''
          then Inr (s\<lparr>ss_state := ''active'', ss_version := ss_version s + 1\<rparr>)
          else if sc_action c = ''rollback'' \<and> ss_state s \<in> {''shadow'', ''canary'', ''active''}
          then Inr (s\<lparr>ss_state := ''rolled_back'', ss_version := ss_version s + 1\<rparr>)
          else if sc_action c = ''shadow'' \<and> ss_state s = ''shadow'' then Inr s
          else release_error ''invalid_release_transition'')"

section \<open>Applying a command\<close>

definition release_raise :: "string \<Rightarrow> (runtime, 'a) op" where
  "release_raise code = raiseS (SkillReleaseError code)"

definition find_receipt :: "string \<Rightarrow> runtime \<Rightarrow> release_receipt option" where
  "find_receipt command_id w = find (\<lambda>r. rc_command_id r = command_id) (rt_receipts w)"

definition find_release :: "string \<Rightarrow> runtime \<Rightarrow> skill_release option" where
  "find_release deployment_id w = find (\<lambda>r. sr_deployment_id r = deployment_id) (rt_releases w)"

definition find_experiment :: "string option \<Rightarrow> runtime \<Rightarrow> evolution_experiment option" where
  "find_experiment experiment_id w = find (\<lambda>x. Some (xp_experiment_id x) = experiment_id) (rt_experiments w)"

text \<open>The recorded response when the command was applied before, with the same payload.\<close>

definition replayed :: "skill_release_command \<Rightarrow> string \<Rightarrow> (runtime, pydict option) op" where
  "replayed c hash =
     bindS (getS (find_receipt (sc_command_id c))) (\<lambda>prior. case prior of
         None \<Rightarrow> retS None
       | Some r \<Rightarrow>
           if rc_payload_hash r \<noteq> hash then raiseS (ReleaseCommandConflict ''release_command_id_payload_conflict'')
           else retS (Some (rc_response r)))"

definition skill_version :: "string \<Rightarrow> int \<Rightarrow> runtime \<Rightarrow> skill_config option" where
  "skill_version skill_id version w =
     find (\<lambda>s. sk_skill_id s = skill_id \<and> sk_version s = int_text version) (rt_skills w)"

definition lock_skills :: "skill_release_command \<Rightarrow> (runtime, skill_config \<times> skill_config) op" where
  "lock_skills c =
     bindS (getS (skill_version (sc_skill_id c) (sc_baseline_version c))) (\<lambda>baseline.
     bindS (getS (skill_version (sc_skill_id c) (sc_candidate_version c))) (\<lambda>candidate.
     case (baseline, candidate) of
       (Some b, Some d) \<Rightarrow>
         if sk_id b = sk_id d then release_raise ''release_versions_must_differ'' else retS (b, d)
     | _ \<Rightarrow> release_raise ''release_skill_version_missing''))"

definition check_release ::
  "env \<Rightarrow> skill_release_command \<Rightarrow> skill_config \<Rightarrow> skill_config \<Rightarrow> skill_release option \<Rightarrow> (runtime, unit) op" where
  "check_release E c baseline candidate release =
     bindS (liftE (skill_config_hash E baseline)) (\<lambda>hb.
     bindS (if hb \<noteq> sc_baseline_config_hash c then release_raise ''release_skill_config_hash_mismatch'' else retS ()) (\<lambda>_.
     bindS (liftE (skill_config_hash E candidate)) (\<lambda>hc.
     if hc \<noteq> sc_candidate_config_hash c then release_raise ''release_skill_config_hash_mismatch''
     else case release of
         None \<Rightarrow>
           if sc_action c = ''shadow'' then
             (if sk_status baseline \<noteq> ''active'' then release_raise ''release_baseline_not_active''
              else if sk_status candidate \<notin> {''candidate'', ''shadow'', ''retired''}
              then release_raise ''release_candidate_unavailable'' else retS ())
           else retS ()
       | Some r \<Rightarrow>
           if sr_company_id r \<noteq> sc_company_id c then raiseS (ReleaseOwnershipError ''release_company_not_owned'')
           else if (sr_proposal_id r, sr_evaluation_report_id r, sr_evaluation_hash r) \<noteq>
                   (sc_proposal_id c, sc_evaluation_report_id c, sc_evaluation_hash c)
           then release_raise ''release_evaluation_snapshot_changed''
           else if sr_version r < 1 then release_raise ''release_version_conflict'' else retS ())))"

definition new_experiment :: "skill_release_command \<Rightarrow> int \<Rightarrow> evolution_experiment" where
  "new_experiment c now =
     \<lparr>xp_experiment_id = sc_deployment_id c, xp_agent_id = sc_agent_id c, xp_skill_id = sc_skill_id c,
      xp_control_version = sc_baseline_version c, xp_candidate_version = sc_candidate_version c,
      xp_traffic_pct = min (sc_traffic_pct c) 10, xp_min_samples = max (sc_minimum_sample_count c) 50,
      xp_max_duration_hours = 72, xp_success_metric = ''success_rate'', xp_min_improvement = f64_round (5 / 100),
      xp_status = ''running'', xp_control_results = Some [], xp_candidate_results = Some [],
      xp_created_at = now, xp_concluded_at = None\<rparr>"

definition write_experiment ::
  "string \<Rightarrow> (evolution_experiment \<Rightarrow> evolution_experiment) \<Rightarrow> (runtime, unit) op" where
  "write_experiment experiment_id f =
     modifyS (\<lambda>w. w\<lparr>rt_experiments := update_row xp_experiment_id experiment_id f (rt_experiments w)\<rparr>)"

definition other_canary :: "skill_release_command \<Rightarrow> runtime \<Rightarrow> bool" where
  "other_canary c w \<longleftrightarrow>
     list_ex (\<lambda>r. sr_company_id r = sc_company_id c \<and> sr_skill_id r = sc_skill_id c \<and>
                  sr_state r = ''canary'' \<and> sr_deployment_id r \<noteq> sc_deployment_id c) (rt_releases w)"

text \<open>The experiment of a canary command: the result is the experiment id for the transition.\<close>

definition canary_experiment ::
  "env \<Rightarrow> skill_release_command \<Rightarrow> skill_config \<Rightarrow> skill_release option \<Rightarrow> (runtime, string option) op" where
  "canary_experiment E c baseline release =
     (if sc_action c \<noteq> ''canary'' then retS (case release of None \<Rightarrow> None | Some r \<Rightarrow> sr_experiment_id r)
      else if \<not> truthy_str (sc_approval_id c) then release_raise ''release_canary_approval_required''
      else
        bindS (getS (other_canary c)) (\<lambda>other.
        if other then release_raise ''release_skill_canary_already_running''
        else
          bindS (getS (find_experiment (Some (sc_deployment_id c)))) (\<lambda>experiment. case experiment of
              None \<Rightarrow>
                if (case release of None \<Rightarrow> True | Some r \<Rightarrow> sr_state r \<noteq> ''shadow'') \<or> sk_status baseline \<noteq> ''active''
                then release_raise ''release_canary_requires_shadow''
                else
                  bindS (now_runtime E) (\<lambda>now.
                  bindS (modifyS (\<lambda>w. w\<lparr>rt_experiments := rt_experiments w @ [new_experiment c now]\<rparr>)) (\<lambda>_.
                    retS (Some (sc_deployment_id c))))
            | Some x \<Rightarrow>
                if (xp_agent_id x, xp_skill_id x, xp_control_version x, xp_candidate_version x) \<noteq>
                   (sc_agent_id c, sc_skill_id c, sc_baseline_version c, sc_candidate_version c)
                then release_raise ''release_experiment_snapshot_changed''
                else if xp_status x \<noteq> ''running'' then release_raise ''release_experiment_not_running''
                else
                  bindS (write_experiment (sc_deployment_id c) (\<lambda>x. x\<lparr>xp_traffic_pct := min (sc_traffic_pct c) 10,
                           xp_min_samples := max (sc_minimum_sample_count c) 50\<rparr>)) (\<lambda>_.
                    retS (Some (sc_deployment_id c))))))"

definition snapshot_of :: "skill_release \<Rightarrow> skill_release_snapshot" where
  "snapshot_of r =
     \<lparr>ss_deployment_id = sr_deployment_id r, ss_skill_id = sr_skill_id r, ss_agent_id = sr_agent_id r,
      ss_baseline_version = sr_baseline_version r, ss_candidate_version = sr_candidate_version r,
      ss_baseline_config_hash = sr_baseline_config_hash r, ss_candidate_config_hash = sr_candidate_config_hash r,
      ss_state = sr_state r, ss_version = sr_version r, ss_experiment_id = sr_experiment_id r\<rparr>"

text \<open>\<open>sum(scores) / len(scores)\<close>.\<close>

definition mean :: "runtime_settings \<Rightarrow> pyfloat list \<Rightarrow> pyfloat" where
  "mean R scores =
     (case rs_sum R scores of Fin q \<Rightarrow> f64_round (q / of_nat (length scores)) | v \<Rightarrow> v)"

definition results :: "pyfloat list option \<Rightarrow> pyfloat list" where
  "results v = (case v of None \<Rightarrow> [] | Some xs \<Rightarrow> xs)"

text \<open>The first gate of a promotion that is not passed.\<close>

definition promotion_gate :: "runtime_settings \<Rightarrow> skill_release_command \<Rightarrow> evolution_experiment option \<Rightarrow> exc + evolution_experiment" where
  "promotion_gate R c experiment =
     (case experiment of
        None \<Rightarrow> release_error ''release_experiment_not_running''
      | Some x \<Rightarrow>
          if xp_status x \<noteq> ''running'' then release_error ''release_experiment_not_running''
          else
            let min_samples = max (max (sc_minimum_sample_count c) (xp_min_samples x)) 50;
                control = results (xp_control_results x); candidate = results (xp_candidate_results x) in
            if int (length control) < min_samples \<or> int (length candidate) < min_samples
            then release_error ''release_canary_minimum_sample_count_not_met''
            else if control = [] \<or> candidate = [] then release_error ''release_canary_quality_data_missing''
            else if pf_less (mean R candidate) (pf_add (mean R control) (xp_min_improvement x))
            then release_error ''release_canary_quality_gate_failed''
            else Inr x)"

text \<open>\<open>UPDATE ... WHERE id = ... AND status = ...\<close> that must change one row.\<close>

definition swap_status ::
  "skill_config \<Rightarrow> string \<Rightarrow> (skill_config \<Rightarrow> skill_config) \<Rightarrow> (runtime, unit) op" where
  "swap_status s from_status f =
     bindS (getS (\<lambda>w. length (filter (\<lambda>r. sk_id r = sk_id s \<and> sk_status r = from_status) (rt_skills w)))) (\<lambda>changed.
     bindS (modifyS (\<lambda>w. w\<lparr>rt_skills := map (\<lambda>r. if sk_id r = sk_id s \<and> sk_status r = from_status
              then f r else r) (rt_skills w)\<rparr>)) (\<lambda>_.
       if changed \<noteq> 1 then release_raise ''release_skill_compare_and_swap_failed'' else retS ()))"

definition conclude :: "env \<Rightarrow> evolution_experiment \<Rightarrow> string \<Rightarrow> (runtime, unit) op" where
  "conclude E x status =
     bindS (now_runtime E) (\<lambda>now.
       write_experiment (xp_experiment_id x) (\<lambda>x. x\<lparr>xp_status := status, xp_concluded_at := Some now\<rparr>))"

definition promote_release ::
  "env \<Rightarrow> runtime_settings \<Rightarrow> skill_release_command \<Rightarrow> skill_config \<Rightarrow> skill_config \<Rightarrow> skill_release option \<Rightarrow> (runtime, unit) op" where
  "promote_release E R c baseline candidate current =
     (case current of
        None \<Rightarrow> release_raise ''release_promotion_requires_canary''
      | Some r \<Rightarrow>
          if sr_state r \<noteq> ''canary'' then release_raise ''release_promotion_requires_canary''
          else
            bindS (getS (find_experiment (sr_experiment_id r))) (\<lambda>experiment.
            bindS (liftE (promotion_gate R c experiment)) (\<lambda>x.
            if sk_status baseline \<noteq> ''active'' \<or> sk_status candidate \<notin> {''candidate'', ''shadow''}
            then release_raise ''release_skill_compare_and_swap_failed''
            else
              bindS (swap_status baseline ''active'' (\<lambda>s. s\<lparr>sk_status := ''retired''\<rparr>)) (\<lambda>_.
              bindS (now_runtime E) (\<lambda>now.
              bindS (swap_status candidate (sk_status candidate)
                       (\<lambda>s. s\<lparr>sk_status := ''active'', sk_promoted_at := Some now\<rparr>)) (\<lambda>_.
                conclude E x ''promoted''))))))"

definition rollback_release ::
  "env \<Rightarrow> skill_config \<Rightarrow> skill_config \<Rightarrow> skill_release option \<Rightarrow> (runtime, unit) op" where
  "rollback_release E baseline candidate current =
     (case current of
        None \<Rightarrow> release_raise ''release_not_found''
      | Some r \<Rightarrow>
          if sr_state r = ''shadow'' then retS ()
          else if sr_state r = ''canary'' then
            bindS (getS (find_experiment (sr_experiment_id r))) (\<lambda>experiment. case experiment of
                Some x \<Rightarrow> whenS (xp_status x = ''running'') (conclude E x ''rolled_back'') | None \<Rightarrow> retS ())
          else if sr_state r = ''active'' then
            bindS (getS (find_experiment (sr_experiment_id r))) (\<lambda>experiment.
            if sk_status candidate \<noteq> ''active'' \<or> sk_status baseline \<noteq> ''retired''
            then release_raise ''release_skill_compare_and_swap_failed''
            else
              bindS (swap_status candidate ''active'' (\<lambda>s. s\<lparr>sk_status := ''retired''\<rparr>)) (\<lambda>_.
              bindS (swap_status baseline ''retired'' (\<lambda>s. s\<lparr>sk_status := ''active''\<rparr>)) (\<lambda>_.
                case experiment of Some x \<Rightarrow> whenS (xp_status x = ''promoted'') (conclude E x ''rolled_back'') | None \<Rightarrow> retS ())))
          else release_raise ''invalid_release_transition'')"

definition store_release ::
  "env \<Rightarrow> skill_release_command \<Rightarrow> skill_release option \<Rightarrow> skill_release_snapshot \<Rightarrow> (runtime, unit) op" where
  "store_release E c release nxt =
     (case release of
        None \<Rightarrow>
          bindS (now_runtime E) (\<lambda>created. bindS (now_runtime E) (\<lambda>updated.
          modifyS (\<lambda>w. w\<lparr>rt_releases := rt_releases w @
            [\<lparr>sr_deployment_id = sc_deployment_id c, sr_company_id = sc_company_id c,
              sr_proposal_id = sc_proposal_id c, sr_evaluation_report_id = sc_evaluation_report_id c,
              sr_evaluation_hash = sc_evaluation_hash c, sr_skill_id = sc_skill_id c,
              sr_agent_id = sc_agent_id c, sr_baseline_version = sc_baseline_version c,
              sr_candidate_version = sc_candidate_version c,
              sr_baseline_config_hash = sc_baseline_config_hash c,
              sr_candidate_config_hash = sc_candidate_config_hash c, sr_state = ss_state nxt,
              sr_version = ss_version nxt, sr_experiment_id = ss_experiment_id nxt,
              sr_created_at = created, sr_updated_at = updated\<rparr>]\<rparr>)))
      | Some current \<Rightarrow>
          bindS (now_runtime E) (\<lambda>now.
          bindS (getS (\<lambda>w. length (filter (\<lambda>r. sr_deployment_id r = sc_deployment_id c \<and>
                   sr_version r = sr_version current) (rt_releases w)))) (\<lambda>changed.
          bindS (modifyS (\<lambda>w. w\<lparr>rt_releases := map (\<lambda>r.
                   if sr_deployment_id r = sc_deployment_id c \<and> sr_version r = sr_version current
                   then r\<lparr>sr_state := ss_state nxt, sr_version := ss_version nxt,
                          sr_experiment_id := ss_experiment_id nxt, sr_updated_at := now\<rparr> else r) (rt_releases w)\<rparr>)) (\<lambda>_.
            if changed \<noteq> 1 then release_raise ''release_version_conflict'' else retS ()))))"

definition release_response :: "skill_release_snapshot \<Rightarrow> pydict" where
  "release_response nxt =
     [(''deployment_id'', PStr (ss_deployment_id nxt)), (''state'', PStr (ss_state nxt)),
      (''version'', PInt (ss_version nxt)), (''experiment_id'', opt_str (ss_experiment_id nxt))]"

definition record_receipt :: "env \<Rightarrow> skill_release_command \<Rightarrow> string \<Rightarrow> pydict \<Rightarrow> (runtime, unit) op" where
  "record_receipt E c hash response =
     bindS (now_runtime E) (\<lambda>now.
       modifyS (\<lambda>w. w\<lparr>rt_receipts := rt_receipts w @
         [\<lparr>rc_command_id = sc_command_id c, rc_deployment_id = sc_deployment_id c, rc_payload_hash = hash,
           rc_response = response, rc_created_at = now\<rparr>]\<rparr>))"

text \<open>The part of \<open>apply\<close> after the command was found new, its skills locked and the clock read again.\<close>

definition perform_release ::
  "env \<Rightarrow> runtime_settings \<Rightarrow> skill_release_command \<Rightarrow> string \<Rightarrow> skill_config \<Rightarrow> skill_config \<Rightarrow> (runtime, pydict) op" where
  "perform_release E R c hash baseline candidate =
     bindS (getS (find_release (sc_deployment_id c))) (\<lambda>release.
     bindS (check_release E c baseline candidate release) (\<lambda>_.
     bindS (canary_experiment E c baseline release) (\<lambda>exp_id.
     bindS (liftE (transition (map_option snapshot_of release) c
              (Some (case release of None \<Rightarrow> 0 | Some r \<Rightarrow> sr_version r)) exp_id)) (\<lambda>nxt.
     bindS (if sc_action c = ''promote'' then promote_release E R c baseline candidate release
            else if sc_action c = ''rollback'' then rollback_release E baseline candidate release
            else retS ()) (\<lambda>_.
     bindS (store_release E c release nxt) (\<lambda>_.
     bindS (record_receipt E c hash (release_response nxt)) (\<lambda>_.
       retS (release_response nxt))))))))"

definition apply_release :: "env \<Rightarrow> runtime_settings \<Rightarrow> skill_release_command \<Rightarrow> (runtime, pydict) op" where
  "apply_release E R c =
     (if sc_company_id c \<noteq> rs_company_id R then raiseS (ReleaseOwnershipError ''release_company_not_owned'')
      else
        bindS (liftE (payload_hash E c)) (\<lambda>hash.
        bindS (replayed c hash) (\<lambda>prior. case prior of
            Some response \<Rightarrow> retS response
          | None \<Rightarrow>
              if sc_action c \<in> {''promote'', ''rollback''} \<and> \<not> truthy_str (sc_approval_id c)
              then release_raise ''release_live_action_approval_required''
              else
                bindS (lock_skills c) (\<lambda>(baseline, candidate).
                bindS (replayed c hash) (\<lambda>prior. case prior of
                    Some response \<Rightarrow> retS response
                  | None \<Rightarrow>
                      bindS (now_runtime E) (\<lambda>now.
                      if command_expired c now then release_raise ''evolution_command_expired''
                      else perform_release E R c hash baseline candidate))))))"

text \<open>A request runs in a session of its own, which is rolled back when the request fails.\<close>

definition runtime_transaction :: "(runtime, 'a) op \<Rightarrow> (runtime, 'a) op" where
  "runtime_transaction m w =
     (case m w of
        (Inr a, w') \<Rightarrow> (Inr a, w')
      | (Inl e, w') \<Rightarrow> (Inl e, w\<lparr>rt_tick := rt_tick w'\<rparr>))"

definition route_apply_skill_release ::
  "env \<Rightarrow> runtime_settings \<Rightarrow> skill_release_command \<Rightarrow> string \<Rightarrow> (runtime, pydict) op" where
  "route_apply_skill_release E R c signature =
     runtime_transaction (bindS (verify_command E R c signature) (\<lambda>_. apply_release E R c))"

definition get_release_command :: "runtime_settings \<Rightarrow> string \<Rightarrow> (runtime, release_receipt option) op" where
  "get_release_command R command_id =
     bindS (getS (find_receipt command_id)) (\<lambda>command. case command of
         None \<Rightarrow> retS None
       | Some r \<Rightarrow>
           bindS (getS (find_release (rc_deployment_id r))) (\<lambda>release. case release of
               None \<Rightarrow> retS None
             | Some x \<Rightarrow> retS (if sr_company_id x \<noteq> rs_company_id R then None else Some r)))"

section \<open>Experiments while a canary runs\<close>

definition add_experiment_result :: "string \<Rightarrow> bool \<Rightarrow> pyfloat \<Rightarrow> (runtime, unit) op" where
  "add_experiment_result experiment_id is_candidate score =
     write_experiment experiment_id (\<lambda>x.
       if is_candidate then x\<lparr>xp_candidate_results := Some (results (xp_candidate_results x) @ [score])\<rparr>
       else x\<lparr>xp_control_results := Some (results (xp_control_results x) @ [score])\<rparr>)"

definition conclude_experiment :: "env \<Rightarrow> string \<Rightarrow> string \<Rightarrow> (runtime, unit) op" where
  "conclude_experiment E experiment_id status =
     bindS (now_runtime E) (\<lambda>now.
     bindS (write_experiment experiment_id (\<lambda>x. x\<lparr>xp_status := status, xp_concluded_at := Some now\<rparr>)) (\<lambda>_.
       whenS (status = ''rolled_back'')
         (bindS (now_runtime E) (\<lambda>now.
          modifyS (\<lambda>w. w\<lparr>rt_releases := map (\<lambda>r.
            if sr_experiment_id r = Some experiment_id \<and> sr_state r = ''canary''
            then r\<lparr>sr_state := ''rolled_back'', sr_updated_at := now\<rparr> else r) (rt_releases w)\<rparr>)))))"

section \<open>Queries\<close>

definition get_release :: "runtime_settings \<Rightarrow> string \<Rightarrow> (runtime, pydict option) op" where
  "get_release R deployment_id =
     bindS (getS (find_release deployment_id)) (\<lambda>row. case row of
         None \<Rightarrow> retS None
       | Some r \<Rightarrow>
           if sr_company_id r \<noteq> rs_company_id R then retS None
           else retS (Some
             [(''deployment_id'', PStr (sr_deployment_id r)), (''company_id'', PStr (sr_company_id r)),
              (''proposal_id'', PStr (sr_proposal_id r)), (''evaluation_report_id'', PStr (sr_evaluation_report_id r)),
              (''evaluation_hash'', PStr (sr_evaluation_hash r)), (''skill_id'', PStr (sr_skill_id r)),
              (''agent_id'', PStr (sr_agent_id r)), (''baseline_version'', PInt (sr_baseline_version r)),
              (''candidate_version'', PInt (sr_candidate_version r)),
              (''baseline_config_hash'', PStr (sr_baseline_config_hash r)),
              (''candidate_config_hash'', PStr (sr_candidate_config_hash r)), (''state'', PStr (sr_state r)),
              (''version'', PInt (sr_version r)), (''experiment_id'', opt_str (sr_experiment_id r))]))"

text \<open>\<open>scalar_one_or_none\<close> raises when several rows match.\<close>

definition get_skill_config :: "env \<Rightarrow> string \<Rightarrow> string \<Rightarrow> (runtime, pydict option) op" where
  "get_skill_config E skill_id version =
     bindS (getS (\<lambda>w. filter (\<lambda>s. sk_skill_id s = skill_id \<and> sk_version s = version) (rt_skills w))) (\<lambda>rows. case rows of
         [] \<Rightarrow> retS None
       | [s] \<Rightarrow>
           bindS (liftE (skill_config_hash E s)) (\<lambda>hash. retS (Some
             [(''skill_id'', PStr (sk_skill_id s)), (''version'', PStr (sk_version s)), (''status'', PStr (sk_status s)),
              (''target_model'', PStr (sk_target_model s)), (''configuration_hash'', PStr hash)]))
       | _ \<Rightarrow> raiseS (ExternalError ''MultipleResultsFound'' skill_id))"

end
