(* ===== verification/Evolution_Service.thy ===== *)
theory Evolution_Service
  imports Approval_Service Skill_Release
begin

text \<open>
  The Control Plane's side of evolution: proposals (\<open>evolution_proposal_store.py\<close>,
  \<open>evolution_proposal_use_cases.py\<close>) and releases of their candidates
  (\<open>domain/evolution_deployment.py\<close>, \<open>evolution_deployment_store.py\<close>,
  \<open>evolution_deployment_gateway.py\<close>, \<open>api_routes/evolution_releases.py\<close>). The intent of a release is
  committed before the evolution runtime is contacted, and the runtime's answer is recorded in a
  second transaction. The runtime is the one of \<open>Skill_Release\<close>; a request to it either arrives or
  fails in transport.
\<close>

section \<open>Proposals\<close>

definition get_proposal_row :: "string \<Rightarrow> db \<Rightarrow> evolution_proposal option" where
  "get_proposal_row proposal_id d = find (\<lambda>p. ep_proposal_id p = proposal_id) (t_proposals d)"

definition store_create_evolution_proposal :: "env \<Rightarrow> evolution_proposal \<Rightarrow> (world, evolution_proposal) op" where
  "store_create_evolution_proposal E proposal =
     bindS (write_db (\<lambda>d. d\<lparr>t_proposals := t_proposals d @ [proposal]\<rparr>)) (\<lambda>_.
     bindS (flush E) (\<lambda>_. retS proposal))"

definition write_proposal :: "string \<Rightarrow> (evolution_proposal \<Rightarrow> evolution_proposal) \<Rightarrow> (world, unit) op" where
  "write_proposal proposal_id f =
     write_db (\<lambda>d. d\<lparr>t_proposals := update_row ep_proposal_id proposal_id f (t_proposals d)\<rparr>)"

definition proposal_status_update ::
  "approval_status option \<Rightarrow> evolution_rollout_state option \<Rightarrow> string option \<Rightarrow> int \<Rightarrow> evolution_proposal \<Rightarrow> evolution_proposal" where
  "proposal_status_update approval_state rollout_state approval_id now p =
     p\<lparr>ep_approval_state := (case approval_state of None \<Rightarrow> ep_approval_state p | Some s \<Rightarrow> s),
       ep_rollout_state := (case rollout_state of None \<Rightarrow> ep_rollout_state p | Some s \<Rightarrow> s),
       ep_approval_id := (case approval_id of None \<Rightarrow> ep_approval_id p | Some i \<Rightarrow> Some i),
       ep_updated_at := utc_dt now\<rparr>"

definition store_update_evolution_proposal_status ::
  "env \<Rightarrow> string \<Rightarrow> approval_status option \<Rightarrow> evolution_rollout_state option \<Rightarrow> string option \<Rightarrow>
   (world, evolution_proposal option) op" where
  "store_update_evolution_proposal_status E proposal_id approval_state rollout_state approval_id =
     bindS (query_db (get_proposal_row proposal_id)) (\<lambda>row. case row of
         None \<Rightarrow> retS None
       | Some r \<Rightarrow>
           bindS (now_utc E) (\<lambda>now.
           bindS (write_proposal proposal_id (proposal_status_update approval_state rollout_state approval_id now)) (\<lambda>_.
           bindS (flush E) (\<lambda>_. query_db (get_proposal_row proposal_id)))))"

text \<open>\<open>scalar_one_or_none\<close> raises when several proposals name the approval.\<close>

definition store_update_proposal_by_approval ::
  "env \<Rightarrow> string \<Rightarrow> approval_status \<Rightarrow> evolution_rollout_state option \<Rightarrow> (world, evolution_proposal option) op" where
  "store_update_proposal_by_approval E approval_id approval_state rollout_state =
     bindS (query_db (\<lambda>d. filter (\<lambda>p. ep_approval_id p = Some approval_id) (t_proposals d))) (\<lambda>rows. case rows of
         [] \<Rightarrow> retS None
       | [r] \<Rightarrow>
           bindS (now_utc E) (\<lambda>now.
           bindS (write_proposal (ep_proposal_id r) (proposal_status_update (Some approval_state) rollout_state None now)) (\<lambda>_.
           bindS (flush E) (\<lambda>_. query_db (get_proposal_row (ep_proposal_id r)))))
       | _ \<Rightarrow> raiseS (ExternalError ''MultipleResultsFound'' approval_id))"

definition proposal_audit ::
  "env \<Rightarrow> string \<Rightarrow> string \<Rightarrow> string \<Rightarrow> string \<Rightarrow> string \<Rightarrow> string option \<Rightarrow> pydict \<Rightarrow> (world, unit) op" where
  "proposal_audit E company_id action proposal_id actor_type actor_id trace_id detail =
     bindS (new_audit E (\<lambda>i now.
       \<lparr>ae_audit_event_id = i, ae_company_id = company_id, ae_action = action,
        ae_target_type = ''evolution_proposal'', ae_target_id = proposal_id, ae_actor_type = actor_type,
        ae_actor_id = actor_id, ae_trace_id = trace_id, ae_run_id = None, ae_work_item_id = None,
        ae_idempotency_key = None, ae_detail = detail, ae_created_at = utc_dt now\<rparr>)) (\<lambda>_. retS ())"

definition created_detail :: "evolution_proposal \<Rightarrow> pydict" where
  "created_detail p =
     [(''proposal_id'', PStr (ep_proposal_id p)), (''tier'', PStr (evolution_tier_value (ep_tier p))),
      (''scope'', PStr (ep_scope p)), (''approval_state'', PStr (approval_status_value (ep_approval_state p))),
      (''rollout_state'', PStr (evolution_rollout_state_value (ep_rollout_state p))),
      (''approval_id'', opt_str (ep_approval_id p))]"

definition proposal_approval_request :: "evolution_proposal \<Rightarrow> string \<Rightarrow> string \<Rightarrow> int \<Rightarrow> approval_request" where
  "proposal_approval_request p proposed_by i t =
     \<lparr>ap_approval_id = i, ap_company_id = ep_company_id p, ap_category = ApprovalCategory_TECHNICAL,
      ap_status = ApprovalStatus_PENDING, ap_requested_by = ''agent:'' @ proposed_by, ap_source_agent_id = proposed_by,
      ap_proposed_action = ''Review '' @ evolution_tier_value (ep_tier p) @ '' evolution proposal for '' @ ep_scope p,
      ap_reason = ep_expected_benefit p, ap_risk = ep_risk p,
      ap_rollback_note = ''Do not promote the proposal; keep current runtime behavior.'',
      ap_affected_resources = [ep_scope p], ap_artifact_links = [], ap_run_id = None, ap_work_item_id = None,
      ap_goal_id = None, ap_trace_id = None, ap_resolved_by = None, ap_resolved_at = None, ap_expires_at = None,
      ap_metadata = [], ap_created_at = utc_dt t, ap_updated_at = utc_dt t\<rparr>"

definition create_evolution_proposal_with_audit ::
  "env \<Rightarrow> evolution_proposal \<Rightarrow> bool \<Rightarrow> string \<Rightarrow> (world, evolution_proposal) op" where
  "create_evolution_proposal_with_audit E proposal approval_required proposed_by =
     bindS (ensure_company E (ep_company_id proposal)) (\<lambda>_.
     bindS (if truthy_str (ep_approval_id proposal) then
              bindS (get_approval (str_or_empty (ep_approval_id proposal))) (\<lambda>approval. case approval of
                  None \<Rightarrow> raiseS (EvolutionProposalApprovalNotFoundError (str_or_empty (ep_approval_id proposal)))
                | Some a \<Rightarrow>
                    if ap_company_id a \<noteq> ep_company_id proposal
                    then raiseS (EvolutionProposalApprovalNotFoundError (str_or_empty (ep_approval_id proposal)))
                    else retS (ep_approval_id proposal, ap_status a))
            else if approval_required then
              bindS (gate_request_approval E (proposal_approval_request proposal proposed_by)) (\<lambda>a.
                retS (Some (ap_approval_id a), ap_status a))
            else retS (ep_approval_id proposal, ApprovalStatus_PENDING)) (\<lambda>(approval_id, approval_state).
     bindS (store_create_evolution_proposal E
              (proposal\<lparr>ep_approval_state := approval_state, ep_approval_id := approval_id\<rparr>)) (\<lambda>created.
     bindS (proposal_audit E (ep_company_id proposal) ''evolution_proposal.created'' (ep_proposal_id created) ''agent''
              proposed_by None (created_detail created)) (\<lambda>_.
       retS created))))"

definition record_evolution_proposal_with_audit ::
  "env \<Rightarrow> evolution_proposal \<Rightarrow> string \<Rightarrow> string option \<Rightarrow> (world, evolution_proposal) op" where
  "record_evolution_proposal_with_audit E proposal actor_id trace_id =
     bindS (ensure_company E (ep_company_id proposal)) (\<lambda>_.
     bindS (generate_id E ''evp'') (\<lambda>i.
     bindS (now_utc E) (\<lambda>t.
     bindS (store_create_evolution_proposal E (proposal\<lparr>ep_proposal_id := i,
              ep_rollout_state := EvolutionRolloutState_PROPOSED, ep_created_at := utc_dt t, ep_updated_at := utc_dt t\<rparr>)) (\<lambda>created.
     bindS (proposal_audit E (ep_company_id created) ''evolution_proposal.created'' (ep_proposal_id created) ''agent''
              actor_id trace_id (created_detail created)) (\<lambda>_.
       retS created)))))"

text \<open>The proposal a status update leads to: what the caller gives wins over the linked approval and the stored state.\<close>

definition effective_approval_state ::
  "approval_status option \<Rightarrow> approval_request option \<Rightarrow> evolution_proposal \<Rightarrow> approval_status" where
  "effective_approval_state given linked existing =
     (case given of Some s \<Rightarrow> s | None \<Rightarrow> (case linked of Some a \<Rightarrow> ap_status a | None \<Rightarrow> ep_approval_state existing))"

definition linked_approval :: "string \<Rightarrow> string option \<Rightarrow> (world, approval_request option) op" where
  "linked_approval company_id approval_id =
     (if \<not> truthy_str approval_id then retS None
      else
        bindS (get_approval (str_or_empty approval_id)) (\<lambda>approval. case approval of
            None \<Rightarrow> raiseS (EvolutionProposalApprovalNotFoundError (str_or_empty approval_id))
          | Some a \<Rightarrow>
              if ap_company_id a \<noteq> company_id then raiseS (EvolutionProposalApprovalNotFoundError (str_or_empty approval_id))
              else retS (Some a)))"

definition rollout_events ::
  "evolution_proposal \<Rightarrow> evolution_rollout_state option \<Rightarrow> exc + evolution_rollout_status_changed list" where
  "rollout_events existing target =
     (case target of
        None \<Rightarrow> Inr []
      | Some t \<Rightarrow> (case advance_rollout (EnumArg t) (from_record existing) of
                     (Inl e, a) \<Rightarrow> Inl e | (Inr u, a) \<Rightarrow> Inr (agg_events a)))"

definition update_evolution_proposal_status_with_audit ::
  "env \<Rightarrow> string \<Rightarrow> string \<Rightarrow> approval_status option \<Rightarrow> evolution_rollout_state option \<Rightarrow> string option \<Rightarrow> string \<Rightarrow>
   (world, evolution_proposal) op" where
  "update_evolution_proposal_status_with_audit E company_id proposal_id approval_state rollout_state approval_id actor_id =
     bindS (query_db (get_proposal_row proposal_id)) (\<lambda>row. case row of
         None \<Rightarrow> raiseS (EvolutionProposalNotFoundError proposal_id)
       | Some existing \<Rightarrow>
           if ep_company_id existing \<noteq> company_id then raiseS (EvolutionProposalNotFoundError proposal_id)
           else
             bindS (linked_approval company_id approval_id) (\<lambda>linked.
             bindS (liftE (rollout_state_requires_approval
                      (case rollout_state of None \<Rightarrow> NoneArg | Some t \<Rightarrow> EnumArg t))) (\<lambda>required.
             if required \<and> effective_approval_state approval_state linked existing \<noteq> ApprovalStatus_APPROVED
             then raiseS (EvolutionProposalApprovalRequiredError proposal_id)
             else
               bindS (liftE (rollout_events existing rollout_state)) (\<lambda>events.
               bindS (store_update_evolution_proposal_status E proposal_id
                        (case approval_state of Some s \<Rightarrow> Some s | None \<Rightarrow> map_option ap_status linked)
                        rollout_state (if truthy_str approval_id then approval_id else None)) (\<lambda>updated. case updated of
                   None \<Rightarrow> raiseS (EvolutionProposalNotFoundError proposal_id)
                 | Some p \<Rightarrow>
                     let detail = [(''proposal_id'', PStr (ep_proposal_id p)),
                                   (''approval_state'', PStr (approval_status_value (ep_approval_state p))),
                                   (''rollout_state'', PStr (evolution_rollout_state_value (ep_rollout_state p))),
                                   (''approval_id'', opt_str (ep_approval_id p))] in
                     if events \<noteq> [] then
                       bindS (append_control_plane_domain_event_audits E (map EvRollout events)
                                ((audit_context ''user'' actor_id)\<lparr>dctx_detail := detail\<rparr>)) (\<lambda>_. retS p)
                     else
                       bindS (proposal_audit E company_id ''evolution_proposal.updated'' (ep_proposal_id p) ''user''
                                actor_id None detail) (\<lambda>_. retS p))))))"

definition apply_approval_resolution_to_linked_proposal ::
  "env \<Rightarrow> string \<Rightarrow> bool \<Rightarrow> string \<Rightarrow> (world, evolution_proposal option) op" where
  "apply_approval_resolution_to_linked_proposal E approval_id approved resolved_by =
     (let effect = approval_resolve approved in
      bindS (store_update_proposal_by_approval E approval_id (are_proposal_approval_state effect)
               (are_proposal_rollout_state effect)) (\<lambda>proposal. case proposal of
          None \<Rightarrow> retS None
        | Some p \<Rightarrow>
            bindS (proposal_audit E (ep_company_id p) ''evolution_proposal.updated'' (ep_proposal_id p) ''user'' resolved_by
                     None (proposal_audit_detail effect (ep_proposal_id p) approval_id)) (\<lambda>_. retS (Some p))))"

section \<open>Release policy\<close>

definition TARGET_STATES :: "(string \<times> string) list" where
  "TARGET_STATES = [(''shadow'', ''shadow''), (''canary'', ''canary''), (''promote'', ''active''), (''rollback'', ''rolled_back'')]"

definition ALLOWED_ACTIONS :: "string option \<Rightarrow> string list" where
  "ALLOWED_ACTIONS state =
     (if state = None then [''shadow'']
      else if state = Some ''shadow'' then [''canary'', ''rollback'']
      else if state = Some ''canary'' then [''promote'', ''rollback'']
      else if state = Some ''active'' then [''rollback''] else [])"

text \<open>\<open>value[key]\<close>, and \<open><\<close> on numbers.\<close>

definition py_item :: "pyval \<Rightarrow> string \<Rightarrow> exc + pyval" where
  "py_item v key =
     (case v of
        PMap d \<Rightarrow> (case map_of d key of Some x \<Rightarrow> Inr x | None \<Rightarrow> Inl (ExternalError ''KeyError'' key))
      | _ \<Rightarrow> Inl (TypeError ''not subscriptable''))"

definition py_number :: "pyval \<Rightarrow> exc + pyfloat" where
  "py_number v =
     (case v of
        PInt i \<Rightarrow> Inr (Fin (of_int i)) | PFloat f \<Rightarrow> Inr f | PBool b \<Rightarrow> Inr (Fin (if b then 1 else 0))
      | _ \<Rightarrow> Inl (TypeError ''<''))"

definition py_less :: "pyval \<Rightarrow> pyval \<Rightarrow> exc + bool" where
  "py_less a b = bindE (py_number a) (\<lambda>x. bindE (py_number b) (\<lambda>y. Inr (pf_less x y)))"

definition arm_value :: "pydict \<Rightarrow> string \<Rightarrow> string \<Rightarrow> exc + pyval" where
  "arm_value report arm key = bindE (py_item (PMap report) arm) (\<lambda>v. py_item v key)"

definition release_gates :: "pydict \<Rightarrow> exc + unit" where
  "release_gates report =
     bindE (guardE (dict_get ''eligible'' PNone report = PBool True) (ExecutionDenied ''evaluation_release_gates_failed'' 403)) (\<lambda>_.
     bindE (arm_value report ''baseline'' ''sample_count'') (\<lambda>nb.
     bindE (arm_value report ''candidate'' ''sample_count'') (\<lambda>nc.
     bindE (py_less nc nb) (\<lambda>smaller.
     bindE (py_less (if smaller then nc else nb) (PInt 50)) (\<lambda>few.
     bindE (guardE (\<not> few) (ExecutionDenied ''live_release_sample_count_required'' 403)) (\<lambda>_.
     bindE (arm_value report ''candidate'' ''accepted_outcome_rate'') (\<lambda>rc.
     bindE (arm_value report ''baseline'' ''accepted_outcome_rate'') (\<lambda>rb.
     bindE (py_less rc rb) (\<lambda>regressed.
       guardE (\<not> regressed) (ExecutionDenied ''candidate_outcome_regression'' 403))))))))))"

definition validate_release ::
  "evolution_tier \<Rightarrow> string option \<Rightarrow> string \<Rightarrow> pydict \<Rightarrow> string \<Rightarrow> string \<Rightarrow> exc + unit" where
  "validate_release tier state action report baseline_ref candidate_ref =
     bindE (guardE (evolution_tier_value tier = ''L1'') (ExecutionDenied ''only_l1_skill_release_supported'' 400)) (\<lambda>_.
     bindE (guardE (action \<in> set (ALLOWED_ACTIONS state)) (ExecutionDenied ''invalid_skill_release_transition'' 409)) (\<lambda>_.
     bindE (arm_value report ''baseline'' ''config_revision'') (\<lambda>rb.
     bindE (guardE (rb = PStr baseline_ref) (ExecutionDenied ''evaluation_skill_version_mismatch'' 400)) (\<lambda>_.
     bindE (arm_value report ''candidate'' ''config_revision'') (\<lambda>rc.
     bindE (guardE (rc = PStr candidate_ref) (ExecutionDenied ''evaluation_skill_version_mismatch'' 400)) (\<lambda>_.
       if action \<in> {''canary'', ''promote''} then release_gates report else Inr ()))))))"

section \<open>Preparing, acknowledging and recovering releases\<close>

record release_request =
  rq_company_id :: string
  rq_proposal_id :: string
  rq_evaluation_report_id :: string
  rq_skill_id :: string
  rq_agent_id :: string
  rq_baseline_version :: int
  rq_candidate_version :: int
  rq_baseline_config_hash :: string
  rq_candidate_config_hash :: string
  rq_action :: string

definition release_denied :: "string \<Rightarrow> int \<Rightarrow> (world, 'a) op" where
  "release_denied reason status_code = raiseS (ExecutionDenied reason status_code)"

definition company_proposal :: "string \<Rightarrow> string \<Rightarrow> db \<Rightarrow> evolution_proposal option" where
  "company_proposal company_id proposal_id d =
     find (\<lambda>p. ep_company_id p = company_id \<and> ep_proposal_id p = proposal_id) (t_proposals d)"

definition company_deployment :: "string \<Rightarrow> string \<Rightarrow> db \<Rightarrow> evolution_deployment option" where
  "company_deployment company_id proposal_id d =
     find (\<lambda>r. dp_company_id r = company_id \<and> dp_proposal_id r = proposal_id) (t_deployments d)"

definition write_deployment :: "string \<Rightarrow> (evolution_deployment \<Rightarrow> evolution_deployment) \<Rightarrow> (world, unit) op" where
  "write_deployment deployment_id f =
     write_db (\<lambda>d. d\<lparr>t_deployments := update_row dp_deployment_id deployment_id f (t_deployments d)\<rparr>)"

definition release_audit :: "env \<Rightarrow> string \<Rightarrow> string \<Rightarrow> string \<Rightarrow> string \<Rightarrow> pydict \<Rightarrow> (world, unit) op" where
  "release_audit E company_id proposal_id action actor_id detail =
     proposal_audit E company_id action proposal_id ''operator'' actor_id None detail"

definition snapshot_matches :: "skill_release_command \<Rightarrow> release_request \<Rightarrow> string \<Rightarrow> bool" where
  "snapshot_matches old rq evaluation_hash \<longleftrightarrow>
     sc_company_id old = rq_company_id rq \<and> sc_proposal_id old = rq_proposal_id rq \<and>
     sc_evaluation_report_id old = rq_evaluation_report_id rq \<and> sc_evaluation_hash old = evaluation_hash \<and>
     sc_skill_id old = rq_skill_id rq \<and> sc_agent_id old = rq_agent_id rq \<and>
     sc_baseline_version old = rq_baseline_version rq \<and> sc_candidate_version old = rq_candidate_version rq \<and>
     sc_baseline_config_hash old = rq_baseline_config_hash rq \<and> sc_candidate_config_hash old = rq_candidate_config_hash rq"

definition snapshot_items :: "release_request \<Rightarrow> string \<Rightarrow> pydict" where
  "snapshot_items rq evaluation_hash =
     [(''company_id'', PStr (rq_company_id rq)), (''proposal_id'', PStr (rq_proposal_id rq)),
      (''evaluation_report_id'', PStr (rq_evaluation_report_id rq)), (''evaluation_hash'', PStr evaluation_hash),
      (''skill_id'', PStr (rq_skill_id rq)), (''agent_id'', PStr (rq_agent_id rq)),
      (''baseline_version'', PInt (rq_baseline_version rq)), (''candidate_version'', PInt (rq_candidate_version rq)),
      (''baseline_config_hash'', PStr (rq_baseline_config_hash rq)),
      (''candidate_config_hash'', PStr (rq_candidate_config_hash rq))]"

text \<open>A pending command for the same action is given out again while it and its approval are still good.\<close>

definition pending_again :: "skill_release_command \<Rightarrow> int \<Rightarrow> (world, skill_release_command) op" where
  "pending_again old now =
     (if dt_utc (sc_expires_at old) \<le> now then release_denied ''release_command_expired_recovery_required'' 409
      else if \<not> truthy_str (sc_approval_id old) then retS old
      else
        bindS (get_approval (str_or_empty (sc_approval_id old))) (\<lambda>approval. case approval of
            None \<Rightarrow> release_denied ''skill_release_approval_revoked'' 403
          | Some a \<Rightarrow>
              if ap_status a \<noteq> ApprovalStatus_APPROVED \<or>
                 (case ap_expires_at a of None \<Rightarrow> True | Some e \<Rightarrow> dt_utc e \<le> now)
              then release_denied ''skill_release_approval_revoked'' 403 else retS old))"

definition release_approvals :: "string \<Rightarrow> string \<Rightarrow> int \<Rightarrow> db \<Rightarrow> approval_request list" where
  "release_approvals company_id decision_hash now d =
     filter (\<lambda>a. case ap_expires_at a of None \<Rightarrow> False | Some e \<Rightarrow> now < dt_utc e)
       (filter (\<lambda>a. ap_company_id a = company_id \<and>
                   map_of (ap_metadata a) ''release_decision_hash'' = Some (PStr decision_hash)) (t_approvals d))"

definition release_approval_request ::
  "release_request \<Rightarrow> string \<Rightarrow> string \<Rightarrow> string \<Rightarrow> int \<Rightarrow> string \<Rightarrow> int \<Rightarrow> approval_request" where
  "release_approval_request rq evaluation_hash decision_hash actor_id now i t =
     \<lparr>ap_approval_id = i, ap_company_id = rq_company_id rq, ap_category = ApprovalCategory_TECHNICAL,
      ap_status = ApprovalStatus_PENDING, ap_requested_by = actor_id, ap_source_agent_id = rq_agent_id rq,
      ap_proposed_action = rq_action rq @ '' L1 skill '' @ rq_skill_id rq @ ''@'' @ int_text (rq_candidate_version rq),
      ap_reason = ''Review frozen comparative quality, full attempt cost and interventions.'',
      ap_risk = ''Live routing can affect real work and consume budget.'',
      ap_rollback_note = ''Restore frozen baseline '' @ rq_skill_id rq @ ''@'' @ int_text (rq_baseline_version rq) @
        '' after CAS verification.'',
      ap_affected_resources = [''skill:'' @ rq_skill_id rq, ''proposal:'' @ rq_proposal_id rq], ap_artifact_links = [],
      ap_run_id = None, ap_work_item_id = None, ap_goal_id = None, ap_trace_id = None, ap_resolved_by = None,
      ap_resolved_at = None, ap_expires_at = Some (utc_dt (now + 24 * 3600 * 1000000)),
      ap_metadata = [(''release_decision_hash'', PStr decision_hash),
        (''release_snapshot'', PMap (snapshot_items rq evaluation_hash)), (''action'', PStr (rq_action rq))],
      ap_created_at = utc_dt t, ap_updated_at = utc_dt t\<rparr>"

definition release_approval ::
  "env \<Rightarrow> release_request \<Rightarrow> string \<Rightarrow> string \<Rightarrow> string \<Rightarrow> int \<Rightarrow> (world, string option) op" where
  "release_approval E rq evaluation_hash decision_hash actor_id now =
     (if rq_action rq = ''shadow'' then retS None
      else
        bindS (query_db (release_approvals (rq_company_id rq) decision_hash now)) (\<lambda>valid.
        case find (\<lambda>a. ap_status a = ApprovalStatus_APPROVED) valid of
          Some a \<Rightarrow> retS (Some (ap_approval_id a))
        | None \<Rightarrow>
            bindS (whenS (\<not> list_ex (\<lambda>a. ap_status a = ApprovalStatus_PENDING) valid)
                     (bindS (generate_id E ''apr'') (\<lambda>i. bindS (now_utc E) (\<lambda>t.
                      bindS (liftE (approval_request_new
                               (release_approval_request rq evaluation_hash decision_hash actor_id now i t))) (\<lambda>a.
                      bindS (store_request_approval E a) (\<lambda>_. retS ())))))) (\<lambda>_.
            bindS checkpoint (\<lambda>_. release_denied ''skill_release_approval_required'' 403))))"

definition release_command ::
  "release_request \<Rightarrow> string \<Rightarrow> string \<Rightarrow> string \<Rightarrow> string option \<Rightarrow> int \<Rightarrow> skill_release_command" where
  "release_command rq evaluation_hash command_id deployment_id approval_id now =
     \<lparr>sc_schema_version = ''1.0'', sc_command_id = command_id, sc_deployment_id = deployment_id,
      sc_company_id = rq_company_id rq, sc_proposal_id = rq_proposal_id rq,
      sc_evaluation_report_id = rq_evaluation_report_id rq, sc_evaluation_hash = evaluation_hash,
      sc_skill_id = rq_skill_id rq, sc_agent_id = rq_agent_id rq, sc_baseline_version = rq_baseline_version rq,
      sc_candidate_version = rq_candidate_version rq, sc_baseline_config_hash = rq_baseline_config_hash rq,
      sc_candidate_config_hash = rq_candidate_config_hash rq, sc_action = rq_action rq, sc_traffic_pct = 10,
      sc_minimum_sample_count = 50, sc_approval_id = approval_id,
      sc_expires_at = utc_dt (now + 3600 * 1000000)\<rparr>"

text \<open>The row of the deployment: created for the first command, updated by the later ones.\<close>

definition store_pending ::
  "env \<Rightarrow> evolution_deployment option \<Rightarrow> skill_release_command \<Rightarrow> int \<Rightarrow> (world, unit) op" where
  "store_pending E existing c now =
     (case existing of
        None \<Rightarrow> write_db (\<lambda>d. d\<lparr>t_deployments := t_deployments d @
          [\<lparr>dp_deployment_id = sc_deployment_id c, dp_company_id = sc_company_id c, dp_proposal_id = sc_proposal_id c,
            dp_evaluation_report_id = sc_evaluation_report_id c, dp_state = ''pending'', dp_desired_action = sc_action c,
            dp_command = c, dp_acknowledgement = [], dp_updated_at = now\<rparr>]\<rparr>)
      | Some r \<Rightarrow> write_deployment (dp_deployment_id r) (\<lambda>r.
          r\<lparr>dp_state := ''pending'', dp_desired_action := sc_action c, dp_command := c, dp_updated_at := now\<rparr>))"

text \<open>A new command, once the request matches the frozen snapshot and is not the pending one.\<close>

definition issue_release ::
  "env \<Rightarrow> release_request \<Rightarrow> string \<Rightarrow> string option \<Rightarrow> evolution_proposal \<Rightarrow> evolution_evaluation_report \<Rightarrow> string \<Rightarrow>
   evolution_deployment option \<Rightarrow> int \<Rightarrow> (world, skill_release_command) op" where
  "issue_release E rq actor_id deployment_id_override proposal report evaluation_hash existing now =
     bindS (liftE (validate_release (ep_tier proposal) (map_option dp_state existing) (rq_action rq)
              (er_comparison_report report) (rq_skill_id rq @ ''@'' @ int_text (rq_baseline_version rq))
              (rq_skill_id rq @ ''@'' @ int_text (rq_candidate_version rq)))) (\<lambda>_.
     bindS (case existing of
              Some r \<Rightarrow> retS (dp_deployment_id r)
            | None \<Rightarrow> if truthy_str deployment_id_override then retS (str_or_empty deployment_id_override)
                      else bindS (uuid4_hex E) (\<lambda>u. retS (''dep_'' @ u))) (\<lambda>deployment_id.
     bindS (liftE (canonical_hash E (PMap (snapshot_items rq evaluation_hash @
              [(''deployment_id'', PStr deployment_id), (''action'', PStr (rq_action rq))])))) (\<lambda>decision_hash.
     bindS (release_approval E rq evaluation_hash decision_hash actor_id now) (\<lambda>approval_id.
     bindS (uuid4_hex E) (\<lambda>u.
     let c = release_command rq evaluation_hash (''cmd_'' @ u) deployment_id approval_id now in
     if \<not> release_command_ok c then raiseS (ValueError ''SkillReleaseCommand'')
     else
       bindS (store_pending E existing c now) (\<lambda>_.
       bindS (release_audit E (rq_company_id rq) (rq_proposal_id rq) ''evolution.release_requested'' actor_id
                [(''deployment_id'', PStr deployment_id), (''command_id'', PStr (sc_command_id c)),
                 (''action'', PStr (rq_action rq)), (''evaluation_report_id'', PStr (rq_evaluation_report_id rq)),
                 (''approval_id'', opt_str approval_id)]) (\<lambda>_.
       bindS (flush E) (\<lambda>_. retS c))))))))"

definition prepare :: "env \<Rightarrow> release_request \<Rightarrow> string \<Rightarrow> string option \<Rightarrow> (world, skill_release_command) op" where
  "prepare E rq actor_id deployment_id_override =
     bindS (now_utc E) (\<lambda>now.
     bindS (query_db (company_proposal (rq_company_id rq) (rq_proposal_id rq))) (\<lambda>proposal.
     bindS (query_db (\<lambda>d. find (\<lambda>r. er_evaluation_report_id r = rq_evaluation_report_id rq) (t_reports d))) (\<lambda>report.
     case (proposal, report) of
       (Some p, Some r) \<Rightarrow>
         if er_company_id r \<noteq> rq_company_id rq \<or> er_proposal_id r \<noteq> rq_proposal_id rq
         then release_denied ''evolution_evidence_not_found'' 404
         else
           bindS (query_db (\<lambda>d. find (\<lambda>x. dp_proposal_id x = rq_proposal_id rq) (t_deployments d))) (\<lambda>existing.
           bindS (liftE (canonical_hash E (PMap (er_comparison_report r)))) (\<lambda>evaluation_hash.
           case existing of
             None \<Rightarrow> issue_release E rq actor_id deployment_id_override p r evaluation_hash None now
           | Some x \<Rightarrow>
               if \<not> snapshot_matches (dp_command x) rq evaluation_hash
               then release_denied ''frozen_release_configuration_changed'' 409
               else if dp_desired_action x = rq_action rq \<and> dp_state x = ''pending''
               then pending_again (dp_command x) now
               else issue_release E rq actor_id deployment_id_override p r evaluation_hash existing now))
     | _ \<Rightarrow> release_denied ''evolution_evidence_not_found'' 404)))"

definition pending_release :: "string \<Rightarrow> string \<Rightarrow> (world, skill_release_command) op" where
  "pending_release company_id proposal_id =
     bindS (query_db (company_deployment company_id proposal_id)) (\<lambda>row. case row of
         None \<Rightarrow> release_denied ''pending_release_not_found'' 404
       | Some r \<Rightarrow> if dp_state r \<noteq> ''pending'' then release_denied ''pending_release_not_found'' 404
                   else retS (dp_command r))"

text \<open>The stored command is still the caller's: same identifier and same payload hash.\<close>

definition owns_release :: "env \<Rightarrow> evolution_deployment \<Rightarrow> skill_release_command \<Rightarrow> exc + bool" where
  "owns_release E row c =
     (if dp_state row \<noteq> ''pending'' \<or> sc_command_id (dp_command row) \<noteq> sc_command_id c then Inr False
      else bindE (payload_hash E (dp_command row)) (\<lambda>hs. bindE (payload_hash E c) (\<lambda>hc. Inr (hs = hc))))"

definition deployed_metadata :: "skill_release_command \<Rightarrow> pydict \<Rightarrow> string \<Rightarrow> pydict \<Rightarrow> pydict" where
  "deployed_metadata c response expected old =
     AList.update ''deployed_skill_version'' (PInt (if expected = ''active'' then sc_candidate_version c else sc_baseline_version c))
       (AList.update ''experiment_id'' (dict_get ''experiment_id'' PNone response)
         (AList.update ''evaluation_report_id'' (PStr (sc_evaluation_report_id c))
           (AList.update ''deployment_id'' (PStr (sc_deployment_id c)) old)))"

definition advance_proposal :: "env \<Rightarrow> evolution_proposal \<Rightarrow> string \<Rightarrow> string \<Rightarrow> (world, unit) op" where
  "advance_proposal E p expected actor_id =
     (if evolution_rollout_state_value (ep_rollout_state p) = expected then retS ()
      else case advance_rollout (StrArg expected) (from_record p) of
          (Inl e, a) \<Rightarrow> raiseS e
        | (Inr u, a) \<Rightarrow>
            bindS (write_proposal (ep_proposal_id p) (\<lambda>p. p\<lparr>ep_rollout_state := ep_rollout_state (agg_record a)\<rparr>)) (\<lambda>_.
            bindS (append_control_plane_domain_event_audits E (map EvRollout (agg_events a))
                     (audit_context ''operator'' actor_id)) (\<lambda>_. retS ())))"

definition acknowledge :: "env \<Rightarrow> skill_release_command \<Rightarrow> pydict \<Rightarrow> string \<Rightarrow> (world, unit) op" where
  "acknowledge E c response actor_id =
     (case map_of TARGET_STATES (sc_action c) of
        None \<Rightarrow> raiseS (ExternalError ''KeyError'' (sc_action c))
      | Some expected \<Rightarrow>
          if map_of response ''state'' \<noteq> Some (PStr expected) \<or>
             map_of response ''deployment_id'' \<noteq> Some (PStr (sc_deployment_id c))
          then release_denied ''evolution_receiver_state_mismatch'' 502
          else
            bindS (query_db (company_proposal (sc_company_id c) (sc_proposal_id c))) (\<lambda>proposal.
            bindS (query_db (\<lambda>d. find (\<lambda>r. dp_company_id r = sc_company_id c \<and> dp_proposal_id r = sc_proposal_id c \<and>
                     dp_deployment_id r = sc_deployment_id c) (t_deployments d))) (\<lambda>deployment.
            case (proposal, deployment) of
              (Some p, Some row) \<Rightarrow>
                bindS (liftE (owns_release E row c)) (\<lambda>own.
                if \<not> own then release_denied ''evolution_release_owner_lost'' 409
                else
                  bindS (now_utc E) (\<lambda>now.
                  bindS (write_deployment (dp_deployment_id row) (\<lambda>r. r\<lparr>dp_state := expected,
                           dp_acknowledgement := response, dp_updated_at := now\<rparr>)) (\<lambda>_.
                  bindS (advance_proposal E p expected actor_id) (\<lambda>_.
                  bindS (write_proposal (ep_proposal_id p) (\<lambda>p. p\<lparr>ep_metadata :=
                           deployed_metadata c response expected (ep_metadata p)\<rparr>)) (\<lambda>_.
                    release_audit E (sc_company_id c) (sc_proposal_id c) ''evolution.release_applied'' actor_id response)))))
            | _ \<Rightarrow> release_denied ''evolution_release_owner_lost'' 409)))"

definition command_request :: "skill_release_command \<Rightarrow> release_request" where
  "command_request c =
     \<lparr>rq_company_id = sc_company_id c, rq_proposal_id = sc_proposal_id c,
      rq_evaluation_report_id = sc_evaluation_report_id c, rq_skill_id = sc_skill_id c, rq_agent_id = sc_agent_id c,
      rq_baseline_version = sc_baseline_version c, rq_candidate_version = sc_candidate_version c,
      rq_baseline_config_hash = sc_baseline_config_hash c, rq_candidate_config_hash = sc_candidate_config_hash c,
      rq_action = sc_action c\<rparr>"

text \<open>The acknowledged state is restored, or the row of a first command is deleted.\<close>

definition reset_deployment :: "env \<Rightarrow> evolution_deployment \<Rightarrow> int \<Rightarrow> (world, unit) op" where
  "reset_deployment E row now =
     (case dict_get ''state'' PNone (dp_acknowledgement row) of
        PNone \<Rightarrow>
          if sc_action (dp_command row) \<noteq> ''shadow'' \<or> dp_acknowledgement row \<noteq> []
          then release_denied ''release_acknowledged_state_missing'' 409
          else bindS (write_db (\<lambda>d. d\<lparr>t_deployments := filter (\<lambda>r. dp_deployment_id r \<noteq> dp_deployment_id row) (t_deployments d)\<rparr>)) (\<lambda>_.
                 flush E)
      | PStr s \<Rightarrow>
          if s \<in> {''shadow'', ''canary'', ''active''} then
            bindS (write_deployment (dp_deployment_id row) (\<lambda>r. r\<lparr>dp_state := s, dp_updated_at := now\<rparr>)) (\<lambda>_. flush E)
          else release_denied ''release_acknowledged_state_invalid'' 409
      | _ \<Rightarrow> release_denied ''release_acknowledged_state_invalid'' 409)"

definition recover_expired_pending :: "env \<Rightarrow> skill_release_command \<Rightarrow> string \<Rightarrow> (world, skill_release_command) op" where
  "recover_expired_pending E c actor_id =
     bindS (query_db (company_proposal (sc_company_id c) (sc_proposal_id c))) (\<lambda>proposal.
     bindS (query_db (company_deployment (sc_company_id c) (sc_proposal_id c))) (\<lambda>deployment.
     case (proposal, deployment) of
       (Some p, Some row) \<Rightarrow>
         bindS (liftE (owns_release E row c)) (\<lambda>own.
         if \<not> own then release_denied ''evolution_release_owner_lost'' 409
         else
           bindS (now_utc E) (\<lambda>now.
           if now < dt_utc (sc_expires_at (dp_command row)) then release_denied ''release_command_not_expired'' 409
           else
             bindS (liftE (payload_hash E (dp_command row))) (\<lambda>superseded_hash.
             bindS (release_audit E (sc_company_id c) (sc_proposal_id c) ''evolution.release_expired_command_recovered'' actor_id
                      [(''deployment_id'', PStr (dp_deployment_id row)),
                       (''superseded_command'', release_command_json (e_iso E) (dp_command row)),
                       (''superseded_payload_hash'', PStr superseded_hash), (''receiver_lookup'', PStr ''not_found''),
                       (''restored_acknowledged_state'', dict_get ''state'' PNone (dp_acknowledgement row))]) (\<lambda>_.
             bindS (reset_deployment E row now) (\<lambda>_.
               prepare E (command_request (dp_command row)) actor_id (Some (dp_deployment_id row)))))))
     | _ \<Rightarrow> release_denied ''pending_release_not_found'' 404))"

section \<open>The release routes\<close>

text \<open>The Control Plane and the runtime, each with a database of its own.\<close>

type_synonym release_system = "world \<times> runtime"

definition on_world :: "(world, 'a) op \<Rightarrow> (release_system, 'a) op" where
  "on_world m s = (case m (fst s) of (q, w) \<Rightarrow> (q, (w, snd s)))"

text \<open>What the network does with a request to the runtime.\<close>

datatype delivery = Delivered | RequestLost | ReplyLost

definition call_runtime :: "delivery \<Rightarrow> (runtime, 'a) op \<Rightarrow> (release_system, 'a) op" where
  "call_runtime d m s =
     (case d of
        RequestLost \<Rightarrow> (Inl (ExternalError ''TransportError'' []), s)
      | ReplyLost \<Rightarrow> (Inl (ExternalError ''TransportError'' []), (fst s, snd (m (snd s))))
      | Delivered \<Rightarrow>
          (case m (snd s) of
             (Inr a, rt) \<Rightarrow> (Inr a, (fst s, rt))
           | (Inl e, rt) \<Rightarrow> (Inl (ExternalError ''HTTPStatusError'' []), (fst s, rt))))"

definition gateway_lookup ::
  "env \<Rightarrow> runtime_settings \<Rightarrow> delivery \<Rightarrow> skill_release_command \<Rightarrow> (release_system, pydict option) op" where
  "gateway_lookup E R d c =
     bindS (call_runtime d (get_release_command R (sc_command_id c))) (\<lambda>v. case v of
         None \<Rightarrow> retS None
       | Some r \<Rightarrow>
           bindS (liftE (payload_hash E c)) (\<lambda>hash.
           if rc_command_id r \<noteq> sc_command_id c \<or> rc_deployment_id r \<noteq> sc_deployment_id c \<or> rc_payload_hash r \<noteq> hash
           then raiseS (ValueError ''invalid_evolution_reconciliation'') else retS (Some (rc_response r))))"

text \<open>\<open>S\<close> holds the signing key of the Control Plane, \<open>R\<close> the settings of the runtime.\<close>

definition gateway_apply ::
  "env \<Rightarrow> runtime_settings \<Rightarrow> runtime_settings \<Rightarrow> delivery \<Rightarrow> skill_release_command \<Rightarrow> (release_system, pydict) op" where
  "gateway_apply E S R d c =
     bindS (liftE (sign_command S c)) (\<lambda>signature.
     bindS (call_runtime d (route_apply_skill_release E R c signature)) (\<lambda>v.
       if map_of v ''deployment_id'' \<noteq> Some (PStr (sc_deployment_id c))
       then raiseS (ValueError ''invalid_evolution_acknowledgement'') else retS v))"

record operator_principal =
  op_actor_id :: string
  op_company_scopes :: "string list"
  op_scopes :: "string list"

definition api_error :: "int \<Rightarrow> string \<Rightarrow> ('s, 'a) op" where
  "api_error status detail = raiseS (ExternalError ''HTTPException'' (int_text status @ '' '' @ detail))"

definition principal_require :: "operator_principal \<Rightarrow> string \<Rightarrow> string \<Rightarrow> ('s, unit) op" where
  "principal_require p action company_id =
     (if ''*'' \<notin> set (op_company_scopes p) \<and> company_id \<notin> set (op_company_scopes p) \<or>
         ''*'' \<notin> set (op_scopes p) \<and> action \<notin> set (op_scopes p)
      then api_error 403 ''operator_scope_denied'' else retS ())"

definition release_request_ok :: "release_request \<Rightarrow> bool" where
  "release_request_ok rq \<longleftrightarrow>
     text_within 48 (rq_company_id rq) \<and> text_within 48 (rq_evaluation_report_id rq) \<and>
     text_within 128 (rq_skill_id rq) \<and> text_within 64 (rq_agent_id rq) \<and>
     1 \<le> rq_baseline_version rq \<and> 1 \<le> rq_candidate_version rq \<and>
     hex64 (rq_baseline_config_hash rq) \<and> hex64 (rq_candidate_config_hash rq) \<and>
     rq_action rq \<in> set RELEASE_ACTIONS"

definition release_errors :: "(release_system, 'a) op \<Rightarrow> (release_system, 'a) op" where
  "release_errors m =
     catchS m (\<lambda>e. case e of
         ExecutionDenied reason status_code \<Rightarrow> api_error status_code reason
       | _ \<Rightarrow> api_error 502 ''evolution_release_pending_reconciliation'')"

text \<open>The unit of work of a request is rolled back when the request fails after its last commit.\<close>

definition unit_of_work :: "(release_system, 'a) op \<Rightarrow> (release_system, 'a) op" where
  "unit_of_work m s =
     (case m s of
        (Inr a, s') \<Rightarrow> (Inr a, s')
      | (Inl e, s') \<Rightarrow> (Inl e, (snd (rollback (fst s')), snd s')))"

text \<open>The command is looked up first and sent when the runtime does not know it.\<close>

definition send_command ::
  "env \<Rightarrow> runtime_settings \<Rightarrow> runtime_settings \<Rightarrow> delivery \<Rightarrow> delivery \<Rightarrow> string \<Rightarrow> skill_release_command \<Rightarrow>
   (release_system, pydict) op" where
  "send_command E S R d1 d2 actor_id c =
     bindS (gateway_lookup E R d1 c) (\<lambda>v.
     bindS (case v of None \<Rightarrow> gateway_apply E S R d2 c | Some response \<Rightarrow> retS response) (\<lambda>response.
     bindS (on_world (acknowledge E c response actor_id)) (\<lambda>_. retS response)))"

definition route_release ::
  "env \<Rightarrow> runtime_settings \<Rightarrow> runtime_settings \<Rightarrow> delivery \<Rightarrow> delivery \<Rightarrow> operator_principal \<Rightarrow> release_request \<Rightarrow>
   (release_system, pydict) op" where
  "route_release E S R d1 d2 p rq =
     (if \<not> release_request_ok rq then api_error 422 ''validation_error''
      else unit_of_work (
        bindS (principal_require p ''evolution:release'' (rq_company_id rq)) (\<lambda>_.
        bindS (release_errors (
          bindS (on_world (prepare E rq (op_actor_id p) None)) (\<lambda>c.
          bindS (on_world checkpoint) (\<lambda>_. send_command E S R d1 d2 (op_actor_id p) c)))) (\<lambda>response.
        bindS (on_world checkpoint) (\<lambda>_. retS response)))))"

definition route_reconcile ::
  "env \<Rightarrow> runtime_settings \<Rightarrow> delivery \<Rightarrow> operator_principal \<Rightarrow> string \<Rightarrow> string \<Rightarrow> (release_system, pydict) op" where
  "route_reconcile E R d p company_id proposal_id =
     unit_of_work (
       bindS (principal_require p ''evolution:release'' company_id) (\<lambda>_.
       release_errors (
         bindS (on_world (pending_release company_id proposal_id)) (\<lambda>c.
         bindS (gateway_lookup E R d c) (\<lambda>v. case v of
             None \<Rightarrow> raiseS (ExecutionDenied ''release_not_applied_pending_review'' 409)
           | Some response \<Rightarrow>
               bindS (on_world (acknowledge E c response (op_actor_id p))) (\<lambda>_.
               bindS (on_world checkpoint) (\<lambda>_. retS response)))))))"

definition route_recover_expired ::
  "env \<Rightarrow> runtime_settings \<Rightarrow> runtime_settings \<Rightarrow> delivery \<Rightarrow> delivery \<Rightarrow> delivery \<Rightarrow> operator_principal \<Rightarrow> string \<Rightarrow> string \<Rightarrow>
   (release_system, pydict) op" where
  "route_recover_expired E S R d1 d2 d3 p company_id proposal_id =
     unit_of_work (
       bindS (principal_require p ''evolution:release'' company_id) (\<lambda>_.
       release_errors (
         bindS (on_world (pending_release company_id proposal_id)) (\<lambda>original.
         bindS (on_world checkpoint) (\<lambda>_.
         bindS (gateway_lookup E R d1 original) (\<lambda>v. case v of
             Some receipt \<Rightarrow>
               bindS (on_world (acknowledge E original receipt (op_actor_id p))) (\<lambda>_.
               bindS (on_world checkpoint) (\<lambda>_. retS receipt))
           | None \<Rightarrow>
               bindS (on_world (recover_expired_pending E original (op_actor_id p))) (\<lambda>replacement.
               bindS (on_world checkpoint) (\<lambda>_.
               bindS (send_command E S R d2 d3 (op_actor_id p) replacement) (\<lambda>response.
               bindS (on_world checkpoint) (\<lambda>_. retS response))))))))))"

end
