(* ===== verification/Skill_Execution.thy ===== *)
theory Skill_Execution
  imports Skill_Release
begin

text \<open>
  What runs between the commands of a release: the experiment aggregate
  (\<open>evolution/domain/experiment.py\<close>), the canary router (\<open>evolution/canary_router.py\<close>), the selection
  of a frozen configuration and the recording of its result (\<open>evolution/skill_execution_contract.py\<close>,
  \<open>evolution/db/skill_execution_store.py\<close>, \<open>capabilities/evolution/core/skill_execution.py\<close>), the guard
  that rolls a degraded skill back (\<open>evolution/evolution_guard.py\<close> with the queries of
  \<open>evolution/db/repository.py\<close>) and the kill switch (\<open>evolution/kill_switch.py\<close>).

  A query with a limit and no order takes the first row of the table.
\<close>

section \<open>The experiment aggregate\<close>

record experiment_route_decision =
  rd_experiment_id :: string
  rd_bucket :: int
  rd_is_candidate :: bool
  rd_skill_version :: int

definition normalize_min_samples :: "int \<Rightarrow> int" where
  "normalize_min_samples v = max v 1"

definition required_experiment_id :: "evolution_experiment \<Rightarrow> exc + string" where
  "required_experiment_id x =
     (let text = py_strip (xp_experiment_id x)
      in if text = [] then Inl (InvalidEvolutionExperimentError ''experiment_id must not be empty'') else Inr text)"

definition experiment_route :: "evolution_experiment \<Rightarrow> int \<Rightarrow> exc + experiment_route_decision" where
  "experiment_route x bucket =
     bindE (guardE (0 \<le> bucket \<and> bucket < 100) (InvalidEvolutionExperimentError ''bucket must be in [0, 100)'')) (\<lambda>_.
     let is_candidate = bucket < max (xp_traffic_pct x) 0 in
     bindE (required_experiment_id x) (\<lambda>i.
       Inr \<lparr>rd_experiment_id = i, rd_bucket = bucket, rd_is_candidate = is_candidate,
            rd_skill_version = (if is_candidate then xp_candidate_version x else xp_control_version x)\<rparr>))"

record experiment_score_summary =
  sm_control_scores :: "pyfloat list"
  sm_candidate_scores :: "pyfloat list"
  sm_min_samples :: int
  sm_min_improvement :: pyfloat

definition score_summary :: "int option \<Rightarrow> evolution_experiment \<Rightarrow> experiment_score_summary" where
  "score_summary min_samples_override x =
     \<lparr>sm_control_scores = results (xp_control_results x), sm_candidate_scores = results (xp_candidate_results x),
      sm_min_samples = normalize_min_samples (case min_samples_override of Some n \<Rightarrow> n | None \<Rightarrow> xp_min_samples x),
      sm_min_improvement = pf_max (xp_min_improvement x) (Fin 0)\<rparr>"

definition has_min_samples :: "experiment_score_summary \<Rightarrow> bool" where
  "has_min_samples s \<longleftrightarrow>
     sm_min_samples s \<le> int (length (sm_control_scores s)) \<and> sm_min_samples s \<le> int (length (sm_candidate_scores s))"

definition arm_mean :: "runtime_settings \<Rightarrow> pyfloat list \<Rightarrow> pyfloat" where
  "arm_mean R scores = (if scores = [] then Fin 0 else mean R scores)"

definition degradation :: "runtime_settings \<Rightarrow> experiment_score_summary \<Rightarrow> pyfloat" where
  "degradation R s =
     (let control = arm_mean R (sm_control_scores s); candidate = arm_mean R (sm_candidate_scores s)
      in pf_div (pf_sub control candidate) (pf_max control (f64_round (1 / 100))))"

definition rollout_decision :: "runtime_settings \<Rightarrow> pyfloat \<Rightarrow> experiment_score_summary \<Rightarrow> string" where
  "rollout_decision R required s =
     (if \<not> has_min_samples s then ''continue''
      else if pf_le required (arm_mean R (sm_candidate_scores s)) then ''promote''
      else if pf_less (f64_round (1 / 10)) (degradation R s) then ''rollback''
      else ''continue'')"

definition canary_rollout_decision :: "runtime_settings \<Rightarrow> int option \<Rightarrow> evolution_experiment \<Rightarrow> string" where
  "canary_rollout_decision R min_samples_override x =
     (let s = score_summary min_samples_override x
      in rollout_decision R (arm_mean R (sm_control_scores s)) s)"

definition optimizer_rollout_decision :: "runtime_settings \<Rightarrow> evolution_experiment \<Rightarrow> string" where
  "optimizer_rollout_decision R x =
     (let s = score_summary None x
      in rollout_decision R (pf_add (arm_mean R (sm_control_scores s)) (sm_min_improvement s)) s)"

definition status_for_decision :: "string \<Rightarrow> string" where
  "status_for_decision decision =
     (if decision = ''promote'' then ''promoted'' else if decision = ''rollback'' then ''rolled_back'' else ''running'')"

section \<open>Queries of the repository\<close>

text \<open>The first row in the order of a key.\<close>

definition first_by :: "('a \<Rightarrow> int) \<Rightarrow> 'a list \<Rightarrow> 'a option" where
  "first_by key rows = (case sort_key key rows of [] \<Rightarrow> None | r # rs \<Rightarrow> Some r)"

definition get_active_skill :: "string \<Rightarrow> runtime \<Rightarrow> skill_config option" where
  "get_active_skill skill_id w =
     first_by (\<lambda>s. - sk_created_at s)
       (filter (\<lambda>s. sk_skill_id s = skill_id \<and> sk_status s = ''active'') (rt_skills w))"

text \<open>Ordered by the time of promotion, latest first, rows that were never promoted last.\<close>

definition get_previous_active :: "string \<Rightarrow> runtime \<Rightarrow> skill_config option" where
  "get_previous_active skill_id w =
     (let retired = filter (\<lambda>s. sk_skill_id s = skill_id \<and> sk_status s = ''retired'') (rt_skills w);
          promoted = sort_key (\<lambda>s. case sk_promoted_at s of Some t \<Rightarrow> - t | None \<Rightarrow> 0)
                       (filter (\<lambda>s. sk_promoted_at s \<noteq> None) retired)
      in case promoted @ filter (\<lambda>s. sk_promoted_at s = None) retired of [] \<Rightarrow> None | s # ss \<Rightarrow> Some s)"

definition get_active_experiment :: "runtime_settings \<Rightarrow> string \<Rightarrow> string \<Rightarrow> runtime \<Rightarrow> evolution_experiment option" where
  "get_active_experiment R agent_id skill_id w =
     find (\<lambda>x. xp_agent_id x = agent_id \<and> xp_skill_id x = skill_id \<and> xp_status x = ''running'' \<and>
               list_ex (\<lambda>r. sr_experiment_id r = Some (xp_experiment_id x) \<and> sr_state r = ''canary'' \<and>
                            sr_company_id r = rs_company_id R) (rt_releases w)) (rt_experiments w)"

definition save_trace ::
  "env \<Rightarrow> string \<Rightarrow> string \<Rightarrow> string \<Rightarrow> bool \<Rightarrow> string option \<Rightarrow> string option \<Rightarrow> pyfloat option \<Rightarrow> (runtime, unit) op" where
  "save_trace E trace_id agent_id event_type success skill_used version auto_score =
     bindS (now_runtime E) (\<lambda>started. bindS (now_runtime E) (\<lambda>created.
     modifyS (\<lambda>w. w\<lparr>rt_traces := rt_traces w @
       [\<lparr>et_trace_id = trace_id, et_agent_id = agent_id, et_event_type = event_type, et_skill_used = skill_used,
         et_skill_version = version, et_success = success, et_auto_score = auto_score,
         et_started_at = started, et_created_at = created\<rparr>]\<rparr>)))"

definition get_recent_traces :: "string \<Rightarrow> int \<Rightarrow> string \<Rightarrow> runtime \<Rightarrow> evolution_trace list" where
  "get_recent_traces agent_id limit skill_id w =
     take (nat limit) (sort_key (\<lambda>t. - et_created_at t)
       (filter (\<lambda>t. et_agent_id t = agent_id \<and> et_skill_used t = Some skill_id) (rt_traces w)))"

definition calc_success_rate :: "string \<Rightarrow> string \<Rightarrow> int \<Rightarrow> runtime \<Rightarrow> pyfloat" where
  "calc_success_rate agent_id skill_id limit w =
     (let traces = get_recent_traces agent_id limit skill_id w
      in if traces = [] then Fin 0
         else f64_round (of_nat (length (filter et_success traces)) / of_nat (length traces)))"

section \<open>The canary router\<close>

text \<open>The first eight hexadecimal digits of the digest, as a number.\<close>

definition canary_bucket :: "runtime_settings \<Rightarrow> string \<Rightarrow> int" where
  "canary_bucket R trace_id = foldl (\<lambda>n b. 256 * n + uint b) 0 (take 4 (rs_md5 R trace_id)) mod 100"

text \<open>
  The version of the active skill is the text of its column; with debug logging on, the log line
  formats it as a number, which raises.
\<close>

definition resolve_skill_version :: "runtime_settings \<Rightarrow> string \<Rightarrow> string \<Rightarrow> string \<Rightarrow> (runtime, pyval) op" where
  "resolve_skill_version R agent_id skill_id trace_id =
     bindS (getS (get_active_experiment R agent_id skill_id)) (\<lambda>experiment. case experiment of
         None \<Rightarrow>
           bindS (getS (get_active_skill skill_id)) (\<lambda>active. case active of
               None \<Rightarrow> retS (PInt 1)
             | Some s \<Rightarrow>
                 if rs_debug R then raiseS (TypeError ''%d format: a real number is required, not str'')
                 else retS (PStr (sk_version s)))
       | Some x \<Rightarrow>
           bindS (liftE (experiment_route x (canary_bucket R trace_id))) (\<lambda>d. retS (PInt (rd_skill_version d))))"

definition record_canary_result :: "runtime_settings \<Rightarrow> string \<Rightarrow> string \<Rightarrow> string \<Rightarrow> pyfloat \<Rightarrow> (runtime, unit) op" where
  "record_canary_result R agent_id skill_id trace_id score =
     bindS (getS (get_active_experiment R agent_id skill_id)) (\<lambda>experiment. case experiment of
         None \<Rightarrow> retS ()
       | Some x \<Rightarrow>
           bindS (liftE (experiment_route x (canary_bucket R trace_id))) (\<lambda>d.
             add_experiment_result (rd_experiment_id d) (rd_is_candidate d) score))"

definition check_experiment :: "env \<Rightarrow> runtime_settings \<Rightarrow> string \<Rightarrow> string \<Rightarrow> int option \<Rightarrow> (runtime, string) op" where
  "check_experiment E R agent_id skill_id min_samples =
     bindS (getS (get_active_experiment R agent_id skill_id)) (\<lambda>experiment. case experiment of
         None \<Rightarrow> retS ''no_experiment''
       | Some x \<Rightarrow>
           let decision = canary_rollout_decision R min_samples x in
           if decision = ''continue'' then retS ''continue''
           else if decision = ''promote'' then retS ''promotion_pending''
           else if decision = ''rollback'' then
             bindS (liftE (required_experiment_id x)) (\<lambda>i.
             bindS (conclude_experiment E i (status_for_decision decision)) (\<lambda>_. retS ''rollback''))
           else retS ''continue'')"

section \<open>Selections and results\<close>

record skill_selection_request =
  sq_company_id :: string
  sq_agent_id :: string
  sq_skill_id :: string
  sq_trace_id :: string

record skill_selection = skill_selection_request +
  sl_deployment_id :: string
  sl_experiment_id :: "string option"
  sl_version :: int
  sl_configuration_hash :: string
  sl_configuration :: pydict
  sl_expires_at :: pydt
  sl_signature :: string

record skill_execution_result =
  xr_selection :: skill_selection
  xr_score :: pyfloat
  xr_success :: bool

text \<open>\<open>model_dump(mode="json")\<close> without the signature.\<close>

definition selection_json :: "env \<Rightarrow> skill_selection \<Rightarrow> pyval" where
  "selection_json E s = PMap
     [(''company_id'', PStr (sq_company_id s)), (''agent_id'', PStr (sq_agent_id s)), (''skill_id'', PStr (sq_skill_id s)),
      (''trace_id'', PStr (sq_trace_id s)), (''schema_version'', PStr ''1.0''), (''deployment_id'', PStr (sl_deployment_id s)),
      (''experiment_id'', opt_str (sl_experiment_id s)), (''version'', PInt (sl_version s)),
      (''configuration_hash'', PStr (sl_configuration_hash s)), (''configuration'', PMap (sl_configuration s)),
      (''expires_at'', PStr (e_iso E (sl_expires_at s)))]"

definition selection_signature :: "env \<Rightarrow> runtime_settings \<Rightarrow> skill_selection \<Rightarrow> exc + string" where
  "selection_signature E R s =
     (if length (rs_signing_key R) < 32 then Inl (ValueError ''evolution_deployment_signing_key_required'')
      else bindE (canonical_hash E (selection_json E s)) (\<lambda>digest. Inr (rs_hmac R (rs_signing_key R) digest)))"

definition verify_selection :: "env \<Rightarrow> runtime_settings \<Rightarrow> skill_selection \<Rightarrow> (runtime, unit) op" where
  "verify_selection E R s =
     bindS (now_runtime E) (\<lambda>now.
     if dt_offset (sl_expires_at s) = None \<or> dt_utc (sl_expires_at s) \<le> now
     then raiseS (ValueError ''evolution_skill_selection_expired'')
     else
       bindS (liftE (selection_signature E R s)) (\<lambda>expected.
       if sl_signature s \<noteq> expected then raiseS (ValueError ''evolution_skill_selection_signature_invalid'')
       else
         bindS (liftE (canonical_hash E (PMap (sl_configuration s)))) (\<lambda>hash.
           guardS (hash = sl_configuration_hash s) (ValueError ''evolution_skill_configuration_hash_mismatch''))))"

definition skill_configuration :: "skill_config \<Rightarrow> pydict" where
  "skill_configuration s =
     [(''skill_id'', PStr (sk_skill_id s)), (''version'', PStr (sk_version s)),
      (''system_prompt'', PStr (sk_system_prompt s)),
      (''parameters'', PMap (case sk_parameters s of None \<Rightarrow> [] | Some p \<Rightarrow> p)),
      (''few_shot_examples'', PList (case sk_few_shot_examples s of None \<Rightarrow> [] | Some x \<Rightarrow> x)),
      (''output_format'', PStr (sk_output_format s)), (''target_model'', PStr (sk_target_model s))]"

text \<open>\<open>int(value)\<close> of a version.\<close>

definition version_number :: "pyval \<Rightarrow> exc + int" where
  "version_number v =
     (case v of
        PInt i \<Rightarrow> Inr i
      | PStr s \<Rightarrow> (case int_of_text s of Some i \<Rightarrow> Inr i | None \<Rightarrow> Inl (ValueError ''invalid literal for int()''))
      | _ \<Rightarrow> Inl (TypeError ''int()''))"

definition governing_release :: "skill_selection_request \<Rightarrow> int \<Rightarrow> runtime \<Rightarrow> skill_release option" where
  "governing_release rq active_version w =
     (let rows = filter (\<lambda>r. sr_company_id r = sq_company_id rq \<and> sr_agent_id r = sq_agent_id rq \<and>
            sr_skill_id r = sq_skill_id rq \<and>
            (sr_state r = ''canary'' \<and> sr_baseline_version r = active_version \<or>
             sr_state r = ''active'' \<and> sr_candidate_version r = active_version \<or>
             sr_state r = ''rolled_back'' \<and> sr_baseline_version r = active_version)) (rt_releases w)
      in first_by (\<lambda>r. if sr_state r = ''canary'' then 0 else if sr_state r = ''active'' then 1 else 2)
           (sort_key (\<lambda>r. - sr_updated_at r) rows))"

definition frozen_hash :: "skill_release \<Rightarrow> int \<Rightarrow> string" where
  "frozen_hash r version = (if version = sr_candidate_version r then sr_candidate_config_hash r else sr_baseline_config_hash r)"

definition selection_of ::
  "skill_selection_request \<Rightarrow> skill_release \<Rightarrow> int \<Rightarrow> string \<Rightarrow> skill_config \<Rightarrow> int \<Rightarrow> string \<Rightarrow> skill_selection" where
  "selection_of rq r version digest config now signature =
     \<lparr>sq_company_id = sq_company_id rq, sq_agent_id = sq_agent_id rq, sq_skill_id = sq_skill_id rq,
      sq_trace_id = sq_trace_id rq, sl_deployment_id = sr_deployment_id r,
      sl_experiment_id = (if sr_state r = ''canary'' then sr_experiment_id r else None), sl_version = version,
      sl_configuration_hash = digest, sl_configuration = skill_configuration config,
      sl_expires_at = utc_dt (now + 3600 * 1000000), sl_signature = signature\<rparr>"

definition selected_version ::
  "runtime_settings \<Rightarrow> skill_selection_request \<Rightarrow> skill_release \<Rightarrow> int \<Rightarrow> (runtime, int) op" where
  "selected_version R rq r active_version =
     (if sr_state r = ''canary'' then
        bindS (resolve_skill_version R (sq_agent_id rq) (sq_skill_id rq) (sq_trace_id rq)) (\<lambda>v. liftE (version_number v))
      else retS active_version)"

definition freeze_selection ::
  "env \<Rightarrow> runtime_settings \<Rightarrow> skill_selection_request \<Rightarrow> skill_release \<Rightarrow> int \<Rightarrow> (runtime, skill_selection) op" where
  "freeze_selection E R rq r version =
     bindS (getS (skill_version (sq_skill_id rq) version)) (\<lambda>config. case config of
         None \<Rightarrow> raiseS (ValueError ''release_skill_version_missing'')
       | Some s \<Rightarrow>
           bindS (liftE (canonical_hash E (PMap (skill_configuration s)))) (\<lambda>digest.
           if digest \<noteq> frozen_hash r version then raiseS (ValueError ''release_skill_config_hash_mismatch'')
           else
             bindS (now_runtime E) (\<lambda>now.
             if \<not> (1 \<le> version \<and> hex64 digest) then raiseS (ValueError ''SkillSelection'')
             else
               bindS (liftE (selection_signature E R (selection_of rq r version digest s now []))) (\<lambda>signature.
                 retS (selection_of rq r version digest s now signature)))))"

definition resolve_selection ::
  "env \<Rightarrow> runtime_settings \<Rightarrow> skill_selection_request \<Rightarrow> (runtime, skill_selection option) op" where
  "resolve_selection E R rq =
     (if sq_company_id rq \<noteq> rs_company_id R then raiseS (ValueError ''release_company_not_owned'')
      else
        bindS (getS (get_active_skill (sq_skill_id rq))) (\<lambda>active. case active of
            None \<Rightarrow> retS None
          | Some a \<Rightarrow>
              bindS (liftE (version_number (PStr (sk_version a)))) (\<lambda>active_version.
              bindS (getS (governing_release rq active_version)) (\<lambda>release. case release of
                  None \<Rightarrow> retS None
                | Some r \<Rightarrow>
                    bindS (selected_version R rq r active_version) (\<lambda>version.
                    bindS (freeze_selection E R rq r version) (\<lambda>s. retS (Some s)))))))"

definition find_trace :: "skill_selection \<Rightarrow> runtime \<Rightarrow> evolution_trace option" where
  "find_trace s w =
     find (\<lambda>t. et_trace_id t = sq_trace_id s \<and> et_agent_id t = sq_agent_id s \<and> et_skill_used t = Some (sq_skill_id s)) (rt_traces w)"

definition canary_running :: "skill_selection \<Rightarrow> skill_release option \<Rightarrow> evolution_experiment option \<Rightarrow> bool" where
  "canary_running s release experiment =
     (case (release, experiment) of
        (Some r, Some x) \<Rightarrow>
          sr_company_id r = sq_company_id s \<and> sr_state r = ''canary'' \<and> xp_status x = ''running'' \<and>
          xp_agent_id x = sq_agent_id s \<and> xp_skill_id x = sq_skill_id s \<and> sr_experiment_id r = Some (xp_experiment_id x)
      | _ \<Rightarrow> False)"

definition recorded_answer :: "string \<Rightarrow> bool \<Rightarrow> pydict" where
  "recorded_answer state recorded = [(''state'', PStr state), (''recorded'', PBool recorded)]"

definition same_version :: "evolution_trace \<Rightarrow> skill_selection \<Rightarrow> bool" where
  "same_version t s \<longleftrightarrow> et_skill_version t = Some (int_text (sl_version s)) \<or>
     et_skill_version t = None \<and> int_text (sl_version s) = ''None''"

text \<open>The first row of the trace is updated, which is the one that was found.\<close>

fun update_first :: "('a \<Rightarrow> bool) \<Rightarrow> ('a \<Rightarrow> 'a) \<Rightarrow> 'a list \<Rightarrow> 'a list" where
  "update_first P f [] = []"
| "update_first P f (x # xs) = (if P x then f x # xs else x # update_first P f xs)"

definition store_observation :: "env \<Rightarrow> skill_execution_result \<Rightarrow> evolution_trace option \<Rightarrow> (runtime, unit) op" where
  "store_observation E result prior =
     (let s = xr_selection result in
      case prior of
        None \<Rightarrow> save_trace E (sq_trace_id s) (sq_agent_id s) ''evolution.skill.executed'' (xr_success result)
                  (Some (sq_skill_id s)) (Some (int_text (sl_version s))) (Some (xr_score result))
      | Some t \<Rightarrow>
          if \<not> same_version t s then raiseS (ValueError ''release_execution_result_conflict'')
          else modifyS (\<lambda>w. w\<lparr>rt_traces := update_first
            (\<lambda>t. et_trace_id t = sq_trace_id s \<and> et_agent_id t = sq_agent_id s \<and> et_skill_used t = Some (sq_skill_id s))
            (\<lambda>t. t\<lparr>et_auto_score := Some (xr_score result), et_success := xr_success result\<rparr>) (rt_traces w)\<rparr>))"

definition record_result :: "env \<Rightarrow> runtime_settings \<Rightarrow> skill_execution_result \<Rightarrow> (runtime, pydict) op" where
  "record_result E R result =
     (let s = xr_selection result in
      if sq_company_id s \<noteq> rs_company_id R then raiseS (ValueError ''release_company_not_owned'')
      else case sl_experiment_id s of
          None \<Rightarrow> retS (recorded_answer ''active'' False)
        | Some i \<Rightarrow>
            bindS (getS (find_release (sl_deployment_id s))) (\<lambda>release.
            bindS (getS (find_experiment (Some i))) (\<lambda>experiment.
            if \<not> canary_running s release experiment then raiseS (ValueError ''release_experiment_not_running'')
            else case (release, experiment) of
                (Some r, Some x) \<Rightarrow>
                  bindS (resolve_skill_version R (sq_agent_id s) (sq_skill_id s) (sq_trace_id s)) (\<lambda>expected.
                  if expected \<noteq> PInt (sl_version s) then raiseS (ValueError ''release_executed_version_mismatch'')
                  else if frozen_hash r (sl_version s) \<noteq> sl_configuration_hash s
                  then raiseS (ValueError ''release_skill_config_hash_mismatch'')
                  else
                    bindS (getS (find_trace s)) (\<lambda>prior.
                    case (case prior of None \<Rightarrow> None | Some t \<Rightarrow> map_option (Pair t) (et_auto_score t)) of
                      Some (t, score) \<Rightarrow>
                        if \<not> same_version t s \<or> \<not> pf_eq score (xr_score result)
                        then raiseS (ValueError ''release_execution_result_conflict'')
                        else retS (recorded_answer ''canary'' False)
                    | None \<Rightarrow>
                        bindS (store_observation E result prior) (\<lambda>_.
                        bindS (add_experiment_result (xp_experiment_id x) (sl_version s = xp_candidate_version x) (xr_score result)) (\<lambda>_.
                          retS (recorded_answer ''canary'' True)))))
              | _ \<Rightarrow> raiseS (ValueError ''release_experiment_not_running''))))"

definition selection_request_ok :: "'a skill_selection_request_scheme \<Rightarrow> bool" where
  "selection_request_ok rq \<longleftrightarrow>
     text_within 48 (sq_company_id rq) \<and> text_within 64 (sq_agent_id rq) \<and> text_within 128 (sq_skill_id rq) \<and>
     text_within 64 (sq_trace_id rq)"

definition execution_result_ok :: "skill_execution_result \<Rightarrow> bool" where
  "execution_result_ok result \<longleftrightarrow>
     selection_request_ok (xr_selection result) \<and> (case xr_score result of Fin q \<Rightarrow> 0 \<le> q \<and> q \<le> 1 | _ \<Rightarrow> False) \<and> 1 \<le> sl_version (xr_selection result) \<and>
     hex64 (sl_configuration_hash (xr_selection result)) \<and> hex64 (sl_signature (xr_selection result))"

definition route_record_result :: "env \<Rightarrow> runtime_settings \<Rightarrow> skill_execution_result \<Rightarrow> (runtime, pydict) op" where
  "route_record_result E R result =
     (if \<not> execution_result_ok result then raiseS (ValueError ''SkillExecutionResult'')
      else runtime_transaction (bindS (verify_selection E R (xr_selection result)) (\<lambda>_. record_result E R result)))"

definition route_resolve_selection ::
  "env \<Rightarrow> runtime_settings \<Rightarrow> skill_selection_request \<Rightarrow> (runtime, skill_selection option) op" where
  "route_resolve_selection E R rq =
     (if \<not> selection_request_ok rq then raiseS (ValueError ''SkillSelectionRequest'')
      else runtime_transaction (resolve_selection E R rq))"

section \<open>The guard\<close>

text \<open>Counters of Redis with the time they expire, and its plain keys.\<close>

record redis =
  rd_counters :: "(string \<times> int \<times> int) list"
  rd_keys :: "(string \<times> string) list"

record guard_settings =
  gd_rollback_threshold :: pyfloat
  gd_min_samples :: int
  gd_max_rollbacks_per_day :: int

type_synonym guarded_runtime = "runtime \<times> redis"

definition on_runtime :: "(runtime, 'a) op \<Rightarrow> (guarded_runtime, 'a) op" where
  "on_runtime m s = (case m (fst s) of (q, w) \<Rightarrow> (q, (w, snd s)))"

text \<open>\<open>INCR\<close> followed by \<open>EXPIRE\<close>: an expired counter starts again.\<close>

definition counter_value :: "int \<Rightarrow> string \<Rightarrow> redis \<Rightarrow> int" where
  "counter_value now key rd =
     (case map_of (rd_counters rd) key of Some (n, expires) \<Rightarrow> if now < expires then n else 0 | None \<Rightarrow> 0)"

definition redis_incr :: "int \<Rightarrow> string \<Rightarrow> int \<Rightarrow> redis \<Rightarrow> redis" where
  "redis_incr now key ttl rd =
     rd\<lparr>rd_counters := AList.update key (counter_value now key rd + 1, now + ttl * 1000000) (rd_counters rd)\<rparr>"

definition redis_set :: "string \<Rightarrow> string \<Rightarrow> redis \<Rightarrow> redis" where
  "redis_set key v rd = rd\<lparr>rd_keys := AList.update key v (rd_keys rd)\<rparr>"

text \<open>The active release of the skill does not forbid the rollback.\<close>

definition release_allows_rollback ::
  "env \<Rightarrow> runtime_settings \<Rightarrow> string \<Rightarrow> skill_config \<Rightarrow> skill_config \<Rightarrow> skill_release \<Rightarrow> exc + bool" where
  "release_allows_rollback E R agent_id active baseline r =
     (if sr_company_id r \<noteq> rs_company_id R \<or> sr_agent_id r \<noteq> agent_id then Inr False
      else
        bindE (version_number (PStr (sk_version baseline))) (\<lambda>vb.
        if sr_baseline_version r \<noteq> vb then Inr False
        else
          bindE (version_number (PStr (sk_version active))) (\<lambda>va.
          if sr_candidate_version r \<noteq> va then Inr False
          else
            bindE (skill_config_hash E baseline) (\<lambda>hb.
            if hb \<noteq> sr_baseline_config_hash r then Inr False
            else bindE (skill_config_hash E active) (\<lambda>ha. Inr (ha = sr_candidate_config_hash r))))))"

definition write_skill :: "int \<Rightarrow> (skill_config \<Rightarrow> skill_config) \<Rightarrow> (runtime, unit) op" where
  "write_skill i f = modifyS (\<lambda>w. w\<lparr>rt_skills := update_row sk_id i f (rt_skills w)\<rparr>)"

definition restore_baseline ::
  "env \<Rightarrow> skill_config \<Rightarrow> skill_config \<Rightarrow> skill_release option \<Rightarrow> (runtime, unit) op" where
  "restore_baseline E active baseline release =
     bindS (write_skill (sk_id active) (\<lambda>s. s\<lparr>sk_status := ''retired''\<rparr>)) (\<lambda>_.
     bindS (now_runtime E) (\<lambda>now.
     bindS (write_skill (sk_id baseline) (\<lambda>s. s\<lparr>sk_status := ''active'', sk_promoted_at := Some now\<rparr>)) (\<lambda>_.
     case release of
       None \<Rightarrow> retS ()
     | Some r \<Rightarrow>
         bindS (now_runtime E) (\<lambda>now.
         bindS (modifyS (\<lambda>w. w\<lparr>rt_releases := update_row sr_deployment_id (sr_deployment_id r)
                  (\<lambda>r. r\<lparr>sr_state := ''rolled_back'', sr_version := sr_version r + 1, sr_updated_at := now\<rparr>) (rt_releases w)\<rparr>)) (\<lambda>_.
         whenS (truthy_str (sr_experiment_id r))
           (bindS (getS (find_experiment (sr_experiment_id r))) (\<lambda>experiment. case experiment of
                None \<Rightarrow> retS () | Some x \<Rightarrow> conclude E x ''rolled_back'')))))))"

definition rollback_skill_if_current ::
  "env \<Rightarrow> runtime_settings \<Rightarrow> string \<Rightarrow> string \<Rightarrow> string \<Rightarrow> string \<Rightarrow> (runtime, bool) op" where
  "rollback_skill_if_current E R skill_id expected_active_version baseline_version agent_id =
     bindS (getS (\<lambda>w. sort_key sk_id (filter (\<lambda>s. sk_skill_id s = skill_id) (rt_skills w)))) (\<lambda>configs.
     case (find (\<lambda>s. sk_version s = expected_active_version \<and> sk_status s = ''active'') configs,
           find (\<lambda>s. sk_version s = baseline_version \<and> sk_status s = ''retired'') configs) of
       (Some active, Some baseline) \<Rightarrow>
         bindS (getS (\<lambda>w. filter (\<lambda>r. sr_skill_id r = skill_id \<and> sr_state r = ''active'') (rt_releases w))) (\<lambda>active_releases.
         case active_releases of
           [] \<Rightarrow> bindS (restore_baseline E active baseline None) (\<lambda>_. retS True)
         | [r] \<Rightarrow>
             bindS (liftE (release_allows_rollback E R agent_id active baseline r)) (\<lambda>ok.
             if \<not> ok then retS False else bindS (restore_baseline E active baseline (Some r)) (\<lambda>_. retS True))
         | _ \<Rightarrow> retS False)
     | _ \<Rightarrow> retS False)"

definition guard_check ::
  "env \<Rightarrow> runtime_settings \<Rightarrow> guard_settings \<Rightarrow> string \<Rightarrow> string \<Rightarrow> (guarded_runtime, bool) op" where
  "guard_check E R G agent_id skill_id =
     bindS (getS (\<lambda>s. get_active_skill skill_id (fst s))) (\<lambda>active. case active of
         None \<Rightarrow> retS False
       | Some a \<Rightarrow>
           if sk_promoted_at a = None then retS False
           else
             bindS (getS (\<lambda>s. get_recent_traces agent_id (gd_min_samples G) skill_id (fst s))) (\<lambda>traces.
             if int (length traces) < gd_min_samples G then retS False
             else
               bindS (getS (\<lambda>s. calc_success_rate agent_id skill_id (gd_min_samples G) (fst s))) (\<lambda>current_rate.
               if pf_le (pf_sub (sk_success_rate a) current_rate) (gd_rollback_threshold G) then retS False
               else
                 bindS (on_runtime (now_runtime E)) (\<lambda>now.
                 let key = ''evolution:rollback_count:'' @ agent_id in
                 bindS (modifyS (\<lambda>s. (fst s, redis_incr now key 86400 (snd s)))) (\<lambda>_.
                 bindS (getS (\<lambda>s. counter_value now key (snd s))) (\<lambda>new_count.
                 if gd_max_rollbacks_per_day G < new_count
                 then bindS (modifyS (\<lambda>s. (fst s, redis_set (''evolution:paused:'' @ agent_id) ''true'' (snd s)))) (\<lambda>_. retS False)
                 else
                   bindS (getS (\<lambda>s. get_previous_active skill_id (fst s))) (\<lambda>prev. case prev of
                       None \<Rightarrow> retS False
                     | Some p \<Rightarrow>
                         on_runtime (rollback_skill_if_current E R skill_id (sk_version a) (sk_version p) agent_id))))))))"

section \<open>The kill switch\<close>

text \<open>\<open>None\<close> is a Redis that cannot be reached.\<close>

definition kill_switch_is_enabled :: "redis option \<Rightarrow> bool" where
  "kill_switch_is_enabled rd =
     (case rd of
        None \<Rightarrow> False
      | Some r \<Rightarrow> (case map_of (rd_keys r) ''evolution:enabled'' of None \<Rightarrow> True | Some v \<Rightarrow> py_lower v \<noteq> ''false''))"

definition kill_switch_disable :: "redis \<Rightarrow> redis" where
  "kill_switch_disable = redis_set ''evolution:enabled'' ''false''"

definition kill_switch_enable :: "redis \<Rightarrow> redis" where
  "kill_switch_enable = redis_set ''evolution:enabled'' ''true''"

end
