(* ===== verification/Release_Safety.thy ===== *)
theory Release_Safety
  imports Skill_Execution
begin

text \<open>
  Properties of the evolution runtime's release ledger: what an applied command changed, the
  invariant of releases and skill versions over all commands of the runtime, replays, the gates of a
  promotion and the effect of a rollback.
\<close>

section \<open>Runs of the steps\<close>

lemma now_runtime_run [simp]: "now_runtime E w = (Inr (e_clock E (rt_tick w)), w\<lparr>rt_tick := Suc (rt_tick w)\<rparr>)"
  by (simp add: now_runtime_def)

lemma bind_now_runtime [simp]:
  "bindS (now_runtime E) f w = f (e_clock E (rt_tick w)) (w\<lparr>rt_tick := Suc (rt_tick w)\<rparr>)"
  by (simp add: bindS_def)

lemma release_raise_run [simp]: "release_raise code w = (Inl (SkillReleaseError code), w)"
  by (simp add: release_raise_def)

lemma release_error_neq [simp]: "release_error code \<noteq> Inr a"
  by (simp add: release_error_def)

lemma find_in: "find P xs = Some x \<Longrightarrow> x \<in> set xs \<and> P x"
  by (induction xs) (auto split: if_splits)

lemma replayed_run:
  "replayed c hash w = (case find_receipt (sc_command_id c) w of
     None \<Rightarrow> Inr None
   | Some r \<Rightarrow> if rc_payload_hash r \<noteq> hash then Inl (ReleaseCommandConflict ''release_command_id_payload_conflict'')
              else Inr (Some (rc_response r)), w)"
  by (simp add: replayed_def split: option.splits)

lemma lock_skills_ok:
  assumes "lock_skills c w = (Inr (b, d), w')"
  shows "w' = w" and "skill_version (sc_skill_id c) (sc_baseline_version c) w = Some b"
    and "skill_version (sc_skill_id c) (sc_candidate_version c) w = Some d" and "sk_id b \<noteq> sk_id d"
  using assms by (auto simp: lock_skills_def split: option.splits if_splits)

lemma skill_version_in:
  assumes "skill_version skill_id v w = Some s"
  shows "s \<in> set (rt_skills w)" and "sk_skill_id s = skill_id" and "sk_version s = int_text v"
  using assms by (auto simp: skill_version_def find_Some_iff)

lemma check_release_ok:
  assumes "check_release E c b d release w = (Inr u, w')"
  shows "w' = w" and "skill_config_hash E b = Inr (sc_baseline_config_hash c)"
    and "skill_config_hash E d = Inr (sc_candidate_config_hash c)"
    and "release = Some r \<Longrightarrow> 1 \<le> sr_version r \<and> sr_company_id r = sc_company_id c"
  using assms by (auto simp: check_release_def bindS_Inr_iff split: option.splits if_splits)

text \<open>A canary command touches experiments only, and no other canary of the skill is running.\<close>

lemma canary_experiment_ok:
  assumes "canary_experiment E c b release w = (Inr i, w')"
  shows "rt_skills w' = rt_skills w" and "rt_releases w' = rt_releases w" and "rt_receipts w' = rt_receipts w"
    and "sc_action c = ''canary'' \<Longrightarrow> \<not> other_canary c w"
    and "distinct (map xp_experiment_id (rt_experiments w)) \<Longrightarrow> distinct (map xp_experiment_id (rt_experiments w'))"
    and "sc_action c \<noteq> ''canary'' \<Longrightarrow> w' = w"
proof -
  have new: "sc_deployment_id c \<notin> xp_experiment_id ` set (rt_experiments w)"
    if "find_experiment (Some (sc_deployment_id c)) w = None"
    using that by (force simp: find_experiment_def find_None_iff)
  have "rt_skills w' = rt_skills w \<and> rt_releases w' = rt_releases w \<and> rt_receipts w' = rt_receipts w \<and>
    (sc_action c = ''canary'' \<longrightarrow> \<not> other_canary c w) \<and>
    (distinct (map xp_experiment_id (rt_experiments w)) \<longrightarrow> distinct (map xp_experiment_id (rt_experiments w'))) \<and>
    (sc_action c \<noteq> ''canary'' \<longrightarrow> w' = w)"
    using assms
    by (auto simp: canary_experiment_def write_experiment_def new_experiment_def update_row_keys dest: new
        split: if_splits option.splits)
  then show "rt_skills w' = rt_skills w" "rt_releases w' = rt_releases w" "rt_receipts w' = rt_receipts w"
    "sc_action c = ''canary'' \<Longrightarrow> \<not> other_canary c w"
    "distinct (map xp_experiment_id (rt_experiments w)) \<Longrightarrow> distinct (map xp_experiment_id (rt_experiments w'))"
    "sc_action c \<noteq> ''canary'' \<Longrightarrow> w' = w"
    by blast+
qed

text \<open>A swap of a status that succeeds changes exactly the row with the identifier.\<close>

lemma swap_status_ok:
  assumes "swap_status s from f w = (Inr u, w')" and "distinct (map sk_id (rt_skills w))"
    and "s' \<in> set (rt_skills w)" and "sk_id s' = sk_id s" and "sk_status s' = from"
  shows "w' = w\<lparr>rt_skills := update_row sk_id (sk_id s) f (rt_skills w)\<rparr>"
proof -
  have "(if sk_id r = sk_id s \<and> sk_status r = from then f r else r) = (if sk_id r = sk_id s then f r else r)"
    if "r \<in> set (rt_skills w)" for r
    using assms(2-5) that inj_on_eq_iff [of sk_id "set (rt_skills w)" r s'] by (auto simp: distinct_map)
  then have "map (\<lambda>r. if sk_id r = sk_id s \<and> sk_status r = from then f r else r) (rt_skills w) =
      update_row sk_id (sk_id s) f (rt_skills w)"
    by (simp add: update_row_def)
  with assms(1) show ?thesis by (auto simp: swap_status_def bindS_Inr_iff split: if_splits)
qed

lemma conclude_run:
  "conclude E x status w = (Inr (), w\<lparr>rt_tick := Suc (rt_tick w), rt_experiments := update_row xp_experiment_id (xp_experiment_id x)
     (\<lambda>x. x\<lparr>xp_status := status, xp_concluded_at := Some (e_clock E (rt_tick w))\<rparr>) (rt_experiments w)\<rparr>)"
  by (simp add: conclude_def write_experiment_def)

definition retired :: "skill_config \<Rightarrow> skill_config" where
  "retired s = s\<lparr>sk_status := ''retired''\<rparr>"

definition promoted :: "int \<Rightarrow> skill_config \<Rightarrow> skill_config" where
  "promoted now s = s\<lparr>sk_status := ''active'', sk_promoted_at := Some now\<rparr>"

definition restored :: "skill_config \<Rightarrow> skill_config" where
  "restored s = s\<lparr>sk_status := ''active''\<rparr>"

definition experiments_frame :: "runtime \<Rightarrow> runtime \<Rightarrow> bool" where
  "experiments_frame w w' \<longleftrightarrow> rt_releases w' = rt_releases w \<and> rt_receipts w' = rt_receipts w \<and>
     map xp_experiment_id (rt_experiments w') = map xp_experiment_id (rt_experiments w)"

lemma experiments_frame_update:
  assumes "rt_releases w' = rt_releases w" "rt_receipts w' = rt_receipts w"
    and "rt_experiments w' = update_row xp_experiment_id i f (rt_experiments w)" "\<And>x. xp_experiment_id (f x) = xp_experiment_id x"
  shows "experiments_frame w w'"
  using assms by (simp add: experiments_frame_def update_row_def)

lemma promote_ok:
  assumes "promote_release E R c b d release w = (Inr u, w')" and "distinct (map sk_id (rt_skills w))"
    and "b \<in> set (rt_skills w)" and "d \<in> set (rt_skills w)" and "sk_id b \<noteq> sk_id d"
  obtains r x now where "release = Some r" "sr_state r = ''canary''"
    "find_experiment (sr_experiment_id r) w = Some x" "promotion_gate R c (Some x) = Inr x"
    "sk_status b = ''active''" "sk_status d \<in> {''candidate'', ''shadow''}"
    "rt_skills w' = update_row sk_id (sk_id d) (promoted now) (update_row sk_id (sk_id b) retired (rt_skills w))"
    "experiments_frame w w'"
proof -
  from assms(1) obtain r where r: "release = Some r" "sr_state r = ''canary''"
    by (auto simp: promote_release_def split: option.splits if_splits)
  with assms(1) obtain x where x: "promotion_gate R c (find_experiment (sr_experiment_id r) w) = Inr x"
    by (auto simp: promote_release_def bindS_Inr_iff)
  then have fx: "find_experiment (sr_experiment_id r) w = Some x"
    by (auto simp: promotion_gate_def Let_def split: option.splits if_splits)
  from assms(1) r x have st: "sk_status b = ''active''" "sk_status d \<in> {''candidate'', ''shadow''}"
    by (auto simp: promote_release_def bindS_Inr_iff split: if_splits)
  from assms(1) r x st obtain v u' where s1: "swap_status b ''active'' (\<lambda>s. s\<lparr>sk_status := ''retired''\<rparr>) w = (Inr u', v)"
    and rest: "bindS (swap_status d (sk_status d) (promoted (e_clock E (rt_tick v)))) (\<lambda>_. conclude E x ''promoted'')
      (v\<lparr>rt_tick := Suc (rt_tick v)\<rparr>) = (Inr u, w')"
    by (auto simp: promote_release_def bindS_Inr_iff promoted_def [abs_def])
  have v: "v = w\<lparr>rt_skills := update_row sk_id (sk_id b) retired (rt_skills w)\<rparr>"
    using swap_status_ok [OF s1 assms(2,3) refl st(1)] by (simp add: retired_def [abs_def])
  from rest obtain v' u2 where s2: "swap_status d (sk_status d) (promoted (e_clock E (rt_tick v))) (v\<lparr>rt_tick := Suc (rt_tick v)\<rparr>) = (Inr u2, v')"
    and w': "conclude E x ''promoted'' v' = (Inr u, w')" by (auto simp: bindS_Inr_iff)
  have d: "d \<in> set (rt_skills (v\<lparr>rt_tick := Suc (rt_tick v)\<rparr>))"
    using assms(4,5) by (force simp: v update_row_def)
  have ids: "distinct (map sk_id (rt_skills (v\<lparr>rt_tick := Suc (rt_tick v)\<rparr>)))"
    using assms(2) by (simp add: v update_row_keys retired_def)
  have v': "v' = v\<lparr>rt_tick := Suc (rt_tick v), rt_skills := update_row sk_id (sk_id d) (promoted (e_clock E (rt_tick v))) (rt_skills v)\<rparr>"
    using swap_status_ok [OF s2 ids d refl refl] by simp
  show thesis
  proof (rule that [OF r fx])
    show "promotion_gate R c (Some x) = Inr x" using x fx by simp
    show "sk_status b = ''active''" "sk_status d \<in> {''candidate'', ''shadow''}" by (fact st)+
    show "rt_skills w' = update_row sk_id (sk_id d) (promoted (e_clock E (rt_tick v))) (update_row sk_id (sk_id b) retired (rt_skills w))"
      using w' by (auto simp: conclude_run v' v)
    show "experiments_frame w w'"
      using w' by (auto simp: conclude_run v' v intro!: experiments_frame_update)
  qed
qed

lemma rollback_ok:
  assumes "rollback_release E b d release w = (Inr u, w')" and "distinct (map sk_id (rt_skills w))"
    and "b \<in> set (rt_skills w)" and "d \<in> set (rt_skills w)" and "sk_id b \<noteq> sk_id d"
  obtains r where "release = Some r" "experiments_frame w w'"
    "sr_state r \<in> {''shadow'', ''canary''} \<and> rt_skills w' = rt_skills w \<or>
     sr_state r = ''active'' \<and> sk_status d = ''active'' \<and> sk_status b = ''retired'' \<and>
       rt_skills w' = update_row sk_id (sk_id b) restored (update_row sk_id (sk_id d) retired (rt_skills w))"
proof -
  have concluded: "experiments_frame v v' \<and> rt_skills v' = rt_skills v"
    if "(case e of Some x \<Rightarrow> whenS (P x) (conclude E x st) | None \<Rightarrow> retS ()) v = (Inr u, v')" for e P st v v'
    using that by (auto simp: whenS_def conclude_run experiments_frame_def update_row_keys split: option.splits if_splits)
  from assms(1) obtain r where r: "release = Some r"
    by (auto simp: rollback_release_def split: option.splits)
  show thesis
  proof (cases "sr_state r = ''active''")
    case True
    from assms(1) r True have st: "sk_status d = ''active''" "sk_status b = ''retired''"
      by (auto simp: rollback_release_def split: if_splits)
    from assms(1) r True st obtain v u1 v' u2 where
      s1: "swap_status d ''active'' retired w = (Inr u1, v)" and s2: "swap_status b ''retired'' restored v = (Inr u2, v')"
      and e: "(case find_experiment (sr_experiment_id r) w of
          Some x \<Rightarrow> whenS (xp_status x = ''promoted'') (conclude E x ''rolled_back'') | None \<Rightarrow> retS ()) v' = (Inr u, w')"
      by (auto simp: rollback_release_def bindS_Inr_iff retired_def [abs_def] restored_def [abs_def])
    have v: "v = w\<lparr>rt_skills := update_row sk_id (sk_id d) retired (rt_skills w)\<rparr>"
      by (rule swap_status_ok [OF s1 assms(2,4) refl st(1)])
    have b: "b \<in> set (rt_skills v)" using assms(3,5) by (force simp: v update_row_def)
    have ids: "distinct (map sk_id (rt_skills v))" using assms(2) by (simp add: v update_row_keys retired_def)
    have v': "v' = v\<lparr>rt_skills := update_row sk_id (sk_id b) restored (rt_skills v)\<rparr>"
      by (rule swap_status_ok [OF s2 ids b refl st(2)])
    show thesis
      using that [OF r] concluded [OF e] True st by (simp add: v' v experiments_frame_def)
  next
    case False
    with assms(1) r have "sr_state r \<in> {''shadow'', ''canary''} \<and> rt_skills w' = rt_skills w \<and> experiments_frame w w'"
      using concluded [where e = "find_experiment (sr_experiment_id r) w" and P = "\<lambda>x. xp_status x = ''running''" and st = "''rolled_back''"
          and v = w and v' = w']
      by (auto simp: rollback_release_def experiments_frame_def split: if_splits)
    then show thesis using that [OF r] by simp
  qed
qed

definition moved :: "skill_release_snapshot \<Rightarrow> int \<Rightarrow> skill_release \<Rightarrow> skill_release" where
  "moved nxt now r = r\<lparr>sr_state := ss_state nxt, sr_version := ss_version nxt,
     sr_experiment_id := ss_experiment_id nxt, sr_updated_at := now\<rparr>"

lemma store_release_ok:
  assumes "store_release E c release nxt w = (Inr u, w')" and "find_release (sc_deployment_id c) w = release"
    and "distinct (map sr_deployment_id (rt_releases w))"
  shows "rt_skills w' = rt_skills w" and "rt_experiments w' = rt_experiments w" and "rt_receipts w' = rt_receipts w"
    and "release = None \<Longrightarrow> \<exists>r. rt_releases w' = rt_releases w @ [r] \<and> sr_deployment_id r = sc_deployment_id c \<and>
           sr_state r = ss_state nxt \<and> sr_version r = ss_version nxt"
    and "release = Some r \<Longrightarrow> \<exists>now. rt_releases w' = update_row sr_deployment_id (sc_deployment_id c) (moved nxt now) (rt_releases w)"
proof -
  show "rt_skills w' = rt_skills w" "rt_experiments w' = rt_experiments w" "rt_receipts w' = rt_receipts w"
    using assms(1) by (auto simp: store_release_def split: option.splits if_splits)
  show "release = None \<Longrightarrow> \<exists>r. rt_releases w' = rt_releases w @ [r] \<and> sr_deployment_id r = sc_deployment_id c \<and>
           sr_state r = ss_state nxt \<and> sr_version r = ss_version nxt"
    using assms(1) by (auto simp: store_release_def)
  show "\<exists>now. rt_releases w' = update_row sr_deployment_id (sc_deployment_id c) (moved nxt now) (rt_releases w)"
    if "release = Some r"
  proof -
    have r: "r \<in> set (rt_releases w)" "sr_deployment_id r = sc_deployment_id c"
      using assms(2) that by (auto simp: find_release_def find_Some_iff)
    have "sr_version r' = sr_version r" if "r' \<in> set (rt_releases w)" "sr_deployment_id r' = sc_deployment_id c" for r'
      using assms(3) r that inj_on_eq_iff [of sr_deployment_id "set (rt_releases w)" r' r] by (auto simp: distinct_map)
    then have "map (\<lambda>r'. if sr_deployment_id r' = sc_deployment_id c \<and> sr_version r' = sr_version r then moved nxt now r' else r')
        (rt_releases w) = update_row sr_deployment_id (sc_deployment_id c) (moved nxt now) (rt_releases w)" for now
      by (auto simp: update_row_def)
    moreover have "rt_releases w' = map (\<lambda>r'. if sr_deployment_id r' = sc_deployment_id c \<and> sr_version r' = sr_version r
        then moved nxt (e_clock E (rt_tick w)) r' else r') (rt_releases w)"
      using assms(1) that by (auto simp: store_release_def moved_def split: if_splits)
    ultimately show ?thesis by auto
  qed
qed

lemma transition_ok:
  assumes "transition snapshot c (Some v) i = Inr nxt"
  shows "ss_state nxt = ''canary'' \<Longrightarrow> sc_action c = ''canary''"
    and "snapshot = None \<Longrightarrow> sc_action c = ''shadow'' \<and> nxt = \<lparr>ss_deployment_id = sc_deployment_id c,
      ss_skill_id = sc_skill_id c, ss_agent_id = sc_agent_id c,
      ss_baseline_version = sc_baseline_version c, ss_candidate_version = sc_candidate_version c,
      ss_baseline_config_hash = sc_baseline_config_hash c, ss_candidate_config_hash = sc_candidate_config_hash c,
      ss_state = ''shadow'', ss_version = 1, ss_experiment_id = None\<rparr>"
    and "snapshot = Some s \<Longrightarrow> same_snapshot s c \<and> same_snapshot nxt c \<and> ss_version s \<le> ss_version nxt"
    and "ss_state nxt \<in> {''shadow'', ''canary'', ''active'', ''rolled_back''}"
    and "ss_deployment_id nxt = sc_deployment_id c"
  using assms by (auto simp: transition_def same_snapshot_def split: option.splits if_splits)

section \<open>Applied commands\<close>

definition receipt :: "skill_release_command \<Rightarrow> string \<Rightarrow> pydict \<Rightarrow> int \<Rightarrow> release_receipt" where
  "receipt c hash response now =
     \<lparr>rc_command_id = sc_command_id c, rc_deployment_id = sc_deployment_id c, rc_payload_hash = hash,
      rc_response = response, rc_created_at = now\<rparr>"

abbreviation (input) release_effect where
  "release_effect E R c b d release \<equiv>
     (if sc_action c = ''promote'' then promote_release E R c b d release
      else if sc_action c = ''rollback'' then rollback_release E b d release else retS ())"

lemma perform_ok:
  assumes "perform_release E R c h b d w = (Inr resp, w')"
  obtains i nxt w1 w2 w3 now where
    "check_release E c b d (find_release (sc_deployment_id c) w) w = (Inr (), w)"
    "canary_experiment E c b (find_release (sc_deployment_id c) w) w = (Inr i, w1)"
    "transition (map_option snapshot_of (find_release (sc_deployment_id c) w)) c
       (Some (case find_release (sc_deployment_id c) w of None \<Rightarrow> 0 | Some r \<Rightarrow> sr_version r)) i = Inr nxt"
    "release_effect E R c b d (find_release (sc_deployment_id c) w) w1 = (Inr (), w2)"
    "store_release E c (find_release (sc_deployment_id c) w) nxt w2 = (Inr (), w3)"
    "resp = release_response nxt" "w' = w3\<lparr>rt_tick := Suc (rt_tick w3), rt_receipts := rt_receipts w3 @ [receipt c h resp now]\<rparr>"
proof -
  let ?rel = "find_release (sc_deployment_id c) w"
  from assms obtain u where chk: "check_release E c b d ?rel w = (Inr (), u)"
    by (auto simp: perform_release_def bindS_Inr_iff)
  then have [simp]: "u = w" by (rule check_release_ok(1))
  from assms chk obtain i w1 nxt w2 w3 where
    can: "canary_experiment E c b ?rel w = (Inr i, w1)"
    and tr: "transition (map_option snapshot_of ?rel) c (Some (case ?rel of None \<Rightarrow> 0 | Some r \<Rightarrow> sr_version r)) i = Inr nxt"
    and eff: "release_effect E R c b d ?rel w1 = (Inr (), w2)" and st: "store_release E c ?rel nxt w2 = (Inr (), w3)"
    and rest: "record_receipt E c h (release_response nxt) w3 = (Inr (), w')" "resp = release_response nxt"
    by (auto simp: perform_release_def bindS_Inr_iff)
  show thesis
    by (rule that [OF _ can tr eff st rest(2), of "e_clock E (rt_tick w3)"])
       (use chk rest in \<open>auto simp: record_receipt_def receipt_def\<close>)
qed

lemma apply_ok:
  assumes "apply_release E R c w = (Inr resp, w')"
  obtains (replay) r where "find_receipt (sc_command_id c) w = Some r" "payload_hash E c = Inr (rc_payload_hash r)"
      "resp = rc_response r" "w' = w"
  | (fresh) h b d where "find_receipt (sc_command_id c) w = None" "payload_hash E c = Inr h"
      "sc_company_id c = rs_company_id R" "sc_action c \<in> {''promote'', ''rollback''} \<longrightarrow> truthy_str (sc_approval_id c)"
      "skill_version (sc_skill_id c) (sc_baseline_version c) w = Some b"
      "skill_version (sc_skill_id c) (sc_candidate_version c) w = Some d" "sk_id b \<noteq> sk_id d"
      "\<not> command_expired c (e_clock E (rt_tick w))"
      "perform_release E R c h b d (w\<lparr>rt_tick := Suc (rt_tick w)\<rparr>) = (Inr resp, w')"
proof -
  from assms obtain h where own: "sc_company_id c = rs_company_id R" and h: "payload_hash E c = Inr h"
    by (auto simp: apply_release_def bindS_Inr_iff split: if_splits)
  show thesis
  proof (cases "find_receipt (sc_command_id c) w")
    case (Some r)
    with assms own h show thesis
      by (intro replay [of r]) (auto simp: apply_release_def replayed_run bindS_run split: if_splits)
  next
    case None
    note steps = assms own h None
    have ap: "sc_action c \<in> {''promote'', ''rollback''} \<longrightarrow> truthy_str (sc_approval_id c)"
      using steps by (auto simp: apply_release_def replayed_run bindS_run split: if_splits)
    from steps ap obtain b d v where lock: "lock_skills c w = (Inr (b, d), v)"
      by (auto simp: apply_release_def replayed_run bindS_run split: prod.splits sum.splits)
    note locked = lock_skills_ok [OF lock]
    have ex: "\<not> command_expired c (e_clock E (rt_tick w))"
      and per: "perform_release E R c h b d (w\<lparr>rt_tick := Suc (rt_tick w)\<rparr>) = (Inr resp, w')"
      using steps ap lock locked(1) by (auto simp: apply_release_def replayed_run bindS_run split: if_splits)
    show thesis by (rule fresh [OF None h own ap locked(2-4) ex per])
  qed
qed

lemma keeps_now_runtime [keeps_intros]: "(\<And>w n. P w \<Longrightarrow> P (w\<lparr>rt_tick := n\<rparr>)) \<Longrightarrow> keeps P (now_runtime E)"
  by (simp add: keeps_def)

lemma keeps_release_raise [keeps_intros]: "keeps P (release_raise code)"
  by (simp add: keeps_def)

lemma effect_keeps_receipts: "keeps (\<lambda>w. rt_receipts w = xs) (release_effect E R c b d release)"
  unfolding promote_release_def rollback_release_def swap_status_def conclude_def write_experiment_def
  by (intro keeps_intros) simp_all

lemma perform_receipts:
  assumes "perform_release E R c h b d w = (Inr resp, w')"
  shows "\<exists>now. rt_receipts w' = rt_receipts w @ [receipt c h resp now]"
proof -
  obtain i nxt w1 w2 w3 now where
    can: "canary_experiment E c b (find_release (sc_deployment_id c) w) w = (Inr i, w1)"
    and eff: "release_effect E R c b d (find_release (sc_deployment_id c) w) w1 = (Inr (), w2)"
    and st: "store_release E c (find_release (sc_deployment_id c) w) nxt w2 = (Inr (), w3)"
    and w': "w' = w3\<lparr>rt_tick := Suc (rt_tick w3), rt_receipts := rt_receipts w3 @ [receipt c h resp now]\<rparr>"
    by (rule perform_ok [OF assms])
  have "rt_receipts w2 = rt_receipts w"
    using keepsD_run [OF effect_keeps_receipts _ eff, of "rt_receipts w"] canary_experiment_ok(3) [OF can] by simp
  moreover have "rt_receipts w3 = rt_receipts w2"
    using st by (auto simp: store_release_def split: option.splits if_splits)
  ultimately show ?thesis by (auto simp: w')
qed

lemma apply_receipts:
  assumes "apply_release E R c w = (Inr resp, w')"
  shows "\<exists>xs r. rt_receipts w' = rt_receipts w @ xs \<and> find_receipt (sc_command_id c) w' = Some r \<and>
    payload_hash E c = Inr (rc_payload_hash r) \<and> rc_response r = resp"
  using assms
proof (cases rule: apply_ok)
  case (replay r)
  then show ?thesis by auto
next
  case (fresh h b d)
  from perform_receipts [OF fresh(9)] obtain now where new: "rt_receipts w' = rt_receipts w @ [receipt c h resp now]"
    by auto
  with fresh(1) have "find_receipt (sc_command_id c) w' = Some (receipt c h resp now)"
    by (simp add: find_receipt_def find_append receipt_def)
  with new fresh(2) show ?thesis by (auto simp: receipt_def)
qed

section \<open>Sequences of commands of the runtime\<close>

datatype runtime_command =
    ApplyRelease skill_release_command string
  | AddExperimentResult string bool pyfloat
  | ConcludeExperiment string string
  | RecordExecution skill_execution_result
  | RecordCanary string string string pyfloat
  | CheckExperiment string string "int option"
  | GuardRollback string string string string

fun run_runtime_command :: "env \<Rightarrow> runtime_settings \<Rightarrow> runtime_command \<Rightarrow> runtime \<Rightarrow> runtime" where
  "run_runtime_command E R (ApplyRelease c signature) w = snd (route_apply_skill_release E R c signature w)"
| "run_runtime_command E R (AddExperimentResult i is_candidate score) w = snd (add_experiment_result i is_candidate score w)"
| "run_runtime_command E R (ConcludeExperiment i status) w = snd (conclude_experiment E i status w)"
| "run_runtime_command E R (RecordExecution result) w = snd (route_record_result E R result w)"
| "run_runtime_command E R (RecordCanary agent_id skill_id trace_id score) w =
     snd (runtime_transaction (record_canary_result R agent_id skill_id trace_id score) w)"
| "run_runtime_command E R (CheckExperiment agent_id skill_id min_samples) w =
     snd (runtime_transaction (check_experiment E R agent_id skill_id min_samples) w)"
| "run_runtime_command E R (GuardRollback skill_id active_version baseline_version agent_id) w =
     snd (runtime_transaction (rollback_skill_if_current E R skill_id active_version baseline_version agent_id) w)"

definition run_runtime :: "env \<Rightarrow> runtime_settings \<Rightarrow> runtime_command list \<Rightarrow> runtime \<Rightarrow> runtime" where
  "run_runtime E R cmds w = foldl (\<lambda>w c. run_runtime_command E R c w) w cmds"

lemma run_runtime_invariant:
  assumes "P w" and "\<And>c w. P w \<Longrightarrow> P (run_runtime_command E R c w)"
  shows "P (run_runtime E R cmds w)"
  using assms(1) by (induction cmds arbitrary: w) (simp_all add: run_runtime_def assms(2))

lemma verify_ok:
  assumes "verify_command E R c s w = (Inr u, w')"
  shows "w' = w\<lparr>rt_tick := Suc (rt_tick w)\<rparr>" and "\<not> command_expired c (e_clock E (rt_tick w))"
  using assms by (auto simp: verify_command_def bindS_Inr_iff guardS_def split: if_splits)

text \<open>A request that is refused leaves nothing but a later clock; one that is granted was applied.\<close>

lemma route_cases:
  obtains (refused) e n where "route_apply_skill_release E R c s w = (Inl e, w\<lparr>rt_tick := n\<rparr>)"
  | (granted) resp w' where "route_apply_skill_release E R c s w = (Inr resp, w')"
      "apply_release E R c (w\<lparr>rt_tick := Suc (rt_tick w)\<rparr>) = (Inr resp, w')"
proof -
  obtain q w1 where run: "bindS (verify_command E R c s) (\<lambda>_. apply_release E R c) w = (q, w1)" by force
  show thesis
  proof (cases q)
    case (Inl e)
    with run refused show thesis by (auto simp: route_apply_skill_release_def runtime_transaction_def)
  next
    case (Inr resp)
    with run have "apply_release E R c (w\<lparr>rt_tick := Suc (rt_tick w)\<rparr>) = (Inr resp, w1)"
      by (auto simp: bindS_Inr_iff dest: verify_ok(1))
    with run Inr granted show thesis by (auto simp: route_apply_skill_release_def runtime_transaction_def)
  qed
qed

lemma keeps_runtime_transaction [keeps_intros]:
  "keeps P m \<Longrightarrow> (\<And>w n. P w \<Longrightarrow> P (w\<lparr>rt_tick := n\<rparr>)) \<Longrightarrow> keeps P (runtime_transaction m)"
  by (force simp: keeps_def runtime_transaction_def split: prod.splits sum.splits)

lemma keeps_resolve_version [keeps_intros]: "keeps P (resolve_skill_version R agent_id skill_id trace_id)"
  unfolding resolve_skill_version_def by (intro keeps_intros)

lemma keeps_verify_selection [keeps_intros]:
  "(\<And>w n. P w \<Longrightarrow> P (w\<lparr>rt_tick := n\<rparr>)) \<Longrightarrow> keeps P (verify_selection E R s)"
  unfolding verify_selection_def by (intro keeps_intros)

text \<open>What recording touches: the clock, the traces and the scores of experiments.\<close>

lemma keeps_add_result:
  "(\<And>w f i. (\<And>x. xp_experiment_id (f x) = xp_experiment_id x) \<Longrightarrow> P w \<Longrightarrow>
       P (w\<lparr>rt_experiments := update_row xp_experiment_id i f (rt_experiments w)\<rparr>)) \<Longrightarrow>
   keeps P (add_experiment_result i is_candidate score)"
  unfolding add_experiment_result_def write_experiment_def by (intro keeps_intros) auto

lemma keeps_record:
  assumes tick: "\<And>w n. P w \<Longrightarrow> P (w\<lparr>rt_tick := n\<rparr>)" and traces: "\<And>w ts. P w \<Longrightarrow> P (w\<lparr>rt_traces := ts\<rparr>)"
    and exps: "\<And>w f i. (\<And>x. xp_experiment_id (f x) = xp_experiment_id x) \<Longrightarrow> P w \<Longrightarrow>
      P (w\<lparr>rt_experiments := update_row xp_experiment_id i f (rt_experiments w)\<rparr>)"
  shows "keeps P (route_record_result E R result)" and "keeps P (record_canary_result R agent_id skill_id trace_id score)"
proof -
  have "keeps P (store_observation E result prior)" for prior
    unfolding store_observation_def save_trace_def by (intro keeps_intros) (auto intro: tick traces)
  then have "keeps P (record_result E R result)"
    unfolding record_result_def Let_def
    by (auto intro!: keeps_intros keeps_add_result intro: tick exps split: option.splits)
  then show "keeps P (route_record_result E R result)"
    unfolding route_record_result_def by (intro keeps_intros) (auto intro: tick)
  show "keeps P (record_canary_result R agent_id skill_id trace_id score)"
    unfolding record_canary_result_def by (intro keeps_intros keeps_add_result) (auto intro: exps)
qed

text \<open>Only an applied release command adds a receipt.\<close>

lemma keeps_receipts:
  "keeps (\<lambda>w. rt_receipts w = xs) (conclude_experiment E i status)"
  "keeps (\<lambda>w. rt_receipts w = xs) (check_experiment E R agent_id skill_id min_samples)"
  "keeps (\<lambda>w. rt_receipts w = xs) (rollback_skill_if_current E R skill_id va vb agent_id)"
proof -
  show conc: "keeps (\<lambda>w. rt_receipts w = xs) (conclude_experiment E i status)" for i status
    unfolding conclude_experiment_def write_experiment_def by (intro keeps_intros) simp_all
  show "keeps (\<lambda>w. rt_receipts w = xs) (check_experiment E R agent_id skill_id min_samples)"
    unfolding check_experiment_def by (intro keeps_intros conc)
  have "keeps (\<lambda>w. rt_receipts w = xs) (restore_baseline E a b r)" for a b r
    unfolding restore_baseline_def write_skill_def conclude_def write_experiment_def by (intro keeps_intros) simp_all
  then show "keeps (\<lambda>w. rt_receipts w = xs) (rollback_skill_if_current E R skill_id va vb agent_id)"
    unfolding rollback_skill_if_current_def by (auto intro!: keeps_intros split: option.splits list.splits)
qed

lemma runtime_command_receipts: "\<exists>xs. rt_receipts (run_runtime_command E R cmd w) = rt_receipts w @ xs"
proof (cases cmd)
  case (ApplyRelease c s)
  show ?thesis
    by (cases rule: route_cases [of E R c s w]) (auto simp: ApplyRelease dest!: apply_receipts)
next
  case (RecordExecution result)
  have "keeps (\<lambda>v. rt_receipts v = rt_receipts w) (route_record_result E R result)" by (rule keeps_record) simp_all
  from keepsD [OF this] show ?thesis by (simp add: RecordExecution)
next
  case (RecordCanary agent_id skill_id trace_id score)
  have "keeps (\<lambda>v. rt_receipts v = rt_receipts w) (runtime_transaction (record_canary_result R agent_id skill_id trace_id score))"
    by (intro keeps_intros keeps_record) simp_all
  from keepsD [OF this] show ?thesis by (simp add: RecordCanary)
next
  case (CheckExperiment agent_id skill_id min_samples)
  have "keeps (\<lambda>v. rt_receipts v = rt_receipts w) (runtime_transaction (check_experiment E R agent_id skill_id min_samples))"
    by (intro keeps_intros keeps_receipts) simp
  from keepsD [OF this] show ?thesis by (simp add: CheckExperiment)
next
  case (GuardRollback skill_id va vb agent_id)
  have "keeps (\<lambda>v. rt_receipts v = rt_receipts w) (runtime_transaction (rollback_skill_if_current E R skill_id va vb agent_id))"
    by (intro keeps_intros keeps_receipts) simp
  from keepsD [OF this] show ?thesis by (simp add: GuardRollback)
qed (simp_all add: add_experiment_result_def conclude_experiment_def write_experiment_def whenS_def)

lemma find_receipt_grows:
  assumes "find_receipt i w = Some r" and "rt_receipts w' = rt_receipts w @ xs"
  shows "find_receipt i w' = Some r"
  using assms by (simp add: find_receipt_def find_append)

text \<open>
  C14. A release command takes effect once. After a command was applied, and after any further commands
  of the runtime, applying it again returns the response that was recorded the first time and changes
  nothing.\<close>

theorem release_command_exactly_once:
  assumes "apply_release E R c w = (Inr resp, w')"
  shows "apply_release E R c (run_runtime E R cmds w') = (Inr resp, run_runtime E R cmds w')"
proof -
  obtain r where r: "find_receipt (sc_command_id c) w' = Some r" "payload_hash E c = Inr (rc_payload_hash r)" "rc_response r = resp"
    using apply_receipts [OF assms] by blast
  have own: "sc_company_id c = rs_company_id R" using assms by (auto simp: apply_release_def split: if_splits)
  have "find_receipt (sc_command_id c) (run_runtime E R cmds w') = Some r"
    by (rule run_runtime_invariant [where P = "\<lambda>w. find_receipt (sc_command_id c) w = Some r"])
       (use r runtime_command_receipts find_receipt_grows in blast)+
  with own r show ?thesis by (simp add: apply_release_def replayed_run bindS_run)
qed

section \<open>The invariant\<close>

definition live :: "skill_config \<Rightarrow> bool" where
  "live s \<longleftrightarrow> sk_status s = ''active''"

text \<open>Keys are unique and a skill has at most one live version.\<close>

definition skills_ok :: "skill_config list \<Rightarrow> bool" where
  "skills_ok xs \<longleftrightarrow> distinct (map sk_id xs) \<and> distinct (map (\<lambda>s. (sk_skill_id s, sk_version s)) xs) \<and>
     (\<forall>s \<in> set xs. \<forall>t \<in> set xs. live s \<and> live t \<and> sk_skill_id s = sk_skill_id t \<longrightarrow> sk_id s = sk_id t)"

text \<open>Keys are unique, versions are positive, and a skill of a company has at most one canary.\<close>

definition releases_ok :: "skill_release list \<Rightarrow> bool" where
  "releases_ok xs \<longleftrightarrow> distinct (map sr_deployment_id xs) \<and>
     (\<forall>r \<in> set xs. 1 \<le> sr_version r \<and> sr_state r \<in> {''shadow'', ''canary'', ''active'', ''rolled_back''}) \<and>
     (\<forall>r \<in> set xs. \<forall>r' \<in> set xs. sr_state r = ''canary'' \<and> sr_state r' = ''canary'' \<and>
        sr_company_id r = sr_company_id r' \<and> sr_skill_id r = sr_skill_id r' \<longrightarrow> sr_deployment_id r = sr_deployment_id r')"

definition release_inv :: "runtime \<Rightarrow> bool" where
  "release_inv w \<longleftrightarrow> skills_ok (rt_skills w) \<and> releases_ok (rt_releases w) \<and>
     distinct (map xp_experiment_id (rt_experiments w)) \<and> distinct (map rc_command_id (rt_receipts w))"

lemma skills_okD:
  assumes "skills_ok xs" and "s \<in> set xs" and "t \<in> set xs"
  shows "live s \<Longrightarrow> live t \<Longrightarrow> sk_skill_id s = sk_skill_id t \<Longrightarrow> sk_id s = sk_id t" and "sk_id s = sk_id t \<Longrightarrow> s = t"
proof -
  show "live s \<Longrightarrow> live t \<Longrightarrow> sk_skill_id s = sk_skill_id t \<Longrightarrow> sk_id s = sk_id t"
    using assms unfolding skills_ok_def by blast
  have "inj_on sk_id (set xs)" using assms(1) by (simp add: skills_ok_def distinct_map)
  then show "sk_id s = sk_id t \<Longrightarrow> s = t" using assms(2,3) by (auto dest: inj_onD)
qed

lemma skills_ok_update:
  assumes "skills_ok xs" and f: "\<And>s. sk_id (f s) = sk_id s \<and> sk_skill_id (f s) = sk_skill_id s \<and> sk_version (f s) = sk_version s"
    and "\<And>s t. s \<in> set xs \<Longrightarrow> t \<in> set xs \<Longrightarrow> sk_id s = i \<Longrightarrow> live (f s) \<Longrightarrow> live t \<Longrightarrow> sk_skill_id s = sk_skill_id t \<Longrightarrow> sk_id t = i"
  shows "skills_ok (update_row sk_id i f xs)"
proof -
  have keys: "map sk_id (update_row sk_id i f xs) = map sk_id xs"
    "map (\<lambda>s. (sk_skill_id s, sk_version s)) (update_row sk_id i f xs) = map (\<lambda>s. (sk_skill_id s, sk_version s)) xs"
    using f by (simp_all add: update_row_def)
  have "sk_id s = sk_id t" if "s \<in> set (update_row sk_id i f xs)" "t \<in> set (update_row sk_id i f xs)"
    "live s" "live t" "sk_skill_id s = sk_skill_id t" for s t
  proof -
    from that obtain s' t' where s': "s' \<in> set xs" "s = (if sk_id s' = i then f s' else s')"
      and t': "t' \<in> set xs" "t = (if sk_id t' = i then f t' else t')" by (auto simp: update_row_def)
    have same: "sk_skill_id s' = sk_skill_id t'" using that(5) s'(2) t'(2) f by (simp split: if_splits)
    consider "sk_id s' = i" "sk_id t' = i" | "sk_id s' = i" "sk_id t' \<noteq> i" | "sk_id s' \<noteq> i" "sk_id t' = i"
      | "sk_id s' \<noteq> i" "sk_id t' \<noteq> i" by blast
    then show ?thesis
    proof cases
      case 1 then show ?thesis using s'(2) t'(2) f by simp
    next
      case 2 then show ?thesis using assms(3) [OF s'(1) t'(1)] s'(2) t'(2) that(3,4) same by simp
    next
      case 3 then show ?thesis using assms(3) [OF t'(1) s'(1)] s'(2) t'(2) that(3,4) same by simp
    next
      case 4 then show ?thesis using skills_okD(1) [OF assms(1) s'(1) t'(1)] s'(2) t'(2) that(3,4) same by simp
    qed
  qed
  with assms(1) show ?thesis unfolding skills_ok_def keys by blast
qed

lemma skills_ok_retire: "skills_ok xs \<Longrightarrow> skills_ok (update_row sk_id i retired xs)"
  by (rule skills_ok_update) (auto simp: retired_def live_def)

text \<open>Making a version live keeps the invariant when no version of the skill is live.\<close>

lemma skills_ok_swap:
  assumes "skills_ok xs" and "b \<in> set xs" and "d \<in> set xs" and "sk_skill_id b = sk_skill_id d" and "live b"
    and f: "\<And>s. sk_id (f s) = sk_id s \<and> sk_skill_id (f s) = sk_skill_id s \<and> sk_version (f s) = sk_version s"
  shows "skills_ok (update_row sk_id (sk_id d) f (update_row sk_id (sk_id b) retired xs))"
proof (rule skills_ok_update [OF skills_ok_retire [OF assms(1)] f])
  fix s t assume s: "s \<in> set (update_row sk_id (sk_id b) retired xs)" "sk_id s = sk_id d" "sk_skill_id s = sk_skill_id t"
    and t: "t \<in> set (update_row sk_id (sk_id b) retired xs)" "live t"
  from s obtain s' where s': "s' \<in> set xs" "sk_id s' = sk_id d" "sk_skill_id s' = sk_skill_id t"
    by (auto simp: update_row_def retired_def split: if_splits)
  then have "s' = d" using skills_okD(2) [OF assms(1) _ assms(3)] by blast
  moreover from t obtain "t \<in> set xs" "sk_id t \<noteq> sk_id b" by (auto simp: update_row_def retired_def live_def split: if_splits)
  ultimately have False using skills_okD(1) [OF assms(1) _ assms(2) t(2) assms(5)] s'(3) assms(4) by simp
  then show "sk_id t = sk_id d" ..
qed

lemma effect_skills_ok:
  assumes "release_effect E R c b d release w = (Inr u, w')" and "skills_ok (rt_skills w)"
    and "b \<in> set (rt_skills w)" and "d \<in> set (rt_skills w)" and "sk_id b \<noteq> sk_id d" and "sk_skill_id b = sk_skill_id d"
  shows "skills_ok (rt_skills w')" and "experiments_frame w w'"
proof -
  have ids: "distinct (map sk_id (rt_skills w))" using assms(2) by (simp add: skills_ok_def)
  consider (promote) "promote_release E R c b d release w = (Inr u, w')" | (rollback) "rollback_release E b d release w = (Inr u, w')"
    | (same) "w' = w" using assms(1) by (auto split: if_splits)
  then have "skills_ok (rt_skills w') \<and> experiments_frame w w'"
  proof cases
    case promote
    from promote_ok [OF promote ids assms(3-5)] obtain now where "sk_status b = ''active''" "experiments_frame w w'"
      "rt_skills w' = update_row sk_id (sk_id d) (promoted now) (update_row sk_id (sk_id b) retired (rt_skills w))" by metis
    with skills_ok_swap [OF assms(2-4,6)] show ?thesis by (auto simp: live_def promoted_def)
  next
    case rollback
    from rollback_ok [OF rollback ids assms(3-5)] have "experiments_frame w w'"
      "rt_skills w' = rt_skills w \<or> sk_status d = ''active'' \<and>
         rt_skills w' = update_row sk_id (sk_id b) restored (update_row sk_id (sk_id d) retired (rt_skills w))" by metis+
    with assms(2) skills_ok_swap [OF assms(2,4,3) assms(6) [symmetric]] show ?thesis by (auto simp: live_def restored_def)
  next
    case same
    with assms(2) show ?thesis by (simp add: experiments_frame_def)
  qed
  then show "skills_ok (rt_skills w')" "experiments_frame w w'" by auto
qed

lemma releases_okD:
  assumes "releases_ok xs" and "r \<in> set xs"
  shows "1 \<le> sr_version r" and "sr_state r \<in> {''shadow'', ''canary'', ''active'', ''rolled_back''}"
    and "r' \<in> set xs \<Longrightarrow> sr_state r = ''canary'' \<Longrightarrow> sr_state r' = ''canary'' \<Longrightarrow> sr_company_id r = sr_company_id r' \<Longrightarrow>
      sr_skill_id r = sr_skill_id r' \<Longrightarrow> sr_deployment_id r = sr_deployment_id r'"
  using assms unfolding releases_ok_def by blast+

lemma releases_ok_new:
  assumes "releases_ok xs" and "sr_deployment_id r \<notin> sr_deployment_id ` set xs" and "sr_state r = ''shadow''" and "1 \<le> sr_version r"
  shows "releases_ok (xs @ [r])"
proof -
  have "x = r \<and> sr_state x = ''shadow'' \<or> x \<in> set xs" if "x \<in> set (xs @ [r])" for x using that assms(3) by auto
  then have "sr_deployment_id x = sr_deployment_id y" if "x \<in> set (xs @ [r])" "y \<in> set (xs @ [r])" "sr_state x = ''canary''"
    "sr_state y = ''canary''" "sr_company_id x = sr_company_id y" "sr_skill_id x = sr_skill_id y" for x y
    using that releases_okD(3) [OF assms(1), of x y] by fastforce
  moreover have "distinct (map sr_deployment_id (xs @ [r]))" using assms(1,2) by (simp add: releases_ok_def)
  moreover have "1 \<le> sr_version x \<and> sr_state x \<in> {''shadow'', ''canary'', ''active'', ''rolled_back''}" if "x \<in> set (xs @ [r])" for x
    using that assms(3,4) releases_okD(1,2) [OF assms(1), of x] by auto
  ultimately show ?thesis unfolding releases_ok_def by blast
qed

lemma releases_ok_moved:
  assumes "releases_ok xs" and "r \<in> set xs" and "1 \<le> ss_version nxt"
    and "ss_state nxt \<in> {''shadow'', ''canary'', ''active'', ''rolled_back''}"
    and "\<And>r'. ss_state nxt = ''canary'' \<Longrightarrow> r' \<in> set xs \<Longrightarrow> sr_state r' = ''canary'' \<Longrightarrow> sr_company_id r' = sr_company_id r \<Longrightarrow>
      sr_skill_id r' = sr_skill_id r \<Longrightarrow> sr_deployment_id r' = sr_deployment_id r"
  shows "releases_ok (update_row sr_deployment_id (sr_deployment_id r) (moved nxt now) xs)"
proof -
  let ?ys = "update_row sr_deployment_id (sr_deployment_id r) (moved nxt now) xs"
  have keys: "map sr_deployment_id ?ys = map sr_deployment_id xs" by (simp add: update_row_keys moved_def)
  have inj: "inj_on sr_deployment_id (set xs)" using assms(1) by (simp add: releases_ok_def distinct_map)
  have set: "y = moved nxt now r \<or> y \<in> set xs \<and> sr_deployment_id y \<noteq> sr_deployment_id r" if "y \<in> set ?ys" for y
    using that assms(2) inj by (auto simp: update_row_def dest: inj_onD)
  have "sr_deployment_id x = sr_deployment_id y" if "x \<in> set ?ys" "y \<in> set ?ys" "sr_state x = ''canary''" "sr_state y = ''canary''"
    "sr_company_id x = sr_company_id y" "sr_skill_id x = sr_skill_id y" for x y
    using set [OF that(1)] set [OF that(2)]
  proof (elim disjE)
    assume "x = moved nxt now r" and "y = moved nxt now r" then show ?thesis by simp
  next
    assume "x = moved nxt now r" and y: "y \<in> set xs \<and> sr_deployment_id y \<noteq> sr_deployment_id r"
    then show ?thesis using assms(5) [of y] that by (simp add: moved_def)
  next
    assume "x \<in> set xs \<and> sr_deployment_id x \<noteq> sr_deployment_id r" and "y = moved nxt now r"
    then show ?thesis using assms(5) [of x] that by (simp add: moved_def)
  next
    assume "x \<in> set xs \<and> sr_deployment_id x \<noteq> sr_deployment_id r" and "y \<in> set xs \<and> sr_deployment_id y \<noteq> sr_deployment_id r"
    then show ?thesis using releases_okD(3) [OF assms(1), of x y] that(3-6) by blast
  qed
  moreover have "1 \<le> sr_version y \<and> sr_state y \<in> {''shadow'', ''canary'', ''active'', ''rolled_back''}" if "y \<in> set ?ys" for y
    using set [OF that] assms(3,4) releases_okD(1,2) [OF assms(1)] by (auto simp: moved_def)
  ultimately show ?thesis using assms(1) unfolding releases_ok_def keys by blast
qed

lemma find_release_in:
  assumes "find_release i w = Some r"
  shows "r \<in> set (rt_releases w)" and "sr_deployment_id r = i"
  using assms by (auto simp: find_release_def find_Some_iff)

lemma perform_keeps_inv:
  assumes "perform_release E R c h b d w = (Inr resp, w')" and inv: "release_inv w"
    and b: "skill_version (sc_skill_id c) (sc_baseline_version c) w = Some b"
    and d: "skill_version (sc_skill_id c) (sc_candidate_version c) w = Some d" and "sk_id b \<noteq> sk_id d"
    and new: "find_receipt (sc_command_id c) w = None"
  shows "release_inv w'"
proof -
  let ?rel = "find_release (sc_deployment_id c) w"
  obtain i nxt w1 w2 w3 now where chk: "check_release E c b d ?rel w = (Inr (), w)"
    and can: "canary_experiment E c b ?rel w = (Inr i, w1)"
    and tr: "transition (map_option snapshot_of ?rel) c (Some (case ?rel of None \<Rightarrow> 0 | Some r \<Rightarrow> sr_version r)) i = Inr nxt"
    and eff: "release_effect E R c b d ?rel w1 = (Inr (), w2)" and st: "store_release E c ?rel nxt w2 = (Inr (), w3)"
    and w': "w' = w3\<lparr>rt_tick := Suc (rt_tick w3), rt_receipts := rt_receipts w3 @ [receipt c h resp now]\<rparr>"
    by (rule perform_ok [OF assms(1)])
  note c1 = canary_experiment_ok [OF can] and bs = skill_version_in [OF b] and ds = skill_version_in [OF d]
  have "skills_ok (rt_skills w2)" and frame: "experiments_frame w1 w2"
    using effect_skills_ok [OF eff] inv bs ds assms(5) c1(1) by (simp_all add: release_inv_def)
  have rel2: "rt_releases w2 = rt_releases w" "find_release (sc_deployment_id c) w2 = ?rel"
    using frame c1(2) by (simp_all add: experiments_frame_def find_release_def)
  have ok: "releases_ok (rt_releases w)" using inv by (simp add: release_inv_def)
  then have dist: "distinct (map sr_deployment_id (rt_releases w2))" by (simp add: rel2 releases_ok_def)
  note s3 = store_release_ok [OF st rel2(2) dist]
  have "releases_ok (rt_releases w3)"
  proof (cases ?rel)
    case None
    from s3(4) [OF None] obtain r where r: "rt_releases w3 = rt_releases w @ [r]" "sr_deployment_id r = sc_deployment_id c"
      "sr_state r = ss_state nxt" "sr_version r = ss_version nxt" by (auto simp: rel2)
    have "sr_deployment_id r \<notin> sr_deployment_id ` set (rt_releases w)"
      using None by (force simp: find_release_def find_None_iff r(2))
    moreover have "sr_state r = ''shadow''" "1 \<le> sr_version r" using transition_ok(2) [OF tr] None r(3,4) by simp_all
    ultimately show ?thesis unfolding r(1) by (rule releases_ok_new [OF ok])
  next
    case (Some r)
    note r = find_release_in [OF Some]
    have snap: "ss_version (snapshot_of r) \<le> ss_version nxt" "sr_skill_id r = sc_skill_id c"
      using transition_ok(3) [OF tr, of "snapshot_of r"] Some by (auto simp: same_snapshot_def snapshot_of_def)
    have co: "1 \<le> sr_version r" "sr_company_id r = sc_company_id c" using check_release_ok(4) [OF chk Some] by auto
    from s3(5) [OF Some] obtain t where "rt_releases w3 = update_row sr_deployment_id (sr_deployment_id r) (moved nxt t) (rt_releases w)"
      by (auto simp: rel2 r(2))
    moreover have "releases_ok (update_row sr_deployment_id (sr_deployment_id r) (moved nxt t) (rt_releases w))"
    proof (rule releases_ok_moved [OF ok r(1)])
      show "1 \<le> ss_version nxt" using snap co by (simp add: snapshot_of_def)
      show "ss_state nxt \<in> {''shadow'', ''canary'', ''active'', ''rolled_back''}" by (rule transition_ok(4) [OF tr])
      fix r' assume "ss_state nxt = ''canary''" and r': "r' \<in> set (rt_releases w)" "sr_state r' = ''canary''"
        "sr_company_id r' = sr_company_id r" "sr_skill_id r' = sr_skill_id r"
      then have "\<not> other_canary c w" using transition_ok(1) [OF tr] c1(4) by simp
      then show "sr_deployment_id r' = sr_deployment_id r"
        using r' co(2) snap(2) r(2) by (auto simp: other_canary_def list_ex_iff)
    qed
    ultimately show ?thesis by simp
  qed
  moreover have "distinct (map xp_experiment_id (rt_experiments w3))"
    using c1(5) inv frame by (simp add: s3(2) experiments_frame_def release_inv_def)
  moreover have "rt_receipts w3 = rt_receipts w" using frame c1(3) by (simp add: s3(3) experiments_frame_def)
  then have "distinct (map rc_command_id (rt_receipts w'))"
    using inv new by (auto simp: w' release_inv_def receipt_def find_receipt_def find_None_iff)
  ultimately show ?thesis using \<open>skills_ok (rt_skills w2)\<close> by (simp add: release_inv_def w' s3(1))
qed

lemma apply_keeps_inv:
  assumes "apply_release E R c w = (Inr resp, w')" and "release_inv w"
  shows "release_inv w'"
  using assms(1)
proof (cases rule: apply_ok)
  case (replay r)
  with assms(2) show ?thesis by simp
next
  case (fresh h b d)
  let ?v = "w\<lparr>rt_tick := Suc (rt_tick w)\<rparr>"
  have "release_inv ?v" using assms(2) by (simp add: release_inv_def)
  moreover have "skill_version k v ?v = skill_version k v w" "find_receipt j ?v = find_receipt j w" for k v j
    by (simp_all add: skill_version_def find_receipt_def)
  ultimately show ?thesis
    using perform_keeps_inv [OF fresh(9), of] fresh(1,5-7) by simp
qed

lemma releases_ok_rolled_back:
  assumes "releases_ok xs"
    and "\<And>r. r \<in> set xs \<Longrightarrow> f r = r \<or>
      sr_state (f r) = ''rolled_back'' \<and> sr_deployment_id (f r) = sr_deployment_id r \<and> sr_version r \<le> sr_version (f r)"
  shows "releases_ok (map f xs)"
proof -
  have keys: "map sr_deployment_id (map f xs) = map sr_deployment_id xs" using assms(2) by force
  have "1 \<le> sr_version r \<and> sr_state r \<in> {''shadow'', ''canary'', ''active'', ''rolled_back''}" if "r \<in> set (map f xs)" for r
  proof -
    from that obtain r' where "r' \<in> set xs" "r = f r'" by auto
    then show ?thesis using releases_okD(1,2) [OF assms(1), of r'] assms(2) [of r'] by auto
  qed
  moreover have "r \<in> set xs" if "r \<in> set (map f xs)" "sr_state r = ''canary''" for r
    using that assms(2) by force
  ultimately show ?thesis using assms(1) releases_okD(3) [OF assms(1)] unfolding releases_ok_def keys by blast
qed

lemma release_inv_frame:
  "release_inv w \<Longrightarrow> release_inv (w\<lparr>rt_tick := n\<rparr>)" "release_inv w \<Longrightarrow> release_inv (w\<lparr>rt_traces := ts\<rparr>)"
  "(\<And>x. xp_experiment_id (f x) = xp_experiment_id x) \<Longrightarrow> release_inv w \<Longrightarrow>
     release_inv (w\<lparr>rt_experiments := update_row xp_experiment_id i f (rt_experiments w)\<rparr>)"
  by (simp_all add: release_inv_def update_row_keys)

lemma keeps_inv_conclude: "keeps release_inv (conclude_experiment E i status)"
  unfolding conclude_experiment_def write_experiment_def
  by (intro keeps_intros) (auto simp: release_inv_def update_row_keys intro!: releases_ok_rolled_back split: if_splits)

lemma keeps_inv_check: "keeps release_inv (check_experiment E R agent_id skill_id min_samples)"
  unfolding check_experiment_def by (intro keeps_intros keeps_inv_conclude)

lemma update_row_releases: "releases_ok (update_row sr_deployment_id i f rs) \<longleftrightarrow>
    releases_ok (map (\<lambda>r. if sr_deployment_id r = i then f r else r) rs)"
  by (simp add: update_row_def)

lemma restore_baseline_inv:
  assumes "release_inv w" and "a \<in> set (rt_skills w)" and "b \<in> set (rt_skills w)" and "sk_skill_id a = sk_skill_id b" and "live a"
  shows "release_inv (snd (restore_baseline E a b release w))"
proof -
  let ?v = "w\<lparr>rt_tick := Suc (rt_tick w), rt_skills := update_row sk_id (sk_id b) (promoted (e_clock E (rt_tick w)))
    (update_row sk_id (sk_id a) retired (rt_skills w))\<rparr>"
  let ?rest = "\<lambda>r. bindS (now_runtime E) (\<lambda>now.
         bindS (modifyS (\<lambda>w. w\<lparr>rt_releases := update_row sr_deployment_id (sr_deployment_id r)
                  (\<lambda>r. r\<lparr>sr_state := ''rolled_back'', sr_version := sr_version r + 1, sr_updated_at := now\<rparr>) (rt_releases w)\<rparr>)) (\<lambda>_.
         whenS (truthy_str (sr_experiment_id r))
           (bindS (getS (find_experiment (sr_experiment_id r))) (\<lambda>experiment. case experiment of
                None \<Rightarrow> retS () | Some x \<Rightarrow> conclude E x ''rolled_back''))))"
  have "skills_ok (rt_skills ?v)"
    using skills_ok_swap [OF _ assms(2-5), of "promoted (e_clock E (rt_tick w))"] assms(1) by (simp add: release_inv_def promoted_def)
  then have v: "release_inv ?v" using assms(1) by (simp add: release_inv_def)
  have "keeps release_inv (?rest r)" for r
    unfolding conclude_def write_experiment_def
    by (intro keeps_intros)
       (auto simp: release_inv_def update_row_keys update_row_releases intro!: releases_ok_rolled_back)
  then have "release_inv (snd (?rest r ?v))" for r using v by (rule keepsD)
  then have "release_inv (snd ((case release of None \<Rightarrow> retS () | Some r \<Rightarrow> ?rest r) ?v))"
    using v by (cases release) simp_all
  then show ?thesis
    by (simp add: restore_baseline_def write_skill_def retired_def [abs_def] promoted_def [abs_def])
qed

lemma keeps_inv_rollback: "keeps release_inv (rollback_skill_if_current E R skill_id va vb agent_id)"
proof (rule keepsI)
  fix w :: runtime assume inv: "release_inv w"
  let ?configs = "sort_key sk_id (filter (\<lambda>s. sk_skill_id s = skill_id) (rt_skills w))"
  have mem: "s \<in> set (rt_skills w) \<and> sk_skill_id s = skill_id \<and> P s" if "find P ?configs = Some s" for P s
  proof -
    have "s \<in> set ?configs" "P s" using find_in [OF that] by blast+
    then show ?thesis by simp
  qed
  let ?active = "find (\<lambda>s. sk_version s = va \<and> sk_status s = ''active'') ?configs"
  let ?baseline = "find (\<lambda>s. sk_version s = vb \<and> sk_status s = ''retired'') ?configs"
  show "release_inv (snd (rollback_skill_if_current E R skill_id va vb agent_id w))"
  proof (cases ?active)
    case None
    then show ?thesis using inv by (simp add: rollback_skill_if_current_def)
  next
    case (Some a)
    note a = this
    show ?thesis
    proof (cases ?baseline)
      case None
      then show ?thesis using inv a by (simp add: rollback_skill_if_current_def)
    next
      case (Some b)
      have restored: "release_inv (snd (restore_baseline E a b release w))" for release
        by (rule restore_baseline_inv [OF inv]) (use mem [OF a] mem [OF Some] in \<open>simp_all add: live_def\<close>)
      then have "release_inv (snd (bindS (restore_baseline E a b release) (\<lambda>_. retS True) w))" for release
        by (simp add: bindS_run split: prod.splits sum.splits) (metis snd_conv)
      then show ?thesis using inv a Some
        by (auto simp: rollback_skill_if_current_def bindS_run [of "liftE x" for x] split: list.splits sum.splits)
    qed
  qed
qed

lemma runtime_command_keeps_inv:
  assumes "release_inv w"
  shows "release_inv (run_runtime_command E R cmd w)"
proof (cases cmd)
  case (ApplyRelease c s)
  then show ?thesis using assms
    by (cases rule: route_cases [of E R c s w]) (auto intro: release_inv_frame dest: apply_keeps_inv)
next
  case (AddExperimentResult i is_candidate score)
  with assms show ?thesis
    by (simp add: add_experiment_result_def write_experiment_def release_inv_def update_row_keys)
next
  case (ConcludeExperiment i status)
  with keepsD [OF keeps_inv_conclude assms] show ?thesis by simp
next
  case (RecordExecution result)
  have "keeps release_inv (route_record_result E R result)" by (intro keeps_record release_inv_frame)
  from keepsD [OF this assms] RecordExecution show ?thesis by simp
next
  case (RecordCanary agent_id skill_id trace_id score)
  have "keeps release_inv (runtime_transaction (record_canary_result R agent_id skill_id trace_id score))"
    by (intro keeps_intros keeps_record release_inv_frame)
  from keepsD [OF this assms] RecordCanary show ?thesis by simp
next
  case (CheckExperiment agent_id skill_id min_samples)
  have "keeps release_inv (runtime_transaction (check_experiment E R agent_id skill_id min_samples))"
    by (intro keeps_intros keeps_inv_check release_inv_frame)
  from keepsD [OF this assms] CheckExperiment show ?thesis by simp
next
  case (GuardRollback skill_id va vb agent_id)
  have "keeps release_inv (runtime_transaction (rollback_skill_if_current E R skill_id va vb agent_id))"
    by (intro keeps_intros keeps_inv_rollback release_inv_frame)
  from keepsD [OF this assms] GuardRollback show ?thesis by simp
qed

text \<open>
  C28. Along every sequence of release commands, recorded results, experiment checks and conclusions, and
  rollbacks by the guard, a skill
  has at most one live version, a skill of a company has at most one canary, every release is in a state
  of the lifecycle with a positive version, and the keys of skills, releases, experiments and receipts
  stay unique.\<close>

theorem release_invariant:
  assumes "release_inv w"
  shows "release_inv (run_runtime E R cmds w)"
  by (rule run_runtime_invariant [OF assms runtime_command_keeps_inv])

section \<open>Live versions\<close>

text \<open>The canary experiment met the gates of a promotion.\<close>

definition canary_passed :: "runtime_settings \<Rightarrow> skill_release_command \<Rightarrow> evolution_experiment \<Rightarrow> bool" where
  "canary_passed R c x \<longleftrightarrow>
     (let control = results (xp_control_results x); candidate = results (xp_candidate_results x);
          needed = max (max (sc_minimum_sample_count c) (xp_min_samples x)) 50 in
      xp_status x = ''running'' \<and> needed \<le> int (length control) \<and> needed \<le> int (length candidate) \<and>
      \<not> pf_less (mean R candidate) (pf_add (mean R control) (xp_min_improvement x)))"

lemma gate_passed: "promotion_gate R c (Some x) = Inr x \<Longrightarrow> canary_passed R c x"
  by (auto simp: promotion_gate_def canary_passed_def Let_def split: if_splits)

text \<open>What a granted request did, when it was not a replay.\<close>

lemma granted_fresh:
  assumes "route_apply_skill_release E R c signature w = (Inr resp, w')" and "find_receipt (sc_command_id c) w = None"
    and "release_inv w"
  obtains b d i nxt w1 w2 where "sc_action c \<in> {''promote'', ''rollback''} \<longrightarrow> truthy_str (sc_approval_id c)"
    "skill_version (sc_skill_id c) (sc_baseline_version c) w = Some b"
    "skill_version (sc_skill_id c) (sc_candidate_version c) w = Some d" "sk_id b \<noteq> sk_id d"
    "transition (map_option snapshot_of (find_release (sc_deployment_id c) w)) c
       (Some (case find_release (sc_deployment_id c) w of None \<Rightarrow> 0 | Some r \<Rightarrow> sr_version r)) i = Inr nxt"
    "rt_skills w1 = rt_skills w" "\<forall>j. sc_action c \<noteq> ''canary'' \<longrightarrow> find_experiment j w1 = find_experiment j w"
    "release_effect E R c b d (find_release (sc_deployment_id c) w) w1 = (Inr (), w2)" "rt_skills w' = rt_skills w2"
    "find_release (sc_deployment_id c) w \<noteq> None \<longrightarrow>
       (\<exists>now. rt_releases w' = update_row sr_deployment_id (sc_deployment_id c) (moved nxt now) (rt_releases w))"
proof -
  let ?u = "w\<lparr>rt_tick := Suc (rt_tick w)\<rparr>" and ?v = "w\<lparr>rt_tick := Suc (Suc (rt_tick w))\<rparr>"
  let ?rel = "find_release (sc_deployment_id c) w"
  have [simp]: "skill_version k l ?u = skill_version k l w" "find_receipt (sc_command_id c) ?u = None"
    "find_release (sc_deployment_id c) ?v = ?rel" for k l
    using assms(2) by (simp_all add: skill_version_def find_receipt_def find_release_def)
  from assms(1) have "apply_release E R c ?u = (Inr resp, w')"
    by (cases rule: route_cases [of E R c signature w]) auto
  then obtain h b d where ap: "sc_action c \<in> {''promote'', ''rollback''} \<longrightarrow> truthy_str (sc_approval_id c)"
    and bd: "skill_version (sc_skill_id c) (sc_baseline_version c) w = Some b"
      "skill_version (sc_skill_id c) (sc_candidate_version c) w = Some d" "sk_id b \<noteq> sk_id d"
    and per: "perform_release E R c h b d ?v = (Inr resp, w')"
    by (cases rule: apply_ok) auto
  obtain i nxt w1 w2 w3 now where can: "canary_experiment E c b ?rel ?v = (Inr i, w1)"
    and tr: "transition (map_option snapshot_of ?rel) c (Some (case ?rel of None \<Rightarrow> 0 | Some r \<Rightarrow> sr_version r)) i = Inr nxt"
    and eff: "release_effect E R c b d ?rel w1 = (Inr (), w2)" and st: "store_release E c ?rel nxt w2 = (Inr (), w3)"
    and w': "w' = w3\<lparr>rt_tick := Suc (rt_tick w3), rt_receipts := rt_receipts w3 @ [receipt c h resp now]\<rparr>"
    by (rule perform_ok [OF per, unfolded \<open>find_release (sc_deployment_id c) ?v = ?rel\<close>])
  note c1 = canary_experiment_ok [OF can]
  have "skills_ok (rt_skills w1)" using assms(3) c1(1) by (simp add: release_inv_def)
  then have "experiments_frame w1 w2"
    by (rule effect_skills_ok(2) [OF eff]) (use skill_version_in [OF bd(1)] skill_version_in [OF bd(2)] bd(3) c1(1) in simp_all)
  then have rel2: "rt_releases w2 = rt_releases w" "find_release (sc_deployment_id c) w2 = ?rel"
    using c1(2) by (simp_all add: experiments_frame_def find_release_def)
  have "distinct (map sr_deployment_id (rt_releases w2))" using assms(3) by (simp add: rel2 release_inv_def releases_ok_def)
  note s3 = store_release_ok [OF st rel2(2) this]
  show thesis
    by (rule that [OF ap bd tr _ _ eff]) (use c1(1,6) s3(1,5) rel2(1) in \<open>auto simp: w' find_experiment_def\<close>)
qed

lemma live_after_swap:
  assumes "s \<in> set (update_row sk_id i f (update_row sk_id j retired xs))" and "live s"
    and "\<forall>t \<in> set xs. sk_id t = sk_id s \<longrightarrow> \<not> live t" and "\<And>t. sk_id (f t) = sk_id t"
  shows "sk_id s = i"
proof -
  from assms(1) obtain t where "t \<in> set xs" and
    s: "s = (let r = (if sk_id t = j then retired t else t) in if sk_id r = i then f r else r)"
    by (auto simp: update_row_def Let_def)
  moreover have "sk_id (retired t) = sk_id t" "\<not> live (retired t)" by (simp_all add: retired_def live_def)
  ultimately show ?thesis using assms(2-4) by (auto simp: Let_def split: if_splits)
qed

lemma effect_live:
  assumes "release_effect E R c b d release w = (Inr u, w')" and "distinct (map sk_id (rt_skills w))"
    and "b \<in> set (rt_skills w)" and "d \<in> set (rt_skills w)" and "sk_id b \<noteq> sk_id d"
    and s: "s \<in> set (rt_skills w')" "live s" "\<forall>t \<in> set (rt_skills w). sk_id t = sk_id s \<longrightarrow> \<not> live t"
  obtains (promote) r x where "sc_action c = ''promote''" "release = Some r" "sr_state r = ''canary''"
      "find_experiment (sr_experiment_id r) w = Some x" "canary_passed R c x" "sk_id s = sk_id d"
  | (rollback) r where "sc_action c = ''rollback''" "release = Some r" "sr_state r = ''active''" "live d" "sk_id s = sk_id b"
proof -
  have "rt_skills w' \<noteq> rt_skills w" using s by auto
  then consider (p) "sc_action c = ''promote''" "promote_release E R c b d release w = (Inr u, w')"
    | (r) "sc_action c = ''rollback''" "rollback_release E b d release w = (Inr u, w')"
    using assms(1) by (auto split: if_splits)
  then show thesis
  proof cases
    case p
    obtain r x t where r: "release = Some r" "sr_state r = ''canary''" "find_experiment (sr_experiment_id r) w = Some x"
      "promotion_gate R c (Some x) = Inr x"
      and new: "rt_skills w' = update_row sk_id (sk_id d) (promoted t) (update_row sk_id (sk_id b) retired (rt_skills w))"
      by (rule promote_ok [OF p(2) assms(2-5)])
    have "sk_id s = sk_id d" by (rule live_after_swap [OF s(1) [unfolded new] s(2,3)]) (simp add: promoted_def)
    with promote [OF p(1) r(1-3) gate_passed [OF r(4)]] show thesis by simp
  next
    case r
    from rollback_ok [OF r(2) assms(2-5)] \<open>rt_skills w' \<noteq> rt_skills w\<close>
    obtain q where q: "release = Some q" "sr_state q = ''active''" "sk_status d = ''active''"
      and new: "rt_skills w' = update_row sk_id (sk_id b) restored (update_row sk_id (sk_id d) retired (rt_skills w))" by metis
    have "sk_id s = sk_id b" by (rule live_after_swap [OF s(1) [unfolded new] s(2,3)]) (simp add: restored_def)
    with rollback [OF r(1) q(1,2)] q(3) show thesis by (simp add: live_def)
  qed
qed


lemma skill_version_map:
  assumes "rt_skills w' = map g (rt_skills w)" and "\<And>s. sk_skill_id (g s) = sk_skill_id s" and "\<And>s. sk_version (g s) = sk_version s"
  shows "skill_version k v w' = map_option g (skill_version k v w)"
proof -
  have "find (\<lambda>s. sk_skill_id s = k \<and> sk_version s = int_text v) (map g xs) =
      map_option g (find (\<lambda>s. sk_skill_id s = k \<and> sk_version s = int_text v) xs)" for xs
    by (induction xs) (auto simp: assms(2,3))
  then show ?thesis by (simp add: skill_version_def assms(1))
qed

lemma find_release_moved:
  assumes "rt_releases w' = update_row sr_deployment_id i (moved nxt now) (rt_releases w)"
  shows "find_release i w' = map_option (moved nxt now) (find_release i w)"
  using assms by (simp add: find_release_def find_update_row moved_def)

lemma promotion_step:
  assumes "route_apply_skill_release E R p signature w = (Inr resp, w')" and "sc_action p = ''promote''"
    and "find_receipt (sc_command_id p) w = None" and "release_inv w"
  obtains b d r t now nxt where "skill_version (sc_skill_id p) (sc_baseline_version p) w = Some b"
    "skill_version (sc_skill_id p) (sc_candidate_version p) w = Some d" "sk_id b \<noteq> sk_id d"
    "live b" "\<not> live d" "same_snapshot (snapshot_of r) p" "find_release (sc_deployment_id p) w' = Some (moved nxt now r)"
    "ss_state nxt = ''active''"
    "rt_skills w' = update_row sk_id (sk_id d) (promoted t) (update_row sk_id (sk_id b) retired (rt_skills w))"
proof -
  let ?rel = "find_release (sc_deployment_id p) w"
  obtain b d i nxt v1 v2 where bd: "skill_version (sc_skill_id p) (sc_baseline_version p) w = Some b"
      "skill_version (sc_skill_id p) (sc_candidate_version p) w = Some d" "sk_id b \<noteq> sk_id d"
    and tr: "transition (map_option snapshot_of ?rel) p (Some (case ?rel of None \<Rightarrow> 0 | Some r \<Rightarrow> sr_version r)) i = Inr nxt"
    and v1: "rt_skills v1 = rt_skills w" and eff: "release_effect E R p b d ?rel v1 = (Inr (), v2)" and v2: "rt_skills w' = rt_skills v2"
    and moved: "?rel \<noteq> None \<longrightarrow>
       (\<exists>now. rt_releases w' = update_row sr_deployment_id (sc_deployment_id p) (moved nxt now) (rt_releases w))"
    by (rule granted_fresh [OF assms(1,3,4)])
  have pr: "promote_release E R p b d ?rel v1 = (Inr (), v2)" using eff assms(2) by simp
  have ids: "distinct (map sk_id (rt_skills v1))" using assms(4) by (simp add: v1 release_inv_def skills_ok_def)
  obtain r t where r: "?rel = Some r" and st: "sk_status b = ''active''" "sk_status d \<in> {''candidate'', ''shadow''}"
    and new: "rt_skills v2 = update_row sk_id (sk_id d) (promoted t) (update_row sk_id (sk_id b) retired (rt_skills v1))"
    by (rule promote_ok [OF pr ids]) (use skill_version_in(1) [OF bd(1)] skill_version_in(1) [OF bd(2)] bd(3) in \<open>auto simp: v1\<close>)
  from moved r obtain now where "find_release (sc_deployment_id p) w' = Some (moved nxt now r)"
    by (auto dest: find_release_moved)
  moreover have "ss_state nxt = ''active''" "same_snapshot (snapshot_of r) p"
    using tr r assms(2) by (auto simp: transition_def split: if_splits)
  ultimately show thesis using that [OF bd] st new by (auto simp: live_def v1 v2)
qed

lemma rollback_step:
  assumes "route_apply_skill_release E R q signature w = (Inr resp, w')" and "sc_action q = ''rollback''"
    and "find_receipt (sc_command_id q) w = None" and "release_inv w"
    and "find_release (sc_deployment_id q) w = Some r" and "sr_state r = ''active''"
  obtains b d where "skill_version (sc_skill_id q) (sc_baseline_version q) w = Some b"
    "skill_version (sc_skill_id q) (sc_candidate_version q) w = Some d"
    "same_snapshot (snapshot_of r) q" "map_option sr_state (find_release (sc_deployment_id q) w') = Some ''rolled_back''"
    "rt_skills w' = update_row sk_id (sk_id b) restored (update_row sk_id (sk_id d) retired (rt_skills w))"
proof -
  let ?rel = "find_release (sc_deployment_id q) w"
  obtain b d i nxt v1 v2 where bd: "skill_version (sc_skill_id q) (sc_baseline_version q) w = Some b"
      "skill_version (sc_skill_id q) (sc_candidate_version q) w = Some d" "sk_id b \<noteq> sk_id d"
    and tr: "transition (map_option snapshot_of ?rel) q (Some (case ?rel of None \<Rightarrow> 0 | Some r \<Rightarrow> sr_version r)) i = Inr nxt"
    and v1: "rt_skills v1 = rt_skills w" and eff: "release_effect E R q b d ?rel v1 = (Inr (), v2)" and v2: "rt_skills w' = rt_skills v2"
    and moved: "?rel \<noteq> None \<longrightarrow>
       (\<exists>now. rt_releases w' = update_row sr_deployment_id (sc_deployment_id q) (moved nxt now) (rt_releases w))"
    by (rule granted_fresh [OF assms(1,3,4)])
  have rb: "rollback_release E b d (Some r) v1 = (Inr (), v2)" using eff assms(2,5) by simp
  have ids: "distinct (map sk_id (rt_skills v1))" using assms(4) by (simp add: v1 release_inv_def skills_ok_def)
  have new: "rt_skills v2 = update_row sk_id (sk_id b) restored (update_row sk_id (sk_id d) retired (rt_skills v1))"
    by (rule rollback_ok [OF rb ids])
       (use skill_version_in(1) [OF bd(1)] skill_version_in(1) [OF bd(2)] bd(3) assms(6) in \<open>auto simp: v1\<close>)
  from moved assms(5) obtain now where "find_release (sc_deployment_id q) w' = Some (moved nxt now r)"
    by (auto dest: find_release_moved)
  moreover have "ss_state nxt = ''rolled_back''" "same_snapshot (snapshot_of r) q"
    using tr assms(2,5,6) by (auto simp: transition_def snapshot_of_def split: if_splits)
  ultimately show thesis using that [OF bd(1,2)] new by (auto simp: v1 v2 moved_def)
qed

text \<open>
  C29. A rollback undoes a promotion: when a release was promoted and the next command rolls the same
  deployment back, the same versions of all skills are live as before the promotion, and the release
  ends as rolled back.\<close>

theorem rollback_undoes_promotion:
  assumes "route_apply_skill_release E R p sp w = (Inr rp, w1)" and "sc_action p = ''promote''"
    and "find_receipt (sc_command_id p) w = None" and "release_inv w"
    and "route_apply_skill_release E R q sq w1 = (Inr rq, w2)" and "sc_action q = ''rollback''"
    and "find_receipt (sc_command_id q) w1 = None" and "sc_deployment_id q = sc_deployment_id p"
  shows "map (\<lambda>s. (sk_skill_id s, sk_version s, live s)) (rt_skills w2) =
      map (\<lambda>s. (sk_skill_id s, sk_version s, live s)) (rt_skills w) \<and>
    map_option sr_state (find_release (sc_deployment_id p) w2) = Some ''rolled_back''"
proof -
  obtain b d r t now nxt where bd: "skill_version (sc_skill_id p) (sc_baseline_version p) w = Some b"
      "skill_version (sc_skill_id p) (sc_candidate_version p) w = Some d" "sk_id b \<noteq> sk_id d" "live b" "\<not> live d"
    and r: "same_snapshot (snapshot_of r) p" "find_release (sc_deployment_id p) w1 = Some (moved nxt now r)" "ss_state nxt = ''active''"
    and w1: "rt_skills w1 = update_row sk_id (sk_id d) (promoted t) (update_row sk_id (sk_id b) retired (rt_skills w))"
    by (rule promotion_step [OF assms(1-4)])
  have inv1: "release_inv w1" using runtime_command_keeps_inv [OF assms(4), of E R "ApplyRelease p sp"] assms(1) by simp
  obtain b' d' where bd': "skill_version (sc_skill_id q) (sc_baseline_version q) w1 = Some b'"
      "skill_version (sc_skill_id q) (sc_candidate_version q) w1 = Some d'"
    and q: "same_snapshot (snapshot_of (moved nxt now r)) q" "map_option sr_state (find_release (sc_deployment_id q) w2) = Some ''rolled_back''"
    and w2: "rt_skills w2 = update_row sk_id (sk_id b') restored (update_row sk_id (sk_id d') retired (rt_skills w1))"
    by (rule rollback_step [OF assms(5-7) inv1]) (use r assms(8) in \<open>auto simp: moved_def\<close>)
  let ?g = "\<lambda>s. let u = (if sk_id s = sk_id b then retired s else s) in if sk_id u = sk_id d then promoted t u else u"
  have "skill_version k v w1 = map_option ?g (skill_version k v w)" for k v
    by (rule skill_version_map) (auto simp: w1 update_row_def retired_def promoted_def Let_def)
  moreover have "sc_skill_id q = sc_skill_id p" "sc_baseline_version q = sc_baseline_version p" "sc_candidate_version q = sc_candidate_version p"
    using q(1) r(1) by (auto simp: same_snapshot_def snapshot_of_def moved_def)
  ultimately have "b' = ?g b" "d' = ?g d" using bd(1,2) bd' by simp_all
  then have same: "sk_id b' = sk_id b" "sk_id d' = sk_id d" by (simp_all add: retired_def promoted_def Let_def)
  have ok: "skills_ok (rt_skills w)" using assms(4) by (simp add: release_inv_def)
  have "sk_id s = sk_id b \<Longrightarrow> live s" "sk_id s = sk_id d \<Longrightarrow> \<not> live s" if "s \<in> set (rt_skills w)" for s
    using skills_okD(2) [OF ok that skill_version_in(1) [OF bd(1)]] skills_okD(2) [OF ok that skill_version_in(1) [OF bd(2)]] bd(4,5)
    by auto
  then have "map (\<lambda>s. (sk_skill_id s, sk_version s, live s)) (rt_skills w2) = map (\<lambda>s. (sk_skill_id s, sk_version s, live s)) (rt_skills w)"
    using bd(3) by (auto simp: w2 w1 same update_row_def retired_def promoted_def restored_def live_def)
  with q(2) assms(8) show ?thesis by simp
qed

section \<open>A promotion and its rollback\<close>

definition sample_skill :: "int \<Rightarrow> string \<Rightarrow> skill_config" where
  "sample_skill i status = \<lparr>sk_id = i, sk_skill_id = ''triage'', sk_version = int_text i, sk_status = status,
     sk_system_prompt = ''prompt'', sk_parameters = None, sk_few_shot_examples = None, sk_output_format = [],
     sk_target_model = [], sk_total_executions = 0, sk_success_rate = Fin 0, sk_avg_human_rating = Fin 0,
     sk_created_at = 0, sk_promoted_at = None\<rparr>"

definition sample_config_hash :: string where
  "sample_config_hash = ''hskill_idversionsystem_promptparametersfew_shot_examplesoutput_formattarget_model''"

definition sample_command :: "string \<Rightarrow> string \<Rightarrow> skill_release_command" where
  "sample_command command_id action = \<lparr>sc_schema_version = ''1.0'', sc_command_id = command_id,
     sc_deployment_id = ''dep-1'', sc_company_id = ''acme'', sc_proposal_id = ''evp-1'',
     sc_evaluation_report_id = ''evr-1'', sc_evaluation_hash = ''eh'', sc_skill_id = ''triage'', sc_agent_id = ''dev'',
     sc_baseline_version = 1, sc_candidate_version = 2, sc_baseline_config_hash = sample_config_hash,
     sc_candidate_config_hash = sample_config_hash, sc_action = action, sc_traffic_pct = 10,
     sc_minimum_sample_count = 50, sc_approval_id = Some ''apr-1'', sc_expires_at = utc_dt 3600000000\<rparr>"

definition sample_release :: skill_release where
  "sample_release = \<lparr>sr_deployment_id = ''dep-1'', sr_company_id = ''acme'', sr_proposal_id = ''evp-1'',
     sr_evaluation_report_id = ''evr-1'', sr_evaluation_hash = ''eh'', sr_skill_id = ''triage'', sr_agent_id = ''dev'',
     sr_baseline_version = 1, sr_candidate_version = 2, sr_baseline_config_hash = sample_config_hash,
     sr_candidate_config_hash = sample_config_hash, sr_state = ''canary'', sr_version = 2,
     sr_experiment_id = Some ''dep-1'', sr_created_at = 0, sr_updated_at = 0\<rparr>"

definition sample_experiment :: evolution_experiment where
  "sample_experiment = \<lparr>xp_experiment_id = ''dep-1'', xp_agent_id = ''dev'', xp_skill_id = ''triage'',
     xp_control_version = 1, xp_candidate_version = 2, xp_traffic_pct = 10, xp_min_samples = 50,
     xp_max_duration_hours = 72, xp_success_metric = ''success_rate'', xp_min_improvement = Fin 1,
     xp_status = ''running'', xp_control_results = Some (replicate 50 (Fin 0)),
     xp_candidate_results = Some (replicate 50 (Fin 1)), xp_created_at = 0, xp_concluded_at = None\<rparr>"

definition sample_runtime :: runtime where
  "sample_runtime = \<lparr>rt_skills = [sample_skill 1 ''active'', sample_skill 2 ''candidate''],
     rt_experiments = [sample_experiment], rt_releases = [sample_release], rt_receipts = [], rt_traces = [], rt_tick = 0\<rparr>"

definition sample_runtime_settings :: runtime_settings where
  "sample_runtime_settings = \<lparr>rs_company_id = ''acme'', rs_signing_key = replicate 32 (CHR ''k''),
     rs_hmac = (\<lambda>key text. ''sig:'' @ text), rs_command_text = sc_command_id, 
     rs_sum = (\<lambda>scores. f64_round (sum_list (map (\<lambda>x. case x of Fin q \<Rightarrow> q | _ \<Rightarrow> 0) scores))),
     rs_md5 = (\<lambda>text. [0, 0, 0, of_nat (length text)]), rs_debug = False\<rparr>"

abbreviation (input) sample_apply where
  "sample_apply command_id action \<equiv> route_apply_skill_release sample_env sample_runtime_settings
     (sample_command command_id action) (''sig:'' @ command_id)"

lemma sample_runs:
  "\<not> isl (fst (sample_apply ''cmd-1'' ''promote'' sample_runtime))"
  "\<not> isl (fst (sample_apply ''cmd-2'' ''rollback'' (snd (sample_apply ''cmd-1'' ''promote'' sample_runtime))))"
  "find_receipt ''cmd-2'' (snd (sample_apply ''cmd-1'' ''promote'' sample_runtime)) = None"
  "list_ex (\<lambda>s. live s \<and> sk_id s = 2) (rt_skills (snd (sample_apply ''cmd-1'' ''promote'' sample_runtime)))"
  by code_simp+

lemma sample_inv: "release_inv sample_runtime" by code_simp

theorem release_invariant_witness:
  "release_inv (run_runtime sample_env sample_runtime_settings
     [ApplyRelease (sample_command ''cmd-1'' ''promote'') ''sig:cmd-1'', AddExperimentResult ''dep-1'' True (Fin 1),
      ApplyRelease (sample_command ''cmd-2'' ''rollback'') ''sig:cmd-2''] sample_runtime)"
  by (rule release_invariant [OF sample_inv])

theorem release_command_exactly_once_witness:
  "\<exists>resp w'. apply_release sample_env sample_runtime_settings (sample_command ''cmd-1'' ''promote'')
       (sample_runtime\<lparr>rt_tick := 1\<rparr>) = (Inr resp, w') \<and>
     apply_release sample_env sample_runtime_settings (sample_command ''cmd-1'' ''promote'')
       (run_runtime sample_env sample_runtime_settings [ApplyRelease (sample_command ''cmd-2'' ''rollback'') ''sig:cmd-2''] w') =
     (Inr resp, run_runtime sample_env sample_runtime_settings [ApplyRelease (sample_command ''cmd-2'' ''rollback'') ''sig:cmd-2''] w')"
proof -
  have "rt_tick sample_runtime = 0" by (simp add: sample_runtime_def)
  then obtain resp w' where run: "apply_release sample_env sample_runtime_settings (sample_command ''cmd-1'' ''promote'')
      (sample_runtime\<lparr>rt_tick := 1\<rparr>) = (Inr resp, w')"
    using sample_runs(1) by (cases rule: route_cases [of sample_env sample_runtime_settings "sample_command ''cmd-1'' ''promote''"
        "''sig:'' @ ''cmd-1''" sample_runtime]) auto
  show ?thesis using run release_command_exactly_once [OF run] by blast
qed

lemma sample_promoted:
  obtains resp w' where "sample_apply ''cmd-1'' ''promote'' sample_runtime = (Inr resp, w')"
    "w' = snd (sample_apply ''cmd-1'' ''promote'' sample_runtime)"
  using sample_runs(1) by (cases "sample_apply ''cmd-1'' ''promote'' sample_runtime"; cases "fst (sample_apply ''cmd-1'' ''promote'' sample_runtime)") auto


theorem rollback_undoes_promotion_witness:
  "map_option sr_state (find_release ''dep-1''
     (snd (sample_apply ''cmd-2'' ''rollback'' (snd (sample_apply ''cmd-1'' ''promote'' sample_runtime))))) = Some ''rolled_back''"
proof -
  obtain resp w1 where p: "sample_apply ''cmd-1'' ''promote'' sample_runtime = (Inr resp, w1)"
    and w1: "w1 = snd (sample_apply ''cmd-1'' ''promote'' sample_runtime)" by (rule sample_promoted)
  obtain resq w2 where q: "sample_apply ''cmd-2'' ''rollback'' w1 = (Inr resq, w2)"
    using sample_runs(2) unfolding w1 [symmetric] by (cases "sample_apply ''cmd-2'' ''rollback'' w1"; cases "fst (sample_apply ''cmd-2'' ''rollback'' w1)") auto
  have "map_option sr_state (find_release (sc_deployment_id (sample_command ''cmd-1'' ''promote'')) w2) = Some ''rolled_back''"
    using rollback_undoes_promotion [OF p _ _ sample_inv q] sample_runs(3)
    by (simp add: sample_command_def find_receipt_def sample_runtime_def w1)
  with q w1 show ?thesis by (simp add: sample_command_def)
qed

end
