(* ===== verification/Release_Handover.thy ===== *)
theory Release_Handover
  imports Evolution_Service Release_Safety
begin

text \<open>
  Properties of the Control Plane's side of evolution: the gate on the rollout of a proposal, and the
  agreement between the deployments the Control Plane records and the receipts of the evolution
  runtime, over the routes that release, reconcile and recover.
\<close>

section \<open>Rows of proposals and deployments\<close>

lemma keeps_proposals_audit:
  "keeps (\<lambda>w. P (t_proposals (w_db w)) (t_deployments (w_db w))) (proposal_audit E co act i ty who tr det)"
  "keeps (\<lambda>w. P (t_proposals (w_db w)) (t_deployments (w_db w))) (append_control_plane_domain_event_audits E evs ctx)"
  unfolding proposal_audit_def
  using keeps_new_audit(1) [where P = "\<lambda>c. P (t_proposals c) (t_deployments c)"]
    keeps_domain_event_audits(1) [where P = "\<lambda>c. P (t_proposals c) (t_deployments c)"]
  by (auto intro!: keeps_intros)

lemma proposals_after_audit:
  "proposal_audit E co act i ty who tr det w = (r, w') \<Longrightarrow>
     t_proposals (w_db w') = t_proposals (w_db w) \<and> t_deployments (w_db w') = t_deployments (w_db w)"
  "append_control_plane_domain_event_audits E evs ctx w = (q, w') \<Longrightarrow>
     t_proposals (w_db w') = t_proposals (w_db w) \<and> t_deployments (w_db w') = t_deployments (w_db w)"
  using keepsD_run [OF keeps_proposals_audit(1) [where P = "\<lambda>ps ds. ps = t_proposals (w_db w) \<and> ds = t_deployments (w_db w)"]]
    keepsD_run [OF keeps_proposals_audit(2) [where P = "\<lambda>ps ds. ps = t_proposals (w_db w) \<and> ds = t_deployments (w_db w)"]]
  by blast+

lemma advance_rollout_ok:
  assumes "advance_rollout t (from_record p) = (Inr u, a)"
  obtains s where "evolution_rollout_state_of t = Inr (Some s)" "edge ROLLOUT_STATE_MACHINE (ep_rollout_state p) s"
    "ep_rollout_state (agg_record a) = s"
    "agg_events a = [\<lparr>esc_proposal_id = ep_proposal_id p, esc_company_id = ep_company_id p,
       esc_from_state = ep_rollout_state p, esc_to_state = s\<rparr>]"
  using assms by (auto simp: evolution_proposal_step_defs from_record_def ensure_can_transition_ok split: sum.splits option.splits)

lemma advance_proposal_ok:
  assumes "advance_proposal E p expected who w = (Inr u, w')"
  obtains s where "evolution_rollout_state_value s = expected"
    "t_proposals (w_db w') = update_row ep_proposal_id (ep_proposal_id p) (\<lambda>p. p\<lparr>ep_rollout_state := s\<rparr>) (t_proposals (w_db w)) \<or>
       t_proposals (w_db w') = t_proposals (w_db w) \<and> ep_rollout_state p = s"
    "t_deployments (w_db w') = t_deployments (w_db w)"
proof (cases "evolution_rollout_state_value (ep_rollout_state p) = expected")
  case True
  then show thesis using assms that [of "ep_rollout_state p"] by (simp add: advance_proposal_def)
next
  case False
  obtain q a where adv: "advance_rollout (StrArg expected) (from_record p) = (q, a)" by force
  with assms False obtain v where q: "q = Inr v" by (cases q) (auto simp: advance_proposal_def)
  obtain s where s: "evolution_rollout_state_of (StrArg expected) = Inr (Some s)" "ep_rollout_state (agg_record a) = s"
    using adv q by (auto elim: advance_rollout_ok)
  have "evolution_rollout_state_value s = expected"
    using s(1) by (auto simp: evolution_rollout_state_of_def enum_of_arg_def dest!: evolution_rollout_state_enum.print_parse split: sum.splits)
  moreover obtain as where
    "append_control_plane_domain_event_audits E (map EvRollout (agg_events a)) (audit_context ''operator'' who)
       (w\<lparr>w_db := (w_db w)\<lparr>t_proposals := update_row ep_proposal_id (ep_proposal_id p) (\<lambda>p. p\<lparr>ep_rollout_state := s\<rparr>) (t_proposals (w_db w))\<rparr>\<rparr>) =
     (Inr as, w')"
    using assms False adv q s(2) by (auto simp: advance_proposal_def write_proposal_def bindS_Inr_iff)
  ultimately show thesis using that [of s] by (auto dest: proposals_after_audit(2))
qed

lemma find_proposal_update:
  assumes "\<And>p. ep_company_id (f p) = ep_company_id p" and "\<And>p. ep_proposal_id (f p) = ep_proposal_id p"
  shows "find (\<lambda>p. ep_company_id p = co \<and> ep_proposal_id p = i) (update_row ep_proposal_id i f ps) =
    map_option f (find (\<lambda>p. ep_company_id p = co \<and> ep_proposal_id p = i) ps)"
  using assms by (induction ps) (auto simp: update_row_def)

text \<open>An acknowledged command: the row and the proposal carry the state the command asked for.\<close>

lemma acknowledge_ok:
  assumes "acknowledge E c response who w = (Inr u, w')"
  obtains row p where "row \<in> set (t_deployments (w_db w'))" "dp_company_id row = sc_company_id c"
    "dp_proposal_id row = sc_proposal_id c" "map_of TARGET_STATES (sc_action c) = Some (dp_state row)"
    "dp_acknowledgement row = response" "sc_command_id (dp_command row) = sc_command_id c"
    "payload_hash E (dp_command row) = payload_hash E c"
    "company_proposal (sc_company_id c) (sc_proposal_id c) (w_db w') = Some p"
    "evolution_rollout_state_value (ep_rollout_state p) = dp_state row"
proof -
  let ?row = "\<lambda>r. dp_company_id r = sc_company_id c \<and> dp_proposal_id r = sc_proposal_id c \<and> dp_deployment_id r = sc_deployment_id c"
  from assms obtain st p row where st: "map_of TARGET_STATES (sc_action c) = Some st"
    and p: "company_proposal (sc_company_id c) (sc_proposal_id c) (w_db w) = Some p"
    and row: "find ?row (t_deployments (w_db w)) = Some row"
    by (auto simp: acknowledge_def release_denied_def split: option.splits if_splits)
  from assms st p row have own: "owns_release E row c = Inr True"
    by (auto simp: acknowledge_def release_denied_def bindS_Inr_iff split: if_splits)
  let ?f = "\<lambda>r. r\<lparr>dp_state := st, dp_acknowledgement := response, dp_updated_at := e_clock E (w_tick w)\<rparr>"
  let ?g = "\<lambda>p. p\<lparr>ep_metadata := deployed_metadata c response st (ep_metadata p)\<rparr>"
  from assms st p row own obtain w1 v2 where
    adv: "advance_proposal E p st who (w\<lparr>w_tick := Suc (w_tick w), w_db := (w_db w)\<lparr>t_deployments :=
      update_row dp_deployment_id (dp_deployment_id row) ?f (t_deployments (w_db w))\<rparr>\<rparr>) = (Inr v2, w1)"
    and aud: "release_audit E (sc_company_id c) (sc_proposal_id c) ''evolution.release_applied'' who response
      (w1\<lparr>w_db := (w_db w1)\<lparr>t_proposals := update_row ep_proposal_id (ep_proposal_id p) ?g (t_proposals (w_db w1))\<rparr>\<rparr>) = (Inr u, w')"
    by (auto simp: acknowledge_def release_denied_def bindS_Inr_iff write_deployment_def write_proposal_def split: if_splits)
  obtain s where s: "evolution_rollout_state_value s = st"
    "t_proposals (w_db w1) = update_row ep_proposal_id (ep_proposal_id p) (\<lambda>p. p\<lparr>ep_rollout_state := s\<rparr>) (t_proposals (w_db w)) \<or>
       t_proposals (w_db w1) = t_proposals (w_db w) \<and> ep_rollout_state p = s"
    and ds: "t_deployments (w_db w1) = update_row dp_deployment_id (dp_deployment_id row) ?f (t_deployments (w_db w))"
    by (rule advance_proposal_ok [OF adv]) simp
  have tables: "t_deployments (w_db w') = update_row dp_deployment_id (dp_deployment_id row) ?f (t_deployments (w_db w))"
    "t_proposals (w_db w') = update_row ep_proposal_id (ep_proposal_id p) ?g (t_proposals (w_db w1))"
    using proposals_after_audit(1) [OF aud [unfolded release_audit_def]] ds by simp_all
  have "row \<in> set (t_deployments (w_db w))" "?row row" using row by (auto simp: find_Some_iff)
  then have new: "?f row \<in> set (t_deployments (w_db w'))" "?row row" by (force simp: tables(1) update_row_def)+
  have pid: "ep_proposal_id p = sc_proposal_id c" using p by (auto simp: company_proposal_def find_Some_iff)
  have "\<exists>p'. company_proposal (sc_company_id c) (sc_proposal_id c) (w_db w1) = Some p' \<and> ep_rollout_state p' = s"
    using s(2) p by (auto simp: company_proposal_def find_proposal_update pid)
  then have "\<exists>p'. company_proposal (sc_company_id c) (sc_proposal_id c) (w_db w') = Some p' \<and> ep_rollout_state p' = s"
    by (auto simp: company_proposal_def find_proposal_update pid tables(2))
  then obtain p' where p': "company_proposal (sc_company_id c) (sc_proposal_id c) (w_db w') = Some p'" "ep_rollout_state p' = s" by blast
  show thesis
    by (rule that [OF new(1)])
       (use new(2) st s(1) p' own in \<open>auto simp: owns_release_def bindE_def split: if_splits sum.splits\<close>)
qed

section \<open>The gateway\<close>

lemma on_world_run: "on_world m (w, rt) = (fst (m w), (snd (m w), rt))"
  by (simp add: on_world_def split: prod.splits)

lemma on_world_ok: "on_world m s = (Inr a, s') \<longleftrightarrow> m (fst s) = (Inr a, fst s') \<and> snd s' = snd s"
  by (cases s; cases s'; cases "m (fst s)") (auto simp: on_world_run)

lemma call_runtime_ok: "call_runtime d m s = (Inr a, s') \<longleftrightarrow> d = Delivered \<and> m (snd s) = (Inr a, snd s') \<and> fst s' = fst s"
  by (cases s; cases s'; cases d; cases "m (snd s)"; cases "fst (m (snd s))") (auto simp: call_runtime_def)

definition receipt_for :: "env \<Rightarrow> skill_release_command \<Rightarrow> pydict \<Rightarrow> runtime \<Rightarrow> bool" where
  "receipt_for E c response rt \<longleftrightarrow> (\<exists>r. find_receipt (sc_command_id c) rt = Some r \<and>
     payload_hash E c = Inr (rc_payload_hash r) \<and> rc_response r = response)"

lemma gateway_lookup_ok:
  assumes "gateway_lookup E R d c s = (Inr v, s')"
  shows "s' = s" and "v = Some response \<Longrightarrow> receipt_for E c response (snd s)"
proof -
  from assms obtain v' s1 where call: "call_runtime d (get_release_command R (sc_command_id c)) s = (Inr v', s1)"
    and rest: "(case v' of None \<Rightarrow> retS None | Some r \<Rightarrow> bindS (liftE (payload_hash E c)) (\<lambda>hash.
         if rc_command_id r \<noteq> sc_command_id c \<or> rc_deployment_id r \<noteq> sc_deployment_id c \<or> rc_payload_hash r \<noteq> hash
         then raiseS (ValueError ''invalid_evolution_reconciliation'') else retS (Some (rc_response r)))) s1 = (Inr v, s')"
    by (auto simp: gateway_lookup_def bindS_Inr_iff)
  have s1: "s1 = s" and rc: "v' = Some r \<Longrightarrow> find_receipt (sc_command_id c) (snd s) = Some r" for r
    using call by (auto simp: call_runtime_ok get_release_command_def bindS_Inr_iff intro: prod_eqI split: option.splits if_splits)
  show "s' = s" using rest s1 by (auto simp: bindS_Inr_iff split: option.splits if_splits)
  show "receipt_for E c response (snd s)" if "v = Some response"
    using rest rc that by (auto simp: receipt_for_def bindS_Inr_iff split: option.splits if_splits)
qed

lemma gateway_apply_ok:
  assumes "gateway_apply E S R d c s = (Inr response, s')"
  shows "fst s' = fst s" and "receipt_for E c response (snd s')"
proof -
  from assms obtain signature where
    run: "route_apply_skill_release E R c signature (snd s) = (Inr response, snd s')" "fst s' = fst s"
    by (auto simp: gateway_apply_def bindS_Inr_iff call_runtime_ok split: if_splits)
  show "fst s' = fst s" by (rule run)
  show "receipt_for E c response (snd s')"
    using run(1) by (cases rule: route_cases [of E R c signature "snd s"]) (auto simp: receipt_for_def dest!: apply_receipts)
qed

lemma send_command_ok:
  assumes "send_command E S R d1 d2 who c s = (Inr response, s')"
  shows "acknowledge E c response who (fst s) = (Inr (), fst s')" and "receipt_for E c response (snd s')"
proof -
  from assms obtain v s1 s2 where look: "gateway_lookup E R d1 c s = (Inr v, s1)"
    and sent: "(case v of None \<Rightarrow> gateway_apply E S R d2 c | Some response \<Rightarrow> retS response) s1 = (Inr response, s2)"
    and ack: "acknowledge E c response who (fst s2) = (Inr (), fst s')" "snd s' = snd s2"
    by (auto simp: send_command_def bindS_Inr_iff on_world_ok)
  have s1: "s1 = s" by (rule gateway_lookup_ok(1) [OF look])
  have "fst s2 = fst s \<and> receipt_for E c response (snd s2)"
    using sent s1 gateway_lookup_ok(2) [OF look] gateway_apply_ok by (cases v) auto
  then show "acknowledge E c response who (fst s) = (Inr (), fst s')" "receipt_for E c response (snd s')"
    using ack by simp_all
qed

lemma unit_of_work_ok: "unit_of_work m s = (Inr a, s') \<longleftrightarrow> m s = (Inr a, s')"
  by (auto simp: unit_of_work_def split: prod.splits sum.splits)

lemma release_errors_ok: "release_errors m s = (Inr a, s') \<longleftrightarrow> m s = (Inr a, s')"
  by (auto simp: release_errors_def catchS_def api_error_def split: prod.splits sum.splits exc.splits)

lemma principal_require_ok: "principal_require p action company s = (Inr u, s') \<Longrightarrow> s' = s"
  by (auto simp: principal_require_def api_error_def split: if_splits)

lemma checkpoint_ok: "on_world checkpoint s = (Inr u, s') \<longleftrightarrow> s' = ((fst s)\<lparr>w_committed := w_db (fst s)\<rparr>, snd s)"
  by (cases s') (auto simp: on_world_ok)

section \<open>The routes agree with the runtime\<close>

datatype release_call = Release release_request | Reconcile string string | RecoverExpired string string

fun run_release_call ::
  "env \<Rightarrow> runtime_settings \<Rightarrow> runtime_settings \<Rightarrow> (nat \<Rightarrow> delivery) \<Rightarrow> operator_principal \<Rightarrow> release_call \<Rightarrow>
   (release_system, pydict) op" where
  "run_release_call E S R net p (Release rq) = route_release E S R (net 0) (net 1) p rq"
| "run_release_call E S R net p (Reconcile company_id proposal_id) = route_reconcile E R (net 0) p company_id proposal_id"
| "run_release_call E S R net p (RecoverExpired company_id proposal_id) =
     route_recover_expired E S R (net 0) (net 1) (net 2) p company_id proposal_id"

lemma find_receipt_in: "find_receipt i rt = Some r \<Longrightarrow> r \<in> set (rt_receipts rt) \<and> rc_command_id r = i"
  by (auto simp: find_receipt_def find_Some_iff)

lemma answered:
  assumes "acknowledge E c response who v = (Inr (), fst s)" and "receipt_for E c response (snd s)"
    and "s' = ((fst s)\<lparr>w_committed := w_db (fst s)\<rparr>, snd s)"
  shows "\<exists>c v v'. acknowledge E c response who v = (Inr (), v') \<and>
    w_committed (fst s') = w_db v' \<and> receipt_for E c response (snd s')"
  using assms by auto

lemma answered_from_lookup:
  assumes "gateway_lookup E R d c s1 = (Inr (Some response), s2)"
    and "acknowledge E c response who (fst s2) = (Inr (), fst s)" and "snd s = snd s2"
    and "s' = ((fst s)\<lparr>w_committed := w_db (fst s)\<rparr>, snd s)"
  shows "\<exists>c v v'. acknowledge E c response who v = (Inr (), v') \<and>
    w_committed (fst s') = w_db v' \<and> receipt_for E c response (snd s')"
  using answered [OF assms(2) _ assms(4)] gateway_lookup_ok(2) [OF assms(1) refl] gateway_lookup_ok(1) [OF assms(1)] assms(3)
  by simp

lemma release_call_ok:
  assumes "run_release_call E S R net p call s = (Inr response, s')"
  shows "\<exists>c v v'. acknowledge E c response (op_actor_id p) v = (Inr (), v') \<and>
    w_committed (fst s') = w_db v' \<and> receipt_for E c response (snd s')"
proof (cases call)
  case (Release rq)
  with assms obtain c s1 s2 where "send_command E S R (net 0) (net 1) (op_actor_id p) c s1 = (Inr response, s2)"
    "s' = ((fst s2)\<lparr>w_committed := w_db (fst s2)\<rparr>, snd s2)"
    by (auto simp: route_release_def api_error_def unit_of_work_ok release_errors_ok bindS_Inr_iff checkpoint_ok split: if_splits)
  then show ?thesis using answered [OF send_command_ok] by blast
next
  case (Reconcile co i)
  with assms obtain c s1 s2 s3 where "gateway_lookup E R (net 0) c s1 = (Inr (Some response), s2)"
    "acknowledge E c response (op_actor_id p) (fst s2) = (Inr (), fst s3)" "snd s3 = snd s2"
    "s' = ((fst s3)\<lparr>w_committed := w_db (fst s3)\<rparr>, snd s3)"
    by (auto simp: route_reconcile_def unit_of_work_ok release_errors_ok bindS_Inr_iff on_world_ok checkpoint_ok split: option.splits)
  then show ?thesis by (rule answered_from_lookup)
next
  case (RecoverExpired co i)
  note route = assms [unfolded RecoverExpired run_release_call.simps route_recover_expired_def unit_of_work_ok]
  consider (sent) c' s3 s4 where "send_command E S R (net 1) (net 2) (op_actor_id p) c' s3 = (Inr response, s4)"
      "s' = ((fst s4)\<lparr>w_committed := w_db (fst s4)\<rparr>, snd s4)"
    | (known) c s1 s2 s3 where "gateway_lookup E R (net 0) c s1 = (Inr (Some response), s2)"
      "acknowledge E c response (op_actor_id p) (fst s2) = (Inr (), fst s3)" "snd s3 = snd s2"
      "s' = ((fst s3)\<lparr>w_committed := w_db (fst s3)\<rparr>, snd s3)"
    using route by (auto simp: release_errors_ok bindS_Inr_iff on_world_ok checkpoint_ok split: option.splits)
  then show ?thesis
  proof cases
    case sent
    then show ?thesis using answered [OF send_command_ok] by blast
  next
    case known
    then show ?thesis by (rule answered_from_lookup)
  qed
qed

text \<open>
  C11. The Control Plane records a release only when the runtime applied it. Whatever requests or
  replies the network loses, when one of the routes that release, reconcile or recover answers, the
  committed database has a deployment whose state is the one its command asks for, whose proposal is in
  the same rollout state, and whose acknowledgement is the response of the receipt that the runtime
  holds for this command and this payload.\<close>

theorem recorded_release_was_applied:
  assumes "run_release_call E S R net p call (w, rt) = (Inr response, (w', rt'))"
  shows "\<exists>c. \<exists>row \<in> set (t_deployments (w_committed w')). \<exists>r \<in> set (rt_receipts rt'). \<exists>q.
    sc_command_id (dp_command row) = sc_command_id c \<and> payload_hash E (dp_command row) = payload_hash E c \<and>
    rc_command_id r = sc_command_id c \<and> payload_hash E c = Inr (rc_payload_hash r) \<and>
    dp_acknowledgement row = response \<and> rc_response r = response \<and>
    map_of TARGET_STATES (sc_action c) = Some (dp_state row) \<and>
    company_proposal (dp_company_id row) (dp_proposal_id row) (w_committed w') = Some q \<and>
    evolution_rollout_state_value (ep_rollout_state q) = dp_state row"
proof -
  obtain c v v' where ack: "acknowledge E c response (op_actor_id p) v = (Inr (), v')" "w_committed w' = w_db v'"
    and rc: "receipt_for E c response rt'"
    using release_call_ok [OF assms] by auto
  from rc obtain r where r: "r \<in> set (rt_receipts rt')" "rc_command_id r = sc_command_id c"
    "payload_hash E c = Inr (rc_payload_hash r)" "rc_response r = response"
    by (auto simp: receipt_for_def dest: find_receipt_in)
  obtain row q where row: "row \<in> set (t_deployments (w_committed w'))" "dp_company_id row = sc_company_id c"
    "dp_proposal_id row = sc_proposal_id c" "map_of TARGET_STATES (sc_action c) = Some (dp_state row)"
    "dp_acknowledgement row = response" "sc_command_id (dp_command row) = sc_command_id c"
    "payload_hash E (dp_command row) = payload_hash E c"
    "company_proposal (sc_company_id c) (sc_proposal_id c) (w_committed w') = Some q"
    "evolution_rollout_state_value (ep_rollout_state q) = dp_state row"
    unfolding ack(2) by (rule acknowledge_ok [OF ack(1)])
  show ?thesis
    by (intro exI [of _ c] bexI [OF _ row(1)] bexI [OF _ r(1)] exI [of _ q]) (use row r in simp)
qed

section \<open>The rollout of a proposal\<close>

lemma linked_approval_ok:
  "linked_approval co i w = (Inr a, w') \<Longrightarrow> w' = w"
  by (auto simp: linked_approval_def get_approval_def bindS_Inr_iff split: if_splits option.splits)

lemma rollout_required:
  "rollout_state_requires_approval (EnumArg t) = Inr (t \<in> {EvolutionRolloutState_CANARY, EvolutionRolloutState_ACTIVE})"
  by (simp add: rollout_state_requires_approval_def ROLLOUT_STATES_REQUIRING_APPROVAL_def bindE_def)

lemma store_rollout_ok:
  assumes "store_update_evolution_proposal_status E i ast rst aid w = (Inr (Some p), w')"
  obtains old now where "get_proposal_row i (w_db w) = Some old" "p = proposal_status_update ast rst aid now old"
    "get_proposal_row i (w_db w') = Some p"
proof -
  obtain old where old: "get_proposal_row i (w_db w) = Some old"
    using assms by (cases "get_proposal_row i (w_db w)") (auto simp: store_update_evolution_proposal_status_def)
  have "get_proposal_row i (d\<lparr>t_proposals := update_row ep_proposal_id i (proposal_status_update ast rst aid n) (t_proposals d)\<rparr>) =
      map_option (proposal_status_update ast rst aid n) (get_proposal_row i d)" for n d
    unfolding get_proposal_row_def by simp (rule find_update_row, simp add: proposal_status_update_def)
  then show thesis
    using assms old that [OF old]
    by (auto simp: store_update_evolution_proposal_status_def write_proposal_def bind_flush_ok)
qed

text \<open>
  C31. The rollout of a proposal is gated. When a status update moves the rollout state, the proposal
  is one of the company, the state machine of rollouts has the step, the returned proposal is the
  stored one and is in the new state; and for canary and active the approval state in force is approved:
  the one of the request when it gives one, else the one of the approval it links, else the stored one.\<close>

theorem rollout_update_is_gated:
  assumes "update_evolution_proposal_status_with_audit E company_id i ast (Some t) aid who w = (Inr p, w')"
  shows "\<exists>old linked. get_proposal_row i (w_db w) = Some old \<and> ep_company_id old = company_id \<and>
    linked_approval company_id aid w = (Inr linked, w) \<and>
    edge ROLLOUT_STATE_MACHINE (ep_rollout_state old) t \<and>
    get_proposal_row i (w_db w') = Some p \<and> ep_rollout_state p = t \<and>
    (t \<in> {EvolutionRolloutState_CANARY, EvolutionRolloutState_ACTIVE} \<longrightarrow>
       effective_approval_state ast linked old = ApprovalStatus_APPROVED)"
proof -
  obtain old where old: "get_proposal_row i (w_db w) = Some old" "ep_company_id old = company_id"
    using assms by (auto simp: update_evolution_proposal_status_with_audit_def split: option.splits if_splits)
  obtain linked v where lv: "linked_approval company_id aid w = (Inr linked, v)"
    using assms old by (auto simp: update_evolution_proposal_status_with_audit_def bindS_Inr_iff)
  have v: "v = w" by (rule linked_approval_ok [OF lv])
  note run = assms old lv [unfolded v] rollout_required [of t]
  have gate: "t \<in> {EvolutionRolloutState_CANARY, EvolutionRolloutState_ACTIVE} \<longrightarrow>
      effective_approval_state ast linked old = ApprovalStatus_APPROVED"
    using run by (auto simp: update_evolution_proposal_status_with_audit_def bindS_run split: if_splits)
  obtain evs where evs: "rollout_events old (Some t) = Inr evs"
    using run gate by (cases "rollout_events old (Some t)") (auto simp: update_evolution_proposal_status_with_audit_def bindS_run)
  have e: "edge ROLLOUT_STATE_MACHINE (ep_rollout_state old) t"
    using evs by (auto simp: rollout_events_def elim: advance_rollout_ok split: prod.splits sum.splits)
  let ?st = "store_update_evolution_proposal_status E i (case ast of Some s \<Rightarrow> Some s | None \<Rightarrow> map_option ap_status linked)
    (Some t) (if truthy_str aid then aid else None)"
  obtain w1 where st: "?st w = (Inr (Some p), w1)" and ps: "t_proposals (w_db w') = t_proposals (w_db w1)"
    using run gate evs
    by (auto simp: update_evolution_proposal_status_with_audit_def bindS_Inr_iff Let_def
        dest!: proposals_after_audit split: option.splits if_splits)
  obtain old' now where o: "get_proposal_row i (w_db w) = Some old'" and p: "get_proposal_row i (w_db w1) = Some p"
    "p = proposal_status_update (case ast of Some s \<Rightarrow> Some s | None \<Rightarrow> map_option ap_status linked) (Some t)
       (if truthy_str aid then aid else None) now old'"
    by (rule store_rollout_ok [OF st])
  have "ep_rollout_state p = t" by (simp add: p(2) proposal_status_update_def)
  then show ?thesis using old lv [unfolded v] e p(1) gate ps by (auto simp: get_proposal_row_def)
qed

section \<open>A lost reply and its reconciliation\<close>

definition sample_proposal :: evolution_proposal where
  "sample_proposal = \<lparr>ep_proposal_id = ''evp-1'', ep_company_id = ''acme'', ep_tier = EvolutionTier_L1, ep_scope = ''triage'',
     ep_evidence = [], ep_expected_benefit = ''b'', ep_risk = ''r'', ep_approval_state = ApprovalStatus_APPROVED,
     ep_rollout_state = EvolutionRolloutState_PROPOSED, ep_approval_id = None, ep_metadata = [],
     ep_created_at = utc_dt 0, ep_updated_at = utc_dt 0\<rparr>"

definition sample_deployment :: evolution_deployment where
  "sample_deployment = \<lparr>dp_deployment_id = ''dep-1'', dp_company_id = ''acme'', dp_proposal_id = ''evp-1'',
     dp_evaluation_report_id = ''evr-1'', dp_state = ''pending'', dp_desired_action = ''shadow'',
     dp_command = sample_command ''cmd-1'' ''shadow'', dp_acknowledgement = [], dp_updated_at = 0\<rparr>"

definition sample_report :: evolution_evaluation_report where
  "sample_report = \<lparr>er_evaluation_report_id = ''evr-1'', er_company_id = ''acme'', er_proposal_id = ''evp-1'',
     er_baseline_skill_version_id = ''triage@1'', er_candidate_skill_version_id = ''triage@2'', er_dataset_revision = ''d1'',
     er_baseline_batch_hash = [], er_candidate_batch_hash = [], er_baseline_batch = [], er_candidate_batch = [],
     er_policy = [], er_comparison_report = [], er_evaluator_version = ''v1'', er_created_at = utc_dt 0\<rparr>"

definition handover_world :: world where
  "handover_world = world_of (empty_db\<lparr>t_companies := [sample_company], t_proposals := [sample_proposal],
     t_reports := [sample_report], t_deployments := [sample_deployment]\<rparr>)"

definition new_runtime :: runtime where
  "new_runtime = \<lparr>rt_skills = [sample_skill 1 ''active'', sample_skill 2 ''candidate''],
     rt_experiments = [], rt_releases = [], rt_receipts = [], rt_traces = [], rt_tick = 0\<rparr>"

definition sample_operator :: operator_principal where
  "sample_operator = \<lparr>op_actor_id = ''op'', op_company_scopes = [''acme''], op_scopes = [''evolution:release'']\<rparr>"

abbreviation (input) shadow_command where
  "shadow_command \<equiv> sample_command ''cmd-1'' ''shadow''"

text \<open>The runtime applied the command, the reply was lost.\<close>

definition applied_runtime :: runtime where
  "applied_runtime = snd (snd (gateway_apply sample_env sample_runtime_settings sample_runtime_settings ReplyLost
     shadow_command (handover_world, new_runtime)))"

definition shadow_response :: pydict where
  "shadow_response = [(''deployment_id'', PStr ''dep-1''), (''state'', PStr ''shadow''), (''version'', PInt 1), (''experiment_id'', PNone)]"

definition acknowledged_row :: world where
  "acknowledged_row = handover_world\<lparr>w_tick := Suc 0, w_db := (w_db handover_world)\<lparr>t_deployments :=
     update_row dp_deployment_id ''dep-1'' (\<lambda>r. r\<lparr>dp_state := ''shadow'', dp_acknowledgement := shadow_response,
       dp_updated_at := 0\<rparr>) [sample_deployment]\<rparr>\<rparr>"

definition advanced_world :: world where
  "advanced_world = (let w = snd (advance_proposal sample_env sample_proposal ''shadow'' ''op'' acknowledged_row) in
     w\<lparr>w_db := (w_db w)\<lparr>t_proposals := update_row ep_proposal_id ''evp-1'' (\<lambda>p. p\<lparr>ep_metadata :=
       deployed_metadata shadow_command shadow_response ''shadow'' (ep_metadata p)\<rparr>) (t_proposals (w_db w))\<rparr>\<rparr>)"

lemma sample_reconcile_steps:
  "fst (gateway_lookup sample_env sample_runtime_settings Delivered shadow_command (handover_world, applied_runtime)) =
     Inr (Some shadow_response)"
  "owns_release sample_env sample_deployment shadow_command = Inr True"
  "fst (advance_proposal sample_env sample_proposal ''shadow'' ''op'' acknowledged_row) = Inr ()"
  "fst (release_audit sample_env ''acme'' ''evp-1'' ''evolution.release_applied'' ''op'' shadow_response advanced_world) = Inr ()"
  by code_simp+

lemma acknowledge_runs:
  assumes "map_of TARGET_STATES (sc_action c) = Some st" and "map_of response ''state'' = Some (PStr st)"
    and "map_of response ''deployment_id'' = Some (PStr (sc_deployment_id c))"
    and "company_proposal (sc_company_id c) (sc_proposal_id c) (w_db w) = Some p"
    and "find (\<lambda>r. dp_company_id r = sc_company_id c \<and> dp_proposal_id r = sc_proposal_id c \<and>
      dp_deployment_id r = sc_deployment_id c) (t_deployments (w_db w)) = Some row"
    and "owns_release E row c = Inr True"
    and "advance_proposal E p st who (w\<lparr>w_tick := Suc (w_tick w), w_db := (w_db w)\<lparr>t_deployments :=
      update_row dp_deployment_id (dp_deployment_id row) (\<lambda>r. r\<lparr>dp_state := st, dp_acknowledgement := response,
        dp_updated_at := e_clock E (w_tick w)\<rparr>) (t_deployments (w_db w))\<rparr>\<rparr>) = (Inr (), w1)"
    and "release_audit E (sc_company_id c) (sc_proposal_id c) ''evolution.release_applied'' who response
      (w1\<lparr>w_db := (w_db w1)\<lparr>t_proposals := update_row ep_proposal_id (ep_proposal_id p) (\<lambda>p. p\<lparr>ep_metadata :=
        deployed_metadata c response st (ep_metadata p)\<rparr>) (t_proposals (w_db w1))\<rparr>\<rparr>) = (Inr (), w2)"
  shows "acknowledge E c response who w = (Inr (), w2)"
  using assms by (simp add: acknowledge_def write_deployment_def write_proposal_def bindS_run)

lemma reconcile_runs:
  assumes "principal_require p ''evolution:release'' co (w, rt) = (Inr (), (w, rt))"
    and "pending_release co i w = (Inr c, w)" and "gateway_lookup E R (net 0) c (w, rt) = (Inr (Some response), (w, rt))"
    and "acknowledge E c response (op_actor_id p) w = (Inr (), w2)"
  shows "run_release_call E S R net p (Reconcile co i) (w, rt) = (Inr response, (w2\<lparr>w_committed := w_db w2\<rparr>, rt))"
  using assms by (simp add: route_reconcile_def unit_of_work_ok release_errors_ok bindS_run on_world_run)

lemma sample_acknowledged: "fst (acknowledge sample_env shadow_command shadow_response ''op'' handover_world) = Inr ()"
proof -
  obtain w1 where w1: "advance_proposal sample_env sample_proposal ''shadow'' ''op'' acknowledged_row = (Inr (), w1)"
    using sample_reconcile_steps(3) by (metis prod.collapse)
  obtain w2 where w2: "release_audit sample_env ''acme'' ''evp-1'' ''evolution.release_applied'' ''op'' shadow_response advanced_world =
      (Inr (), w2)"
    using sample_reconcile_steps(4) by (metis prod.collapse)
  have c: "sc_action shadow_command = ''shadow''" "sc_deployment_id shadow_command = ''dep-1''"
    "sc_company_id shadow_command = ''acme''" "sc_proposal_id shadow_command = ''evp-1''"
    by (simp_all add: sample_command_def)
  have d: "dp_company_id sample_deployment = ''acme''" "dp_proposal_id sample_deployment = ''evp-1''"
    "dp_deployment_id sample_deployment = ''dep-1''" "ep_company_id sample_proposal = ''acme''"
    "ep_proposal_id sample_proposal = ''evp-1''"
    by (simp_all add: sample_deployment_def sample_proposal_def)
  have w: "t_proposals (w_db handover_world) = [sample_proposal]" "t_deployments (w_db handover_world) = [sample_deployment]"
    "w_tick handover_world = 0" "e_clock sample_env 0 = 0"
    by (simp_all add: handover_world_def world_of_def sample_env_def)
  have row: "handover_world\<lparr>w_tick := Suc 0, w_db := (w_db handover_world)\<lparr>t_deployments := update_row dp_deployment_id ''dep-1''
      (\<lambda>r. r\<lparr>dp_state := ''shadow'', dp_acknowledgement := shadow_response, dp_updated_at := 0\<rparr>) [sample_deployment]\<rparr>\<rparr> = acknowledged_row"
    by (simp add: acknowledged_row_def)
  have "acknowledge sample_env shadow_command shadow_response ''op'' handover_world = (Inr (), w2)"
  proof (rule acknowledge_runs)
    show "owns_release sample_env sample_deployment shadow_command = Inr True" by (rule sample_reconcile_steps)
    show "map_of TARGET_STATES (sc_action shadow_command) = Some ''shadow''" by (simp add: c TARGET_STATES_def)
  qed (use w1 w2 in \<open>simp_all add: c d w row company_proposal_def, simp_all add: d shadow_response_def advanced_world_def Let_def\<close>)
  then show ?thesis by simp
qed

theorem recorded_release_was_applied_witness:
  "\<exists>response w' rt'. run_release_call sample_env sample_runtime_settings sample_runtime_settings (\<lambda>_. Delivered) sample_operator
       (Reconcile ''acme'' ''evp-1'') (handover_world, applied_runtime) = (Inr response, (w', rt')) \<and>
     (\<exists>row \<in> set (t_deployments (w_committed w')). \<exists>r \<in> set (rt_receipts rt'). rc_response r = dp_acknowledgement row)"
proof -
  have look: "gateway_lookup sample_env sample_runtime_settings Delivered shadow_command (handover_world, applied_runtime) =
      (Inr (Some shadow_response), (handover_world, applied_runtime))"
    using sample_reconcile_steps(1) gateway_lookup_ok(1) by (metis prod.collapse)
  obtain w2 where ack: "acknowledge sample_env shadow_command shadow_response ''op'' handover_world = (Inr (), w2)"
    using sample_acknowledged by (metis prod.collapse)
  have pend: "pending_release ''acme'' ''evp-1'' handover_world = (Inr shadow_command, handover_world)"
    by (simp add: pending_release_def company_deployment_def handover_world_def world_of_def sample_deployment_def)
  have require: "principal_require sample_operator ''evolution:release'' ''acme'' (handover_world, applied_runtime) =
      (Inr (), (handover_world, applied_runtime))"
    by (simp add: principal_require_def sample_operator_def)
  have "op_actor_id sample_operator = ''op''" by (simp add: sample_operator_def)
  with reconcile_runs [OF require pend, of sample_env sample_runtime_settings "\<lambda>_. Delivered"] look ack
  have run: "run_release_call sample_env sample_runtime_settings sample_runtime_settings (\<lambda>_. Delivered) sample_operator
      (Reconcile ''acme'' ''evp-1'') (handover_world, applied_runtime) =
      (Inr shadow_response, (w2\<lparr>w_committed := w_db w2\<rparr>, applied_runtime))" by simp
  from recorded_release_was_applied [OF run] obtain row r where
    "row \<in> set (t_deployments (w_committed (w2\<lparr>w_committed := w_db w2\<rparr>)))" "r \<in> set (rt_receipts applied_runtime)"
    "rc_response r = dp_acknowledgement row" by metis
  with run show ?thesis by blast
qed

definition shadow_proposal :: evolution_proposal where
  "shadow_proposal = sample_proposal\<lparr>ep_rollout_state := EvolutionRolloutState_SHADOW\<rparr>"

definition shadow_world :: world where
  "shadow_world = world_of (empty_db\<lparr>t_companies := [sample_company], t_proposals := [shadow_proposal]\<rparr>)"

abbreviation (input) sample_rollout where
  "sample_rollout \<equiv> update_evolution_proposal_status_with_audit sample_env ''acme'' ''evp-1'' None
     (Some EvolutionRolloutState_CANARY) None ''op'' shadow_world"

lemma sample_rollout_runs: "\<not> isl (fst sample_rollout)" by code_simp

theorem rollout_update_is_gated_witness:
  "\<exists>p. get_proposal_row ''evp-1'' (w_db (snd sample_rollout)) = Some p \<and> ep_rollout_state p = EvolutionRolloutState_CANARY"
proof -
  obtain p w' where run: "sample_rollout = (Inr p, w')"
    using sample_rollout_runs by (cases sample_rollout; cases "fst sample_rollout") auto
  show ?thesis using rollout_update_is_gated [OF run] run by auto
qed

end
