(* ===== verification/Evaluation.thy ===== *)
theory Evaluation
  imports Release_Handover "HOL-Library.Product_Lexorder"
begin

text \<open>
  Comparing a candidate with its baseline on a fixed set of cases (\<open>evolution/evaluation_batch.py\<close>) and
  recording the report for a proposal (\<open>evolution_evaluation_use_cases.py\<close>,
  \<open>evolution_evaluation_store.py\<close>, \<open>api_routes/evolution_evaluations.py\<close>).

  Python's \<open>sum\<close> of floats, whose rounding differs between the versions the project supports, the
  way pydantic dumps a float that may be infinite, and the JSON text that is hashed are parameters. The last section relates a recorded report
  to the release policy that reads it: what a canary or a promotion implies about the evidence.
\<close>

section \<open>Contracts\<close>

record eval_case =
  ec_case_id :: string
  ec_case_revision :: string
  ec_expects_policy_denial :: bool

record eval_result =
  re_result_id :: string
  re_case_id :: string
  re_config_revision :: string
  re_accepted :: bool
  re_quality :: pyfloat
  re_total_attempt_cost_usd :: pyfloat
  re_latency_ms :: pyfloat
  re_human_interventions :: int
  re_policy_denied :: bool
  re_policy_violation :: bool

record evaluation_batch =
  eb_evaluation_id :: string
  eb_dataset_revision :: string
  eb_config_revision :: string
  eb_budget_usd :: pyfloat
  eb_cases :: "eval_case list"
  eb_results :: "eval_result list"

record evaluation_policy =
  el_minimum_sample_count :: int
  el_minimum_candidate_accepted_quality :: pyfloat
  el_maximum_cost_per_accepted_outcome_usd :: pyfloat
  el_maximum_total_attempt_cost_usd :: "pyfloat option"

record wilson_interval =
  wi_lower :: "pyfloat option"
  wi_upper :: "pyfloat option"

record arm_evaluation_metrics =
  am_evaluation_id :: string
  am_config_revision :: string
  am_sample_count :: nat
  am_accepted_count :: nat
  am_accepted_outcome_rate :: "pyfloat option"
  am_accepted_outcome_rate_95_ci :: wilson_interval
  am_mean_accepted_quality :: pyfloat
  am_total_attempt_cost_usd :: pyfloat
  am_cost_per_accepted_outcome_usd :: "pyfloat option"
  am_mean_latency_ms :: pyfloat
  am_total_human_interventions :: int
  am_policy_denial_count :: nat
  am_policy_denial_failures :: nat
  am_policy_violation_count :: nat

record evaluation_comparison =
  cp_eligible :: bool
  cp_reasons :: "string list"
  cp_baseline :: arm_evaluation_metrics
  cp_candidate :: arm_evaluation_metrics
  cp_dataset_revision :: "string option"
  cp_budget_usd :: "pyfloat option"

record evaluator =
  el_sum :: "pyfloat list \<Rightarrow> pyfloat"
  el_dump :: "pyfloat \<Rightarrow> pyval"
  el_json :: "pyval \<Rightarrow> string"

text \<open>The constraints of the fields and of the batch.\<close>

definition nonnegative_finite :: "pyfloat \<Rightarrow> bool" where
  "nonnegative_finite f \<longleftrightarrow> pf_le (Fin 0) f \<and> pf_isfinite f"

definition eval_case_ok :: "eval_case \<Rightarrow> bool" where
  "eval_case_ok c \<longleftrightarrow> text_within 200 (ec_case_id c) \<and> text_within 100 (ec_case_revision c)"

definition eval_result_ok :: "eval_result \<Rightarrow> bool" where
  "eval_result_ok r \<longleftrightarrow>
     text_within 200 (re_result_id r) \<and> text_within 200 (re_case_id r) \<and> text_within 200 (re_config_revision r) \<and>
     nonnegative_finite (re_quality r) \<and> pf_le (re_quality r) (Fin 1) \<and>
     nonnegative_finite (re_total_attempt_cost_usd r) \<and> nonnegative_finite (re_latency_ms r) \<and>
     0 \<le> re_human_interventions r"

definition validate_identifiers :: "evaluation_batch \<Rightarrow> exc + unit" where
  "validate_identifiers b =
     bindE (guardE (distinct (map ec_case_id (eb_cases b)))
              (ValueError ''case_id values must be unique within a batch'')) (\<lambda>_.
     bindE (guardE (distinct (map re_result_id (eb_results b)))
              (ValueError ''result_id values must be unique within a batch'')) (\<lambda>_.
     bindE (guardE (distinct (map re_case_id (eb_results b)))
              (ValueError ''each case may have at most one aggregate result'')) (\<lambda>_.
     case find (\<lambda>r. re_case_id r \<notin> set (map ec_case_id (eb_cases b)) \<or> re_config_revision r \<noteq> eb_config_revision b)
            (eb_results b) of
       None \<Rightarrow> Inr ()
     | Some r \<Rightarrow>
         Inl (ValueError (if re_case_id r \<notin> set (map ec_case_id (eb_cases b))
                          then ''result references a case outside the batch''
                          else ''result config_revision must match its batch'')))))"

definition evaluation_batch_ok :: "evaluation_batch \<Rightarrow> bool" where
  "evaluation_batch_ok b \<longleftrightarrow>
     text_within 200 (eb_evaluation_id b) \<and> text_within 200 (eb_dataset_revision b) \<and>
     text_within 200 (eb_config_revision b) \<and> nonnegative_finite (eb_budget_usd b) \<and>
     list_all eval_case_ok (eb_cases b) \<and> list_all eval_result_ok (eb_results b) \<and>
     validate_identifiers b = Inr ()"

definition evaluation_policy_ok :: "evaluation_policy \<Rightarrow> bool" where
  "evaluation_policy_ok p \<longleftrightarrow>
     1 \<le> el_minimum_sample_count p \<and> nonnegative_finite (el_minimum_candidate_accepted_quality p) \<and>
     pf_le (el_minimum_candidate_accepted_quality p) (Fin 1) \<and>
     nonnegative_finite (el_maximum_cost_per_accepted_outcome_usd p) \<and>
     (case el_maximum_total_attempt_cost_usd p of None \<Rightarrow> True | Some m \<Rightarrow> nonnegative_finite m)"

section \<open>Aggregating an arm\<close>

text \<open>A float divided by an integer, which is converted to a float first.\<close>

definition div_count :: "pyfloat \<Rightarrow> nat \<Rightarrow> pyfloat" where
  "div_count f n = pf_div f (f64_round (of_nat n))"

text \<open>\<open>math.sqrt\<close> of a value that is not negative.\<close>

definition pf_sqrt :: "pyfloat \<Rightarrow> pyfloat" where
  "pf_sqrt f = (case f of Fin q \<Rightarrow> f64_sqrt q | _ \<Rightarrow> f)"

definition wilson_interval_of :: "nat \<Rightarrow> nat \<Rightarrow> wilson_interval" where
  "wilson_interval_of successes samples =
     (if samples = 0 then \<lparr>wi_lower = None, wi_upper = None\<rparr>
      else
        let z = f64_round (1959963984540054 / 1000000000000000);
            proportion = f64_round (of_nat successes / of_nat samples);
            z_squared = pf_mul z z;
            denominator = pf_add (Fin 1) (div_count z_squared samples);
            center = pf_div (pf_add proportion (div_count z_squared (2 * samples))) denominator;
            margin = pf_div (pf_mul z (pf_sqrt (pf_add (div_count (pf_mul proportion (pf_sub (Fin 1) proportion)) samples)
                       (div_count z_squared (4 * samples * samples))))) denominator
        in \<lparr>wi_lower = Some (pf_max (Fin 0) (pf_sub center margin)),
            wi_upper = Some (pf_min (Fin 1) (pf_add center margin))\<rparr>)"

text \<open>\<open>{case.case_id: case for case in cases}[case_id]\<close>: a later case replaces an earlier one of its id.\<close>

definition case_of :: "eval_case list \<Rightarrow> string \<Rightarrow> exc + eval_case" where
  "case_of cases case_id =
     (case map_of (rev (map (\<lambda>c. (ec_case_id c, c)) cases)) case_id of
        None \<Rightarrow> Inl (ExternalError ''KeyError'' case_id) | Some c \<Rightarrow> Inr c)"

fun expected_denial_failures :: "eval_case list \<Rightarrow> eval_result list \<Rightarrow> exc + nat" where
  "expected_denial_failures cases [] = Inr 0"
| "expected_denial_failures cases (r # rs) =
     bindE (case_of cases (re_case_id r)) (\<lambda>c.
     bindE (expected_denial_failures cases rs) (\<lambda>n.
       Inr (if ec_expects_policy_denial c \<and> \<not> re_policy_denied r then Suc n else n)))"

definition float_total :: "evaluator \<Rightarrow> pyfloat list \<Rightarrow> pyfloat" where
  "float_total V xs = (if xs = [] then Fin 0 else el_sum V xs)"

definition aggregate :: "evaluator \<Rightarrow> evaluation_batch \<Rightarrow> exc + arm_evaluation_metrics" where
  "aggregate V b =
     (let results = eb_results b; sample_count = length results;
          accepted = filter re_accepted results; accepted_count = length accepted
      in bindE (expected_denial_failures (eb_cases b) results) (\<lambda>denial_failures.
         let policy_violations = length (filter re_policy_violation results);
             total_cost = float_total V (map re_total_attempt_cost_usd results)
         in Inr \<lparr>am_evaluation_id = eb_evaluation_id b, am_config_revision = eb_config_revision b,
              am_sample_count = sample_count, am_accepted_count = accepted_count,
              am_accepted_outcome_rate =
                (if sample_count = 0 then None else Some (f64_round (of_nat accepted_count / of_nat sample_count))),
              am_accepted_outcome_rate_95_ci = wilson_interval_of accepted_count sample_count,
              am_mean_accepted_quality =
                (if accepted_count = 0 then Fin 0
                 else div_count (float_total V (map re_quality accepted)) accepted_count),
              am_total_attempt_cost_usd = total_cost,
              am_cost_per_accepted_outcome_usd =
                (if accepted_count = 0 then None else Some (div_count total_cost accepted_count)),
              am_mean_latency_ms =
                (if sample_count = 0 then Fin 0
                 else div_count (float_total V (map re_latency_ms results)) sample_count),
              am_total_human_interventions = sum_list (map re_human_interventions results),
              am_policy_denial_count = length (filter re_policy_denied results),
              am_policy_denial_failures = denial_failures,
              am_policy_violation_count = policy_violations + denial_failures\<rparr>))"

section \<open>Comparing two arms\<close>

definition case_signature :: "evaluation_batch \<Rightarrow> (string \<times> string \<times> bool) list" where
  "case_signature b =
     sort (map (\<lambda>c. (ec_case_id c, ec_case_revision c, ec_expects_policy_denial c)) (eb_cases b))"

definition result_cases :: "evaluation_batch \<Rightarrow> string set" where
  "result_cases b = set (map re_case_id (eb_results b))"

definition case_ids :: "evaluation_batch \<Rightarrow> string set" where
  "case_ids b = set (map ec_case_id (eb_cases b))"

text \<open>The appended reasons, in the order of the tests.\<close>

definition comparison_reasons ::
  "evaluation_batch \<Rightarrow> evaluation_batch \<Rightarrow> evaluation_policy \<Rightarrow> arm_evaluation_metrics \<Rightarrow> arm_evaluation_metrics \<Rightarrow>
   (bool \<times> string) list" where
  "comparison_reasons b c p mb mc =
     [(eb_dataset_revision b \<noteq> eb_dataset_revision c \<or> case_signature b \<noteq> case_signature c, ''evaluation_cases_mismatch''),
      (\<not> pf_eq (eb_budget_usd b) (eb_budget_usd c), ''budget_mismatch''),
      (pf_less (eb_budget_usd b) (am_total_attempt_cost_usd mb), ''baseline_budget_exceeded''),
      (pf_less (eb_budget_usd c) (am_total_attempt_cost_usd mc), ''candidate_budget_exceeded''),
      (eb_config_revision b = eb_config_revision c, ''config_revisions_must_differ''),
      (result_cases b \<noteq> case_ids b, ''baseline_evaluation_incomplete''),
      (result_cases c \<noteq> case_ids c, ''candidate_evaluation_incomplete''),
      (pf_less (am_mean_accepted_quality mc) (am_mean_accepted_quality mb), ''candidate_quality_regression''),
      (int (am_sample_count mb) < el_minimum_sample_count p, ''baseline_sample_count_below_minimum''),
      (int (am_sample_count mc) < el_minimum_sample_count p, ''candidate_sample_count_below_minimum''),
      (am_policy_violation_count mb \<noteq> 0, ''baseline_policy_violations''),
      (am_policy_violation_count mc \<noteq> 0, ''candidate_policy_violations''),
      (pf_less (am_mean_accepted_quality mc) (el_minimum_candidate_accepted_quality p), ''candidate_quality_below_minimum''),
      (am_cost_per_accepted_outcome_usd mc = None, ''candidate_has_no_accepted_outcomes''),
      (case am_cost_per_accepted_outcome_usd mc of
         None \<Rightarrow> False | Some cost \<Rightarrow> pf_less (el_maximum_cost_per_accepted_outcome_usd p) cost,
       ''candidate_cost_per_accepted_outcome_exceeds_maximum''),
      (case el_maximum_total_attempt_cost_usd p of
         None \<Rightarrow> False | Some m \<Rightarrow> pf_less m (am_total_attempt_cost_usd mc),
       ''candidate_total_attempt_cost_exceeds_maximum'')]"

definition compare_evaluations ::
  "evaluator \<Rightarrow> evaluation_batch \<Rightarrow> evaluation_batch \<Rightarrow> evaluation_policy \<Rightarrow> exc + evaluation_comparison" where
  "compare_evaluations V b c p =
     bindE (aggregate V b) (\<lambda>mb.
     bindE (aggregate V c) (\<lambda>mc.
     let reasons = map snd (filter fst (comparison_reasons b c p mb mc))
     in Inr \<lparr>cp_eligible = (reasons = []), cp_reasons = reasons, cp_baseline = mb, cp_candidate = mc,
          cp_dataset_revision = (if eb_dataset_revision b = eb_dataset_revision c then Some (eb_dataset_revision b) else None),
          cp_budget_usd = (if pf_eq (eb_budget_usd b) (eb_budget_usd c) then Some (eb_budget_usd b) else None)\<rparr>))"

section \<open>JSON of the contracts\<close>

definition eval_case_json :: "eval_case \<Rightarrow> pyval" where
  "eval_case_json c = PMap
     [(''case_id'', PStr (ec_case_id c)), (''case_revision'', PStr (ec_case_revision c)),
      (''expects_policy_denial'', PBool (ec_expects_policy_denial c))]"

definition eval_result_json :: "eval_result \<Rightarrow> pyval" where
  "eval_result_json r = PMap
     [(''result_id'', PStr (re_result_id r)), (''case_id'', PStr (re_case_id r)),
      (''config_revision'', PStr (re_config_revision r)), (''accepted'', PBool (re_accepted r)),
      (''quality'', PFloat (re_quality r)), (''total_attempt_cost_usd'', PFloat (re_total_attempt_cost_usd r)),
      (''latency_ms'', PFloat (re_latency_ms r)), (''human_interventions'', PInt (re_human_interventions r)),
      (''policy_denied'', PBool (re_policy_denied r)), (''policy_violation'', PBool (re_policy_violation r))]"

definition evaluation_batch_json :: "evaluation_batch \<Rightarrow> pydict" where
  "evaluation_batch_json b =
     [(''evaluation_id'', PStr (eb_evaluation_id b)), (''dataset_revision'', PStr (eb_dataset_revision b)),
      (''config_revision'', PStr (eb_config_revision b)), (''budget_usd'', PFloat (eb_budget_usd b)),
      (''cases'', PList (map eval_case_json (eb_cases b))), (''results'', PList (map eval_result_json (eb_results b)))]"

definition opt_json :: "('a \<Rightarrow> pyval) \<Rightarrow> 'a option \<Rightarrow> pyval" where
  "opt_json f v = (case v of None \<Rightarrow> PNone | Some x \<Rightarrow> f x)"

definition evaluation_policy_json :: "evaluation_policy \<Rightarrow> pydict" where
  "evaluation_policy_json p =
     [(''minimum_sample_count'', PInt (el_minimum_sample_count p)),
      (''minimum_candidate_accepted_quality'', PFloat (el_minimum_candidate_accepted_quality p)),
      (''maximum_cost_per_accepted_outcome_usd'', PFloat (el_maximum_cost_per_accepted_outcome_usd p)),
      (''maximum_total_attempt_cost_usd'', opt_json PFloat (el_maximum_total_attempt_cost_usd p))]"

definition arm_metrics_json :: "evaluator \<Rightarrow> arm_evaluation_metrics \<Rightarrow> pyval" where
  "arm_metrics_json V m = PMap
     [(''evaluation_id'', PStr (am_evaluation_id m)), (''config_revision'', PStr (am_config_revision m)),
      (''sample_count'', PInt (int (am_sample_count m))), (''accepted_count'', PInt (int (am_accepted_count m))),
      (''accepted_outcome_rate'', opt_json (el_dump V) (am_accepted_outcome_rate m)),
      (''accepted_outcome_rate_95_ci'', PMap
        [(''lower'', opt_json (el_dump V) (wi_lower (am_accepted_outcome_rate_95_ci m))),
         (''upper'', opt_json (el_dump V) (wi_upper (am_accepted_outcome_rate_95_ci m)))]),
      (''mean_accepted_quality'', el_dump V (am_mean_accepted_quality m)),
      (''total_attempt_cost_usd'', el_dump V (am_total_attempt_cost_usd m)),
      (''cost_per_accepted_outcome_usd'', opt_json (el_dump V) (am_cost_per_accepted_outcome_usd m)),
      (''mean_latency_ms'', el_dump V (am_mean_latency_ms m)),
      (''total_human_interventions'', PInt (am_total_human_interventions m)),
      (''policy_denial_count'', PInt (int (am_policy_denial_count m))),
      (''policy_denial_failures'', PInt (int (am_policy_denial_failures m))),
      (''policy_violation_count'', PInt (int (am_policy_violation_count m)))]"

definition comparison_json :: "evaluator \<Rightarrow> evaluation_comparison \<Rightarrow> pydict" where
  "comparison_json V r =
     [(''eligible'', PBool (cp_eligible r)), (''reasons'', PList (map PStr (cp_reasons r))),
      (''baseline'', arm_metrics_json V (cp_baseline r)), (''candidate'', arm_metrics_json V (cp_candidate r)),
      (''dataset_revision'', opt_str (cp_dataset_revision r)), (''budget_usd'', opt_json (el_dump V) (cp_budget_usd r)),
      (''report_kind'', PStr ''fixed_evaluation_case_comparison''), (''is_live_model_benchmark'', PBool False)]"

section \<open>Recording a report\<close>

definition EVALUATION_REPORT_VERSION :: string where
  "EVALUATION_REPORT_VERSION = ''fixed-case-evaluation-v1''"

definition content_hash :: "env \<Rightarrow> evaluator \<Rightarrow> pydict \<Rightarrow> string" where
  "content_hash E V payload = e_sha256 E (el_json V (PMap payload))"

definition create_evaluation_report ::
  "env \<Rightarrow> evolution_evaluation_report \<Rightarrow> (world, evolution_evaluation_report) op" where
  "create_evaluation_report E report =
     bindS (write_db (\<lambda>d. d\<lparr>t_reports := t_reports d @ [report]\<rparr>)) (\<lambda>_.
     bindS (flush E) (\<lambda>_. retS report))"

definition list_evaluation_reports :: "string \<Rightarrow> string \<Rightarrow> (world, evolution_evaluation_report list) op" where
  "list_evaluation_reports company_id proposal_id =
     query_db (\<lambda>d. sort_key (\<lambda>r. - dt_utc (er_created_at r)) (filter (\<lambda>r.
       er_company_id r = company_id \<and> er_proposal_id r = proposal_id) (t_reports d)))"

text \<open>The proposal, when it exists and belongs to the company.\<close>

definition evaluation_proposal :: "string \<Rightarrow> string \<Rightarrow> (world, evolution_proposal) op" where
  "evaluation_proposal company_id proposal_id =
     bindS (query_db (get_proposal_row proposal_id)) (\<lambda>proposal. case proposal of
         None \<Rightarrow> raiseS (EvolutionEvaluationProposalNotFoundError proposal_id)
       | Some p \<Rightarrow>
           if ep_company_id p \<noteq> company_id then raiseS (EvolutionEvaluationProposalNotFoundError proposal_id)
           else retS p)"

definition incompatible_reasons :: "evaluation_comparison \<Rightarrow> string list" where
  "incompatible_reasons r =
     filter (\<lambda>reason. reason \<in> {''evaluation_cases_mismatch'', ''budget_mismatch''}) (cp_reasons r)"

definition evaluation_report ::
  "env \<Rightarrow> evaluator \<Rightarrow> string \<Rightarrow> string \<Rightarrow> evaluation_batch \<Rightarrow> evaluation_batch \<Rightarrow> evaluation_policy \<Rightarrow>
   evaluation_comparison \<Rightarrow> string \<Rightarrow> int \<Rightarrow> evolution_evaluation_report" where
  "evaluation_report E V company_id proposal_id b c p r report_id now =
     \<lparr>er_evaluation_report_id = report_id, er_company_id = company_id, er_proposal_id = proposal_id,
      er_baseline_skill_version_id = eb_config_revision b, er_candidate_skill_version_id = eb_config_revision c,
      er_dataset_revision = eb_dataset_revision b, er_baseline_batch_hash = content_hash E V (evaluation_batch_json b),
      er_candidate_batch_hash = content_hash E V (evaluation_batch_json c), er_baseline_batch = evaluation_batch_json b,
      er_candidate_batch = evaluation_batch_json c, er_policy = evaluation_policy_json p,
      er_comparison_report = comparison_json V r, er_evaluator_version = EVALUATION_REPORT_VERSION,
      er_created_at = utc_dt now\<rparr>"

definition evaluation_audit :: "env \<Rightarrow> string \<Rightarrow> evolution_evaluation_report \<Rightarrow> bool \<Rightarrow> (world, audit_event) op" where
  "evaluation_audit E actor_id created eligible =
     new_audit E (\<lambda>i now.
       \<lparr>ae_audit_event_id = i, ae_company_id = er_company_id created, ae_action = ''evolution_evaluation.recorded'',
        ae_target_type = ''evolution_evaluation_report'', ae_target_id = er_evaluation_report_id created,
        ae_actor_type = ''user'', ae_actor_id = actor_id, ae_trace_id = None, ae_run_id = None, ae_work_item_id = None,
        ae_idempotency_key = None,
        ae_detail = [(''proposal_id'', PStr (er_proposal_id created)),
          (''evaluation_report_id'', PStr (er_evaluation_report_id created)),
          (''baseline_skill_version_id'', PStr (er_baseline_skill_version_id created)),
          (''candidate_skill_version_id'', PStr (er_candidate_skill_version_id created)),
          (''eligible'', PBool eligible), (''baseline_batch_hash'', PStr (er_baseline_batch_hash created)),
          (''candidate_batch_hash'', PStr (er_candidate_batch_hash created))],
        ae_created_at = utc_dt now\<rparr>)"

definition record_evaluation_comparison ::
  "env \<Rightarrow> evaluator \<Rightarrow> string \<Rightarrow> string \<Rightarrow> evaluation_batch \<Rightarrow> evaluation_batch \<Rightarrow> evaluation_policy \<Rightarrow> string \<Rightarrow>
   (world, evolution_evaluation_report) op" where
  "record_evaluation_comparison E V company_id proposal_id b c p actor_id =
     bindS (evaluation_proposal company_id proposal_id) (\<lambda>_.
     bindS (liftE (compare_evaluations V b c p)) (\<lambda>comparison.
     if incompatible_reasons comparison \<noteq> []
     then raiseS (EvolutionEvaluationCompatibilityError (py_join '','' (incompatible_reasons comparison)))
     else
       bindS (generate_id E ''evr'') (\<lambda>report_id.
       bindS (now_utc E) (\<lambda>now.
       bindS (create_evaluation_report E (evaluation_report E V company_id proposal_id b c p comparison report_id now)) (\<lambda>created.
       bindS (evaluation_audit E actor_id created (cp_eligible comparison)) (\<lambda>_. retS created))))))"

definition list_evaluation_comparisons ::
  "string \<Rightarrow> string \<Rightarrow> (world, evolution_evaluation_report list) op" where
  "list_evaluation_comparisons company_id proposal_id =
     bindS (evaluation_proposal company_id proposal_id) (\<lambda>_. list_evaluation_reports company_id proposal_id)"

section \<open>Routes\<close>

record evaluation_create_request =
  eq_company_id :: string
  eq_baseline :: evaluation_batch
  eq_candidate :: evaluation_batch
  eq_policy :: evaluation_policy
  eq_actor_id :: string

definition evaluation_request_ok :: "evaluation_create_request \<Rightarrow> bool" where
  "evaluation_request_ok q \<longleftrightarrow>
     text_within 48 (eq_company_id q) \<and> evaluation_batch_ok (eq_baseline q) \<and> evaluation_batch_ok (eq_candidate q) \<and>
     evaluation_policy_ok (eq_policy q) \<and> text_within 128 (eq_actor_id q)"

text \<open>\<open>resolve_company\<close>: the company of the request, or the one of the settings.\<close>

definition resolve_company :: "string \<Rightarrow> string option \<Rightarrow> string" where
  "resolve_company default_company company_id =
     (if truthy_str company_id then str_or_empty company_id else default_company)"

definition evaluation_errors :: "(world, 'a) op \<Rightarrow> (world, 'a) op" where
  "evaluation_errors m =
     catchS m (\<lambda>e. case e of
         EvolutionEvaluationProposalNotFoundError i \<Rightarrow> api_error 404 ''evolution_proposal_not_found''
       | EvolutionEvaluationCompatibilityError t \<Rightarrow> api_error 400 ''evaluation_arms_incompatible''
       | _ \<Rightarrow> raiseS e)"

text \<open>The request's transaction commits with the route's last statement and is rolled back when it raises.\<close>

definition create_evaluation ::
  "env \<Rightarrow> evaluator \<Rightarrow> string \<Rightarrow> string \<Rightarrow> evaluation_create_request \<Rightarrow> (world, evolution_evaluation_report) op" where
  "create_evaluation E V default_company proposal_id q =
     (if \<not> evaluation_request_ok q then api_error 422 ''validation_error''
      else in_transaction (evaluation_errors
        (record_evaluation_comparison E V (resolve_company default_company (Some (eq_company_id q))) proposal_id
           (eq_baseline q) (eq_candidate q) (eq_policy q) (eq_actor_id q))))"

definition list_evaluations ::
  "string \<Rightarrow> string option \<Rightarrow> string \<Rightarrow> (world, evolution_evaluation_report list) op" where
  "list_evaluations default_company company_id proposal_id =
     (case company_id of
        Some i \<Rightarrow> if \<not> text_within 48 i then api_error 422 ''validation_error''
                  else evaluation_errors (list_evaluation_comparisons i proposal_id)
      | None \<Rightarrow> evaluation_errors (list_evaluation_comparisons (resolve_company default_company None) proposal_id))"

section \<open>What a release implies about its evidence\<close>

definition arm_evidence :: "evaluation_batch \<Rightarrow> bool" where
  "arm_evidence b \<longleftrightarrow>
     result_cases b = case_ids b \<and> length (eb_results b) = length (eb_cases b) \<and> 50 \<le> length (eb_results b) \<and>
     (\<forall>r \<in> set (eb_results b). \<not> re_policy_violation r \<and>
        (\<forall>k \<in> set (eb_cases b). ec_case_id k = re_case_id r \<and> ec_expects_policy_denial k \<longrightarrow> re_policy_denied r))"

lemma case_option_Inr: "(case x of None \<Rightarrow> Inr () | Some r \<Rightarrow> Inl (g r)) = Inr () \<longleftrightarrow> x = None"
  by (cases x) auto

lemma validate_identifiers_ok:
  "validate_identifiers b = Inr () \<longleftrightarrow>
     distinct (map ec_case_id (eb_cases b)) \<and> distinct (map re_result_id (eb_results b)) \<and>
     distinct (map re_case_id (eb_results b)) \<and> result_cases b \<subseteq> case_ids b \<and>
     (\<forall>r \<in> set (eb_results b). re_config_revision r = eb_config_revision b)"
  by (auto simp: validate_identifiers_def case_option_Inr result_cases_def case_ids_def find_None_iff)

lemma case_of_member:
  assumes "distinct (map ec_case_id cases)" and "k \<in> set cases"
  shows "case_of cases (ec_case_id k) = Inr k"
proof -
  have "map_of (rev (map (\<lambda>c. (ec_case_id c, c)) cases)) (ec_case_id k) = Some k"
    using assms by (intro map_of_is_SomeI) (auto simp: rev_map [symmetric] comp_def)
  then show ?thesis by (simp add: case_of_def)
qed

lemma no_denial_failures:
  assumes "expected_denial_failures cases rs = Inr 0" and "r \<in> set rs" and "case_of cases (re_case_id r) = Inr k"
    and "ec_expects_policy_denial k"
  shows "re_policy_denied r"
  using assms by (induction rs) (auto split: if_splits)

lemma aggregate_ok:
  assumes "aggregate V b = Inr m"
  shows "am_config_revision m = eb_config_revision b" "am_sample_count m = length (eb_results b)"
    "am_accepted_count m = length (filter re_accepted (eb_results b))"
    "am_total_attempt_cost_usd m = float_total V (map re_total_attempt_cost_usd (eb_results b))"
    "am_cost_per_accepted_outcome_usd m = None \<longleftrightarrow> filter re_accepted (eb_results b) = []"
    "am_accepted_outcome_rate m = (if eb_results b = [] then None
       else Some (f64_round (of_nat (am_accepted_count m) / of_nat (length (eb_results b)))))"
    "\<exists>n. expected_denial_failures (eb_cases b) (eb_results b) = Inr n \<and>
       am_policy_violation_count m = length (filter re_policy_violation (eb_results b)) + n"
  using assms by (simp_all add: aggregate_def Let_def) (auto split: if_splits)

lemma aggregate_evidence:
  assumes "aggregate V b = Inr m" and "validate_identifiers b = Inr ()" and "result_cases b = case_ids b"
    and "am_policy_violation_count m = 0" and "50 \<le> am_sample_count m"
  shows "arm_evidence b"
proof -
  note valid = assms(2) [unfolded validate_identifiers_ok]
  have "length (eb_results b) = card (result_cases b)"
    using valid by (metis distinct_card length_map result_cases_def)
  also have "\<dots> = length (eb_cases b)"
    using valid assms(3) by (metis distinct_card length_map case_ids_def)
  finally have len: "length (eb_results b) = length (eb_cases b)" .
  have none: "filter re_policy_violation (eb_results b) = []"
    and denials: "expected_denial_failures (eb_cases b) (eb_results b) = Inr 0"
    using aggregate_ok(7) [OF assms(1)] assms(4) by auto
  have "re_policy_denied r"
    if "r \<in> set (eb_results b)" "k \<in> set (eb_cases b)" "ec_case_id k = re_case_id r" "ec_expects_policy_denial k" for r k
    using no_denial_failures [OF denials that(1) _ that(4)] case_of_member [of _ k] valid that by metis
  then show ?thesis
    using none len assms(3,5) aggregate_ok(2) [OF assms(1)] by (auto simp: arm_evidence_def filter_empty_conv)
qed

lemma compare_ok:
  assumes "compare_evaluations V b c p = Inr r"
  obtains mb mc where "aggregate V b = Inr mb" "aggregate V c = Inr mc" "cp_baseline r = mb" "cp_candidate r = mc"
    "cp_eligible r \<longleftrightarrow> filter fst (comparison_reasons b c p mb mc) = []"
  using assms by (auto simp: compare_evaluations_def Let_def)

lemma eligible_reasons:
  "filter fst (comparison_reasons b c p mb mc) = [] \<longleftrightarrow> (\<forall>(failed, reason) \<in> set (comparison_reasons b c p mb mc). \<not> failed)"
  by (auto simp: filter_empty_conv)

lemma same_signature:
  assumes "case_signature b = case_signature c"
  shows "(\<lambda>k. (ec_case_id k, ec_case_revision k, ec_expects_policy_denial k)) ` set (eb_cases b) =
     (\<lambda>k. (ec_case_id k, ec_case_revision k, ec_expects_policy_denial k)) ` set (eb_cases c)"
  using arg_cong [OF assms, of set] by (simp add: case_signature_def)

lemma reports_after_audit:
  assumes "new_audit E mk w = (a, w')"
  shows "t_reports (w_db w') = t_reports (w_db w)"
  using keepsD_run [OF keeps_new_audit(1) [where P = "\<lambda>d. t_reports d = t_reports (w_db w)"] _ assms] by simp

lemma create_evaluation_ok:
  assumes "create_evaluation E V dc pid q w = (Inr r, w')"
  obtains cmp i now where "evaluation_request_ok q"
    "compare_evaluations V (eq_baseline q) (eq_candidate q) (eq_policy q) = Inr cmp"
    "r = evaluation_report E V (resolve_company dc (Some (eq_company_id q))) pid (eq_baseline q) (eq_candidate q)
           (eq_policy q) cmp i now"
    "r \<in> set (t_reports (w_committed w'))"
proof -
  let ?m = "record_evaluation_comparison E V (resolve_company dc (Some (eq_company_id q))) pid (eq_baseline q)
    (eq_candidate q) (eq_policy q) (eq_actor_id q)"
  have ok: "evaluation_request_ok q" using assms by (auto simp: create_evaluation_def api_error_def split: if_splits)
  then obtain w1 where run: "?m w = (Inr r, w1)" and w': "w_committed w' = w_db w1"
    using assms by (auto simp: create_evaluation_def in_transaction_def evaluation_errors_def catchS_def api_error_def
        split: prod.splits sum.splits exc.splits)
  have "\<exists>cmp i now. compare_evaluations V (eq_baseline q) (eq_candidate q) (eq_policy q) = Inr cmp \<and>
    r = evaluation_report E V (resolve_company dc (Some (eq_company_id q))) pid (eq_baseline q) (eq_candidate q)
           (eq_policy q) cmp i now \<and> r \<in> set (t_reports (w_db w1))"
    using run by (auto simp: record_evaluation_comparison_def evaluation_proposal_def create_evaluation_report_def
        evaluation_audit_def bindS_Inr_iff flush_def dest!: reports_after_audit split: option.splits if_splits)
  then show thesis using that ok w' by auto
qed

lemma release_gates_ok:
  assumes "release_gates (comparison_json V r) = Inr ()"
    and dump: "\<And>f. el_dump V f = PFloat f \<or> el_dump V f = PNone"
  shows "cp_eligible r" "50 \<le> am_sample_count (cp_baseline r)" "50 \<le> am_sample_count (cp_candidate r)"
    "\<exists>rb rc. am_accepted_outcome_rate (cp_baseline r) = Some rb \<and> am_accepted_outcome_rate (cp_candidate r) = Some rc \<and>
       \<not> pf_less rc rb"
proof -
  note gate = assms(1) [unfolded release_gates_def comparison_json_def arm_metrics_json_def]
  show "cp_eligible r" using gate by (simp add: dict_get_def)
  show "50 \<le> am_sample_count (cp_baseline r)" "50 \<le> am_sample_count (cp_candidate r)"
    using gate by (auto simp: arm_value_def py_item_def py_less_def py_number_def split: if_splits)
  show "\<exists>rb rc. am_accepted_outcome_rate (cp_baseline r) = Some rb \<and> am_accepted_outcome_rate (cp_candidate r) = Some rc \<and>
       \<not> pf_less rc rb"
    using gate dump [of "the (am_accepted_outcome_rate (cp_baseline r))"] dump [of "the (am_accepted_outcome_rate (cp_candidate r))"]
    by (cases "am_accepted_outcome_rate (cp_baseline r)"; cases "am_accepted_outcome_rate (cp_candidate r)")
       (auto simp: arm_value_def py_item_def py_less_def py_number_def opt_json_def)
qed

lemma validate_release_ok:
  assumes "validate_release tier state act (comparison_json V r) bref cref = Inr ()"
  shows "tier = EvolutionTier_L1" "am_config_revision (cp_baseline r) = bref" "am_config_revision (cp_candidate r) = cref"
    "act \<in> {''canary'', ''promote''} \<Longrightarrow> release_gates (comparison_json V r) = Inr ()"
  using assms by (cases tier; auto simp: validate_release_def arm_value_def py_item_def comparison_json_def
      arm_metrics_json_def split: if_splits)+

text \<open>
  C13. Evidence behind a live release: when the report a request recorded lets the release policy accept a
  canary or a promotion, the proposal is an L1 one, the report is committed and compares exactly the two
  configurations that are released, which differ, on the same cases of the same dataset; in both arms every case
  has one result, there are at least fifty, none violates a policy and every expected denial happened; neither
  arm's attempts cost more than its budget; the candidate has an accepted outcome, and neither its mean accepted quality
  nor its accepted rate is below the baseline's.
\<close>

theorem live_release_has_evidence:
  assumes "create_evaluation E V dc pid q w = (Inr r, w')"
    and "validate_release tier state act (er_comparison_report r) bref cref = Inr ()"
    and "act \<in> {''canary'', ''promote''}"
    and "\<And>f. el_dump V f = PFloat f \<or> el_dump V f = PNone"
    and "eq_baseline q = b" and "eq_candidate q = c"
  shows "tier = EvolutionTier_L1 \<and> r \<in> set (t_reports (w_committed w')) \<and> er_proposal_id r = pid \<and>
    eb_config_revision b = bref \<and> eb_config_revision c = cref \<and> bref \<noteq> cref \<and>
    eb_dataset_revision b = eb_dataset_revision c \<and>
    (\<lambda>k. (ec_case_id k, ec_case_revision k, ec_expects_policy_denial k)) ` set (eb_cases b) =
      (\<lambda>k. (ec_case_id k, ec_case_revision k, ec_expects_policy_denial k)) ` set (eb_cases c) \<and>
    arm_evidence b \<and> arm_evidence c \<and>
    \<not> pf_less (eb_budget_usd b) (float_total V (map re_total_attempt_cost_usd (eb_results b))) \<and>
    \<not> pf_less (eb_budget_usd c) (float_total V (map re_total_attempt_cost_usd (eb_results c))) \<and>
    (\<exists>x \<in> set (eb_results c). re_accepted x) \<and>
    (\<exists>mb mc. aggregate V b = Inr mb \<and> aggregate V c = Inr mc \<and>
       \<not> pf_less (am_mean_accepted_quality mc) (am_mean_accepted_quality mb) \<and>
       \<not> pf_less (the (am_accepted_outcome_rate mc)) (the (am_accepted_outcome_rate mb)))"
proof -
  obtain cmp i now where ok: "evaluation_request_ok q" and cmp: "compare_evaluations V b c (eq_policy q) = Inr cmp"
    and r: "r = evaluation_report E V (resolve_company dc (Some (eq_company_id q))) pid b c (eq_policy q) cmp i now"
    and stored: "r \<in> set (t_reports (w_committed w'))"
    using create_evaluation_ok [OF assms(1)] assms(5,6) by metis
  obtain mb mc where agg: "aggregate V b = Inr mb" "aggregate V c = Inr mc" "cp_baseline cmp = mb" "cp_candidate cmp = mc"
    and eligible: "cp_eligible cmp \<longleftrightarrow> filter fst (comparison_reasons b c (eq_policy q) mb mc) = []"
    by (rule compare_ok [OF cmp])
  have val: "validate_release tier state act (comparison_json V cmp) bref cref = Inr ()"
    using assms(2) by (simp add: r evaluation_report_def)
  note rel = validate_release_ok(1-3) [OF val] and gates = release_gates_ok [OF validate_release_ok(4) [OF val assms(3)] assms(4)]
  have no: "\<forall>(failed, reason) \<in> set (comparison_reasons b c (eq_policy q) mb mc). \<not> failed"
    using eligible gates(1) by (simp add: eligible_reasons)
  note clear = no [unfolded comparison_reasons_def, simplified]
  have ids: "validate_identifiers b = Inr ()" "validate_identifiers c = Inr ()"
    using ok assms(5,6) by (auto simp: evaluation_request_ok_def evaluation_batch_ok_def)
  have "arm_evidence b" "arm_evidence c"
    using aggregate_evidence [OF agg(1) ids(1)] aggregate_evidence [OF agg(2) ids(2)] clear gates(2,3) agg(3,4) by simp_all
  moreover have "\<exists>x \<in> set (eb_results c). re_accepted x"
    using clear aggregate_ok(5) [OF agg(2)] by (auto simp: filter_empty_conv)
  ultimately show ?thesis
    using clear rel gates(4) agg same_signature [of b c] stored aggregate_ok(1,4) [OF agg(1)] aggregate_ok(1,4) [OF agg(2)]
    by (auto simp: r evaluation_report_def)
qed

section \<open>A comparison of fifty cases\<close>

definition sample_numbers :: "nat list" where
  "sample_numbers = [65..<115]"

lemma sample_numbers_facts:
  "length sample_numbers = 50" "distinct sample_numbers" "sample_numbers \<noteq> []"
  "n \<in> set sample_numbers \<Longrightarrow> n mod 256 = n"
  unfolding sample_numbers_def
  by (simp_all only: length_upt distinct_upt set_upt upt_eq_Nil_conv) simp_all

definition sample_batch :: "string \<Rightarrow> string \<Rightarrow> evaluation_batch" where
  "sample_batch evaluation_id revision =
     \<lparr>eb_evaluation_id = evaluation_id, eb_dataset_revision = ''d1'', eb_config_revision = revision, eb_budget_usd = Fin 5,
      eb_cases = map (\<lambda>n. \<lparr>ec_case_id = [char_of n], ec_case_revision = ''1'', ec_expects_policy_denial = (n = 70)\<rparr>) sample_numbers,
      eb_results = map (\<lambda>n. \<lparr>re_result_id = [char_of n], re_case_id = [char_of n], re_config_revision = revision,
        re_accepted = True, re_quality = Fin 1, re_total_attempt_cost_usd = Fin 0, re_latency_ms = Fin 8,
        re_human_interventions = 0, re_policy_denied = (n = 70), re_policy_violation = False\<rparr>) sample_numbers\<rparr>"

definition sample_evaluator :: evaluator where
  "sample_evaluator = \<lparr>el_sum = foldl pf_add (Fin 0), el_dump = PFloat, el_json = (\<lambda>v. ''json'')\<rparr>"

definition sample_evaluation :: evaluation_create_request where
  "sample_evaluation = \<lparr>eq_company_id = ''acme'', eq_baseline = sample_batch ''b'' ''triage@1'',
     eq_candidate = sample_batch ''c'' ''triage@2'',
     eq_policy = \<lparr>el_minimum_sample_count = 50, el_minimum_candidate_accepted_quality = Fin 1,
       el_maximum_cost_per_accepted_outcome_usd = Fin 2, el_maximum_total_attempt_cost_usd = None\<rparr>,
     eq_actor_id = ''op''\<rparr>"

lemma sample_evaluator_dump: "el_dump sample_evaluator = PFloat"
  by (simp add: sample_evaluator_def)

lemma sample_fields:
  "eb_dataset_revision (sample_batch e r) = ''d1''" "eb_config_revision (sample_batch e r) = r"
  "eb_budget_usd (sample_batch e r) = Fin 5"
  by (simp_all add: sample_batch_def)

lemma sample_chars:
  assumes "n \<in> set sample_numbers" and "m \<in> set sample_numbers" and "char_of n = (char_of m :: char)"
  shows "n = m"
  using arg_cong [OF assms(3), of "of_char :: char \<Rightarrow> nat"] sample_numbers_facts(4) [OF assms(1)]
    sample_numbers_facts(4) [OF assms(2)] by (simp only: of_char_of)

lemma sample_ids:
  "distinct (map ec_case_id (eb_cases (sample_batch e r)))" "distinct (map re_result_id (eb_results (sample_batch e r)))"
  "distinct (map re_case_id (eb_results (sample_batch e r)))" "result_cases (sample_batch e r) = case_ids (sample_batch e r)"
  using sample_numbers_facts(2)
  by (auto simp: sample_batch_def comp_def distinct_map inj_on_def result_cases_def case_ids_def dest: sample_chars)

lemma sample_ok: "evaluation_request_ok sample_evaluation"
  unfolding evaluation_request_ok_def sample_evaluation_def evaluation_batch_ok_def validate_identifiers_ok
  using sample_ids by (simp add: evaluation_policy_ok_def) (simp add: sample_batch_def text_within_def
    nonnegative_finite_def list_all_iff eval_case_ok_def eval_result_ok_def)

lemma denials_happen:
  assumes "\<And>r. r \<in> set rs \<Longrightarrow> \<exists>k. case_of cases (re_case_id r) = Inr k \<and> (ec_expects_policy_denial k \<longrightarrow> re_policy_denied r)"
  shows "expected_denial_failures cases rs = Inr 0"
  using assms by (induction rs) fastforce+

lemma sample_denials: "expected_denial_failures (eb_cases (sample_batch e r)) (eb_results (sample_batch e r)) = Inr 0"
proof (rule denials_happen)
  fix x assume "x \<in> set (eb_results (sample_batch e r))"
  then have "\<exists>k \<in> set (eb_cases (sample_batch e r)). ec_case_id k = re_case_id x \<and>
    ec_expects_policy_denial k = re_policy_denied x"
    by (auto simp: sample_batch_def)
  then show "\<exists>k. case_of (eb_cases (sample_batch e r)) (re_case_id x) = Inr k \<and> (ec_expects_policy_denial k \<longrightarrow> re_policy_denied x)"
    using case_of_member [OF sample_ids(1)] by metis
qed

lemma total_of_ints:
  assumes "a + n * k < 2 ^ 53"
  shows "foldl pf_add (Fin (of_nat a)) (replicate n (Fin (of_nat k))) = Fin (of_nat (a + n * k))"
  using assms
proof (induction n arbitrary: a)
  case (Suc n)
  have "a + k < 2 ^ 53" using Suc.prems by simp
  then have "f64_round (of_nat a + of_nat k) = Fin (of_nat (a + k))"
    using f64_round_int [of "int (a + k)"] by simp
  then show ?case using Suc.IH [of "a + k"] Suc.prems by (simp add: add.assoc)
qed simp

lemma sample_aggregate:
  "\<exists>m. aggregate sample_evaluator (sample_batch e r) = Inr m \<and> am_config_revision m = r \<and> am_sample_count m = 50 \<and>
     am_accepted_outcome_rate m = Some (Fin 1) \<and> am_mean_accepted_quality m = Fin 1 \<and>
     am_total_attempt_cost_usd m = Fin 0 \<and> am_cost_per_accepted_outcome_usd m = Some (Fin 0) \<and>
     am_policy_violation_count m = 0"
proof -
  let ?b = "sample_batch e r"
  have all: "filter re_accepted (eb_results ?b) = eb_results ?b" "filter re_policy_violation (eb_results ?b) = []"
    "length (eb_results ?b) = 50" "eb_results ?b \<noteq> []" "eb_config_revision ?b = r"
    "map re_quality (eb_results ?b) = replicate 50 (Fin 1)"
    "map re_total_attempt_cost_usd (eb_results ?b) = replicate 50 (Fin 0)"
    using sample_numbers_facts(1,3) by (auto simp: sample_batch_def filter_map comp_def map_replicate_const)
  have "el_sum sample_evaluator (replicate 50 (Fin 1)) = Fin 50" "el_sum sample_evaluator (replicate 50 (Fin 0)) = Fin 0"
    using total_of_ints [of 0 50 1] total_of_ints [of 0 50 0] by (simp_all add: sample_evaluator_def)
  moreover have "f64_round 50 = Fin 50" "f64_round 1 = Fin 1" "f64_round 0 = Fin 0"
    using f64_round_int [of 50] f64_round_int [of 1] f64_round_int [of 0] by simp_all
  ultimately show ?thesis
    by (simp add: aggregate_def sample_denials all div_count_def float_total_def Let_def)
qed

lemma sample_compare:
  "\<exists>cmp. compare_evaluations sample_evaluator (sample_batch ''b'' ''triage@1'') (sample_batch ''c'' ''triage@2'')
       (eq_policy sample_evaluation) = Inr cmp \<and> cp_reasons cmp = [] \<and> cp_eligible cmp \<and>
     validate_release EvolutionTier_L1 (Some ''shadow'') ''canary'' (comparison_json sample_evaluator cmp) ''triage@1'' ''triage@2'' = Inr ()"
proof -
  obtain mb mc where b: "aggregate sample_evaluator (sample_batch ''b'' ''triage@1'') = Inr mb" "am_config_revision mb = ''triage@1''"
      "am_sample_count mb = 50" "am_accepted_outcome_rate mb = Some (Fin 1)" "am_mean_accepted_quality mb = Fin 1"
      "am_total_attempt_cost_usd mb = Fin 0" "am_policy_violation_count mb = 0"
    and c: "aggregate sample_evaluator (sample_batch ''c'' ''triage@2'') = Inr mc" "am_config_revision mc = ''triage@2''"
      "am_sample_count mc = 50" "am_accepted_outcome_rate mc = Some (Fin 1)" "am_mean_accepted_quality mc = Fin 1"
      "am_total_attempt_cost_usd mc = Fin 0" "am_cost_per_accepted_outcome_usd mc = Some (Fin 0)"
      "am_policy_violation_count mc = 0"
    using sample_aggregate by metis
  have "case_signature (sample_batch ''b'' ''triage@1'') = case_signature (sample_batch ''c'' ''triage@2'')"
    by (simp add: case_signature_def sample_batch_def)
  then have "filter fst (comparison_reasons (sample_batch ''b'' ''triage@1'') (sample_batch ''c'' ''triage@2'')
      (eq_policy sample_evaluation) mb mc) = []"
    using b c sample_ids(4) by (simp add: comparison_reasons_def sample_evaluation_def sample_fields pf_eq_def)
  then show ?thesis
    using b c by (auto simp: compare_evaluations_def validate_release_def release_gates_def comparison_json_def
      arm_metrics_json_def arm_value_def py_item_def py_less_def py_number_def opt_json_def dict_get_def
      ALLOWED_ACTIONS_def sample_evaluator_dump)
qed

lemma record_evaluation_runs:
  assumes "evaluation_proposal co pid w = (Inr p, w)" and "compare_evaluations V b c pol = Inr cmp" and "cp_reasons cmp = []"
    and "rep = evaluation_report E V co pid b c pol cmp (e_id E ''evr'' (w_tick w)) (e_clock E (Suc (w_tick w)))"
    and "u = w\<lparr>w_tick := Suc (Suc (w_tick w)), w_db := (w_db w)\<lparr>t_reports := t_reports (w_db w) @ [rep]\<rparr>\<rparr>"
    and "flush E u = (Inr (), u)" and "evaluation_audit E who rep (cp_eligible cmp) u = (Inr a, v)"
  shows "record_evaluation_comparison E V co pid b c pol who w = (Inr rep, v)"
  using assms by (simp add: record_evaluation_comparison_def incompatible_reasons_def bindS_run create_evaluation_report_def)

definition reported_world :: "evolution_evaluation_report \<Rightarrow> world" where
  "reported_world rep = handover_world\<lparr>w_tick := 2, w_db := (w_db handover_world)\<lparr>t_reports := [sample_report, rep]\<rparr>\<rparr>"

lemma sample_report_runs:
  fixes x1 x2 x3 x4 :: pydict
  defines "rep \<equiv> \<lparr>er_evaluation_report_id = ''evr-'', er_company_id = ''acme'', er_proposal_id = ''evp-1'',
     er_baseline_skill_version_id = ''triage@1'', er_candidate_skill_version_id = ''triage@2'', er_dataset_revision = ''d1'',
     er_baseline_batch_hash = ''hjson'', er_candidate_batch_hash = ''hjson'', er_baseline_batch = x1, er_candidate_batch = x2,
     er_policy = x3, er_comparison_report = x4, er_evaluator_version = EVALUATION_REPORT_VERSION, er_created_at = utc_dt 1000000\<rparr>"
  shows "flush sample_env (reported_world rep) = (Inr (), reported_world rep)"
    and "isl (fst (evaluation_audit sample_env ''op'' rep True (reported_world rep))) = False"
  unfolding rep_def by code_simp+

lemma sample_creates:
  assumes "compare_evaluations sample_evaluator (sample_batch ''b'' ''triage@1'') (sample_batch ''c'' ''triage@2'')
       (eq_policy sample_evaluation) = Inr cmp" and "cp_reasons cmp = []" and "cp_eligible cmp"
  obtains r w' where "create_evaluation sample_env sample_evaluator ''acme'' ''evp-1'' sample_evaluation handover_world = (Inr r, w')"
    and "er_comparison_report r = comparison_json sample_evaluator cmp"
proof -
  have q: "eq_baseline sample_evaluation = sample_batch ''b'' ''triage@1''" "eq_company_id sample_evaluation = ''acme''"
    "eq_candidate sample_evaluation = sample_batch ''c'' ''triage@2''" "eq_actor_id sample_evaluation = ''op''"
    by (simp_all add: sample_evaluation_def)
  let ?rep = "evaluation_report sample_env sample_evaluator ''acme'' ''evp-1'' (sample_batch ''b'' ''triage@1'')
    (sample_batch ''c'' ''triage@2'') (eq_policy sample_evaluation) cmp (e_id sample_env ''evr'' 0) (e_clock sample_env (Suc 0))"
  have p: "evaluation_proposal ''acme'' ''evp-1'' handover_world = (Inr sample_proposal, handover_world)"
    by (simp add: evaluation_proposal_def get_proposal_row_def handover_world_def world_of_def sample_proposal_def)
  have w: "w_tick handover_world = 0" "t_reports (w_db handover_world) = [sample_report]"
    by (simp_all add: handover_world_def world_of_def)
  have rep: "?rep = \<lparr>er_evaluation_report_id = ''evr-'', er_company_id = ''acme'', er_proposal_id = ''evp-1'',
     er_baseline_skill_version_id = ''triage@1'', er_candidate_skill_version_id = ''triage@2'', er_dataset_revision = ''d1'',
     er_baseline_batch_hash = ''hjson'', er_candidate_batch_hash = ''hjson'',
     er_baseline_batch = evaluation_batch_json (sample_batch ''b'' ''triage@1''),
     er_candidate_batch = evaluation_batch_json (sample_batch ''c'' ''triage@2''),
     er_policy = evaluation_policy_json (eq_policy sample_evaluation), er_comparison_report = comparison_json sample_evaluator cmp,
     er_evaluator_version = EVALUATION_REPORT_VERSION, er_created_at = utc_dt 1000000\<rparr>"
    by (simp add: evaluation_report_def sample_fields content_hash_def sample_env_def sample_evaluator_def)
  have fl: "flush sample_env (reported_world ?rep) = (Inr (), reported_world ?rep)"
    unfolding rep by (rule sample_report_runs(1))
  have "\<exists>a w2. evaluation_audit sample_env ''op'' ?rep True (reported_world ?rep) = (Inr a, w2)"
    using sample_report_runs(2) unfolding rep by (metis isl_def prod.collapse sum.exhaust)
  then obtain a w2 where "evaluation_audit sample_env ''op'' ?rep True (reported_world ?rep) = (Inr a, w2)" by blast
  then have "record_evaluation_comparison sample_env sample_evaluator ''acme'' ''evp-1'' (sample_batch ''b'' ''triage@1'')
      (sample_batch ''c'' ''triage@2'') (eq_policy sample_evaluation) ''op'' handover_world = (Inr ?rep, w2)"
    using fl assms(3) w
    by (intro record_evaluation_runs [OF p assms(1,2), where u = "reported_world ?rep"])
       (simp_all add: reported_world_def numeral_2_eq_2)
  then have "create_evaluation sample_env sample_evaluator ''acme'' ''evp-1'' sample_evaluation handover_world =
      (Inr ?rep, snd (checkpoint w2))"
    using sample_ok q by (simp add: create_evaluation_def resolve_company_def str_or_empty_def in_transaction_def
      evaluation_errors_def catchS_def)
  then show thesis by (rule that) (simp add: rep)
qed

theorem live_release_has_evidence_witness:
  "arm_evidence (sample_batch ''c'' ''triage@2'') \<and> \<not> pf_less (Fin 5) (float_total sample_evaluator
     (map re_total_attempt_cost_usd (eb_results (sample_batch ''c'' ''triage@2''))))"
proof -
  obtain cmp where cmp: "compare_evaluations sample_evaluator (sample_batch ''b'' ''triage@1'') (sample_batch ''c'' ''triage@2'')
       (eq_policy sample_evaluation) = Inr cmp" "cp_reasons cmp = []" "cp_eligible cmp"
    and val: "validate_release EvolutionTier_L1 (Some ''shadow'') ''canary'' (comparison_json sample_evaluator cmp) ''triage@1'' ''triage@2'' = Inr ()"
    using sample_compare by blast
  obtain r w' where run: "create_evaluation sample_env sample_evaluator ''acme'' ''evp-1'' sample_evaluation handover_world = (Inr r, w')"
    and r: "er_comparison_report r = comparison_json sample_evaluator cmp"
    by (rule sample_creates [OF cmp])
  show ?thesis
    using live_release_has_evidence [OF run, of EvolutionTier_L1 "Some ''shadow''" "''canary''" "''triage@1''" "''triage@2''"
      "sample_batch ''b'' ''triage@1''" "sample_batch ''c'' ''triage@2''"] val r
    by (simp add: sample_evaluator_dump sample_evaluation_def sample_fields)
qed

end
