(* ===== verification/Execution_Safety.thy ===== *)
theory Execution_Safety
  imports Release_Safety
begin

text \<open>
  Properties of skill executions during a release: a selection is a frozen, signed configuration
  routed by its trace, the result of a trace counts once, and what the guard may bring back.
\<close>

section \<open>A result counts once\<close>

lemma resolve_version_state: "snd (resolve_skill_version R agent_id skill_id trace_id w) = w"
  using keepsD [OF keeps_resolve_version [of "\<lambda>v. v = w"], of w] by simp

abbreviation (input) trace_of where
  "trace_of s \<equiv> (\<lambda>t. et_trace_id t = sq_trace_id s \<and> et_agent_id t = sq_agent_id s \<and> et_skill_used t = Some (sq_skill_id s))"

text \<open>The trace of a selection has a score.\<close>

definition scored :: "skill_selection \<Rightarrow> runtime \<Rightarrow> bool" where
  "scored s w \<longleftrightarrow> (\<exists>t. find_trace s w = Some t \<and> et_auto_score t \<noteq> None)"

lemma scored_frame:
  "rt_traces w' = rt_traces w \<Longrightarrow> scored s w \<Longrightarrow> scored s w'"
  by (simp add: scored_def find_trace_def)

lemma scored_observation:
  "scored s (w\<lparr>rt_traces := rt_traces w @ ts\<rparr>)" "scored s (w\<lparr>rt_traces := update_first (trace_of s')
     (\<lambda>t. t\<lparr>et_auto_score := Some q, et_success := ok\<rparr>) (rt_traces w)\<rparr>)" if "scored s w"
proof -
  show "scored s (w\<lparr>rt_traces := rt_traces w @ ts\<rparr>)" using that by (auto simp: scored_def find_trace_def find_append)
  have "\<exists>t. find (trace_of s) (update_first (trace_of s') (\<lambda>t. t\<lparr>et_auto_score := Some q, et_success := ok\<rparr>) xs) = Some t \<and>
      et_auto_score t \<noteq> None" if "find (trace_of s) xs = Some t" "et_auto_score t \<noteq> None" for xs t
    using that by (induction xs) (auto split: if_splits)
  then show "scored s (w\<lparr>rt_traces := update_first (trace_of s')
     (\<lambda>t. t\<lparr>et_auto_score := Some q, et_success := ok\<rparr>) (rt_traces w)\<rparr>)"
    using that by (auto simp: scored_def find_trace_def)
qed

lemma keeps_scored_record: "keeps (scored s) (route_record_result E R result)"
proof -
  have obs: "keeps (scored s) (store_observation E result prior)" for prior
    unfolding store_observation_def save_trace_def Let_def
    by (intro keeps_intros) (auto intro: scored_observation elim: scored_frame [rotated])
  have add: "keeps (scored s) (add_experiment_result i b q)" for i b q
    unfolding add_experiment_result_def write_experiment_def by (intro keeps_intros) (auto elim: scored_frame [rotated])
  have "keeps (scored s) (record_result E R result)"
    unfolding record_result_def Let_def
    by (auto intro!: keeps_intros obs add split: option.splits)
  then show ?thesis
    unfolding route_record_result_def by (intro keeps_intros) (auto elim: scored_frame [rotated])
qed

text \<open>Every other command leaves the traces alone.\<close>

lemma keeps_traces:
  "keeps (\<lambda>w. rt_traces w = ts) (record_canary_result R agent_id skill_id trace_id score)"
  "keeps (\<lambda>w. rt_traces w = ts) (conclude_experiment E i status)"
  "keeps (\<lambda>w. rt_traces w = ts) (check_experiment E R agent_id skill_id min_samples)"
  "keeps (\<lambda>w. rt_traces w = ts) (rollback_skill_if_current E R skill_id va vb agent_id)"
  "keeps (\<lambda>w. rt_traces w = ts) (route_apply_skill_release E R c signature)"
proof -
  show "keeps (\<lambda>w. rt_traces w = ts) (record_canary_result R agent_id skill_id trace_id score)"
    unfolding record_canary_result_def add_experiment_result_def write_experiment_def by (intro keeps_intros) simp
  show conc: "keeps (\<lambda>w. rt_traces w = ts) (conclude_experiment E i status)" for i status
    unfolding conclude_experiment_def write_experiment_def by (intro keeps_intros) simp_all
  show "keeps (\<lambda>w. rt_traces w = ts) (check_experiment E R agent_id skill_id min_samples)"
    unfolding check_experiment_def by (intro keeps_intros conc)
  have "keeps (\<lambda>w. rt_traces w = ts) (restore_baseline E a b r)" for a b r
    unfolding restore_baseline_def write_skill_def conclude_def write_experiment_def by (intro keeps_intros) simp_all
  then show "keeps (\<lambda>w. rt_traces w = ts) (rollback_skill_if_current E R skill_id va vb agent_id)"
    unfolding rollback_skill_if_current_def by (auto intro!: keeps_intros split: option.splits list.splits)
  have "keeps (\<lambda>w. rt_traces w = ts) (apply_release E R c)"
    unfolding apply_release_def replayed_def lock_skills_def perform_release_def check_release_def canary_experiment_def
      promote_release_def rollback_release_def swap_status_def conclude_def store_release_def record_receipt_def write_experiment_def
    by (auto intro!: keeps_intros split: option.splits prod.splits)
  then show "keeps (\<lambda>w. rt_traces w = ts) (route_apply_skill_release E R c signature)"
    unfolding route_apply_skill_release_def verify_command_def by (intro keeps_intros) simp_all
qed

lemma runtime_command_scored:
  assumes "scored s w"
  shows "scored s (run_runtime_command E R cmd w)"
proof (cases "\<exists>result. cmd = RecordExecution result")
  case True
  then show ?thesis using keepsD [OF keeps_scored_record assms] by auto
next
  case False
  have txn: "keeps (\<lambda>v. rt_traces v = rt_traces w) m \<Longrightarrow> rt_traces (snd (runtime_transaction m w)) = rt_traces w" for m :: "(runtime, 'a) op"
    by (rule keepsD [where P = "\<lambda>v. rt_traces v = rt_traces w"]) (auto intro!: keeps_intros)
  from False have "rt_traces (run_runtime_command E R cmd w) = rt_traces w"
    using keepsD [OF keeps_traces(5) [of "rt_traces w"], of w] keepsD [OF keeps_traces(2) [of "rt_traces w"], of w]
      txn [OF keeps_traces(1)] txn [OF keeps_traces(3)] txn [OF keeps_traces(4)]
    by (cases cmd) (auto simp: add_experiment_result_def write_experiment_def)
  then show ?thesis using assms by (rule scored_frame)
qed

lemma record_result_scored:
  assumes "record_result E R result w = (Inr out, w')" and "sl_experiment_id (xr_selection result) \<noteq> None"
  shows "scored (xr_selection result) w'"
proof -
  let ?s = "xr_selection result"
  let ?prior = "find_trace ?s w"
  obtain i where i: "sl_experiment_id ?s = Some i" using assms(2) by blast
  obtain q v where ver: "resolve_skill_version R (sq_agent_id ?s) (sq_skill_id ?s) (sq_trace_id ?s) w = (q, v)" by force
  have v: "v = w" using resolve_version_state [of R "sq_agent_id ?s" "sq_skill_id ?s" "sq_trace_id ?s" w] ver by simp
  consider (known) t sc where "?prior = Some t" "et_auto_score t = Some sc" "w' = w"
    | (fresh) j c sc v2 where "?prior = None \<or> (\<exists>t. ?prior = Some t \<and> et_auto_score t = None)"
        "store_observation E result ?prior w = (Inr (), v2)"
        "add_experiment_result j c sc v2 = (Inr (), w')"
    using assms(1) i ver
    by (auto simp: record_result_def Let_def v bindS_Inr_iff split: if_splits option.splits)
  then show ?thesis
  proof cases
    case known
    then show ?thesis by (simp add: scored_def)
  next
    case fresh
    have "scored ?s v2"
    proof (cases ?prior)
      case None
      with fresh(2) show ?thesis
        by (auto simp: store_observation_def save_trace_def scored_def find_trace_def find_append Let_def split: option.splits)
    next
      case (Some t)
      have "\<exists>t'. find (trace_of ?s) (update_first (trace_of ?s) f xs) = Some t' \<and> et_auto_score t' \<noteq> None"
        if "find (trace_of ?s) xs = Some t" "\<And>t. trace_of ?s (f t) = trace_of ?s t" "\<And>t. et_auto_score (f t) \<noteq> None" for xs f
        using that by (induction xs) (auto split: if_splits)
      with fresh(2) Some show ?thesis
        by (auto simp: store_observation_def scored_def find_trace_def Let_def split: if_splits)
    qed
    with fresh(3) show ?thesis
      by (auto simp: add_experiment_result_def write_experiment_def intro: scored_frame [rotated])
  qed
qed

lemma scored_record_unchanged:
  assumes "scored (xr_selection result) w" and "sl_experiment_id (xr_selection result) \<noteq> None"
  shows "snd (record_result E R result w) = w"
proof -
  let ?s = "xr_selection result"
  from assms(1) obtain t sc where "find_trace ?s w = Some t" "et_auto_score t = Some sc" by (auto simp: scored_def)
  moreover obtain q v where "resolve_skill_version R (sq_agent_id ?s) (sq_skill_id ?s) (sq_trace_id ?s) w = (q, v)" by force
  moreover from this have "v = w"
    using resolve_version_state [of R "sq_agent_id ?s" "sq_skill_id ?s" "sq_trace_id ?s" w] by simp
  ultimately show ?thesis
    by (auto simp: record_result_def Let_def bindS_run split: option.splits sum.splits)
qed

lemma route_record_cases:
  obtains (refused) e n where "route_record_result E R result w = (Inl e, w\<lparr>rt_tick := n\<rparr>)"
  | (granted) out w' where "route_record_result E R result w = (Inr out, w')"
      "record_result E R result (w\<lparr>rt_tick := Suc (rt_tick w)\<rparr>) = (Inr out, w')"
proof (cases "execution_result_ok result")
  case False
  then have "route_record_result E R result w = (Inl (ValueError ''SkillExecutionResult''), w\<lparr>rt_tick := rt_tick w\<rparr>)"
    by (simp add: route_record_result_def)
  then show thesis by (rule refused)
next
  case True
  obtain q w1 where run: "bindS (verify_selection E R (xr_selection result)) (\<lambda>_. record_result E R result) w = (q, w1)" by force
  show thesis
  proof (cases q)
    case (Inl e)
    with run True refused show thesis by (auto simp: route_record_result_def runtime_transaction_def)
  next
    case (Inr out)
    have "w' = w\<lparr>rt_tick := Suc (rt_tick w)\<rparr>" if "verify_selection E R s w = (Inr u, w')" for s u w'
      using that by (auto simp: verify_selection_def bindS_Inr_iff guardS_def split: if_splits)
    with run Inr have "record_result E R result (w\<lparr>rt_tick := Suc (rt_tick w)\<rparr>) = (Inr out, w1)" by (auto simp: bindS_Inr_iff)
    with run Inr True granted show thesis by (auto simp: route_record_result_def runtime_transaction_def)
  qed
qed

text \<open>
  C15. The result of a trace counts once. After a result of a canary was accepted, and after any further
  commands of the runtime, recording it again, or recording any other result of the same trace, agent
  and skill, changes nothing but the clock: no score is added to the experiment a second time.\<close>

theorem execution_result_counts_once:
  assumes "route_record_result E R result w = (Inr out, w')" and "sl_experiment_id (xr_selection result) \<noteq> None"
    and "sq_trace_id (xr_selection again) = sq_trace_id (xr_selection result)"
    and "sq_agent_id (xr_selection again) = sq_agent_id (xr_selection result)"
    and "sq_skill_id (xr_selection again) = sq_skill_id (xr_selection result)"
  shows "\<exists>n. snd (route_record_result E R again (run_runtime E R cmds w')) = (run_runtime E R cmds w')\<lparr>rt_tick := n\<rparr>"
proof -
  have "scored (xr_selection result) w'"
    using assms(1)
    by (cases rule: route_record_cases [of E R result w]) (auto intro: record_result_scored [OF _ assms(2)])
  then have "scored (xr_selection result) (run_runtime E R cmds w')"
    by (rule run_runtime_invariant) (rule runtime_command_scored)
  then have sc: "scored (xr_selection again) ((run_runtime E R cmds w')\<lparr>rt_tick := n\<rparr>)" for n
    using assms(3-5) by (simp add: scored_def find_trace_def)
  show ?thesis
  proof (cases rule: route_record_cases [of E R again "run_runtime E R cmds w'"])
    case (refused e n)
    then show ?thesis by auto
  next
    case (granted o2 w2)
    then show ?thesis
    proof (cases "sl_experiment_id (xr_selection again)")
      case None
      with granted show ?thesis by (auto simp: record_result_def Let_def split: if_splits)
    next
      case (Some i)
      with scored_record_unchanged [OF sc] granted show ?thesis by (metis option.distinct(1) snd_conv)
    qed
  qed
qed

section \<open>Selections\<close>

lemma experiment_route_ok:
  "experiment_route x bucket = Inr d \<Longrightarrow>
     rd_skill_version d = (if bucket < max (xp_traffic_pct x) 0 then xp_candidate_version x else xp_control_version x)"
  by (auto simp: experiment_route_def bindE_def guardE_def Let_def required_experiment_id_def split: sum.splits if_splits)

text \<open>The version a request is routed to.\<close>

definition routed_version :: "runtime_settings \<Rightarrow> skill_selection_request \<Rightarrow> skill_release \<Rightarrow> runtime \<Rightarrow> int \<Rightarrow> bool" where
  "routed_version R rq r w v \<longleftrightarrow>
     (case (if sr_state r = ''canary'' then get_active_experiment R (sq_agent_id rq) (sq_skill_id rq) w else None) of
        Some x \<Rightarrow> v = (if canary_bucket R (sq_trace_id rq) < max (xp_traffic_pct x) 0
                      then xp_candidate_version x else xp_control_version x)
      | None \<Rightarrow> \<exists>a. get_active_skill (sq_skill_id rq) w = Some a \<and> int_of_text (sk_version a) = Some v)"

lemma version_number_text: "version_number (PStr t) = Inr v \<longleftrightarrow> int_of_text t = Some v"
  by (auto simp: version_number_def split: option.splits)

lemma resolve_version_ok:
  assumes "resolve_skill_version R agent_id skill_id trace_id w = (Inr v, w')"
  shows "w' = w" and "get_active_experiment R agent_id skill_id w = Some x \<Longrightarrow>
      v = PInt (if canary_bucket R trace_id < max (xp_traffic_pct x) 0 then xp_candidate_version x else xp_control_version x)"
    and "get_active_experiment R agent_id skill_id w = None \<Longrightarrow> get_active_skill skill_id w = Some a \<Longrightarrow> v = PStr (sk_version a)"
proof -
  show "w' = w" using resolve_version_state [of R agent_id skill_id trace_id w] assms by simp
  show "v = PInt (if canary_bucket R trace_id < max (xp_traffic_pct x) 0 then xp_candidate_version x else xp_control_version x)"
    if "get_active_experiment R agent_id skill_id w = Some x"
    using assms that by (auto simp: resolve_skill_version_def bindS_Inr_iff dest!: experiment_route_ok)
  show "v = PStr (sk_version a)" if "get_active_experiment R agent_id skill_id w = None" "get_active_skill skill_id w = Some a"
    using assms that by (auto simp: resolve_skill_version_def split: if_splits)
qed

lemma first_by_in: "first_by key xs = Some x \<Longrightarrow> x \<in> set xs"
  by (auto simp: first_by_def split: list.splits dest: arg_cong [where f = set])

lemma governing_release_in:
  "governing_release rq v w = Some r \<Longrightarrow> r \<in> set (rt_releases w) \<and> sr_company_id r = sq_company_id rq \<and>
     sr_agent_id r = sq_agent_id rq \<and> sr_skill_id r = sq_skill_id rq"
  by (auto simp: governing_release_def Let_def dest!: first_by_in)

lemma selected_version_ok:
  assumes "selected_version R rq r av w = (Inr v, w')" and "get_active_skill (sq_skill_id rq) w = Some a"
    and "int_of_text (sk_version a) = Some av"
  shows "w' = w" and "routed_version R rq r w v"
proof -
  show "w' = w" using assms(1) by (auto simp: selected_version_def bindS_Inr_iff dest: resolve_version_ok(1) split: if_splits)
  show "routed_version R rq r w v"
  proof (cases "sr_state r = ''canary''")
    case True
    then obtain val where val: "resolve_skill_version R (sq_agent_id rq) (sq_skill_id rq) (sq_trace_id rq) w = (Inr val, w')"
      "version_number val = Inr v"
      using assms(1) by (auto simp: selected_version_def bindS_Inr_iff)
    show ?thesis
    proof (cases "get_active_experiment R (sq_agent_id rq) (sq_skill_id rq) w")
      case None
      with True val(2) resolve_version_ok(3) [OF val(1) None assms(2)] assms(2) show ?thesis
        by (simp add: routed_version_def version_number_text)
    next
      case (Some x)
      with True val(2) resolve_version_ok(2) [OF val(1) Some] show ?thesis
        by (simp add: routed_version_def version_number_def)
    qed
  next
    case False
    with assms show ?thesis by (simp add: selected_version_def routed_version_def)
  qed
qed

lemma signature_ignores_itself:
  "selection_signature E R (selection_of rq r v digest config now signature) =
   selection_signature E R (selection_of rq r v digest config now [])"
  by (simp add: selection_signature_def selection_json_def selection_of_def)

lemma freeze_selection_ok:
  assumes "freeze_selection E R rq r v w = (Inr s, w')"
  obtains config now where "skill_config_hash E config = Inr (frozen_hash r v)"
    "s = selection_of rq r v (frozen_hash r v) config now (sl_signature s)" "selection_signature E R s = Inr (sl_signature s)"
proof -
  from assms obtain config signature where
    h: "canonical_hash E (PMap (skill_configuration config)) = Inr (frozen_hash r v)"
    and sig: "selection_signature E R (selection_of rq r v (frozen_hash r v) config (e_clock E (rt_tick w)) []) = Inr signature"
    and s: "s = selection_of rq r v (frozen_hash r v) config (e_clock E (rt_tick w)) signature"
    by (auto simp: freeze_selection_def bindS_Inr_iff split: option.splits if_splits)
  have "sl_signature s = signature" by (simp add: s selection_of_def)
  moreover have "selection_signature E R s = Inr signature"
    using sig by (subst s) (simp only: signature_ignores_itself [of _ _ _ _ _ _ _ _ signature])
  ultimately show thesis
    using that h s by (simp add: skill_config_hash_def skill_configuration_def)
qed

lemma resolve_selection_ok:
  assumes "resolve_selection E R rq w = (Inr (Some s), w')"
  obtains r v where "sq_company_id rq = rs_company_id R" "r \<in> set (rt_releases w)" "sr_company_id r = sq_company_id rq"
    "routed_version R rq r w v" "freeze_selection E R rq r v w = (Inr s, w')"
proof -
  from assms obtain a av r v w1 where co: "sq_company_id rq = rs_company_id R" and a: "get_active_skill (sq_skill_id rq) w = Some a"
    and av: "int_of_text (sk_version a) = Some av" and r: "governing_release rq av w = Some r"
    and v: "selected_version R rq r av w = (Inr v, w1)" and s: "freeze_selection E R rq r v w1 = (Inr s, w')"
    by (auto simp: resolve_selection_def bindS_Inr_iff version_number_text split: if_splits option.splits)
  show thesis
    by (rule that [of r v]) (use co governing_release_in [OF r] selected_version_ok [OF v a av] s in auto)
qed

text \<open>
  C30. A selection is a frozen version, routed by its trace, that verifies. When the runtime selects a
  configuration for a request, a release of the request's company froze the hash of exactly this
  configuration; during a canary the version is the candidate's just for the buckets of traces below
  the traffic share of the running experiment, and else it is the active version; and until it expires
  the selection passes the verification of its signature and of its configuration.\<close>

theorem selection_is_frozen_and_verifies:
  assumes "route_resolve_selection E R rq w = (Inr (Some s), w')"
  shows "\<exists>r \<in> set (rt_releases w). sr_company_id r = rs_company_id R \<and> sl_deployment_id s = sr_deployment_id r \<and>
      sl_configuration_hash s = frozen_hash r (sl_version s) \<and> routed_version R rq r w (sl_version s) \<and>
      canonical_hash E (PMap (sl_configuration s)) = Inr (sl_configuration_hash s) \<and>
      (\<forall>v. e_clock E (rt_tick v) < dt_utc (sl_expires_at s) \<longrightarrow>
         verify_selection E R s v = (Inr (), v\<lparr>rt_tick := Suc (rt_tick v)\<rparr>))"
proof -
  have "resolve_selection E R rq w = (Inr (Some s), w')"
    using assms by (auto simp: route_resolve_selection_def runtime_transaction_def split: prod.splits sum.splits if_splits)
  then obtain r v where co: "sq_company_id rq = rs_company_id R" "r \<in> set (rt_releases w)" "sr_company_id r = sq_company_id rq"
    and routed: "routed_version R rq r w v" and run: "freeze_selection E R rq r v w = (Inr s, w')"
    by (rule resolve_selection_ok)
  obtain config now where h: "skill_config_hash E config = Inr (frozen_hash r v)"
    and s: "s = selection_of rq r v (frozen_hash r v) config now (sl_signature s)" and sig: "selection_signature E R s = Inr (sl_signature s)"
    by (rule freeze_selection_ok [OF run])
  have fields: "sl_deployment_id s = sr_deployment_id r" "sl_configuration_hash s = frozen_hash r v" "sl_version s = v"
    "sl_configuration s = skill_configuration config" "sl_expires_at s = utc_dt (now + 3600 * 1000000)"
    by (subst s, simp add: selection_of_def)+
  have hash: "canonical_hash E (PMap (sl_configuration s)) = Inr (sl_configuration_hash s)"
    using h by (simp add: fields skill_config_hash_def skill_configuration_def)
  have "dt_offset (sl_expires_at s) \<noteq> None" by (simp add: fields utc_dt_def)
  then have "verify_selection E R s v = (Inr (), v\<lparr>rt_tick := Suc (rt_tick v)\<rparr>)" if "e_clock E (rt_tick v) < dt_utc (sl_expires_at s)" for v
    using that sig hash by (simp add: verify_selection_def guardS_def)
  then show ?thesis using co routed fields hash by (intro bexI [OF _ co(2)]) simp
qed

section \<open>A canary served and observed\<close>

definition canary_request :: "string \<Rightarrow> skill_selection_request" where
  "canary_request trace_id = \<lparr>sq_company_id = ''acme'', sq_agent_id = ''dev'', sq_skill_id = ''triage'', sq_trace_id = trace_id\<rparr>"

text \<open>Hashes of 64 digits, as the contracts ask for.\<close>

definition hash64 :: string where
  "hash64 = replicate 64 (CHR ''a'')"

definition canary_env :: env where
  "canary_env = sample_env\<lparr>e_sha256 := \<lambda>t. hash64\<rparr>"

definition canary_settings :: runtime_settings where
  "canary_settings = sample_runtime_settings\<lparr>rs_hmac := \<lambda>key t. hash64\<rparr>"

definition canary_runtime :: runtime where
  "canary_runtime = \<lparr>rt_skills = [sample_skill 1 ''active'', sample_skill 2 ''candidate''],
     rt_experiments = [sample_experiment], rt_releases = [sample_release\<lparr>sr_baseline_config_hash := hash64,
       sr_candidate_config_hash := hash64\<rparr>], rt_receipts = [], rt_traces = [], rt_tick = 0\<rparr>"

abbreviation (input) sample_resolved where
  "sample_resolved \<equiv> route_resolve_selection canary_env canary_settings (canary_request ''t1'') canary_runtime"

lemma sample_resolve:
  "case fst sample_resolved of Inr (Some s) \<Rightarrow> sl_version s = 2 \<and> sl_experiment_id s = Some ''dep-1'' | _ \<Rightarrow> False"
  by code_simp

theorem selection_is_frozen_and_verifies_witness:
  "\<exists>s w'. sample_resolved = (Inr (Some s), w') \<and> sl_version s = 2 \<and>
     (\<exists>r \<in> set (rt_releases canary_runtime). sl_configuration_hash s = frozen_hash r 2)"
proof -
  obtain s w' where run: "sample_resolved = (Inr (Some s), w')" and v: "sl_version s = 2"
    using sample_resolve by (cases sample_resolved) (auto split: sum.splits option.splits)
  from selection_is_frozen_and_verifies [OF run] v run show ?thesis by (intro exI [of _ s] exI [of _ w']) auto
qed

definition canary_result :: skill_execution_result where
  "canary_result = \<lparr>xr_selection = selection_of (canary_request ''t1'') (sample_release\<lparr>sr_candidate_config_hash := hash64\<rparr>) 2 hash64
     (sample_skill 2 ''candidate'') 0 hash64, xr_score = Fin 1, xr_success = True\<rparr>"

abbreviation (input) sample_recorded where
  "sample_recorded \<equiv> route_record_result canary_env canary_settings canary_result canary_runtime"

lemma sample_record:
  "fst sample_recorded = Inr (recorded_answer ''canary'' True)"
  by code_simp

theorem execution_result_counts_once_witness:
  "\<exists>w' n. sample_recorded = (Inr (recorded_answer ''canary'' True), w') \<and>
     snd (route_record_result canary_env canary_settings canary_result w') = w'\<lparr>rt_tick := n\<rparr>"
proof -
  obtain w' where run: "sample_recorded = (Inr (recorded_answer ''canary'' True), w')"
    using sample_record by (metis prod.collapse)
  have "sl_experiment_id (xr_selection canary_result) \<noteq> None"
    by (simp add: canary_result_def selection_of_def sample_release_def)
  from execution_result_counts_once [OF run this refl refl refl, of "[]"] run show ?thesis by (auto simp: run_runtime_def)
qed

section \<open>What the guard may bring back\<close>

text \<open>
  The guard restores the version that was promoted last among the retired ones. After a release was
  rolled back, that is the rolled-back candidate: a regression of the restored baseline makes the
  candidate live again, with no approval and no gate.
\<close>

definition regressed_runtime :: runtime where
  "regressed_runtime = \<lparr>rt_skills = [(sample_skill 1 ''active'')\<lparr>sk_promoted_at := Some 1, sk_success_rate := Fin 1\<rparr>,
       (sample_skill 2 ''retired'')\<lparr>sk_promoted_at := Some 2\<rparr>],
     rt_experiments = [], rt_releases = [sample_release\<lparr>sr_state := ''rolled_back''\<rparr>], rt_receipts = [],
     rt_traces = [\<lparr>et_trace_id = ''t1'', et_agent_id = ''dev'', et_event_type = [], et_skill_used = Some ''triage'',
       et_skill_version = Some ''1'', et_success = False, et_auto_score = None, et_started_at = 0, et_created_at = 0\<rparr>], rt_tick = 0\<rparr>"

definition sample_guard :: guard_settings where
  "sample_guard = \<lparr>gd_rollback_threshold = Fin (1 / 10), gd_min_samples = 1, gd_max_rollbacks_per_day = 3\<rparr>"

lemma guard_restores_rolled_back_candidate:
  "case guard_check sample_env sample_runtime_settings sample_guard ''dev'' ''triage'' (regressed_runtime, \<lparr>rd_counters = [], rd_keys = []\<rparr>) of
     (q, s) \<Rightarrow> q = Inr True \<and> list_ex (\<lambda>k. live k \<and> sk_version k = ''2'') (rt_skills (fst s)) \<and>
       list_ex (\<lambda>r. sr_state r = ''rolled_back'' \<and> sr_candidate_version r = 2) (rt_releases (fst s))"
  by code_simp

end
