(* ===== verification/Knowledge.thy ===== *)
theory Knowledge
  imports Evolution_Service
begin

text \<open>
  Company knowledge: pointers to artifacts with an owner, reader roles, a version and a retention time
  (\<open>domain/knowledge.py\<close>, \<open>knowledge_store.py\<close>, \<open>knowledge_use_cases.py\<close>, \<open>api_routes/knowledge.py\<close>).
  Deleting a pointer leaves a tombstone. The tables of this component and of physical retention stand
  beside the database of \<open>Control_Store\<close> in one transaction.
\<close>

section \<open>Records\<close>

record knowledge_record =
  kn_knowledge_id :: string
  kn_company_id :: string
  kn_source_artifact_id :: string
  kn_source_company_id :: string
  kn_owner_actor_id :: string
  kn_reader_role_ids :: "string list"
  kn_version :: int
  kn_retention_until :: "pydt option"
  kn_created_at :: pydt
  kn_updated_at :: pydt
  kn_deleted_at :: "pydt option"
  kn_deleted_by_actor_id :: "string option"

record knowledge_tombstone =
  kt_knowledge_id :: string
  kt_company_id :: string
  kt_actor_id :: string
  kt_version :: int
  kt_deleted_at :: pydt

text \<open>\<open>dict.fromkeys\<close>: the first occurrences in order.\<close>

definition fromkeys :: "string list \<Rightarrow> string list" where
  "fromkeys xs = foldl (\<lambda>acc x. if x \<in> set acc then acc else acc @ [x]) [] xs"

definition clean_roles :: "string list \<Rightarrow> exc + string list" where
  "clean_roles values =
     (let roles = fromkeys (filter (\<lambda>v. v \<noteq> []) (map py_strip values))
      in if length roles \<noteq> length values then Inl (ValueError ''reader roles must be non-empty unique IDs'')
         else if list_ex (\<lambda>r. 64 < length r) roles then Inl (ValueError ''reader role ID is too long'')
         else Inr roles)"

text \<open>Validation of a record: texts are trimmed, then checked.\<close>

definition knowledge_record_validate :: "knowledge_record \<Rightarrow> exc + knowledge_record" where
  "knowledge_record_validate r =
     (let r = r\<lparr>kn_knowledge_id := py_strip (kn_knowledge_id r), kn_company_id := py_strip (kn_company_id r),
            kn_source_artifact_id := py_strip (kn_source_artifact_id r),
            kn_source_company_id := py_strip (kn_source_company_id r),
            kn_owner_actor_id := py_strip (kn_owner_actor_id r),
            kn_deleted_by_actor_id := map_option py_strip (kn_deleted_by_actor_id r)\<rparr>
      in if \<not> (text_within 64 (kn_knowledge_id r) \<and> text_within 48 (kn_company_id r) \<and>
               text_within 48 (kn_source_artifact_id r) \<and> text_within 48 (kn_source_company_id r) \<and>
               text_within 128 (kn_owner_actor_id r) \<and> length (kn_reader_role_ids r) \<le> 100 \<and> 1 \<le> kn_version r \<and>
               (case kn_deleted_by_actor_id r of None \<Rightarrow> True | Some a \<Rightarrow> length a \<le> 128))
         then Inl (ValueError ''KnowledgeRecord'')
         else
           bindE (clean_roles (kn_reader_role_ids r)) (\<lambda>roles.
           if (kn_deleted_at r = None) \<noteq> (kn_deleted_by_actor_id r = None)
           then Inl (ValueError ''delete timestamp and actor must be supplied together'')
           else Inr (r\<lparr>kn_reader_role_ids := roles\<rparr>)))"

definition is_accessible :: "int \<Rightarrow> knowledge_record \<Rightarrow> bool" where
  "is_accessible now r \<longleftrightarrow>
     kn_deleted_at r = None \<and> (case kn_retention_until r of None \<Rightarrow> True | Some t \<Rightarrow> now < dt_utc t)"

definition revise_record ::
  "env \<Rightarrow> int \<Rightarrow> string list \<Rightarrow> pydt option \<Rightarrow> knowledge_record \<Rightarrow> (world, knowledge_record) op" where
  "revise_record E expected_version reader_role_ids retention_until r =
     bindS (now_utc E) (\<lambda>now.
     if \<not> is_accessible now r then raiseS (KnowledgeError ''knowledge_not_accessible'')
     else if expected_version \<noteq> kn_version r then raiseS (KnowledgeError ''knowledge_version_conflict'')
     else
       bindS (now_utc E) (\<lambda>updated.
       liftE (knowledge_record_validate (r\<lparr>kn_reader_role_ids := reader_role_ids, kn_retention_until := retention_until,
         kn_version := kn_version r + 1, kn_updated_at := utc_dt updated\<rparr>))))"

definition tombstone_record :: "env \<Rightarrow> string \<Rightarrow> knowledge_record \<Rightarrow> (world, knowledge_record) op" where
  "tombstone_record E actor_id r =
     bindS (now_utc E) (\<lambda>now.
     if \<not> is_accessible now r then raiseS (KnowledgeError ''knowledge_not_accessible'')
     else if actor_id \<noteq> kn_owner_actor_id r then raiseS (KnowledgeError ''knowledge_owner_required'')
     else
       bindS (now_utc E) (\<lambda>deleted.
       liftE (knowledge_record_validate
         (r\<lparr>kn_deleted_at := Some (utc_dt deleted), kn_deleted_by_actor_id := Some actor_id\<rparr>))))"

section \<open>Tables and transactions\<close>

record retention_receipt =
  rc_company_id :: string
  rc_dry_run :: bool
  rc_audit_cutoff :: pydt
  rc_eligible_audit_events :: nat
  rc_purged_audit_events :: nat
  rc_purged_published_outbox_events :: nat
  rc_expired_knowledge :: nat
  rc_purged_knowledge :: nat

record retention_run =
  rr_company_id :: string
  rr_request_id :: string
  rr_command_hash :: string
  rr_receipt :: retention_receipt
  rr_created_at :: int

record records_db =
  kd_knowledge :: "knowledge_record list"
  kd_tombstones :: "knowledge_tombstone list"
  kd_runs :: "retention_run list"

type_synonym records_system = "world \<times> records_db"

definition in_world :: "(world, 'a) op \<Rightarrow> (records_system, 'a) op" where
  "in_world m s = (case m (fst s) of (q, w) \<Rightarrow> (q, (w, snd s)))"

definition query_records :: "(records_db \<Rightarrow> 'a) \<Rightarrow> (records_system, 'a) op" where
  "query_records f = getS (\<lambda>s. f (snd s))"

definition write_records :: "(records_db \<Rightarrow> records_db) \<Rightarrow> (records_system, unit) op" where
  "write_records f = modifyS (\<lambda>s. (fst s, f (snd s)))"

definition records_unique :: "records_db \<Rightarrow> bool" where
  "records_unique k \<longleftrightarrow>
     distinct (map kn_knowledge_id (kd_knowledge k)) \<and> distinct (map kt_knowledge_id (kd_tombstones k)) \<and>
     distinct (map (\<lambda>r. (rr_company_id r, rr_request_id r)) (kd_runs k))"

definition records_references :: "db \<Rightarrow> records_db \<Rightarrow> bool" where
  "records_references d k \<longleftrightarrow>
     list_all (\<lambda>r. kn_company_id r \<in> set (map c_company_id (t_companies d)) \<and>
                   kn_source_artifact_id r \<in> set (map art_artifact_id (t_artifacts d))) (kd_knowledge k)"

definition flush_records :: "env \<Rightarrow> (records_system, unit) op" where
  "flush_records E =
     bindS (in_world (flush E)) (\<lambda>_.
     bindS (getS (\<lambda>s. records_unique (snd s))) (\<lambda>unique.
     bindS (guardS unique (IntegrityError ''unique'')) (\<lambda>_.
     bindS (getS (\<lambda>s. records_references (w_db (fst s)) (snd s))) (\<lambda>refs.
       guardS (e_fk E \<longrightarrow> refs) (IntegrityError ''foreign_key'')))))"

text \<open>A request: both parts commit, or both are restored.\<close>

definition records_transaction :: "(records_system, 'a) op \<Rightarrow> (records_system, 'a) op" where
  "records_transaction m s =
     (case m s of
        (Inr a, s') \<Rightarrow> (Inr a, (snd (checkpoint (fst s')), snd s'))
      | (Inl e, s') \<Rightarrow> (Inl e, (snd (rollback (fst s')), snd s)))"

section \<open>Store\<close>

definition knowledge_artifact :: "string \<Rightarrow> (records_system, artifact option) op" where
  "knowledge_artifact artifact_id =
     in_world (query_db (\<lambda>d. find (\<lambda>a. art_artifact_id a = artifact_id) (t_artifacts d)))"

definition company_has_roles :: "string \<Rightarrow> string list \<Rightarrow> (records_system, bool) op" where
  "company_has_roles company_id role_ids =
     (if role_ids = [] then retS True
      else in_world (query_db (\<lambda>d.
        set (map ar_role_id (filter (\<lambda>r. ar_company_id r = company_id \<and> ar_role_id r \<in> set role_ids) (t_roles d))) =
        set role_ids)))"

definition get_knowledge :: "string \<Rightarrow> string \<Rightarrow> (records_system, knowledge_record option) op" where
  "get_knowledge knowledge_id company_id =
     query_records (\<lambda>k. find (\<lambda>r. kn_knowledge_id r = knowledge_id \<and> kn_company_id r = company_id) (kd_knowledge k))"

definition has_tombstone :: "string \<Rightarrow> records_db \<Rightarrow> bool" where
  "has_tombstone knowledge_id k \<longleftrightarrow> knowledge_id \<in> set (map kt_knowledge_id (kd_tombstones k))"

definition create_knowledge :: "env \<Rightarrow> knowledge_record \<Rightarrow> (records_system, knowledge_record) op" where
  "create_knowledge E r =
     bindS (query_records (has_tombstone (kn_knowledge_id r))) (\<lambda>gone.
     if gone then raiseS (ValueError ''knowledge_id_permanently_deleted'')
     else
       bindS (write_records (\<lambda>k. k\<lparr>kd_knowledge := kd_knowledge k @ [r]\<rparr>)) (\<lambda>_.
       bindS (flush_records E) (\<lambda>_. retS r)))"

text \<open>The rows a guarded update matches: one, or the update is lost.\<close>

definition current_row :: "string \<Rightarrow> string \<Rightarrow> int \<Rightarrow> knowledge_record \<Rightarrow> bool" where
  "current_row knowledge_id company_id version r \<longleftrightarrow>
     kn_knowledge_id r = knowledge_id \<and> kn_company_id r = company_id \<and> kn_version r = version \<and> kn_deleted_at r = None"

definition update_current ::
  "string \<Rightarrow> string \<Rightarrow> int \<Rightarrow> (knowledge_record \<Rightarrow> knowledge_record) \<Rightarrow> (records_system, nat) op" where
  "update_current knowledge_id company_id version f =
     bindS (query_records (\<lambda>k. length (filter (current_row knowledge_id company_id version) (kd_knowledge k)))) (\<lambda>rowcount.
     bindS (write_records (\<lambda>k. k\<lparr>kd_knowledge :=
       map (\<lambda>r. if current_row knowledge_id company_id version r then f r else r) (kd_knowledge k)\<rparr>)) (\<lambda>_.
       retS rowcount))"

definition revise_knowledge :: "env \<Rightarrow> knowledge_record \<Rightarrow> int \<Rightarrow> (records_system, knowledge_record option) op" where
  "revise_knowledge E r expected_version =
     bindS (update_current (kn_knowledge_id r) (kn_company_id r) expected_version (\<lambda>row.
       row\<lparr>kn_reader_role_ids := kn_reader_role_ids r, kn_version := kn_version r,
           kn_retention_until := kn_retention_until r, kn_updated_at := kn_updated_at r,
           kn_deleted_at := kn_deleted_at r, kn_deleted_by_actor_id := kn_deleted_by_actor_id r\<rparr>)) (\<lambda>rowcount.
     if rowcount \<noteq> 1 then retS None
     else bindS (flush_records E) (\<lambda>_. get_knowledge (kn_knowledge_id r) (kn_company_id r)))"

definition store_delete_knowledge ::
  "env \<Rightarrow> knowledge_record \<Rightarrow> knowledge_tombstone \<Rightarrow> (records_system, bool) op" where
  "store_delete_knowledge E r t =
     bindS (update_current (kn_knowledge_id r) (kn_company_id r) (kn_version r) (\<lambda>row.
       row\<lparr>kn_deleted_at := kn_deleted_at r, kn_deleted_by_actor_id := kn_deleted_by_actor_id r\<rparr>)) (\<lambda>rowcount.
     if rowcount \<noteq> 1 then retS False
     else
       bindS (write_records (\<lambda>k. k\<lparr>kd_tombstones := kd_tombstones k @ [t]\<rparr>)) (\<lambda>_.
       bindS (flush_records E) (\<lambda>_. retS True)))"

section \<open>Use cases\<close>

definition knowledge_audit ::
  "env \<Rightarrow> string \<Rightarrow> string \<Rightarrow> string \<Rightarrow> string \<Rightarrow> pydict \<Rightarrow> (records_system, unit) op" where
  "knowledge_audit E company_id actor_id action knowledge_id detail =
     in_world (bindS (new_audit E (\<lambda>i now.
       \<lparr>ae_audit_event_id = i, ae_company_id = company_id, ae_action = action, ae_target_type = ''knowledge'',
        ae_target_id = knowledge_id, ae_actor_type = ''operator'', ae_actor_id = actor_id, ae_trace_id = None,
        ae_run_id = None, ae_work_item_id = None, ae_idempotency_key = None, ae_detail = detail,
        ae_created_at = utc_dt now\<rparr>)) (\<lambda>_. retS ()))"

definition published_detail :: "knowledge_record \<Rightarrow> pydict" where
  "published_detail r = [(''version'', PInt (kn_version r)), (''source_artifact_id'', PStr (kn_source_artifact_id r)),
     (''reader_role_count'', PInt (int (length (kn_reader_role_ids r))))]"

record publish_request =
  pb_company_id :: string
  pb_source_artifact_id :: string
  pb_reader_role_ids :: "string list"
  pb_retention_until :: "pydt option"

definition new_knowledge_record :: "publish_request \<Rightarrow> artifact \<Rightarrow> string \<Rightarrow> string \<Rightarrow> int \<Rightarrow> int \<Rightarrow> knowledge_record" where
  "new_knowledge_record q a actor_id u created updated =
     \<lparr>kn_knowledge_id = ''knw_'' @ u, kn_company_id = pb_company_id q, kn_source_artifact_id = pb_source_artifact_id q,
      kn_source_company_id = art_company_id a, kn_owner_actor_id = actor_id, kn_reader_role_ids = pb_reader_role_ids q,
      kn_version = 1, kn_retention_until = pb_retention_until q, kn_created_at = utc_dt created,
      kn_updated_at = utc_dt updated, kn_deleted_at = None, kn_deleted_by_actor_id = None\<rparr>"

definition roles_checked :: "publish_request \<Rightarrow> (records_system, unit) op" where
  "roles_checked q =
     bindS (company_has_roles (pb_company_id q) (pb_reader_role_ids q)) (\<lambda>ok.
       guardS ok (KnowledgeRoleNotFoundError ''reader_role_company_mismatch''))"

definition publish_new :: "env \<Rightarrow> publish_request \<Rightarrow> artifact \<Rightarrow> string \<Rightarrow> (records_system, knowledge_record) op" where
  "publish_new E q a actor_id =
     bindS (roles_checked q) (\<lambda>_.
     bindS (in_world (uuid4_hex E)) (\<lambda>u. bindS (in_world (now_utc E)) (\<lambda>created. bindS (in_world (now_utc E)) (\<lambda>updated.
     bindS (liftE (knowledge_record_validate (new_knowledge_record q a actor_id u created updated))) (\<lambda>r.
     bindS (create_knowledge E r) (\<lambda>created.
     bindS (knowledge_audit E (pb_company_id q) actor_id ''knowledge.published'' (kn_knowledge_id created)
              (published_detail created)) (\<lambda>_. retS created)))))))"

definition revision_error :: "string \<Rightarrow> exc \<Rightarrow> exc" where
  "revision_error knowledge_id e =
     (case e of
        KnowledgeError t \<Rightarrow> if t = ''knowledge_version_conflict'' then KnowledgeConflictError knowledge_id
                            else KnowledgeNotFoundError knowledge_id
      | _ \<Rightarrow> e)"

definition publish_revision ::
  "env \<Rightarrow> publish_request \<Rightarrow> artifact \<Rightarrow> string \<Rightarrow> string \<Rightarrow> int \<Rightarrow> (records_system, knowledge_record) op" where
  "publish_revision E q a actor_id knowledge_id expected_version =
     bindS (get_knowledge knowledge_id (pb_company_id q)) (\<lambda>current. case current of
         None \<Rightarrow> raiseS (KnowledgeNotFoundError knowledge_id)
       | Some r \<Rightarrow>
           if kn_owner_actor_id r \<noteq> actor_id then raiseS (KnowledgeOwnerRequiredError knowledge_id)
           else if (kn_source_artifact_id r, kn_source_company_id r) \<noteq> (pb_source_artifact_id q, art_company_id a)
           then raiseS (KnowledgeProvenanceImmutableError knowledge_id)
           else
             bindS (roles_checked q) (\<lambda>_.
             bindS (in_world (catchS (revise_record E expected_version (pb_reader_role_ids q) (pb_retention_until q) r)
                      (\<lambda>e. raiseS (revision_error knowledge_id e)))) (\<lambda>revised.
             bindS (revise_knowledge E revised expected_version) (\<lambda>saved. case saved of
                 None \<Rightarrow> raiseS (KnowledgeConflictError knowledge_id)
               | Some s \<Rightarrow>
                   bindS (knowledge_audit E (pb_company_id q) actor_id ''knowledge.revised'' (kn_knowledge_id s)
                            (published_detail s)) (\<lambda>_. retS s)))))"

definition publish_knowledge ::
  "env \<Rightarrow> publish_request \<Rightarrow> string \<Rightarrow> string option \<Rightarrow> int option \<Rightarrow> (records_system, knowledge_record) op" where
  "publish_knowledge E q actor_id knowledge_id expected_version =
     bindS (knowledge_artifact (pb_source_artifact_id q)) (\<lambda>artifact. case artifact of
         None \<Rightarrow> raiseS (KnowledgeSourceArtifactError (pb_source_artifact_id q))
       | Some a \<Rightarrow>
           if art_company_id a \<noteq> pb_company_id q then raiseS (KnowledgeSourceArtifactError (pb_source_artifact_id q))
           else if (case pb_retention_until q of None \<Rightarrow> False | Some t \<Rightarrow> dt_offset t = None)
           then raiseS (ValueError ''retention_until must include a timezone'')
           else case knowledge_id of
               None \<Rightarrow>
                 if expected_version \<notin> {None, Some 0}
                 then raiseS (KnowledgeConflictError ''new knowledge must start at version 1'')
                 else publish_new E q a actor_id
             | Some i \<Rightarrow>
                 (case expected_version of
                    None \<Rightarrow> raiseS (KnowledgeConflictError ''expected_version_required'')
                  | Some v \<Rightarrow> publish_revision E q a actor_id i v))"

definition read_knowledge ::
  "env \<Rightarrow> string \<Rightarrow> string \<Rightarrow> string \<Rightarrow> string list \<Rightarrow> string list \<Rightarrow> (records_system, knowledge_record) op" where
  "read_knowledge E knowledge_id company_id actor_id actor_role_ids actor_scopes =
     bindS (get_knowledge knowledge_id company_id) (\<lambda>row. case row of
         None \<Rightarrow> raiseS (KnowledgeNotFoundError knowledge_id)
       | Some r \<Rightarrow>
           bindS (in_world (now_utc E)) (\<lambda>now.
           if \<not> is_accessible now r then raiseS (KnowledgeNotFoundError knowledge_id)
           else if actor_id \<noteq> kn_owner_actor_id r \<and> set (kn_reader_role_ids r) \<inter> set actor_role_ids = {} \<and>
                   ''*'' \<notin> set actor_scopes
           then raiseS (KnowledgeReadForbiddenError knowledge_id)
           else retS r))"

definition deletion_error :: "string \<Rightarrow> exc \<Rightarrow> exc" where
  "deletion_error knowledge_id e =
     (case e of
        KnowledgeError t \<Rightarrow> if t = ''knowledge_owner_required'' then KnowledgeOwnerRequiredError knowledge_id
                            else KnowledgeNotFoundError knowledge_id
      | _ \<Rightarrow> e)"

definition delete_knowledge :: "env \<Rightarrow> string \<Rightarrow> string \<Rightarrow> string \<Rightarrow> (records_system, knowledge_tombstone) op" where
  "delete_knowledge E knowledge_id company_id actor_id =
     bindS (get_knowledge knowledge_id company_id) (\<lambda>row. case row of
         None \<Rightarrow> raiseS (KnowledgeNotFoundError knowledge_id)
       | Some r \<Rightarrow>
           bindS (in_world (catchS (tombstone_record E actor_id r) (\<lambda>e. raiseS (deletion_error knowledge_id e)))) (\<lambda>deleted.
           let t = \<lparr>kt_knowledge_id = kn_knowledge_id r, kt_company_id = company_id, kt_actor_id = actor_id,
                    kt_version = kn_version r, kt_deleted_at = the (kn_deleted_at deleted)\<rparr> in
           bindS (store_delete_knowledge E deleted t) (\<lambda>ok.
           if \<not> ok then raiseS (KnowledgeConflictError knowledge_id)
           else
             bindS (knowledge_audit E company_id actor_id ''knowledge.deleted'' knowledge_id
                      [(''version'', PInt (kt_version t)), (''source_artifact_id'', PStr (kn_source_artifact_id r))]) (\<lambda>_.
               retS t))))"

section \<open>Routes\<close>

text \<open>
  A request names its company (a non-empty text), which \<open>resolve_company\<close> then returns. The routes list the
  exceptions their use case can raise; the table below holds all of them.
\<close>

record reader_principal = operator_principal +
  op_role_ids :: "string list"

definition publish_request_ok :: "publish_request \<Rightarrow> bool" where
  "publish_request_ok q \<longleftrightarrow>
     text_within 48 (pb_company_id q) \<and> text_within 48 (pb_source_artifact_id q) \<and> length (pb_reader_role_ids q) \<le> 100"

definition knowledge_errors :: "(records_system, 'a) op \<Rightarrow> (records_system, 'a) op" where
  "knowledge_errors m =
     catchS m (\<lambda>e. case e of
         KnowledgeSourceArtifactError i \<Rightarrow> api_error 400 ''knowledge_source_artifact_invalid''
       | KnowledgeRoleNotFoundError i \<Rightarrow> api_error 400 ''knowledge_reader_role_invalid''
       | KnowledgeProvenanceImmutableError i \<Rightarrow> api_error 400 ''knowledge_provenance_immutable''
       | KnowledgeConflictError i \<Rightarrow> api_error 409 ''knowledge_version_conflict''
       | KnowledgeOwnerRequiredError i \<Rightarrow> api_error 403 ''knowledge_owner_required''
       | KnowledgeReadForbiddenError i \<Rightarrow> api_error 403 ''knowledge_reader_role_required''
       | KnowledgeNotFoundError i \<Rightarrow> api_error 404 ''knowledge_not_found''
       | _ \<Rightarrow> raiseS e)"

definition route_publish :: "env \<Rightarrow> reader_principal \<Rightarrow> publish_request \<Rightarrow> (records_system, knowledge_record) op" where
  "route_publish E p q =
     (if \<not> publish_request_ok q then api_error 422 ''validation_error''
      else records_transaction (
        bindS (principal_require (operator_principal.truncate p) ''knowledge:write'' (pb_company_id q)) (\<lambda>_.
          knowledge_errors (publish_knowledge E q (op_actor_id p) None None))))"

definition route_revise ::
  "env \<Rightarrow> reader_principal \<Rightarrow> string \<Rightarrow> publish_request \<Rightarrow> int \<Rightarrow> (records_system, knowledge_record) op" where
  "route_revise E p knowledge_id q expected_version =
     (if \<not> publish_request_ok q \<or> expected_version < 1 then api_error 422 ''validation_error''
      else records_transaction (
        bindS (principal_require (operator_principal.truncate p) ''knowledge:write'' (pb_company_id q)) (\<lambda>_.
          knowledge_errors (publish_knowledge E q (op_actor_id p) (Some knowledge_id) (Some expected_version)))))"

definition route_read ::
  "env \<Rightarrow> reader_principal \<Rightarrow> string \<Rightarrow> string \<Rightarrow> (records_system, knowledge_record \<times> artifact) op" where
  "route_read E p knowledge_id company_id =
     (if \<not> text_within 48 company_id then api_error 422 ''validation_error''
      else
        bindS (principal_require (operator_principal.truncate p) ''knowledge:read'' company_id) (\<lambda>_.
        bindS (knowledge_errors (read_knowledge E knowledge_id company_id (op_actor_id p) (op_role_ids p) (op_scopes p))) (\<lambda>r.
        bindS (knowledge_artifact (kn_source_artifact_id r)) (\<lambda>artifact. case artifact of
            None \<Rightarrow> api_error 404 ''knowledge_source_artifact_invalid''
          | Some a \<Rightarrow> if art_company_id a \<noteq> company_id then api_error 404 ''knowledge_source_artifact_invalid''
                      else retS (r, a)))))"

definition route_delete :: "env \<Rightarrow> reader_principal \<Rightarrow> string \<Rightarrow> string \<Rightarrow> (records_system, knowledge_tombstone) op" where
  "route_delete E p knowledge_id company_id =
     (if \<not> text_within 48 company_id then api_error 422 ''validation_error''
      else records_transaction (
        bindS (principal_require (operator_principal.truncate p) ''knowledge:delete'' company_id) (\<lambda>_.
          knowledge_errors (delete_knowledge E knowledge_id company_id (op_actor_id p)))))"

end
