(* ===== verification/Retention.thy ===== *)
theory Retention
  imports Knowledge
begin

text \<open>
  Physical retention (\<open>domain/physical_retention.py\<close>, \<open>retention_store.py\<close>, \<open>retention_use_cases.py\<close>,
  \<open>api_routes/retention.py\<close>): old audit rows that are delivered and not pinned by evidence are replaced by
  tombstones, and expired knowledge pointers are removed. A request has a key and is applied once.
\<close>

section \<open>Commands and receipts\<close>

record retention_command =
  rm_company_id :: string
  rm_batch_size :: int
  rm_dry_run :: bool

text \<open>
  The settings: whether purging is enabled, the days audit rows are kept, \<open>json.dumps(value, sort_keys=True)\<close>,
  the text of the metadata column where the database is not PostgreSQL, and how that database decides
  whether a text contains another (SQL's \<open>LIKE\<close>, which differs between databases).
\<close>

record retention_settings =
  rn_enabled :: bool
  rn_days :: int
  rn_dumps :: "pyval \<Rightarrow> string"
  rn_metadata_text :: "(pydict \<Rightarrow> string) option"
  rn_contains :: "string \<Rightarrow> string \<Rightarrow> bool"

definition retention_command_ok :: "retention_command \<Rightarrow> bool" where
  "retention_command_ok c \<longleftrightarrow> text_within 48 (rm_company_id c) \<and> 1 \<le> rm_batch_size c \<and> rm_batch_size c \<le> 1000"

definition command_digest :: "env \<Rightarrow> retention_settings \<Rightarrow> retention_command \<Rightarrow> string" where
  "command_digest E S c = e_sha256 E (rn_dumps S (PMap
     [(''company_id'', PStr (rm_company_id c)), (''batch_size'', PInt (rm_batch_size c)), (''dry_run'', PBool (rm_dry_run c))]))"

definition receipt_json :: "env \<Rightarrow> retention_receipt \<Rightarrow> pydict" where
  "receipt_json E r =
     [(''schema_version'', PStr ''1.0''), (''company_id'', PStr (rc_company_id r)), (''dry_run'', PBool (rc_dry_run r)),
      (''audit_cutoff'', PStr (e_iso E (rc_audit_cutoff r))),
      (''eligible_audit_events'', PInt (int (rc_eligible_audit_events r))),
      (''purged_audit_events'', PInt (int (rc_purged_audit_events r))),
      (''purged_published_outbox_events'', PInt (int (rc_purged_published_outbox_events r))),
      (''expired_knowledge'', PInt (int (rc_expired_knowledge r))), (''purged_knowledge'', PInt (int (rc_purged_knowledge r))),
      (''minimal_replay_receipts_retained'', PBool True)]"

section \<open>Choosing rows\<close>

definition pending_delivery :: "db \<Rightarrow> audit_event \<Rightarrow> bool" where
  "pending_delivery d a \<longleftrightarrow>
     list_ex (\<lambda>ob. ev_correlation_id (ob_event ob) = Some (ae_audit_event_id a) \<and> ob_status ob \<noteq> ''published'') (t_outbox d)"

definition pins :: "retention_settings \<Rightarrow> string \<Rightarrow> pydict \<Rightarrow> bool" where
  "pins S i metadata =
     (case rn_metadata_text S of
        None \<Rightarrow>
          (case map_of metadata ''evidence'' of
             Some (PMap evidence) \<Rightarrow>
               (case map_of evidence ''audit_events'' of Some (PList ids) \<Rightarrow> PStr i \<in> set ids | _ \<Rightarrow> False)
           | _ \<Rightarrow> False)
      | Some column_text \<Rightarrow> rn_contains S (column_text metadata) (CHR 0x22 # i @ [CHR 0x22]))"

definition pinned :: "retention_settings \<Rightarrow> string \<Rightarrow> db \<Rightarrow> audit_event \<Rightarrow> bool" where
  "pinned S company_id d a \<longleftrightarrow>
     list_ex (\<lambda>x. art_company_id x = company_id \<and> pins S (ae_audit_event_id a) (art_metadata x)) (t_artifacts d)"

definition audit_candidates :: "retention_settings \<Rightarrow> retention_command \<Rightarrow> int \<Rightarrow> db \<Rightarrow> audit_event list" where
  "audit_candidates S c cutoff d =
     take (nat (rm_batch_size c)) (sort_key (\<lambda>a. dt_utc (ae_created_at a)) (sort_key ae_audit_event_id
       (filter (\<lambda>a. ae_company_id a = rm_company_id c \<and> dt_utc (ae_created_at a) < cutoff \<and>
                    \<not> pending_delivery d a \<and> \<not> pinned S (rm_company_id c) d a) (t_audits d))))"

definition expired_knowledge :: "retention_command \<Rightarrow> int \<Rightarrow> int \<Rightarrow> records_db \<Rightarrow> knowledge_record list" where
  "expired_knowledge c now cutoff k =
     take (nat (rm_batch_size c)) (sort_key kn_knowledge_id (filter (\<lambda>r. kn_company_id r = rm_company_id c \<and>
       ((case kn_retention_until r of None \<Rightarrow> False | Some t \<Rightarrow> dt_utc t < now) \<or>
        (case kn_deleted_at r of None \<Rightarrow> False | Some t \<Rightarrow> dt_utc t < cutoff))) (kd_knowledge k)))"

section \<open>Purging\<close>

definition compact_row :: "env \<Rightarrow> retention_settings \<Rightarrow> audit_event \<Rightarrow> audit_event" where
  "compact_row E S a = a\<lparr>ae_actor_id := ''retention'',
     ae_detail := [(''retention_tombstone'', PBool True),
       (''detail_sha256'', PStr (e_sha256 E (rn_dumps S (PMap (ae_detail a)))))],
     ae_idempotency_key := None\<rparr>"

definition audit_tombstone :: "env \<Rightarrow> retention_settings \<Rightarrow> string \<Rightarrow> int \<Rightarrow> audit_event \<Rightarrow> tombstone" where
  "audit_tombstone E S company_id now a =
     \<lparr>tb_audit_event_id = ae_audit_event_id a, tb_company_id = company_id,
      tb_idempotency_hash = (if truthy_str (ae_idempotency_key a)
        then Some (idempotency_digest E company_id (str_or_empty (ae_idempotency_key a))) else None),
      tb_receipt = compact_row E S a, tb_purged_at = now\<rparr>"

definition published_for :: "audit_event \<Rightarrow> outbox_row \<Rightarrow> bool" where
  "published_for a ob \<longleftrightarrow>
     ev_correlation_id (ob_event ob) = Some (ae_audit_event_id a) \<and> ob_status ob = ''published''"

definition purge_audit ::
  "env \<Rightarrow> retention_settings \<Rightarrow> string \<Rightarrow> int \<Rightarrow> audit_event \<Rightarrow> (records_system, nat) op" where
  "purge_audit E S company_id now a =
     in_world (
       bindS (query_db (\<lambda>d. length (filter (published_for a) (t_outbox d)))) (\<lambda>rowcount.
       bindS (write_db (\<lambda>d. d\<lparr>t_tombstones := t_tombstones d @ [audit_tombstone E S company_id now a],
           t_outbox := filter (\<lambda>ob. \<not> published_for a ob) (t_outbox d),
           t_audits := filter (\<lambda>x. ae_audit_event_id x \<noteq> ae_audit_event_id a) (t_audits d)\<rparr>)) (\<lambda>_.
         retS rowcount)))"

definition purge_knowledge :: "string \<Rightarrow> int \<Rightarrow> knowledge_record \<Rightarrow> (records_system, unit) op" where
  "purge_knowledge company_id now r =
     write_records (\<lambda>k. k\<lparr>kd_tombstones :=
       (if has_tombstone (kn_knowledge_id r) k then kd_tombstones k
        else kd_tombstones k @ [\<lparr>kt_knowledge_id = kn_knowledge_id r, kt_company_id = company_id, kt_actor_id = ''retention'',
               kt_version = kn_version r, kt_deleted_at = utc_dt now\<rparr>]),
       kd_knowledge := filter (\<lambda>x. kn_knowledge_id x \<noteq> kn_knowledge_id r) (kd_knowledge k)\<rparr>)"

definition retention_receipt_of ::
  "retention_command \<Rightarrow> int \<Rightarrow> nat \<Rightarrow> nat \<Rightarrow> nat \<Rightarrow> retention_receipt" where
  "retention_receipt_of c cutoff audits outbox knowledge =
     \<lparr>rc_company_id = rm_company_id c, rc_dry_run = rm_dry_run c, rc_audit_cutoff = utc_dt cutoff,
      rc_eligible_audit_events = audits, rc_purged_audit_events = (if rm_dry_run c then 0 else audits),
      rc_purged_published_outbox_events = outbox, rc_expired_knowledge = knowledge,
      rc_purged_knowledge = (if rm_dry_run c then 0 else knowledge)\<rparr>"

text \<open>The part of the store's operation behind the check for an earlier run.\<close>

definition purge_batch ::
  "env \<Rightarrow> retention_settings \<Rightarrow> retention_command \<Rightarrow> string option \<Rightarrow> int \<Rightarrow> int \<Rightarrow> (records_system, retention_receipt) op" where
  "purge_batch E S c request_id now cutoff =
     bindS (in_world (query_db (audit_candidates S c cutoff))) (\<lambda>candidates.
     bindS (query_records (expired_knowledge c now cutoff)) (\<lambda>knowledge.
     bindS (if rm_dry_run c then retS []
            else bindS (forS candidates (purge_audit E S (rm_company_id c) now)) (\<lambda>counts.
                 bindS (forS knowledge (purge_knowledge (rm_company_id c) now)) (\<lambda>_. retS counts))) (\<lambda>counts.
     let receipt = retention_receipt_of c cutoff (length candidates) (sum_list counts) (length knowledge) in
     bindS (whenS (\<not> rm_dry_run c) (write_records (\<lambda>k. k\<lparr>kd_runs := kd_runs k @
              [\<lparr>rr_company_id = rm_company_id c, rr_request_id = str_or_empty request_id, rr_command_hash = command_digest E S c,
                rr_receipt = receipt, rr_created_at = now\<rparr>]\<rparr>))) (\<lambda>_.
     bindS (flush_records E) (\<lambda>_. retS receipt)))))"

definition find_run :: "string \<Rightarrow> string option \<Rightarrow> records_db \<Rightarrow> retention_run option" where
  "find_run company_id request_id k =
     find (\<lambda>r. rr_company_id r = company_id \<and> rr_request_id r = str_or_empty request_id) (kd_runs k)"

definition retention_apply ::
  "env \<Rightarrow> retention_settings \<Rightarrow> retention_command \<Rightarrow> string option \<Rightarrow> int \<Rightarrow> int \<Rightarrow> (records_system, retention_receipt) op" where
  "retention_apply E S c request_id now cutoff =
     bindS (in_world (query_db (\<lambda>d. rm_company_id c \<in> set (map c_company_id (t_companies d))))) (\<lambda>known.
     if \<not> known then raiseS (ValueError ''retention_company_not_found'')
     else
       bindS (query_records (find_run (rm_company_id c) request_id)) (\<lambda>previous.
       case previous of
         Some r \<Rightarrow>
           if rm_dry_run c then purge_batch E S c request_id now cutoff
           else if rr_command_hash r \<noteq> command_digest E S c then raiseS (ValueError ''retention_request_conflict'')
           else retS (rr_receipt r)
       | None \<Rightarrow> purge_batch E S c request_id now cutoff))"

definition retention_execute ::
  "env \<Rightarrow> retention_settings \<Rightarrow> retention_command \<Rightarrow> string option \<Rightarrow> (records_system, retention_receipt) op" where
  "retention_execute E S c request_id =
     (if \<not> (90 \<le> rn_days S \<and> rn_days S \<le> 3650) then raiseS (ValueError ''retention_policy_out_of_bounds'')
      else if \<not> rm_dry_run c \<and> (\<not> truthy_str request_id \<or> 48 < length (str_or_empty request_id))
      then raiseS (ValueError ''retention_idempotency_key_required'')
      else
        bindS (in_world (now_utc E)) (\<lambda>now. retention_apply E S c request_id now (now - rn_days S * 86400 * 1000000)))"

definition retention_event ::
  "env \<Rightarrow> retention_command \<Rightarrow> string \<Rightarrow> string option \<Rightarrow> retention_receipt \<Rightarrow> string \<Rightarrow> int \<Rightarrow> audit_event" where
  "retention_event E c actor_id key receipt i now =
     \<lparr>ae_audit_event_id = i, ae_company_id = rm_company_id c, ae_action = ''retention.applied'', ae_target_type = ''company'',
      ae_target_id = rm_company_id c, ae_actor_type = ''operator'', ae_actor_id = actor_id, ae_trace_id = None,
      ae_run_id = None, ae_work_item_id = None,
      ae_idempotency_key = Some (''retention:'' @ (case key of None \<Rightarrow> ''None'' | Some k \<Rightarrow> k)),
      ae_detail = receipt_json E receipt, ae_created_at = utc_dt now\<rparr>"

definition retention_audit ::
  "env \<Rightarrow> retention_command \<Rightarrow> string \<Rightarrow> string option \<Rightarrow> retention_receipt \<Rightarrow> (records_system, unit) op" where
  "retention_audit E c actor_id key receipt =
     in_world (bindS (new_audit E (retention_event E c actor_id key receipt)) (\<lambda>_. retS ()))"

definition apply_retention ::
  "env \<Rightarrow> retention_settings \<Rightarrow> operator_principal \<Rightarrow> retention_command \<Rightarrow> string option \<Rightarrow>
   (records_system, retention_receipt) op" where
  "apply_retention E S p c key =
     (if \<not> retention_command_ok c then api_error 422 ''validation_error''
      else records_transaction (
        bindS (principal_require p ''audit:retention'' (rm_company_id c)) (\<lambda>_.
        if \<not> rm_dry_run c \<and> \<not> rn_enabled S then api_error 503 ''physical_retention_disabled''
        else catchS (
          bindS (retention_execute E S c key) (\<lambda>result.
          bindS (whenS (\<not> rm_dry_run c) (retention_audit E c (op_actor_id p) key result)) (\<lambda>_. retS result)))
          (\<lambda>e. case e of ValueError t \<Rightarrow> api_error 409 t | InvalidAuditEventError t \<Rightarrow> api_error 409 t | _ \<Rightarrow> raiseS e))))"

end
