(* ===== verification/Records_Safety.thy ===== *)
theory Records_Safety
  imports Retention
begin

text \<open>
  Properties of knowledge and retention: what is deleted stays deleted whatever commands follow, a purge
  removes only old, delivered and unpinned audit rows, and neither a purge nor its repetition lets an
  idempotency key be used twice.
\<close>

section \<open>Frames\<close>

lemma in_world_run: "in_world m s = (fst (m (fst s)), (snd (m (fst s)), snd s))"
  by (simp add: in_world_def split: prod.splits)

lemma records_prims [simp]:
  "query_records f s = (Inr (f (snd s)), s)"
  "write_records u s = (Inr (), (fst s, u (snd s)))"
  "bindS (query_records f) g s = g (f (snd s)) s"
  "bindS (write_records u) h s = h () (fst s, u (snd s))"
  by (simp_all add: query_records_def write_records_def)

lemma in_world_ok: "in_world m s = (Inr a, s') \<Longrightarrow> m (fst s) = (Inr a, fst s') \<and> snd s' = snd s"
  by (auto simp: in_world_def split: prod.splits)

lemma flush_records_ok: "flush_records E s = (Inr u, s') \<Longrightarrow> s' = s \<and> records_unique (snd s)"
  by (auto simp: flush_records_def bindS_Inr_iff in_world_def flush_def guardS_run split: prod.splits if_splits)

lemma records_transaction_ok:
  assumes "records_transaction m s = (Inr a, s')"
  obtains v where "m s = (Inr a, v)" "snd s' = snd v" "w_db (fst s') = w_db (fst v)"
    "w_committed (fst s') = w_db (fst v)" "w_tick (fst s') = w_tick (fst v)" "w_operator (fst s') = w_operator (fst v)"
  using assms by (auto simp: records_transaction_def checkpoint_def split: prod.splits sum.splits)

lemma catch_ok: "catchS m h s = (Inr a, s') \<Longrightarrow> (\<And>e v. m s = (Inl e, v) \<Longrightarrow> h e v \<noteq> (Inr a, s')) \<Longrightarrow> m s = (Inr a, s')"
  by (auto simp: catchS_def split: prod.splits sum.splits)

lemma knowledge_errors_ok: "knowledge_errors m s = (Inr a, s') \<Longrightarrow> m s = (Inr a, s')"
  unfolding knowledge_errors_def by (erule catch_ok) (auto simp: api_error_def split: exc.splits)

lemma require_ok: "principal_require p act co s = (Inr u, s') \<Longrightarrow> s' = s"
  by (auto simp: principal_require_def api_error_def split: if_splits)

section \<open>Deleted knowledge\<close>

text \<open>A pointer with a tombstone is marked as deleted, if its row still exists.\<close>

definition gone_inv :: "records_db \<Rightarrow> bool" where
  "gone_inv k \<longleftrightarrow>
     distinct (map kn_knowledge_id (kd_knowledge k)) \<and>
     (\<forall>r \<in> set (kd_knowledge k). py_strip (kn_knowledge_id r) = kn_knowledge_id r \<and>
        (has_tombstone (kn_knowledge_id r) k \<longrightarrow> kn_deleted_at r \<noteq> None))"

text \<open>Steps that keep the invariant and every tombstone.\<close>

definition safe_step :: "records_db \<Rightarrow> records_db \<Rightarrow> bool" where
  "safe_step k k' \<longleftrightarrow> (gone_inv k \<longrightarrow> gone_inv k') \<and> (\<forall>i. has_tombstone i k \<longrightarrow> has_tombstone i k')"

lemma safe_step_refl: "safe_step k k"
  by (simp add: safe_step_def)

lemma safe_step_trans: "safe_step k k' \<Longrightarrow> safe_step k' k'' \<Longrightarrow> safe_step k k''"
  by (auto simp: safe_step_def)

lemma validate_keeps:
  "knowledge_record_validate r = Inr r' \<Longrightarrow>
     kn_knowledge_id r' = py_strip (kn_knowledge_id r) \<and> kn_deleted_at r' = kn_deleted_at r"
  by (auto simp: knowledge_record_validate_def Let_def split: if_splits)

lemma create_safe:
  assumes "create_knowledge E r s = (Inr r', s')" and "py_strip (kn_knowledge_id r) = kn_knowledge_id r"
  shows "safe_step (snd s) (snd s')"
proof -
  have gone: "\<not> has_tombstone (kn_knowledge_id r) (snd s)"
    and fl: "flush_records E (fst s, (snd s)\<lparr>kd_knowledge := kd_knowledge (snd s) @ [r]\<rparr>) = (Inr (), s')"
    using assms(1) by (auto simp: create_knowledge_def bindS_Inr_iff split: if_splits)
  from flush_records_ok [OF fl] gone assms(2) show ?thesis
    by (auto simp: safe_step_def gone_inv_def records_unique_def has_tombstone_def)
qed

text \<open>A guarded update touches rows that are not deleted, which have no tombstone.\<close>

definition updated_rows ::
  "string \<Rightarrow> string \<Rightarrow> int \<Rightarrow> (knowledge_record \<Rightarrow> knowledge_record) \<Rightarrow> records_db \<Rightarrow> records_db" where
  "updated_rows i co v f k = k\<lparr>kd_knowledge := map (\<lambda>r. if current_row i co v r then f r else r) (kd_knowledge k)\<rparr>"

lemma update_current_run:
  "update_current i co v f s =
     (Inr (length (filter (current_row i co v) (kd_knowledge (snd s)))), (fst s, updated_rows i co v f (snd s)))"
  by (simp add: update_current_def updated_rows_def)

lemma updated_rows_safe:
  assumes "\<And>r. kn_knowledge_id (f r) = kn_knowledge_id r"
  shows "safe_step k (updated_rows i co v f k)"
proof -
  have "map kn_knowledge_id (kd_knowledge (updated_rows i co v f k)) = map kn_knowledge_id (kd_knowledge k)"
    using assms by (simp add: updated_rows_def)
  moreover have "has_tombstone j (updated_rows i co v f k) = has_tombstone j k" for j
    by (simp add: updated_rows_def has_tombstone_def)
  moreover have "x \<in> set (kd_knowledge k) \<or> (\<exists>r \<in> set (kd_knowledge k). x = f r \<and> kn_deleted_at r = None)"
    if "x \<in> set (kd_knowledge (updated_rows i co v f k))" for x
    using that by (auto simp: updated_rows_def current_row_def split: if_splits)
  ultimately show ?thesis
    unfolding safe_step_def gone_inv_def using assms by (metis option.distinct(1))
qed

lemma revise_safe:
  assumes "revise_knowledge E r v s = (Inr q, s')"
  shows "safe_step (snd s) (snd s')"
proof -
  let ?f = "\<lambda>row. row\<lparr>kn_reader_role_ids := kn_reader_role_ids r, kn_version := kn_version r,
           kn_retention_until := kn_retention_until r, kn_updated_at := kn_updated_at r,
           kn_deleted_at := kn_deleted_at r, kn_deleted_by_actor_id := kn_deleted_by_actor_id r\<rparr>"
  have "snd s' = updated_rows (kn_knowledge_id r) (kn_company_id r) v ?f (snd s)"
    using assms by (auto simp: revise_knowledge_def bindS_Inr_iff update_current_run get_knowledge_def
        dest!: flush_records_ok split: if_splits)
  then show ?thesis using updated_rows_safe [of ?f] by simp
qed

lemma tombstone_record_ok:
  assumes "tombstone_record E who r w = (Inr r', w')"
  shows "kn_deleted_at r = None" "kn_deleted_at r' \<noteq> None" "kn_knowledge_id r' = py_strip (kn_knowledge_id r)"
  using assms by (auto simp: tombstone_record_def is_accessible_def dest!: validate_keeps split: if_splits)

text \<open>Rows of a pointer that is deleted, when a tombstone is added for it.\<close>

lemma delete_safe:
  assumes "store_delete_knowledge E r t s = (Inr True, s')" and "kn_deleted_at r \<noteq> None"
    and "kt_knowledge_id t = kn_knowledge_id r"
  shows "safe_step (snd s) (snd s')" and "has_tombstone (kn_knowledge_id r) (snd s')"
proof -
  let ?f = "\<lambda>row. row\<lparr>kn_deleted_at := kn_deleted_at r, kn_deleted_by_actor_id := kn_deleted_by_actor_id r\<rparr>"
  let ?u = "updated_rows (kn_knowledge_id r) (kn_company_id r) (kn_version r) ?f (snd s)"
  have one: "length (filter (current_row (kn_knowledge_id r) (kn_company_id r) (kn_version r)) (kd_knowledge (snd s))) = 1"
    and k': "snd s' = ?u\<lparr>kd_tombstones := kd_tombstones ?u @ [t]\<rparr>"
    using assms(1) by (auto simp: store_delete_knowledge_def bindS_Inr_iff update_current_run
        dest!: flush_records_ok split: if_splits)
  obtain row where row: "row \<in> set (kd_knowledge (snd s))" "current_row (kn_knowledge_id r) (kn_company_id r) (kn_version r) row"
    using one by (metis filter_empty_conv list.size(3) zero_neq_one)
  have u: "safe_step (snd s) ?u" by (rule updated_rows_safe) simp
  have "kn_deleted_at x \<noteq> None"
    if inv: "gone_inv (snd s)" and x: "x \<in> set (kd_knowledge ?u)" "kn_knowledge_id x = kn_knowledge_id r" for x
  proof -
    obtain y where y: "y \<in> set (kd_knowledge (snd s))" "kn_knowledge_id y = kn_knowledge_id r"
      "x = (if current_row (kn_knowledge_id r) (kn_company_id r) (kn_version r) y then ?f y else y)"
      using x by (auto simp: updated_rows_def current_row_def split: if_splits)
    have "y = row"
      using inv y(1,2) row by (auto simp: gone_inv_def current_row_def distinct_map inj_on_def)
    then show ?thesis using y(3) row(2) assms(2) by simp
  qed
  then have marked: "kn_deleted_at x \<noteq> None"
    if "gone_inv (snd s)" "x \<in> set (kd_knowledge ?u)" "kn_knowledge_id x = kt_knowledge_id t" for x
    using that assms(3) by metis
  have tomb: "has_tombstone i (snd s') \<longleftrightarrow> has_tombstone i ?u \<or> i = kt_knowledge_id t" for i
    by (auto simp: k' has_tombstone_def)
  have rows: "kd_knowledge (snd s') = kd_knowledge ?u" by (simp add: k')
  show "safe_step (snd s) (snd s')"
    using u marked unfolding safe_step_def gone_inv_def [of "snd s'"] gone_inv_def [of ?u] tomb rows by metis
  show "has_tombstone (kn_knowledge_id r) (snd s')" using assms(3) by (simp add: k' has_tombstone_def)
qed

lemma audit_safe: "knowledge_audit E co who act i det s = (Inr u, s') \<Longrightarrow> snd s' = snd s"
  by (auto simp: knowledge_audit_def dest: in_world_ok)

lemma readonly_records:
  "knowledge_artifact i s = (Inr a, s') \<Longrightarrow> s' = s"
  "get_knowledge i co s = (Inr row, s') \<Longrightarrow> s' = s"
  "roles_checked q s = (Inr u, s') \<Longrightarrow> s' = s"
  by (auto simp: knowledge_artifact_def get_knowledge_def roles_checked_def company_has_roles_def in_world_def
      bindS_Inr_iff guardS_run split: prod.splits if_splits)

lemma publish_new_safe:
  assumes "publish_new E q a who s = (Inr r, s')"
  shows "safe_step (snd s) (snd s')"
proof -
  obtain r0 r1 v1 v2 where "knowledge_record_validate r0 = Inr r1" "snd v1 = snd s"
    and create: "create_knowledge E r1 v1 = (Inr r, v2)" "snd s' = snd v2"
    using assms by (auto simp: publish_new_def bindS_Inr_iff dest!: readonly_records(3) audit_safe in_world_ok)
  then show ?thesis using create_safe [OF create(1)] by (auto dest: validate_keeps)
qed

lemma publish_revision_safe:
  assumes "publish_revision E q a who i v s = (Inr r, s')"
  shows "safe_step (snd s) (snd s')"
proof -
  obtain r0 where r0: "get_knowledge i (pb_company_id q) s = (Inr (Some r0), s)"
    using assms by (auto simp: publish_revision_def get_knowledge_def split: option.splits)
  obtain r1 v1 q' v2 where "snd v1 = snd s" and revise: "revise_knowledge E r1 v v1 = (Inr (Some q'), v2)" "snd s' = snd v2"
    using assms r0
    by (auto simp: publish_revision_def bindS_run [of "get_knowledge _ _"] bindS_Inr_iff [of "roles_checked _"]
          bindS_Inr_iff [of "in_world _"] bindS_Inr_iff [of "revise_knowledge _ _ _"] bindS_Inr_iff [of "knowledge_audit _ _ _ _ _ _"] dest!: readonly_records(3) audit_safe in_world_ok split: if_splits option.splits)
  then show ?thesis using revise_safe [OF revise(1)] by simp
qed

lemma publish_safe:
  assumes "publish_knowledge E q who i v s = (Inr r, s')"
  shows "safe_step (snd s) (snd s')"
  using assms by (auto simp: publish_knowledge_def bindS_Inr_iff dest!: readonly_records(1) publish_new_safe
      publish_revision_safe split: option.splits if_splits)

lemma delete_knowledge_safe:
  assumes "delete_knowledge E i co who s = (Inr t, s')" and "gone_inv (snd s)"
  shows "safe_step (snd s) (snd s')" and "has_tombstone i (snd s')"
proof -
  obtain r deleted v1 v2 t where r: "find (\<lambda>r. kn_knowledge_id r = i \<and> kn_company_id r = co) (kd_knowledge (snd s)) = Some r"
    and v1: "snd v1 = snd s" and del: "tombstone_record E who r (fst s) = (Inr deleted, fst v1)"
    and st: "store_delete_knowledge E deleted t v1 = (Inr True, v2)" "kt_knowledge_id t = kn_knowledge_id r" "snd s' = snd v2"
    using assms(1) by (force simp: delete_knowledge_def get_knowledge_def bindS_Inr_iff Let_def
        dest!: audit_safe in_world_ok catch_ok split: option.splits if_splits)
  have "kn_knowledge_id r = i" "r \<in> set (kd_knowledge (snd s))" using r by (auto simp: find_Some_iff)
  then have "kn_knowledge_id deleted = i" using assms(2) tombstone_record_ok(3) [OF del] by (auto simp: gone_inv_def)
  then show "safe_step (snd s) (snd s')" "has_tombstone i (snd s')"
    using delete_safe [OF st(1) tombstone_record_ok(2) [OF del]] st(2,3) v1 \<open>kn_knowledge_id r = i\<close> by simp_all
qed

lemma purge_knowledge_safe: "purge_knowledge co now r s = (Inr u, s') \<Longrightarrow> safe_step (snd s) (snd s')"
  by (auto simp: purge_knowledge_def safe_step_def gone_inv_def has_tombstone_def distinct_map inj_on_def split: if_splits)

lemma purge_knowledge_all_safe:
  "forS rs (purge_knowledge co now) s = (Inr u, s') \<Longrightarrow>
     safe_step (snd s) (snd s') \<and> fst s' = fst s \<and> kd_runs (snd s') = kd_runs (snd s)"
proof (induction rs arbitrary: s u)
  case (Cons r rs)
  then obtain v q where v: "purge_knowledge co now r s = (Inr (), v)" "forS rs (purge_knowledge co now) v = (Inr q, s')"
    by (auto simp: bindS_Inr_iff)
  then have "fst v = fst s \<and> kd_runs (snd v) = kd_runs (snd s)" by (auto simp: purge_knowledge_def)
  then show ?case using Cons.IH [OF v(2)] purge_knowledge_safe [OF v(1)] safe_step_trans by auto
qed (simp add: safe_step_refl)

section \<open>What a purge does\<close>

definition purged :: "env \<Rightarrow> retention_settings \<Rightarrow> string \<Rightarrow> int \<Rightarrow> audit_event list \<Rightarrow> db \<Rightarrow> db" where
  "purged E S co now cs d = d\<lparr>t_tombstones := t_tombstones d @ map (audit_tombstone E S co now) cs,
     t_outbox := filter (\<lambda>ob. \<forall>a \<in> set cs. \<not> published_for a ob) (t_outbox d),
     t_audits := filter (\<lambda>x. \<forall>a \<in> set cs. ae_audit_event_id x \<noteq> ae_audit_event_id a) (t_audits d)\<rparr>"

lemma purge_audits_run:
  "\<exists>counts. forS cs (purge_audit E S co now) s =
     (Inr counts, ((fst s)\<lparr>w_db := purged E S co now cs (w_db (fst s))\<rparr>, snd s))"
proof (induction cs arbitrary: s)
  case Nil
  show ?case by (cases s) (simp add: purged_def)
next
  case (Cons a cs)
  let ?v = "((fst s)\<lparr>w_db := purged E S co now [a] (w_db (fst s))\<rparr>, snd s)"
  have a: "purge_audit E S co now a s = (Inr (length (filter (published_for a) (t_outbox (w_db (fst s))))), ?v)"
    by (simp add: purge_audit_def in_world_run purged_def)
  obtain counts where "forS cs (purge_audit E S co now) ?v =
      (Inr counts, ((fst ?v)\<lparr>w_db := purged E S co now cs (w_db (fst ?v))\<rparr>, snd ?v))"
    using Cons.IH by blast
  moreover have "purged E S co now cs (purged E S co now [a] d) = purged E S co now (a # cs) d" for d
    by (simp add: purged_def conj_commute)
  ultimately show ?case using a by (simp add: bindS_run)
qed

lemma purge_batch_ok:
  assumes "purge_batch E S c rid now cutoff s = (Inr receipt, s')"
  shows "fst s' = (if rm_dry_run c then fst s
      else (fst s)\<lparr>w_db := purged E S (rm_company_id c) now (audit_candidates S c cutoff (w_db (fst s))) (w_db (fst s))\<rparr>)"
    and "safe_step (snd s) (snd s')" and "rm_dry_run c \<Longrightarrow> snd s' = snd s"
    and "\<not> rm_dry_run c \<Longrightarrow> \<exists>r. kd_runs (snd s') = kd_runs (snd s) @ [r] \<and> rr_company_id r = rm_company_id c \<and>
      rr_request_id r = str_or_empty rid \<and> rr_command_hash r = command_digest E S c \<and> rr_receipt r = receipt"
proof -
  let ?cs = "audit_candidates S c cutoff (w_db (fst s))"
  obtain counts where purge: "forS ?cs (purge_audit E S (rm_company_id c) now) s =
      (Inr counts, ((fst s)\<lparr>w_db := purged E S (rm_company_id c) now ?cs (w_db (fst s))\<rparr>, snd s))"
    using purge_audits_run by blast
  have safe: "safe_step k (k\<lparr>kd_runs := x\<rparr>)" for k x
    by (simp add: safe_step_def gone_inv_def has_tombstone_def)
  have "s' = s" if "rm_dry_run c"
    using assms that by (auto simp: purge_batch_def in_world_run bindS_Inr_iff Let_def dest!: flush_records_ok)
  moreover have "\<exists>k r. snd s' = k\<lparr>kd_runs := kd_runs (snd s) @ [r]\<rparr> \<and> safe_step (snd s) k \<and>
      fst s' = (fst s)\<lparr>w_db := purged E S (rm_company_id c) now ?cs (w_db (fst s))\<rparr> \<and> rr_company_id r = rm_company_id c \<and>
      rr_request_id r = str_or_empty rid \<and> rr_command_hash r = command_digest E S c \<and> rr_receipt r = receipt"
    if wet: "\<not> rm_dry_run c"
  proof -
    let ?w = "(fst s)\<lparr>w_db := purged E S (rm_company_id c) now ?cs (w_db (fst s))\<rparr>"
    let ?r = "\<lparr>rr_company_id = rm_company_id c, rr_request_id = str_or_empty rid, rr_command_hash = command_digest E S c,
      rr_receipt = receipt, rr_created_at = now\<rparr>"
    obtain u v where kn: "forS (expired_knowledge c now cutoff (snd s)) (purge_knowledge (rm_company_id c) now) (?w, snd s) = (Inr u, v)"
      and s': "s' = (fst v, (snd v)\<lparr>kd_runs := kd_runs (snd v) @ [?r]\<rparr>)"
      using assms purge by (auto simp: purge_batch_def if_not_P [OF wet] wet in_world_run bindS_Inr_iff Let_def dest!: flush_records_ok)
    show ?thesis
      using purge_knowledge_all_safe [OF kn] by (intro exI [of _ "snd v"] exI [of _ ?r]) (simp add: s')
  qed
  ultimately show "fst s' = (if rm_dry_run c then fst s
      else (fst s)\<lparr>w_db := purged E S (rm_company_id c) now ?cs (w_db (fst s))\<rparr>)"
    "rm_dry_run c \<Longrightarrow> snd s' = snd s" "safe_step (snd s) (snd s')"
    "\<not> rm_dry_run c \<Longrightarrow> \<exists>r. kd_runs (snd s') = kd_runs (snd s) @ [r] \<and> rr_company_id r = rm_company_id c \<and>
      rr_request_id r = str_or_empty rid \<and> rr_command_hash r = command_digest E S c \<and> rr_receipt r = receipt"
    using safe_step_refl safe_step_trans [OF _ safe] by (cases "rm_dry_run c"; force)+
qed

text \<open>Appending an audit row leaves the tombstones alone and only adds to the rows.\<close>

lemma new_audit_frame:
  assumes "new_audit E mk w = (q, w')"
  shows "t_tombstones (w_db w') = t_tombstones (w_db w)" and "\<exists>ys. t_audits (w_db w') = t_audits (w_db w) @ ys"
    and "t_companies (w_db w') = t_companies (w_db w)"
  using keepsD_run [OF keeps_new_audit(1) [where P = "\<lambda>d. t_tombstones d = t_tombstones (w_db w) \<and> t_companies d = t_companies (w_db w)"] _ assms]
    keepsD_run [OF keeps_new_audit(2) [where xs = "t_audits (w_db w)"] _ assms] by auto

lemma retention_apply_ok:
  assumes "retention_apply E S c rid now cutoff s = (Inr receipt, s')"
  obtains (replay) r where "\<not> rm_dry_run c" "s' = s" "find_run (rm_company_id c) rid (snd s) = Some r"
      "rr_command_hash r = command_digest E S c" "receipt = rr_receipt r"
    | (batch) "purge_batch E S c rid now cutoff s = (Inr receipt, s')"
      "rm_dry_run c \<or> find_run (rm_company_id c) rid (snd s) = None"
  using assms by (auto simp: retention_apply_def in_world_run bindS_run split: option.splits if_splits)

lemma apply_retention_ok:
  assumes "apply_retention E S p c key s = (Inr receipt, s')"
  obtains v u where "retention_apply E S c key (e_clock E (w_tick (fst s))) (e_clock E (w_tick (fst s)) - rn_days S * 86400 * 1000000)
        ((fst s)\<lparr>w_tick := Suc (w_tick (fst s))\<rparr>, snd s) = (Inr receipt, v)"
    and "if rm_dry_run c then u = v else retention_audit E c (op_actor_id p) key receipt v = (Inr (), u)"
    and "snd s' = snd u" "w_db (fst s') = w_db (fst u)" "w_operator (fst s') = w_operator (fst u)"
    and "90 \<le> rn_days S" "rm_dry_run c \<or> rn_enabled S" "retention_command_ok c" "rn_days S \<le> 3650"
    and "rm_dry_run c \<or> truthy_str key \<and> length (str_or_empty key) \<le> 48"
    and "\<And>x :: records_system. principal_require p ''audit:retention'' (rm_company_id c) x = (Inr (), x)"
proof -
  let ?m = "bindS (retention_execute E S c key) (\<lambda>result.
          bindS (whenS (\<not> rm_dry_run c) (retention_audit E c (op_actor_id p) key result)) (\<lambda>_. retS result))"
  have ok: "retention_command_ok c" using assms by (auto simp: apply_retention_def api_error_def split: if_splits)
  obtain u where u: "bindS (principal_require p ''audit:retention'' (rm_company_id c)) (\<lambda>_.
        if \<not> rm_dry_run c \<and> \<not> rn_enabled S then api_error 503 ''physical_retention_disabled''
        else catchS ?m (\<lambda>e. case e of ValueError t \<Rightarrow> api_error 409 t | InvalidAuditEventError t \<Rightarrow> api_error 409 t | _ \<Rightarrow> raiseS e)) s
      = (Inr receipt, u)" "snd s' = snd u" "w_db (fst s') = w_db (fst u)" "w_operator (fst s') = w_operator (fst u)"
    using assms ok unfolding apply_retention_def by (auto elim!: records_transaction_ok)
  have enabled: "rm_dry_run c \<or> rn_enabled S"
    using u(1) by (auto simp: bindS_Inr_iff api_error_def split: if_splits)
  have "?m s = (Inr receipt, u)"
    using u(1) enabled by (auto simp: bindS_Inr_iff [of "principal_require _ _ _"] api_error_def dest!: require_ok intro: catch_ok
        split: if_splits exc.splits)
  moreover have "principal_require p ''audit:retention'' (rm_company_id c) x = (Inr (), x)" for x :: records_system
    using u(1) by (auto simp: bindS_Inr_iff [of "principal_require _ _ _"] principal_require_def api_error_def split: if_splits)
  ultimately show thesis
    using that ok enabled u(2-4)
    by (cases "rm_dry_run c") (auto simp: retention_execute_def in_world_run bindS_Inr_iff split: if_splits)
qed

lemma retention_audit_frame:
  assumes "retention_audit E c who key receipt v = (Inr x, u)"
  shows "snd u = snd v" "t_tombstones (w_db (fst u)) = t_tombstones (w_db (fst v))"
    "\<exists>ys. t_audits (w_db (fst u)) = t_audits (w_db (fst v)) @ ys"
    "t_companies (w_db (fst u)) = t_companies (w_db (fst v))"
  using assms by (auto simp: retention_audit_def bindS_Inr_iff dest!: in_world_ok dest: new_audit_frame)

section \<open>Sequences of commands\<close>

datatype records_command =
    PublishCommand reader_principal publish_request
  | ReviseCommand reader_principal string publish_request int
  | DeleteCommand reader_principal string string
  | RetainCommand operator_principal retention_command "string option"

fun run_records_command :: "env \<Rightarrow> retention_settings \<Rightarrow> records_command \<Rightarrow> records_system \<Rightarrow> records_system" where
  "run_records_command E S (PublishCommand p q) s = snd (route_publish E p q s)"
| "run_records_command E S (ReviseCommand p i q v) s = snd (route_revise E p i q v s)"
| "run_records_command E S (DeleteCommand p i co) s = snd (route_delete E p i co s)"
| "run_records_command E S (RetainCommand p c key) s = snd (apply_retention E S p c key s)"

definition run_records :: "env \<Rightarrow> retention_settings \<Rightarrow> records_command list \<Rightarrow> records_system \<Rightarrow> records_system" where
  "run_records E S cmds s = fold (run_records_command E S) cmds s"

lemma transaction_safe:
  assumes "\<And>a v. m s = (Inr a, v) \<Longrightarrow> safe_step (snd s) (snd v)"
  shows "safe_step (snd s) (snd (snd (records_transaction m s)))"
  using assms safe_step_refl by (auto simp: records_transaction_def split: prod.splits sum.splits)

lemma error_safe: "safe_step (snd s) (snd (snd (api_error st det s)))"
  by (simp add: api_error_def safe_step_refl)

lemma retention_safe:
  assumes "apply_retention E S p c key s = (q, s')"
  shows "safe_step (snd s) (snd s')"
proof (cases q)
  case (Inr receipt)
  obtain v u where "retention_apply E S c key (e_clock E (w_tick (fst s))) (e_clock E (w_tick (fst s)) - rn_days S * 86400 * 1000000)
      ((fst s)\<lparr>w_tick := Suc (w_tick (fst s))\<rparr>, snd s) = (Inr receipt, v)"
    "if rm_dry_run c then u = v else retention_audit E c (op_actor_id p) key receipt v = (Inr (), u)" "snd s' = snd u"
    using apply_retention_ok [OF assms [unfolded Inr]] by metis
  then show ?thesis
    using safe_step_refl
    by (auto elim!: retention_apply_ok dest!: purge_batch_ok(2) retention_audit_frame(1) split: if_splits)
next
  case (Inl e)
  then show ?thesis
    using assms safe_step_refl by (auto simp: apply_retention_def api_error_def records_transaction_def
        split: if_splits prod.splits sum.splits)
qed

lemma command_safe:
  assumes "gone_inv (snd s)"
  shows "safe_step (snd s) (snd (run_records_command E S cmd s))"
proof (cases cmd)
  case (PublishCommand p q)
  then show ?thesis
    by (auto simp: route_publish_def bindS_Inr_iff error_safe dest!: require_ok knowledge_errors_ok publish_safe
        intro!: transaction_safe)
next
  case (ReviseCommand p i q v)
  then show ?thesis
    by (auto simp: route_revise_def bindS_Inr_iff error_safe dest!: require_ok knowledge_errors_ok publish_safe
        intro!: transaction_safe)
next
  case (DeleteCommand p i co)
  then show ?thesis
    using delete_knowledge_safe(1) [OF _ assms] by (auto simp: route_delete_def bindS_Inr_iff error_safe
        dest!: require_ok knowledge_errors_ok intro!: transaction_safe)
next
  case (RetainCommand p c key)
  then show ?thesis by (cases "apply_retention E S p c key s") (auto dest: retention_safe)
qed

lemma commands_safe:
  assumes "gone_inv (snd s)"
  shows "gone_inv (snd (run_records E S cmds s))"
    and "has_tombstone i (snd s) \<Longrightarrow> has_tombstone i (snd (run_records E S cmds s))"
proof -
  have "gone_inv (snd (run_records E S cmds s)) \<and>
    (has_tombstone i (snd s) \<longrightarrow> has_tombstone i (snd (run_records E S cmds s)))"
    using assms
  proof (induction cmds arbitrary: s)
    case (Cons cmd cmds)
    have "safe_step (snd s) (snd (run_records_command E S cmd s))" using Cons.prems by (rule command_safe)
    then show ?case using Cons.IH [of "run_records_command E S cmd s"] Cons.prems
      by (auto simp: run_records_def safe_step_def)
  qed (simp add: run_records_def)
  then show "gone_inv (snd (run_records E S cmds s))"
    "has_tombstone i (snd s) \<Longrightarrow> has_tombstone i (snd (run_records E S cmds s))" by simp_all
qed

lemma read_ok:
  assumes "route_read E p i co s = (Inr (r, a), s')"
  shows "find (\<lambda>r. kn_knowledge_id r = i \<and> kn_company_id r = co) (kd_knowledge (snd s)) = Some r \<and>
    is_accessible (e_clock E (w_tick (fst s))) r"
proof -
  have "\<exists>v. read_knowledge E i co (op_actor_id p) (op_role_ids p) (op_scopes p) s = (Inr r, v)"
    using assms by (fastforce simp: route_read_def api_error_def bindS_Inr_iff dest!: require_ok knowledge_errors_ok
        split: if_splits option.splits)
  then show ?thesis
    by (auto simp: read_knowledge_def get_knowledge_def in_world_run bindS_run split: option.splits if_splits)
qed

text \<open>
  C16. Deleted knowledge stays deleted: starting with no knowledge, after any commands, a successful
  deletion and any further publications, revisions, deletions and retention runs, no one can read the
  pointer, whatever company, role or scope the request carries.
\<close>

theorem deleted_knowledge_stays_deleted:
  assumes "kd_knowledge (snd s0) = []"
    and "route_delete E p i co (run_records E S earlier s0) = (Inr t, s)"
  shows "\<exists>e v. route_read E reader i company (run_records E S later s) = (Inl e, v)"
proof -
  have inv: "gone_inv (snd (run_records E S earlier s0))"
    using assms(1) by (intro commands_safe(1)) (simp add: gone_inv_def)
  obtain v where "delete_knowledge E i co (op_actor_id p) (run_records E S earlier s0) = (Inr t, v)" "snd s = snd v"
    using assms(2) by (auto simp: route_delete_def api_error_def bindS_Inr_iff dest!: require_ok knowledge_errors_ok
        elim!: records_transaction_ok split: if_splits)
  with delete_knowledge_safe [OF _ inv] inv have "gone_inv (snd s)" "has_tombstone i (snd s)"
    by (auto simp: safe_step_def)
  then have gone: "gone_inv (snd (run_records E S later s))" "has_tombstone i (snd (run_records E S later s))"
    by (simp_all add: commands_safe)
  have "False" if "route_read E reader i company (run_records E S later s) = (Inr x, v)" for x v
    using read_ok [of E reader i company "run_records E S later s" "fst x" "snd x" v] that gone
    by (auto simp: find_Some_iff gone_inv_def is_accessible_def dest!: nth_mem)
  then show ?thesis by (metis prod.exhaust sum.exhaust)
qed

section \<open>Audit rows under retention\<close>

lemma candidate_row:
  "a \<in> set (audit_candidates S c cutoff d) \<Longrightarrow>
     a \<in> set (t_audits d) \<and> ae_company_id a = rm_company_id c \<and> dt_utc (ae_created_at a) < cutoff \<and>
     \<not> pending_delivery d a \<and> \<not> pinned S (rm_company_id c) d a"
  by (auto simp: audit_candidates_def dest!: in_set_takeD)

lemma purged_or_kept:
  assumes "unique_ok d" and "a \<in> set (t_audits d)"
  shows "a \<in> set (t_audits (purged E S (rm_company_id c) now (audit_candidates S c cutoff d) d)) \<or>
    a \<in> set (audit_candidates S c cutoff d)"
proof (cases "\<exists>x \<in> set (audit_candidates S c cutoff d). ae_audit_event_id x = ae_audit_event_id a")
  case True
  then obtain x where x: "x \<in> set (audit_candidates S c cutoff d)" "ae_audit_event_id x = ae_audit_event_id a" by blast
  have "inj_on ae_audit_event_id (set (t_audits d))" using assms(1) by (simp add: unique_ok_def distinct_map)
  then have "x = a" using candidate_row [OF x(1)] x(2) assms(2) by (simp add: inj_on_def)
  then show ?thesis using x(1) by simp
next
  case False
  then show ?thesis using assms(2) by (auto simp: purged_def)
qed

lemma retention_outcome:
  assumes "apply_retention E S p c key s = (Inr receipt, s')" and "unique_ok (w_db (fst s))"
    and "a \<in> set (t_audits (w_db (fst s)))"
  shows "a \<in> set (t_audits (w_db (fst s'))) \<or>
    rn_enabled S \<and> \<not> rm_dry_run c \<and> 90 \<le> rn_days S \<and>
    a \<in> set (audit_candidates S c (e_clock E (w_tick (fst s)) - rn_days S * 86400 * 1000000) (w_db (fst s))) \<and>
    audit_tombstone E S (rm_company_id c) (e_clock E (w_tick (fst s))) a \<in> set (t_tombstones (w_db (fst s')))"
proof -
  let ?now = "e_clock E (w_tick (fst s))"
  let ?cutoff = "?now - rn_days S * 86400 * 1000000"
  obtain v u where ap: "retention_apply E S c key ?now ?cutoff ((fst s)\<lparr>w_tick := Suc (w_tick (fst s))\<rparr>, snd s) = (Inr receipt, v)"
    and au: "if rm_dry_run c then u = v else retention_audit E c (op_actor_id p) key receipt v = (Inr (), u)"
    and w: "w_db (fst s') = w_db (fst u)" and on: "90 \<le> rn_days S" "rm_dry_run c \<or> rn_enabled S"
    using apply_retention_ok [OF assms(1)] by metis
  have tail: "set (t_audits (w_db (fst v))) \<subseteq> set (t_audits (w_db (fst s')))"
    "t_tombstones (w_db (fst s')) = t_tombstones (w_db (fst v))"
    using au w by (auto split: if_splits dest: retention_audit_frame)
  show ?thesis
    using ap
  proof (cases rule: retention_apply_ok)
    case batch
    note v = purge_batch_ok(1) [OF batch(1)]
    show ?thesis
      using v tail on assms(3) purged_or_kept [OF assms(2,3), of E S c ?now ?cutoff]
      by (cases "rm_dry_run c") (auto simp: purged_def)
  qed (use tail assms(3) in auto)
qed

text \<open>
  C17. A purge removes only settled rows: an audit row that is gone after a retention request belonged to its
  company, was at least ninety days old, was delivered to the event bus or never queued for it, and
  is not listed as evidence of an artifact; it left a tombstone with its identifier, the digest of its
  idempotency key and the hash of its detail. A dry run removes nothing.
\<close>

theorem purge_removes_only_settled_rows:
  assumes "apply_retention E S p c key s = (Inr receipt, s')" and "unique_ok (w_db (fst s))"
    and "a \<in> set (t_audits (w_db (fst s)))" and "a \<notin> set (t_audits (w_db (fst s')))"
  shows "rn_enabled S \<and> \<not> rm_dry_run c \<and> ae_company_id a = rm_company_id c \<and>
    dt_utc (ae_created_at a) + 90 * 86400 * 1000000 < e_clock E (w_tick (fst s)) \<and>
    \<not> pending_delivery (w_db (fst s)) a \<and> \<not> pinned S (rm_company_id c) (w_db (fst s)) a \<and>
    audit_tombstone E S (rm_company_id c) (e_clock E (w_tick (fst s))) a \<in> set (t_tombstones (w_db (fst s')))"
  using retention_outcome [OF assms(1-3)] assms(4) by (auto dest!: candidate_row)

text \<open>What an append sees under its company and idempotency key: a tombstone first, then a row.\<close>

definition known_key :: "env \<Rightarrow> string \<Rightarrow> string \<Rightarrow> db \<Rightarrow> audit_event option" where
  "known_key E co k d =
     (case get_retained_audit E co k d of Some kept \<Rightarrow> Some kept | None \<Rightarrow> get_audit_by_idempotency co k d)"

lemma known_key_row:
  assumes "a \<in> set (t_audits d)" and "ae_idempotency_key a = Some k"
  shows "known_key E (ae_company_id a) k d \<noteq> None"
proof -
  have "get_audit_by_idempotency (ae_company_id a) k d \<noteq> None"
    using assms unfolding get_audit_by_idempotency_def find_None_iff by blast
  then show ?thesis by (auto simp: known_key_def split: option.splits)
qed

lemma known_key_tombstone:
  assumes "t \<in> set (t_tombstones d)" and "tb_company_id t = co" and "tb_idempotency_hash t = Some (idempotency_digest E co k)"
  shows "known_key E co k d \<noteq> None"
proof -
  have "get_retained_audit E co k d \<noteq> None"
    using assms by (auto simp: get_retained_audit_def find_None_iff)
  then show ?thesis by (auto simp: known_key_def)
qed

lemma known_key_result: "known_key E co k d = Some row \<Longrightarrow> ae_idempotency_key row = Some k"
  by (auto simp: known_key_def get_retained_audit_def get_audit_by_idempotency_def find_Some_iff split: option.splits)

lemma append_known_key:
  assumes "audit_event_for_append ev = Inr ev'" and "ae_idempotency_key ev' = Some k"
    and "known_key E (ae_company_id ev') k (w_db w) = Some row"
  shows "append_audit_event E ev w = (Inr row, w)"
proof -
  have other: "\<exists>ev''. audit_event_for_append (ev\<lparr>ae_actor_id := x\<rparr>) = Inr ev'' \<and>
      ae_idempotency_key ev'' = Some k \<and> ae_company_id ev'' = ae_company_id ev'" for x
    using assms(1,2) by (auto simp: audit_event_for_append_def)
  define ev1 where "ev1 = (case w_operator w of
       Some actor \<Rightarrow> if ae_actor_type ev \<in> {''user'', ''operator''} then ev\<lparr>ae_actor_id := actor\<rparr> else ev
     | None \<Rightarrow> ev)"
  have "\<exists>ev''. audit_event_for_append ev1 = Inr ev'' \<and> ae_idempotency_key ev'' = Some k \<and> ae_company_id ev'' = ae_company_id ev'"
    using other assms(1,2) unfolding ev1_def by (cases "w_operator w") simp_all
  then obtain ev'' where "audit_event_for_append ev1 = Inr ev''" "ae_idempotency_key ev'' = Some k" "ae_company_id ev'' = ae_company_id ev'"
    by blast
  then show ?thesis
    using assms(3) by (auto simp: append_audit_event_def ev1_def [symmetric] Let_def bindS_run known_key_def split: option.splits)
qed

text \<open>
  C18. Keys survive a purge: when an event was recorded under an idempotency key, then after a retention request
  an event with the same company and key is still recognized. It is answered with the recorded row, or
  with its compact receipt, and nothing is appended.
\<close>

theorem purge_keeps_idempotency:
  assumes "apply_retention E S p c key s = (Inr receipt, s')" and "unique_ok (w_db (fst s))"
    and "a \<in> set (t_audits (w_db (fst s)))" and "ae_idempotency_key a = Some k" and "k \<noteq> []"
    and "audit_event_for_append ev = Inr ev'" and "ae_company_id ev' = ae_company_id a" and "ae_idempotency_key ev' = Some k"
  shows "\<exists>row. append_audit_event E ev (fst s') = (Inr row, fst s') \<and> ae_idempotency_key row = Some k"
proof -
  have "known_key E (ae_company_id a) k (w_db (fst s')) \<noteq> None"
  proof (cases "a \<in> set (t_audits (w_db (fst s')))")
    case True
    then show ?thesis using assms(4) by (rule known_key_row)
  next
    case False
    then have row: "ae_company_id a = rm_company_id c"
      "audit_tombstone E S (rm_company_id c) (e_clock E (w_tick (fst s))) a \<in> set (t_tombstones (w_db (fst s')))"
      using retention_outcome [OF assms(1-3)] by (auto dest!: candidate_row)
    show ?thesis unfolding row(1)
      using assms(4,5) by (intro known_key_tombstone [OF row(2)]) (simp_all add: audit_tombstone_def str_or_empty_def)
  qed
  then obtain row where row: "known_key E (ae_company_id ev') k (w_db (fst s')) = Some row" using assms(7) by auto
  show ?thesis using append_known_key [OF assms(6,8) row] known_key_result [OF row] by blast
qed

text \<open>After an append, its key is known.\<close>

lemma append_makes_known:
  assumes "append_audit_event E ev w = (Inr row, w')" and "audit_event_for_append ev = Inr ev'" and "ae_idempotency_key ev' = Some k"
  shows "known_key E (ae_company_id ev') k (w_db w') \<noteq> None"
proof (cases "known_key E (ae_company_id ev') k (w_db w)")
  case (Some r)
  then show ?thesis using append_known_key [OF assms(2,3) Some] assms(1) by simp
next
  case None
  define ev1 where "ev1 = (case w_operator w of
       Some actor \<Rightarrow> if ae_actor_type ev \<in> {''user'', ''operator''} then ev\<lparr>ae_actor_id := actor\<rparr> else ev
     | None \<Rightarrow> ev)"
  obtain ev2 where ev2: "audit_event_for_append ev1 = Inr ev2"
    using assms(1) by (auto simp: append_audit_event_def ev1_def [symmetric] Let_def bindS_Inr_iff)
  have same: "ae_idempotency_key ev2 = Some k" "ae_company_id ev2 = ae_company_id ev'"
    using ev2 assms(2,3) unfolding ev1_def by (auto simp: audit_event_for_append_def split: option.splits if_splits)
  have fresh: "(case get_retained_audit E (ae_company_id ev') k (w_db w) of
        Some kept \<Rightarrow> Some kept | None \<Rightarrow> get_audit_by_idempotency (ae_company_id ev') k (w_db w)) = None"
    using None by (simp add: known_key_def)
  have "ev2 \<in> set (t_audits (w_db w'))"
    using assms(1) ev2 same fresh
    by (auto simp: append_audit_event_def ev1_def [symmetric] Let_def bindS_run outbox_add_def flush_def whenS_def
        split: prod.splits sum.splits if_splits option.splits)
  then show ?thesis using same known_key_row by metis
qed

text \<open>The audit event of a request: whether it can be appended does not depend on its identifier and time.\<close>

lemma retention_event_key:
  assumes "audit_event_for_append (retention_event E c who key receipt i now) = Inr ev"
    and "audit_event_for_append (retention_event E c who key receipt j later) = Inr ev'"
  shows "\<exists>k. ae_idempotency_key ev = Some k \<and> ae_idempotency_key ev' = Some k \<and> ae_company_id ev' = ae_company_id ev"
proof -
  have "py_strip (''retention:'' @ x) \<noteq> []" for x
    by (auto simp: py_strip_eq_Nil_iff py_isspace_def)
  then show ?thesis
    using assms by (auto simp: audit_event_for_append_def retention_event_def clean_audit_text_ok clean_optional_audit_text_def or_none_def)
qed

lemma retention_event_again:
  assumes "append_audit_event E (retention_event E c who key receipt i now) w = (Inr row, w')" and "py_strip j \<noteq> []"
  shows "\<exists>ev. audit_event_for_append (retention_event E c who key receipt j later) = Inr ev"
proof -
  define act where "act = (case w_operator w of None \<Rightarrow> who | Some actor \<Rightarrow> actor)"
  have "\<exists>ev. audit_event_for_append (retention_event E c act key receipt i now) = Inr ev"
    using assms(1) by (auto simp: append_audit_event_def bindS_Inr_iff Let_def act_def retention_event_def split: option.splits)
  then show ?thesis
    using assms(2) audit_event_for_append_fails_iff [of "retention_event E c act key receipt i now"]
      audit_event_for_append_fails_iff [of "retention_event E c who key receipt j later"]
    by (auto simp: sum_ex_Inl_iff retention_event_def)
qed

lemma retention_audit_again:
  assumes "retention_audit E c who key receipt v = (Inr x, u)" and "\<And>n. py_strip (e_id E ''aud'' n) \<noteq> []"
    and "w_db w = w_db (fst u)"
  shows "\<exists>n. retention_audit E c who key receipt (w, k) = (Inr (), (w\<lparr>w_tick := n\<rparr>, k))"
proof -
  obtain i now v1 row where ap: "append_audit_event E (retention_event E c who key receipt i now) v1 = (Inr row, fst u)"
    and i: "i = e_id E ''aud'' (w_tick (fst v))"
    using assms(1) by (auto simp: retention_audit_def new_audit_def bindS_Inr_iff in_world_def split: prod.splits)
  obtain ev where ev: "audit_event_for_append (retention_event E c who key receipt i now) = Inr ev"
    using retention_event_again [OF ap] assms(2) i by blast
  let ?w = "w\<lparr>w_tick := Suc (Suc (w_tick w))\<rparr>"
  let ?ev = "retention_event E c who key receipt (e_id E ''aud'' (w_tick w)) (e_clock E (Suc (w_tick w)))"
  obtain ev' where ev': "audit_event_for_append ?ev = Inr ev'"
    using retention_event_again [OF ap] assms(2) by blast
  obtain q where q: "ae_idempotency_key ev = Some q" "ae_idempotency_key ev' = Some q" "ae_company_id ev' = ae_company_id ev"
    using retention_event_key [OF ev ev'] by blast
  obtain r where "known_key E (ae_company_id ev') q (w_db ?w) = Some r"
    using append_makes_known [OF ap ev q(1)] q(3) assms(3) by auto
  from append_known_key [OF ev' q(2) this] show ?thesis
    by (intro exI [of _ "Suc (Suc (w_tick w))"]) (simp add: retention_audit_def new_audit_def in_world_run bindS_run)
qed

lemma retention_run_found:
  assumes "retention_apply E S c key now cutoff s = (Inr receipt, v)" and "\<not> rm_dry_run c"
  shows "\<exists>r. find_run (rm_company_id c) key (snd v) = Some r \<and> rr_command_hash r = command_digest E S c \<and> rr_receipt r = receipt"
    and "rm_company_id c \<in> set (map c_company_id (t_companies (w_db (fst v))))"
proof -
  have co: "rm_company_id c \<in> set (map c_company_id (t_companies (w_db (fst s))))"
    using assms(1) by (auto simp: retention_apply_def in_world_run bindS_run split: if_splits)
  show "\<exists>r. find_run (rm_company_id c) key (snd v) = Some r \<and> rr_command_hash r = command_digest E S c \<and> rr_receipt r = receipt"
    using assms(1)
  proof (cases rule: retention_apply_ok)
    case batch
    then show ?thesis
      using purge_batch_ok(4) [OF batch(1) assms(2)] assms(2)
      by (auto simp: find_run_def find_append split: option.splits)
  qed auto
  show "rm_company_id c \<in> set (map c_company_id (t_companies (w_db (fst v))))"
    using assms(1)
  proof (cases rule: retention_apply_ok)
    case batch
    then show ?thesis using co purge_batch_ok(1) [OF batch(1)] assms(2) by (simp add: purged_def)
  qed (use co in simp)
qed

text \<open>
  C19. A retention request is applied once: when a purge was answered, sending the same request with the same key again is
  answered with the same receipt, and changes neither the database nor the knowledge tables.
\<close>

theorem retention_request_applies_once:
  assumes "apply_retention E S p c key s = (Inr receipt, s')" and "\<not> rm_dry_run c"
    and "\<And>n. py_strip (e_id E ''aud'' n) \<noteq> []"
  shows "\<exists>v. apply_retention E S p c key s' = (Inr receipt, v) \<and> w_db (fst v) = w_db (fst s') \<and> snd v = snd s'"
proof -
  obtain v u where ap: "retention_apply E S c key (e_clock E (w_tick (fst s))) (e_clock E (w_tick (fst s)) - rn_days S * 86400 * 1000000)
        ((fst s)\<lparr>w_tick := Suc (w_tick (fst s))\<rparr>, snd s) = (Inr receipt, v)"
    and au: "retention_audit E c (op_actor_id p) key receipt v = (Inr (), u)"
    and s': "snd s' = snd u" "w_db (fst s') = w_db (fst u)"
    and ok: "rn_enabled S" "retention_command_ok c" "90 \<le> rn_days S" "rn_days S \<le> 3650"
      "truthy_str key \<and> length (str_or_empty key) \<le> 48"
    and pr: "\<And>x :: records_system. principal_require p ''audit:retention'' (rm_company_id c) x = (Inr (), x)"
    using apply_retention_ok [OF assms(1)] assms(2) by metis
  obtain r where r: "find_run (rm_company_id c) key (snd s') = Some r" "rr_command_hash r = command_digest E S c" "rr_receipt r = receipt"
    using retention_run_found(1) [OF ap assms(2)] retention_audit_frame(1) [OF au] s'(1) by auto
  have co: "rm_company_id c \<in> set (map c_company_id (t_companies (w_db (fst s'))))"
    using retention_run_found(2) [OF ap assms(2)] retention_audit_frame(4) [OF au] s'(2) by simp
  let ?w = "(fst s')\<lparr>w_tick := Suc (w_tick (fst s'))\<rparr>"
  have exec: "retention_execute E S c key s' = (Inr receipt, (?w, snd s'))"
    using r co assms(2) ok by (simp add: retention_execute_def retention_apply_def in_world_run bindS_run)
  obtain n where "retention_audit E c (op_actor_id p) key receipt (?w, snd s') = (Inr (), (?w\<lparr>w_tick := n\<rparr>, snd s'))"
    using retention_audit_again [OF au assms(3), of ?w "snd s'"] s'(2) by auto
  then show ?thesis
    using ok(1,2) assms(2) exec
    by (simp add: apply_retention_def records_transaction_def bindS_run pr catchS_def checkpoint_def)
qed

section \<open>Runs\<close>

definition purge_env :: env where
  "purge_env = sample_env\<lparr>e_clock := (\<lambda>n. 10000000000000 * (1 + int n))\<rparr>"

definition purge_settings :: retention_settings where
  "purge_settings = \<lparr>rn_enabled = True, rn_days = 90, rn_dumps = (\<lambda>v. ''json''), rn_metadata_text = None,
     rn_contains = (\<lambda>t u. t = u)\<rparr>"

definition purge_operator :: reader_principal where
  "purge_operator = \<lparr>op_actor_id = ''op'', op_company_scopes = [''*''], op_scopes = [''*''], op_role_ids = []\<rparr>"

definition purge_command :: retention_command where
  "purge_command = \<lparr>rm_company_id = ''acme'', rm_batch_size = 10, rm_dry_run = False\<rparr>"

definition old_event :: audit_event where
  "old_event = \<lparr>ae_audit_event_id = ''aud-old'', ae_company_id = ''acme'', ae_action = ''goal.created'', ae_target_type = ''goal'',
     ae_target_id = ''g1'', ae_actor_type = ''user'', ae_actor_id = ''op'', ae_trace_id = None, ae_run_id = None,
     ae_work_item_id = None, ae_idempotency_key = Some ''k1'', ae_detail = [], ae_created_at = utc_dt 0\<rparr>"

definition purge_system :: records_system where
  "purge_system = (world_of (empty_db\<lparr>t_companies := [sample_company], t_audits := [old_event]\<rparr>),
     \<lparr>kd_knowledge = [], kd_tombstones = [], kd_runs = []\<rparr>)"

definition purge_run :: "(exc + retention_receipt) \<times> records_system" where
  "purge_run = apply_retention purge_env purge_settings (operator_principal.truncate purge_operator) purge_command (Some ''r1'') purge_system"

lemma purge_run_ok:
  "isl (fst purge_run) = False" "list_all (\<lambda>a. ae_audit_event_id a \<noteq> ''aud-old'') (t_audits (w_db (fst (snd purge_run))))"
  "unique_ok (w_db (fst purge_system))"
  by code_simp+

lemma purge_run_result:
  obtains receipt where "apply_retention purge_env purge_settings (operator_principal.truncate purge_operator) purge_command
    (Some ''r1'') purge_system = (Inr receipt, snd purge_run)"
  using purge_run_ok(1) unfolding purge_run_def [symmetric] by (metis isl_def prod.collapse sum.exhaust)

lemma old_event_row: "old_event \<in> set (t_audits (w_db (fst purge_system)))"
  by (simp add: purge_system_def world_of_def)

theorem purge_removes_only_settled_rows_witness:
  "audit_tombstone purge_env purge_settings ''acme'' 10000000000000 old_event \<in> set (t_tombstones (w_db (fst (snd purge_run))))"
proof -
  obtain receipt where run: "apply_retention purge_env purge_settings (operator_principal.truncate purge_operator) purge_command
    (Some ''r1'') purge_system = (Inr receipt, snd purge_run)" by (rule purge_run_result)
  have "old_event \<notin> set (t_audits (w_db (fst (snd purge_run))))"
    using purge_run_ok(2) by (auto simp: list_all_iff old_event_def)
  from purge_removes_only_settled_rows [OF run purge_run_ok(3) old_event_row this] show ?thesis
    by (simp add: purge_command_def purge_env_def purge_system_def world_of_def)
qed

theorem purge_keeps_idempotency_witness:
  "\<exists>row. append_audit_event purge_env (old_event\<lparr>ae_audit_event_id := ''aud-new''\<rparr>) (fst (snd purge_run)) =
     (Inr row, fst (snd purge_run)) \<and> ae_idempotency_key row = Some ''k1''"
proof -
  obtain receipt where run: "apply_retention purge_env purge_settings (operator_principal.truncate purge_operator) purge_command
    (Some ''r1'') purge_system = (Inr receipt, snd purge_run)" by (rule purge_run_result)
  have "audit_event_for_append (old_event\<lparr>ae_audit_event_id := ''aud-new''\<rparr>) = Inr (old_event\<lparr>ae_audit_event_id := ''aud-new''\<rparr>)"
    by code_simp
  from purge_keeps_idempotency [OF run purge_run_ok(3) old_event_row _ _ this] show ?thesis
    by (simp add: old_event_def)
qed

theorem retention_request_applies_once_witness:
  "\<exists>receipt v. apply_retention purge_env purge_settings (operator_principal.truncate purge_operator) purge_command
     (Some ''r1'') (snd purge_run) = (Inr receipt, v) \<and> w_db (fst v) = w_db (fst (snd purge_run))"
proof -
  obtain receipt where run: "apply_retention purge_env purge_settings (operator_principal.truncate purge_operator) purge_command
    (Some ''r1'') purge_system = (Inr receipt, snd purge_run)" by (rule purge_run_result)
  have ids: "py_strip (e_id purge_env ''aud'' n) \<noteq> []" for n
    by (simp add: purge_env_def sample_env_def py_strip_eq_Nil_iff py_isspace_def)
  from retention_request_applies_once [OF run _ ids] show ?thesis by (auto simp: purge_command_def)
qed

definition knowledge_system :: records_system where
  "knowledge_system = (world_of (empty_db\<lparr>t_companies := [sample_company],
     t_artifacts := [\<lparr>art_artifact_id = ''art-1'', art_company_id = ''acme'', art_artifact_type = ArtifactType_REPORT, art_title = ''t'',
       art_uri = ''u'', art_content_hash = None, art_run_id = None, art_work_item_id = None, art_goal_id = None,
       art_created_by_agent_id = None, art_metadata = [], art_created_at = utc_dt 0\<rparr>]\<rparr>),
     \<lparr>kd_knowledge = [], kd_tombstones = [], kd_runs = []\<rparr>)"

definition sample_publication :: records_command where
  "sample_publication = PublishCommand purge_operator \<lparr>pb_company_id = ''acme'', pb_source_artifact_id = ''art-1'',
     pb_reader_role_ids = [], pb_retention_until = None\<rparr>"

lemma sample_deletion:
  "isl (fst (route_delete sample_env purge_operator ''knw_'' ''acme''
     (run_records sample_env purge_settings [sample_publication] knowledge_system))) = False"
  by code_simp

theorem deleted_knowledge_stays_deleted_witness:
  "\<exists>t s. route_delete sample_env purge_operator ''knw_'' ''acme''
      (run_records sample_env purge_settings [sample_publication] knowledge_system) = (Inr t, s) \<and>
    (\<exists>e v. route_read sample_env purge_operator ''knw_'' ''acme''
      (run_records sample_env purge_settings [sample_publication] s) = (Inl e, v))"
proof -
  have "\<exists>t s. route_delete sample_env purge_operator ''knw_'' ''acme''
      (run_records sample_env purge_settings [sample_publication] knowledge_system) = (Inr t, s)"
    using sample_deletion by (metis isl_def prod.collapse sum.exhaust)
  then obtain t s where del: "route_delete sample_env purge_operator ''knw_'' ''acme''
      (run_records sample_env purge_settings [sample_publication] knowledge_system) = (Inr t, s)" by blast
  have "kd_knowledge (snd knowledge_system) = []" by (simp add: knowledge_system_def)
  from deleted_knowledge_stays_deleted [OF this del] del show ?thesis by blast
qed

end
