(* ===== verification/Spec2Isabelle.thy ===== *)
theory Spec2Isabelle
  imports Work_Invariant Heartbeat Lifecycle_Properties Breakers Evaluation Execution_Safety Records_Safety
begin

text \<open>
  A verification development for the Control Plane of Wisdoverse Cell (\<open>src/shared/control_plane\<close>), its
  circuit breakers (\<open>src/shared/infra\<close>) and the release path of its evolution runtime
  (\<open>src/shared/evolution\<close>, \<open>src/shared/capabilities/evolution\<close>). File names below are relative to these.

  \<^bold>\<open>The program.\<close> The Control Plane governs agents that do work for companies. A company has goals, work
  items, agent roles, approvals, budgets, artifacts and an audit trail. An agent is woken for a work
  item or by its heartbeat; the ledger grants the dispatch (a lease on the resource, reservations in the
  budgets, an approval where one is needed), the runner calls the executor, and the ledger settles
  the cost. Work is completed only after an operator accepted its outcome. Evolution proposals are
  evaluated on fixed cases and released as skill versions to a second service, the evolution runtime, by
  signed commands; the runtime routes traffic to the candidate, records results and rolls back.

  \<^bold>\<open>Common ground.\<close>
  \<^item> \<open>Cell_Prelude\<close>: exceptions as one datatype, fallible code as \<open>exc + 'a\<close>, stateful code as \<open>('s, 'a) op\<close>
    (the store survives an exception, as a session does), \<open>keeps\<close> and \<open>triple\<close> with their rules.
  \<^item> \<open>Py_Numbers\<close>, \<open>Py_Calendar\<close>, \<open>Py_Text\<close>, \<open>Py_Values\<close>: Python's floats (binary64 as rationals with
    rounding), \<open>Decimal\<close>, datetimes, strings, values and the metadata value object of \<open>domain/metadata.py\<close>.
  \<^item> \<open>State_Machine\<close>: the table-driven state machine of \<open>domain/state_machine.py\<close> and two contracts as
    locales, \<open>str_enum\<close> for enums with texts and \<open>lifecycle\<close> for aggregates over a state machine; every
    enum and every aggregate of the model interprets them.
  \<^item> \<open>Control_Models\<close>: the records and enums of \<open>models.py\<close>. \<open>Release_Contract\<close>: the signed command.
  \<^item> \<open>Control_Store\<close>: the tables as a record of lists, \<open>flush\<close> checking unique and foreign keys, \<open>checkpoint\<close>
    and \<open>rollback\<close> for commit and rollback, the audit trail and its outbox; the locale \<open>audit_port\<close> is what
    clients rely on when they append to it.

  \<^bold>\<open>Components.\<close> Each theory has one definition per operation of the files named in its own opening text.
  \<^item> Aggregates: \<open>Goal_Domain\<close>, \<open>Work_Item_Domain\<close>, \<open>Agent_Run_Domain\<close>, \<open>Decision_Domain\<close>, \<open>Approval_Domain\<close>,
    \<open>Agent_Role_Domain\<close>, \<open>Evolution_Domain\<close>, \<open>Record_Domain\<close>, \<open>Budget_Domain\<close>, \<open>Domain_Events\<close>.
    \<open>Lifecycle_Properties\<close> shows that recorded events are paths through the declared tables, that terminal
    aggregates stay as they are, and the round trips of metadata and status texts.
  \<^item> \<open>Audit_Redaction\<close> (\<open>domain/audit_retention.py\<close>): nothing under a sensitive name is stored.
  \<^item> \<open>Approval_Service\<close> and \<open>Budget_Service\<close>: stores, use cases, gate and guard. A resolved approval is final and
    of two racing resolutions one wins; at most one policy is active per target; a checked spend fits.
  \<^item> \<open>Execution_Policy\<close>, \<open>Execution_Ledger\<close>, with the proofs in \<open>Ledger_Claims\<close>, \<open>Ledger_Safety\<close> and
    \<open>Lease_Lifecycle\<close> (\<open>domain/execution_policy.py\<close>, \<open>execution_store.py\<close>): claims stay within every budget, a key
    and an approval are used once, a resource has one active lease, a settlement happens once. The locale
    \<open>lease_frame\<close> collects what the other steps of a claim or settlement leave alone.
  \<^item> \<open>Run_Lifecycle\<close> and \<open>Agent_Runner\<close>: runs, evidence, adapters and supervision. Executors are called only
    on a committed lease and run; a process is stopped and continued in turn and ends with its lease.
  \<^item> \<open>Outcome_Service\<close>, \<open>Work_Service\<close>, \<open>Work_Invariant\<close>: reviews, goals and work items. Along every sequence of
    commands completed items are accepted and links are acyclic within a company.
  \<^item> \<open>Heartbeat\<close> (\<open>scheduler.py\<close>): spacing of heartbeats and one result per agent and pass.
  \<^item> \<open>Breakers\<close>: the circuit breaker against a reference definition on call histories, recovery, and the
    loop breaker that ends a stuck loop.
  \<^item> \<open>Evolution_Service\<close>, \<open>Release_Handover\<close>: proposals, release policy, commands, gateway and routes; what is
    recorded as released was applied by the runtime, whatever the network loses.
  \<^item> \<open>Skill_Release\<close>, \<open>Release_Safety\<close>: the receiver; commands apply once, a version goes live only through
    its gates, a rollback undoes a promotion, and the invariant of the runtime's tables.
  \<^item> \<open>Skill_Execution\<close>, \<open>Execution_Safety\<close>: canary routing, signed selections, results, the regression guard
    and the kill switch; a selection is frozen and verifies, a trace counts once.
  \<^item> \<open>Evaluation\<close>: batches, comparison and reports, and what a live release implies about its evidence.
  \<^item> \<open>Knowledge\<close>, \<open>Retention\<close>, \<open>Records_Safety\<close>: company knowledge pointers (\<open>domain/knowledge.py\<close>,
    \<open>knowledge_store.py\<close>, \<open>knowledge_use_cases.py\<close>) and physical retention (\<open>domain/physical_retention.py\<close>,
    \<open>retention_store.py\<close>, \<open>retention_use_cases.py\<close>) with their routes. Their tables stand beside the database in
    one transaction. Deleted knowledge stays deleted; a purge removes only old, delivered and unpinned audit
    rows, keeps their idempotency keys and is applied once per key. Rows that another transaction has locked
    and the purge would skip are not modelled.

  \<^bold>\<open>Reading the statements.\<close> An operation takes the environment \<open>env\<close> (clock readings and identifiers by
  position, hashes, JSON texts, the sum computed by the database, whether foreign keys are enforced), its
  arguments and a world, and returns a result with the next world. Sequences of commands are lists run
  by a fold, so an invariant speaks about every reachable state. Claims, settlements and other commands
  that lock their rows run one at a time, which is what the row locks give; where the code reads
  before it locks, the read is a separate step (resolutions, heartbeats, lost replies).

  \<^bold>\<open>Parameters and assumptions.\<close> Hashes, HMAC, MD5, JSON texts, UUIDs, the clock, Python's and the
  database's float sums, what an executor, a process or the network answers. Theorems that need
  something of them say so: hashes that do not collide on the values compared, clocks that do not
  go back, identifiers that are new. Times lie between 1970 and 2242, where a float holds the
  seconds exactly. Queries that limit without an order take the first row. Reads see the rows of their own
  transaction. Strings are lists of 8-bit characters: case mapping and white space are modelled for ASCII.

  \<^bold>\<open>Termination and bounds.\<close> All definitions are total and none uses fuel. Loops over rows, events or
  commands are structural recursion; the supervision loop, which in the code polls until the process
  ends, recurses on the list of its polls. The square root of the Wilson interval computes 1200 bits,
  which is more than a double has at the scale of the values it meets.

  \<^bold>\<open>Not modelled.\<close> Language-model gateways, optimiser and reflection (answers of models), event buses and
  other clients of services, agents and their tools, messaging integrations, application start-up and
  middleware, company templates, read-only reports and lists, the frontend and the Rust gateway,
  migrations and scripts. They are outside because their behaviour is that of services and libraries that are
  not part of the sources, or because they only reshape data; the components that are left are
  in the manifest with the reason. The rows of the circuit breakers' logs and metrics are left out.
\<close>

end
